(* ===== verification/Prelude.thy ===== *)
theory Prelude
  imports Main "HOL-Library.AList" "HOL-Library.Sublist" "HOL-Library.Char_ord"
    "HOL-Library.List_Lexorder"
begin

section \<open>Prelude: shared types, combinators and lemmas\<close>

text \<open>
  The vocabulary every component of the development shares.
  \<^item> \<open>exn\<close>: the exceptions that can leave a modelled Python operation, and \<open>'a result\<close>,
    the value of a fallible operation (\<open>Inl\<close> the exception, \<open>Inr\<close> the returned value).
  \<^item> \<open>bindx\<close>: sequencing of state-passing fallible operations. The state reached when an
    exception is raised is kept, because in the modelled code the world, the journal and the
    ledger survive the exception.
  \<^item> \<open>keeps\<close>: \<open>keeps I f\<close> says that the operation \<open>f\<close> preserves the invariant \<open>I\<close>,
    also when it raises. The collection \<open>keep_intros\<close> holds the preservation lemmas of all
    components.
  \<^item> Python dictionaries are association lists (insertion order is observable): \<open>AList.update\<close>
    is \<open>d[k] = v\<close>, \<open>map_of\<close> is \<open>d.get\<close>.
  \<^item> decimal rendering of integers, as f-strings do it, with its injectivity.
\<close>

named_theorems keep_intros \<open>preservation lemmas of state-passing operations\<close>
named_theorems frame_simps \<open>which fields an operation leaves unchanged\<close>

subsection \<open>Exceptions and sequencing\<close>

datatype exn =
    CrashSignal        \<comment> \<open>simulated process death, raised by a fault hook\<close>
  | AbortSignal        \<comment> \<open>operator abort request, raised by a fault hook\<close>
  | PermissionError    \<comment> \<open>the writer lease is held by another holder\<close>
  | KeyError           \<comment> \<open>missing dictionary key\<close>
  | ValueError         \<comment> \<open>an argument outside the operation's table\<close>
  | StateLost          \<comment> \<open>a forward recovery with no recorded state to return to\<close>
  | LadderCrash        \<comment> \<open>simulated process death inside a ladder transition\<close>
  | IndexError         \<comment> \<open>a subscript outside a list\<close>
  | TypeError          \<comment> \<open>an operation on a value of the wrong type\<close>
  | AttributeError     \<comment> \<open>a method the value does not have\<close>
  | BackendNotAvailable  \<comment> \<open>a real backend was asked for\<close>
  | CalledProcessError   \<comment> \<open>a checked command ended with a non-zero code\<close>
  | PortabilityError "string list"  \<comment> \<open>the findings of a bundle that is not portable\<close>

type_synonym 'a result = "exn + 'a"
type_synonym ('s, 'a) outc = "'s \<times> 'a result"

definition bindx :: "('s, 'a) outc \<Rightarrow> ('s \<Rightarrow> 'a \<Rightarrow> ('s, 'b) outc) \<Rightarrow> ('s, 'b) outc" where
  "bindx m k = (case snd m of Inl e \<Rightarrow> (fst m, Inl e) | Inr a \<Rightarrow> k (fst m) a)"

lemma bindx_simps [simp]:
  "bindx (s, Inl e) k = (s, Inl e)"
  "bindx (s, Inr a) k = k s a"
  by (simp_all add: bindx_def)

text \<open>Evaluation unfolds \<open>bindx\<close> to the case distinction it stands for.\<close>

lemma bindx_unfold [code_unfold]:
  "bindx m k = (case m of (s, r) \<Rightarrow> case r of Inl e \<Rightarrow> (s, Inl e) | Inr a \<Rightarrow> k s a)"
  by (cases m) (simp add: bindx_def split: sum.split)

lemma bindx_assoc: "bindx (bindx m k) l = bindx m (\<lambda>s a. bindx (k s a) l)"
  by (simp add: bindx_def split: sum.splits)

lemma bindx_Inr:
  "bindx m k = (t, Inr b) \<longleftrightarrow> (\<exists>s a. m = (s, Inr a) \<and> k s a = (t, Inr b))"
  by (cases m; cases "snd m") (auto simp: bindx_def)

lemma bindx_cong_eq: "m = m' \<Longrightarrow> (\<And>s a. m' = (s, Inr a) \<Longrightarrow> k s a = k' s a) \<Longrightarrow> bindx m k = bindx m' k'"
  by (cases m'; cases "snd m'") (auto simp: bindx_def)

lemma fst_bindx_induct:
  assumes "P (fst m)" and "\<And>s a. m = (s, Inr a) \<Longrightarrow> P (fst (k s a))"
  shows "P (fst (bindx m k))"
  using assms by (cases m; cases "snd m") (auto simp: bindx_def)

lemma fst_bindx_frame:
  assumes "P (fst m) = p" and "\<And>s a. P s = p \<Longrightarrow> P (fst (k s a)) = p"
  shows "P (fst (bindx m k)) = p"
  using assms by (cases m; cases "snd m") (auto simp: bindx_def)

lemma fst_bindx_keep: "I (fst m) \<Longrightarrow> (\<And>s a. I s \<Longrightarrow> I (fst (k s a))) \<Longrightarrow> I (fst (bindx m k))"
  by (rule fst_bindx_induct) (simp_all add: eq_fst_iff [of _ m, symmetric])

subsection \<open>Preservation of invariants\<close>

definition keeps :: "('s \<Rightarrow> bool) \<Rightarrow> ('s \<Rightarrow> ('s, 'a) outc) \<Rightarrow> bool" where
  "keeps I f \<longleftrightarrow> (\<forall>s. I s \<longrightarrow> I (fst (f s)))"

lemma keepsI: "(\<And>s. I s \<Longrightarrow> I (fst (f s))) \<Longrightarrow> keeps I f"
  by (simp add: keeps_def)

lemma keepsD: "keeps I f \<Longrightarrow> I s \<Longrightarrow> I (fst (f s))"
  by (simp add: keeps_def)

lemma keeps_bindx:
  assumes "keeps I f" and "\<And>a. keeps I (\<lambda>s. k s a)"
  shows "keeps I (\<lambda>s. bindx (f s) k)"
  by (rule keepsI, rule fst_bindx_induct) (use assms in \<open>force simp: keeps_def\<close>)+

lemma keeps_return: "keeps I (\<lambda>s. (s, r s))"
  by (simp add: keeps_def)

lemma keeps_if:
  "keeps I f \<Longrightarrow> keeps I g \<Longrightarrow> keeps I (\<lambda>s. if b s then f s else g s)"
  by (simp add: keeps_def)

subsection \<open>Lists and dictionaries\<close>

lemma find_None_all: "find P xs = None \<longleftrightarrow> (\<forall>x\<in>set xs. \<not> P x)"
  by (induction xs) auto

lemma find_SomeD: "find P xs = Some x \<Longrightarrow> x \<in> set xs \<and> P x"
  by (induction xs) (auto split: if_splits)

lemma map_of_update: "map_of (AList.update k v xs) = (map_of xs)(k \<mapsto> v)"
  by (simp add: AList.update_conv')

lemma map_of_update_neq [simp]: "k \<noteq> k' \<Longrightarrow> map_of (AList.update k v xs) k' = map_of xs k'"
  by (simp add: map_of_update)

lemma map_of_update_eq [simp]: "map_of (AList.update k v xs) k = Some v"
  by (simp add: map_of_update)

text \<open>\<open>join sep xs\<close> is Python's \<open>sep.join(xs)\<close>.\<close>

fun join :: "string \<Rightarrow> string list \<Rightarrow> string" where
  "join sep [] = []"
| "join sep [x] = x"
| "join sep (x # xs) = x @ sep @ join sep xs"

text \<open>\<open>index_of x xs\<close> is \<open>xs.index(x)\<close> on a list that contains \<open>x\<close>.\<close>

fun index_of :: "'a \<Rightarrow> 'a list \<Rightarrow> nat" where
  "index_of x [] = 0"
| "index_of x (y # ys) = (if x = y then 0 else Suc (index_of x ys))"

lemma index_of_less: "x \<in> set xs \<Longrightarrow> index_of x xs < length xs"
  by (induction xs) auto

lemma index_of_nth: "x \<in> set xs \<Longrightarrow> xs ! index_of x xs = x"
  by (induction xs) auto

subsection \<open>Decimal rendering\<close>

definition digit_char :: "nat \<Rightarrow> char" where
  "digit_char d = char_of (48 + d)"

fun show_nat :: "nat \<Rightarrow> string" where
  "show_nat n = (if n < 10 then [digit_char n] else show_nat (n div 10) @ [digit_char (n mod 10)])"

declare show_nat.simps [simp del]

definition show_int :: "int \<Rightarrow> string" where
  "show_int i = (if i < 0 then CHR ''-'' # show_nat (nat (- i)) else show_nat (nat i))"

lemma digit_char_inj: "d < 10 \<Longrightarrow> d' < 10 \<Longrightarrow> digit_char d = digit_char d' \<Longrightarrow> d = d'"
proof -
  assume d: "d < 10" "d' < 10" and "digit_char d = digit_char d'"
  then have "of_char (char_of (48 + d) :: char) = (of_char (char_of (48 + d') :: char) :: nat)"
    by (simp add: digit_char_def)
  with d show ?thesis by (simp add: of_char_of)
qed

lemma show_nat_nonempty: "show_nat n \<noteq> []"
  by (subst show_nat.simps) simp

lemma show_nat_digits: "c \<in> set (show_nat n) \<Longrightarrow> \<exists>d<10. c = digit_char d"
proof (induction n rule: show_nat.induct)
  case (1 n)
  show ?case
  proof (cases "n < 10")
    case True
    with "1.prems" show ?thesis by (subst (asm) show_nat.simps) auto
  next
    case False
    with "1.prems" have "c \<in> set (show_nat (n div 10)) \<or> c = digit_char (n mod 10)"
      by (subst (asm) show_nat.simps) auto
    with False "1.IH" show ?thesis by force
  qed
qed

lemma show_nat_inj: "show_nat m = show_nat n \<Longrightarrow> m = n"
proof (induction m arbitrary: n rule: show_nat.induct)
  case (1 m)
  note eq = "1.prems"
  show ?case
  proof (cases "m < 10"; cases "n < 10")
    assume "m < 10" "n < 10"
    with eq show ?thesis by (simp add: show_nat.simps [of m] show_nat.simps [of n] digit_char_inj)
  next
    assume "m < 10" "\<not> n < 10"
    with eq have "[digit_char m] = show_nat (n div 10) @ [digit_char (n mod 10)]"
      by (simp add: show_nat.simps [of m] show_nat.simps [of n])
    then show ?thesis using show_nat_nonempty [of "n div 10"] by (simp add: append_eq_Cons_conv)
  next
    assume "\<not> m < 10" "n < 10"
    with eq have "show_nat (m div 10) @ [digit_char (m mod 10)] = [digit_char n]"
      by (simp add: show_nat.simps [of m] show_nat.simps [of n])
    then show ?thesis using show_nat_nonempty [of "m div 10"] by (simp add: append_eq_Cons_conv)
  next
    assume m: "\<not> m < 10" and n: "\<not> n < 10"
    with eq have q: "show_nat (m div 10) = show_nat (n div 10)"
      and r: "digit_char (m mod 10) = digit_char (n mod 10)"
      by (simp_all add: show_nat.simps [of m] show_nat.simps [of n])
    from "1.IH" [OF m q] have "m div 10 = n div 10" .
    moreover from r have "m mod 10 = n mod 10" by (simp add: digit_char_inj)
    ultimately show ?thesis by (metis div_mult_mod_eq)
  qed
qed

lemma digit_char_not_minus: "d < 10 \<Longrightarrow> digit_char d \<noteq> CHR ''-''"
proof
  assume d: "d < 10" and "digit_char d = CHR ''-''"
  then have "of_char (char_of (48 + d) :: char) = (of_char (CHR ''-'') :: nat)"
    by (simp add: digit_char_def)
  with d show False by (simp add: of_char_of)
qed

lemma show_int_inj: "show_int i = show_int j \<Longrightarrow> i = j"
proof -
  have minus: "show_nat n \<noteq> CHR ''-'' # xs" for n xs
    using show_nat_digits [of "CHR ''-''" n] digit_char_not_minus by force
  assume "show_int i = show_int j"
  then show ?thesis
    using minus minus [symmetric]
    by (auto simp: show_int_def dest!: show_nat_inj split: if_splits)
qed

end
