(* ===== verification/Json.thy ===== *)
theory Json
  imports Prelude
begin

section \<open>JSON values, their canonical text and their digest\<close>

text \<open>
  The tools identify documents by the SHA-256 of their canonical JSON text
  (\<open>canonical\<close> and \<open>digest\<close> of \<^verbatim>\<open>fault_drill/world.py\<close>, repeated verbatim in
  \<^verbatim>\<open>cutover/backends.py\<close> and \<^verbatim>\<open>cutover/coordinator.py\<close>):
  \<^verbatim>\<open>json.dumps(obj, sort_keys=True, separators=(",", ":"), ensure_ascii=False)\<close>.
  A Python string is modelled by its UTF-8 bytes: with \<^verbatim>\<open>ensure_ascii=False\<close> every byte
  from 128 upwards is copied through, and the byte order of UTF-8 is the code point order that
  \<^verbatim>\<open>sort_keys\<close> uses. \<open>hashlib.sha256(...).hexdigest()\<close> is foreign code: it is the parameter
  \<open>H\<close> of every definition that hashes.

  The main fact is that the canonical text determines the document up to the order of the
  keys of its objects (\<open>canonical_eq_iff\<close>), so that equality of digests is equality of
  documents wherever \<open>H\<close> does not collide.
\<close>

datatype json =
    JNull
  | JBool bool
  | JInt int
  | JStr string
  | JArr "json list"
  | JObj "(string \<times> json) list"

subsection \<open>String literals\<close>

definition hex_digit :: "nat \<Rightarrow> char" where
  "hex_digit d = (if d < 10 then char_of (48 + d) else char_of (87 + d))"

text \<open>The escape of one character (\<open>ESCAPE_DCT\<close> of the standard encoder).\<close>

definition esc :: "char \<Rightarrow> string" where
  "esc c = (if c = CHR 0x22 then [CHR 0x5C, CHR 0x22]
    else if c = CHR 0x5C then [CHR 0x5C, CHR 0x5C]
    else if c = CHR 0x0A then [CHR 0x5C, CHR ''n'']
    else if c = CHR 0x0D then [CHR 0x5C, CHR ''r'']
    else if c = CHR 0x09 then [CHR 0x5C, CHR ''t'']
    else if c = CHR 0x0C then [CHR 0x5C, CHR ''f'']
    else if c = CHR 0x08 then [CHR 0x5C, CHR ''b'']
    else if (of_char c :: nat) < 32
      then [CHR 0x5C, CHR ''u'', CHR ''0'', CHR ''0'',
            hex_digit (of_char c div 16), hex_digit (of_char c mod 16)]
    else [c])"

definition quote :: "string \<Rightarrow> string" where
  "quote s = CHR 0x22 # concat (map esc s) @ [CHR 0x22]"

subsection \<open>The canonical text\<close>

text \<open>\<open>sort_keys\<close>: every object lists its items in the order of their keys.\<close>

fun sorted_keys :: "json \<Rightarrow> json" where
  "sorted_keys (JArr xs) = JArr (map sorted_keys xs)"
| "sorted_keys (JObj kvs) = JObj (sort_key fst (map (map_prod id sorted_keys) kvs))"
| "sorted_keys j = j"

fun render :: "json \<Rightarrow> string"
  and render_elems :: "json list \<Rightarrow> string"
  and render_items :: "(string \<times> json) list \<Rightarrow> string" where
  "render JNull = ''null''"
| "render (JBool b) = (if b then ''true'' else ''false'')"
| "render (JInt i) = show_int i"
| "render (JStr s) = quote s"
| "render (JArr xs) = CHR ''['' # render_elems xs @ '']''"
| "render (JObj kvs) = CHR ''{'' # render_items kvs @ ''}''"
| "render_elems [] = []"
| "render_elems (x # xs) = render x @ (if xs = [] then [] else CHR '','' # render_elems xs)"
| "render_items [] = []"
| "render_items ((k, v) # kvs) =
     quote k @ CHR '':'' # render v @ (if kvs = [] then [] else CHR '','' # render_items kvs)"

definition canonical :: "json \<Rightarrow> string" where
  "canonical j = render (sorted_keys j)"

definition digest :: "(string \<Rightarrow> string) \<Rightarrow> json \<Rightarrow> string" where
  "digest H j = ''sha256:'' @ H (canonical j)"

subsection \<open>The text of a file\<close>

text \<open>
  Receipts are written with \<^verbatim>\<open>json.dumps(doc, indent=1, ensure_ascii=False, sort_keys=True) + "\n"\<close>:
  one item per line, indented by its depth. A file is identified by the SHA-256 of this text
  (\<open>sha256_file\<close>).
\<close>

type_synonym jobj = "(string \<times> json) list"

definition newline :: "nat \<Rightarrow> string" where
  "newline n = CHR 0x0A # replicate n (CHR '' '')"

fun pretty :: "nat \<Rightarrow> json \<Rightarrow> string"
  and pretty_elems :: "nat \<Rightarrow> json list \<Rightarrow> string"
  and pretty_items :: "nat \<Rightarrow> (string \<times> json) list \<Rightarrow> string" where
  "pretty n JNull = ''null''"
| "pretty n (JBool b) = (if b then ''true'' else ''false'')"
| "pretty n (JInt i) = show_int i"
| "pretty n (JStr s) = quote s"
| "pretty n (JArr xs) = (if xs = [] then ''[]''
     else CHR ''['' # newline (n + 1) @ pretty_elems (n + 1) xs @ newline n @ '']'')"
| "pretty n (JObj kvs) = (if kvs = [] then ''{}''
     else CHR ''{'' # newline (n + 1) @ pretty_items (n + 1) kvs @ newline n @ ''}'')"
| "pretty_elems n [] = []"
| "pretty_elems n (x # xs) = pretty n x @ (if xs = [] then [] else CHR '','' # newline n @ pretty_elems n xs)"
| "pretty_items n [] = []"
| "pretty_items n ((k, v) # kvs) = quote k @ '': '' @ pretty n v @
     (if kvs = [] then [] else CHR '','' # newline n @ pretty_items n kvs)"

definition file_text :: "json \<Rightarrow> string" where
  "file_text j = pretty 0 (sorted_keys j) @ [CHR 0x0A]"

definition sha256_text :: "(string \<Rightarrow> string) \<Rightarrow> string \<Rightarrow> string" where
  "sha256_text H t = ''sha256:'' @ H t"

definition file_digest :: "(string \<Rightarrow> string) \<Rightarrow> json \<Rightarrow> string" where
  "file_digest H j = sha256_text H (file_text j)"

subsection \<open>The canonical text determines the document\<close>

text \<open>Decoding one escaped character: the left inverse of \<open>esc\<close>.\<close>

definition hex_value :: "char \<Rightarrow> nat" where
  "hex_value c = (if of_char c < (58 :: nat) then of_char c - 48 else of_char c - 87)"

definition unesc :: "string \<Rightarrow> char \<times> string" where
  "unesc xs = (if hd xs \<noteq> CHR 0x5C then (hd xs, tl xs)
     else let e = xs ! 1; r = drop 2 xs in
       if e = CHR ''n'' then (CHR 0x0A, r) else if e = CHR ''r'' then (CHR 0x0D, r)
       else if e = CHR ''t'' then (CHR 0x09, r) else if e = CHR ''f'' then (CHR 0x0C, r)
       else if e = CHR ''b'' then (CHR 0x08, r)
       else if e = CHR ''u'' then (char_of (16 * hex_value (r ! 2) + hex_value (r ! 3)), drop 4 r)
       else (e, r))"

lemma hex_value_digit: "d < 16 \<Longrightarrow> hex_value (hex_digit d) = d"
  by (simp add: hex_value_def hex_digit_def of_char_of)

lemma unesc_control:
  "(of_char c :: nat) < 32 \<Longrightarrow>
    char_of (16 * hex_value (hex_digit (of_char c div 16)) + hex_value (hex_digit (of_char c mod 16))) = c"
  by (simp add: hex_value_digit)

lemma unesc_esc: "unesc (esc c @ xs) = (c, xs)"
proof (cases "c \<in> {CHR 0x22, CHR 0x5C, CHR 0x0A, CHR 0x0D, CHR 0x09, CHR 0x0C, CHR 0x08}")
  case True
  then show ?thesis by (elim insertE) (simp_all add: esc_def unesc_def Let_def)
next
  case False
  show ?thesis
  proof (cases "(of_char c :: nat) < 32")
    case True
    with False show ?thesis by (simp add: esc_def unesc_def Let_def unesc_control)
  next
    case ge: False
    with False show ?thesis by (simp add: esc_def unesc_def)
  qed
qed

lemma esc_append_inj: "esc c @ xs = esc d @ ys \<Longrightarrow> c = d \<and> xs = ys"
  by (metis unesc_esc prod.inject)

lemma esc_no_quote: "esc c @ xs \<noteq> CHR 0x22 # ys"
  by (simp add: esc_def)

lemma esc_list_inj:
  "concat (map esc s) @ CHR 0x22 # r = concat (map esc t) @ CHR 0x22 # r' \<Longrightarrow> s = t \<and> r = r'"
proof (induction s arbitrary: t)
  case Nil
  then show ?case
    by (cases t) (auto simp: esc_no_quote esc_no_quote [symmetric])
next
  case (Cons c s)
  show ?case
  proof (cases t)
    case Nil
    with Cons.prems show ?thesis by (simp add: esc_no_quote)
  next
    case (Cons d t')
    with Cons.prems have "c = d \<and> concat (map esc s) @ CHR 0x22 # r = concat (map esc t') @ CHR 0x22 # r'"
      using esc_append_inj [of c _ d] by simp
    with Cons.IH [of t'] Cons show ?thesis by simp
  qed
qed

lemma quote_append_inj: "quote s @ r = quote t @ r' \<Longrightarrow> s = t \<and> r = r'"
  using esc_list_inj [of s r t r'] by (simp add: quote_def)

text \<open>What may follow a value inside a canonical text: nothing, a comma or a closing bracket.\<close>

definition delim :: "string \<Rightarrow> bool" where
  "delim r \<longleftrightarrow> r = [] \<or> hd r \<in> set '',]}''"

lemma delim_simps [simp]:
  "delim []" "delim (CHR '','' # r)" "delim (CHR '']'' # r)" "delim (CHR ''}'' # r)"
  by (simp_all add: delim_def)

lemma digit_char_code: "d < 10 \<Longrightarrow> (of_char (digit_char d) :: nat) = 48 + d"
  by (simp add: digit_char_def of_char_of)

lemma digit_char_neq [simp]:
  "d < 10 \<Longrightarrow> (of_char c :: nat) < 48 \<or> 57 < (of_char c :: nat) \<Longrightarrow> digit_char d \<noteq> c"
  using digit_char_code [of d] by auto

lemma show_int_chars: "c \<in> set (show_int i) \<Longrightarrow> (c = CHR ''-'' \<or> (\<exists>d<10. c = digit_char d))"
  by (auto simp: show_int_def dest: show_nat_digits split: if_splits)

lemma show_int_nonempty [simp]: "show_int i \<noteq> []"
  by (simp add: show_int_def show_nat_nonempty)

lemma show_int_not_delim: "c \<in> set (show_int i) \<Longrightarrow> c \<notin> set '',]}''"
  by (auto dest!: show_int_chars)

lemma delim_append_Nil: "delim (us @ r) \<Longrightarrow> \<forall>c\<in>set us. c \<notin> set '',]}'' \<Longrightarrow> us = []"
  by (cases us) (simp_all add: delim_def)

lemma append_delim_split:
  assumes "xs @ r = ys @ s" "delim r" "delim s"
    and "\<forall>c\<in>set xs. c \<notin> set '',]}''" "\<forall>c\<in>set ys. c \<notin> set '',]}''"
  shows "xs = ys \<and> r = s"
proof -
  from assms(1) obtain us where "xs = ys @ us \<and> us @ r = s \<or> xs @ us = ys \<and> r = us @ s"
    by (auto simp: append_eq_append_conv2)
  moreover have "us = []" if "xs = ys @ us" "us @ r = s" for us
    by (rule delim_append_Nil [of us r]) (use that assms(3,4) in simp_all)
  moreover have "us = []" if "xs @ us = ys" "r = us @ s" for us
    by (rule delim_append_Nil [of us s]) (use that assms(2,5) in \<open>simp_all add: that(1) [symmetric]\<close>)
  ultimately show ?thesis by (metis append_Nil append_Nil2)
qed

lemma show_int_append_inj:
  "show_int i @ r = show_int j @ s \<Longrightarrow> delim r \<Longrightarrow> delim s \<Longrightarrow> i = j \<and> r = s"
  using append_delim_split [of "show_int i" r "show_int j" s] show_int_not_delim show_int_inj [of i j]
  by metis

lemma show_int_hd:
  "show_int i = c # cs \<Longrightarrow> c = CHR ''-'' \<or> (\<exists>d<10. c = digit_char d)"
  using show_int_chars [of c i] by simp

lemma show_int_hd_neq:
  assumes "(of_char c :: nat) < 45 \<or> 57 < (of_char c :: nat)"
  shows "show_int i @ r \<noteq> c # s"
proof
  assume "show_int i @ r = c # s"
  then obtain cs where "show_int i = c # cs" by (cases "show_int i") auto
  then consider "c = CHR ''-''" | d where "d < 10" "c = digit_char d" by (auto dest: show_int_hd)
  then show False using assms digit_char_code by cases auto
qed

lemma show_int_hd_simps [simp]:
  "show_int i @ r \<noteq> CHR ''n'' # s" "CHR ''n'' # s \<noteq> show_int i @ r"
  "show_int i @ r \<noteq> CHR ''t'' # s" "CHR ''t'' # s \<noteq> show_int i @ r"
  "show_int i @ r \<noteq> CHR ''f'' # s" "CHR ''f'' # s \<noteq> show_int i @ r"
  "show_int i @ r \<noteq> CHR ''['' # s" "CHR ''['' # s \<noteq> show_int i @ r"
  "show_int i @ r \<noteq> CHR ''{'' # s" "CHR ''{'' # s \<noteq> show_int i @ r"
  "show_int i @ r \<noteq> CHR 0x22 # s" "CHR 0x22 # s \<noteq> show_int i @ r"
  using show_int_hd_neq [of _ i r s] show_int_hd_neq [of _ i r s, symmetric] by simp_all

lemma quote_hd: "quote s @ r = CHR 0x22 # concat (map esc s) @ CHR 0x22 # r"
  by (simp add: quote_def)

lemma quote_Cons: "quote s = CHR 0x22 # tl (quote s)"
  by (simp add: quote_def)

lemma render_hd: "\<exists>c cs. render x = c # cs \<and> c \<notin> set '',]}''"
proof (cases x)
  case (JInt i)
  obtain c cs where "show_int i = c # cs" by (cases "show_int i") auto
  with JInt show ?thesis using show_int_not_delim [of c i] by auto
qed (auto simp: quote_def)

lemma render_nonempty: "render x @ r \<noteq> CHR '']'' # s" "render x @ r \<noteq> []"
  "CHR '']'' # s \<noteq> render x @ r"
  using render_hd [of x] by auto

lemma render_append_inj:
  "render x @ r = render y @ s \<Longrightarrow> delim r \<Longrightarrow> delim s \<Longrightarrow> x = y \<and> r = s"
  "render_elems xs @ CHR '']'' # r = render_elems ys @ CHR '']'' # s \<Longrightarrow> xs = ys \<and> r = s"
  "render_items kvs @ CHR ''}'' # r = render_items lws @ CHR ''}'' # s \<Longrightarrow> kvs = lws \<and> r = s"
proof (induction x and xs and kvs arbitrary: y r s and ys r s and lws r s
    rule: render_render_elems_render_items.induct)
  case 1
  then show ?case by (cases y) (simp_all add: quote_hd split: if_splits)
next
  case (2 b)
  then show ?case by (cases y) (simp_all add: quote_hd split: if_splits)
next
  case (3 i)
  show ?case
  proof (cases y)
    case (JInt j)
    with 3 show ?thesis using show_int_append_inj [of i r j s] by simp
  qed (use 3 in \<open>simp_all add: quote_hd split: if_splits\<close>)
next
  case (4 t)
  show ?case
  proof (cases y)
    case (JStr u)
    with 4(1) show ?thesis using quote_append_inj [of t r u s] by simp
  qed (use 4 in \<open>simp_all add: quote_hd split: if_splits\<close>)
next
  case (5 xs)
  show ?case
  proof (cases y)
    case (JArr ys)
    with 5 show ?thesis by simp
  qed (use "5.prems" in \<open>simp_all add: quote_hd split: if_splits\<close>)
next
  case (6 kvs)
  show ?case
  proof (cases y)
    case (JObj lws)
    with 6 show ?thesis by simp
  qed (use "6.prems" in \<open>simp_all add: quote_hd split: if_splits\<close>)
next
  case 7
  then show ?case by (cases ys) (auto simp: render_nonempty split: if_splits)
next
  case (8 x xs)
  show ?case
  proof (cases ys)
    case Nil
    with "8.prems" show ?thesis by (auto simp: render_nonempty split: if_splits)
  next
    case (Cons y ys')
    let ?t = "\<lambda>zs q. (if zs = [] then [] else CHR '','' # render_elems zs) @ CHR '']'' # q"
    from "8.prems" Cons have "render x @ ?t xs r = render y @ ?t ys' s" by simp
    then have "x = y \<and> ?t xs r = ?t ys' s"
      by (rule "8.IH"(1)) simp_all
    with Cons "8.IH"(2) [of r ys' s] show ?thesis by (auto split: if_splits)
  qed
next
  case 9
  then show ?case by (cases lws) (auto simp: quote_hd)
next
  case (10 k v kvs)
  show ?case
  proof (cases lws)
    case Nil
    with "10.prems" show ?thesis by (auto simp: quote_hd)
  next
    case (Cons p lws')
    obtain k' w where p: "p = (k', w)" by fastforce
    let ?t = "\<lambda>zs q. (if zs = [] then [] else CHR '','' # render_items zs) @ CHR ''}'' # q"
    from "10.prems" Cons p have "quote k @ CHR '':'' # render v @ ?t kvs r =
        quote k' @ CHR '':'' # render w @ ?t lws' s" by simp
    then have k: "k = k'" and e: "render v @ ?t kvs r = render w @ ?t lws' s"
      by (auto dest: quote_append_inj)
    from e have "v = w \<and> ?t kvs r = ?t lws' s" by (rule "10.IH"(1)) simp_all
    with k p Cons "10.IH"(2) [of r lws' s] show ?thesis by (auto split: if_splits)
  qed
qed

lemma canonical_eq_iff: "canonical a = canonical b \<longleftrightarrow> sorted_keys a = sorted_keys b"
proof
  assume "canonical a = canonical b"
  then have "render (sorted_keys a) @ [] = render (sorted_keys b) @ []"
    by (simp add: canonical_def)
  then show "sorted_keys a = sorted_keys b" 
    using render_append_inj(1) [of "sorted_keys a" "[]" "sorted_keys b" "[]"] by simp
qed (simp add: canonical_def)

text \<open>Two documents with the same digest are the same document, unless the hash collides.\<close>

lemma digest_eq_iff:
  "digest H a = digest H b \<longleftrightarrow> H (canonical a) = H (canonical b)"
  by (simp add: digest_def)

lemma digest_injective:
  "inj H \<Longrightarrow> digest H a = digest H b \<longleftrightarrow> sorted_keys a = sorted_keys b"
  by (simp add: digest_eq_iff inj_eq canonical_eq_iff)

end
