(* ===== verification/World.thy ===== *)
theory World
  imports Json
begin

section \<open>The simulated environment of the cutover (\<^verbatim>\<open>fault_drill/world.py\<close>)\<close>

text \<open>
  The deterministic world both coordinators act on: a tick clock, services, network and
  authorization, two hosts with an activation ledger, the lane inventory, the effect ledger
  keyed by idempotency key, the append-only event trace and the server-side writer authority.

  The string protocols of the source are closed sets of tags; they are datatypes here, and
  \<open>outcome_str\<close>, \<open>key_str\<close> and \<open>token_str\<close> give the strings the source passes around. A key
  built by an f-string is the tuple of its parts. \<open>H\<close> is \<open>sha256(...).hexdigest()\<close>.
\<close>

subsection \<open>Vocabulary\<close>

datatype cstate = INIT | QUIESCING | FENCED | FINAL_SYNC | VALIDATED | WRITE_COMMITTED
  | HOSTS_ACTIVATING | OBSERVING | COMPLETE | PAUSED_SAFE | ABORTED

definition STATES :: "cstate list" where
  "STATES = [QUIESCING, FENCED, FINAL_SYNC, VALIDATED, WRITE_COMMITTED, HOSTS_ACTIVATING,
     OBSERVING, COMPLETE]"

fun state_name :: "cstate \<Rightarrow> string" where
  "state_name INIT = ''INIT''"
| "state_name QUIESCING = ''QUIESCING''"
| "state_name FENCED = ''FENCED''"
| "state_name FINAL_SYNC = ''FINAL_SYNC''"
| "state_name VALIDATED = ''VALIDATED''"
| "state_name WRITE_COMMITTED = ''WRITE_COMMITTED''"
| "state_name HOSTS_ACTIVATING = ''HOSTS_ACTIVATING''"
| "state_name OBSERVING = ''OBSERVING''"
| "state_name COMPLETE = ''COMPLETE''"
| "state_name PAUSED_SAFE = ''PAUSED_SAFE''"
| "state_name ABORTED = ''ABORTED''"

datatype host = Mac | Devs

definition HOSTS :: "host list" where
  "HOSTS = [Mac, Devs]"

fun host_name :: "host \<Rightarrow> string" where
  "host_name Mac = ''mac''"
| "host_name Devs = ''devs''"

datatype service = Muneral | Kc2 | Scrutator

definition SERVICES :: "service list" where
  "SERVICES = [Muneral, Kc2, Scrutator]"

fun service_name :: "service \<Rightarrow> string" where
  "service_name Muneral = ''muneral''"
| "service_name Kc2 = ''kc2''"
| "service_name Scrutator = ''scrutator''"

definition LEASE_TTL :: int where
  "LEASE_TTL = 100"

definition STEP_TICKS :: int where
  "STEP_TICKS = 5"

text \<open>The readiness ladder of the cutover coordinator (the window's pause reasons name it).\<close>

datatype ladder_state = FILES_AUTHORITATIVE | SHADOW_PROJECTION | FROZEN | FENCE_ENFORCED
  | PROJECTION_VERIFIED | DELTA_IMPORTED | ROLLBACK_DRILLED | SWITCHING | MUNERAL_AUTHORITATIVE

datatype owner_class = MigrationOwned | ForeignConfirmed | UnknownForeign | AlreadyStopped

fun owner_class_name :: "owner_class \<Rightarrow> string" where
  "owner_class_name MigrationOwned = ''migration-owned''"
| "owner_class_name ForeignConfirmed = ''foreign-confirmed''"
| "owner_class_name UnknownForeign = ''unknown-foreign''"
| "owner_class_name AlreadyStopped = ''already-stopped''"

subsection \<open>Results of external effects\<close>

datatype token_check = TokValid | TokUnknown | TokReleased | TokExpired

fun token_check_str :: "token_check \<Rightarrow> string" where
  "token_check_str TokValid = ''valid''"
| "token_check_str TokUnknown = ''unknown_token''"
| "token_check_str TokReleased = ''released''"
| "token_check_str TokExpired = ''expired''"

datatype reject = RAuthRevoked | RUnavailable service | RToken token_check | REpochMismatch
  | RStaleEpoch | RHostUnreachable | RUnissued

datatype outcome = Applied | Unknown | Rejected reject

fun reject_str :: "reject \<Rightarrow> string" where
  "reject_str RAuthRevoked = ''auth_revoked''"
| "reject_str (RUnavailable s) = ''unavailable:'' @ service_name s"
| "reject_str (RToken t) = ''token_'' @ token_check_str t"
| "reject_str REpochMismatch = ''epoch_mismatch''"
| "reject_str RStaleEpoch = ''stale_epoch''"
| "reject_str RHostUnreachable = ''host_unreachable''"
| "reject_str RUnissued = ''unissued''"

fun outcome_str :: "outcome \<Rightarrow> string" where
  "outcome_str Applied = ''applied''"
| "outcome_str Unknown = ''unknown''"
| "outcome_str (Rejected r) = ''rejected:'' @ reject_str r"

lemma outcome_str_inj: "outcome_str a = outcome_str b \<Longrightarrow> a = b"
proof -
  have tok: "token_check_str t = token_check_str u \<Longrightarrow> t = u" for t u
    by (cases t; cases u) simp_all
  have svc: "service_name t = service_name u \<Longrightarrow> t = u" for t u
    by (cases t; cases u) simp_all
  have rej: "reject_str r = reject_str r' \<Longrightarrow> r = r'" for r r'
    by (cases r; cases r') (simp_all add: tok svc)
  show "outcome_str a = outcome_str b \<Longrightarrow> a = b"
    by (cases a; cases b) (simp_all add: rej)
qed

datatype readback_result = RbApplied | RbNotApplied

subsection \<open>Keys\<close>

text \<open>\<^verbatim>\<open>f"{m}:{e}:{state}"\<close> and \<^verbatim>\<open>f"{m}:{e}:ack:{h}"\<close>.\<close>

datatype key_tail = KPhase cstate | KAck host

datatype effect_key = EffKey string int key_tail

fun key_tail_str :: "key_tail \<Rightarrow> string" where
  "key_tail_str (KPhase s) = state_name s"
| "key_tail_str (KAck h) = ''ack:'' @ host_name h"

fun key_str :: "effect_key \<Rightarrow> string" where
  "key_str (EffKey m e t) = m @ '':'' @ show_int e @ '':'' @ key_tail_str t"

lemma key_tail_str_inj: "key_tail_str a = key_tail_str b \<Longrightarrow> a = b"
proof -
  have st: "state_name s = state_name t \<Longrightarrow> s = t" for s t
    by (cases s; cases t) simp_all
  have h: "host_name s = host_name t \<Longrightarrow> s = t" for s t
    by (cases s; cases t) simp_all
  have mix: "state_name s \<noteq> CHR ''a'' # xs" "CHR ''a'' # xs \<noteq> state_name s" for s xs
    by (cases s; simp)+
  show "key_tail_str a = key_tail_str b \<Longrightarrow> a = b"
    by (cases a; cases b) (simp_all add: st h mix)
qed

text \<open>Within one migration and writer epoch, distinct keys have distinct strings.\<close>

lemma key_str_inj: "key_str (EffKey m e t) = key_str (EffKey m e u) \<Longrightarrow> t = u"
  by (simp add: key_tail_str_inj)

text \<open>The fencing token \<^verbatim>\<open>f"lease-e{epoch}-t{now}"\<close>.\<close>

datatype lease_token = LeaseTok int int

fun token_str :: "lease_token \<Rightarrow> string" where
  "token_str (LeaseTok e t) = ''lease-e'' @ show_int e @ ''-t'' @ show_int t"

text \<open>The observation key \<^verbatim>\<open>f"{m}:{state}:obs"\<close>.\<close>

datatype obs_key = ObsKey string cstate

definition fence_key_of :: "string \<Rightarrow> string" where
  "fence_key_of m = m @ '':fence''"

subsection \<open>Reasons, faults and trace events\<close>

datatype pause_reason = KNOWN_GOOD_CORRUPT | AUTH_REVOKED | DRAIN_UNKNOWN | REVALIDATION_REQUIRED
  | LEASE_EXPIRED | LEASE_CHECK token_check | HOST_LOST_IN_OBSERVATION
  | UNKNOWN_EFFECT_UNRECONCILED | SERVICE_UNAVAILABLE service | LEASE_INVALID
  | WRITER_EPOCH_MISMATCH | HOST_UNREACHABLE | EFFECT_REJECTED reject
  | GATE_NOT_SATISFIED ladder_state

datatype treason = PauseReason pause_reason | TextReason string

datatype fault = FCrash | FLeaseExpiry | FAuthRevoke | FCorruptConfig | FUnavailable service
  | FNetworkLoss | FHostLoss host | FSourceSetEpochChange | FAbortRequest

datatype hook_point = BeforeObservation | AfterObservation | AfterEffect | AfterReceipt
  | AfterCheckpoint

datatype via = ViaStep | ViaReconciliation

text \<open>What a barrier store answers to a \<open>put\<close> (\<^verbatim>\<open>cutover/backends.py\<close>).\<close>

datatype put_result = PutApplied | PutIdempotent | PutConflict

datatype event_kind =
    EvEffect effect_key cstate outcome
  | EvReadback effect_key "readback_result option"
  | EvLaneStop string owner_class string
  | EvLaneHandoff string owner_class
  | EvFaultInjected fault cstate hook_point
  | EvFaultCleared fault
  | EvObservationReplayed obs_key cstate
  | EvObservationModelCall obs_key cstate
  | EvObservationReused obs_key cstate
  | EvResume cstate nat
  | EvPausedSafe pause_reason cstate
  | EvForwardRecovery cstate "treason option"
  | EvReconcileBlind effect_key
  | EvReconcileReadback effect_key "readback_result option"
  | EvTransition cstate cstate via
  | EvAbortRefused "cstate option"
  | EvAborted "cstate option" string
  | EvRollbackRefused pause_reason
  | EvRollbackApplied "string list"
  | EvLegacyHooksRestored
  | EvBreakGlass bool "string list" "int option"
  | EvFinding string
  | EvResumeRecovered cstate cstate bool     \<comment> \<open>recorded, recovered, taken from the journal\<close>
  | EvPhaseReceiptReused cstate
  | EvPhaseReceiptWritten cstate string
  | EvBarrierMinted bool put_result "json option"
  | EvHostReactivation host int outcome string

record event_rec =
  ev_seq :: nat
  ev_at :: int
  ev_kind :: event_kind

subsection \<open>Lanes, hosts, leases, the authority and the world\<close>

record lane =
  lane_id :: string
  lane_host :: host
  lane_class :: owner_class
  legacy_dependent :: bool
  stopped :: bool
  handoff_sent :: bool

definition Lane :: "string \<Rightarrow> host \<Rightarrow> owner_class \<Rightarrow> bool \<Rightarrow> lane" where
  "Lane i h c st = \<lparr>lane_id = i, lane_host = h, lane_class = c, legacy_dependent = True,
     stopped = st, handoff_sent = False\<rparr>"

record host_state =
  alive :: bool
  acked_epoch :: "int option"
  ack_migration :: "string option"

record lease =
  l_token :: lease_token
  l_epoch :: int
  l_holder :: string
  l_issued_at :: int
  l_expires_at :: int
  l_released :: bool

datatype ack_result = AckRejected | AckIdempotent | AckApplied

datatype auth_op =
    FenceSet string bool                     \<comment> \<open>key, was it idempotent\<close>
  | FenceRelease string
  | LeaseAcquireRejected string
  | LeaseAcquireApplied string int lease_token int
  | LeaseCheck "lease_token option" token_check
  | LeaseRelease "lease_token option" bool   \<comment> \<open>token, applied\<close>
  | CasRejectedToken token_check int int
  | CasRejectedEpoch int int
  | CasIdempotent int
  | CasApplied int
  | WriterWrite host int int bool            \<comment> \<open>host, writer epoch, current epoch, accepted\<close>
  | HostAck host int ack_result

record auth_rec =
  ar_seq :: nat
  ar_at :: int
  ar_op :: auth_op

record authority =
  current_epoch :: int
  cur_lease :: "lease option"
  fence_active :: bool
  fence_key :: "string option"
  auth_log :: "auth_rec list"
  auth_seq :: nat

record ledger_rec =
  led_kind :: cstate
  led_count :: nat
  led_attempts :: nat
  led_results :: "outcome list"

record world =
  clock :: int
  services :: "service \<Rightarrow> bool"
  network :: bool
  auth_valid :: bool
  source_set_epoch :: string
  hosts :: "host \<Rightarrow> host_state"
  lanes :: "lane list"
  known_good :: "(string \<times> string) list"
  known_good_digest :: string
  active_generation :: "(string \<times> string) list"
  legacy_hooks_restored :: bool
  legacy_policy :: string
  effect_ledger :: "(effect_key \<times> ledger_rec) list"
  events :: "event_rec list"
  event_seq :: nat
  model_calls :: nat
  auth :: authority

definition pins_json :: "(string \<times> string) list \<Rightarrow> json" where
  "pins_json ps = JObj (map (\<lambda>(k, v). (k, JStr v)) ps)"

definition pin :: "string \<Rightarrow> string" where
  "pin p = ''sha256:'' @ p @ replicate 60 (CHR ''0'')"

definition known_good0 :: "(string \<times> string) list" where
  "known_good0 = [(''code'', pin ''c0de''), (''config'', pin ''c0f1''), (''schema'', pin ''5c4e''),
     (''policy'', pin ''9011'')]"

definition lanes0 :: "lane list" where
  "lanes0 =
    [Lane ''mac:aup-orchestrator'' Mac MigrationOwned False,
     Lane ''devs:aup-mig014'' Devs MigrationOwned False,
     Lane ''devs:aup-graph'' Devs MigrationOwned False,
     Lane ''mac:fleet-ops-1'' Mac ForeignConfirmed False,
     Lane ''devs:fleet-anchor'' Devs ForeignConfirmed False,
     Lane ''devs:unnamed-3'' Devs UnknownForeign False,
     Lane ''mac:old-session'' Mac AlreadyStopped True]"

definition authority0 :: authority where
  "authority0 = \<lparr>current_epoch = 7, cur_lease = None, fence_active = False, fence_key = None,
     auth_log = [], auth_seq = 0\<rparr>"

definition World :: "(string \<Rightarrow> string) \<Rightarrow> string \<Rightarrow> world" where
  "World H sse =
    \<lparr>clock = 0, services = (\<lambda>_. True), network = True, auth_valid = True, source_set_epoch = sse,
     hosts = (\<lambda>_. \<lparr>alive = True, acked_epoch = None, ack_migration = None\<rparr>),
     lanes = lanes0, known_good = known_good0, known_good_digest = digest H (pins_json known_good0),
     active_generation = known_good0, legacy_hooks_restored = False,
     legacy_policy = ''owner-controlled-writes'', effect_ledger = [], events = [], event_seq = 0,
     model_calls = 0, auth = authority0\<rparr>"

definition default_sse :: string where
  "default_sse = ''sse-538d2e76''"

subsection \<open>The clock and the trace\<close>

definition advance :: "int \<Rightarrow> world \<Rightarrow> world" where
  "advance dt w = w\<lparr>clock := clock w + dt\<rparr>"

definition event :: "event_kind \<Rightarrow> world \<Rightarrow> world" where
  "event k w = (let n = event_seq w + 1 in
     w\<lparr>event_seq := n, events := events w @ [\<lparr>ev_seq = n, ev_at = clock w, ev_kind = k\<rparr>]\<rparr>)"

subsection \<open>The writer authority\<close>

definition a_rec :: "auth_op \<Rightarrow> world \<Rightarrow> world" where
  "a_rec op w = (let a = auth w; n = auth_seq a + 1 in
     w\<lparr>auth := a\<lparr>auth_seq := n, auth_log := auth_log a @ [\<lparr>ar_seq = n, ar_at = clock w, ar_op = op\<rparr>]\<rparr>\<rparr>)"

definition set_fence :: "string \<Rightarrow> world \<Rightarrow> world \<times> outcome" where
  "set_fence key w =
    (if fence_active (auth w) \<and> fence_key (auth w) = Some key
     then (a_rec (FenceSet key True) w, Applied)
     else (a_rec (FenceSet key False)
             (w\<lparr>auth := (auth w)\<lparr>fence_active := True, fence_key := Some key\<rparr>\<rparr>), Applied))"

definition release_fence :: "string \<Rightarrow> world \<Rightarrow> world \<times> outcome" where
  "release_fence key w =
    (a_rec (FenceRelease key) (w\<lparr>auth := (auth w)\<lparr>fence_active := False\<rparr>\<rparr>), Applied)"

definition acquire_lease :: "string \<Rightarrow> int \<Rightarrow> world \<Rightarrow> world \<times> lease result" where
  "acquire_lease holder ttl w =
    (let now = clock w;
         held = (case cur_lease (auth w) of None \<Rightarrow> False
                 | Some l \<Rightarrow> \<not> l_released l \<and> l_expires_at l > now \<and> l_holder l \<noteq> holder)
     in if held then (a_rec (LeaseAcquireRejected holder) w, Inl PermissionError)
        else let epoch = current_epoch (auth w) + 1;
                 token = LeaseTok epoch now;
                 l = \<lparr>l_token = token, l_epoch = epoch, l_holder = holder, l_issued_at = now,
                      l_expires_at = now + ttl, l_released = False\<rparr>
             in (a_rec (LeaseAcquireApplied holder epoch token (now + ttl))
                   (w\<lparr>auth := (auth w)\<lparr>cur_lease := Some l\<rparr>\<rparr>), Inr l))"

text \<open>The verdict of \<open>check_token\<close>, and the operation, which also logs it.\<close>

definition token_status :: "lease_token option \<Rightarrow> world \<Rightarrow> token_check" where
  "token_status tok w =
    (case cur_lease (auth w) of None \<Rightarrow> TokUnknown
     | Some l \<Rightarrow> if tok \<noteq> Some (l_token l) then TokUnknown
                else if l_released l then TokReleased
                else if l_expires_at l \<le> clock w then TokExpired
                else TokValid)"

definition check_token :: "lease_token option \<Rightarrow> world \<Rightarrow> world \<times> token_check" where
  "check_token tok w = (a_rec (LeaseCheck tok (token_status tok w)) w, token_status tok w)"

definition release_lease :: "lease_token option \<Rightarrow> world \<Rightarrow> world \<times> bool" where
  "release_lease tok w =
    (case cur_lease (auth w) of
       Some l \<Rightarrow> if Some (l_token l) = tok
         then (a_rec (LeaseRelease tok True)
                 (w\<lparr>auth := (auth w)\<lparr>cur_lease := Some (l\<lparr>l_released := True\<rparr>)\<rparr>\<rparr>), True)
         else (a_rec (LeaseRelease tok False) w, False)
     | None \<Rightarrow> (a_rec (LeaseRelease tok False) w, False))"

definition cas_commit ::
  "lease_token option \<Rightarrow> int \<Rightarrow> int \<Rightarrow> bool \<Rightarrow> world \<Rightarrow> world \<times> outcome" where
  "cas_commit tok expected new accept_stale w =
    (case check_token tok w of (w, chk) \<Rightarrow>
       if chk \<noteq> TokValid \<and> \<not> accept_stale
       then (a_rec (CasRejectedToken chk expected new) w, Rejected (RToken chk))
       else if current_epoch (auth w) \<noteq> expected \<and> \<not> accept_stale
       then (a_rec (CasRejectedEpoch expected (current_epoch (auth w))) w, Rejected REpochMismatch)
       else if current_epoch (auth w) = new then (a_rec (CasIdempotent new) w, Applied)
       else (a_rec (CasApplied new) (w\<lparr>auth := (auth w)\<lparr>current_epoch := new\<rparr>\<rparr>), Applied))"

definition writer_write :: "int \<Rightarrow> host \<Rightarrow> bool \<Rightarrow> world \<Rightarrow> world \<times> outcome" where
  "writer_write writer_epoch h accept_stale w =
    (let cur = current_epoch (auth w) in
     if writer_epoch < cur \<and> \<not> accept_stale
     then (a_rec (WriterWrite h writer_epoch cur False) w, Rejected RStaleEpoch)
     else (a_rec (WriterWrite h writer_epoch cur True) w, Applied))"

definition host_ack :: "host \<Rightarrow> int \<Rightarrow> string \<Rightarrow> bool \<Rightarrow> world \<Rightarrow> world \<times> outcome" where
  "host_ack h epoch mig accept_stale w =
    (let x = hosts w h in
     if epoch < current_epoch (auth w) \<and> \<not> accept_stale
     then (a_rec (HostAck h epoch AckRejected) w, Rejected RStaleEpoch)
     else if acked_epoch x = Some epoch \<and> ack_migration x = Some mig
     then (a_rec (HostAck h epoch AckIdempotent) w, Applied)
     else (a_rec (HostAck h epoch AckApplied)
             (w\<lparr>hosts := (hosts w)(h := x\<lparr>acked_epoch := Some epoch, ack_migration := Some mig\<rparr>)\<rparr>),
           Applied))"

subsection \<open>The effect ledger\<close>

definition ledger_get :: "effect_key \<Rightarrow> cstate \<Rightarrow> world \<Rightarrow> ledger_rec" where
  "ledger_get key kind w = (case map_of (effect_ledger w) key of Some r \<Rightarrow> r
     | None \<Rightarrow> \<lparr>led_kind = kind, led_count = 0, led_attempts = 0, led_results = []\<rparr>)"

definition ledger_put :: "effect_key \<Rightarrow> ledger_rec \<Rightarrow> world \<Rightarrow> world" where
  "ledger_put key r w = w\<lparr>effect_ledger := AList.update key r (effect_ledger w)\<rparr>"

text \<open>What \<open>apply_effect\<close> appends to the ledger and the trace once the result is known.\<close>

definition effect_note :: "effect_key \<Rightarrow> cstate \<Rightarrow> bool \<Rightarrow> outcome \<Rightarrow> world \<Rightarrow> world" where
  "effect_note key kind counted res w =
    (let r = ledger_get key kind w in
     event (EvEffect key kind res)
       (ledger_put key (r\<lparr>led_count := led_count r + (if counted then 1 else 0),
                          led_results := led_results r @ [res]\<rparr>) w))"

text \<open>
  \<open>World.apply_effect\<close>. The effect \<open>fn\<close> is a closure over the caller's state \<open>'s\<close>, which
  holds the world: \<open>get\<close> and \<open>upd\<close> are the caller's world field. An exception raised by
  \<open>fn\<close> leaves the attempt counted and nothing else recorded.
\<close>

definition apply_effect ::
  "('s \<Rightarrow> world) \<Rightarrow> ((world \<Rightarrow> world) \<Rightarrow> 's \<Rightarrow> 's) \<Rightarrow> effect_key \<Rightarrow> cstate \<Rightarrow>
   ('s \<Rightarrow> ('s, outcome) outc) \<Rightarrow> service list \<Rightarrow> bool \<Rightarrow> 's \<Rightarrow> ('s, outcome) outc" where
  "apply_effect get upd key kind fn needs bypass_auth s =
    (let s = upd (\<lambda>w. let r = ledger_get key kind w in
               ledger_put key (r\<lparr>led_attempts := led_attempts r + 1\<rparr>) w) s
     in if \<not> auth_valid (get s) \<and> \<not> bypass_auth
        then (upd (effect_note key kind False (Rejected RAuthRevoked)) s, Inr (Rejected RAuthRevoked))
        else (case find (\<lambda>v. \<not> services (get s) v) needs of
          Some v \<Rightarrow> (upd (effect_note key kind False (Rejected (RUnavailable v))) s,
                     Inr (Rejected (RUnavailable v)))
        | None \<Rightarrow> bindx (fn s) (\<lambda>s res.
            let seen = (if res = Applied \<and> \<not> network (get s) then Unknown else res)
            in (upd (effect_note key kind (res = Applied) seen) s, Inr seen))))"

definition applied_in_ledger :: "effect_key \<Rightarrow> world \<Rightarrow> bool" where
  "applied_in_ledger key w = (case map_of (effect_ledger w) key of None \<Rightarrow> False
     | Some r \<Rightarrow> 1 \<le> led_count r \<and> (\<exists>x\<in>set (led_results r). x = Applied \<or> x = Unknown))"

definition readback :: "effect_key \<Rightarrow> world \<Rightarrow> world \<times> readback_result option" where
  "readback key w =
    (if \<not> network w then (event (EvReadback key None) w, None)
     else let r = (if applied_in_ledger key w then RbApplied else RbNotApplied)
          in (event (EvReadback key (Some r)) w, Some r))"

subsection \<open>The known-good generation and the lanes\<close>

definition known_good_ok :: "(string \<Rightarrow> string) \<Rightarrow> world \<Rightarrow> bool" where
  "known_good_ok H w \<longleftrightarrow> digest H (pins_json (known_good w)) = known_good_digest w"

definition corrupt_known_good :: "world \<Rightarrow> world" where
  "corrupt_known_good w = w\<lparr>known_good := AList.update ''policy'' (pin ''dead'') (known_good w)\<rparr>"

text \<open>A lane is mutated in place: the operations return the mutated lane beside the world.\<close>

definition stop_lane :: "lane \<Rightarrow> string \<Rightarrow> world \<Rightarrow> lane \<times> world" where
  "stop_lane l by w = (l\<lparr>stopped := True\<rparr>, event (EvLaneStop (lane_id l) (lane_class l) by) w)"

definition handoff_lane :: "lane \<Rightarrow> world \<Rightarrow> lane \<times> world" where
  "handoff_lane l w = (l\<lparr>handoff_sent := True\<rparr>, event (EvLaneHandoff (lane_id l) (lane_class l)) w)"

record snapshot =
  sn_clock :: int
  sn_services :: "(service \<times> bool) list"
  sn_network :: bool
  sn_auth_valid :: bool
  sn_source_set_epoch :: string
  sn_hosts :: "(host \<times> bool \<times> int option) list"
  sn_lanes :: "(string \<times> owner_class \<times> bool \<times> bool) list"
  sn_known_good_ok :: bool
  sn_active_generation :: "(string \<times> string) list"
  sn_legacy_hooks_restored :: bool
  sn_legacy_policy :: string
  sn_writer_epoch :: int
  sn_fence_active :: bool
  sn_model_calls :: nat

definition snapshot :: "(string \<Rightarrow> string) \<Rightarrow> world \<Rightarrow> snapshot" where
  "snapshot H w =
    \<lparr>sn_clock = clock w, sn_services = map (\<lambda>s. (s, services w s)) SERVICES,
     sn_network = network w, sn_auth_valid = auth_valid w, sn_source_set_epoch = source_set_epoch w,
     sn_hosts = map (\<lambda>h. (h, alive (hosts w h), acked_epoch (hosts w h))) HOSTS,
     sn_lanes = map (\<lambda>l. (lane_id l, lane_class l, stopped l, handoff_sent l)) (lanes w),
     sn_known_good_ok = known_good_ok H w, sn_active_generation = active_generation w,
     sn_legacy_hooks_restored = legacy_hooks_restored w, sn_legacy_policy = legacy_policy w,
     sn_writer_epoch = current_epoch (auth w), sn_fence_active = fence_active (auth w),
     sn_model_calls = model_calls w\<rparr>"

end
