(* ===== verification/Drill_Coordinator.thy ===== *)
theory Drill_Coordinator
  imports World
begin

section \<open>The rehearsed cutover coordinator (\<^verbatim>\<open>fault_drill/coordinator.py\<close>)\<close>

text \<open>
  The crash-safe state machine under test. A coordinator holds the world, the durable journal
  and the observer it was given (they survive a crash) beside its volatile fields. Every
  transition runs the protocol observation, intent, keyed effects, checkpoint; \<open>fire\<close> calls
  the fault hook at the phase boundaries, and the hook may change the world or raise.
  \<open>'h\<close> is the hook's own state. \<open>c_mutations\<close> is the set of switched-off protective rules;
  the reference behaviour is the empty set.
\<close>

subsection \<open>Constants\<close>

datatype mutation =
    M01_reissue_effect_on_resume
  | M02_abort_after_commit
  | M03_stop_foreign_lanes
  | M04_authority_accepts_stale_epoch
  | M05_rollback_on_corrupt_known_good
  | M06_break_glass_never_expires
  | M07_rollback_restores_legacy_hooks
  | M08_resume_revoked_run
  | M09_repeat_unknown_effect
  | M10_double_transition_on_resume
  | M11_replay_calls_model
  | M12_ignore_lease_expiry
  | M13_ignore_source_set_epoch_change
  | M14_unkeyed_transition
  | M15_drain_unknown_proceeds
  | M16_pause_without_reason

text \<open>\<open>NEEDS\<close> is only looked up at the eight working states.\<close>

fun NEEDS :: "cstate \<Rightarrow> service list" where
  "NEEDS QUIESCING = [Muneral]"
| "NEEDS FENCED = [Muneral]"
| "NEEDS FINAL_SYNC = [Scrutator]"
| "NEEDS VALIDATED = [Kc2]"
| "NEEDS WRITE_COMMITTED = [Muneral]"
| "NEEDS HOSTS_ACTIVATING = [Muneral]"
| "NEEDS OBSERVING = []"
| "NEEDS COMPLETE = [Muneral]"
| "NEEDS _ = []"

definition FENCE_STATES :: "cstate set" where
  "FENCE_STATES = {FINAL_SYNC, VALIDATED, WRITE_COMMITTED}"

definition MAX_ATTEMPTS :: nat where
  "MAX_ATTEMPTS = 3"

subsection \<open>The observer\<close>

datatype obs_context = CtxLanes "(string \<times> owner_class) list" | CtxState cstate string

fun context_json :: "obs_context \<Rightarrow> json" where
  "context_json (CtxLanes cs) =
     JObj [(''lane_classes'', JObj (map (\<lambda>(i, c). (i, JStr (owner_class_name c))) cs))]"
| "context_json (CtxState s e) = JObj [(''state'', JStr (state_name s)), (''epoch'', JStr e)]"

record observation =
  ob_key :: obs_key
  ob_state :: cstate
  ob_verdict :: string
  ob_context_digest :: string
  ob_lanes :: "(string \<times> owner_class) list option"

record observer =
  ob_saved :: "(obs_key \<times> observation) list"
  ob_replay :: bool

definition observe ::
  "(string \<Rightarrow> string) \<Rightarrow> obs_key \<Rightarrow> cstate \<Rightarrow> obs_context \<Rightarrow> bool \<Rightarrow>
   observer \<times> world \<Rightarrow> (observer \<times> world, observation) outc" where
  "observe H key st ctx force_model ow =
    (case ow of (ob, w) \<Rightarrow>
     if ob_replay ob \<and> \<not> force_model
     then (case map_of (ob_saved ob) key of
             None \<Rightarrow> ((ob, w), Inl KeyError)
           | Some o1 \<Rightarrow> ((ob, event (EvObservationReplayed key st) w), Inr o1))
     else let w = w\<lparr>model_calls := model_calls w + 1\<rparr>;
              o1 = \<lparr>ob_key = key, ob_state = st, ob_verdict = ''ok'',
                    ob_context_digest = take 16 (H (canonical (context_json ctx))),
                    ob_lanes = (if st = QUIESCING
                      then Some (case ctx of CtxLanes cs \<Rightarrow> cs | _ \<Rightarrow> []) else None)\<rparr>;
              ob = ob\<lparr>ob_saved := AList.update key o1 (ob_saved ob)\<rparr>
          in ((ob, event (EvObservationModelCall key st) w), Inr o1))"

subsection \<open>The journal\<close>

record jkeys =
  k_migration_id :: string
  k_source_set_epoch :: string
  k_target_writer_epoch :: "int option"

datatype jbody =
    RecMeta string
  | RecTransition "cstate option" cstate "treason option" "cstate option" "cstate option" "via option"
      \<comment> \<open>from, to, reason, paused at, aborted at, via\<close>
  | RecObservation obs_key cstate observation
  | RecIntent cstate "effect_key list"
  | RecReconciliation cstate effect_key "readback_result option" "readback_result option" bool
      \<comment> \<open>state, key, readback, terminal (\<open>None\<close> for unknown), reissued\<close>
  | RecCheckpoint cstate "effect_key list" via
  | RecLease lease_token int int int
  | RecFence string bool "lease_token option"
  | RecRollback bool "pause_reason option" "(string \<times> string) list option" "string option"
      \<comment> \<open>applied, reason, pins, known-good digest\<close>

record jrec =
  j_seq :: nat
  j_at :: int
  j_keys :: jkeys
  j_body :: jbody

definition journal_append :: "int \<Rightarrow> jkeys \<Rightarrow> jbody \<Rightarrow> jrec list \<Rightarrow> jrec list" where
  "journal_append t ks b js = js @ [\<lparr>j_seq = length js + 1, j_at = t, j_keys = ks, j_body = b\<rparr>]"

definition journal_last :: "(jbody \<Rightarrow> bool) \<Rightarrow> jrec list \<Rightarrow> jrec option" where
  "journal_last kind js = find (\<lambda>r. kind (j_body r)) (rev js)"

fun is_transition :: "jbody \<Rightarrow> bool" where
  "is_transition (RecTransition _ _ _ _ _ _) = True"
| "is_transition _ = False"

fun is_intent :: "jbody \<Rightarrow> bool" where
  "is_intent (RecIntent _ _) = True"
| "is_intent _ = False"

fun is_checkpoint :: "jbody \<Rightarrow> bool" where
  "is_checkpoint (RecCheckpoint _ _ _) = True"
| "is_checkpoint _ = False"

subsection \<open>Break-glass\<close>

record break_glass =
  bg_issuer :: "string option"
  bg_issuer_kind :: "string option"
  bg_incident_id :: "string option"
  bg_host :: "string option"
  bg_action :: "string option"
  bg_path :: "string option"
  bg_expires_at :: "int option"
  bg_config_home :: "string option"
  bg_default_config_home :: "string option"

definition blank :: "string option \<Rightarrow> bool" where
  "blank v \<longleftrightarrow> v = None \<or> v = Some []"

definition bg_missing :: "break_glass \<Rightarrow> string list" where
  "bg_missing f = map (\<lambda>k. ''missing:'' @ fst k) (filter snd
     [(''issuer'', blank (bg_issuer f)), (''issuer_kind'', blank (bg_issuer_kind f)),
      (''incident_id'', blank (bg_incident_id f)), (''host'', blank (bg_host f)),
      (''action'', blank (bg_action f)), (''path'', blank (bg_path f)),
      (''expires_at'', bg_expires_at f = None), (''config_home'', blank (bg_config_home f))])"

definition bg_validate :: "int \<Rightarrow> mutation set \<Rightarrow> break_glass \<Rightarrow> bool \<times> string list" where
  "bg_validate now muts f =
    (let problems = bg_missing f;
         problems = problems @ (if bg_issuer_kind f \<notin> {None, Some ''human''} then [''issuer_not_human''] else []);
         problems = (case bg_expires_at f of
             Some t \<Rightarrow> problems @ (if t \<le> now \<and> M06_break_glass_never_expires \<notin> muts then [''expired''] else [])
           | None \<Rightarrow> if M06_break_glass_never_expires \<in> muts
                    then filter (\<lambda>p. p \<noteq> ''missing:expires_at'') problems else problems);
         problems = problems @ (if \<not> blank (bg_config_home f) \<and> bg_config_home f = bg_default_config_home f
                                then [''config_home_not_separate''] else [])
     in (problems = [], problems))"

subsection \<open>The coordinator\<close>

record 'h coord =
  c_world :: world
  c_journal :: "jrec list"
  c_observer :: observer
  c_hook :: 'h
  c_migration_id :: string
  c_mutations :: "mutation set"
  c_keyed_epoch :: string
  c_state :: cstate
  c_paused_reason :: "treason option"
  c_paused_at :: "cstate option"
  c_lease_token :: "lease_token option"
  c_target_epoch :: int
  c_findings :: "string list"
  c_break_glass_log :: "(bool \<times> string list) list"
  c_resume_count :: nat

type_synonym 'h hook = "hook_point \<Rightarrow> cstate \<Rightarrow> 'h \<times> world \<Rightarrow> ('h \<times> world, unit) outc"

definition jkeys_of :: "'h coord \<Rightarrow> jkeys" where
  "jkeys_of c = \<lparr>k_migration_id = c_migration_id c, k_source_set_epoch = c_keyed_epoch c,
     k_target_writer_epoch =
       (if M14_unkeyed_transition \<in> c_mutations c then None else Some (c_target_epoch c))\<rparr>"

definition durable :: "jbody \<Rightarrow> 'h coord \<Rightarrow> 'h coord" where
  "durable b c = c\<lparr>c_journal := journal_append (clock (c_world c)) (jkeys_of c) b (c_journal c)\<rparr>"

definition cevent :: "event_kind \<Rightarrow> 'h coord \<Rightarrow> 'h coord" where
  "cevent k c = c\<lparr>c_world := event k (c_world c)\<rparr>"

definition pause :: "pause_reason \<Rightarrow> 'h coord \<Rightarrow> 'h coord" where
  "pause reason c =
    (if c_state c = PAUSED_SAFE then c
     else let st = c_state c;
              c = durable (RecTransition (Some st) PAUSED_SAFE
                    (if M16_pause_without_reason \<in> c_mutations c then None else Some (PauseReason reason))
                    (Some st) None None) c;
              c = c\<lparr>c_paused_reason := Some (PauseReason reason), c_paused_at := Some st, c_state := PAUSED_SAFE\<rparr>
          in cevent (EvPausedSafe reason st) c)"

text \<open>\<open>_recover\<close>: one journal record's contribution to the volatile fields.\<close>

definition recover_rec :: "jrec \<Rightarrow> 'h coord \<Rightarrow> 'h coord" where
  "recover_rec r c = (case j_body r of
     RecTransition _ to reason paused_at _ _ \<Rightarrow>
       (let c = c\<lparr>c_state := to\<rparr>;
            c = (if to = PAUSED_SAFE
                 then c\<lparr>c_paused_reason := reason, c_paused_at := paused_at\<rparr> else c)
        in if to = ABORTED then c\<lparr>c_paused_reason := reason\<rparr> else c)
   | RecLease tok epoch _ _ \<Rightarrow> c\<lparr>c_lease_token := Some tok, c_target_epoch := epoch\<rparr>
   | RecMeta _ \<Rightarrow> c\<lparr>c_keyed_epoch := k_source_set_epoch (j_keys r)\<rparr>
   | _ \<Rightarrow> c)"

definition recover :: "'h coord \<Rightarrow> 'h coord" where
  "recover c =
    (let js = c_journal c; c = fold recover_rec js (c\<lparr>c_paused_at := None\<rparr>)
     in if js = [] then durable (RecMeta ''migration opened'') c else c)"

text \<open>\<open>Coordinator.__init__\<close>: process start.\<close>

definition Coordinator ::
  "world \<Rightarrow> jrec list \<Rightarrow> observer \<Rightarrow> string \<Rightarrow> mutation set \<Rightarrow> 'h \<Rightarrow> 'h coord" where
  "Coordinator w js ob mig muts hk = recover
    \<lparr>c_world = w, c_journal = js, c_observer = ob, c_hook = hk, c_migration_id = mig,
     c_mutations = muts, c_keyed_epoch = source_set_epoch w, c_state = INIT, c_paused_reason = None,
     c_paused_at = None, c_lease_token = None, c_target_epoch = current_epoch (auth w) + 1,
     c_findings = [], c_break_glass_log = [], c_resume_count = 0\<rparr>"

subsection \<open>Contexts, guards and effects\<close>

definition lane_classes :: "world \<Rightarrow> (string \<times> owner_class) list" where
  "lane_classes w = fold (\<lambda>l cs. AList.update (lane_id l)
     (if \<not> alive (hosts w (lane_host l)) then UnknownForeign else lane_class l) cs) (lanes w) []"

definition obs_context :: "cstate \<Rightarrow> 'h coord \<Rightarrow> obs_context" where
  "obs_context st c = (if st = QUIESCING then CtxLanes (lane_classes (c_world c))
     else CtxState st (source_set_epoch (c_world c)))"

definition dead_hosts :: "world \<Rightarrow> host list" where
  "dead_hosts w = filter (\<lambda>h. \<not> alive (hosts w h)) HOSTS"

definition drift_finding :: string where
  "drift_finding =
     ''post_commit_source_set_epoch_drift: recorded for post-cutover reconciliation, no rollback''"

text \<open>The lease check of the guard: only at the fence states, logged by the authority.\<close>

definition guard_lease :: "cstate \<Rightarrow> 'h coord \<Rightarrow> 'h coord \<times> pause_reason option" where
  "guard_lease nxt c =
    (if nxt \<in> FENCE_STATES \<and> M12_ignore_lease_expiry \<notin> c_mutations c
     then (case check_token (c_lease_token c) (c_world c) of (w, chk) \<Rightarrow>
             (c\<lparr>c_world := w\<rparr>,
              if chk = TokValid then None
              else if chk = TokExpired then Some LEASE_EXPIRED else Some (LEASE_CHECK chk)))
     else (c, None))"

definition note_drift :: "cstate \<Rightarrow> 'h coord \<Rightarrow> 'h coord" where
  "note_drift nxt c =
    (if nxt \<in> {HOSTS_ACTIVATING, OBSERVING, COMPLETE} \<and>
        source_set_epoch (c_world c) \<noteq> c_keyed_epoch c \<and> drift_finding \<notin> set (c_findings c)
     then cevent (EvFinding drift_finding) (c\<lparr>c_findings := c_findings c @ [drift_finding]\<rparr>)
     else c)"

definition guard :: "cstate \<Rightarrow> observation \<Rightarrow> 'h coord \<Rightarrow> 'h coord \<times> pause_reason option" where
  "guard nxt obs c =
    (if nxt = QUIESCING \<and> dead_hosts (c_world c) \<noteq> [] \<and> M15_drain_unknown_proceeds \<notin> c_mutations c
     then (c, Some DRAIN_UNKNOWN)
     else if nxt \<in> {VALIDATED, WRITE_COMMITTED} \<and> source_set_epoch (c_world c) \<noteq> c_keyed_epoch c
             \<and> M13_ignore_source_set_epoch_change \<notin> c_mutations c
     then (c, Some REVALIDATION_REQUIRED)
     else (case guard_lease nxt c of
         (c, Some g) \<Rightarrow> (c, Some g)
       | (c, None) \<Rightarrow>
           if nxt \<in> {OBSERVING, COMPLETE} \<and> dead_hosts (c_world c) \<noteq> []
           then (c, Some HOST_LOST_IN_OBSERVATION)
           else (note_drift nxt c, None)))"

definition effect_keys :: "cstate \<Rightarrow> 'h coord \<Rightarrow> effect_key list" where
  "effect_keys st c =
    (if st = HOSTS_ACTIVATING
     then map (\<lambda>h. EffKey (c_migration_id c) (c_target_epoch c) (KAck h)) HOSTS
     else [EffKey (c_migration_id c) (c_target_epoch c) (KPhase st)])"

definition quiesce_lane :: "mutation set \<Rightarrow> lane \<Rightarrow> world \<Rightarrow> lane \<times> world" where
  "quiesce_lane muts l w =
    (if stopped l then (l, w)
     else if lane_class l = MigrationOwned \<and> alive (hosts w (lane_host l))
     then stop_lane l ''coordinator'' w
     else if M03_stop_foreign_lanes \<in> muts then stop_lane l ''coordinator'' w
     else handoff_lane l w)"

fun quiesce_lanes :: "mutation set \<Rightarrow> lane list \<Rightarrow> world \<Rightarrow> lane list \<times> world" where
  "quiesce_lanes muts [] w = ([], w)"
| "quiesce_lanes muts (l # ls) w =
     (case quiesce_lane muts l w of (l', w1) \<Rightarrow>
      case quiesce_lanes muts ls w1 of (ls', w2) \<Rightarrow> (l' # ls', w2))"

definition quiesce_fn :: "'h coord \<Rightarrow> ('h coord, outcome) outc" where
  "quiesce_fn c = (case quiesce_lanes (c_mutations c) (lanes (c_world c)) (c_world c) of
     (ls, w) \<Rightarrow> (c\<lparr>c_world := w\<lparr>lanes := ls\<rparr>\<rparr>, Inr Applied))"

text \<open>Taking the lease: \<open>check_token\<close> runs only when a token is held (\<open>or\<close> short-circuits).\<close>

definition lease_needed :: "'h coord \<Rightarrow> 'h coord \<times> bool" where
  "lease_needed c = (case c_lease_token c of
     None \<Rightarrow> (c, True)
   | Some t \<Rightarrow> (case check_token (Some t) (c_world c) of (w, chk) \<Rightarrow>
       (c\<lparr>c_world := w\<rparr>, chk \<noteq> TokValid)))"

definition take_lease :: "'h coord \<Rightarrow> ('h coord, outcome) outc" where
  "take_lease c = (case acquire_lease (c_migration_id c) LEASE_TTL (c_world c) of
     (w, Inl e) \<Rightarrow> (c\<lparr>c_world := w\<rparr>, Inl e)
   | (w, Inr l) \<Rightarrow>
       (let c = c\<lparr>c_world := w, c_lease_token := Some (l_token l), c_target_epoch := l_epoch l\<rparr>;
            c = durable (RecLease (l_token l) (l_epoch l) (l_expires_at l) LEASE_TTL) c;
            c = durable (RecFence (fence_key_of (c_migration_id c)) True (Some (l_token l))) c
        in (c, Inr Applied)))"

definition fence_fn :: "'h coord \<Rightarrow> ('h coord, outcome) outc" where
  "fence_fn c =
    (case lease_needed (c\<lparr>c_world := fst (set_fence (fence_key_of (c_migration_id c)) (c_world c))\<rparr>) of
       (c, need) \<Rightarrow> if need then take_lease c else (c, Inr Applied))"

definition commit_fn :: "'h coord \<Rightarrow> ('h coord, outcome) outc" where
  "commit_fn c = (case cas_commit (c_lease_token c) (c_target_epoch c - 1) (c_target_epoch c)
       (M04_authority_accepts_stale_epoch \<in> c_mutations c) (c_world c) of
     (w, r) \<Rightarrow> (c\<lparr>c_world := w\<rparr>, Inr r))"

definition ack_fn :: "effect_key \<Rightarrow> 'h coord \<Rightarrow> ('h coord, outcome) outc" where
  "ack_fn key c = (case key of
     EffKey _ _ (KAck h) \<Rightarrow>
       if \<not> alive (hosts (c_world c) h) then (c, Inr (Rejected RHostUnreachable))
       else (case host_ack h (c_target_epoch c) (c_migration_id c)
               (M04_authority_accepts_stale_epoch \<in> c_mutations c) (c_world c) of
             (w, r) \<Rightarrow> (c\<lparr>c_world := w\<rparr>, Inr r))
   | _ \<Rightarrow> (c, Inl KeyError))"

definition complete_fn :: "'h coord \<Rightarrow> ('h coord, outcome) outc" where
  "complete_fn c =
    (let m = c_migration_id c;
         w = (c_world c)\<lparr>legacy_policy := ''read-only''\<rparr>;
         w = fst (release_fence (fence_key_of m) w);
         w = fst (release_lease (c_lease_token c) w);
         c = c\<lparr>c_world := w\<rparr>
     in (durable (RecFence (fence_key_of m) False (c_lease_token c)) c, Inr Applied))"

definition effect_fn :: "cstate \<Rightarrow> effect_key \<Rightarrow> 'h coord \<Rightarrow> ('h coord, outcome) outc" where
  "effect_fn st key = (case st of
     QUIESCING \<Rightarrow> quiesce_fn
   | FENCED \<Rightarrow> fence_fn
   | FINAL_SYNC \<Rightarrow> (\<lambda>c. (c, Inr Applied))
   | VALIDATED \<Rightarrow> (\<lambda>c. (c, Inr Applied))
   | WRITE_COMMITTED \<Rightarrow> commit_fn
   | HOSTS_ACTIVATING \<Rightarrow> ack_fn key
   | OBSERVING \<Rightarrow> (\<lambda>c. (c, Inr Applied))
   | COMPLETE \<Rightarrow> complete_fn
   | _ \<Rightarrow> (\<lambda>c. (c, Inl ValueError)))"

subsection \<open>Issuing an effect\<close>

text \<open>\<open>_issue\<close> stops at an outcome a retry cannot change, by the prefixes of its string.\<close>

definition issue_stops :: "outcome \<Rightarrow> bool" where
  "issue_stops r \<longleftrightarrow> r = Applied \<or> r = Unknown \<or>
     prefix ''rejected:auth'' (outcome_str r) \<or> prefix ''rejected:token'' (outcome_str r) \<or>
     prefix ''rejected:epoch'' (outcome_str r) \<or> prefix ''rejected:stale'' (outcome_str r) \<or>
     prefix ''rejected:host'' (outcome_str r)"

definition issue_once :: "cstate \<Rightarrow> effect_key \<Rightarrow> 'h coord \<Rightarrow> ('h coord, outcome) outc" where
  "issue_once st key c = apply_effect c_world c_world_update key st (effect_fn st key) (NEEDS st)
     (M08_resume_revoked_run \<in> c_mutations c) c"

fun issue_loop :: "nat \<Rightarrow> outcome \<Rightarrow> cstate \<Rightarrow> effect_key \<Rightarrow> 'h coord \<Rightarrow> ('h coord, outcome) outc" where
  "issue_loop 0 prev st key c = (c, Inr prev)"
| "issue_loop (Suc n) prev st key c =
     bindx (issue_once st key c) (\<lambda>c r.
       if issue_stops r then (c, Inr r)
       else issue_loop n r st key (c\<lparr>c_world := advance 1 (c_world c)\<rparr>))"

definition issue :: "cstate \<Rightarrow> effect_key \<Rightarrow> 'h coord \<Rightarrow> ('h coord, outcome) outc" where
  "issue st key c = issue_loop MAX_ATTEMPTS (Rejected RUnissued) st key c"

fun reason_for :: "reject \<Rightarrow> pause_reason" where
  "reason_for (RUnavailable s) = SERVICE_UNAVAILABLE s"
| "reason_for RAuthRevoked = AUTH_REVOKED"
| "reason_for (RToken TokExpired) = LEASE_EXPIRED"
| "reason_for (RToken _) = LEASE_INVALID"
| "reason_for REpochMismatch = WRITER_EPOCH_MISMATCH"
| "reason_for RHostUnreachable = HOST_UNREACHABLE"
| "reason_for r = EFFECT_REJECTED r"

definition checkpoint :: "cstate \<Rightarrow> effect_key list \<Rightarrow> via \<Rightarrow> 'h coord \<Rightarrow> 'h coord" where
  "checkpoint nxt keys v c =
    (let c = durable (RecCheckpoint nxt keys v) c;
         c = durable (RecTransition (if c_state c \<noteq> PAUSED_SAFE then Some (c_state c) else c_paused_at c)
               nxt None None None (Some v)) c;
         c = cevent (EvTransition (c_state c) nxt v) c
     in c\<lparr>c_state := nxt, c_paused_reason := None\<rparr>)"

subsection \<open>Resume\<close>

fun reconcile_keys :: "cstate \<Rightarrow> effect_key list \<Rightarrow> 'h coord \<Rightarrow> ('h coord, bool) outc" where
  \<comment> \<open>the value says whether the loop ran to its end\<close>
  "reconcile_keys st [] c = (c, Inr True)"
| "reconcile_keys st (key # keys) c =
     (if M01_reissue_effect_on_resume \<in> c_mutations c
      then bindx (apply_effect c_world c_world_update key st (effect_fn st key) (NEEDS st) False
                    (cevent (EvReconcileBlind key) c))
             (\<lambda>c _. reconcile_keys st keys c)
      else (case readback key (c_world c) of (w, rb) \<Rightarrow>
        let c = durable (RecReconciliation st key rb rb False) (c\<lparr>c_world := w\<rparr>);
            c = cevent (EvReconcileReadback key rb) c
        in (case rb of
              None \<Rightarrow> (pause UNKNOWN_EFFECT_UNRECONCILED c, Inr False)
            | Some RbApplied \<Rightarrow> reconcile_keys st keys c
            | Some RbNotApplied \<Rightarrow>
                bindx (issue st key c) (\<lambda>c r. case r of
                    Unknown \<Rightarrow> (pause UNKNOWN_EFFECT_UNRECONCILED
                                 (durable (RecReconciliation st key None None False) c), Inr False)
                  | Rejected rj \<Rightarrow> (pause (reason_for rj) c, Inr False)
                  | Applied \<Rightarrow> reconcile_keys st keys c))))"

fun readback_all :: "effect_key list \<Rightarrow> 'h coord \<Rightarrow> 'h coord \<times> bool" where
  "readback_all [] c = (c, True)"
| "readback_all (k # ks) c = (case readback k (c_world c) of (w, rb) \<Rightarrow>
     if rb = Some RbApplied then readback_all ks (c\<lparr>c_world := w\<rparr>) else (c\<lparr>c_world := w\<rparr>, False))"

definition reconcile :: "cstate \<Rightarrow> effect_key list \<Rightarrow> 'h coord \<Rightarrow> ('h coord, unit) outc" where
  "reconcile st keys c =
    bindx (reconcile_keys st keys c) (\<lambda>c done.
      if \<not> done then (c, Inr ())
      else (case readback_all keys c of
          (c, True) \<Rightarrow> (checkpoint st keys ViaReconciliation c, Inr ())
        | (c, False) \<Rightarrow> (c, Inr ())))"

definition pause_cleared :: "'h coord \<Rightarrow> bool" where
  "pause_cleared c = (case c_paused_reason c of
     Some (PauseReason (SERVICE_UNAVAILABLE s)) \<Rightarrow> services (c_world c) s
   | Some (PauseReason r) \<Rightarrow> r \<in> {UNKNOWN_EFFECT_UNRECONCILED, DRAIN_UNKNOWN, HOST_UNREACHABLE, HOST_LOST_IN_OBSERVATION}
       \<and> network (c_world c) \<and> dead_hosts (c_world c) = []
   | _ \<Rightarrow> False)"

text \<open>The intent whose effects were issued and not checkpointed, if there is one.\<close>

definition dangling_intent :: "jrec list \<Rightarrow> (cstate \<times> effect_key list) option" where
  "dangling_intent js = (case journal_last is_intent js of None \<Rightarrow> None
     | Some i \<Rightarrow>
         (case j_body i of RecIntent st keys \<Rightarrow>
            (case journal_last is_checkpoint js of
               None \<Rightarrow> Some (st, keys)
             | Some cp \<Rightarrow> if j_seq cp < j_seq i then Some (st, keys) else None)
          | _ \<Rightarrow> None))"

definition double_transition :: "'h coord \<Rightarrow> 'h coord" where
  "double_transition c =
    (if M10_double_transition_on_resume \<in> c_mutations c
     then (case journal_last is_transition (c_journal c) of
         Some r \<Rightarrow> (case j_body r of RecTransition _ to _ _ _ _ \<Rightarrow>
             if to \<in> set STATES \<and> to \<noteq> COMPLETE
             then (let nxt = STATES ! (index_of to STATES + 1)
                   in (durable (RecTransition (Some to) nxt (Some (TextReason ''M10 replayed transition''))
                        None None None) c)\<lparr>c_state := nxt\<rparr>)
             else c
           | _ \<Rightarrow> c)
       | None \<Rightarrow> c)
     else c)"

definition forward_recovery :: "'h coord \<Rightarrow> ('h coord, unit) outc" where
  "forward_recovery c =
    (if c_state c = PAUSED_SAFE \<and> c_paused_reason c \<noteq> None \<and> pause_cleared c
     then (case c_paused_at c of
         None \<Rightarrow> (c, Inl StateLost)
       | Some st \<Rightarrow>
           (let c = durable (RecTransition (Some PAUSED_SAFE) st
                      (Some (TextReason ''forward recovery: cause cleared'')) None None None) c;
                c = cevent (EvForwardRecovery st (c_paused_reason c)) c
            in (c\<lparr>c_state := st, c_paused_reason := None\<rparr>, Inr ())))
     else (c, Inr ()))"

definition resume :: "'h coord \<Rightarrow> ('h coord, cstate \<times> bool) outc" where
  "resume c =
    (let c = c\<lparr>c_resume_count := c_resume_count c + 1\<rparr>;
         before = c_state c;
         c = cevent (EvResume (c_state c) (c_resume_count c)) c
     in if c_state c \<in> {ABORTED, COMPLETE} then (c, Inr (c_state c, False))
        else if \<not> auth_valid (c_world c) \<and> M08_resume_revoked_run \<notin> c_mutations c
        then (let c = pause AUTH_REVOKED c in (c, Inr (c_state c, before \<noteq> c_state c)))
        else let c = double_transition c in
          bindx (case dangling_intent (c_journal c) of
                   None \<Rightarrow> (c, Inr ())
                 | Some (st, keys) \<Rightarrow> reconcile st keys c)
            (\<lambda>c _. bindx (forward_recovery c)
              (\<lambda>c _. (c, Inr (c_state c, before \<noteq> c_state c)))))"

subsection \<open>Step and run\<close>

definition next_state :: "cstate \<Rightarrow> cstate" where
  "next_state st = (if st = INIT then STATES ! 0 else STATES ! (index_of st STATES + 1))"

definition fire :: "'h hook \<Rightarrow> hook_point \<Rightarrow> cstate \<Rightarrow> 'h coord \<Rightarrow> ('h coord, unit) outc" where
  "fire hook p st c = (case hook p st (c_hook c, c_world c) of
     ((hk, w), r) \<Rightarrow> (c\<lparr>c_hook := hk, c_world := w\<rparr>, r))"

definition fresh_observe ::
  "(string \<Rightarrow> string) \<Rightarrow> obs_key \<Rightarrow> cstate \<Rightarrow> 'h coord \<Rightarrow> ('h coord, observation) outc" where
  "fresh_observe H key nxt c =
    (case observe H key nxt (obs_context nxt c) (M11_replay_calls_model \<in> c_mutations c)
       (c_observer c, c_world c) of
       ((ob, w), Inl e) \<Rightarrow> (c\<lparr>c_observer := ob, c_world := w\<rparr>, Inl e)
     | ((ob, w), Inr o1) \<Rightarrow>
         (durable (RecObservation key nxt o1) (c\<lparr>c_observer := ob, c_world := w\<rparr>), Inr o1))"

fun journaled_observation :: "obs_key \<Rightarrow> jrec list \<Rightarrow> observation option" where
  "journaled_observation key [] = None"
| "journaled_observation key (r # rs) = (case j_body r of
     RecObservation k _ o1 \<Rightarrow> if k = key then Some o1 else journaled_observation key rs
   | _ \<Rightarrow> journaled_observation key rs)"

definition step_observe ::
  "(string \<Rightarrow> string) \<Rightarrow> cstate \<Rightarrow> 'h coord \<Rightarrow> ('h coord, observation) outc" where
  "step_observe H nxt c =
    (let key = ObsKey (c_migration_id c) nxt in
     case journaled_observation key (c_journal c) of
       None \<Rightarrow> fresh_observe H key nxt c
     | Some o1 \<Rightarrow>
         if M11_replay_calls_model \<in> c_mutations c then fresh_observe H key nxt c
         else (cevent (EvObservationReused key nxt) c, Inr o1))"

fun issue_all ::
  "cstate \<Rightarrow> effect_key list \<Rightarrow> 'h coord \<Rightarrow> ('h coord, (effect_key \<times> outcome) list) outc" where
  "issue_all st [] c = (c, Inr [])"
| "issue_all st (key # keys) c =
     bindx (issue st key c) (\<lambda>c r.
     bindx (if r = Unknown \<and> M09_repeat_unknown_effect \<in> c_mutations c then issue st key c else (c, Inr r))
       (\<lambda>c r. bindx (issue_all st keys c) (\<lambda>c rs. (c, Inr ((key, r) # rs)))))"

fun first_rejected :: "(effect_key \<times> outcome) list \<Rightarrow> reject option" where
  "first_rejected [] = None"
| "first_rejected ((k, Rejected r) # xs) = Some r"
| "first_rejected (x # xs) = first_rejected xs"

definition step_effects :: "'h hook \<Rightarrow> cstate \<Rightarrow> 'h coord \<Rightarrow> ('h coord, cstate) outc" where
  "step_effects hook nxt c =
    (let keys = effect_keys nxt c; c = durable (RecIntent nxt keys) c
     in bindx (issue_all nxt keys c) (\<lambda>c results.
        case find (\<lambda>kr. snd kr = Unknown) results of
          Some (key, _) \<Rightarrow>
            (let c = pause UNKNOWN_EFFECT_UNRECONCILED (durable (RecReconciliation nxt key None None False) c)
             in (c, Inr (c_state c)))
        | None \<Rightarrow>
            (case first_rejected results of
               Some rj \<Rightarrow> (let c = pause (reason_for rj) c in (c, Inr (c_state c)))
             | None \<Rightarrow>
                 bindx (fire hook AfterEffect nxt c) (\<lambda>c _.
                 bindx (fire hook AfterCheckpoint nxt (checkpoint nxt keys ViaStep c)) (\<lambda>c _.
                   (c, Inr (c_state c)))))))"

definition terminal :: "cstate \<Rightarrow> bool" where
  "terminal st \<longleftrightarrow> st \<in> {PAUSED_SAFE, ABORTED, COMPLETE}"

definition step :: "(string \<Rightarrow> string) \<Rightarrow> 'h hook \<Rightarrow> 'h coord \<Rightarrow> ('h coord, cstate) outc" where
  "step H hook c =
    (if terminal (c_state c) then (c, Inr (c_state c))
     else let nxt = next_state (c_state c);
              c = c\<lparr>c_world := advance STEP_TICKS (c_world c)\<rparr>
          in bindx (fire hook BeforeObservation nxt c) (\<lambda>c _.
             if \<not> known_good_ok H (c_world c)
             then (let c = pause KNOWN_GOOD_CORRUPT c in (c, Inr (c_state c)))
             else bindx (step_observe H nxt c) (\<lambda>c obs.
                  bindx (fire hook AfterObservation nxt c) (\<lambda>c _.
                    case guard nxt obs c of
                      (c, Some g) \<Rightarrow> (let c = pause g c in (c, Inr (c_state c)))
                    | (c, None) \<Rightarrow> step_effects hook nxt c))))"

fun run_loop :: "nat \<Rightarrow> (string \<Rightarrow> string) \<Rightarrow> 'h hook \<Rightarrow> 'h coord \<Rightarrow> ('h coord, cstate) outc" where
  "run_loop 0 H hook c = (c, Inr (c_state c))"
| "run_loop (Suc n) H hook c =
     bindx (step H hook c) (\<lambda>c s. if terminal s then (c, Inr s) else run_loop n H hook c)"

definition run :: "(string \<Rightarrow> string) \<Rightarrow> 'h hook \<Rightarrow> 'h coord \<Rightarrow> ('h coord, cstate) outc" where
  "run H hook c = run_loop 20 H hook c"

subsection \<open>Abort, rollback and break-glass\<close>

definition past_commit :: "cstate option \<Rightarrow> bool" where
  "past_commit at = (case at of None \<Rightarrow> False
     | Some st \<Rightarrow> st \<in> set STATES \<and> index_of WRITE_COMMITTED STATES \<le> index_of st STATES)"

definition abort :: "string \<Rightarrow> 'h coord \<Rightarrow> 'h coord \<times> bool \<times> cstate" where
  "abort reason c =
    (let at = (if c_state c = PAUSED_SAFE then c_paused_at c else Some (c_state c))
     in if past_commit at \<and> M02_abort_after_commit \<notin> c_mutations c
        then (cevent (EvAbortRefused at) c, False, c_state c)
        else if c_state c \<in> {ABORTED, COMPLETE} then (c, False, c_state c)
        else let w = fst (release_fence (fence_key_of (c_migration_id c)) (c_world c));
                 w = fst (release_lease (c_lease_token c) w);
                 c = c\<lparr>c_world := w\<rparr>;
                 c = durable (RecTransition (Some (c_state c)) ABORTED (Some (TextReason reason))
                       None at None) c;
                 c = cevent (EvAborted at reason) c;
                 c = c\<lparr>c_state := ABORTED\<rparr>
             in (c, True, ABORTED))"

definition rollback_to_known_good :: "(string \<Rightarrow> string) \<Rightarrow> 'h coord \<Rightarrow> 'h coord \<times> bool" where
  "rollback_to_known_good H c =
    (if \<not> known_good_ok H (c_world c) \<and> M05_rollback_on_corrupt_known_good \<notin> c_mutations c
     then (let c = durable (RecRollback False (Some KNOWN_GOOD_CORRUPT) None None) c;
               c = pause KNOWN_GOOD_CORRUPT c
           in (cevent (EvRollbackRefused KNOWN_GOOD_CORRUPT) c, False))
     else let c = (if M07_rollback_restores_legacy_hooks \<in> c_mutations c
                   then cevent EvLegacyHooksRestored
                          (c\<lparr>c_world := (c_world c)\<lparr>legacy_hooks_restored := True\<rparr>\<rparr>)
                   else c);
              kg = known_good (c_world c);
              c = c\<lparr>c_world := (c_world c)\<lparr>active_generation := kg\<rparr>\<rparr>;
              c = durable (RecRollback True None (Some kg) (Some (known_good_digest (c_world c)))) c
          in (cevent (EvRollbackApplied (map fst kg)) c, True))"

definition use_break_glass :: "break_glass \<Rightarrow> 'h coord \<Rightarrow> 'h coord \<times> bool" where
  "use_break_glass bg c =
    (case bg_validate (clock (c_world c)) (c_mutations c) bg of (ok, problems) \<Rightarrow>
       (cevent (EvBreakGlass ok problems (bg_expires_at bg))
          (c\<lparr>c_break_glass_log := c_break_glass_log c @ [(ok, problems)]\<rparr>), ok))"

end
