(* ===== verification/Drill_Frame.thy ===== *)
theory Drill_Frame
  imports Drill_Coordinator
begin

section \<open>What the coordinator's operations leave unchanged\<close>

text \<open>
  The control part of a coordinator (\<open>ctl\<close>: its state, where and why it paused, its identity,
  and what the journal says about transitions and dangling intents) changes only in \<open>pause\<close>,
  \<open>checkpoint\<close>, \<open>forward_recovery\<close>, \<open>abort\<close> and at the intent record. All other operations
  keep it; these facts are in \<open>frame_simps\<close>. The journal is read through \<open>rec_state\<close>,
  \<open>rec_pause\<close> and \<open>rec_lease\<close>, the three things \<open>recover\<close> takes from it.
\<close>

subsection \<open>Reading the journal\<close>

fun step_state :: "jrec \<Rightarrow> cstate \<Rightarrow> cstate" where
  "step_state r s = (case j_body r of RecTransition _ t _ _ _ _ \<Rightarrow> t | _ \<Rightarrow> s)"

fun step_pause :: "jrec \<Rightarrow> treason option \<times> cstate option \<Rightarrow> treason option \<times> cstate option" where
  "step_pause r p = (case j_body r of
     RecTransition _ t reason at _ _ \<Rightarrow> if t = PAUSED_SAFE then (reason, at) else p | _ \<Rightarrow> p)"

fun step_lease :: "jrec \<Rightarrow> (lease_token \<times> int) option \<Rightarrow> (lease_token \<times> int) option" where
  "step_lease r l = (case j_body r of RecLease tok e _ _ \<Rightarrow> Some (tok, e) | _ \<Rightarrow> l)"

fun step_keyed :: "jrec \<Rightarrow> string \<Rightarrow> string" where
  "step_keyed r s = (case j_body r of RecMeta _ \<Rightarrow> k_source_set_epoch (j_keys r) | _ \<Rightarrow> s)"

definition rec_state :: "jrec list \<Rightarrow> cstate" where
  "rec_state js = fold step_state js INIT"

definition rec_pause :: "jrec list \<Rightarrow> treason option \<times> cstate option" where
  "rec_pause js = fold step_pause js (None, None)"

definition rec_lease :: "jrec list \<Rightarrow> (lease_token \<times> int) option" where
  "rec_lease js = fold step_lease js None"

definition rec_keyed :: "string \<Rightarrow> jrec list \<Rightarrow> string" where
  "rec_keyed s js = fold step_keyed js s"

lemma rec_state_simps [simp]:
  "rec_state [] = INIT" "rec_state (js @ [r]) = step_state r (rec_state js)"
  by (simp_all add: rec_state_def)

lemma rec_pause_simps [simp]:
  "rec_pause [] = (None, None)" "rec_pause (js @ [r]) = step_pause r (rec_pause js)"
  by (simp_all add: rec_pause_def)

lemma rec_lease_simps [simp]:
  "rec_lease [] = None" "rec_lease (js @ [r]) = step_lease r (rec_lease js)"
  by (simp_all add: rec_lease_def)

lemma rec_keyed_simps [simp]:
  "rec_keyed s [] = s" "rec_keyed s (js @ [r]) = step_keyed r (rec_keyed s js)"
  by (simp_all add: rec_keyed_def)

lemma rec_append [simp]:
  "rec_state (journal_append t ks b js) = (case b of RecTransition _ s _ _ _ _ \<Rightarrow> s | _ \<Rightarrow> rec_state js)"
  "rec_pause (journal_append t ks b js) = (case b of
     RecTransition _ s reason at _ _ \<Rightarrow> if s = PAUSED_SAFE then (reason, at) else rec_pause js
   | _ \<Rightarrow> rec_pause js)"
  "rec_lease (journal_append t ks b js) = (case b of RecLease tok e _ _ \<Rightarrow> Some (tok, e) | _ \<Rightarrow> rec_lease js)"
  "rec_keyed s (journal_append t ks b js) =
     (case b of RecMeta _ \<Rightarrow> k_source_set_epoch ks | _ \<Rightarrow> rec_keyed s js)"
  by (simp_all add: journal_append_def split: jbody.split)

lemma journal_append_not_Nil [simp]: "journal_append t ks b js \<noteq> []"
  by (simp add: journal_append_def)

lemma journal_last_append [simp]:
  "journal_last k [] = None"
  "journal_last k (js @ [r]) = (if k (j_body r) then Some r else journal_last k js)"
  by (simp_all add: journal_last_def)

lemma journal_last_in: "journal_last k js = Some r \<Longrightarrow> r \<in> set js \<and> k (j_body r)"
  unfolding journal_last_def by (drule find_SomeD) simp

text \<open>Sequence numbers never exceed the length of the journal.\<close>

definition seq_ok :: "jrec list \<Rightarrow> bool" where
  "seq_ok js \<longleftrightarrow> (\<forall>r\<in>set js. j_seq r \<le> length js)"

lemma seq_ok_Nil [simp]: "seq_ok []"
  by (simp add: seq_ok_def)

lemma seq_ok_append [simp]: "seq_ok js \<Longrightarrow> seq_ok (journal_append t ks b js)"
  by (auto simp: seq_ok_def journal_append_def)

lemma dangling_other:
  assumes "\<not> is_intent b" "\<not> is_checkpoint b"
  shows "dangling_intent (journal_append t ks b js) = dangling_intent js"
  using assms by (simp add: dangling_intent_def journal_append_def split: option.split jbody.split)

lemma dangling_intent_append:
  assumes "seq_ok js"
  shows "dangling_intent (journal_append t ks (RecIntent st keys) js) = Some (st, keys)"
proof -
  have "j_seq r \<le> length js" if "journal_last is_checkpoint js = Some r" for r
    using that assms journal_last_in [of is_checkpoint js r] by (auto simp: seq_ok_def)
  then show ?thesis
    by (auto simp: dangling_intent_def journal_append_def less_Suc_eq_le split: option.split)
qed

lemma dangling_checkpoint_append:
  assumes "seq_ok js"
  shows "dangling_intent (journal_append t ks (RecCheckpoint st keys v) js) = None"
proof -
  have "j_seq r \<le> length js" if "journal_last is_intent js = Some r" for r
    using that assms journal_last_in [of is_intent js r] by (auto simp: seq_ok_def)
  then show ?thesis
    by (auto simp: dangling_intent_def journal_append_def split: option.split jbody.split)
qed

subsection \<open>Frames\<close>

record control =
  ct_state :: cstate
  ct_paused_reason :: "treason option"
  ct_paused_at :: "cstate option"
  ct_migration_id :: string
  ct_mutations :: "mutation set"
  ct_keyed :: string
  ct_rec_state :: cstate
  ct_rec_pause :: "treason option \<times> cstate option"
  ct_dangling :: "(cstate \<times> effect_key list) option"

definition ctl :: "'h coord \<Rightarrow> control" where
  "ctl c = \<lparr>ct_state = c_state c, ct_paused_reason = c_paused_reason c,
     ct_paused_at = c_paused_at c, ct_migration_id = c_migration_id c,
     ct_mutations = c_mutations c, ct_keyed = c_keyed_epoch c,
     ct_rec_state = rec_state (c_journal c), ct_rec_pause = rec_pause (c_journal c),
     ct_dangling = dangling_intent (c_journal c)\<rparr>"

lemma ctl_eq_iff:
  "ctl c = ctl d \<longleftrightarrow> c_state c = c_state d \<and> c_paused_reason c = c_paused_reason d \<and>
     c_paused_at c = c_paused_at d \<and> c_migration_id c = c_migration_id d \<and>
     c_mutations c = c_mutations d \<and> c_keyed_epoch c = c_keyed_epoch d \<and>
     rec_state (c_journal c) = rec_state (c_journal d) \<and>
     rec_pause (c_journal c) = rec_pause (c_journal d) \<and>
     dangling_intent (c_journal c) = dangling_intent (c_journal d)"
  by (auto simp: ctl_def)

text \<open>Bodies that say nothing about control.\<close>

fun plain_body :: "jbody \<Rightarrow> bool" where
  "plain_body (RecTransition _ _ _ _ _ _) = False"
| "plain_body (RecIntent _ _) = False"
| "plain_body (RecCheckpoint _ _ _) = False"
| "plain_body _ = True"

lemma plain_body_kinds: "plain_body b \<Longrightarrow> \<not> is_intent b \<and> \<not> is_checkpoint b \<and> \<not> is_transition b"
  by (cases b) simp_all

lemma ctl_durable [frame_simps]: "plain_body b \<Longrightarrow> ctl (durable b c) = ctl c"
  using dangling_other [of b "clock (c_world c)" "jkeys_of c" "c_journal c"] plain_body_kinds [of b]
  by (cases b) (simp_all add: ctl_eq_iff durable_def journal_append_def)

lemma ctl_world [frame_simps]: "ctl (c_world_update f c) = ctl c"
  by (simp add: ctl_def)

lemma ctl_cevent [frame_simps]: "ctl (cevent k c) = ctl c"
  by (simp add: cevent_def ctl_def)

lemma ctl_irrelevant [frame_simps]:
  "ctl (c_observer_update f c) = ctl c" "ctl (c_hook_update g c) = ctl c"
  "ctl (c_lease_token_update h c) = ctl c" "ctl (c_target_epoch_update i c) = ctl c"
  "ctl (c_findings_update j c) = ctl c" "ctl (c_break_glass_log_update k c) = ctl c"
  "ctl (c_resume_count_update l c) = ctl c"
  by (simp_all add: ctl_def)

lemma ctl_fire [frame_simps]: "ctl (fst (fire hook p st c)) = ctl c"
  by (simp add: fire_def ctl_def split: prod.split)

lemma ctl_fresh_observe [frame_simps]: "ctl (fst (fresh_observe H key nxt c)) = ctl c"
  by (simp add: fresh_observe_def frame_simps split: prod.split sum.split)

lemma ctl_step_observe [frame_simps]: "ctl (fst (step_observe H nxt c)) = ctl c"
  by (simp add: step_observe_def Let_def frame_simps split: option.split)

lemma ctl_guard_lease [frame_simps]: "ctl (fst (guard_lease nxt c)) = ctl c"
  by (simp add: guard_lease_def frame_simps split: prod.split)

lemma ctl_note_drift [frame_simps]: "ctl (note_drift nxt c) = ctl c"
  by (simp add: note_drift_def frame_simps)

lemma ctl_guard [frame_simps]: "ctl (fst (guard nxt obs c)) = ctl c"
  using ctl_guard_lease [of nxt c]
  by (cases "guard_lease nxt c") (simp add: guard_def frame_simps split: option.split)

lemma ctl_lease_needed [frame_simps]: "ctl (fst (lease_needed c)) = ctl c"
  by (simp add: lease_needed_def frame_simps split: prod.split option.split)

lemma ctl_take_lease [frame_simps]: "ctl (fst (take_lease c)) = ctl c"
  by (simp add: take_lease_def Let_def frame_simps split: prod.split sum.split)

lemma ctl_fence_fn [frame_simps]: "ctl (fst (fence_fn c)) = ctl c"
proof -
  let ?d = "c\<lparr>c_world := fst (set_fence (fence_key_of (c_migration_id c)) (c_world c))\<rparr>"
  show ?thesis
    using ctl_lease_needed [of ?d]
    by (cases "lease_needed ?d") (simp add: fence_fn_def frame_simps)
qed

lemma ctl_effect_fn [frame_simps]: "ctl (fst (effect_fn st key c)) = ctl c"
  by (simp add: effect_fn_def quiesce_fn_def commit_fn_def ack_fn_def complete_fn_def Let_def
      frame_simps split: cstate.split prod.split effect_key.split key_tail.split)

text \<open>An effect that keeps a projection \<open>P\<close>, issued through the ledger, keeps it.\<close>

lemma apply_effect_frame:
  assumes upd: "\<And>f s. P (upd f s) = P s" and fn: "\<And>s. P (fst (fn s)) = P s"
  shows "P (fst (apply_effect get upd key kind fn needs b s)) = P s"
proof -
  have "P (fst (bindx (fn t) (\<lambda>s res. (upd (g res (get s)) s, Inr (r res (get s)))))) = P s"
    if "P t = P s" for t g and r :: "outcome \<Rightarrow> world \<Rightarrow> outcome"
    by (rule fst_bindx_frame [where P = P and p = "P s"]) (simp_all add: upd fn that)
  from this [of _ "\<lambda>res w. effect_note key kind (res = Applied)
      (if res = Applied \<and> \<not> network w then Unknown else res)"
      "\<lambda>res w. if res = Applied \<and> \<not> network w then Unknown else res"]
  show ?thesis by (simp add: apply_effect_def Let_def upd split: option.split)
qed

lemma ctl_issue_once [frame_simps]: "ctl (fst (issue_once st key c)) = ctl c"
  unfolding issue_once_def by (rule apply_effect_frame) (simp_all add: frame_simps)

lemma ctl_issue_loop: "ctl (fst (issue_loop n r st key c)) = ctl c"
proof (induction n arbitrary: r c)
  case (Suc n)
  show ?case unfolding issue_loop.simps
    by (rule fst_bindx_frame [where P = ctl]) (simp_all add: frame_simps Suc.IH)
qed simp

lemma ctl_issue [frame_simps]: "ctl (fst (issue st key c)) = ctl c"
  by (simp add: issue_def ctl_issue_loop)

lemma ctl_issue_all [frame_simps]: "ctl (fst (issue_all st keys (c :: 'h coord))) = ctl c"
proof (induction keys arbitrary: c)
  case (Cons key keys)
  have tail: "ctl (fst (bindx (issue_all st keys d) (\<lambda>c rs. (c, Inr ((key, r) # rs))))) = ctl d"
    for d :: "'h coord" and r
    by (rule fst_bindx_frame [where P = ctl]) (simp_all add: Cons.IH)
  show ?case unfolding issue_all.simps
    by (rule fst_bindx_frame [where P = ctl], simp add: frame_simps)
      (rule fst_bindx_frame [where P = ctl], simp_all add: frame_simps tail)
qed simp

lemma ctl_readback_all [frame_simps]: "ctl (fst (readback_all keys c)) = ctl c"
  by (induction keys arbitrary: c) (simp_all add: frame_simps split: prod.split)

end
