(* ===== verification/Drill_View.thy ===== *)
theory Drill_View
  imports Drill_Frame
begin

section \<open>The view of a coordinator its invariants are about\<close>

text \<open>
  \<open>view c\<close> collects what the safety of the cutover depends on: the control part, the lease
  and target epoch with what the journal says of them, and the durable facts of the world
  (writer epoch, lease, fence, lanes, acks, legacy contour, which effect keys have applied).
  Clock, trace, observations, findings and attempt counters are not in it. Observing, guarding,
  reading back, break-glass and every fault keep the view (\<open>frame_simps\<close>); an issued effect
  changes it exactly by its effect function (\<open>issue_once_view\<close>).
\<close>

subsection \<open>The view\<close>

record core =
  w_epoch :: int
  w_lease :: "lease option"
  w_fence :: bool
  w_fence_key :: "string option"
  w_lanes :: "lane list"
  w_acks :: "host \<Rightarrow> int option \<times> string option"
  w_hooks_restored :: bool
  w_policy :: string
  w_applied :: "effect_key \<Rightarrow> bool"

definition core_of :: "world \<Rightarrow> core" where
  "core_of w = \<lparr>w_epoch = current_epoch (auth w), w_lease = cur_lease (auth w),
     w_fence = fence_active (auth w), w_fence_key = fence_key (auth w), w_lanes = lanes w,
     w_acks = (\<lambda>h. (acked_epoch (hosts w h), ack_migration (hosts w h))),
     w_hooks_restored = legacy_hooks_restored w, w_policy = legacy_policy w,
     w_applied = (\<lambda>k. applied_in_ledger k w)\<rparr>"

definition transitions :: "jrec list \<Rightarrow> jrec list" where
  "transitions js = filter (\<lambda>r. is_transition (j_body r)) js"

lemma transitions_append [simp]:
  "transitions (journal_append t ks b js) = (if is_transition b
     then transitions js @ [\<lparr>j_seq = length js + 1, j_at = t, j_keys = ks, j_body = b\<rparr>] else transitions js)"
  by (simp add: transitions_def journal_append_def)

record view =
  v_ctl :: control
  v_token :: "lease_token option"
  v_target :: int
  v_rec_lease :: "(lease_token \<times> int) option"
  v_rec_keyed :: string
  v_seq_ok :: bool
  v_open :: bool
  v_trans :: "jrec list"
  v_core :: core

definition view :: "'h coord \<Rightarrow> view" where
  "view c = \<lparr>v_ctl = ctl c, v_token = c_lease_token c, v_target = c_target_epoch c,
     v_rec_lease = rec_lease (c_journal c), v_rec_keyed = rec_keyed [] (c_journal c),
     v_seq_ok = seq_ok (c_journal c),
     v_open = (c_journal c \<noteq> [] \<and> (\<exists>m. j_body (hd (c_journal c)) = RecMeta m)),
     v_trans = transitions (c_journal c),
     v_core = core_of (c_world c)\<rparr>"

definition mark :: "effect_key \<Rightarrow> view \<Rightarrow> view" where
  "mark k v = v\<lparr>v_core := (v_core v)\<lparr>w_applied := (w_applied (v_core v))(k := True)\<rparr>\<rparr>"

lemma view_sel [simp]:
  "v_ctl (view c) = ctl c" "v_token (view c) = c_lease_token c" "v_target (view c) = c_target_epoch c"
  "v_rec_lease (view c) = rec_lease (c_journal c)" "v_rec_keyed (view c) = rec_keyed [] (c_journal c)"
  "v_seq_ok (view c) = seq_ok (c_journal c)" "v_core (view c) = core_of (c_world c)"
  "v_trans (view c) = transitions (c_journal c)"
  by (simp_all add: view_def)

lemma mark_sel [simp]:
  "v_ctl (mark k v) = v_ctl v" "v_token (mark k v) = v_token v" "v_target (mark k v) = v_target v"
  "v_rec_lease (mark k v) = v_rec_lease v" "v_rec_keyed (mark k v) = v_rec_keyed v"
  "v_seq_ok (mark k v) = v_seq_ok v" "v_open (mark k v) = v_open v" "v_trans (mark k v) = v_trans v"
  "w_epoch (v_core (mark k v)) = w_epoch (v_core v)" "w_lease (v_core (mark k v)) = w_lease (v_core v)"
  "w_fence (v_core (mark k v)) = w_fence (v_core v)"
  "w_fence_key (v_core (mark k v)) = w_fence_key (v_core v)"
  "w_lanes (v_core (mark k v)) = w_lanes (v_core v)" "w_acks (v_core (mark k v)) = w_acks (v_core v)"
  "w_hooks_restored (v_core (mark k v)) = w_hooks_restored (v_core v)"
  "w_policy (v_core (mark k v)) = w_policy (v_core v)"
  "w_applied (v_core (mark k v)) = (w_applied (v_core v))(k := True)"
  by (simp_all add: mark_def)

lemma core_of_sel [simp]:
  "w_epoch (core_of w) = current_epoch (auth w)" "w_lease (core_of w) = cur_lease (auth w)"
  "w_fence (core_of w) = fence_active (auth w)" "w_fence_key (core_of w) = fence_key (auth w)"
  "w_lanes (core_of w) = lanes w"
  "w_acks (core_of w) = (\<lambda>h. (acked_epoch (hosts w h), ack_migration (hosts w h)))"
  "w_hooks_restored (core_of w) = legacy_hooks_restored w" "w_policy (core_of w) = legacy_policy w"
  "w_applied (core_of w) k = applied_in_ledger k w"
  by (simp_all add: core_of_def)

subsection \<open>World operations that keep the core\<close>

lemma applied_in_ledger_cong: "effect_ledger v = effect_ledger w \<Longrightarrow> applied_in_ledger k v = applied_in_ledger k w"
  by (simp add: applied_in_ledger_def)

lemma core_event [frame_simps]: "core_of (event k w) = core_of w"
  by (simp add: core_of_def event_def Let_def applied_in_ledger_def)

lemma core_a_rec [frame_simps]: "core_of (a_rec op w) = core_of w"
  by (simp add: core_of_def a_rec_def Let_def applied_in_ledger_def)

lemma core_advance [frame_simps]: "core_of (advance dt w) = core_of w"
  by (simp add: core_of_def advance_def applied_in_ledger_def)

lemma core_check_token [frame_simps]: "core_of (fst (check_token t w)) = core_of w"
  by (simp add: check_token_def frame_simps)

lemma core_readback [frame_simps]: "core_of (fst (readback k w)) = core_of w"
  by (simp add: readback_def Let_def frame_simps)

lemma core_model_calls [frame_simps]: "core_of (model_calls_update f w) = core_of w"
  by (simp add: core_of_def applied_in_ledger_def)

lemma core_active_generation [frame_simps]: "core_of (active_generation_update f w) = core_of w"
  by (simp add: core_of_def applied_in_ledger_def)

lemma core_attempt [frame_simps]:
  "core_of (ledger_put k (ledger_get k st w\<lparr>led_attempts := n\<rparr>) w) = core_of w"
  by (auto simp: core_of_def ledger_put_def ledger_get_def applied_in_ledger_def map_of_update
      fun_eq_iff split: option.split)

lemma core_rejected_note [frame_simps]:
  "core_of (effect_note k st False (Rejected r) w) = core_of w"
  by (auto simp: core_of_def effect_note_def Let_def event_def ledger_put_def ledger_get_def
      applied_in_ledger_def map_of_update fun_eq_iff split: option.split)

lemma core_applied_note:
  "r \<in> {Applied, Unknown} \<Longrightarrow> core_of (effect_note k st True r w) =
     (core_of w)\<lparr>w_applied := (w_applied (core_of w))(k := True)\<rparr>"
  by (auto simp: core_of_def effect_note_def Let_def event_def ledger_put_def ledger_get_def
      applied_in_ledger_def map_of_update fun_eq_iff split: option.split)

subsection \<open>Coordinator operations that keep the view\<close>

lemma view_eqI:
  "ctl c = ctl d \<Longrightarrow> c_lease_token c = c_lease_token d \<Longrightarrow> c_target_epoch c = c_target_epoch d \<Longrightarrow>
   c_journal c = c_journal d \<Longrightarrow> core_of (c_world c) = core_of (c_world d) \<Longrightarrow> view c = view d"
  by (simp add: view_def)

lemma view_world [frame_simps]: "core_of w = core_of (c_world c) \<Longrightarrow> view (c\<lparr>c_world := w\<rparr>) = view c"
  by (rule view_eqI) (simp_all add: frame_simps)

lemma view_cevent [frame_simps]: "view (cevent k c) = view c"
  by (rule view_eqI) (simp_all add: cevent_def frame_simps)

lemma view_irrelevant [frame_simps]:
  "view (c_observer_update f c) = view c" "view (c_hook_update g c) = view c"
  "view (c_findings_update j c) = view c" "view (c_break_glass_log_update k c) = view c"
  "view (c_resume_count_update l c) = view c"
  by (rule view_eqI; simp add: frame_simps)+

lemma seq_ok_append_iff: "seq_ok (journal_append t ks b js) \<longleftrightarrow> (\<forall>r\<in>set js. j_seq r \<le> Suc (length js))"
  by (simp add: seq_ok_def journal_append_def)

lemma view_durable [frame_simps]:
  assumes "plain_body b" "\<And>m. b \<noteq> RecMeta m" "\<And>t e x l. b \<noteq> RecLease t e x l"
    and "seq_ok (c_journal c)" "c_journal c \<noteq> []"
  shows "view (durable b c) = view c"
proof -
  have "hd (journal_append t ks b (c_journal c)) = hd (c_journal c)" for t ks
    using assms(5) by (simp add: journal_append_def)
  moreover have "(case b of RecMeta m \<Rightarrow> x | _ \<Rightarrow> y) = y" for x y :: string
    using assms(2) by (cases b) auto
  moreover have "(case b of RecLease t e z l \<Rightarrow> Some (t, e) | _ \<Rightarrow> y) = y" for y
    using assms(3) by (cases b) auto
  ultimately show ?thesis
    using assms(4,5) ctl_durable [OF assms(1), of c] plain_body_kinds [OF assms(1)]
    by (simp add: view_def) (simp add: durable_def)
qed

lemma view_guard_lease [frame_simps]: "view (fst (guard_lease nxt c)) = view c"
  using core_check_token [of "c_lease_token c" "c_world c"]
  by (cases "check_token (c_lease_token c) (c_world c)") (simp add: guard_lease_def frame_simps)

lemma view_note_drift [frame_simps]: "view (note_drift nxt c) = view c"
  by (simp add: note_drift_def frame_simps)

lemma view_guard [frame_simps]: "view (fst (guard nxt obs c)) = view c"
  using view_guard_lease [of nxt c]
  by (cases "guard_lease nxt c") (simp add: guard_def frame_simps split: option.split)

lemma view_readback_all [frame_simps]: "view (fst (readback_all keys c)) = view c"
proof (induction keys arbitrary: c)
  case (Cons k ks)
  then show ?case using core_readback [of k "c_world c"]
    by (cases "readback k (c_world c)") (simp add: frame_simps)
qed simp

lemma core_observe: "observe H key st ctx fm (ob, w) = ((ob', w'), r) \<Longrightarrow> core_of w' = core_of w"
  by (auto simp: observe_def Let_def frame_simps split: if_splits option.splits)

lemma view_fresh_observe:
  assumes "seq_ok (c_journal c)" "c_journal c \<noteq> []"
  shows "view (fst (fresh_observe H key nxt c)) = view c"
proof (cases "observe H key nxt (obs_context nxt c) (M11_replay_calls_model \<in> c_mutations c)
    (c_observer c, c_world c)")
  case (Pair a r)
  obtain ob w where a: "a = (ob, w)" by (cases a)
  have w: "core_of w = core_of (c_world c)" by (rule core_observe) (use Pair a in simp)
  have v: "view (c\<lparr>c_observer := ob, c_world := w\<rparr>) = view c"
    by (rule view_eqI) (simp_all add: w ctl_def)
  show ?thesis
    using assms by (simp add: fresh_observe_def Pair a v frame_simps split: sum.split)
qed

lemma view_step_observe [frame_simps]:
  "seq_ok (c_journal c) \<Longrightarrow> c_journal c \<noteq> [] \<Longrightarrow> view (fst (step_observe H nxt c)) = view c"
  by (simp add: step_observe_def Let_def view_fresh_observe frame_simps split: option.split)

lemma view_use_break_glass [frame_simps]: "view (fst (use_break_glass bg c)) = view c"
  by (simp add: use_break_glass_def frame_simps split: prod.split)

subsection \<open>Faults\<close>

text \<open>What a fault, the passing of time or a write attempt at the authority may change in the world:
  never the writer epoch, the lease or the fence, the ledger, the lanes, the activation acks, the
  model calls or the legacy contour.\<close>

definition fault_event :: "event_kind \<Rightarrow> bool" where
  "fault_event k = (case k of EvFaultInjected _ _ _ \<Rightarrow> True | EvFaultCleared _ \<Rightarrow> True | _ \<Rightarrow> False)"

definition env_step :: "world \<Rightarrow> world \<Rightarrow> bool" where
  "env_step w v \<longleftrightarrow> current_epoch (auth v) = current_epoch (auth w) \<and>
     cur_lease (auth v) = cur_lease (auth w) \<and> fence_active (auth v) = fence_active (auth w) \<and>
     fence_key (auth v) = fence_key (auth w) \<and> lanes v = lanes w \<and> effect_ledger v = effect_ledger w \<and>
     legacy_hooks_restored v = legacy_hooks_restored w \<and> legacy_policy v = legacy_policy w \<and>
     active_generation v = active_generation w \<and> model_calls v = model_calls w \<and>
     known_good_digest v = known_good_digest w \<and>
     (\<forall>h. acked_epoch (hosts v h) = acked_epoch (hosts w h) \<and>
          ack_migration (hosts v h) = ack_migration (hosts w h)) \<and>
     clock w \<le> clock v \<and>
     (\<exists>es. events v = events w @ es \<and> (\<forall>e\<in>set es. fault_event (ev_kind e)))"

lemma env_step_refl [simp]: "env_step w w"
  by (simp add: env_step_def)

lemma env_step_core: "env_step w v \<Longrightarrow> core_of v = core_of w"
  by (simp add: env_step_def core_of_def applied_in_ledger_def)

definition fault_hook :: "'h hook \<Rightarrow> bool" where
  "fault_hook hook \<longleftrightarrow> (\<forall>p st h w. env_step w (snd (fst (hook p st (h, w)))))"

lemma fault_hookD: "fault_hook hook \<Longrightarrow> hook p st (h, w) = ((h', w'), r) \<Longrightarrow> env_step w w'"
  unfolding fault_hook_def by (metis fst_conv snd_conv)

lemma view_fire: "fault_hook hook \<Longrightarrow> view (fst (fire hook p st c)) = view c"
  by (auto simp: fire_def ctl_def dest!: fault_hookD env_step_core split: prod.split intro!: view_eqI)

subsection \<open>Issuing an effect\<close>

text \<open>The effect function runs on a coordinator with the same view; the view of the result is
  that of the function's own result, with the key marked when the effect took place.\<close>

lemma issue_once_view:
  fixes c :: "'h coord"
  obtains (refused) "view (fst (issue_once st key c)) = view c" "snd (issue_once st key c) \<noteq> Inr Applied"
  | (ran) c1 :: "'h coord" and d r where "view c1 = view c" "c_migration_id c1 = c_migration_id c"
      "c_mutations c1 = c_mutations c" "effect_fn st key c1 = (d, r)"
      "view (fst (issue_once st key c)) = (if r = Inr Applied then mark key (view d) else view d)"
      "snd (issue_once st key c) = Inr Applied \<longrightarrow> r = Inr Applied"
proof -
  define c1 where "c1 = c_world_update (\<lambda>w. let r = ledger_get key st w in
               ledger_put key (r\<lparr>led_attempts := led_attempts r + 1\<rparr>) w) c"
  have c1 [simp]: "c_mutations c1 = c_mutations c" "c_migration_id c1 = c_migration_id c"
    by (simp_all add: c1_def)
  have v1: "view c1 = view c"
    by (rule view_eqI) (simp_all add: c1_def frame_simps Let_def)
  have unfold: "issue_once st key c =
    (if \<not> auth_valid (c_world c1) \<and> M08_resume_revoked_run \<notin> c_mutations c
     then (c_world_update (effect_note key st False (Rejected RAuthRevoked)) c1, Inr (Rejected RAuthRevoked))
     else (case find (\<lambda>v. \<not> services (c_world c1) v) (NEEDS st) of
       Some v \<Rightarrow> (c_world_update (effect_note key st False (Rejected (RUnavailable v))) c1,
                  Inr (Rejected (RUnavailable v)))
     | None \<Rightarrow> bindx (effect_fn st key c1) (\<lambda>s res.
         let seen = (if res = Applied \<and> \<not> network (c_world s) then Unknown else res)
         in (c_world_update (effect_note key st (res = Applied) seen) s, Inr seen))))"
    by (simp only: issue_once_def apply_effect_def Let_def c1_def)
  have noted: "view (c_world_update (effect_note key st False (Rejected r)) d) = view d" for r and d :: "'h coord"
    by (rule view_eqI) (simp_all add: frame_simps)
  have hit: "view (c_world_update (effect_note key st True r) d) = mark key (view d)"
    if "r \<in> {Applied, Unknown}" for r and d :: "'h coord"
    using that by (simp add: view_def mark_def core_applied_note frame_simps)
  show ?thesis
  proof (cases "\<not> auth_valid (c_world c1) \<and> M08_resume_revoked_run \<notin> c_mutations c \<or>
      find (\<lambda>v. \<not> services (c_world c1) v) (NEEDS st) \<noteq> None")
    case True
    then show ?thesis
      by (intro refused) (auto simp: unfold noted v1)
  next
    case False
    obtain d r where fn: "effect_fn st key c1 = (d, r)" by fastforce
    have eq: "issue_once st key c = bindx (d, r) (\<lambda>s res.
        let seen = (if res = Applied \<and> \<not> network (c_world s) then Unknown else res)
        in (c_world_update (effect_note key st (res = Applied) seen) s, Inr seen))"
      using False fn by (auto simp: unfold)
    have unk: "r \<noteq> Inr Unknown"
      using fn by (auto simp: effect_fn_def quiesce_fn_def fence_fn_def take_lease_def commit_fn_def
        cas_commit_def ack_fn_def host_ack_def complete_fn_def Let_def
        split: cstate.splits prod.splits if_splits sum.splits effect_key.splits key_tail.splits)
    show ?thesis
    proof (rule ran [OF v1 _ _ fn])
      show "view (fst (issue_once st key c)) = (if r = Inr Applied then mark key (view d) else view d)"
      proof (cases r)
        case (Inr x)
        then show ?thesis using unk by (cases x) (simp_all add: eq Let_def noted hit)
      qed (simp add: eq)
      show "snd (issue_once st key c) = Inr Applied \<longrightarrow> r = Inr Applied"
        by (cases r) (auto simp: eq Let_def)
    qed simp_all
  qed
qed

end
