(* ===== verification/Drill_Effects.thy ===== *)
theory Drill_Effects
  imports Drill_View
begin

section \<open>How the coordinator's operations change the view\<close>

text \<open>
  The effect of each control operation (pause, intent, checkpoint, forward recovery, abort) and
  of each phase's effect function (quiesce, fence, commit, host ack, complete) as an update of
  the view, case by case, and the invariant \<open>cinv\<close> of the control part: the recorded state is
  the live one, a pause has a working state to return to, and a dangling intent is the one for
  the state that follows.
\<close>

subsection \<open>The control invariant\<close>

definition working :: "cstate \<Rightarrow> bool" where
  "working s \<longleftrightarrow> s = INIT \<or> s \<in> set STATES \<and> s \<noteq> COMPLETE"

lemma working_iff: "working s \<longleftrightarrow> \<not> terminal s"
  by (cases s) (simp_all add: working_def terminal_def STATES_def)

lemma not_terminal_simps [simp]:
  "\<not> terminal s \<Longrightarrow> s \<noteq> PAUSED_SAFE" "\<not> terminal s \<Longrightarrow> s \<noteq> ABORTED" "\<not> terminal s \<Longrightarrow> s \<noteq> COMPLETE"
  by (auto simp: terminal_def)

text \<open>Where the machine stands, pauses aside.\<close>

definition eff_ctl :: "control \<Rightarrow> cstate" where
  "eff_ctl k = (if ct_state k = PAUSED_SAFE then the (ct_paused_at k) else ct_state k)"

definition eff_state :: "'h coord \<Rightarrow> cstate" where
  "eff_state c = eff_ctl (ctl c)"

lemma eff_state_eq:
  "eff_state c = (if c_state c = PAUSED_SAFE then the (c_paused_at c) else c_state c)"
  by (simp add: eff_state_def eff_ctl_def ctl_def)

definition cinv :: "control \<Rightarrow> bool" where
  "cinv k \<longleftrightarrow> ct_mutations k = {} \<and> ct_state k = ct_rec_state k \<and>
     (ct_state k = PAUSED_SAFE \<longrightarrow>
        (\<exists>s. ct_paused_at k = Some s \<and> working s) \<and>
        ct_rec_pause k = (ct_paused_reason k, ct_paused_at k)) \<and>
     (ct_state k \<noteq> ABORTED \<longrightarrow> (case ct_dangling k of None \<Rightarrow> True
        | Some (st, keys) \<Rightarrow> working (eff_ctl k) \<and> st = next_state (eff_ctl k)))"

lemma cinv_eff: "cinv k \<Longrightarrow> eff_ctl k \<noteq> PAUSED_SAFE"
  by (auto simp: cinv_def eff_ctl_def working_def STATES_def)

lemma next_state_simps [simp]:
  "next_state INIT = QUIESCING" "next_state QUIESCING = FENCED" "next_state FENCED = FINAL_SYNC"
  "next_state FINAL_SYNC = VALIDATED" "next_state VALIDATED = WRITE_COMMITTED"
  "next_state WRITE_COMMITTED = HOSTS_ACTIVATING" "next_state HOSTS_ACTIVATING = OBSERVING"
  "next_state OBSERVING = COMPLETE"
  by (simp_all add: next_state_def STATES_def)

lemma working_cases [consumes 1, case_names INIT QUIESCING FENCED FINAL_SYNC VALIDATED
    WRITE_COMMITTED HOSTS_ACTIVATING OBSERVING]:
  assumes "working s"
  obtains "s = INIT" | "s = QUIESCING" | "s = FENCED" | "s = FINAL_SYNC" | "s = VALIDATED"
    | "s = WRITE_COMMITTED" | "s = HOSTS_ACTIVATING" | "s = OBSERVING"
  using assms by (cases s) (simp_all add: working_def STATES_def)

lemma next_state_neq: "working s \<Longrightarrow> next_state s \<notin> {PAUSED_SAFE, ABORTED, INIT}"
  by (erule working_cases) simp_all

subsection \<open>How the control operations change the view\<close>

lemma ctl_sel [simp]:
  "ct_state (ctl c) = c_state c" "ct_paused_reason (ctl c) = c_paused_reason c"
  "ct_paused_at (ctl c) = c_paused_at c" "ct_migration_id (ctl c) = c_migration_id c"
  "ct_mutations (ctl c) = c_mutations c" "ct_keyed (ctl c) = c_keyed_epoch c"
  "ct_rec_state (ctl c) = rec_state (c_journal c)" "ct_rec_pause (ctl c) = rec_pause (c_journal c)"
  "ct_dangling (ctl c) = dangling_intent (c_journal c)"
  by (simp_all add: ctl_def)

lemma hd_journal_append [simp]:
  "js \<noteq> [] \<Longrightarrow> hd (journal_append t ks b js) = hd js"
  by (simp add: journal_append_def)

lemma view_open [simp]:
  "v_open (view c) \<longleftrightarrow> c_journal c \<noteq> [] \<and> (\<exists>m. j_body (hd (c_journal c)) = RecMeta m)"
  by (simp add: view_def)

definition sound :: "'h coord \<Rightarrow> bool" where
  "sound c \<longleftrightarrow> seq_ok (c_journal c) \<and> c_journal c \<noteq> []"

lemma view_pause:
  assumes "sound c" "c_mutations c = {}" "c_state c \<noteq> PAUSED_SAFE"
  shows "view (pause r c) = (view c)\<lparr>v_ctl := (ctl c)\<lparr>ct_state := PAUSED_SAFE,
      ct_paused_reason := Some (PauseReason r), ct_paused_at := Some (c_state c),
      ct_rec_state := PAUSED_SAFE, ct_rec_pause := (Some (PauseReason r), Some (c_state c))\<rparr>,
      v_trans := transitions (c_journal (pause r c))\<rparr>"
  using assms unfolding sound_def
  by (simp add: view_def pause_def Let_def cevent_def durable_def ctl_def dangling_other core_event)

lemma view_checkpoint:
  assumes "sound c" "nxt \<noteq> PAUSED_SAFE"
  shows "view (checkpoint nxt keys v c) = (view c)\<lparr>v_ctl := (ctl c)\<lparr>ct_state := nxt,
      ct_paused_reason := None, ct_rec_state := nxt, ct_dangling := None\<rparr>,
      v_trans := transitions (c_journal (checkpoint nxt keys v c))\<rparr>"
proof -
  let ?js = "journal_append (clock (c_world c)) (jkeys_of c) (RecCheckpoint nxt keys v) (c_journal c)"
  have d: "dangling_intent ?js = None"
    by (rule dangling_checkpoint_append) (use assms in \<open>simp add: sound_def\<close>)
  show ?thesis
    using assms unfolding sound_def
    by (simp add: view_def checkpoint_def Let_def cevent_def durable_def ctl_def d dangling_other
        core_event)
qed

lemma view_intent:
  assumes "sound c"
  shows "view (durable (RecIntent st keys) c) = (view c)\<lparr>v_ctl := (ctl c)\<lparr>ct_dangling := Some (st, keys)\<rparr>\<rparr>"
  using assms dangling_intent_append [of "c_journal c"] unfolding sound_def
  by (simp add: view_def durable_def ctl_def)

lemma view_forward:
  assumes "sound c" "c_state c = PAUSED_SAFE" "c_paused_at c = Some st" "st \<noteq> PAUSED_SAFE"
    "c_paused_reason c \<noteq> None" "pause_cleared c"
  shows "view (fst (forward_recovery c)) =
    (view c)\<lparr>v_ctl := (ctl c)\<lparr>ct_state := st, ct_paused_reason := None, ct_rec_state := st\<rparr>,
      v_trans := transitions (c_journal (fst (forward_recovery c)))\<rparr>"
  using assms unfolding sound_def
  by (simp add: view_def forward_recovery_def Let_def cevent_def durable_def ctl_def dangling_other
      core_event)

text \<open>An accepted abort releases the fence and the lease and leaves the rest of the world.\<close>

definition abort_core :: "lease_token option \<Rightarrow> core \<Rightarrow> core" where
  "abort_core tok w = w\<lparr>w_fence := False, w_lease := (case w_lease w of
     Some l \<Rightarrow> if Some (l_token l) = tok then Some (l\<lparr>l_released := True\<rparr>) else Some l | None \<Rightarrow> None)\<rparr>"

lemma core_release:
  "core_of (fst (release_lease tok (fst (release_fence k w)))) = abort_core tok (core_of w)"
  by (cases "cur_lease (auth w)")
    (auto simp: core_of_def abort_core_def release_fence_def release_lease_def a_rec_def Let_def
      applied_in_ledger_def)

lemma view_abort:
  assumes "sound c" "c_mutations c = {}" "c_state c \<notin> {ABORTED, COMPLETE}"
    "\<not> past_commit (if c_state c = PAUSED_SAFE then c_paused_at c else Some (c_state c))"
  shows "view (fst (abort reason c)) = (view c)\<lparr>v_ctl := (ctl c)\<lparr>ct_state := ABORTED,
      ct_rec_state := ABORTED\<rparr>, v_trans := transitions (c_journal (fst (abort reason c))),
      v_core := abort_core (c_lease_token c) (core_of (c_world c))\<rparr>"
  using assms unfolding sound_def
  by (simp add: view_def abort_def Let_def cevent_def durable_def ctl_def dangling_other core_event
      core_release)

lemma abort_refused_view:
  "past_commit (if c_state c = PAUSED_SAFE then c_paused_at c else Some (c_state c)) \<or>
   c_state c \<in> {ABORTED, COMPLETE} \<Longrightarrow> c_mutations c = {} \<Longrightarrow> view (fst (abort reason c)) = view c"
  by (auto simp: abort_def Let_def frame_simps)

subsection \<open>How the effects change the view\<close>

definition fenced_core :: "string \<Rightarrow> core \<Rightarrow> core" where
  "fenced_core m w = w\<lparr>w_fence := True, w_fence_key := Some (fence_key_of m)\<rparr>"

lemma core_set_fence: "core_of (fst (set_fence (fence_key_of m) w)) = fenced_core m (core_of w)"
  by (auto simp: core_of_def fenced_core_def set_fence_def a_rec_def Let_def applied_in_ledger_def)

lemma view_quiesce:
  "effect_fn QUIESCING key c = (d, r) \<Longrightarrow> r = Inr Applied \<and>
   view d = (view c)\<lparr>v_core := (core_of (c_world c))\<lparr>w_lanes :=
     fst (quiesce_lanes (c_mutations c) (lanes (c_world c)) (c_world c))\<rparr>\<rparr>"
proof -
  have one: "core_of (snd (quiesce_lane ms l w)) = core_of w" for ms l w
    by (simp add: quiesce_lane_def stop_lane_def handoff_lane_def frame_simps)
  have all: "core_of (snd (quiesce_lanes ms ls w)) = core_of w" for ms ls w
  proof (induction ls arbitrary: w)
    case (Cons l ls)
    obtain l' w1 where q: "quiesce_lane ms l w = (l', w1)" by fastforce
    then show ?case using Cons.IH [of w1] one [of ms l w]
      by (cases "quiesce_lanes ms ls w1") simp
  qed simp
  have up: "core_of (w\<lparr>lanes := ls\<rparr>) = (core_of w)\<lparr>w_lanes := ls\<rparr>" for w ls
    by (simp add: core_of_def applied_in_ledger_def)
  obtain ls w where q: "quiesce_lanes (c_mutations c) (lanes (c_world c)) (c_world c) = (ls, w)"
    by fastforce
  then have "core_of w = core_of (c_world c)" using all by (metis snd_conv)
  then show "effect_fn QUIESCING key c = (d, r) \<Longrightarrow> ?thesis"
    by (auto simp: effect_fn_def quiesce_fn_def q view_def up ctl_def)
qed

lemma lease_needed_frame:
  assumes "lease_needed c = (d, need)"
  shows "view d = view c" "c_journal d = c_journal c" "c_migration_id d = c_migration_id c"
    "current_epoch (auth (c_world d)) = current_epoch (auth (c_world c))"
    "\<not> need \<Longrightarrow> \<exists>t. c_lease_token c = Some t"
proof -
  have "d = c \<and> need \<or> (\<exists>t. c_lease_token c = Some t \<and> d = c\<lparr>c_world := fst (check_token (Some t) (c_world c))\<rparr>)"
    using assms by (auto simp: lease_needed_def split: option.splits prod.splits)
  moreover have "current_epoch (auth (fst (check_token t w))) = current_epoch (auth w)" for t w
    by (simp add: check_token_def a_rec_def Let_def)
  ultimately show "view d = view c" "c_journal d = c_journal c" "c_migration_id d = c_migration_id c"
    "current_epoch (auth (c_world d)) = current_epoch (auth (c_world c))"
    "\<not> need \<Longrightarrow> \<exists>t. c_lease_token c = Some t"
    by (auto simp: frame_simps)
qed

lemma view_fence:
  assumes "effect_fn FENCED key c = (d, r)" "sound c"
  obtains (failed) e where "r = Inl e"
      "view d = (view c)\<lparr>v_core := fenced_core (c_migration_id c) (core_of (c_world c))\<rparr>"
  | (held) t where "r = Inr Applied" "c_lease_token c = Some t"
      "view d = (view c)\<lparr>v_core := fenced_core (c_migration_id c) (core_of (c_world c))\<rparr>"
  | (taken) l where "r = Inr Applied" "l_epoch l = current_epoch (auth (c_world c)) + 1"
      "view d = (view c)\<lparr>v_token := Some (l_token l), v_target := l_epoch l,
         v_rec_lease := Some (l_token l, l_epoch l),
         v_core := (fenced_core (c_migration_id c) (core_of (c_world c)))\<lparr>w_lease := Some l\<rparr>\<rparr>"
proof -
  define c1 where "c1 = c\<lparr>c_world := fst (set_fence (fence_key_of (c_migration_id c)) (c_world c))\<rparr>"
  have v1: "view c1 = (view c)\<lparr>v_core := fenced_core (c_migration_id c) (core_of (c_world c))\<rparr>"
    by (simp add: view_def c1_def core_set_fence ctl_def)
  have so: "sound c1" using assms(2) by (simp add: c1_def sound_def)
  have m: "c_migration_id c1 = c_migration_id c" by (simp add: c1_def)
  have ep: "current_epoch (auth (c_world c1)) = current_epoch (auth (c_world c))"
    by (simp add: c1_def set_fence_def a_rec_def Let_def)
  obtain c2 need where ln: "lease_needed c1 = (c2, need)" by fastforce
  note v2 = lease_needed_frame(1) [OF ln] and m2 = lease_needed_frame(3) [OF ln]
    and ep2 = lease_needed_frame(4) [OF ln]
  have so2: "sound c2" using so lease_needed_frame(2) [OF ln] by (simp add: sound_def)
  have need: "\<not> need \<Longrightarrow> \<exists>t. c_lease_token c = Some t"
    using lease_needed_frame(5) [OF ln] by (simp add: c1_def)
  have core2: "core_of (c_world c2) = fenced_core (c_migration_id c) (core_of (c_world c))"
    using arg_cong [OF v2, of v_core] arg_cong [OF v1, of v_core] by simp
  have eff: "effect_fn FENCED key c = (if need then take_lease c2 else (c2, Inr Applied))"
    by (simp add: effect_fn_def fence_fn_def ln [unfolded c1_def])
  show ?thesis
  proof (cases need)
    case False
    with need eff assms(1) v1 v2 show ?thesis by (auto intro: held)
  next
    case True
    obtain w x where al: "acquire_lease (c_migration_id c2) LEASE_TTL (c_world c2) = (w, x)" by fastforce
    show ?thesis
    proof (cases x)
      case (Inl e)
      then have "core_of w = core_of (c_world c2)"
        using al by (auto simp: acquire_lease_def Let_def frame_simps split: if_splits)
      with True eff assms(1) Inl al v1 v2 show ?thesis
        by (auto simp: take_lease_def frame_simps intro!: failed)
    next
      case (Inr l)
      then have w: "core_of w = (core_of (c_world c2))\<lparr>w_lease := Some l\<rparr>"
        and l: "l_epoch l = current_epoch (auth (c_world c)) + 1"
        using al ep ep2 by (auto simp: acquire_lease_def Let_def core_of_def a_rec_def applied_in_ledger_def
            split: if_splits)
      let ?c3 = "c2\<lparr>c_world := w, c_lease_token := Some (l_token l), c_target_epoch := l_epoch l\<rparr>"
      have "view (durable (RecLease (l_token l) (l_epoch l) (l_expires_at l) LEASE_TTL) ?c3) =
          (view c2)\<lparr>v_token := Some (l_token l), v_target := l_epoch l,
             v_rec_lease := Some (l_token l, l_epoch l), v_core := core_of w\<rparr>"
        using so2 unfolding sound_def
        by (simp add: view_def durable_def ctl_def dangling_other)
      moreover have "view (durable (RecFence k b t) c4) = view c4" if "sound c4" for k b t and c4 :: "'a coord"
        using that by (simp add: frame_simps sound_def)
      moreover have "sound (durable b ?c3)" for b using so2 by (simp add: sound_def durable_def)
      ultimately show ?thesis
        using True eff assms(1) Inr al l w v1 v2 core2
        by (intro taken [of l]) (auto simp: take_lease_def Let_def)
    qed
  qed
qed

lemma token_status_valid: "token_status t w = TokValid \<Longrightarrow> t \<noteq> None"
  by (auto simp: token_status_def split: option.splits if_splits)

lemma view_commit:
  assumes "effect_fn WRITE_COMMITTED key c = (d, r)" "c_mutations c = {}"
  obtains (failed) x where "r = Inr (Rejected x)" "view d = view c"
  | (applied) t where "r = Inr Applied" "c_lease_token c = Some t"
      "token_status (Some t) (c_world c) = TokValid"
      "current_epoch (auth (c_world c)) = c_target_epoch c - 1"
      "view d = (view c)\<lparr>v_core := (core_of (c_world c))\<lparr>w_epoch := c_target_epoch c\<rparr>\<rparr>"
proof -
  let ?e = "c_target_epoch c" and ?w = "fst (check_token (c_lease_token c) (c_world c))"
  have ep: "current_epoch (auth ?w) = current_epoch (auth (c_world c))"
    by (simp add: check_token_def a_rec_def Let_def)
  have core: "core_of ?w = core_of (c_world c)" by (rule core_check_token)
  have up: "core_of (a_rec op (w\<lparr>auth := (auth w)\<lparr>current_epoch := e\<rparr>\<rparr>)) = (core_of w)\<lparr>w_epoch := e\<rparr>" for op w e
    by (simp add: frame_simps) (simp add: core_of_def applied_in_ledger_def)
  have cas: "cas_commit (c_lease_token c) (?e - 1) ?e False (c_world c) =
    (if token_status (c_lease_token c) (c_world c) \<noteq> TokValid
     then (a_rec (CasRejectedToken (token_status (c_lease_token c) (c_world c)) (?e - 1) ?e) ?w,
           Rejected (RToken (token_status (c_lease_token c) (c_world c))))
     else if current_epoch (auth (c_world c)) \<noteq> ?e - 1
     then (a_rec (CasRejectedEpoch (?e - 1) (current_epoch (auth (c_world c)))) ?w, Rejected REpochMismatch)
     else (a_rec (CasApplied ?e) (?w\<lparr>auth := (auth ?w)\<lparr>current_epoch := ?e\<rparr>\<rparr>), Applied))"
    using ep by (auto simp: cas_commit_def check_token_def)
  show ?thesis
  proof (cases "token_status (c_lease_token c) (c_world c) = TokValid \<and>
      current_epoch (auth (c_world c)) = ?e - 1")
    case True
    then obtain t where t: "c_lease_token c = Some t" using token_status_valid by blast
    have "d = c\<lparr>c_world := a_rec (CasApplied ?e) (?w\<lparr>auth := (auth ?w)\<lparr>current_epoch := ?e\<rparr>\<rparr>)\<rparr>"
      and r: "r = Inr Applied"
      using True assms by (simp_all add: effect_fn_def commit_fn_def cas)
    then have "view d = (view c)\<lparr>v_core := (core_of (c_world c))\<lparr>w_epoch := ?e\<rparr>\<rparr>"
      by (simp add: view_def up core ctl_def)
    with True t r show ?thesis by (intro applied [of t]) auto
  next
    case False
    with assms have "(\<exists>x. r = Inr (Rejected x)) \<and> view d = view c"
      by (auto simp: effect_fn_def commit_fn_def cas core frame_simps split: if_splits)
    then show ?thesis using failed by blast
  qed
qed

lemma view_ack:
  assumes "effect_fn HOSTS_ACTIVATING (EffKey m e (KAck h)) c = (d, r)" "c_mutations c = {}"
  obtains (failed) x where "r = Inr (Rejected x)" "view d = view c"
  | (applied) "r = Inr Applied" "current_epoch (auth (c_world c)) \<le> c_target_epoch c"
      "view d = (view c)\<lparr>v_core := (core_of (c_world c))\<lparr>w_acks := (w_acks (core_of (c_world c)))
         (h := (Some (c_target_epoch c), Some (c_migration_id c)))\<rparr>\<rparr>"
proof -
  let ?h = "host_ack h (c_target_epoch c) (c_migration_id c) False (c_world c)"
  have core: "core_of (w\<lparr>hosts := (hosts w)(h := x\<lparr>acked_epoch := a, ack_migration := b\<rparr>)\<rparr>) =
      (core_of w)\<lparr>w_acks := (w_acks (core_of w))(h := (a, b))\<rparr>" for w x a b
    by (auto simp: core_of_def applied_in_ledger_def fun_eq_iff)
  have same: "(core_of w)\<lparr>w_acks := (w_acks (core_of w))(h := (a, b))\<rparr> = core_of w"
    if "acked_epoch (hosts w h) = a" "ack_migration (hosts w h) = b" for w a b
    using that by (auto simp: core_of_def fun_eq_iff)
  show ?thesis
  proof (cases "alive (hosts (c_world c) h) \<and> \<not> c_target_epoch c < current_epoch (auth (c_world c))")
    case True
    with assms show ?thesis
      by (intro applied) (auto simp: effect_fn_def ack_fn_def host_ack_def Let_def view_def frame_simps
          core same ctl_def split: if_splits simp del: core_of_sel)
  next
    case False
    with assms have "(\<exists>x. r = Inr (Rejected x)) \<and> view d = view c"
      by (auto simp: effect_fn_def ack_fn_def host_ack_def Let_def frame_simps split: if_splits)
    then show ?thesis using failed by blast
  qed
qed

lemma view_complete:
  assumes "effect_fn COMPLETE key c = (d, r)" "sound c"
  shows "r = Inr Applied" "view d = (view c)\<lparr>v_core :=
      (abort_core (c_lease_token c) (core_of (c_world c)))\<lparr>w_policy := ''read-only''\<rparr>\<rparr>"
proof -
  have up: "core_of (w\<lparr>legacy_policy := p\<rparr>) = (core_of w)\<lparr>w_policy := p\<rparr>" for w p
    by (simp add: core_of_def applied_in_ledger_def)
  show "r = Inr Applied" using assms by (auto simp: effect_fn_def complete_fn_def Let_def)
  show "view d = (view c)\<lparr>v_core :=
      (abort_core (c_lease_token c) (core_of (c_world c)))\<lparr>w_policy := ''read-only''\<rparr>\<rparr>"
    using assms unfolding sound_def
    by (auto simp: effect_fn_def complete_fn_def Let_def frame_simps)
      (simp add: view_def core_release up abort_core_def ctl_def)
qed

lemma view_other:
  "st \<notin> {QUIESCING, FENCED, WRITE_COMMITTED, HOSTS_ACTIVATING, COMPLETE} \<Longrightarrow>
   effect_fn st key c = (d, r) \<Longrightarrow> d = c"
  by (cases st) (auto simp: effect_fn_def)

text \<open>No effect touches the effect ledger.\<close>

lemma applied_effect_fn:
  assumes "effect_fn st key c = (d, r)" "c_mutations c = {}" "sound c"
  shows "applied_in_ledger k (c_world d) = applied_in_ledger k (c_world c)"
proof -
  have "effect_ledger (snd (quiesce_lanes ms ls w)) = effect_ledger w" for ms ls w
  proof (induction ls arbitrary: w)
    case (Cons l ls)
    obtain l' w1 where q: "quiesce_lane ms l w = (l', w1)" by fastforce
    then have "effect_ledger w1 = effect_ledger w"
      by (auto simp: quiesce_lane_def stop_lane_def handoff_lane_def event_def Let_def split: if_splits)
    with q Cons.IH [of w1] show ?case by (cases "quiesce_lanes ms ls w1") simp
  qed simp
  note q = this [of "c_mutations c" "lanes (c_world c)" "c_world c"]
  have "effect_ledger (c_world d) = effect_ledger (c_world c)"
  proof (cases st)
    case QUIESCING
    then show ?thesis using assms q by (auto simp: effect_fn_def quiesce_fn_def split: prod.splits)
  next
    case FENCED
    then show ?thesis using assms
      by (auto simp: effect_fn_def fence_fn_def take_lease_def lease_needed_def acquire_lease_def
        set_fence_def check_token_def a_rec_def durable_def Let_def split: if_splits option.splits)
  next
    case WRITE_COMMITTED
    then show ?thesis using assms
      by (auto simp: effect_fn_def commit_fn_def cas_commit_def check_token_def a_rec_def Let_def
          split: if_splits)
  next
    case HOSTS_ACTIVATING
    then show ?thesis using assms
      by (auto simp: effect_fn_def ack_fn_def host_ack_def a_rec_def Let_def
          split: if_splits effect_key.splits key_tail.splits)
  next
    case COMPLETE
    then show ?thesis using assms
      by (auto simp: effect_fn_def complete_fn_def release_lease_def release_fence_def a_rec_def
          durable_def Let_def split: option.splits)
  qed (use assms in \<open>auto simp: effect_fn_def\<close>)
  then show ?thesis by (rule applied_in_ledger_cong)
qed

end
