(* ===== verification/Drill_Invariant.thy ===== *)
theory Drill_Invariant
  imports Drill_Effects
begin

section \<open>Invariants of the coordinator and crash recovery\<close>

text \<open>
  \<open>coord_invariant\<close> is the contract an invariant of the coordinator has to meet: it is kept by
  a pause, an intent, the effect of the open intent, a checkpoint of applied keys, a forward
  recovery and an abort, and it reads the pause fields only in a paused coordinator. Everything else is proved once inside the locale: \<open>step\<close>, \<open>resume\<close>,
  \<open>run\<close>, \<open>rollback_to_known_good\<close> and \<open>abort\<close> keep it, under every fault hook, also when the
  hook raises in the middle of a transition.

  \<open>jinv\<close> ties the volatile fields of the coordinator to its journal and its target epoch to the
  authority. A process started again from the journal therefore continues where the dead one
  stood.
\<close>

subsection \<open>The contract\<close>

definition active :: "'h coord \<Rightarrow> bool" where
  "active c \<longleftrightarrow> c_state c \<notin> {ABORTED, COMPLETE}"

lemma view_ctl: "view d = view c \<Longrightarrow> ctl d = ctl c"
  by (drule arg_cong [where f = v_ctl]) simp

lemma view_ctl_intent:
  assumes "sound c"
  shows "c_state (durable (RecIntent st keys) c) = c_state c"
    "dangling_intent (c_journal (durable (RecIntent st keys) c)) = Some (st, keys)"
  using arg_cong [OF view_intent [OF assms, of st keys], of "\<lambda>v. (ct_state (v_ctl v), ct_dangling (v_ctl v))"]
  by simp_all

lemma resume_unfold:
  "resume c = (let before = c_state c;
       c = cevent (EvResume (c_state c) (c_resume_count c + 1)) (c\<lparr>c_resume_count := c_resume_count c + 1\<rparr>)
     in if c_state c \<in> {ABORTED, COMPLETE} then (c, Inr (c_state c, False))
        else if \<not> auth_valid (c_world c) \<and> M08_resume_revoked_run \<notin> c_mutations c
        then (pause AUTH_REVOKED c, Inr (c_state (pause AUTH_REVOKED c), before \<noteq> c_state (pause AUTH_REVOKED c)))
        else bindx (case dangling_intent (c_journal (double_transition c)) of
                   None \<Rightarrow> (double_transition c, Inr ())
                 | Some (st, keys) \<Rightarrow> reconcile st keys (double_transition c))
            (\<lambda>c _. bindx (forward_recovery c) (\<lambda>c _. (c, Inr (c_state c, before \<noteq> c_state c)))))"
  by (simp add: resume_def Let_def)

lemma working_active: "working (c_state c) \<Longrightarrow> active c"
  by (auto simp: active_def working_def STATES_def)

locale coord_invariant =
  fixes I :: "view \<Rightarrow> bool" and hook :: "'h hook"
  assumes sane: "I v \<Longrightarrow> v_seq_ok v \<and> v_open v \<and> cinv (v_ctl v)"
    and keep_pause: "I (view (c :: 'h coord)) \<Longrightarrow> active c \<Longrightarrow> c_state c \<noteq> PAUSED_SAFE \<Longrightarrow> I (view (pause rsn c))"
    and keep_intent: "I (view (c :: 'h coord)) \<Longrightarrow> working (c_state c) \<Longrightarrow> nxt = next_state (c_state c) \<Longrightarrow>
      I (view (durable (RecIntent nxt (effect_keys nxt c)) c))"
    and keep_effect: "I (view (c :: 'h coord)) \<Longrightarrow> active c \<Longrightarrow> dangling_intent (c_journal c) = Some (st, keys) \<Longrightarrow>
      key \<in> set keys \<Longrightarrow> effect_fn st key c = (d, r) \<Longrightarrow>
      I (if r = Inr Applied then mark key (view d) else view d)"
    and keep_checkpoint: "I (view (c :: 'h coord)) \<Longrightarrow> active c \<Longrightarrow>
      dangling_intent (c_journal c) = Some (st, keys) \<Longrightarrow> (\<forall>k\<in>set keys. applied_in_ledger k (c_world c)) \<Longrightarrow>
      I (view (checkpoint st keys via c))"
    and keep_forward: "I (view (c :: 'h coord)) \<Longrightarrow> c_state c = PAUSED_SAFE \<Longrightarrow> c_paused_at c = Some s \<Longrightarrow>
      working s \<Longrightarrow> c_paused_reason c \<noteq> None \<Longrightarrow> pause_cleared c \<Longrightarrow> I (view (fst (forward_recovery c)))"
    and keep_stale: "I v \<Longrightarrow> ct_state (v_ctl v) \<noteq> PAUSED_SAFE \<Longrightarrow>
      I (v\<lparr>v_ctl := (v_ctl v)\<lparr>ct_paused_reason := stale_reason, ct_paused_at := stale_at\<rparr>\<rparr>)"
    and keep_abort: "I (view (c :: 'h coord)) \<Longrightarrow> active c \<Longrightarrow> \<not> past_commit (Some (eff_state c)) \<Longrightarrow>
      I (view (fst (abort why c)))"
begin

lemma sane_coord:
  assumes "I (view c)"
  shows "seq_ok (c_journal c)" "c_journal c \<noteq> []" "sound c" "cinv (ctl c)" "c_mutations c = {}"
  using sane [OF assms] by (auto simp: sound_def cinv_def)

lemma paused_at_working: "I (view c) \<Longrightarrow> c_state c = PAUSED_SAFE \<Longrightarrow> \<exists>s. c_paused_at c = Some s \<and> working s"
  by (drule sane_coord(4)) (simp add: cinv_def)

lemma pause_any: "I (view (c :: 'h coord)) \<Longrightarrow> active c \<Longrightarrow> I (view (pause r c))"
  using keep_pause by (cases "c_state c = PAUSED_SAFE") (simp_all add: pause_def)

lemma issue_once_keep:
  fixes c :: "'h coord"
  assumes "I (view c)" "active c" "dangling_intent (c_journal c) = Some (st, keys)" "key \<in> set keys"
  shows "I (view (fst (issue_once st key c)))"
    and "snd (issue_once st key c) = Inr Applied \<Longrightarrow>
      applied_in_ledger key (c_world (fst (issue_once st key c)))"
    and "applied_in_ledger k (c_world c) \<Longrightarrow> applied_in_ledger k (c_world (fst (issue_once st key c)))"
proof -
  let ?d = "fst (issue_once st key c)"
  have led: "applied_in_ledger k (c_world x) = w_applied (v_core (view x)) k" for k and x :: "'h coord" by simp
  have "I (view ?d) \<and> (snd (issue_once st key c) = Inr Applied \<longrightarrow> applied_in_ledger key (c_world ?d)) \<and>
    (applied_in_ledger k (c_world c) \<longrightarrow> applied_in_ledger k (c_world ?d))"
  proof (cases rule: issue_once_view [of st key c])
    case refused
    then show ?thesis using assms by (simp add: led del: view_sel)
  next
    case (ran c1 d r)
    have c1: "I (view c1)" using ran(1) assms(1) by simp
    have ctl: "ctl c1 = ctl c" using arg_cong [OF ran(1), of v_ctl] by simp
    have core: "core_of (c_world c1) = core_of (c_world c)" using arg_cong [OF ran(1), of v_core] by simp
    have "active c1" "dangling_intent (c_journal c1) = Some (st, keys)"
      using ctl assms by (simp_all add: active_def ctl_eq_iff)
    note eff = keep_effect [OF c1 this assms(4) ran(4)]
    have app: "applied_in_ledger k (c_world d) = applied_in_ledger k (c_world c)" for k
      using applied_effect_fn [OF ran(4) sane_coord(5,3) [OF c1]] core
      by (metis core_of_sel(9))
    show ?thesis using eff ran(5,6) app
      by (auto simp: led simp del: view_sel(7))
  qed
  then show "I (view ?d)"
    "snd (issue_once st key c) = Inr Applied \<Longrightarrow> applied_in_ledger key (c_world ?d)"
    "applied_in_ledger k (c_world c) \<Longrightarrow> applied_in_ledger k (c_world ?d)" by auto
qed

subsection \<open>Effects under the contract\<close>

text \<open>The context in which effects are issued: the intent for \<open>(st, keys)\<close> is open.\<close>

definition opened :: "cstate \<Rightarrow> effect_key list \<Rightarrow> 'h coord \<Rightarrow> bool" where
  "opened st keys c \<longleftrightarrow> I (view c) \<and> active c \<and> dangling_intent (c_journal c) = Some (st, keys)"

lemma opened_cong: "opened st keys c \<Longrightarrow> ctl d = ctl c \<Longrightarrow> I (view d) \<Longrightarrow> opened st keys d"
  by (simp add: opened_def active_def ctl_eq_iff)

lemma opened_quiet: "opened st keys c \<Longrightarrow> view d = view c \<Longrightarrow> opened st keys d"
  using opened_cong [of st keys c d] view_ctl [of d c] unfolding opened_def by metis

lemma issue_once_opened:
  assumes "opened st keys c" "key \<in> set keys"
  shows "opened st keys (fst (issue_once st key c))"
  using assms issue_once_keep(1) [of c st keys key]
  by (intro opened_cong [OF assms(1)]) (simp_all add: opened_def frame_simps)

lemma issue_loop_keep:
  assumes "opened st keys c" "key \<in> set keys" "prev \<noteq> Applied"
  shows "opened st keys (fst (issue_loop n prev st key c)) \<and>
    (snd (issue_loop n prev st key c) = Inr Applied \<longrightarrow>
       applied_in_ledger key (c_world (fst (issue_loop n prev st key c)))) \<and>
    (applied_in_ledger k (c_world c) \<longrightarrow> applied_in_ledger k (c_world (fst (issue_loop n prev st key c))))"
  using assms
proof (induction n arbitrary: prev c)
  case (Suc n)
  obtain d r where io: "issue_once st key c = (d, r)" by fastforce
  have d: "opened st keys d" using issue_once_opened [OF Suc.prems(1,2)] by (simp add: io)
  have app: "applied_in_ledger k (c_world c) \<longrightarrow> applied_in_ledger k (c_world d)"
    and new: "r = Inr Applied \<longrightarrow> applied_in_ledger key (c_world d)"
    using issue_once_keep(2,3) [of c st keys key] Suc.prems by (auto simp: opened_def io)
  show ?case
  proof (cases r)
    case (Inr x)
    show ?thesis
    proof (cases "issue_stops x")
      case False
      let ?d = "d\<lparr>c_world := advance 1 (c_world d)\<rparr>"
      have "x \<noteq> Applied" using False by (auto simp: issue_stops_def)
      moreover have "opened st keys ?d" by (rule opened_quiet [OF d]) (simp add: frame_simps)
      moreover have "applied_in_ledger k (advance 1 (c_world d)) = applied_in_ledger k (c_world d)"
        by (simp add: applied_in_ledger_def advance_def)
      ultimately show ?thesis using Suc.IH [of ?d x] Suc.prems(2) app by (simp add: io Inr False)
    qed (use d app new Inr in \<open>auto simp: io issue_stops_def\<close>)
  qed (use d app new in \<open>simp add: io\<close>)
qed simp

lemmas issue_keep = issue_loop_keep [where prev = "Rejected RUnissued" and n = MAX_ATTEMPTS,
    folded issue_def, simplified]

lemma issue_all_keep:
  assumes "opened st keys c" "set ks \<subseteq> set keys"
  shows "opened st keys (fst (issue_all st ks c)) \<and>
    (\<forall>rs. snd (issue_all st ks c) = Inr rs \<longrightarrow> (\<forall>x\<in>set rs. snd x = Applied) \<longrightarrow>
       (\<forall>k\<in>set ks. applied_in_ledger k (c_world (fst (issue_all st ks c))))) \<and>
    (\<forall>k. applied_in_ledger k (c_world c) \<longrightarrow> applied_in_ledger k (c_world (fst (issue_all st ks c))))"
  using assms
proof (induction ks arbitrary: c)
  case (Cons key ks)
  obtain d r where io: "issue st key c = (d, r)" by fastforce
  have key: "key \<in> set keys" using Cons.prems(2) by simp
  have d: "opened st keys d" and new: "r = Inr Applied \<longrightarrow> applied_in_ledger key (c_world d)"
    and app: "\<And>k. applied_in_ledger k (c_world c) \<Longrightarrow> applied_in_ledger k (c_world d)"
    using issue_keep [OF Cons.prems(1) key] by (auto simp: io)
  have ref: "c_mutations d = {}" using d sane_coord(5) by (auto simp: opened_def)
  show ?case
  proof (cases r)
    case (Inr x)
    obtain e s where ia: "issue_all st ks d = (e, s)" by fastforce
    have "opened st keys e" and tl: "\<forall>rs. s = Inr rs \<longrightarrow> (\<forall>x\<in>set rs. snd x = Applied) \<longrightarrow>
         (\<forall>k\<in>set ks. applied_in_ledger k (c_world e))"
      and mono: "\<forall>k. applied_in_ledger k (c_world d) \<longrightarrow> applied_in_ledger k (c_world e)"
      using Cons.IH [OF d] Cons.prems(2) by (simp_all add: ia)
    then show ?thesis using new app Inr
      by (cases s) (auto simp: io ia ref)
  qed (use d app in \<open>simp add: io\<close>)
qed simp

subsection \<open>Resume under the contract\<close>

lemma opened_recon:
  assumes "opened st keys c"
  shows "opened st keys (durable (RecReconciliation s k rb tm b) c)"
proof (rule opened_quiet [OF assms])
  have "I (view c)" using assms by (simp add: opened_def)
  then show "view (durable (RecReconciliation s k rb tm b) c) = view c"
    by (intro view_durable) (simp_all add: sane_coord)
qed

lemma opened_cevent: "opened st keys c \<Longrightarrow> opened st keys (cevent k c)"
  by (rule opened_quiet) (auto simp: frame_simps)

lemma opened_readback: "opened st keys c \<Longrightarrow> opened st keys (c\<lparr>c_world := fst (readback k (c_world c))\<rparr>)"
  by (rule opened_quiet) (auto simp: frame_simps)

lemma opened_pause: "opened st keys c \<Longrightarrow> I (view (pause r c))"
  by (auto simp: opened_def intro: pause_any)

lemma reconcile_keys_keep:
  assumes "opened st keys c" "set ks \<subseteq> set keys"
  shows "I (view (fst (reconcile_keys st ks c)))"
    and "snd (reconcile_keys st ks c) = Inr True \<Longrightarrow> opened st keys (fst (reconcile_keys st ks c))"
proof -
  have "I (view (fst (reconcile_keys st ks c))) \<and>
    (snd (reconcile_keys st ks c) = Inr True \<longrightarrow> opened st keys (fst (reconcile_keys st ks c)))"
    using assms
  proof (induction ks arbitrary: c)
    case Nil
    then show ?case by (simp add: opened_def)
  next
    case (Cons key ks)
    have ref: "c_mutations c = {}" using Cons.prems(1) sane_coord(5) by (auto simp: opened_def)
    obtain w rb where rd: "readback key (c_world c) = (w, rb)" by fastforce
    define d where "d = cevent (EvReconcileReadback key rb) (durable (RecReconciliation st key rb rb False) (c\<lparr>c_world := w\<rparr>))"
    have d: "opened st keys d"
      using opened_readback [OF Cons.prems(1), of key] unfolding d_def
      by (intro opened_cevent opened_recon) (simp add: rd)
    obtain e r where io: "issue st key d = (e, r)" by fastforce
    have e: "opened st keys e" using issue_keep [OF d, of key] Cons.prems(2) by (simp add: io)
    have eq: "reconcile_keys st (key # ks) c = (case rb of
         None \<Rightarrow> (pause UNKNOWN_EFFECT_UNRECONCILED d, Inr False)
       | Some RbApplied \<Rightarrow> reconcile_keys st ks d
       | Some RbNotApplied \<Rightarrow> bindx (e, r) (\<lambda>c r. case r of
           Unknown \<Rightarrow> (pause UNKNOWN_EFFECT_UNRECONCILED
                        (durable (RecReconciliation st key None None False) c), Inr False)
         | Rejected rj \<Rightarrow> (pause (reason_for rj) c, Inr False)
         | Applied \<Rightarrow> reconcile_keys st ks c))"
      unfolding reconcile_keys.simps rd prod.case Let_def d_def [symmetric] io by (simp add: ref)
    show ?case
    proof (cases rb)
      case None
      then show ?thesis using d by (simp del: reconcile_keys.simps add: eq opened_pause)
    next
      case (Some x)
      show ?thesis
      proof (cases x)
        case RbApplied
        then show ?thesis using Some d Cons.IH Cons.prems(2) by (simp del: reconcile_keys.simps add: eq)
      next
        case RbNotApplied
        show ?thesis
        proof (cases r)
          case (Inl y)
          then show ?thesis using Some RbNotApplied e by (simp del: reconcile_keys.simps add: eq opened_def)
        next
          case (Inr y)
          then show ?thesis using Some RbNotApplied e Cons.IH [OF e] Cons.prems(2)
            opened_pause [OF opened_recon [OF e]] opened_pause [OF e]
            by (cases y) (simp_all del: reconcile_keys.simps add: eq)
        qed
      qed
    qed
  qed
  then show "I (view (fst (reconcile_keys st ks c)))"
    "snd (reconcile_keys st ks c) = Inr True \<Longrightarrow> opened st keys (fst (reconcile_keys st ks c))" by auto
qed

lemma readback_all_applied:
  "snd (readback_all ks c) \<Longrightarrow> \<forall>k\<in>set ks. applied_in_ledger k (c_world (fst (readback_all ks c)))"
proof (induction ks arbitrary: c)
  case (Cons k ks)
  obtain w rb where rd: "readback k (c_world c) = (w, rb)" by fastforce
  let ?c = "c\<lparr>c_world := w\<rparr>"
  have rb: "rb = Some RbApplied" using Cons.prems rd by (simp split: if_splits)
  have core: "core_of w = core_of (c_world c)" using core_readback [of k "c_world c"] rd by simp
  have "applied_in_ledger k (c_world c)" using rd rb by (auto simp: readback_def Let_def split: if_splits)
  with core have "applied_in_ledger k w" by (metis core_of_sel(9))
  moreover have "core_of (c_world (fst (readback_all ks ?c))) = core_of w"
    using arg_cong [OF view_readback_all [of ks ?c], of v_core] by simp
  ultimately have "applied_in_ledger k (c_world (fst (readback_all ks ?c)))" by (metis core_of_sel(9))
  moreover have "snd (readback_all ks ?c)" using Cons.prems rd rb by simp
  ultimately show ?case using Cons.IH [of ?c] rd rb by simp
qed simp

lemma reconcile_keep:
  assumes "opened st keys c"
  shows "I (view (fst (reconcile st keys c)))"
proof -
  obtain d r where rk: "reconcile_keys st keys c = (d, r)" by fastforce
  note k = reconcile_keys_keep [OF assms subset_refl, unfolded rk fst_conv snd_conv]
  obtain e b where ra: "readback_all keys d = (e, b)" by fastforce
  have ve: "view e = view d" using view_readback_all [of keys d] ra by simp
  show ?thesis
  proof (cases r)
    case (Inr y)
    show ?thesis
    proof (cases "y \<and> b")
      case True
      then have "opened st keys e" using k(2) opened_quiet [OF _ ve] Inr by simp
      moreover have "\<forall>k\<in>set keys. applied_in_ledger k (c_world e)"
        using readback_all_applied [of keys d] True ra by simp
      ultimately have "I (view (checkpoint st keys ViaReconciliation e))"
        by (intro keep_checkpoint) (auto simp: opened_def)
      with True Inr show ?thesis by (simp add: reconcile_def rk ra)
    next
      case False
      with k(1) ve Inr show ?thesis by (cases b) (auto simp: reconcile_def rk ra)
    qed
  qed (use k in \<open>simp add: reconcile_def rk\<close>)
qed

lemma forward_any:
  assumes "I (view (c :: 'h coord))"
  shows "I (view (fst (forward_recovery c)))"
proof (cases "c_state c = PAUSED_SAFE \<and> c_paused_reason c \<noteq> None \<and> pause_cleared c")
  case True
  then show ?thesis using paused_at_working [OF assms] keep_forward [OF assms] by auto
qed (use assms in \<open>auto simp: forward_recovery_def\<close>)

lemma resume_keep:
  assumes "I (view (c :: 'h coord))"
  shows "I (view (fst (resume c)))"
proof -
  define d where "d = cevent (EvResume (c_state c) (c_resume_count c + 1)) (c\<lparr>c_resume_count := c_resume_count c + 1\<rparr>)"
  have v: "view d = view c" by (simp add: d_def frame_simps)
  have d: "I (view d)" using assms v by simp
  have ref: "c_mutations d = {}" by (rule sane_coord(5) [OF d])
  have st: "c_state d = c_state c" using view_ctl [OF v] by (simp add: ctl_eq_iff)
  have dt: "double_transition d = d" by (simp add: double_transition_def ref)
  define m where "m = (case dangling_intent (c_journal d) of None \<Rightarrow> (d, Inr ())
     | Some (st, keys) \<Rightarrow> reconcile st keys d)"
  have eq: "resume c = (if c_state c \<in> {ABORTED, COMPLETE} then (d, Inr (c_state d, False))
     else if \<not> auth_valid (c_world d)
     then (pause AUTH_REVOKED d, Inr (c_state (pause AUTH_REVOKED d), c_state c \<noteq> c_state (pause AUTH_REVOKED d)))
     else bindx m (\<lambda>c2 _. bindx (forward_recovery c2) (\<lambda>c3 _. (c3, Inr (c_state c3, c_state c \<noteq> c_state c3)))))"
    unfolding resume_unfold d_def [symmetric] Let_def dt m_def st by (simp only: ref empty_iff simp_thms)
  have "I (view (fst (bindx m (\<lambda>c2 _. bindx (forward_recovery c2) (\<lambda>c3 _. (c3, Inr (c_state c3, c_state c \<noteq> c_state c3)))))))"
    if act: "active d"
  proof -
    have "I (view (fst m))"
      using d act by (auto simp: m_def opened_def intro!: reconcile_keep split: option.split)
    then have fr: "I (view (fst (forward_recovery (fst m))))" by (rule forward_any)
    show ?thesis
      by (rule fst_bindx_induct [where P = "\<lambda>c. I (view c)"], rule \<open>I (view (fst m))\<close>,
          rule fst_bindx_induct [where P = "\<lambda>c. I (view c)"]) (use fr in auto)
  qed
  then show ?thesis using d pause_any [OF d] st by (simp add: eq active_def)
qed

subsection \<open>Step, run, abort and rollback under the contract\<close>

lemma fire_keep: "fault_hook hook \<Longrightarrow> I (view c) \<Longrightarrow> I (view (fst (fire hook p st c)))"
  by (simp add: view_fire)

lemma all_applied_results:
  "find (\<lambda>kr. snd kr = Unknown) rs = None \<Longrightarrow> first_rejected rs = None \<Longrightarrow> \<forall>x\<in>set rs. snd x = Applied"
  by (induction rs rule: first_rejected.induct) (auto split: if_splits)

lemma step_effects_keep:
  assumes "fault_hook hook" "I (view c)" "working (c_state c)"
  shows "I (view (fst (step_effects hook (next_state (c_state c)) c)))"
proof -
  let ?n = "next_state (c_state c)"
  define keys where "keys = effect_keys ?n c"
  define d where "d = durable (RecIntent ?n keys) c"
  have so: "sound c" by (rule sane_coord(3) [OF assms(2)])
  have d: "opened ?n keys d"
    using keep_intent [OF assms(2,3) refl] working_active [OF assms(3)] view_ctl_intent [OF so, of ?n keys]
    by (simp add: opened_def active_def keys_def d_def)
  obtain e r where ia: "issue_all ?n keys d = (e, r)" by fastforce
  note ak = issue_all_keep [OF d subset_refl, unfolded ia fst_conv snd_conv]
  have e: "opened ?n keys e" using ak by simp
  have eq: "step_effects hook ?n c = bindx (e, r) (\<lambda>c results.
        case find (\<lambda>kr. snd kr = Unknown) results of
          Some (key, _) \<Rightarrow>
            (pause UNKNOWN_EFFECT_UNRECONCILED (durable (RecReconciliation ?n key None None False) c),
             Inr (c_state (pause UNKNOWN_EFFECT_UNRECONCILED (durable (RecReconciliation ?n key None None False) c))))
        | None \<Rightarrow>
            (case first_rejected results of
               Some rj \<Rightarrow> (pause (reason_for rj) c, Inr (c_state (pause (reason_for rj) c)))
             | None \<Rightarrow>
                 bindx (fire hook AfterEffect ?n c) (\<lambda>c _.
                 bindx (fire hook AfterCheckpoint ?n (checkpoint ?n keys ViaStep c)) (\<lambda>c _.
                   (c, Inr (c_state c))))))"
    unfolding step_effects_def Let_def keys_def [symmetric] d_def [symmetric] ia ..
  show ?thesis
  proof (cases r)
    case (Inr rs)
    have done_keep: "I (view (fst (bindx (fire hook AfterEffect ?n e) (\<lambda>c _.
        bindx (fire hook AfterCheckpoint ?n (checkpoint ?n keys ViaStep c)) (\<lambda>c _. (c, Inr (c_state c)))))))"
      if all: "\<forall>k\<in>set keys. applied_in_ledger k (c_world e)"
    proof (rule fst_bindx_induct [where P = "\<lambda>c. I (view c)"])
      show "I (view (fst (fire hook AfterEffect ?n e)))"
        using fire_keep [OF assms(1)] e by (simp add: opened_def)
      fix f u assume f: "fire hook AfterEffect ?n e = (f, Inr u)"
      then have vf: "view f = view e" using view_fire [OF assms(1), of AfterEffect ?n e] by simp
      have "opened ?n keys f" by (rule opened_quiet [OF e vf])
      moreover have "\<forall>k\<in>set keys. applied_in_ledger k (c_world f)"
        using all arg_cong [OF vf, of v_core] by (metis core_of_sel(9) view_sel(7))
      ultimately have "I (view (checkpoint ?n keys ViaStep f))"
        by (intro keep_checkpoint) (auto simp: opened_def)
      then have "I (view (fst (fire hook AfterCheckpoint ?n (checkpoint ?n keys ViaStep f))))"
        by (rule fire_keep [OF assms(1)])
      then show "I (view (fst (bindx (fire hook AfterCheckpoint ?n (checkpoint ?n keys ViaStep f)) (\<lambda>c _. (c, Inr (c_state c))))))"
        by (rule fst_bindx_induct [where P = "\<lambda>c. I (view c)"]) (metis fst_conv \<open>I (view (fst (fire hook AfterCheckpoint ?n (checkpoint ?n keys ViaStep f))))\<close>)
    qed
    show ?thesis
    proof (cases "find (\<lambda>kr. snd kr = Unknown) rs")
      case None
      then show ?thesis
        using Inr done_keep ak all_applied_results [OF None] opened_pause [OF e]
        by (cases "first_rejected rs") (simp_all add: eq)
    next
      case (Some kr)
      then show ?thesis using Inr opened_pause [OF opened_recon [OF e]] by (cases kr) (simp add: eq)
    qed
  qed (use e in \<open>simp add: eq opened_def\<close>)
qed

lemma step_guarded_keep:
  assumes "fault_hook hook" "I (view c)" "working (c_state c)"
  shows "I (view (fst (case guard (next_state (c_state c)) obs c of
      (c1, Some g) \<Rightarrow> (pause g c1, Inr (c_state (pause g c1)))
    | (c1, None) \<Rightarrow> step_effects hook (next_state (c_state c)) c1)))"
proof -
  obtain c1 g where gd: "guard (next_state (c_state c)) obs c = (c1, g)" by fastforce
  then have v: "view c1 = view c" using view_guard [of "next_state (c_state c)" obs c] by simp
  then have st: "c_state c1 = c_state c" using view_ctl [OF v] by (simp add: ctl_eq_iff)
  have w: "working (c_state c1)" using assms(3) st by simp
  have i: "I (view c1)" using assms(2) v by simp
  show ?thesis
    using step_effects_keep [OF assms(1) i w] pause_any [OF i working_active [OF w]]
    by (simp add: gd st split: option.split)
qed

lemma step_keep:
  assumes "fault_hook hook" "I (view (c :: 'h coord))"
  shows "I (view (fst (step H hook c)))"
proof (cases "terminal (c_state c)")
  case False
  let ?n = "next_state (c_state c)" and ?P = "\<lambda>c. I (view c)"
  have w: "working (c_state c)" using False by (simp add: working_iff)
  define d where "d = c\<lparr>c_world := advance STEP_TICKS (c_world c)\<rparr>"
  have step: "step H hook c = bindx (fire hook BeforeObservation ?n d) (\<lambda>c _.
      if \<not> known_good_ok H (c_world c)
      then (pause KNOWN_GOOD_CORRUPT c, Inr (c_state (pause KNOWN_GOOD_CORRUPT c)))
      else bindx (step_observe H ?n c) (\<lambda>c obs. bindx (fire hook AfterObservation ?n c) (\<lambda>c _.
        case guard ?n obs c of
          (c, Some g) \<Rightarrow> (pause g c, Inr (c_state (pause g c)))
        | (c, None) \<Rightarrow> step_effects hook ?n c)))"
    using False unfolding step_def Let_def d_def by simp
  have same: "c_state x = c_state c" "I (view x)" if "view x = view c" for x :: "'h coord"
    using view_ctl [OF that] that assms(2) by (simp_all add: ctl_eq_iff)
  have v0: "view (fst (fire hook BeforeObservation ?n d)) = view c"
    by (simp add: view_fire [OF assms(1)] d_def frame_simps)
  show ?thesis unfolding step
  proof (rule fst_bindx_induct [where P = ?P])
    show "I (view (fst (fire hook BeforeObservation ?n d)))" using v0 same(2) by blast
    fix c1 u assume "fire hook BeforeObservation ?n d = (c1, Inr u)"
    then have v1: "view c1 = view c" using v0 by simp
    note i1 = same(2) [OF v1]
    have a1: "active c1" using working_active w same(1) [OF v1] by metis
    have v2: "view (fst (step_observe H ?n c1)) = view c"
      using v1 sane_coord(1,2) [OF i1] by (simp add: frame_simps)
    have obs: "I (view (fst (bindx (step_observe H ?n c1) (\<lambda>c obs.
        bindx (fire hook AfterObservation ?n c) (\<lambda>c _. case guard ?n obs c of
          (c, Some g) \<Rightarrow> (pause g c, Inr (c_state (pause g c)))
        | (c, None) \<Rightarrow> step_effects hook ?n c)))))"
    proof (rule fst_bindx_induct [where P = ?P])
      show "I (view (fst (step_observe H ?n c1)))" using v2 same(2) by blast
      fix c2 ob assume "step_observe H ?n c1 = (c2, Inr ob)"
      then have v2': "view c2 = view c" using v2 by simp
      have v3: "view (fst (fire hook AfterObservation ?n c2)) = view c"
        by (simp add: view_fire [OF assms(1)] v2')
      show "I (view (fst (bindx (fire hook AfterObservation ?n c2) (\<lambda>c _. case guard ?n ob c of
          (c, Some g) \<Rightarrow> (pause g c, Inr (c_state (pause g c)))
        | (c, None) \<Rightarrow> step_effects hook ?n c))))"
      proof (rule fst_bindx_induct [where P = ?P])
        show "I (view (fst (fire hook AfterObservation ?n c2)))" using v3 same(2) by blast
        fix c3 u' assume "fire hook AfterObservation ?n c2 = (c3, Inr u')"
        then have "view c3 = view c" using v3 by simp
        from same [OF this] w step_guarded_keep [OF assms(1), of c3 ob]
        show "I (view (fst (case guard ?n ob c3 of
          (c, Some g) \<Rightarrow> (pause g c, Inr (c_state (pause g c)))
        | (c, None) \<Rightarrow> step_effects hook ?n c)))" by simp
      qed
    qed
    show "I (view (fst (if \<not> known_good_ok H (c_world c1)
      then (pause KNOWN_GOOD_CORRUPT c1, Inr (c_state (pause KNOWN_GOOD_CORRUPT c1)))
      else bindx (step_observe H ?n c1) (\<lambda>c obs. bindx (fire hook AfterObservation ?n c) (\<lambda>c _.
        case guard ?n obs c of
          (c, Some g) \<Rightarrow> (pause g c, Inr (c_state (pause g c)))
        | (c, None) \<Rightarrow> step_effects hook ?n c)))))"
      using obs pause_any [OF i1 a1] by simp
  qed
qed (use assms in \<open>simp add: step_def\<close>)

lemma run_keep:
  assumes "fault_hook hook" "I (view (c :: 'h coord))"
  shows "I (view (fst (run H hook c)))"
proof -
  have "I (view (fst (run_loop n H hook c)))" for n
    using assms(2)
  proof (induction n arbitrary: c)
    case (Suc n)
    show ?case unfolding run_loop.simps
      by (rule fst_bindx_induct [where P = "\<lambda>c. I (view c)"])
        (use step_keep [OF assms(1) Suc.prems, of H] Suc.IH in auto)
  qed simp
  then show ?thesis by (simp add: run_def)
qed

lemma abort_keep:
  assumes "I (view (c :: 'h coord))"
  shows "I (view (fst (abort why c)))"
proof (cases "active c \<and> \<not> past_commit (Some (eff_state c))")
  case True
  then show ?thesis using keep_abort assms by blast
next
  case False
  have "(if c_state c = PAUSED_SAFE then c_paused_at c else Some (c_state c)) = Some (eff_state c)"
    using paused_at_working [OF assms] by (auto simp: eff_state_eq)
  with False show ?thesis
    using abort_refused_view [of c why] sane_coord(5) [OF assms] assms by (auto simp: active_def)
qed

lemma rollback_keep:
  assumes "I (view (c :: 'h coord))" "active c \<or> known_good_ok H (c_world c)"
  shows "I (view (fst (rollback_to_known_good H c)))"
proof (cases "known_good_ok H (c_world c)")
  case True
  then show ?thesis
    using assms(1) sane_coord [OF assms(1)]
    by (simp add: rollback_to_known_good_def Let_def frame_simps)
next
  case False
  let ?d = "durable (RecRollback False (Some KNOWN_GOOD_CORRUPT) None None) c"
  have d: "view ?d = view c"
    by (intro view_durable) (simp_all add: sane_coord [OF assms(1)])
  then have "active ?d" using assms(2) False view_ctl [OF d] by (simp add: active_def ctl_eq_iff)
  then have "I (view (pause KNOWN_GOOD_CORRUPT ?d))" using pause_any d assms(1) by simp
  with False show ?thesis
    using sane_coord [OF assms(1)]
    by (simp add: rollback_to_known_good_def Let_def frame_simps)
qed

end

end
