(* ===== verification/Drill_Recovery.thy ===== *)
theory Drill_Recovery
  imports Drill_Invariant
begin

section \<open>The journal invariant and crash recovery\<close>

text \<open>
  \<open>jinv\<close>: the journal determines the volatile fields, the target epoch is the one the recorded
  lease names and is one above or equal to the authority's epoch, and it is reached only once
  the commit is at least open. It is an interpretation of \<open>coord_invariant\<close>, holds in every
  reachable coordinator (\<open>reach_unreopened\<close>) and makes a restart from the journal exact.
\<close>

definition committed :: "cstate \<Rightarrow> bool" where
  "committed s \<longleftrightarrow> s \<in> {WRITE_COMMITTED, HOSTS_ACTIVATING, OBSERVING, COMPLETE}"

definition keys_for :: "string \<Rightarrow> int \<Rightarrow> cstate \<Rightarrow> effect_key list" where
  "keys_for m e st = (if st = HOSTS_ACTIVATING then map (\<lambda>h. EffKey m e (KAck h)) HOSTS
     else [EffKey m e (KPhase st)])"

lemma effect_keys_for: "effect_keys st c = keys_for (c_migration_id c) (c_target_epoch c) st"
  by (simp add: effect_keys_def keys_for_def)

definition jinv :: "view \<Rightarrow> bool" where
  "jinv v \<longleftrightarrow> v_seq_ok v \<and> v_open v \<and> cinv (v_ctl v) \<and>
     v_token v = map_option fst (v_rec_lease v) \<and>
     (\<forall>tok e. v_rec_lease v = Some (tok, e) \<longrightarrow> e = v_target v) \<and>
     ct_keyed (v_ctl v) = v_rec_keyed v \<and>
     (\<forall>st keys. ct_dangling (v_ctl v) = Some (st, keys) \<longrightarrow>
        keys = keys_for (ct_migration_id (v_ctl v)) (v_target v) st) \<and>
     (w_epoch (v_core v) = v_target v - 1 \<or>
      w_epoch (v_core v) = v_target v \<and> v_rec_lease v \<noteq> None \<and>
        (ct_state (v_ctl v) = ABORTED \<or> committed (eff_ctl (v_ctl v)) \<or>
         eff_ctl (v_ctl v) = VALIDATED \<and> ct_dangling (v_ctl v) \<noteq> None))"

lemma past_commit_iff: "past_commit (Some s) \<longleftrightarrow> committed s"
  by (cases s) (simp_all add: past_commit_def committed_def STATES_def)

lemma committed_next: "working s \<Longrightarrow> committed s \<Longrightarrow> committed (next_state s)"
  by (erule working_cases) (simp_all add: committed_def)

lemma jinvD:
  assumes "jinv (view c)"
  shows "sound c" "c_mutations c = {}" "cinv (ctl c)"
    "c_state c = PAUSED_SAFE \<Longrightarrow> \<exists>s. c_paused_at c = Some s \<and> working s"
  using assms by (auto simp: jinv_def sound_def cinv_def)

text \<open>An open intent is the one for the state after the present one.\<close>

lemma jinv_open:
  assumes "jinv (view c)" "active c" "dangling_intent (c_journal c) = Some (st, keys)"
  shows "working (eff_state c)" "st = next_state (eff_state c)"
    "keys = keys_for (c_migration_id c) (c_target_epoch c) st"
  using assms by (auto simp: jinv_def cinv_def eff_state_def active_def)

lemma jinv_pause:
  assumes "jinv (view c)" "active c" "c_state c \<noteq> PAUSED_SAFE"
  shows "jinv (view (pause r c))"
proof -
  have "working (c_state c)" using assms(2,3) by (cases "c_state c") (auto simp: active_def working_def STATES_def)
  then show ?thesis
    using assms unfolding view_pause [OF jinvD(1,2) [OF assms(1)] assms(3)]
    by (auto simp: jinv_def cinv_def eff_ctl_def active_def split: option.splits)
qed

lemma jinv_intent:
  assumes "jinv (view c)" "working (c_state c)" "nxt = next_state (c_state c)"
  shows "jinv (view (durable (RecIntent nxt (effect_keys nxt c)) c))"
proof -
  have "c_state c \<noteq> PAUSED_SAFE" using assms(2) by (auto simp: working_def STATES_def)
  then show ?thesis
    using assms unfolding view_intent [OF jinvD(1) [OF assms(1)]]
    by (auto simp: jinv_def cinv_def eff_ctl_def effect_keys_for)
qed

lemma eff_of_dangling:
  assumes "jinv (view c)" "active c" "dangling_intent (c_journal c) = Some (st, keys)"
  shows "st \<noteq> PAUSED_SAFE" "st \<noteq> ABORTED" "st \<noteq> INIT"
  using next_state_neq [OF jinv_open(1) [OF assms]] jinv_open(2) [OF assms] by auto

lemma jinv_checkpoint:
  assumes "jinv (view c)" "active c" "dangling_intent (c_journal c) = Some (st, keys)"
  shows "jinv (view (checkpoint st keys v c))"
proof -
  have "committed (eff_state c) \<or> eff_state c = VALIDATED \<longrightarrow> committed st"
    using committed_next [OF jinv_open(1) [OF assms]] jinv_open(2) [OF assms] by (auto simp: committed_def)
  then show ?thesis
    using assms eff_of_dangling [OF assms]
    unfolding view_checkpoint [OF jinvD(1) [OF assms(1)] eff_of_dangling(1) [OF assms]]
    by (auto simp: jinv_def cinv_def eff_state_def eff_ctl_def active_def)
qed

lemma jinv_forward:
  assumes "jinv (view c)" "c_state c = PAUSED_SAFE" "c_paused_at c = Some s" "working s"
    "c_paused_reason c \<noteq> None" "pause_cleared c"
  shows "jinv (view (fst (forward_recovery c)))"
proof -
  have s: "s \<noteq> PAUSED_SAFE" using assms(4) by (auto simp: working_def STATES_def)
  show ?thesis
    using assms s unfolding view_forward [OF jinvD(1) [OF assms(1)] assms(2,3) s assms(5,6)]
    by (auto simp: jinv_def cinv_def eff_ctl_def split: option.splits)
qed

lemma jinv_abort:
  assumes "jinv (view c)" "active c" "\<not> past_commit (Some (eff_state c))"
  shows "jinv (view (fst (abort why c)))"
proof -
  have at: "(if c_state c = PAUSED_SAFE then c_paused_at c else Some (c_state c)) = Some (eff_state c)"
    using jinvD(4) [OF assms(1)] by (auto simp: eff_state_eq)
  show ?thesis
    using assms
      view_abort [OF jinvD(1,2) [OF assms(1)], of why]
    unfolding at by (auto simp: jinv_def cinv_def eff_ctl_def abort_core_def active_def)
qed

text \<open>A key of the open intent names its phase, the migration and the target epoch.\<close>

lemma keys_for_cases:
  assumes "key \<in> set (keys_for m e st)"
  obtains (phase) "st \<noteq> HOSTS_ACTIVATING" "key = EffKey m e (KPhase st)"
  | (ack) h where "st = HOSTS_ACTIVATING" "key = EffKey m e (KAck h)"
  using assms by (auto simp: keys_for_def split: if_splits)

lemma jinv_core:
  "jinv v \<Longrightarrow> w_epoch c = w_epoch (v_core v) \<Longrightarrow> jinv (v\<lparr>v_core := c\<rparr>)"
  by (simp add: jinv_def)

lemma jinv_mark [simp]: "jinv (mark k v) = jinv v"
  by (simp add: jinv_def)

lemma jinv_effect:
  assumes "jinv (view c)" "active c" "dangling_intent (c_journal c) = Some (st, keys)"
    "key \<in> set keys" "effect_fn st key c = (d, r)"
  shows "jinv (if r = Inr Applied then mark key (view d) else view d)"
proof -
  note op = jinv_open [OF assms(1-3)] and so = jinvD(1) [OF assms(1)] and ref = jinvD(2) [OF assms(1)]
  have "jinv (view d)"
  proof (cases st)
    case QUIESCING
    then show ?thesis using view_quiesce [of key c d r] assms(1,5) by (auto intro!: jinv_core)
  next
    case FENCED
    then have eff: "eff_state c = QUIESCING" using op by (auto elim!: working_cases)
    have ep: "current_epoch (auth (c_world c)) = c_target_epoch c - 1"
      using assms(1,2) eff by (auto simp: jinv_def eff_state_def active_def committed_def)
    have "effect_fn FENCED key c = (d, r)" using assms(5) FENCED by simp
    from this so show ?thesis
    proof (cases rule: view_fence)
      case (taken l)
      then show ?thesis using assms(1) ep by (auto simp: jinv_def fenced_core_def)
    qed (use assms(1) in \<open>auto simp: fenced_core_def intro!: jinv_core\<close>)
  next
    case WRITE_COMMITTED
    then have eff: "eff_state c = VALIDATED" using op by (auto elim!: working_cases)
    have "effect_fn WRITE_COMMITTED key c = (d, r)" using assms(5) WRITE_COMMITTED by simp
    from this ref show ?thesis
    proof (cases rule: view_commit)
      case (applied t)
      have "rec_lease (c_journal c) \<noteq> None" using applied(2) assms(1)
        by (cases "rec_lease (c_journal c)") (auto simp: jinv_def)
      with applied show ?thesis using assms(1,3) eff by (auto simp: jinv_def eff_state_def)
    qed (use assms(1) in simp)
  next
    case HOSTS_ACTIVATING
    with assms(4) op(3) obtain m e h where "key = EffKey m e (KAck h)" by (auto elim: keys_for_cases)
    with assms(5) HOSTS_ACTIVATING have "effect_fn HOSTS_ACTIVATING (EffKey m e (KAck h)) c = (d, r)" by simp
    from this ref show ?thesis
      by (cases rule: view_ack) (use assms(1) in \<open>auto intro!: jinv_core\<close>)
  next
    case COMPLETE
    then show ?thesis using view_complete [of key c d r] so assms(1,5)
      by (auto simp: abort_core_def intro!: jinv_core)
  qed (use assms(1,5) view_other [of st key c d r] in auto)
  then show ?thesis by simp
qed

interpretation journal: coord_invariant jinv hook for hook :: "'h hook"
proof unfold_locales
  show "v_seq_ok v \<and> v_open v \<and> cinv (v_ctl v)" if "jinv v" for v
    using that by (simp add: jinv_def)
  show "jinv (v\<lparr>v_ctl := (v_ctl v)\<lparr>ct_paused_reason := a, ct_paused_at := b\<rparr>\<rparr>)"
    if "jinv v" "ct_state (v_ctl v) \<noteq> PAUSED_SAFE" for v a b
    using that by (auto simp: jinv_def cinv_def eff_ctl_def split: option.splits)
qed (assumption | rule jinv_pause jinv_intent jinv_effect jinv_checkpoint jinv_forward jinv_abort)+

subsection \<open>Starting a process from a journal\<close>

lemma recover_rec_frame [simp]:
  "c_world (recover_rec r c) = c_world c" "c_journal (recover_rec r c) = c_journal c"
  "c_observer (recover_rec r c) = c_observer c" "c_migration_id (recover_rec r c) = c_migration_id c"
  "c_mutations (recover_rec r c) = c_mutations c" "c_hook (recover_rec r c) = c_hook c"
  by (simp_all add: recover_rec_def Let_def split: jbody.split)

lemma fold_recover_frame [simp]:
  "c_world (fold recover_rec js c) = c_world c" "c_journal (fold recover_rec js c) = c_journal c"
  "c_observer (fold recover_rec js c) = c_observer c"
  "c_migration_id (fold recover_rec js c) = c_migration_id c"
  "c_mutations (fold recover_rec js c) = c_mutations c" "c_hook (fold recover_rec js c) = c_hook c"
  by (induction js arbitrary: c) simp_all

lemma fold_recover:
  assumes "c_state c = INIT" "c_lease_token c = None"
  shows "c_state (fold recover_rec js c) = rec_state js"
    "c_lease_token (fold recover_rec js c) = map_option fst (rec_lease js)"
    "c_target_epoch (fold recover_rec js c) = (case rec_lease js of None \<Rightarrow> c_target_epoch c | Some (_, e) \<Rightarrow> e)"
    "c_keyed_epoch (fold recover_rec js c) = rec_keyed (c_keyed_epoch c) js"
    "rec_state js = PAUSED_SAFE \<Longrightarrow> c_paused_reason (fold recover_rec js c) = fst (rec_pause js) \<and>
       c_paused_at (fold recover_rec js c) = snd (rec_pause js)"
proof (induction js rule: rev_induct)
  case (snoc r js)
  {
    case 1 with snoc show ?case by (simp add: recover_rec_def Let_def split: jbody.split)
  next
    case 2 with snoc show ?case by (simp add: recover_rec_def Let_def split: jbody.split)
  next
    case 3 with snoc show ?case by (simp add: recover_rec_def Let_def split: jbody.split)
  next
    case 4 with snoc show ?case by (simp add: recover_rec_def Let_def split: jbody.split)
  next
    case 5 with snoc show ?case by (auto simp: recover_rec_def Let_def split: jbody.splits if_splits)
  }
qed (use assms in simp_all)

lemma rec_keyed_meta:
  assumes "js \<noteq> []" "j_body (hd js) = RecMeta m"
  shows "rec_keyed s js = rec_keyed t js"
  using assms by (cases js) (simp_all add: rec_keyed_def)

definition restart :: "observer \<Rightarrow> 'g \<Rightarrow> world \<Rightarrow> 'h coord \<Rightarrow> 'g coord" where
  "restart ob hk w c = Coordinator w (c_journal c) ob (c_migration_id c) (c_mutations c) hk"

lemma restart_fields:
  assumes "jinv (view c)" "current_epoch (auth w) = current_epoch (auth (c_world c))"
  shows "c_world (restart ob hk w c) = w" "c_journal (restart ob hk w c) = c_journal c"
    "c_observer (restart ob hk w c) = ob" "c_hook (restart ob hk w c) = hk"
    "c_migration_id (restart ob hk w c) = c_migration_id c"
    "c_mutations (restart ob hk w c) = {}" "c_state (restart ob hk w c) = c_state c"
    "c_state c = PAUSED_SAFE \<Longrightarrow> c_paused_reason (restart ob hk w c) = c_paused_reason c \<and>
       c_paused_at (restart ob hk w c) = c_paused_at c"
    "c_lease_token (restart ob hk w c) = c_lease_token c"
    "c_target_epoch (restart ob hk w c) = c_target_epoch c"
    "c_keyed_epoch (restart ob hk w c) = c_keyed_epoch c"
proof -
  let ?js = "c_journal c"
  obtain m where js: "?js \<noteq> []" "j_body (hd ?js) = RecMeta m" using assms(1) by (auto simp: jinv_def)
  let ?c0 = "\<lparr>c_world = w, c_journal = ?js, c_observer = ob, c_hook = hk, c_migration_id = c_migration_id c,
     c_mutations = c_mutations c, c_keyed_epoch = source_set_epoch w, c_state = INIT, c_paused_reason = None,
     c_paused_at = None, c_lease_token = None, c_target_epoch = current_epoch (auth w) + 1,
     c_findings = [], c_break_glass_log = [], c_resume_count = 0\<rparr>"
  have eq: "restart ob hk w c = fold recover_rec ?js ?c0"
    using js(1) by (simp add: restart_def Coordinator_def recover_def Let_def)
  note f = fold_recover [of ?c0 ?js, simplified]
  have target: "current_epoch (auth (c_world c)) + 1 = c_target_epoch c" if "rec_lease ?js = None"
    using assms(1) that by (auto simp: jinv_def)
  have tg: "c_target_epoch c = e" if "rec_lease ?js = Some (t, e)" for t e
    using assms(1) that by (auto simp: jinv_def)
  have k: "rec_keyed (source_set_epoch w) ?js = c_keyed_epoch c"
    using rec_keyed_meta [OF js, of "source_set_epoch w" "[]"] assms(1) by (simp add: jinv_def)
  have cv: "cinv (ctl c)" and tok: "c_lease_token c = map_option fst (rec_lease ?js)"
    using assms(1) by (simp_all add: jinv_def)
  show "c_world (restart ob hk w c) = w" "c_journal (restart ob hk w c) = c_journal c"
    "c_observer (restart ob hk w c) = ob" "c_hook (restart ob hk w c) = hk"
    "c_migration_id (restart ob hk w c) = c_migration_id c"
    "c_mutations (restart ob hk w c) = {}" "c_state (restart ob hk w c) = c_state c"
    "c_lease_token (restart ob hk w c) = c_lease_token c"
    "c_keyed_epoch (restart ob hk w c) = c_keyed_epoch c"
    using f(1,2,4) cv by (simp_all add: eq k tok cinv_def)
  show "c_target_epoch (restart ob hk w c) = c_target_epoch c"
    using f(3) target tg assms(2) by (auto simp: eq split: option.split)
  show "c_state c = PAUSED_SAFE \<Longrightarrow> c_paused_reason (restart ob hk w c) = c_paused_reason c \<and>
       c_paused_at (restart ob hk w c) = c_paused_at c"
    using f(5) cv by (auto simp: eq cinv_def)
qed

lemma view_restart:
  assumes "jinv (view c)" "env_step (c_world c) w"
  shows "view (restart ob hk w c) = (view c)\<lparr>v_ctl := (ctl c)\<lparr>
     ct_paused_reason := c_paused_reason (restart ob hk w c), ct_paused_at := c_paused_at (restart ob hk w c)\<rparr>\<rparr>"
proof -
  have "current_epoch (auth w) = current_epoch (auth (c_world c))" using assms(2) by (simp add: env_step_def)
  note f = restart_fields [OF assms(1) this]
  show ?thesis
    using jinvD(2) [OF assms(1)] env_step_core [OF assms(2)] by (simp add: view_def ctl_def f)
qed

lemma view_restart_paused:
  assumes "jinv (view c)" "env_step (c_world c) w" "c_state c = PAUSED_SAFE"
  shows "view (restart ob hk w c) = view c"
proof -
  have "current_epoch (auth w) = current_epoch (auth (c_world c))" using assms(2) by (simp add: env_step_def)
  note p = restart_fields(8) [OF assms(1) this assms(3), of ob hk]
  show ?thesis by (subst view_restart [OF assms(1,2)]) (simp add: p view_def ctl_def)
qed

subsection \<open>Reachable coordinators\<close>

text \<open>
  Everything that can happen to a migration: the coordinator's operations, in any order; a fault
  or the passing of time; and the death of the process at any point (the state a raising hook
  leaves is reachable, because \<open>step\<close> returns it) with a restart from the journal in a world
  that may have changed meanwhile.

  One call is left out, and the name of the relation says so: a rollback of a migration that has
  already ended (ABORTED or COMPLETE) while the known-good pins do not verify. The code refuses that
  rollback but pauses on the way, so the ended migration is open again
  (\<open>refused_rollback_reopens\<close>), and what follows breaks the oracle's order rule and the fence
  (\<open>reopened_breaks_order\<close>, \<open>reopened_commits_unfenced\<close> in \<open>Drill_Findings\<close>). A rollback whose
  pins verify is allowed in every state, ended or not, and so is a refused one while the migration
  is under way.
\<close>

inductive reach_unreopened :: "(string \<Rightarrow> string) \<Rightarrow> 'h hook \<Rightarrow> 'h coord \<Rightarrow> 'h coord \<Rightarrow> bool"
  for H hook c0 where
  init: "reach_unreopened H hook c0 c0"
| step: "reach_unreopened H hook c0 c \<Longrightarrow> reach_unreopened H hook c0 (fst (step H hook c))"
| resume: "reach_unreopened H hook c0 c \<Longrightarrow> reach_unreopened H hook c0 (fst (resume c))"
| abort: "reach_unreopened H hook c0 c \<Longrightarrow> reach_unreopened H hook c0 (fst (abort why c))"
| rollback: "reach_unreopened H hook c0 c \<Longrightarrow> active c \<or> known_good_ok H (c_world c) \<Longrightarrow>
    reach_unreopened H hook c0 (fst (rollback_to_known_good H c))"
| break_glass: "reach_unreopened H hook c0 c \<Longrightarrow> reach_unreopened H hook c0 (fst (use_break_glass bg c))"
| env: "reach_unreopened H hook c0 c \<Longrightarrow> env_step (c_world c) w \<Longrightarrow> reach_unreopened H hook c0 (c\<lparr>c_hook := hk, c_world := w\<rparr>)"
| restart: "reach_unreopened H hook c0 c \<Longrightarrow> env_step (c_world c) w \<Longrightarrow> reach_unreopened H hook c0 (restart ob hk w c)"

lemma env_view: "env_step (c_world c) w \<Longrightarrow> view (c\<lparr>c_hook := hk, c_world := w\<rparr>) = view c"
  by (rule view_eqI) (simp_all add: ctl_def env_step_core)

lemma jinv_restart:
  assumes "jinv (view c)" "env_step (c_world c) w"
  shows "jinv (view (restart ob hk w c))"
proof (cases "c_state c = PAUSED_SAFE")
  case False
  then show ?thesis using assms(1) by (subst view_restart [OF assms])
    (auto simp: jinv_def cinv_def eff_ctl_def split: option.splits)
qed (use view_restart_paused [OF assms, of ob hk] assms(1) in simp)

lemma reach_jinv:
  assumes "reach_unreopened H hook c0 c" "fault_hook hook" "jinv (view c0)"
  shows "jinv (view c)"
  using assms
proof (induction rule: reach_unreopened.induct)
  case (env c w hk)
  then show ?case by (simp add: env_view)
qed (auto intro: journal.step_keep journal.resume_keep journal.abort_keep journal.rollback_keep jinv_restart
    simp: view_use_break_glass)

context coord_invariant
begin

lemma restart_keep:
  assumes "jinv (view c)" "I (view c)" "env_step (c_world c) w"
  shows "I (view (restart ob hk w c))"
proof (cases "c_state c = PAUSED_SAFE")
  case False
  then show ?thesis using keep_stale [OF assms(2)] by (subst view_restart [OF assms(1,3)]) simp
qed (use view_restart_paused [OF assms(1,3), of ob hk] assms(2) in simp)

lemma reach_keep:
  assumes "reach_unreopened H hook c0 c" "fault_hook hook" "jinv (view c0)" "I (view c0)"
  shows "I (view c)"
  using assms
proof (induction rule: reach_unreopened.induct)
  case (env c w hk)
  then show ?case by (simp add: env_view)
next
  case (restart c w ob hk)
  then show ?case using restart_keep [OF reach_jinv [OF restart.hyps(1)]] by simp
qed (auto intro: step_keep resume_keep abort_keep rollback_keep simp: view_use_break_glass)

end

end
