(* ===== verification/Drill_Safety.thy ===== *)
theory Drill_Safety
  imports Drill_Recovery
begin

section \<open>Safety of the cutover\<close>

text \<open>
  \<open>phase_inv\<close>: every phase up to the present one has all its keyed effects in the ledger, and what
  the ledger says was done still holds in the world (the fence, the writer epoch, the acks, the
  legacy policy). \<open>lane_inv\<close>: lanes keep their identity, only migration-owned ones are stopped,
  and the legacy hooks stay as they were. Both are interpretations of \<open>coord_invariant\<close>.
\<close>

subsection \<open>The start of a migration\<close>

lemma jinv_start: "jinv (view (Coordinator w [] ob mig {} hk))"
  by (simp add: Coordinator_def recover_def Let_def durable_def journal_append_def jinv_def view_def
      cinv_def ctl_def eff_ctl_def seq_ok_def dangling_intent_def journal_last_def rec_state_def rec_pause_def
      rec_lease_def rec_keyed_def jkeys_of_def core_of_def)

lemma core_start: "v_core (view (Coordinator w [] ob mig {} hk)) = core_of w"
  by (simp add: Coordinator_def recover_def Let_def durable_def)

lemma ctl_start:
  "c_state (Coordinator w [] ob mig {} hk) = INIT" "c_migration_id (Coordinator w [] ob mig {} hk) = mig"
  "c_target_epoch (Coordinator w [] ob mig {} hk) = current_epoch (auth w) + 1"
  by (simp_all add: Coordinator_def recover_def Let_def durable_def)

subsection \<open>Phases and their effects\<close>

text \<open>\<open>reached s e\<close>: phase \<open>s\<close> is at or before the state \<open>e\<close>.\<close>

fun phase_no :: "cstate \<Rightarrow> nat" where
  "phase_no INIT = 0"
| "phase_no QUIESCING = 1"
| "phase_no FENCED = 2"
| "phase_no FINAL_SYNC = 3"
| "phase_no VALIDATED = 4"
| "phase_no WRITE_COMMITTED = 5"
| "phase_no HOSTS_ACTIVATING = 6"
| "phase_no OBSERVING = 7"
| "phase_no COMPLETE = 8"
| "phase_no PAUSED_SAFE = 9"
| "phase_no ABORTED = 9"

definition applied_phase :: "view \<Rightarrow> cstate \<Rightarrow> bool" where
  "applied_phase v s \<longleftrightarrow> (\<forall>k\<in>set (keys_for (ct_migration_id (v_ctl v)) (v_target v) s). w_applied (v_core v) k)"

definition fence_held :: "view \<Rightarrow> bool" where
  "fence_held v \<longleftrightarrow> w_fence (v_core v) \<and> w_fence_key (v_core v) = Some (fence_key_of (ct_migration_id (v_ctl v)))"

definition closing :: "view \<Rightarrow> bool" where
  "closing v \<longleftrightarrow> ct_state (v_ctl v) = ABORTED \<or> eff_ctl (v_ctl v) = COMPLETE \<or>
     eff_ctl (v_ctl v) = OBSERVING \<and> ct_dangling (v_ctl v) \<noteq> None"

definition facts_hold :: "view \<Rightarrow> bool" where
  "facts_hold v \<longleftrightarrow>
     (applied_phase v FENCED \<longrightarrow> v_rec_lease v \<noteq> None \<and> (fence_held v \<or> closing v)) \<and>
     (applied_phase v WRITE_COMMITTED \<longrightarrow> w_epoch (v_core v) = v_target v) \<and>
     (\<forall>h. w_applied (v_core v) (EffKey (ct_migration_id (v_ctl v)) (v_target v) (KAck h)) \<longrightarrow>
        w_acks (v_core v) h = (Some (v_target v), Some (ct_migration_id (v_ctl v)))) \<and>
     (applied_phase v COMPLETE \<longrightarrow> w_policy (v_core v) = ''read-only'' \<and> \<not> w_fence (v_core v) \<and> closing v)"

definition phase_inv :: "view \<Rightarrow> bool" where
  "phase_inv v \<longleftrightarrow> jinv v \<and> facts_hold v \<and>
     (ct_state (v_ctl v) \<noteq> ABORTED \<longrightarrow>
       (\<forall>s. 1 \<le> phase_no s \<and> phase_no s \<le> phase_no (eff_ctl (v_ctl v)) \<longrightarrow> applied_phase v s))"

lemma phase_no_next: "working s \<Longrightarrow> phase_no (next_state s) = Suc (phase_no s)"
  by (erule working_cases) simp_all

lemma phase_no_inj: "phase_no s = phase_no t \<Longrightarrow> phase_no s < 9 \<Longrightarrow> s = t"
  by (cases s; cases t) simp_all

lemma phase_no_working: "working s \<Longrightarrow> phase_no s < 8"
  by (erule working_cases) simp_all

text \<open>\<open>phase_inv\<close> depends on the control part only through the effective state, the abort and the
  presence of an open intent.\<close>

lemma phase_inv_cong:
  assumes "phase_inv v" "jinv u"
    and "v_core u = v_core v" "v_target u = v_target v" "v_rec_lease u = v_rec_lease v"
    and "ct_migration_id (v_ctl u) = ct_migration_id (v_ctl v)" "eff_ctl (v_ctl u) = eff_ctl (v_ctl v)"
    and "(ct_state (v_ctl u) = ABORTED) = (ct_state (v_ctl v) = ABORTED)"
    and "ct_dangling (v_ctl v) \<noteq> None \<longrightarrow> ct_dangling (v_ctl u) \<noteq> None"
  shows "phase_inv u"
  using assms by (auto simp: phase_inv_def facts_hold_def applied_phase_def fence_held_def closing_def)

lemma phase_pause:
  assumes "phase_inv (view c)" "active c" "c_state c \<noteq> PAUSED_SAFE"
  shows "phase_inv (view (pause r c))"
proof -
  have j: "jinv (view c)" using assms(1) by (simp add: phase_inv_def)
  show ?thesis
    by (rule phase_inv_cong [OF assms(1) jinv_pause [OF j assms(2,3)]])
      (use assms(2,3) in \<open>simp_all add: view_pause [OF jinvD(1,2) [OF j] assms(3)] eff_ctl_def active_def\<close>)
qed

lemma phase_intent:
  assumes "phase_inv (view c)" "working (c_state c)" "nxt = next_state (c_state c)"
  shows "phase_inv (view (durable (RecIntent nxt (effect_keys nxt c)) c))"
proof -
  have j: "jinv (view c)" using assms(1) by (simp add: phase_inv_def)
  show ?thesis
    by (rule phase_inv_cong [OF assms(1) jinv_intent [OF j assms(2,3)]])
      (simp_all add: view_intent [OF jinvD(1) [OF j]] eff_ctl_def)
qed

lemma phase_forward:
  assumes "phase_inv (view c)" "c_state c = PAUSED_SAFE" "c_paused_at c = Some s" "working s"
    "c_paused_reason c \<noteq> None" "pause_cleared c"
  shows "phase_inv (view (fst (forward_recovery c)))"
proof -
  have j: "jinv (view c)" using assms(1) by (simp add: phase_inv_def)
  have s: "s \<noteq> PAUSED_SAFE" "s \<noteq> ABORTED" using assms(4) by (auto simp: working_def STATES_def)
  show ?thesis
    by (rule phase_inv_cong [OF assms(1) jinv_forward [OF j assms(2-6)]])
      (use assms s in \<open>simp_all add: view_forward [OF jinvD(1) [OF j] assms(2,3) s(1) assms(5,6)] eff_ctl_def\<close>)
qed

lemma phase_checkpoint:
  assumes "phase_inv (view c)" "active c" "dangling_intent (c_journal c) = Some (st, keys)"
    "\<forall>k\<in>set keys. applied_in_ledger k (c_world c)"
  shows "phase_inv (view (checkpoint st keys v c))"
proof -
  have j: "jinv (view c)" using assms(1) by (simp add: phase_inv_def)
  note op = jinv_open [OF j assms(2,3)] and ne = eff_of_dangling [OF j assms(2,3)]
  note vc = view_checkpoint [OF jinvD(1) [OF j] ne(1), of keys v]
  have st: "applied_phase (view c) st" using assms(4) op(3) by (simp add: applied_phase_def)
  have old: "applied_phase (view c) s" if "1 \<le> phase_no s" "phase_no s \<le> phase_no st" for s
  proof (cases "phase_no s = phase_no st")
    case True
    moreover have "phase_no st < 9" using phase_no_next [OF op(1)] phase_no_working [OF op(1)] op(2) by simp
    ultimately have "s = st" using phase_no_inj [of s st] by simp
    with st show ?thesis by simp
  next
    case False
    then have "phase_no s \<le> phase_no (eff_state c)" using that(2) phase_no_next [OF op(1)] op(2) by simp
    with that(1) assms(1,2) show ?thesis by (simp add: phase_inv_def eff_state_def active_def)
  qed
  have clo: "closing (view c) \<longrightarrow> st = COMPLETE"
    using op(1,2) assms(2) by (auto simp: closing_def active_def eff_state_def working_def STATES_def)
  have fin: "applied_phase (view c) COMPLETE \<longrightarrow> closing (view c)"
    using assms(1) by (simp add: phase_inv_def facts_hold_def)
  show ?thesis
    using assms(1) jinv_checkpoint [OF j assms(2,3), of v] old clo fin ne
    by (simp add: vc phase_inv_def facts_hold_def applied_phase_def fence_held_def closing_def eff_ctl_def)
      blast
qed

lemma phase_abort:
  assumes "phase_inv (view c)" "active c" "\<not> past_commit (Some (eff_state c))"
  shows "phase_inv (view (fst (abort why c)))"
proof -
  have j: "jinv (view c)" using assms(1) by (simp add: phase_inv_def)
  have at: "(if c_state c = PAUSED_SAFE then c_paused_at c else Some (c_state c)) = Some (eff_state c)"
    using jinvD(4) [OF j] by (auto simp: eff_state_eq)
  have va: "view (fst (abort why c)) = (view c)\<lparr>v_ctl := (ctl c)\<lparr>ct_state := ABORTED,
      ct_rec_state := ABORTED\<rparr>, v_trans := transitions (c_journal (fst (abort why c))),
      v_core := abort_core (c_lease_token c) (core_of (c_world c))\<rparr>"
    using view_abort [OF jinvD(1,2) [OF j], of why] assms(2,3) unfolding at by (simp add: active_def)
  show ?thesis
    using assms(1) jinv_abort [OF j assms(2,3), of why]
    by (auto simp: va phase_inv_def facts_hold_def applied_phase_def fence_held_def closing_def abort_core_def)
qed

lemma applied_phase_mark:
  "m = ct_migration_id (v_ctl v) \<Longrightarrow> e = v_target v \<Longrightarrow> s \<noteq> HOSTS_ACTIVATING \<Longrightarrow>
   applied_phase (mark (EffKey m e (KPhase s)) v) t \<longleftrightarrow> applied_phase v t \<or> t = s"
  by (auto simp: applied_phase_def keys_for_def HOSTS_def)

lemma applied_phase_mark_ack:
  "t \<noteq> HOSTS_ACTIVATING \<Longrightarrow> applied_phase (mark (EffKey m e (KAck h)) v) t \<longleftrightarrow> applied_phase v t"
  by (auto simp: applied_phase_def keys_for_def)

lemma applied_phase_mono: "applied_phase v t \<Longrightarrow> applied_phase (mark k v) t"
  by (simp add: applied_phase_def)

text \<open>What an effect has to establish: its own facts, on a view that differs in the core only.\<close>

lemma phase_effect_core:
  assumes "phase_inv v" "jinv (v\<lparr>v_core := w\<rparr>)" "w_applied w = w_applied (v_core v)"
    and "facts_hold (if b then mark key (v\<lparr>v_core := w\<rparr>) else v\<lparr>v_core := w\<rparr>)"
  shows "phase_inv (if b then mark key (v\<lparr>v_core := w\<rparr>) else v\<lparr>v_core := w\<rparr>)"
proof -
  have "applied_phase (v\<lparr>v_core := w\<rparr>) s = applied_phase v s" for s
    using assms(3) by (simp add: applied_phase_def)
  with assms show ?thesis by (auto simp: phase_inv_def intro: applied_phase_mono)
qed

lemma facts_mark_other:
  assumes "facts_hold v" "s \<in> {QUIESCING, FINAL_SYNC, VALIDATED, OBSERVING}"
    "m = ct_migration_id (v_ctl v)" "e = v_target v"
  shows "facts_hold (mark (EffKey m e (KPhase s)) v)"
  using assms applied_phase_mark [of m v e s]
  by (auto simp: facts_hold_def closing_def fence_held_def)

lemma facts_lanes: "facts_hold (v\<lparr>v_core := (v_core v)\<lparr>w_lanes := ls\<rparr>\<rparr>) = facts_hold v"
  by (simp add: facts_hold_def applied_phase_def closing_def fence_held_def)

lemma not_closing: "\<not> committed (eff_ctl (v_ctl v)) \<Longrightarrow> ct_state (v_ctl v) \<noteq> ABORTED \<Longrightarrow> \<not> closing v"
  by (auto simp: closing_def committed_def)

lemma not_closing_complete: "facts_hold v \<Longrightarrow> \<not> closing v \<Longrightarrow> \<not> applied_phase v COMPLETE"
  by (simp add: facts_hold_def)

text \<open>Setting the fence while the migration is not closing.\<close>

lemma facts_fence:
  assumes "facts_hold v" "\<not> closing v" "applied_phase u = applied_phase v" "v_ctl u = v_ctl v"
    "v_target u = v_target v" "v_rec_lease v \<noteq> None \<longrightarrow> v_rec_lease u \<noteq> None"
    "w_acks (v_core u) = w_acks (v_core v)" "w_applied (v_core u) = w_applied (v_core v)"
    "w_epoch (v_core u) = w_epoch (v_core v)" "fence_held u"
  shows "facts_hold u"
proof -
  have "closing u = closing v" using assms(4) by (simp add: closing_def)
  then show ?thesis using assms not_closing_complete [OF assms(1,2)]
    by (auto simp: facts_hold_def)
qed

lemma facts_fence_mark:
  assumes "facts_hold u" "fence_held u" "v_rec_lease u \<noteq> None"
    "m = ct_migration_id (v_ctl u)" "e = v_target u"
  shows "facts_hold (mark (EffKey m e (KPhase FENCED)) u)"
  using assms applied_phase_mark [of m u e FENCED]
  by (auto simp: facts_hold_def closing_def fence_held_def)

lemma applied_phase_core:
  "w_applied w = w_applied (v_core v) \<Longrightarrow> applied_phase (v\<lparr>v_core := w\<rparr>) = applied_phase v"
  by (simp add: applied_phase_def fun_eq_iff)

lemma phase_effect_fence:
  assumes "phase_inv (view c)" "active c" "dangling_intent (c_journal c) = Some (FENCED, keys)"
    "key \<in> set keys" "effect_fn FENCED key c = (d, r)"
  shows "phase_inv (if r = Inr Applied then mark key (view d) else view d)"
proof -
  have j: "jinv (view c)" and f: "facts_hold (view c)" using assms(1) by (simp_all add: phase_inv_def)
  note op = jinv_open [OF j assms(2,3)]
  have eff: "eff_state c = QUIESCING" using op by (auto elim!: working_cases)
  have nc: "\<not> closing (view c)"
    using eff assms(2) by (intro not_closing) (auto simp: committed_def eff_state_def active_def)
  have key: "key = EffKey (c_migration_id c) (c_target_epoch c) (KPhase FENCED)"
    using assms(4) op(3) by (simp add: keys_for_def)
  have ep: "current_epoch (auth (c_world c)) = c_target_epoch c - 1"
    using j assms(2) eff by (auto simp: jinv_def eff_state_def active_def committed_def)
  have jd: "jinv (view d)" using jinv_effect [OF j assms(2-5)] by (auto split: if_splits)
  have tok: "c_lease_token c = Some t \<Longrightarrow> rec_lease (c_journal c) \<noteq> None" for t
    using j by (cases "rec_lease (c_journal c)") (auto simp: jinv_def)
  define good where "good u \<longleftrightarrow> v_ctl u = ctl c \<and> v_target u = c_target_epoch c \<and>
      w_applied (v_core u) = w_applied (core_of (c_world c)) \<and>
      w_acks (v_core u) = w_acks (core_of (c_world c)) \<and>
      w_epoch (v_core u) = w_epoch (core_of (c_world c)) \<and> fence_held u \<and>
      (v_rec_lease (view c) \<noteq> None \<longrightarrow> v_rec_lease u \<noteq> None) \<and>
      (r = Inr Applied \<longrightarrow> v_rec_lease u \<noteq> None)" for u
  from assms(5) jinvD(1) [OF j] have "good (view d)"
  proof (cases rule: view_fence)
    case failed
    show ?thesis unfolding failed good_def by (simp add: fenced_core_def fence_held_def)
  next
    case (held t)
    show ?thesis unfolding held(3) good_def using tok [OF held(2)]
      by (simp add: fenced_core_def fence_held_def)
  next
    case (taken l)
    show ?thesis unfolding taken(3) good_def using taken(2) ep
      by (simp add: fenced_core_def fence_held_def)
  qed
  then have tgt: "v_ctl (view d) = ctl c" "v_target (view d) = c_target_epoch c"
      "w_applied (v_core (view d)) = w_applied (core_of (c_world c))"
      "w_acks (v_core (view d)) = w_acks (core_of (c_world c))"
      "w_epoch (v_core (view d)) = w_epoch (core_of (c_world c))" "fence_held (view d)"
      "v_rec_lease (view c) \<noteq> None \<longrightarrow> v_rec_lease (view d) \<noteq> None"
      "r = Inr Applied \<longrightarrow> v_rec_lease (view d) \<noteq> None"
    unfolding good_def by blast+
  have ap: "applied_phase (view d) = applied_phase (view c)"
    using tgt(1-3) by (simp add: applied_phase_def fun_eq_iff)
  have fd: "facts_hold (view d)"
    by (rule facts_fence [OF f nc ap]) (use tgt in simp_all)
  then have "facts_hold (if r = Inr Applied then mark key (view d) else view d)"
    using facts_fence_mark [OF fd tgt(6), of "c_migration_id c" "c_target_epoch c"] tgt(1,2,8) key
    by (simp add: ctl_eq_iff)
  with assms(1) jd ap tgt(1) show ?thesis
    by (auto simp: phase_inv_def intro: applied_phase_mono)
qed

lemma phase_effect_commit:
  assumes "phase_inv (view c)" "active c" "dangling_intent (c_journal c) = Some (WRITE_COMMITTED, keys)"
    "key \<in> set keys" "effect_fn WRITE_COMMITTED key c = (d, r)"
  shows "phase_inv (if r = Inr Applied then mark key (view d) else view d)"
proof -
  have j: "jinv (view c)" and f: "facts_hold (view c)" using assms(1) by (simp_all add: phase_inv_def)
  note op = jinv_open [OF j assms(2,3)]
  have key: "key = EffKey (c_migration_id c) (c_target_epoch c) (KPhase WRITE_COMMITTED)"
    using assms(4) op(3) by (simp add: keys_for_def)
  have jd: "jinv (view d)" using jinv_effect [OF j assms(2-5)] by (auto split: if_splits)
  from assms(5) jinvD(2) [OF j] show ?thesis
  proof (cases rule: view_commit)
    case (failed x)
    then show ?thesis using assms(1) by simp
  next
    case (applied t)
    let ?u = "(view c)\<lparr>v_core := (core_of (c_world c))\<lparr>w_epoch := c_target_epoch c\<rparr>\<rparr>"
    have "facts_hold (mark key ?u)"
      using f applied_phase_mark [of "c_migration_id c" ?u "c_target_epoch c" WRITE_COMMITTED]
        applied_phase_core [of "(core_of (c_world c))\<lparr>w_epoch := c_target_epoch c\<rparr>" "view c"]
      by (simp add: key facts_hold_def closing_def fence_held_def)
    then show ?thesis
      using phase_effect_core [OF assms(1), of "(core_of (c_world c))\<lparr>w_epoch := c_target_epoch c\<rparr>" True key] jd applied
      by simp
  qed
qed

lemma phase_effect_ack:
  assumes "phase_inv (view c)" "active c" "dangling_intent (c_journal c) = Some (HOSTS_ACTIVATING, keys)"
    "key \<in> set keys" "effect_fn HOSTS_ACTIVATING key c = (d, r)"
  shows "phase_inv (if r = Inr Applied then mark key (view d) else view d)"
proof -
  have j: "jinv (view c)" and f: "facts_hold (view c)" using assms(1) by (simp_all add: phase_inv_def)
  note op = jinv_open [OF j assms(2,3)]
  obtain h where key: "key = EffKey (c_migration_id c) (c_target_epoch c) (KAck h)"
    using assms(4) op(3) by (auto elim: keys_for_cases)
  have jd: "jinv (view d)" using jinv_effect [OF j assms(2-5)] by (auto split: if_splits)
  have "effect_fn HOSTS_ACTIVATING (EffKey (c_migration_id c) (c_target_epoch c) (KAck h)) c = (d, r)"
    using assms(5) key by simp
  from this jinvD(2) [OF j] show ?thesis
  proof (cases rule: view_ack)
    case (failed x)
    then show ?thesis using assms(1) by simp
  next
    case applied
    let ?w = "(core_of (c_world c))\<lparr>w_acks := (w_acks (core_of (c_world c)))
         (h := (Some (c_target_epoch c), Some (c_migration_id c)))\<rparr>"
    let ?u = "(view c)\<lparr>v_core := ?w\<rparr>"
    have "facts_hold (mark key ?u)"
      using f applied_phase_mark_ack [of _ "c_migration_id c" "c_target_epoch c" h ?u]
        applied_phase_core [of ?w "view c"]
      by (auto simp: key facts_hold_def closing_def fence_held_def)
    then show ?thesis
      using phase_effect_core [OF assms(1), of ?w True key] jd applied by simp
  qed
qed

lemma phase_effect_complete:
  assumes "phase_inv (view c)" "active c" "dangling_intent (c_journal c) = Some (COMPLETE, keys)"
    "key \<in> set keys" "effect_fn COMPLETE key c = (d, r)"
  shows "phase_inv (if r = Inr Applied then mark key (view d) else view d)"
proof -
  have j: "jinv (view c)" and f: "facts_hold (view c)" using assms(1) by (simp_all add: phase_inv_def)
  note op = jinv_open [OF j assms(2,3)]
  have key: "key = EffKey (c_migration_id c) (c_target_epoch c) (KPhase COMPLETE)"
    using assms(4) op(3) by (simp add: keys_for_def)
  have eff: "eff_state c = OBSERVING" using op by (auto elim!: working_cases)
  have jd: "jinv (view d)" using jinv_effect [OF j assms(2-5)] by (auto split: if_splits)
  let ?w = "(abort_core (c_lease_token c) (core_of (c_world c)))\<lparr>w_policy := ''read-only''\<rparr>"
  let ?u = "(view c)\<lparr>v_core := ?w\<rparr>"
  note vd = view_complete [OF assms(5) jinvD(1) [OF j]]
  have cl: "closing ?u" using eff assms(3) by (auto simp: closing_def eff_state_def)
  have ap: "applied_phase ?u = applied_phase (view c)"
    by (rule applied_phase_core) (simp add: abort_core_def)
  have "facts_hold (mark key ?u)"
    using f cl ap applied_phase_mark [of "c_migration_id c" ?u "c_target_epoch c" COMPLETE]
    by (auto simp: key facts_hold_def closing_def fence_held_def abort_core_def)
  then show ?thesis
    using phase_effect_core [OF assms(1), of ?w True key] jd vd by (simp add: abort_core_def)
qed

lemma phase_effect:
  assumes "phase_inv (view c)" "active c" "dangling_intent (c_journal c) = Some (st, keys)"
    "key \<in> set keys" "effect_fn st key c = (d, r)"
  shows "phase_inv (if r = Inr Applied then mark key (view d) else view d)"
proof -
  have j: "jinv (view c)" and f: "facts_hold (view c)" using assms(1) by (simp_all add: phase_inv_def)
  note op = jinv_open [OF j assms(2,3)]
  consider "st = FENCED" | "st = WRITE_COMMITTED" | "st = HOSTS_ACTIVATING" | "st = COMPLETE"
    | "st = QUIESCING" | "st \<in> {FINAL_SYNC, VALIDATED, OBSERVING}"
    using next_state_neq [OF op(1)] op(2) by (cases st) auto
  then show ?thesis
  proof cases
    case 5
    have key: "key = EffKey (c_migration_id c) (c_target_epoch c) (KPhase QUIESCING)"
      using assms(4) op(3) 5 by (simp add: keys_for_def)
    have jd: "jinv (view d)" using jinv_effect [OF j assms(2-5)] by (auto split: if_splits)
    let ?w = "(core_of (c_world c))\<lparr>w_lanes := fst (quiesce_lanes (c_mutations c) (lanes (c_world c)) (c_world c))\<rparr>"
    let ?u = "(view c)\<lparr>v_core := ?w\<rparr>"
    have q: "r = Inr Applied" "view d = ?u" using view_quiesce [of key c d r] assms(5) 5 by simp_all
    have "facts_hold ?u" using f facts_lanes [where v = "view c"] by simp
    then have "facts_hold (mark key ?u)" unfolding key by (rule facts_mark_other) simp_all
    then show ?thesis using phase_effect_core [OF assms(1), of ?w True key] jd q by simp
  next
    case 6
    then have key: "key = EffKey (c_migration_id c) (c_target_epoch c) (KPhase st)"
      using assms(4) op(3) by (auto simp: keys_for_def)
    have d: "d = c" using view_other [of st key c d r] assms(5) 6 by auto
    have "facts_hold (mark key (view c))" unfolding key by (rule facts_mark_other [OF f]) (use 6 in simp_all)
    then show ?thesis using assms(1) d by (auto simp: phase_inv_def intro: applied_phase_mono)
  qed (use phase_effect_fence phase_effect_commit phase_effect_ack phase_effect_complete assms in metis)+
qed

lemma phase_stale:
  assumes "phase_inv v" "ct_state (v_ctl v) \<noteq> PAUSED_SAFE"
  shows "phase_inv (v\<lparr>v_ctl := (v_ctl v)\<lparr>ct_paused_reason := a, ct_paused_at := b\<rparr>\<rparr>)"
proof -
  have "jinv v" using assms(1) by (simp add: phase_inv_def)
  from journal.keep_stale [OF this assms(2)] show ?thesis
    by (rule phase_inv_cong [OF assms(1)]) (use assms(2) in \<open>simp_all add: eff_ctl_def\<close>)
qed

interpretation phases: coord_invariant phase_inv hook for hook :: "'h hook"
proof unfold_locales
  show "v_seq_ok v \<and> v_open v \<and> cinv (v_ctl v)" if "phase_inv v" for v
    using that by (simp add: phase_inv_def jinv_def)
qed (assumption | rule phase_pause phase_intent phase_effect phase_checkpoint phase_forward phase_stale phase_abort)+

end
