(* ===== verification/Drill_Static.thy ===== *)
theory Drill_Static
  imports Drill_Safety
begin

section \<open>What a migration never changes\<close>

text \<open>
  \<open>static_inv T M ls hr\<close>: the target epoch stays \<open>T\<close> and the migration stays \<open>M\<close>; the lanes are
  those of the start, and one that is stopped now was stopped then or is migration-owned; the
  legacy hooks are as restored as they were. A third interpretation of \<open>coord_invariant\<close>.
\<close>

definition lane_kept :: "lane \<Rightarrow> lane \<Rightarrow> bool" where
  "lane_kept l0 l \<longleftrightarrow> lane_id l = lane_id l0 \<and> lane_host l = lane_host l0 \<and> lane_class l = lane_class l0 \<and>
     (stopped l \<longrightarrow> stopped l0 \<or> lane_class l0 = MigrationOwned) \<and> (stopped l0 \<longrightarrow> stopped l)"

definition lanes_kept :: "lane list \<Rightarrow> lane list \<Rightarrow> bool" where
  "lanes_kept = list_all2 lane_kept"

lemma lanes_kept_refl: "lanes_kept ls ls"
  by (simp add: lanes_kept_def lane_kept_def list_all2_refl)

lemma lane_kept_trans: "lane_kept a b \<Longrightarrow> lane_kept b c \<Longrightarrow> lane_kept a c"
  by (auto simp: lane_kept_def)

lemma lanes_kept_trans: "lanes_kept xs ys \<Longrightarrow> lanes_kept ys zs \<Longrightarrow> lanes_kept xs zs"
  unfolding lanes_kept_def by (rule list_all2_trans [where ?P1.0 = lane_kept and ?P2.0 = lane_kept]) (auto intro: lane_kept_trans)

lemma quiesce_lanes_kept: "lanes_kept ls (fst (quiesce_lanes {} ls w))"
proof (induction ls arbitrary: w)
  case (Cons l ls)
  obtain l' w1 where q: "quiesce_lane {} l w = (l', w1)" by fastforce
  then have "lane_kept l l'"
    by (auto simp: quiesce_lane_def stop_lane_def handoff_lane_def lane_kept_def split: if_splits)
  with Cons.IH [of w1] q show ?case by (cases "quiesce_lanes {} ls w1") (simp add: lanes_kept_def)
qed (simp add: lanes_kept_def)

definition static_inv :: "int \<Rightarrow> string \<Rightarrow> lane list \<Rightarrow> bool \<Rightarrow> view \<Rightarrow> bool" where
  "static_inv T M ls hr v \<longleftrightarrow> jinv v \<and> v_target v = T \<and> ct_migration_id (v_ctl v) = M \<and>
     lanes_kept ls (w_lanes (v_core v)) \<and> w_hooks_restored (v_core v) = hr"

lemma static_cong:
  assumes "static_inv T M ls hr v" "jinv u" "v_target u = v_target v"
    "ct_migration_id (v_ctl u) = ct_migration_id (v_ctl v)" "w_lanes (v_core u) = w_lanes (v_core v)"
    "w_hooks_restored (v_core u) = w_hooks_restored (v_core v)"
  shows "static_inv T M ls hr u"
  using assms by (simp add: static_inv_def)

lemma static_effect:
  assumes "static_inv T M ls hr (view c)" "active c" "dangling_intent (c_journal c) = Some (st, keys)"
    "key \<in> set keys" "effect_fn st key c = (d, r)"
  shows "static_inv T M ls hr (if r = Inr Applied then mark key (view d) else view d)"
proof -
  have j: "jinv (view c)" using assms(1) by (simp add: static_inv_def)
  note op = jinv_open [OF j assms(2,3)] and so = jinvD(1) [OF j] and ref = jinvD(2) [OF j]
  have jd: "jinv (view d)" using jinv_effect [OF j assms(2-5)] by (auto split: if_splits)
  have "static_inv T M ls hr (view d)"
  proof (cases st)
    case QUIESCING
    then have v: "view d = (view c)\<lparr>v_core := (core_of (c_world c))\<lparr>w_lanes :=
        fst (quiesce_lanes {} (lanes (c_world c)) (c_world c))\<rparr>\<rparr>"
      using view_quiesce [of key c d r] assms(5) ref by simp
    have "lanes_kept ls (fst (quiesce_lanes {} (lanes (c_world c)) (c_world c)))"
      using assms(1) quiesce_lanes_kept lanes_kept_trans by (auto simp: static_inv_def)
    then show ?thesis using assms(1) jd unfolding v static_inv_def by simp
  next
    case FENCED
    then have eff: "eff_state c = QUIESCING" using op by (auto elim!: working_cases)
    have ep: "current_epoch (auth (c_world c)) = c_target_epoch c - 1"
      using j assms(2) eff by (auto simp: jinv_def eff_state_def active_def committed_def)
    have "effect_fn FENCED key c = (d, r)" using assms(5) FENCED by simp
    from this so show ?thesis
    proof (cases rule: view_fence)
      case failed
      show ?thesis by (rule static_cong [OF assms(1) jd]) (simp_all only: failed, simp_all add: fenced_core_def)
    next
      case held
      show ?thesis by (rule static_cong [OF assms(1) jd]) (simp_all only: held, simp_all add: fenced_core_def)
    next
      case (taken l)
      show ?thesis by (rule static_cong [OF assms(1) jd])
          (simp_all only: taken, simp_all add: fenced_core_def ep)
    qed
  next
    case WRITE_COMMITTED
    have "effect_fn WRITE_COMMITTED key c = (d, r)" using assms(5) WRITE_COMMITTED by simp
    from this ref show ?thesis
    proof (cases rule: view_commit)
      case failed
      then show ?thesis using assms(1) by simp
    next
      case applied
      show ?thesis by (rule static_cong [OF assms(1) jd]) (simp_all only: applied, simp_all)
    qed
  next
    case HOSTS_ACTIVATING
    with assms(4) op(3) obtain m e h where "key = EffKey m e (KAck h)" by (auto elim: keys_for_cases)
    with assms(5) HOSTS_ACTIVATING have "effect_fn HOSTS_ACTIVATING (EffKey m e (KAck h)) c = (d, r)" by simp
    from this ref show ?thesis
    proof (cases rule: view_ack)
      case failed
      then show ?thesis using assms(1) by simp
    next
      case applied
      show ?thesis by (rule static_cong [OF assms(1) jd]) (simp_all only: applied, simp_all)
    qed
  next
    case COMPLETE
    then have v: "view d = (view c)\<lparr>v_core :=
      (abort_core (c_lease_token c) (core_of (c_world c)))\<lparr>w_policy := ''read-only''\<rparr>\<rparr>"
      using view_complete(2) [OF _ so, of key d r] assms(5) by simp
    show ?thesis by (rule static_cong [OF assms(1) jd]) (simp_all only: v, simp_all add: abort_core_def)
  qed (use assms(1,5) view_other [of st key c d r] in auto)
  then show ?thesis using jd by (auto simp: static_inv_def)
qed

lemma static_keep:
  assumes "static_inv T M ls hr (view c)"
  shows "active c \<Longrightarrow> c_state c \<noteq> PAUSED_SAFE \<Longrightarrow> static_inv T M ls hr (view (pause r c))"
    and "working (c_state c) \<Longrightarrow> nxt = next_state (c_state c) \<Longrightarrow>
      static_inv T M ls hr (view (durable (RecIntent nxt (effect_keys nxt c)) c))"
    and "active c \<Longrightarrow> dangling_intent (c_journal c) = Some (st, keys) \<Longrightarrow>
      static_inv T M ls hr (view (checkpoint st keys v c))"
    and "c_state c = PAUSED_SAFE \<Longrightarrow> c_paused_at c = Some s \<Longrightarrow> working s \<Longrightarrow>
      c_paused_reason c \<noteq> None \<Longrightarrow> pause_cleared c \<Longrightarrow> static_inv T M ls hr (view (fst (forward_recovery c)))"
    and "active c \<Longrightarrow> \<not> past_commit (Some (eff_state c)) \<Longrightarrow> static_inv T M ls hr (view (fst (abort why c)))"
proof -
  have j: "jinv (view c)" using assms by (simp add: static_inv_def)
  note so = jinvD(1) [OF j] and ref = jinvD(2) [OF j]
  show "static_inv T M ls hr (view (pause r c))" if "active c" "c_state c \<noteq> PAUSED_SAFE"
    by (rule static_cong [OF assms jinv_pause [OF j that]]) (simp_all only: view_pause [OF so ref that(2)], simp_all)
  show "static_inv T M ls hr (view (durable (RecIntent nxt (effect_keys nxt c)) c))"
    if "working (c_state c)" "nxt = next_state (c_state c)"
    by (rule static_cong [OF assms jinv_intent [OF j that]]) (simp_all only: view_intent [OF so], simp_all)
  show "static_inv T M ls hr (view (checkpoint st keys v c))"
    if "active c" "dangling_intent (c_journal c) = Some (st, keys)"
    by (rule static_cong [OF assms jinv_checkpoint [OF j that]])
      (simp_all only: view_checkpoint [OF so eff_of_dangling(1) [OF j that]], simp_all)
  show "static_inv T M ls hr (view (fst (forward_recovery c)))"
    if p: "c_state c = PAUSED_SAFE" "c_paused_at c = Some s" "working s" "c_paused_reason c \<noteq> None" "pause_cleared c"
  proof -
    have s: "s \<noteq> PAUSED_SAFE" using p(3) by (auto simp: working_def STATES_def)
    show ?thesis by (rule static_cong [OF assms jinv_forward [OF j p]])
      (simp_all only: view_forward [OF so p(1,2) s p(4,5)], simp_all)
  qed
  show "static_inv T M ls hr (view (fst (abort why c)))"
    if a: "active c" "\<not> past_commit (Some (eff_state c))"
  proof -
    have at: "(if c_state c = PAUSED_SAFE then c_paused_at c else Some (c_state c)) = Some (eff_state c)"
      using jinvD(4) [OF j] by (auto simp: eff_state_eq)
    have v: "view (fst (abort why c)) = (view c)\<lparr>v_ctl := (ctl c)\<lparr>ct_state := ABORTED,
        ct_rec_state := ABORTED\<rparr>, v_trans := transitions (c_journal (fst (abort why c))),
      v_core := abort_core (c_lease_token c) (core_of (c_world c))\<rparr>"
      using view_abort [OF so ref, of why] a unfolding at by (simp add: active_def)
    show ?thesis by (rule static_cong [OF assms jinv_abort [OF j a]])
      (simp_all only: v, simp_all add: abort_core_def)
  qed
qed

interpretation static: coord_invariant "static_inv T M ls hr" hook for T M ls hr and hook :: "'h hook"
proof unfold_locales
  show "v_seq_ok v \<and> v_open v \<and> cinv (v_ctl v)" if "static_inv T M ls hr v" for v
    using that by (simp add: static_inv_def jinv_def)
  show "static_inv T M ls hr (v\<lparr>v_ctl := (v_ctl v)\<lparr>ct_paused_reason := a, ct_paused_at := b\<rparr>\<rparr>)"
    if "static_inv T M ls hr v" "ct_state (v_ctl v) \<noteq> PAUSED_SAFE" for v a b
    using that journal.keep_stale [OF _ that(2)] by (simp add: static_inv_def)
qed (assumption | rule static_effect static_keep)+

subsection \<open>A migration on a fresh world\<close>

definition fresh_world :: "world \<Rightarrow> bool" where
  "fresh_world w \<longleftrightarrow> effect_ledger w = []"

definition no_faults :: "unit hook" where
  "no_faults p st hw = (hw, Inr ())"

definition crash_after_effect :: "cstate \<Rightarrow> unit hook" where
  "crash_after_effect s p st hw = (if p = AfterEffect \<and> st = s then (hw, Inl CrashSignal) else (hw, Inr ()))"

definition observer0 :: observer where
  "observer0 = \<lparr>ob_saved = [], ob_replay = False\<rparr>"

lemma fault_hook_no_faults: "fault_hook no_faults"
  by (simp add: fault_hook_def no_faults_def)

lemma fault_hook_crash: "fault_hook (crash_after_effect s)"
  by (simp add: fault_hook_def crash_after_effect_def)

lemma fresh_World: "fresh_world (World H sse)"
  by (simp add: fresh_world_def World_def)

lemma phase_start: "fresh_world w \<Longrightarrow> phase_inv (view (Coordinator w [] ob mig {} hk))"
  using jinv_start [of w ob mig hk] core_start [of w ob mig hk] ctl_start [of w ob mig hk]
  by (auto simp: phase_inv_def facts_hold_def applied_phase_def keys_for_def HOSTS_def fresh_world_def
      applied_in_ledger_def eff_ctl_def)

lemma static_start:
  "static_inv (current_epoch (auth w) + 1) mig (lanes w) (legacy_hooks_restored w)
     (view (Coordinator w [] ob mig {} hk))"
  using jinv_start [of w ob mig hk] core_start [of w ob mig hk] ctl_start [of w ob mig hk]
  by (simp add: static_inv_def lanes_kept_refl)

lemma reach_phase:
  assumes "reach_unreopened H hook (Coordinator w [] ob mig {} hk) c" "fault_hook hook" "fresh_world w"
  shows "phase_inv (view c)"
  by (rule phases.reach_keep [OF assms(1,2) jinv_start phase_start [OF assms(3)]])

lemma reach_static:
  assumes "reach_unreopened H hook (Coordinator w [] ob mig {} hk) c" "fault_hook hook"
  shows "static_inv (current_epoch (auth w) + 1) mig (lanes w) (legacy_hooks_restored w) (view c)"
  by (rule static.reach_keep [OF assms jinv_start static_start])

lemma reach_applied:
  assumes "reach_unreopened H hook (Coordinator w [] ob mig {} hk) c" "fault_hook hook" "fresh_world w"
    "c_state c \<noteq> ABORTED" "1 \<le> phase_no s" "phase_no s \<le> phase_no (eff_state c)"
  shows "\<forall>k\<in>set (keys_for mig (current_epoch (auth w) + 1) s). applied_in_ledger k (c_world c)"
  using reach_phase [OF assms(1-3)] reach_static [OF assms(1,2)] assms(4-6)
  by (simp add: phase_inv_def static_inv_def applied_phase_def eff_state_def)

end
