(* ===== verification/Drill_Live.thy ===== *)
theory Drill_Live
  imports Drill_Static
begin

section \<open>Progress: a healthy world reaches COMPLETE\<close>

text \<open>
  In a world where every service is up, the network and the authorization are in place, both hosts
  are alive and the known-good set is intact, and with no fault injected, each \<open>step\<close> of the
  coordinator moves to the next state, so \<open>run\<close> reaches \<open>COMPLETE\<close> well within its bound of
  20 iterations and within the lease.
\<close>

subsection \<open>The environment and its frames\<close>

definition env_of :: "world \<Rightarrow> (service \<Rightarrow> bool) \<times> bool \<times> bool \<times> (host \<Rightarrow> bool) \<times> (string \<times> string) list \<times>
    string \<times> string \<times> int" where
  "env_of w = (services w, network w, auth_valid w, (\<lambda>h. alive (hosts w h)), known_good w,
     known_good_digest w, source_set_epoch w, clock w)"

lemma env_of_eqD:
  assumes "env_of v = env_of w"
  shows "services v = services w" "network v = network w" "auth_valid v = auth_valid w"
    "alive (hosts v h) = alive (hosts w h)" "known_good v = known_good w"
    "known_good_digest v = known_good_digest w" "source_set_epoch v = source_set_epoch w" "clock v = clock w"
  using assms by (auto simp: env_of_def fun_eq_iff)

named_theorems env_frames \<open>operations that keep the environment\<close>

lemma env_world_ops [env_frames]:
  "env_of (event k w) = env_of w" "env_of (a_rec op w) = env_of w"
  "env_of (ledger_put key r w) = env_of w" "env_of (effect_note key st b res w) = env_of w"
  "env_of (model_calls_update f w) = env_of w" "env_of (lanes_update g w) = env_of w"
  "env_of (legacy_policy_update g' w) = env_of w" "env_of (auth_update g'' w) = env_of w"
  by (simp_all add: env_of_def event_def a_rec_def ledger_put_def effect_note_def Let_def)

lemma env_authority [env_frames]:
  "env_of (fst (set_fence k w)) = env_of w" "env_of (fst (release_fence k w)) = env_of w"
  "env_of (fst (check_token t w)) = env_of w" "env_of (fst (release_lease t w)) = env_of w"
  "env_of (fst (cas_commit t e n b w)) = env_of w" "env_of (fst (acquire_lease hl ttl w)) = env_of w"
  by (simp_all add: set_fence_def release_fence_def check_token_def release_lease_def cas_commit_def
      acquire_lease_def Let_def env_frames split: option.split)

lemma env_host_ack [env_frames]: "env_of (fst (host_ack h e m b w)) = env_of w"
  by (auto simp: host_ack_def Let_def env_frames) (simp_all add: env_of_def fun_eq_iff)

lemma env_coord_ops [env_frames]:
  "env_of (c_world (durable b c)) = env_of (c_world c)" "env_of (c_world (cevent k c)) = env_of (c_world c)"
  "env_of (c_world (checkpoint nxt keys v c)) = env_of (c_world c)"
  by (simp_all add: durable_def cevent_def checkpoint_def Let_def env_frames)

lemma env_quiesce: "env_of (snd (quiesce_lanes ms ls w)) = env_of w"
proof (induction ls arbitrary: w)
  case (Cons l ls)
  obtain l' w1 where q: "quiesce_lane ms l w = (l', w1)" by fastforce
  then have "env_of w1 = env_of w"
    by (auto simp: quiesce_lane_def stop_lane_def handoff_lane_def env_frames split: if_splits)
  with q Cons.IH [of w1] show ?case by (cases "quiesce_lanes ms ls w1") simp
qed simp

lemma env_effect_fn [env_frames]: "env_of (c_world (fst (effect_fn st key c))) = env_of (c_world c)"
proof (cases st)
  case QUIESCING
  then show ?thesis using env_quiesce [of "c_mutations c" "lanes (c_world c)" "c_world c"]
    by (cases "quiesce_lanes (c_mutations c) (lanes (c_world c)) (c_world c)")
      (simp add: effect_fn_def quiesce_fn_def env_frames)
next
  case FENCED
  let ?c = "c\<lparr>c_world := fst (set_fence (fence_key_of (c_migration_id c)) (c_world c))\<rparr>"
  have ln: "env_of (c_world (fst (lease_needed d))) = env_of (c_world d)" for d :: "'a coord"
    using env_authority(3) by (auto simp: lease_needed_def split: option.split prod.split) (metis fst_conv)
  have tl: "env_of (c_world (fst (take_lease d))) = env_of (c_world d)" for d :: "'a coord"
    using env_authority(6) [of "c_migration_id d" LEASE_TTL "c_world d"]
    by (cases "acquire_lease (c_migration_id d) LEASE_TTL (c_world d)")
      (simp add: take_lease_def Let_def env_frames split: sum.split)
  obtain d b where d: "lease_needed ?c = (d, b)" by fastforce
  have "env_of (c_world d) = env_of (c_world c)" using ln [of ?c] d by (simp add: env_frames)
  then show ?thesis using FENCED tl [of d] by (simp add: effect_fn_def fence_fn_def d)
next
  case WRITE_COMMITTED
  then show ?thesis
    using env_authority(5) [of "c_lease_token c" "c_target_epoch c - 1" "c_target_epoch c"
        "M04_authority_accepts_stale_epoch \<in> c_mutations c" "c_world c"]
    by (simp add: effect_fn_def commit_fn_def split: prod.split) (metis fst_conv)
next
  case HOSTS_ACTIVATING
  then show ?thesis
    using env_host_ack [of _ "c_target_epoch c" "c_migration_id c"
        "M04_authority_accepts_stale_epoch \<in> c_mutations c" "c_world c"]
    by (simp add: effect_fn_def ack_fn_def split: prod.split effect_key.split key_tail.split) (metis fst_conv)
next
  case COMPLETE
  then show ?thesis by (simp add: effect_fn_def complete_fn_def Let_def env_frames)
qed (simp_all add: effect_fn_def)

lemma observer_effect_fn: "c_observer (fst (effect_fn st key c)) = c_observer c"
  by (cases st) (auto simp: effect_fn_def quiesce_fn_def fence_fn_def lease_needed_def take_lease_def
      commit_fn_def ack_fn_def complete_fn_def Let_def durable_def
      split: prod.split sum.split option.split effect_key.split key_tail.split)

subsection \<open>Healthy worlds\<close>

definition healthy :: "(string \<Rightarrow> string) \<Rightarrow> world \<Rightarrow> bool" where
  "healthy H w \<longleftrightarrow> (\<forall>s. services w s) \<and> network w \<and> auth_valid w \<and> (\<forall>h. alive (hosts w h)) \<and> known_good_ok H w"

lemma healthy_cong:
  assumes "env_of v = env_of w"
  shows "healthy H v = healthy H w"
  by (simp add: healthy_def known_good_ok_def env_of_eqD [OF assms])

lemma issue_healthy:
  fixes c :: "'h coord"
  assumes "healthy H (c_world c)" "c_mutations c = {}"
    and ok: "\<And>c1 :: 'h coord. view c1 = view c \<Longrightarrow> env_of (c_world c1) = env_of (c_world c) \<Longrightarrow>
      snd (effect_fn st key c1) = Inr Applied"
  obtains c1 e d :: "'h coord" where "view c1 = view c" "env_of (c_world c1) = env_of (c_world c)"
    "effect_fn st key c1 = (e, Inr Applied)" "issue st key c = (d, Inr Applied)"
    "view d = mark key (view e)" "env_of (c_world d) = env_of (c_world c)" "c_observer d = c_observer c"
proof -
  define c1 where "c1 = c_world_update (\<lambda>w. let r = ledger_get key st w in
               ledger_put key (r\<lparr>led_attempts := led_attempts r + 1\<rparr>) w) c"
  have v1: "view c1 = view c" by (rule view_eqI) (simp_all add: c1_def frame_simps Let_def)
  have e1: "env_of (c_world c1) = env_of (c_world c)" by (simp add: c1_def env_frames Let_def)
  have h1: "healthy H (c_world c1)" using assms(1) healthy_cong [OF e1] by simp
  obtain e where fn: "effect_fn st key c1 = (e, Inr Applied)" using ok [OF v1 e1] by (metis prod.collapse)
  have ee: "env_of (c_world e) = env_of (c_world c1)" using env_effect_fn [of st key c1] fn by simp
  define d where "d = c_world_update (effect_note key st True Applied) e"
  have av: "auth_valid (c_world c1)" and nw: "network (c_world e)"
    using h1 env_of_eqD(2) [OF ee] by (simp_all add: healthy_def)
  have fd: "find (\<lambda>v. \<not> services (c_world c1) v) (NEEDS st) = None"
    using h1 by (simp add: healthy_def find_None_all)
  have "issue_once st key c = (if \<not> auth_valid (c_world c1) \<and> M08_resume_revoked_run \<notin> c_mutations c
     then (c_world_update (effect_note key st False (Rejected RAuthRevoked)) c1, Inr (Rejected RAuthRevoked))
     else (case find (\<lambda>v. \<not> services (c_world c1) v) (NEEDS st) of
       Some v \<Rightarrow> (c_world_update (effect_note key st False (Rejected (RUnavailable v))) c1,
                  Inr (Rejected (RUnavailable v)))
     | None \<Rightarrow> bindx (effect_fn st key c1) (\<lambda>s res.
         let seen = (if res = Applied \<and> \<not> network (c_world s) then Unknown else res)
         in (c_world_update (effect_note key st (res = Applied) seen) s, Inr seen))))"
    by (simp only: issue_once_def apply_effect_def Let_def c1_def)
  then have "issue_once st key c = (d, Inr Applied)"
    using av nw by (simp add: fd fn Let_def d_def)
  then have "issue st key c = (d, Inr Applied)"
    by (simp add: issue_def MAX_ATTEMPTS_def numeral_3_eq_3 issue_stops_def)
  moreover have "view d = mark key (view e)"
    by (simp add: d_def view_def mark_def core_applied_note frame_simps)
  moreover have "env_of (c_world d) = env_of (c_world c)" using ee e1 by (simp add: d_def env_frames)
  moreover have "c_observer d = c_observer c"
    using observer_effect_fn [of st key c1] fn by (simp add: d_def c1_def)
  ultimately show thesis using that v1 e1 fn by blast
qed

text \<open>In which coordinators the effect of a phase is certain to take place.\<close>

definition effect_ready :: "cstate \<Rightarrow> 'h coord \<Rightarrow> bool" where
  "effect_ready st c \<longleftrightarrow> c_mutations c = {} \<and> (\<forall>h. alive (hosts (c_world c) h)) \<and>
     (st = FENCED \<longrightarrow> cur_lease (auth (c_world c)) = None) \<and>
     (st = WRITE_COMMITTED \<longrightarrow> token_status (c_lease_token c) (c_world c) = TokValid \<and>
        current_epoch (auth (c_world c)) = c_target_epoch c - 1) \<and>
     (st = HOSTS_ACTIVATING \<longrightarrow> current_epoch (auth (c_world c)) \<le> c_target_epoch c)"

lemma effect_ready_cong:
  assumes "view d = view c" "env_of (c_world d) = env_of (c_world c)"
  shows "effect_ready st d = effect_ready st c"
proof -
  have core: "core_of (c_world d) = core_of (c_world c)" using arg_cong [OF assms(1), of v_core] by simp
  have a: "cur_lease (auth (c_world d)) = cur_lease (auth (c_world c))"
      "current_epoch (auth (c_world d)) = current_epoch (auth (c_world c))"
    using core by (metis core_of_sel(2)) (use core in \<open>metis core_of_sel(1)\<close>)
  have b: "c_lease_token d = c_lease_token c" "c_target_epoch d = c_target_epoch c" "c_mutations d = c_mutations c"
    using arg_cong [OF assms(1), of v_token] arg_cong [OF assms(1), of v_target] view_ctl [OF assms(1)]
    by (simp_all add: ctl_eq_iff)
  have "token_status t (c_world d) = token_status t (c_world c)" for t
    using a env_of_eqD(8) [OF assms(2)] by (simp add: token_status_def split: option.split)
  then show ?thesis using a b env_of_eqD(4) [OF assms(2)] by (simp add: effect_ready_def)
qed

lemma effect_ready_applied:
  assumes "effect_ready st c" "st \<in> set STATES" "key \<in> set (keys_for m e st)"
  shows "snd (effect_fn st key c) = Inr Applied"
proof (cases st)
  case QUIESCING
  then show ?thesis by (simp add: effect_fn_def quiesce_fn_def split: prod.split)
next
  case FENCED
  let ?c = "c\<lparr>c_world := fst (set_fence (fence_key_of (c_migration_id c)) (c_world c))\<rparr>"
  have n: "cur_lease (auth (c_world ?c)) = None"
    using assms(1) FENCED by (simp add: effect_ready_def set_fence_def a_rec_def Let_def)
  obtain d b where d: "lease_needed ?c = (d, b)" by fastforce
  have "cur_lease (auth (c_world d)) = None"
    using arg_cong [OF lease_needed_frame(1) [OF d], of "\<lambda>v. w_lease (v_core v)"] n by simp
  then have "snd (take_lease d) = Inr Applied"
    by (simp add: take_lease_def acquire_lease_def Let_def)
  then show ?thesis using FENCED by (simp add: effect_fn_def fence_fn_def d)
next
  case WRITE_COMMITTED
  obtain d r where r: "effect_fn WRITE_COMMITTED key c = (d, r)" by fastforce
  have rd: "token_status (c_lease_token c) (c_world c) = TokValid"
    "current_epoch (auth (c_world c)) = c_target_epoch c - 1" "c_mutations c = {}"
    using assms(1) WRITE_COMMITTED by (simp_all add: effect_ready_def)
  then have "snd (effect_fn WRITE_COMMITTED key c) = Inr Applied"
    by (simp add: effect_fn_def commit_fn_def cas_commit_def check_token_def a_rec_def Let_def)
  then show ?thesis using WRITE_COMMITTED by simp
next
  case HOSTS_ACTIVATING
  then obtain h where "key = EffKey m e (KAck h)" using assms(3) by (auto elim: keys_for_cases)
  with HOSTS_ACTIVATING assms(1) show ?thesis
    by (simp add: effect_ready_def effect_fn_def ack_fn_def host_ack_def Let_def)
next
  case COMPLETE
  then show ?thesis by (simp add: effect_fn_def complete_fn_def Let_def)
qed (use assms(2) in \<open>simp_all add: effect_fn_def STATES_def\<close>)

definition leased_until :: "int \<Rightarrow> 'h coord \<Rightarrow> bool" where
  "leased_until t c \<longleftrightarrow> (\<exists>l. cur_lease (auth (c_world c)) = Some l \<and> c_lease_token c = Some (l_token l) \<and>
     \<not> l_released l \<and> l_expires_at l = t)"

definition lease_of :: "'h coord \<Rightarrow> lease option \<times> lease_token option" where
  "lease_of c = (cur_lease (auth (c_world c)), c_lease_token c)"

lemma leased_until_of: "lease_of d = lease_of c \<Longrightarrow> leased_until t d = leased_until t c"
  by (simp add: lease_of_def leased_until_def)

lemma lease_of_view: "lease_of c = (w_lease (v_core (view c)), v_token (view c))"
  by (simp add: lease_of_def)

lemma leased_view: "leased_until t c \<longleftrightarrow> (\<exists>l. w_lease (v_core (view c)) = Some l \<and>
    v_token (view c) = Some (l_token l) \<and> \<not> l_released l \<and> l_expires_at l = t)"
  by (simp add: leased_until_def)

lemma leased_until_cong: "view d = view c \<Longrightarrow> leased_until t d = leased_until t c"
  by (simp only: leased_view)

lemma leased_mark: "view d = mark k (view e) \<Longrightarrow> leased_until t d = leased_until t e"
  by (simp only: leased_view mark_sel)

lemma leased_valid: "leased_until t c \<Longrightarrow> clock (c_world c) < t \<Longrightarrow> token_status (c_lease_token c) (c_world c) = TokValid"
  by (auto simp: leased_until_def token_status_def)

lemma fence_leases:
  assumes "cur_lease (auth (c_world c)) = None" "effect_fn FENCED key c = (d, r)"
  shows "leased_until (clock (c_world c) + LEASE_TTL) d"
proof -
  let ?c = "c\<lparr>c_world := fst (set_fence (fence_key_of (c_migration_id c)) (c_world c))\<rparr>"
  have n: "cur_lease (auth (c_world ?c)) = None" "clock (c_world ?c) = clock (c_world c)"
    using assms(1) by (simp_all add: set_fence_def a_rec_def Let_def)
  obtain e b where e: "lease_needed ?c = (e, b)" by fastforce
  have b: b and ce: "cur_lease (auth (c_world e)) = None" "clock (c_world e) = clock (c_world c)"
    using e n by (auto simp: lease_needed_def check_token_def token_status_def a_rec_def Let_def split: option.splits)
  have "(d, r) = take_lease e" using assms(2) b by (simp add: effect_fn_def fence_fn_def e)
  then show ?thesis
    using ce by (simp add: take_lease_def acquire_lease_def Let_def leased_until_def durable_def a_rec_def)
qed

lemma effect_lease:
  assumes "effect_fn st key c = (d, r)" "c_mutations c = {}" "sound c" "st \<notin> {FENCED, COMPLETE}"
    "st = HOSTS_ACTIVATING \<longrightarrow> (\<exists>m e h. key = EffKey m e (KAck h))"
  shows "lease_of d = lease_of c \<and> c_target_epoch d = c_target_epoch c \<and>
    (st \<noteq> WRITE_COMMITTED \<longrightarrow> current_epoch (auth (c_world d)) = current_epoch (auth (c_world c)))"
proof -
  have via: "?thesis" if "v_token (view d) = v_token (view c)" "w_lease (v_core (view d)) = w_lease (v_core (view c))"
    "v_target (view d) = v_target (view c)"
    "st \<noteq> WRITE_COMMITTED \<longrightarrow> w_epoch (v_core (view d)) = w_epoch (v_core (view c))"
    using that by (simp add: lease_of_def)
  show ?thesis
  proof (cases st)
    case QUIESCING
    then show ?thesis using view_quiesce [of key c d r] assms(1) by (intro via) simp_all
  next
    case WRITE_COMMITTED
    then have "effect_fn WRITE_COMMITTED key c = (d, r)" using assms(1) by simp
    from this assms(2) show ?thesis
    proof (cases rule: view_commit)
      case failed
      then show ?thesis by (intro via) simp_all
    next
      case applied
      show ?thesis by (rule via) (simp_all only: applied, simp_all add: WRITE_COMMITTED)
    qed
  next
    case HOSTS_ACTIVATING
    then obtain m e h where "effect_fn HOSTS_ACTIVATING (EffKey m e (KAck h)) c = (d, r)" using assms(1,5) by auto
    from this assms(2) show ?thesis
    proof (cases rule: view_ack)
      case failed
      then show ?thesis by (intro via) simp_all
    next
      case applied
      show ?thesis by (rule via) (simp_all only: applied, simp_all)
    qed
  qed (use assms(4) view_other [of st key c d r, OF _ assms(1)] in auto)
qed

text \<open>One key of a ready phase.\<close>

lemma issue_ready:
  fixes c :: "'h coord"
  assumes "effect_ready st c" "healthy H (c_world c)" "jinv (view c)" "st \<in> set STATES" "key \<in> set (keys_for m e st)"
  obtains d :: "'h coord" where "issue st key c = (d, Inr Applied)" "env_of (c_world d) = env_of (c_world c)"
    "c_observer d = c_observer c" "st = HOSTS_ACTIVATING \<longrightarrow> effect_ready st d"
    "st \<notin> {FENCED, COMPLETE} \<Longrightarrow> lease_of d = lease_of c"
    "st = FENCED \<Longrightarrow> leased_until (clock (c_world c) + LEASE_TTL) d"
proof -
  have ref: "c_mutations c = {}" using assms(1) by (simp add: effect_ready_def)
  have ok: "snd (effect_fn st key c1) = Inr Applied"
    if "view c1 = view c" "env_of (c_world c1) = env_of (c_world c)" for c1 :: "'h coord"
    using effect_ready_applied assms(1,4,5) effect_ready_cong [OF that] by blast
  obtain c1 f d :: "'h coord" where iss: "view c1 = view c" "env_of (c_world c1) = env_of (c_world c)"
    "effect_fn st key c1 = (f, Inr Applied)" "issue st key c = (d, Inr Applied)"
    "view d = mark key (view f)" "env_of (c_world d) = env_of (c_world c)" "c_observer d = c_observer c"
    using issue_healthy [OF assms(2) ref ok] by blast
  have c1: "effect_ready st c1" using effect_ready_cong [OF iss(1,2)] assms(1) by simp
  have ref1: "c_mutations c1 = {}" using c1 by (simp add: effect_ready_def)
  have so1: "sound c1" using jinvD(1) [of c1] assms(3) iss(1) by simp
  have ack: "st = HOSTS_ACTIVATING \<longrightarrow> (\<exists>m e h. key = EffKey m e (KAck h))"
    using assms(5) by (auto elim: keys_for_cases)
  note el = effect_lease [OF iss(3) ref1 so1 _ ack]
  have td: "c_target_epoch d = c_target_epoch f" "current_epoch (auth (c_world d)) = current_epoch (auth (c_world f))"
    "c_mutations d = c_mutations c"
    using arg_cong [OF iss(5), of v_target] arg_cong [OF iss(5), of "\<lambda>v. w_epoch (v_core v)"] iss(4)
      ctl_issue [of st key c] by (simp_all add: ctl_eq_iff)
  show thesis
  proof (rule that [OF iss(4,6,7)])
    show "st = HOSTS_ACTIVATING \<longrightarrow> effect_ready st d"
      using td el c1 ref env_of_eqD(4) [OF iss(6)] assms(1) by (auto simp: effect_ready_def)
    show "lease_of d = lease_of c" if "st \<notin> {FENCED, COMPLETE}"
      using el [OF that] by (simp only: lease_of_view iss(5) mark_sel) (simp only: lease_of_view iss(1))
    show "leased_until (clock (c_world c) + LEASE_TTL) d" if "st = FENCED"
      using fence_leases [of c1 key f] c1 iss(3) that leased_mark [OF iss(5)] env_of_eqD(8) [OF iss(2)]
      by (auto simp: effect_ready_def)
  qed
qed

text \<open>All keys of a ready phase whose intent is open.\<close>

lemma issue_all_ready:
  fixes c :: "'h coord"
  assumes "effect_ready st c" "healthy H (c_world c)" "journal.opened st keys c" "st \<in> set STATES"
  obtains d :: "'h coord" and rs where "issue_all st keys c = (d, Inr rs)" "\<forall>x\<in>set rs. snd x = Applied"
    "env_of (c_world d) = env_of (c_world c)" "c_observer d = c_observer c"
    "st \<notin> {FENCED, COMPLETE} \<Longrightarrow> lease_of d = lease_of c"
    "st = FENCED \<Longrightarrow> leased_until (clock (c_world c) + LEASE_TTL) d"
proof -
  have j: "jinv (view c)" and dg: "dangling_intent (c_journal c) = Some (st, keys)" "active c"
    using assms(3) by (simp_all add: journal.opened_def)
  have keys: "keys = keys_for (c_migration_id c) (c_target_epoch c) st"
    by (rule jinv_open(3) [OF j dg(2,1)])
  have ref: "c_mutations c = {}" by (rule jinvD(2) [OF j])
  obtain k ks where ks: "keys = k # ks" "k \<in> set (keys_for (c_migration_id c) (c_target_epoch c) st)"
    using keys by (cases keys) (auto simp: keys_for_def HOSTS_def split: if_splits)
  obtain d where d: "issue st k c = (d, Inr Applied)" "env_of (c_world d) = env_of (c_world c)"
    "c_observer d = c_observer c" "st = HOSTS_ACTIVATING \<longrightarrow> effect_ready st d"
    "st \<notin> {FENCED, COMPLETE} \<Longrightarrow> lease_of d = lease_of c"
    "st = FENCED \<Longrightarrow> leased_until (clock (c_world c) + LEASE_TTL) d"
    using issue_ready [OF assms(1,2) j assms(4) ks(2)] by blast
  show thesis
  proof (cases "st = HOSTS_ACTIVATING")
    case False
    then have "ks = []" using keys ks(1) by (simp add: keys_for_def)
    then show thesis using that [of d "[(k, Applied)]"] d ks(1) ref by simp
  next
    case True
    then obtain k2 where k2: "ks = [k2]" "k2 \<in> set (keys_for (c_migration_id c) (c_target_epoch c) st)"
      using keys ks(1) by (auto simp: keys_for_def HOSTS_def)
    have "journal.opened st keys d"
      using journal.issue_keep [OF assms(3), of k] ks(1) d(1) by simp
    then have jd: "jinv (view d)" by (simp add: journal.opened_def)
    have refd: "c_mutations d = {}" by (rule jinvD(2) [OF jd])
    have hd: "healthy H (c_world d)" using healthy_cong [OF d(2)] assms(2) by simp
    obtain e where e: "issue st k2 d = (e, Inr Applied)" "env_of (c_world e) = env_of (c_world d)"
      "c_observer e = c_observer d" "st \<notin> {FENCED, COMPLETE} \<Longrightarrow> lease_of e = lease_of d"
      using issue_ready [OF _ hd jd assms(4) k2(2)] d(4) True by blast
    show thesis
      using that [of e "[(k, Applied), (k2, Applied)]"] d e ks(1) k2(1) True ref refd by simp
  qed
qed

subsection \<open>Steps\<close>

definition calm :: "'h hook \<Rightarrow> bool" where
  "calm hook \<longleftrightarrow> (\<forall>p st hw. hook p st hw = (hw, Inr ()))"

lemma fire_calm: "calm hook \<Longrightarrow> fire hook p st c = (c, Inr ())"
  by (simp add: calm_def fire_def)

lemma calm_fault: "calm hook \<Longrightarrow> fault_hook hook"
  by (simp add: calm_def fault_hook_def)

definition on_track :: "(string \<Rightarrow> string) \<Rightarrow> int \<Rightarrow> 'h coord \<Rightarrow> bool" where
  "on_track H t0 c \<longleftrightarrow> phase_inv (view c) \<and> healthy H (c_world c) \<and> \<not> ob_replay (c_observer c) \<and>
     source_set_epoch (c_world c) = c_keyed_epoch c \<and> dangling_intent (c_journal c) = None \<and>
     phase_no (c_state c) \<le> 8 \<and> clock (c_world c) = t0 + 5 * int (phase_no (c_state c)) \<and>
     (phase_no (c_state c) < 2 \<longrightarrow> cur_lease (auth (c_world c)) = None) \<and>
     (2 \<le> phase_no (c_state c) \<and> phase_no (c_state c) < 8 \<longrightarrow> leased_until (t0 + 110) c)"

lemma observe_fresh:
  assumes "\<not> ob_replay (c_observer c)" "jinv (view c)"
  obtains d ob where "step_observe H nxt c = (d, Inr ob)" "view d = view c"
    "env_of (c_world d) = env_of (c_world c)" "\<not> ob_replay (c_observer d)"
proof -
  obtain d r where d: "step_observe H nxt c = (d, r)" by fastforce
  have v: "view d = view c"
    using view_step_observe [of c H nxt] jinvD(1) [OF assms(2)] d by (simp add: sound_def)
  have "(\<exists>ob. r = Inr ob) \<and> env_of (c_world d) = env_of (c_world c) \<and> \<not> ob_replay (c_observer d)"
    using d assms(1)
    by (auto simp: step_observe_def fresh_observe_def observe_def Let_def env_frames cevent_def durable_def
        split: option.splits if_splits)
  then show thesis using that d v by blast
qed

lemma guard_passes:
  assumes "c_mutations c = {}" "\<forall>h. alive (hosts (c_world c) h)" "source_set_epoch (c_world c) = c_keyed_epoch c"
    "nxt \<in> FENCE_STATES \<longrightarrow> token_status (c_lease_token c) (c_world c) = TokValid"
  obtains d where "guard nxt obs c = (d, None)" "view d = view c" "env_of (c_world d) = env_of (c_world c)"
    "c_observer d = c_observer c"
proof -
  obtain d g where d: "guard nxt obs c = (d, g)" by fastforce
  have v: "view d = view c" using view_guard [of nxt obs c] d by simp
  have "dead_hosts w = []" if "\<forall>h. alive (hosts w h)" for w using that by (simp add: dead_hosts_def)
  then have "g = None \<and> env_of (c_world d) = env_of (c_world c) \<and> c_observer d = c_observer c"
    using d assms
    by (auto simp: guard_def guard_lease_def note_drift_def check_token_def a_rec_def Let_def env_of_def
        split: if_splits prod.splits)
  then show thesis using that d v by blast
qed

lemma next_complete: "working s \<Longrightarrow> \<not> working (next_state s) \<Longrightarrow> next_state s = COMPLETE"
  by (erule working_cases) (simp_all add: working_def STATES_def)

text \<open>On track, the effect of the next phase is ready once its intent is open.\<close>

lemma ready_next:
  assumes "on_track H t0 c" "working (c_state c)" "view d = (view c)\<lparr>v_ctl := k\<rparr>"
    "ct_mutations k = {}" "healthy H (c_world d)"
    "clock (c_world d) = t0 + 5 * int (phase_no (next_state (c_state c)))"
  shows "effect_ready (next_state (c_state c)) d"
proof -
  have f: "cur_lease (auth (c_world d)) = cur_lease (auth (c_world c))"
    "current_epoch (auth (c_world d)) = current_epoch (auth (c_world c))"
    "c_lease_token d = c_lease_token c" "c_target_epoch d = c_target_epoch c" "c_mutations d = {}"
    using arg_cong [OF assms(3), of "\<lambda>v. w_lease (v_core v)"] arg_cong [OF assms(3), of "\<lambda>v. w_epoch (v_core v)"]
      arg_cong [OF assms(3), of v_token] arg_cong [OF assms(3), of v_target] arg_cong [OF assms(3), of v_ctl]
      assms(4) by (auto simp: ctl_def)
  have j: "jinv (view c)" using assms(1) by (simp add: on_track_def phase_inv_def)
  have ep: "current_epoch (auth (c_world c)) \<le> c_target_epoch c" using j by (auto simp: jinv_def)
  have al: "\<forall>h. alive (hosts (c_world d) h)" using assms(5) by (simp add: healthy_def)
  have le: "2 \<le> phase_no (c_state c) \<Longrightarrow> phase_no (c_state c) < 8 \<Longrightarrow> leased_until (t0 + 110) d"
    using assms(1) f by (auto simp: on_track_def leased_until_def)
  show ?thesis
    using assms(2)
  proof (cases rule: working_cases)
    case QUIESCING
    then show ?thesis using assms(1) f al by (simp add: effect_ready_def on_track_def)
  next
    case VALIDATED
    then have "token_status (c_lease_token d) (c_world d) = TokValid"
      using le assms(6) by (intro leased_valid) auto
    moreover have "current_epoch (auth (c_world c)) = c_target_epoch c - 1"
      using j assms(1) VALIDATED by (auto simp: jinv_def on_track_def eff_ctl_def committed_def)
    ultimately show ?thesis using VALIDATED f al by (simp add: effect_ready_def)
  qed (use f al ep in \<open>simp_all add: effect_ready_def\<close>)
qed

text \<open>Observation and guard let a step on track through to its effects.\<close>

lemma step_reaches_effects:
  fixes c :: "'h coord"
  assumes "on_track H t0 c" "working (c_state c)" "calm hook"
  obtains d where "step H hook c = step_effects hook (next_state (c_state c)) d" "view d = view c"
    "env_of (c_world d) = env_of (advance STEP_TICKS (c_world c))" "\<not> ob_replay (c_observer d)"
proof -
  let ?n = "next_state (c_state c)"
  define c1 where "c1 = c\<lparr>c_world := advance STEP_TICKS (c_world c)\<rparr>"
  have t: "jinv (view c)" "healthy H (c_world c)" "\<not> ob_replay (c_observer c)"
    "source_set_epoch (c_world c) = c_keyed_epoch c" "clock (c_world c) = t0 + 5 * int (phase_no (c_state c))"
    using assms(1) by (simp_all add: on_track_def phase_inv_def)
  have nt: "\<not> terminal (c_state c)" using assms(2) by (simp add: working_iff)
  have v1: "view c1 = view c" by (simp add: c1_def frame_simps)
  have h1: "healthy H (c_world c1)" using t(2) by (simp add: c1_def healthy_def advance_def known_good_ok_def)
  have "\<not> ob_replay (c_observer c1)" "jinv (view c1)" using t v1 by (simp_all add: c1_def)
  then obtain c2 ob where o2: "step_observe H ?n c1 = (c2, Inr ob)" "view c2 = view c1"
    "env_of (c_world c2) = env_of (c_world c1)" "\<not> ob_replay (c_observer c2)"
    by (rule observe_fresh)
  have v2: "view c2 = view c" using o2(2) v1 by simp
  have k2: "clock (c_world c2) = t0 + 5 * int (phase_no ?n)"
    using env_of_eqD(8) [OF o2(3)] t(5) phase_no_next [OF assms(2)]
    by (simp add: c1_def advance_def STEP_TICKS_def)
  have st2: "c_keyed_epoch c2 = c_keyed_epoch c" "c_mutations c2 = {}"
    using view_ctl [OF v2] jinvD(2) [OF t(1)] by (simp_all add: ctl_eq_iff)
  have s2: "source_set_epoch (c_world c2) = c_keyed_epoch c2"
    using env_of_eqD(7) [OF o2(3)] t(4) st2 by (simp add: c1_def advance_def)
  have le: "leased_until (t0 + 110) c2" if "2 \<le> phase_no (c_state c)" "phase_no (c_state c) < 8"
    using assms(1) that leased_until_cong [OF v2] by (simp add: on_track_def)
  have fs: "?n \<in> FENCE_STATES \<longrightarrow> token_status (c_lease_token c2) (c_world c2) = TokValid"
    using assms(2) le k2 by (cases rule: working_cases) (auto simp: FENCE_STATES_def intro!: leased_valid)
  have "\<forall>h. alive (hosts (c_world c2) h)" using env_of_eqD(4) [OF o2(3)] h1 by (simp add: healthy_def)
  from guard_passes [OF st2(2) this s2 fs, of ob]
  obtain c3 where g3: "guard ?n ob c2 = (c3, None)" "view c3 = view c2"
    "env_of (c_world c3) = env_of (c_world c2)" "c_observer c3 = c_observer c2" by blast
  have kg: "known_good_ok H (c_world c1)" using h1 by (simp add: healthy_def)
  have "step H hook c = step_effects hook ?n c3"
    by (simp add: step_def nt Let_def c1_def [symmetric] fire_calm [OF assms(3)] kg o2(1) g3(1))
  moreover have "env_of (c_world c3) = env_of (advance STEP_TICKS (c_world c))"
    using g3(3) o2(3) by (simp add: c1_def)
  ultimately show thesis using that [of c3] g3(2,4) v2 o2(4) by simp
qed

text \<open>Effects that are ready end in the checkpoint.\<close>

lemma step_effects_ready:
  fixes c :: "'h coord"
  assumes "jinv (view c)" "working (c_state c)" "n = next_state (c_state c)" "calm hook"
    "healthy H (c_world c)" "effect_ready n c"
  obtains d where "step_effects hook n c = (d, Inr n)" "c_state d = n" "dangling_intent (c_journal d) = None"
    "env_of (c_world d) = env_of (c_world c)" "c_observer d = c_observer c" "c_keyed_epoch d = c_keyed_epoch c"
    "n \<notin> {FENCED, COMPLETE} \<Longrightarrow> lease_of d = lease_of c"
    "n = FENCED \<Longrightarrow> leased_until (clock (c_world c) + LEASE_TTL) d"
proof -
  note so = jinvD(1) [OF assms(1)]
  have nS: "n \<in> set STATES" "n \<noteq> PAUSED_SAFE"
    unfolding assms(3) using assms(2) by (cases rule: working_cases; simp add: STATES_def)+
  define keys where "keys = effect_keys n c"
  define c4 where "c4 = durable (RecIntent n keys) c"
  have v4: "view c4 = (view c)\<lparr>v_ctl := (ctl c)\<lparr>ct_dangling := Some (n, keys)\<rparr>\<rparr>"
    unfolding c4_def by (rule view_intent [OF so])
  have w4: "c_world c4 = c_world c" "c_observer c4 = c_observer c" "c_lease_token c4 = c_lease_token c"
    "c_target_epoch c4 = c_target_epoch c" "c_mutations c4 = c_mutations c" "c_keyed_epoch c4 = c_keyed_epoch c"
    by (simp_all add: c4_def durable_def)
  have op: "journal.opened n keys c4"
    using journal.keep_intent [OF assms(1-3)] view_ctl_intent [OF so, of n keys] working_active [OF assms(2)]
    by (simp add: journal.opened_def c4_def keys_def active_def)
  have "effect_ready n c4" "healthy H (c_world c4)" using assms(5,6) w4 by (simp_all add: effect_ready_def)
  from issue_all_ready [OF this op nS(1)]
  obtain c5 rs where i5: "issue_all n keys c4 = (c5, Inr rs)" "\<forall>x\<in>set rs. snd x = Applied"
    "env_of (c_world c5) = env_of (c_world c4)" "c_observer c5 = c_observer c4"
    "n \<notin> {FENCED, COMPLETE} \<Longrightarrow> lease_of c5 = lease_of c4"
    "n = FENCED \<Longrightarrow> leased_until (clock (c_world c4) + LEASE_TTL) c5" by blast
  define d where "d = checkpoint n keys ViaStep c5"
  have nu: "find (\<lambda>kr. snd kr = Unknown) rs = None" using i5(2) by (auto simp: find_None_all)
  have nr: "first_rejected rs = None" using i5(2) by (induction rs rule: first_rejected.induct) auto
  have "journal.opened n keys c5" using journal.issue_all_keep [OF op subset_refl] i5(1) by simp
  then have so5: "sound c5" using jinvD(1) by (auto simp: journal.opened_def)
  note vd = view_checkpoint [OF so5 nS(2), of keys ViaStep, folded d_def]
  have sd: "c_state d = n" "dangling_intent (c_journal d) = None"
    using arg_cong [OF vd, of "\<lambda>v. ct_state (v_ctl v)"] arg_cong [OF vd, of "\<lambda>v. ct_dangling (v_ctl v)"] by simp_all
  have se: "step_effects hook n c = (d, Inr n)"
    using sd by (simp add: step_effects_def Let_def keys_def [symmetric] c4_def [symmetric] i5(1) nu nr
        fire_calm [OF assms(4)] d_def)
  have "ctl c5 = ctl c4" using ctl_issue_all [of n keys c4] i5(1) by simp
  then have kd: "c_keyed_epoch d = c_keyed_epoch c"
    using arg_cong [OF vd, of "\<lambda>v. ct_keyed (v_ctl v)"] w4 by (simp add: ctl_eq_iff)
  have ld: "lease_of d = lease_of c5" by (simp only: lease_of_view vd) simp
  have l4: "lease_of c4 = lease_of c" using w4 by (simp add: lease_of_def)
  have od: "c_observer d = c_observer c" "env_of (c_world d) = env_of (c_world c)"
    using i5 w4 by (simp_all add: d_def checkpoint_def Let_def durable_def cevent_def env_frames)
  show thesis
    by (rule that [OF se sd od(2,1) kd]) (use i5(5,6) ld l4 leased_until_of [OF ld] w4 in simp_all)
qed

lemma step_on_track:
  fixes c :: "'h coord"
  assumes "on_track H t0 c" "working (c_state c)" "calm hook"
  obtains d where "step H hook c = (d, Inr (next_state (c_state c)))" "on_track H t0 d"
    "c_state d = next_state (c_state c)"
proof -
  let ?n = "next_state (c_state c)"
  have t: "phase_inv (view c)" "healthy H (c_world c)" "source_set_epoch (c_world c) = c_keyed_epoch c"
    "clock (c_world c) = t0 + 5 * int (phase_no (c_state c))"
    using assms(1) by (simp_all add: on_track_def)
  note pn = phase_no_next [OF assms(2)]
  obtain c3 where c3: "step H hook c = step_effects hook ?n c3" "view c3 = view c"
    "env_of (c_world c3) = env_of (advance STEP_TICKS (c_world c))" "\<not> ob_replay (c_observer c3)"
    by (rule step_reaches_effects [OF assms])
  have j3: "jinv (view c3)" using t(1) c3(2) by (simp add: phase_inv_def)
  have st3: "c_state c3 = c_state c" "c_keyed_epoch c3 = c_keyed_epoch c"
    using view_ctl [OF c3(2)] by (simp_all add: ctl_eq_iff)
  have h3: "healthy H (c_world c3)"
    using healthy_cong [OF c3(3)] t(2) by (simp add: healthy_def advance_def known_good_ok_def)
  have k3: "clock (c_world c3) = t0 + 5 * int (phase_no ?n)" "source_set_epoch (c_world c3) = c_keyed_epoch c"
    using env_of_eqD(7,8) [OF c3(3)] t(3,4) pn by (simp_all add: advance_def STEP_TICKS_def)
  have "effect_ready ?n c3"
    by (rule ready_next [OF assms(1,2) _ _ h3 k3(1), of "ctl c3"])
      (use c3(2) jinvD(2) [of c] t(1) in \<open>simp_all add: view_def phase_inv_def\<close>)
  then obtain d where d: "step_effects hook ?n c3 = (d, Inr ?n)" "c_state d = ?n"
    "dangling_intent (c_journal d) = None" "env_of (c_world d) = env_of (c_world c3)"
    "c_observer d = c_observer c3" "c_keyed_epoch d = c_keyed_epoch c3"
    "?n \<notin> {FENCED, COMPLETE} \<Longrightarrow> lease_of d = lease_of c3"
    "?n = FENCED \<Longrightarrow> leased_until (clock (c_world c3) + LEASE_TTL) d"
    using step_effects_ready [OF j3 _ _ assms(3) h3, of ?n] assms(2) st3(1) by metis
  have l3: "lease_of c3 = lease_of c" by (simp only: lease_of_view c3(2))
  have early: "cur_lease (auth (c_world d)) = None" if "phase_no ?n < 2"
  proof -
    from that pn have "c_state c = INIT" using phase_no_inj [of "c_state c" INIT] by simp
    then have "lease_of d = lease_of c" using d(7) l3 by simp
    with that assms(1) pn show ?thesis by (simp add: lease_of_def on_track_def)
  qed
  have late: "leased_until (t0 + 110) d" if "2 \<le> phase_no ?n" "phase_no ?n < 8"
  proof (cases "?n = FENCED")
    case True
    then show ?thesis using d(8) k3(1) by (simp add: LEASE_TTL_def add.commute)
  next
    case False
    then have "2 \<le> phase_no (c_state c)"
      using that(1) pn phase_no_inj [of ?n FENCED] by (cases "phase_no (c_state c) = 1") auto
    moreover have "?n \<noteq> COMPLETE" using that(2) by auto
    ultimately show ?thesis
      using False d(7) l3 leased_until_of [of d c "t0 + 110"] assms(1) pn that(2) by (simp add: on_track_def)
  qed
  have "phase_inv (view d)"
    using phases.step_keep [OF calm_fault [OF assms(3)] t(1), of H] c3(1) d(1) by simp
  then have "on_track H t0 d"
    using healthy_cong [OF d(4)] h3 env_of_eqD(7,8) [OF d(4)] d(2,3,5,6) c3(4) k3 st3 pn
      phase_no_working [OF assms(2)] early late
    by (simp add: on_track_def)
  with c3(1) d(1,2) show thesis using that by simp
qed

lemma run_reaches_complete:
  fixes hk :: 'h
  assumes "healthy H w" "fresh_world w" "cur_lease (auth w) = None" "\<not> ob_replay ob"
    "calm (hook :: 'h hook)"
  shows "\<exists>c. run H hook (Coordinator w [] ob mig {} hk) = (c, Inr COMPLETE) \<and> c_state c = COMPLETE"
proof -
  let ?c0 = "Coordinator w [] ob mig {} hk"
  have loop: "\<exists>c. run_loop n H hook d = (c, Inr COMPLETE) \<and> c_state c = COMPLETE"
    if "on_track H (clock w) d" "working (c_state d)" "8 - phase_no (c_state d) \<le> n" for n and d :: "'h coord"
    using that
  proof (induction n arbitrary: d)
    case 0
    then show ?case using phase_no_working by fastforce
  next
    case (Suc n)
    obtain e where e: "step H hook d = (e, Inr (next_state (c_state d)))" "on_track H (clock w) e"
      "c_state e = next_state (c_state d)" by (rule step_on_track [OF Suc.prems(1,2) assms(5)])
    show ?case
    proof (cases "working (c_state e)")
      case True
      then have "\<not> terminal (next_state (c_state d))" using e(3) by (simp add: working_iff)
      with Suc.IH [OF e(2) True] show ?thesis
        using Suc.prems(3) e phase_no_next [OF Suc.prems(2)] by simp
    next
      case False
      then have "next_state (c_state d) = COMPLETE"
        using next_complete [OF Suc.prems(2)] e(3) by simp
      moreover have "terminal COMPLETE" by (simp add: terminal_def)
      ultimately show ?thesis using e by simp
    qed
  qed
  have "on_track H (clock w) ?c0"
    using assms phase_start [OF assms(2), of ob mig hk] ctl_start [of w ob mig hk] jinv_start [of w ob mig hk]
    by (simp add: on_track_def)
      (simp add: Coordinator_def recover_def Let_def durable_def dangling_intent_def journal_append_def journal_last_def)
  then show ?thesis using loop [of ?c0 20] ctl_start [of w ob mig hk] by (simp add: run_def working_def)
qed

end
