(* ===== verification/Drill_Props.thy ===== *)
theory Drill_Props
  imports Drill_Live
begin

section \<open>Correctness of the rehearsed cutover\<close>

text \<open>
  The properties of the coordinator, stated over its operations. Every one of them is about a
  migration opened on a fresh world and everything that can happen to it as long as no rollback is
  refused after its end (\<open>reach_unreopened\<close>; \<open>Drill_Findings\<close> shows what such a rollback breaks).
\<close>

subsection \<open>Concrete migrations for the witnesses\<close>

definition start0 :: "unit coord" where
  "start0 = Coordinator (World id default_sse) [] observer0 ''m'' {} ()"

definition done0 :: "unit coord" where
  "done0 = fst (run id no_faults start0)"

definition fenced0 :: "unit coord" where
  "fenced0 = fst (step id no_faults (fst (step id no_faults start0)))"

lemma calm_no_faults: "calm no_faults"
  by (simp add: calm_def no_faults_def)

lemma healthy_World: "healthy H (World H sse)"
  by (simp add: healthy_def World_def known_good_ok_def)

lemma reach_run_loop: "reach_unreopened H hook c0 c \<Longrightarrow> reach_unreopened H hook c0 (fst (run_loop n H hook c))"
proof (induction n arbitrary: c)
  case (Suc n)
  have st: "reach_unreopened H hook c0 (fst (step H hook c))" by (rule reach_unreopened.step [OF Suc.prems])
  show ?case unfolding run_loop.simps
    by (rule fst_bindx_induct [where P = "reach_unreopened H hook c0", OF st]) (use st Suc.IH in auto)
qed simp

lemma reach_run: "reach_unreopened H hook c0 c \<Longrightarrow> reach_unreopened H hook c0 (fst (run H hook c))"
  by (simp add: run_def reach_run_loop)

lemma reach_done0: "reach_unreopened id no_faults start0 done0"
  unfolding done0_def by (intro reach_run reach_unreopened.init)

lemma on_track_start0: "on_track id 0 start0"
  using healthy_World [of id default_sse] phase_start [OF fresh_World [of id default_sse], of observer0 "''m''" "()"]
    ctl_start [of "World id default_sse" observer0 "''m''" "()"]
  unfolding start0_def
  by (simp add: on_track_def)
    (simp add: Coordinator_def recover_def Let_def durable_def dangling_intent_def journal_append_def
      journal_last_def World_def authority0_def observer0_def)

lemma on_track_step:
  assumes "on_track H t0 c" "working (c_state c)" "calm hook"
  shows "on_track H t0 (fst (step H hook c))" "c_state (fst (step H hook c)) = next_state (c_state c)"
  using step_on_track [OF assms] by (metis fst_conv)+

lemma fenced0: "c_state fenced0 = FENCED" "reach_unreopened id no_faults start0 fenced0"
proof -
  have s0: "c_state start0 = INIT" by (simp add: start0_def ctl_start)
  have s1: "on_track id 0 (fst (step id no_faults start0))" "c_state (fst (step id no_faults start0)) = QUIESCING"
    using on_track_step [OF on_track_start0 _ calm_no_faults] s0 by (simp_all add: working_def)
  show "c_state fenced0 = FENCED"
    using on_track_step(2) [OF s1(1) _ calm_no_faults] s1(2) by (simp add: fenced0_def working_def STATES_def)
  show "reach_unreopened id no_faults start0 fenced0" unfolding fenced0_def by (intro reach_unreopened.intros)
qed

lemma done0_state: "c_state done0 = COMPLETE"
proof -
  have "\<exists>c. run id no_faults start0 = (c, Inr COMPLETE) \<and> c_state c = COMPLETE"
    unfolding start0_def
    by (rule run_reaches_complete [OF healthy_World fresh_World _ _ calm_no_faults])
      (simp_all add: World_def authority0_def observer0_def)
  then show ?thesis by (auto simp: done0_def)
qed

subsection \<open>Properties\<close>

text \<open>C1. Crash recovery: whatever happened to a migration, also a death in the middle of a
  transition, a process started again from its journal is in the same state, paused for the same
  reason at the same state, holds the same lease token and has the same target epoch and
  source-set epoch. (No rollback is refused once the migration has
  ended: \<open>reach_unreopened\<close>.)\<close>

theorem crash_recovery:
  assumes "reach_unreopened H hook (Coordinator w0 [] ob0 mig {} hk0) c" "fault_hook hook"
    "env_step (c_world c) w"
  shows "let d = Coordinator w (c_journal c) ob mig {} hk in
    c_state d = c_state c \<and> c_lease_token d = c_lease_token c \<and> c_target_epoch d = c_target_epoch c \<and>
    c_keyed_epoch d = c_keyed_epoch c \<and> c_journal d = c_journal c \<and> c_world d = w \<and>
    (c_state c = PAUSED_SAFE \<longrightarrow> c_paused_reason d = c_paused_reason c \<and> c_paused_at d = c_paused_at c)"
proof -
  have j: "jinv (view c)" by (rule reach_jinv [OF assms(1,2) jinv_start])
  have ep: "current_epoch (auth w) = current_epoch (auth (c_world c))" using assms(3) by (simp add: env_step_def)
  have m: "c_migration_id c = mig" using reach_static [OF assms(1,2)] by (simp add: static_inv_def)
  have r: "Coordinator w (c_journal c) ob mig {} hk = restart ob hk w c"
    using jinvD(2) [OF j] m by (simp add: restart_def)
  show ?thesis unfolding r Let_def using restart_fields [OF j ep, of ob hk] by simp
qed

text \<open>The witnesses share one migration: opened on the initial world, its process dies after the
  effect of the first phase.\<close>

definition crashed0 :: "unit coord" where
  "crashed0 = fst (step id (crash_after_effect QUIESCING) (Coordinator (World id default_sse) [] observer0 ''m'' {} ()))"

lemma reach_crashed0:
  "reach_unreopened id (crash_after_effect QUIESCING) (Coordinator (World id default_sse) [] observer0 ''m'' {} ()) crashed0"
  unfolding crashed0_def by (intro reach_unreopened.intros)

theorem crash_recovery_witness:
  "let d = Coordinator (c_world crashed0) (c_journal crashed0) observer0 ''m'' {} () in
    c_state d = c_state crashed0 \<and> c_lease_token d = c_lease_token crashed0 \<and>
    c_target_epoch d = c_target_epoch crashed0 \<and> c_keyed_epoch d = c_keyed_epoch crashed0 \<and>
    c_journal d = c_journal crashed0 \<and> c_world d = c_world crashed0"
  using crash_recovery [OF reach_crashed0 fault_hook_crash env_step_refl, where ob = observer0 and hk = "()"]
  by (simp add: Let_def)

text \<open>C5. Phases happen in order: in a migration that is not aborted, every phase up to the one
  it stands in (a pause aside) has all its keyed effects recorded as applied in the effect ledger. (No rollback is refused once the migration has
  ended: \<open>reach_unreopened\<close>.)\<close>

theorem phases_applied_in_order:
  assumes "reach_unreopened H hook (Coordinator w [] ob mig {} hk) c" "fault_hook hook" "fresh_world w"
    "c_state c \<noteq> ABORTED" "s \<in> set STATES" "phase_no s \<le> phase_no (eff_state c)"
  shows "\<forall>k\<in>set (effect_keys s c). applied_in_ledger k (c_world c)"
proof -
  have "1 \<le> phase_no s" using assms(5) by (auto simp: STATES_def)
  moreover have "effect_keys s c = keys_for mig (current_epoch (auth w) + 1) s"
    using reach_static [OF assms(1,2)] by (simp add: static_inv_def effect_keys_for)
  ultimately show ?thesis using reach_applied [OF assms(1-4)] assms(6) by simp
qed

theorem phases_applied_in_order_witness:
  "applied_in_ledger (EffKey ''m'' 8 (KPhase WRITE_COMMITTED)) (c_world done0)"
proof -
  have "effect_keys WRITE_COMMITTED done0 = [EffKey ''m'' 8 (KPhase WRITE_COMMITTED)]"
    using reach_static [OF reach_done0 [unfolded start0_def] fault_hook_no_faults]
    by (simp add: effect_keys_def static_inv_def World_def authority0_def)
  then show ?thesis
    using phases_applied_in_order [OF reach_done0 [unfolded start0_def] fault_hook_no_faults fresh_World,
        where s = WRITE_COMMITTED] done0_state by (simp add: eff_state_eq STATES_def)
qed

text \<open>C6. The write fence is held, under the migration's own key, from the moment the migration is
  fenced until its completion is at least under way. (No rollback is refused once the migration has
  ended: \<open>reach_unreopened\<close>.)\<close>

theorem fence_held_through_cutover:
  assumes "reach_unreopened H hook (Coordinator w [] ob mig {} hk) c" "fault_hook hook" "fresh_world w"
    "eff_state c \<in> {FENCED, FINAL_SYNC, VALIDATED, WRITE_COMMITTED, HOSTS_ACTIVATING} \<or>
     eff_state c = OBSERVING \<and> dangling_intent (c_journal c) = None"
  shows "fence_active (auth (c_world c)) \<and> fence_key (auth (c_world c)) = Some (fence_key_of mig)"
proof -
  have p: "phase_inv (view c)" by (rule reach_phase [OF assms(1-3)])
  have m: "c_migration_id c = mig" using reach_static [OF assms(1,2)] by (simp add: static_inv_def)
  have "c_state c \<noteq> ABORTED" using assms(4) by (auto simp: eff_state_eq)
  moreover have "2 \<le> phase_no (eff_state c)" using assms(4) by auto
  ultimately have "applied_phase (view c) FENCED" using p by (simp add: phase_inv_def eff_state_def)
  moreover have "\<not> closing (view c)" using assms(4) \<open>c_state c \<noteq> ABORTED\<close> by (auto simp: closing_def eff_state_def)
  ultimately show ?thesis using p m by (simp add: phase_inv_def facts_hold_def fence_held_def)
qed

theorem fence_held_through_cutover_witness:
  "fence_active (auth (c_world fenced0)) \<and> fence_key (auth (c_world fenced0)) = Some (fence_key_of ''m'')"
  using fence_held_through_cutover [OF fenced0(2) [unfolded start0_def] fault_hook_no_faults fresh_World]
    fenced0(1) by (simp add: eff_state_eq)

text \<open>C2. The writer epoch moves once: the target stays one above the initial epoch, the
  authority is at one of the two, it is at the target whenever the migration stands at or past
  the commit, and it is there only then, or after an abort, or while the commit's own intent is open. (No rollback is refused once the migration has
  ended: \<open>reach_unreopened\<close>.)\<close>

theorem writer_epoch_moves_once:
  assumes "reach_unreopened H hook (Coordinator w [] ob mig {} hk) c" "fault_hook hook" "fresh_world w"
  shows "c_target_epoch c = current_epoch (auth w) + 1 \<and>
    current_epoch (auth (c_world c)) \<in> {current_epoch (auth w), current_epoch (auth w) + 1} \<and>
    (committed (eff_state c) \<longrightarrow> current_epoch (auth (c_world c)) = current_epoch (auth w) + 1) \<and>
    (current_epoch (auth (c_world c)) = current_epoch (auth w) + 1 \<longrightarrow>
       c_state c = ABORTED \<or> committed (eff_state c) \<or>
       eff_state c = VALIDATED \<and> dangling_intent (c_journal c) \<noteq> None)"
proof -
  have p: "phase_inv (view c)" by (rule reach_phase [OF assms])
  then have j: "jinv (view c)" by (simp add: phase_inv_def)
  have t: "c_target_epoch c = current_epoch (auth w) + 1"
    using reach_static [OF assms(1,2)] by (simp add: static_inv_def)
  have "committed (eff_state c) \<longrightarrow> current_epoch (auth (c_world c)) = c_target_epoch c"
  proof
    assume com: "committed (eff_state c)"
    then have "c_state c \<noteq> ABORTED" "5 \<le> phase_no (eff_state c)" by (auto simp: committed_def eff_state_eq)
    then have "applied_phase (view c) WRITE_COMMITTED" using p by (simp add: phase_inv_def eff_state_def)
    then show "current_epoch (auth (c_world c)) = c_target_epoch c"
      using p by (simp add: phase_inv_def facts_hold_def)
  qed
  with j t show ?thesis by (auto simp: jinv_def eff_state_def)
qed

theorem writer_epoch_moves_once_witness:
  "current_epoch (auth (c_world done0)) = 8"
  using writer_epoch_moves_once [OF reach_done0 [unfolded start0_def] fault_hook_no_faults fresh_World] done0_state
  by (simp add: eff_state_eq committed_def World_def authority0_def)

text \<open>C7. Completion means done: a migration in COMPLETE has moved the writer epoch, both hosts have
  acknowledged that epoch for this migration, the legacy contour is read-only and the fence is
  released. (No rollback is refused once the migration has
  ended: \<open>reach_unreopened\<close>.)\<close>

theorem complete_means_done:
  assumes "reach_unreopened H hook (Coordinator w [] ob mig {} hk) c" "fault_hook hook" "fresh_world w"
    "c_state c = COMPLETE"
  shows "current_epoch (auth (c_world c)) = current_epoch (auth w) + 1 \<and>
    acked_epoch (hosts (c_world c) h) = Some (current_epoch (auth w) + 1) \<and>
    ack_migration (hosts (c_world c) h) = Some mig \<and>
    legacy_policy (c_world c) = ''read-only'' \<and> \<not> fence_active (auth (c_world c))"
proof -
  have p: "phase_inv (view c)" by (rule reach_phase [OF assms(1-3)])
  have st: "c_target_epoch c = current_epoch (auth w) + 1" "c_migration_id c = mig"
    using reach_static [OF assms(1,2)] by (simp_all add: static_inv_def)
  have all: "applied_phase (view c) s" if "1 \<le> phase_no s" "phase_no s \<le> 8" for s
    using p assms(4) that by (simp add: phase_inv_def eff_ctl_def)
  have "applied_phase (view c) WRITE_COMMITTED" "applied_phase (view c) COMPLETE"
    "applied_phase (view c) HOSTS_ACTIVATING" by (simp_all add: all)
  moreover have "h \<in> set HOSTS" by (cases h) (simp_all add: HOSTS_def)
  ultimately show ?thesis
    using p st by (auto simp: phase_inv_def facts_hold_def applied_phase_def keys_for_def)
qed

theorem complete_means_done_witness:
  "legacy_policy (c_world done0) = ''read-only'' \<and> acked_epoch (hosts (c_world done0) Devs) = Some 8"
  using complete_means_done [OF reach_done0 [unfolded start0_def] fault_hook_no_faults fresh_World done0_state]
  by (simp add: World_def authority0_def)

text \<open>C8. Progress: on a healthy world with no lease outstanding and with no fault injected, \<open>run\<close>
  ends, without raising, in COMPLETE.\<close>

theorem run_completes:
  assumes "healthy H w" "fresh_world w" "cur_lease (auth w) = None" "\<not> ob_replay ob" "calm hook"
  shows "\<exists>c. run H hook (Coordinator w [] ob mig {} hk) = (c, Inr COMPLETE) \<and> c_state c = COMPLETE"
  by (rule run_reaches_complete [OF assms])

theorem run_completes_witness:
  "\<exists>c. run id no_faults (Coordinator (World id ''sse'') [] observer0 ''m'' {} ()) = (c, Inr COMPLETE) \<and>
     c_state c = COMPLETE"
  by (rule run_completes [OF healthy_World fresh_World _ _ calm_no_faults])
    (simp_all add: World_def authority0_def observer0_def)

text \<open>The abort boundary: at or past the commit an abort is refused and changes nothing but the
  trace; before it, an abort of a migration still open is accepted, releases the fence and the
  migration's lease and leaves the writer epoch alone.\<close>

theorem abort_boundary:
  assumes "reach_unreopened H hook (Coordinator w [] ob mig {} hk) c" "fault_hook hook"
  shows "if committed (eff_state c)
    then abort why c = (cevent (EvAbortRefused (Some (eff_state c))) c, False, c_state c)
    else if c_state c = ABORTED then abort why c = (c, False, ABORTED)
    else (\<exists>d. abort why c = (d, True, ABORTED) \<and> c_state d = ABORTED \<and>
      \<not> fence_active (auth (c_world d)) \<and>
      current_epoch (auth (c_world d)) = current_epoch (auth (c_world c)) \<and>
      (\<forall>l. cur_lease (auth (c_world d)) = Some l \<and> c_lease_token c = Some (l_token l) \<longrightarrow> l_released l))"
proof -
  have j: "jinv (view c)" by (rule reach_jinv [OF assms jinv_start])
  have at: "(if c_state c = PAUSED_SAFE then c_paused_at c else Some (c_state c)) = Some (eff_state c)"
    using jinvD(4) [OF j] by (auto simp: eff_state_eq)
  have refused: "abort why c = (cevent (EvAbortRefused (Some (eff_state c))) c, False, c_state c)"
    if "committed (eff_state c)"
    using that jinvD(2) [OF j] unfolding abort_def Let_def at by (simp add: past_commit_iff)
  have nc: "c_state c \<noteq> COMPLETE" if "\<not> committed (eff_state c)"
    using that by (auto simp: eff_state_eq committed_def)
  have again: "abort why c = (c, False, ABORTED)" if "c_state c = ABORTED" "\<not> committed (eff_state c)"
    using that jinvD(2) [OF j] unfolding abort_def Let_def at by (simp add: past_commit_iff)
  have open_abort: "\<exists>d. abort why c = (d, True, ABORTED) \<and> c_state d = ABORTED \<and>
      \<not> fence_active (auth (c_world d)) \<and>
      current_epoch (auth (c_world d)) = current_epoch (auth (c_world c)) \<and>
      (\<forall>l. cur_lease (auth (c_world d)) = Some l \<and> c_lease_token c = Some (l_token l) \<longrightarrow> l_released l)"
    if n: "\<not> committed (eff_state c)" "c_state c \<noteq> ABORTED"
  proof -
    obtain d where d: "abort why c = (d, True, ABORTED)"
      using n nc [OF n(1)] jinvD(2) [OF j] unfolding abort_def Let_def at by (auto simp: past_commit_iff)
    have v: "view d = (view c)\<lparr>v_ctl := (ctl c)\<lparr>ct_state := ABORTED, ct_rec_state := ABORTED\<rparr>,
        v_trans := transitions (c_journal (fst (abort why c))), v_core := abort_core (c_lease_token c) (core_of (c_world c))\<rparr>"
      using view_abort [OF jinvD(1,2) [OF j], of why] n nc [OF n(1)] d unfolding at by (simp add: past_commit_iff)
    show ?thesis
      using d arg_cong [OF v, of "\<lambda>v. ct_state (v_ctl v)"] arg_cong [OF v, of "\<lambda>v. w_fence (v_core v)"]
        arg_cong [OF v, of "\<lambda>v. w_epoch (v_core v)"] arg_cong [OF v, of "\<lambda>v. w_lease (v_core v)"]
      by (auto simp: abort_core_def split: option.splits if_splits)
  qed
  show ?thesis using refused again open_abort by simp
qed

text \<open>Lanes: the lanes are the ones of the start in the same order, and the only ones that a
  migration can have stopped are its own; the legacy hooks are never restored.\<close>

theorem foreign_lanes_untouched:
  assumes "reach_unreopened H hook (Coordinator w [] ob mig {} hk) c" "fault_hook hook"
  shows "length (lanes (c_world c)) = length (lanes w) \<and>
    (\<forall>i < length (lanes w). lane_id (lanes (c_world c) ! i) = lane_id (lanes w ! i) \<and>
       lane_class (lanes (c_world c) ! i) = lane_class (lanes w ! i) \<and>
       (stopped (lanes (c_world c) ! i) \<noteq> stopped (lanes w ! i) \<longrightarrow>
          lane_class (lanes w ! i) = MigrationOwned)) \<and>
    legacy_hooks_restored (c_world c) = legacy_hooks_restored w"
  using reach_static [OF assms]
  by (auto simp: static_inv_def lanes_kept_def lane_kept_def list_all2_conv_all_nth)

end
