(* ===== verification/Drill_Oracle.thy ===== *)
theory Drill_Oracle
  imports Drill_Coordinator
begin

section \<open>The independent oracle (\<^verbatim>\<open>fault_drill/oracle.py\<close>)\<close>

text \<open>
  The acceptance clauses as rules over a frozen trace. The oracle re-declares the state order; its
  list is \<open>ORDER\<close>. A violation is represented by its rule: the detail strings only describe it.
  The rules are evaluated in the order of the source, so the list of violations is the source's
  list with the details dropped.
\<close>

datatype rule = O01_ORDER | O02_NO_ABORT_AFTER_COMMIT | O03_EFFECT_ONCE | O04_RESUME_IDEMPOTENT
  | O05_FOREIGN_NOT_STOPPED | O06_STALE_EPOCH_REJECTED | O07_CORRUPT_KNOWN_GOOD
  | O08_BREAK_GLASS_EXPIRES | O09_NO_LEGACY_ROLLBACK | O10_REVOKED_NOT_RESUMED
  | O11_REPLAY_NO_MODEL_CALLS | O12_UNKNOWN_RECONCILED | O13_KEYED | O14_LEASE_HELD_UNDER_FENCE
  | O15_PAUSE_HAS_REASON | O16_REVALIDATION_ON_EPOCH | O17_DRAIN_UNKNOWN_BLOCKS | O18_OBSERVATION_ONCE

record trace =
  t_replay :: bool
  t_journal :: "jrec list"
  t_events :: "event_rec list"
  t_ledger :: "(effect_key \<times> ledger_rec) list"
  t_authority :: "auth_rec list"
  t_final :: snapshot
  t_state :: cstate
  t_paused_reason :: "treason option"
  t_digest :: "string option"
  t_live_digest :: "string option"

definition ORDER :: "cstate list" where
  "ORDER = [QUIESCING, FENCED, FINAL_SYNC, VALIDATED, WRITE_COMMITTED, HOSTS_ACTIVATING, OBSERVING, COMPLETE]"

definition COMMIT_INDEX :: int where
  "COMMIT_INDEX = 4"

text \<open>\<open>_idx\<close>; a missing state is not in the order.\<close>

definition idx :: "cstate option \<Rightarrow> int" where
  "idx s = (case s of Some x \<Rightarrow> if x \<in> set ORDER then int (index_of x ORDER) else - 1 | None \<Rightarrow> - 1)"

definition in_order :: "cstate option \<Rightarrow> bool" where
  "in_order s = (case s of Some x \<Rightarrow> x \<in> set ORDER | None \<Rightarrow> False)"

definition hit :: "bool \<Rightarrow> rule \<Rightarrow> rule list" where
  "hit b r = (if b then [r] else [])"

subsection \<open>O01, O02, O13, O15 over the transition sequence\<close>

text \<open>\<open>x or y\<close> on optional states.\<close>

definition or_else :: "'a option \<Rightarrow> 'a option \<Rightarrow> 'a option" where
  "or_else x y = (case x of None \<Rightarrow> y | Some _ \<Rightarrow> x)"

definition reasonless :: "treason option \<Rightarrow> bool" where
  "reasonless r \<longleftrightarrow> r = None \<or> r = Some (TextReason [])"

definition unkeyed :: "jkeys \<Rightarrow> bool" where
  "unkeyed ks \<longleftrightarrow> k_migration_id ks = [] \<or> k_source_set_epoch ks = [] \<or> k_target_writer_epoch ks = None"

definition edge_ok :: "cstate option \<Rightarrow> cstate \<Rightarrow> cstate option \<Rightarrow> bool" where
  "edge_ok a b paused_at =
    (if b \<in> set ORDER \<or> b = INIT \<and> a = Some PAUSED_SAFE
     then a = Some INIT \<and> b = hd ORDER \<or> in_order a \<and> idx (Some b) = idx a + 1 \<or>
          a = Some PAUSED_SAFE \<and> Some b = paused_at
     else if b = PAUSED_SAFE then in_order a \<or> a = Some INIT
     else if b = ABORTED then in_order a \<or> a = Some PAUSED_SAFE \<or> a = Some INIT
     else False)"

text \<open>One transition: its hits and the pause state seen after it.\<close>

definition audit_transition :: "jrec \<Rightarrow> cstate option \<Rightarrow> rule list \<times> cstate option" where
  "audit_transition r paused_at = (case j_body r of
     RecTransition a b reason pa aa _ \<Rightarrow>
       (let paused' = (if b = PAUSED_SAFE then or_else pa a else paused_at);
            at = or_else aa (if a = Some PAUSED_SAFE then paused_at else a)
        in (hit (b = PAUSED_SAFE \<and> reasonless reason) O15_PAUSE_HAS_REASON @
            hit (b = ABORTED \<and> in_order at \<and> COMMIT_INDEX \<le> idx at) O02_NO_ABORT_AFTER_COMMIT @
            hit (\<not> edge_ok a b paused_at) O01_ORDER @
            hit (unkeyed (j_keys r)) O13_KEYED, paused'))
   | _ \<Rightarrow> ([], paused_at))"

fun audit_transitions :: "jrec list \<Rightarrow> cstate option \<Rightarrow> rule list" where
  "audit_transitions [] pa = []"
| "audit_transitions (r # rs) pa = (case audit_transition r pa of (hs, pa') \<Rightarrow> hs @ audit_transitions rs pa')"

definition only_transitions :: "jrec list \<Rightarrow> jrec list" where
  "only_transitions js = filter (\<lambda>r. is_transition (j_body r)) js"

definition audit_abort_events :: "event_rec list \<Rightarrow> rule list" where
  "audit_abort_events es = concat (map (\<lambda>e. case ev_kind e of
     EvAborted at _ \<Rightarrow> hit (in_order at \<and> COMMIT_INDEX \<le> idx at) O02_NO_ABORT_AFTER_COMMIT
   | _ \<Rightarrow> []) es)"

subsection \<open>O03, O12 over the effect ledger\<close>

definition audit_effect_once :: "(effect_key \<times> ledger_rec) list \<Rightarrow> rule list" where
  "audit_effect_once led = concat (map (\<lambda>(k, r). hit (1 < led_count r) O03_EFFECT_ONCE) led)"

definition recs_for :: "effect_key \<Rightarrow> jrec list \<Rightarrow> (readback_result option \<times> bool) list" where
  "recs_for key js = concat (map (\<lambda>r. case j_body r of
     RecReconciliation _ k _ term reissued \<Rightarrow> (if k = key then [(term, reissued)] else [])
   | _ \<Rightarrow> []) js)"

definition audit_unknown :: "jrec list \<Rightarrow> cstate \<Rightarrow> (effect_key \<times> ledger_rec) list \<Rightarrow> rule list" where
  "audit_unknown js final led = concat (map (\<lambda>(key, r).
     let results = led_results r; recs = recs_for key js in
     if Unknown \<in> set results
     then hit (index_of Unknown results + 1 < length results) O12_UNKNOWN_RECONCILED @
          hit ((\<forall>x\<in>set recs. fst x = None) \<and> final \<notin> {PAUSED_SAFE, ABORTED}) O12_UNKNOWN_RECONCILED @
          hit (\<exists>x\<in>set recs. snd x) O12_UNKNOWN_RECONCILED
     else []) led)"

subsection \<open>O04 resume idempotence\<close>

definition trans_to :: "jrec \<Rightarrow> cstate option" where
  "trans_to r = (case j_body r of RecTransition _ b _ _ _ _ \<Rightarrow> Some b | _ \<Rightarrow> None)"

definition trans_from :: "jrec \<Rightarrow> cstate option" where
  "trans_from r = (case j_body r of RecTransition a _ _ _ _ _ \<Rightarrow> a | _ \<Rightarrow> None)"

text \<open>The keys of \<open>seen_forward\<close> in insertion order.\<close>

definition forward_states :: "jrec list \<Rightarrow> cstate list" where
  "forward_states ts = fold (\<lambda>t seen. case trans_to t of
     Some b \<Rightarrow> if b \<in> set ORDER \<and> b \<notin> set seen then seen @ [b] else seen | None \<Rightarrow> seen) ts []"

definition entries :: "cstate \<Rightarrow> jrec list \<Rightarrow> nat" where
  "entries b ts = length (filter (\<lambda>t. trans_to t = Some b) ts)"

definition entries_from_paused :: "cstate \<Rightarrow> jrec list \<Rightarrow> nat" where
  "entries_from_paused b ts = length (filter (\<lambda>t. trans_to t = Some b \<and> trans_from t = Some PAUSED_SAFE) ts)"

definition audit_forward_once :: "jrec list \<Rightarrow> rule list" where
  "audit_forward_once ts =
     concat (map (\<lambda>b. hit (1 < int (entries b ts) - int (entries_from_paused b ts)) O04_RESUME_IDEMPOTENT)
       (forward_states ts))"

definition is_resume :: "event_rec \<Rightarrow> bool" where
  "is_resume e = (case ev_kind e of EvResume _ _ \<Rightarrow> True | _ \<Rightarrow> False)"

definition is_fact :: "event_rec \<Rightarrow> bool" where
  "is_fact e = (case ev_kind e of EvFaultCleared _ \<Rightarrow> True | EvFaultInjected _ _ _ \<Rightarrow> True | EvEffect _ _ _ \<Rightarrow> True
     | EvReadback _ _ \<Rightarrow> True | EvForwardRecovery _ _ \<Rightarrow> True | EvReconcileBlind _ \<Rightarrow> True
     | EvReconcileReadback _ _ \<Rightarrow> True | _ \<Rightarrow> False)"

definition is_move :: "event_rec \<Rightarrow> bool" where
  "is_move e = (case ev_kind e of EvTransition _ _ _ \<Rightarrow> True | _ \<Rightarrow> False)"

fun audit_resumes :: "event_rec list \<Rightarrow> event_rec list \<Rightarrow> rule list" where
  "audit_resumes es (r0 # r1 # rs) =
     (let between = filter (\<lambda>e. ev_seq r0 < ev_seq e \<and> ev_seq e < ev_seq r1) es
      in hit ((\<exists>e\<in>set between. is_move e) \<and> \<not> (\<exists>e\<in>set between. is_fact e)) O04_RESUME_IDEMPOTENT @
         audit_resumes es (r1 # rs))"
| "audit_resumes es _ = []"

subsection \<open>O05 to O10\<close>

definition foreign :: "owner_class \<Rightarrow> bool" where
  "foreign c \<longleftrightarrow> c = ForeignConfirmed \<or> c = UnknownForeign"

definition audit_lanes :: "event_rec list \<Rightarrow> snapshot \<Rightarrow> rule list" where
  "audit_lanes es fin =
     concat (map (\<lambda>e. case ev_kind e of EvLaneStop _ c _ \<Rightarrow> hit (foreign c) O05_FOREIGN_NOT_STOPPED | _ \<Rightarrow> []) es) @
     concat (map (\<lambda>(i, c, st, _). hit (st \<and> foreign c \<and> i \<noteq> ''mac:old-session'') O05_FOREIGN_NOT_STOPPED)
       (sn_lanes fin))"

definition audit_stale_epoch :: "auth_rec list \<Rightarrow> snapshot \<Rightarrow> rule list" where
  "audit_stale_epoch log fin = concat (map (\<lambda>a. case ar_op a of
     WriterWrite _ we ce ok \<Rightarrow> hit (ok \<and> we < ce) O06_STALE_EPOCH_REJECTED
   | HostAck _ e res \<Rightarrow> hit (res = AckApplied \<and> e < sn_writer_epoch fin) O06_STALE_EPOCH_REJECTED
   | _ \<Rightarrow> []) log)"

definition audit_known_good :: "jrec list \<Rightarrow> snapshot \<Rightarrow> cstate \<Rightarrow> rule list" where
  "audit_known_good js fin st =
    (if sn_known_good_ok fin then []
     else hit (\<exists>r\<in>set js. case j_body r of RecRollback applied _ _ _ \<Rightarrow> applied | _ \<Rightarrow> False) O07_CORRUPT_KNOWN_GOOD @
          hit (st \<notin> {PAUSED_SAFE, ABORTED}) O07_CORRUPT_KNOWN_GOOD)"

definition audit_break_glass :: "event_rec list \<Rightarrow> rule list" where
  "audit_break_glass es = concat (map (\<lambda>e. case ev_kind e of
     EvBreakGlass ok _ expires \<Rightarrow>
       (if ok then hit (case expires of None \<Rightarrow> True | Some t \<Rightarrow> t \<le> ev_at e) O08_BREAK_GLASS_EXPIRES else [])
   | _ \<Rightarrow> []) es)"

definition audit_legacy :: "event_rec list \<Rightarrow> snapshot \<Rightarrow> rule list" where
  "audit_legacy es fin = hit (sn_legacy_hooks_restored fin \<or> (\<exists>e\<in>set es. ev_kind e = EvLegacyHooksRestored))
     O09_NO_LEGACY_ROLLBACK"

definition injected :: "fault \<Rightarrow> event_rec \<Rightarrow> bool" where
  "injected f e = (case ev_kind e of EvFaultInjected g _ _ \<Rightarrow> g = f | _ \<Rightarrow> False)"

definition moves_to :: "(cstate \<Rightarrow> bool) \<Rightarrow> event_rec \<Rightarrow> bool" where
  "moves_to P e = (case ev_kind e of EvTransition _ b _ \<Rightarrow> P b | _ \<Rightarrow> False)"

definition audit_revoked :: "event_rec list \<Rightarrow> rule list" where
  "audit_revoked es = (case find (injected FAuthRevoke) es of None \<Rightarrow> []
     | Some rv \<Rightarrow> hit (\<exists>e\<in>set es. ev_seq rv < ev_seq e \<and> moves_to (\<lambda>b. b \<in> set ORDER) e)
         O10_REVOKED_NOT_RESUMED)"

subsection \<open>O11, O14, O16 to O18\<close>

definition audit_replay :: "trace \<Rightarrow> rule list" where
  "audit_replay t = (if t_replay t
     then hit (0 < sn_model_calls (t_final t)) O11_REPLAY_NO_MODEL_CALLS @
          hit (t_live_digest t \<notin> {None, Some []} \<and> t_digest t \<noteq> t_live_digest t) O11_REPLAY_NO_MODEL_CALLS
     else [])"

definition fence_effect :: "event_rec \<Rightarrow> bool" where
  "fence_effect e = (case ev_kind e of
     EvEffect (EffKey _ _ (KPhase s)) _ res \<Rightarrow> s \<in> FENCE_STATES \<and> (res = Applied \<or> res = Unknown)
   | _ \<Rightarrow> False)"

definition check_result :: "auth_rec \<Rightarrow> token_check option" where
  "check_result a = (case ar_op a of LeaseCheck _ c \<Rightarrow> Some c | _ \<Rightarrow> None)"

definition last_check :: "int \<Rightarrow> auth_rec list \<Rightarrow> token_check option" where
  "last_check t log = (case filter (\<lambda>a. check_result a \<noteq> None \<and> ar_at a \<le> t) log of
     [] \<Rightarrow> None | cs \<Rightarrow> check_result (last cs))"

definition audit_lease :: "event_rec list \<Rightarrow> auth_rec list \<Rightarrow> rule list" where
  "audit_lease es log =
    (let fes = filter fence_effect es in
     concat (map (\<lambda>fe. hit (last_check (ev_at fe) log \<noteq> Some TokValid) O14_LEASE_HELD_UNDER_FENCE) fes) @
     (case find (\<lambda>a. check_result a = Some TokExpired) log of None \<Rightarrow> []
      | Some a \<Rightarrow> hit (\<exists>fe\<in>set fes. ar_at a \<le> ev_at fe) O14_LEASE_HELD_UNDER_FENCE))"

definition audit_revalidation :: "event_rec list \<Rightarrow> rule list" where
  "audit_revalidation es = (case find (injected FSourceSetEpochChange) es of None \<Rightarrow> []
     | Some ep \<Rightarrow> (case find (moves_to (\<lambda>b. b = WRITE_COMMITTED)) es of None \<Rightarrow> []
         | Some ce \<Rightarrow> hit (ev_seq ep < ev_seq ce) O16_REVALIDATION_ON_EPOCH))"

definition host_lost_quiescing :: "event_rec \<Rightarrow> bool" where
  "host_lost_quiescing e = (case ev_kind e of EvFaultInjected (FHostLoss _) s _ \<Rightarrow> s = QUIESCING | _ \<Rightarrow> False)"

definition is_cleared :: "event_rec \<Rightarrow> bool" where
  "is_cleared e = (case ev_kind e of EvFaultCleared _ \<Rightarrow> True | _ \<Rightarrow> False)"

definition audit_drain :: "event_rec list \<Rightarrow> rule list" where
  "audit_drain es = concat (map (\<lambda>e. if host_lost_quiescing e
     then hit (case find (moves_to (\<lambda>b. b = FENCED)) es of None \<Rightarrow> False
         | Some f \<Rightarrow> (case find (\<lambda>x. is_cleared x \<and> ev_seq e < ev_seq x) es of None \<Rightarrow> True
             | Some cl \<Rightarrow> ev_seq f < ev_seq cl)) O17_DRAIN_UNKNOWN_BLOCKS
     else []) es)"

definition model_call_keys :: "event_rec list \<Rightarrow> obs_key list" where
  "model_call_keys es = concat (map (\<lambda>e. case ev_kind e of EvObservationModelCall k _ \<Rightarrow> [k] | _ \<Rightarrow> []) es)"

definition audit_observation :: "event_rec list \<Rightarrow> rule list" where
  "audit_observation es = (let ks = model_call_keys es in
     concat (map (\<lambda>k. hit (1 < count_list ks k) O18_OBSERVATION_ONCE) (rev (remdups (rev ks)))))"

subsection \<open>The evaluation\<close>

text \<open>\<open>evaluate\<close>: \<open>hit\<close> drops the violations of disabled rules.\<close>

definition all_hits :: "trace \<Rightarrow> rule list" where
  "all_hits t =
     audit_transitions (only_transitions (t_journal t)) None @ audit_abort_events (t_events t) @
     audit_effect_once (t_ledger t) @ audit_forward_once (only_transitions (t_journal t)) @
     audit_resumes (t_events t) (filter is_resume (t_events t)) @ audit_lanes (t_events t) (t_final t) @
     audit_stale_epoch (t_authority t) (t_final t) @ audit_known_good (t_journal t) (t_final t) (t_state t) @
     audit_break_glass (t_events t) @ audit_legacy (t_events t) (t_final t) @ audit_revoked (t_events t) @
     audit_replay t @ audit_unknown (t_journal t) (t_state t) (t_ledger t) @
     audit_lease (t_events t) (t_authority t) @ audit_revalidation (t_events t) @ audit_drain (t_events t) @
     audit_observation (t_events t)"

definition evaluate :: "trace \<Rightarrow> rule set \<Rightarrow> rule list" where
  "evaluate t disabled = filter (\<lambda>r. r \<notin> disabled) (all_hits t)"

end
