(* ===== verification/Drill_Findings.thy ===== *)
theory Drill_Findings
  imports Drill_Live Drill_Oracle
begin

section \<open>Behaviours of the coordinator its documentation excludes\<close>

text \<open>
  Runs of the reference coordinator (no protective rule switched off), evaluated in the
  kernel on a small world, that contradict what the source says of itself.
\<close>

definition small_world :: world where
  "small_world = (World id ''s'')\<lparr>lanes := [], known_good := [], known_good_digest := digest id (pins_json [])\<rparr>"

definition at_step :: "cstate \<Rightarrow> (world \<Rightarrow> world) \<Rightarrow> unit hook" where
  "at_step s f p st hw = (if p = BeforeObservation \<and> st = s then ((fst hw, f (snd hw)), Inr ()) else (hw, Inr ()))"

definition put_world :: "(world \<Rightarrow> world) \<Rightarrow> unit coord \<Rightarrow> unit coord" where
  "put_world f c = c\<lparr>c_world := f (c_world c)\<rparr>"

text \<open>A commit whose acknowledgement is lost.\<close>

definition unknown_commit :: "unit coord" where
  "unknown_commit = fst (run id (at_step WRITE_COMMITTED (\<lambda>w. w\<lparr>network := False\<rparr>))
     (Coordinator small_world [] observer0 ''m'' {} ()))"

text \<open>The network fails at the commit: its outcome is unknown, the migration pauses at VALIDATED, and
  an abort is accepted although the authority has moved to the new writer epoch. The fence is
  released, the old writers are stale and the migration is ABORTED.\<close>

lemma abort_after_applied_commit:
  "case abort ''operator'' unknown_commit of (d, accepted, s) \<Rightarrow>
     c_paused_at d = Some VALIDATED \<and> accepted \<and> s = ABORTED \<and>
     current_epoch (auth (c_world d)) = 8 \<and> \<not> fence_active (auth (c_world d)) \<and>
     snd (writer_write 7 Mac False (c_world d)) = Rejected RStaleEpoch"
  by code_simp

text \<open>A host that dies before its activation.\<close>

definition half_activated :: "unit coord" where
  "half_activated = fst (run id (at_step HOSTS_ACTIVATING (\<lambda>w. w\<lparr>hosts := (hosts w)(Devs := (hosts w Devs)\<lparr>alive := False\<rparr>)\<rparr>))
     (Coordinator small_world [] observer0 ''m'' {} ()))"

text \<open>One host is lost at its activation while the other acknowledges; the migration pauses. The host
  returns while a service is down: the reconciliation of the open intent fails, its pause is a
  no-op in a paused coordinator, and the old reason has cleared, so the resume moves forward with the
  intent still open. The next step issues the acknowledged activation again.\<close>

lemma ack_issued_twice:
  "case resume (put_world (\<lambda>w. w\<lparr>hosts := (hosts w)(Devs := (hosts w Devs)\<lparr>alive := True\<rparr>),
     services := (services w)(Muneral := False)\<rparr>) half_activated) of (c, r) \<Rightarrow>
   c_state c = WRITE_COMMITTED \<and> dangling_intent (c_journal c) \<noteq> None \<and>
   map_option led_count (map_of (effect_ledger (c_world (fst (step id no_faults
     (put_world (\<lambda>w. w\<lparr>services := (services w)(Muneral := True)\<rparr>) c)))))
     (EffKey ''m'' 8 (KAck Mac))) = Some 2"
  by code_simp

text \<open>Two resumes in a row can both change the state: the commit is refused because its service is
  down, the lease runs out while the migration is paused, and the service returns. The first resume
  recovers forward, the second one reconciles the commit that was never issued, finds the lease
  expired and pauses again.\<close>

definition service_paused :: "unit coord" where
  "service_paused = fst (run id (at_step WRITE_COMMITTED (\<lambda>w. w\<lparr>services := (services w)(Muneral := False)\<rparr>))
     (Coordinator small_world [] observer0 ''m'' {} ()))"

lemma consecutive_resumes_change:
  "case resume (put_world (\<lambda>w. w\<lparr>services := (services w)(Muneral := True), clock := clock w + 200\<rparr>) service_paused) of
     (c, r) \<Rightarrow> r = Inr (VALIDATED, True) \<and> snd (resume c) = Inr (PAUSED_SAFE, True)"
  by code_simp

text \<open>A refused rollback takes an aborted or completed migration out of its terminal state.\<close>

lemma refused_rollback_reopens:
  assumes "c_state c \<noteq> PAUSED_SAFE" "\<not> known_good_ok H (c_world c)" "c_mutations c = {}"
  shows "case rollback_to_known_good H c of (d, applied) \<Rightarrow>
    \<not> applied \<and> c_state d = PAUSED_SAFE \<and> c_paused_at d = Some (c_state c)"
  using assms by (simp add: rollback_to_known_good_def pause_def durable_def cevent_def Let_def)

text \<open>An aborted migration whose known-good pins are then corrupted, and a rollback of it: the
  journal now leads from ABORTED to PAUSED_SAFE, an edge the oracle's order rule reports.\<close>

definition corrupt_pins :: "unit coord \<Rightarrow> unit coord" where
  "corrupt_pins = put_world (\<lambda>w. w\<lparr>known_good_digest := ''corrupt''\<rparr>)"

definition aborted_early :: "unit coord" where
  "aborted_early = fst (abort ''operator'' (fst (step id no_faults (Coordinator small_world [] observer0 ''m'' {} ()))))"

lemma reopened_breaks_order:
  "c_state aborted_early = ABORTED \<and>
   audit_transitions (only_transitions (c_journal aborted_early)) None = [] \<and>
   audit_transitions (only_transitions (c_journal (fst (rollback_to_known_good id (corrupt_pins aborted_early))))) None =
     [O01_ORDER]"
  by code_simp

text \<open>The commit whose acknowledgement was lost, aborted, then reopened by a refused rollback: the
  next resume reads the commit back as applied and checkpoints WRITE_COMMITTED although the abort has
  released the fence.\<close>

lemma reopened_commits_unfenced:
  "case resume (put_world (\<lambda>w. w\<lparr>network := True\<rparr>)
     (fst (rollback_to_known_good id (corrupt_pins (fst (abort ''operator'' unknown_commit)))))) of (c, r) \<Rightarrow>
   c_state c = WRITE_COMMITTED \<and> \<not> fence_active (auth (c_world c))"
  by code_simp

end
