(* ===== verification/Drill_Scenarios.thy ===== *)
theory Drill_Scenarios
  imports Drill_Oracle
begin

section \<open>Fault matrix, scenario runner and expectations (\<^verbatim>\<open>fault_drill/scenarios.py\<close>)\<close>

text \<open>
  A scenario is a fault, the state it is injected at and, for a crash, the injection point. The
  runner drives one coordinator (and its successors after a crash) through the scenario; its
  hook's own state is whether the fault is still armed. \<open>expectation\<close> is the acceptance table,
  \<open>check_expectation\<close> compares a run with it; a mismatch is represented by its kind.
\<close>

subsection \<open>The matrix\<close>

definition CRASH_POINTS :: "hook_point list" where
  "CRASH_POINTS = [BeforeObservation, AfterObservation, AfterEffect, AfterCheckpoint]"

definition FAULTS :: "fault list" where
  "FAULTS = [FCrash, FLeaseExpiry, FAuthRevoke, FCorruptConfig, FUnavailable Muneral, FUnavailable Kc2,
     FUnavailable Scrutator, FNetworkLoss, FHostLoss Mac, FHostLoss Devs, FSourceSetEpochChange, FAbortRequest]"

definition clearable :: "fault \<Rightarrow> bool" where
  "clearable f = (case f of FUnavailable _ \<Rightarrow> True | FNetworkLoss \<Rightarrow> True | FHostLoss _ \<Rightarrow> True | _ \<Rightarrow> False)"

fun NEEDS_SERVICE :: "service \<Rightarrow> cstate set" where
  "NEEDS_SERVICE Muneral = {QUIESCING, FENCED, WRITE_COMMITTED, HOSTS_ACTIVATING, COMPLETE}"
| "NEEDS_SERVICE Kc2 = {VALIDATED}"
| "NEEDS_SERVICE Scrutator = {FINAL_SYNC}"

definition COMMIT_IDX :: nat where
  "COMMIT_IDX = index_of WRITE_COMMITTED STATES"

record expect =
  x_final :: cstate
  x_reason :: "pause_reason option"
  x_paused_first :: "bool option"
  x_reason_first :: "pause_reason option"
  x_effect_max :: "nat option"
  x_model_calls_max :: "nat option"
  x_abort_allowed :: "bool option"
  x_fence_released :: bool
  x_resume_changes_nothing :: bool
  x_rollback_refused :: bool
  x_reconciled :: bool
  x_stale_writer_rejected :: bool
  x_partial_ack :: bool
  x_finding :: "string option"
  x_abort_refused :: bool

definition ends_in :: "cstate \<Rightarrow> expect" where
  "ends_in s = \<lparr>x_final = s, x_reason = None, x_paused_first = None, x_reason_first = None, x_effect_max = None,
     x_model_calls_max = None, x_abort_allowed = None, x_fence_released = False, x_resume_changes_nothing = False,
     x_rollback_refused = False, x_reconciled = False, x_stale_writer_rejected = False, x_partial_ack = False,
     x_finding = None, x_abort_refused = False\<rparr>"

definition expectation :: "fault \<Rightarrow> cstate \<Rightarrow> expect" where
  "expectation f st =
    (let i = index_of st STATES; pre_commit = (i \<le> COMMIT_IDX) in
     case f of
       FCrash \<Rightarrow> (ends_in COMPLETE)\<lparr>x_paused_first := Some False, x_effect_max := Some 1, x_model_calls_max := Some 1\<rparr>
     | FLeaseExpiry \<Rightarrow>
         if st \<in> {FINAL_SYNC, VALIDATED, WRITE_COMMITTED}
         then (ends_in ABORTED)\<lparr>x_reason_first := Some LEASE_EXPIRED, x_paused_first := Some True,
                x_abort_allowed := Some True, x_fence_released := True\<rparr>
         else (ends_in COMPLETE)\<lparr>x_paused_first := Some False\<rparr>
     | FAuthRevoke \<Rightarrow>
         if pre_commit
         then (ends_in ABORTED)\<lparr>x_reason_first := Some AUTH_REVOKED, x_paused_first := Some True,
                x_abort_allowed := Some True, x_resume_changes_nothing := True\<rparr>
         else (ends_in PAUSED_SAFE)\<lparr>x_reason := Some AUTH_REVOKED, x_abort_allowed := Some False,
                x_resume_changes_nothing := True\<rparr>
     | FCorruptConfig \<Rightarrow> (ends_in PAUSED_SAFE)\<lparr>x_reason := Some KNOWN_GOOD_CORRUPT, x_rollback_refused := True\<rparr>
     | FUnavailable s \<Rightarrow>
         (let hits = (\<exists>x\<in>NEEDS_SERVICE s. i \<le> index_of x STATES)
          in (ends_in COMPLETE)\<lparr>x_paused_first := Some hits,
               x_reason_first := (if hits then Some (SERVICE_UNAVAILABLE s) else None)\<rparr>)
     | FNetworkLoss \<Rightarrow> (ends_in COMPLETE)\<lparr>x_paused_first := Some True,
         x_reason_first := Some UNKNOWN_EFFECT_UNRECONCILED, x_effect_max := Some 1, x_reconciled := True\<rparr>
     | FHostLoss _ \<Rightarrow>
         if st = QUIESCING
         then (ends_in COMPLETE)\<lparr>x_paused_first := Some True, x_reason_first := Some DRAIN_UNKNOWN,
                x_stale_writer_rejected := True\<rparr>
         else if i \<le> index_of HOSTS_ACTIVATING STATES
         then (ends_in COMPLETE)\<lparr>x_paused_first := Some True, x_reason_first := Some HOST_UNREACHABLE,
                x_stale_writer_rejected := True, x_partial_ack := True, x_effect_max := Some 1\<rparr>
         else (ends_in COMPLETE)\<lparr>x_paused_first := Some True, x_reason_first := Some HOST_LOST_IN_OBSERVATION,
                x_stale_writer_rejected := True\<rparr>
     | FSourceSetEpochChange \<Rightarrow>
         if i \<le> COMMIT_IDX
         then (ends_in ABORTED)\<lparr>x_reason_first := Some REVALIDATION_REQUIRED, x_paused_first := Some True,
                x_abort_allowed := Some True\<rparr>
         else (ends_in COMPLETE)\<lparr>x_finding := Some ''post_commit_source_set_epoch_drift''\<rparr>
     | FAbortRequest \<Rightarrow>
         if pre_commit
         then (ends_in ABORTED)\<lparr>x_fence_released := True, x_paused_first := Some False\<rparr>
         else (ends_in COMPLETE)\<lparr>x_abort_refused := True, x_paused_first := Some False\<rparr>)"

definition matrix :: "(fault \<times> cstate \<times> hook_point option) list" where
  "matrix = concat (map (\<lambda>f. concat (map (\<lambda>s.
     if f = FCrash then map (\<lambda>p. (f, s, Some p)) CRASH_POINTS else [(f, s, None)]) STATES)) FAULTS)"

subsection \<open>Fault injection\<close>

definition inject :: "fault \<Rightarrow> world \<Rightarrow> (world, unit) outc" where
  "inject f w = (case f of
     FCrash \<Rightarrow> (w, Inl CrashSignal)
   | FLeaseExpiry \<Rightarrow> (advance (LEASE_TTL + 1) w, Inr ())
   | FAuthRevoke \<Rightarrow> (w\<lparr>auth_valid := False\<rparr>, Inr ())
   | FCorruptConfig \<Rightarrow> (corrupt_known_good w, Inr ())
   | FUnavailable s \<Rightarrow> (w\<lparr>services := (services w)(s := False)\<rparr>, Inr ())
   | FNetworkLoss \<Rightarrow> (w\<lparr>network := False\<rparr>, Inr ())
   | FHostLoss h \<Rightarrow> (w\<lparr>hosts := (hosts w)(h := (hosts w h)\<lparr>alive := False\<rparr>)\<rparr>, Inr ())
   | FSourceSetEpochChange \<Rightarrow> (w\<lparr>source_set_epoch := ''sse-NEWROOT''\<rparr>, Inr ())
   | FAbortRequest \<Rightarrow> (w, Inl AbortSignal))"

text \<open>\<open>Scenario.hook\<close>; its state says whether the fault is armed.\<close>

definition scenario_hook :: "fault \<Rightarrow> cstate \<Rightarrow> hook_point option \<Rightarrow> bool hook" where
  "scenario_hook f target point p st hw =
    (case hw of (armed, w) \<Rightarrow>
     if \<not> armed \<or> st \<noteq> target then ((armed, w), Inr ())
     else if (if f = FCrash then Some p \<noteq> point else p \<noteq> BeforeObservation) then ((armed, w), Inr ())
     else (case inject f (event (EvFaultInjected f st p) w) of (w', r) \<Rightarrow> ((False, w'), r)))"

definition clear_fault :: "fault \<Rightarrow> world \<Rightarrow> world" where
  "clear_fault f w = (if \<not> clearable f then w else event (EvFaultCleared f) (case f of
     FUnavailable s \<Rightarrow> w\<lparr>services := (services w)(s := True)\<rparr>
   | FNetworkLoss \<Rightarrow> w\<lparr>network := True\<rparr>
   | FHostLoss h \<Rightarrow> w\<lparr>hosts := (hosts w)(h := (hosts w h)\<lparr>alive := True\<rparr>)\<rparr>
   | _ \<Rightarrow> w))"

subsection \<open>The runner\<close>

record scenario =
  s_fault :: fault
  s_target :: cstate
  s_point :: "hook_point option"
  s_c :: "bool coord"
  s_paused_reasons :: "treason option list"
  s_abort :: "(bool \<times> cstate) option"
  s_rollback :: "bool option"
  s_stale_writer :: "outcome option"
  s_resumes :: "(cstate \<times> bool) list"
  s_break_glass :: "bool list"
  s_crashed :: bool

definition s_hook :: "scenario \<Rightarrow> bool hook" where
  "s_hook s = scenario_hook (s_fault s) (s_target s) (s_point s)"

definition do_run :: "(string \<Rightarrow> string) \<Rightarrow> scenario \<Rightarrow> (scenario, unit) outc" where
  "do_run H s = (case run H (s_hook s) (s_c s) of (c, r) \<Rightarrow> (s\<lparr>s_c := c\<rparr>, map_sum id (\<lambda>_. ()) r))"

definition do_resume :: "scenario \<Rightarrow> (scenario, unit) outc" where
  "do_resume s = (case resume (s_c s) of
     (c, Inl e) \<Rightarrow> (s\<lparr>s_c := c\<rparr>, Inl e)
   | (c, Inr r) \<Rightarrow> (s\<lparr>s_c := c, s_resumes := s_resumes s @ [r]\<rparr>, Inr ()))"

definition do_abort :: "string \<Rightarrow> scenario \<Rightarrow> scenario" where
  "do_abort why s = (case abort why (s_c s) of (c, ok, st) \<Rightarrow> s\<lparr>s_c := c, s_abort := Some (ok, st)\<rparr>)"

text \<open>\<open>new_coordinator\<close> after a crash: the world, the journal and the observer survive.\<close>

definition new_coordinator :: "scenario \<Rightarrow> scenario" where
  "new_coordinator s = (let c = s_c s in
     s\<lparr>s_c := Coordinator (c_world c) (c_journal c) (c_observer c) (c_migration_id c) (c_mutations c) (c_hook c)\<rparr>)"

definition note_pause :: "scenario \<Rightarrow> scenario" where
  "note_pause s = (if c_state (s_c s) = PAUSED_SAFE
     then s\<lparr>s_paused_reasons := s_paused_reasons s @ [c_paused_reason (s_c s)]\<rparr> else s)"

definition first_run :: "(string \<Rightarrow> string) \<Rightarrow> scenario \<Rightarrow> (scenario, unit) outc" where
  "first_run H s = (case do_run H s of
     (s, Inr u) \<Rightarrow> (s, Inr ())
   | (s, Inl AbortSignal) \<Rightarrow> do_run H (do_abort ''drill: controlled abort requested'' s)
   | (s, Inl CrashSignal) \<Rightarrow>
       bindx (do_resume (new_coordinator (s\<lparr>s_crashed := True\<rparr>))) (\<lambda>s _.
       bindx (do_resume s) (\<lambda>s _. do_run H s))
   | (s, Inl e) \<Rightarrow> (s, Inl e))"

definition abort_clause :: "scenario \<Rightarrow> scenario" where
  "abort_clause s = (if c_state (s_c s) = PAUSED_SAFE \<and>
       s_fault s \<in> {FLeaseExpiry, FAuthRevoke, FSourceSetEpochChange}
     then do_abort ''drill: abort after pause'' s else s)"

definition clear_clause :: "(string \<Rightarrow> string) \<Rightarrow> scenario \<Rightarrow> (scenario, unit) outc" where
  "clear_clause H s = (if c_state (s_c s) = PAUSED_SAFE \<and> clearable (s_fault s)
     then bindx (do_resume (s\<lparr>s_c := (s_c s)\<lparr>c_world := clear_fault (s_fault s) (c_world (s_c s))\<rparr>\<rparr>)) (\<lambda>s _.
          bindx (do_resume s) (\<lambda>s _.
          bindx (do_run H s) (\<lambda>s _. (note_pause s, Inr ()))))
     else (s, Inr ()))"

definition stale_clause :: "scenario \<Rightarrow> scenario" where
  "stale_clause s = (case s_fault s of
     FHostLoss h \<Rightarrow> (let c = s_c s in
       case writer_write (c_target_epoch c - 1) h (M04_authority_accepts_stale_epoch \<in> c_mutations c) (c_world c) of
         (w, r) \<Rightarrow> s\<lparr>s_c := c\<lparr>c_world := w\<rparr>, s_stale_writer := Some r\<rparr>)
   | _ \<Rightarrow> s)"

definition do_rollback :: "(string \<Rightarrow> string) \<Rightarrow> scenario \<Rightarrow> scenario" where
  "do_rollback H s = (case rollback_to_known_good H (s_c s) of (c, ok) \<Rightarrow> s\<lparr>s_c := c, s_rollback := Some ok\<rparr>)"

definition rollback_clause :: "(string \<Rightarrow> string) \<Rightarrow> scenario \<Rightarrow> scenario" where
  "rollback_clause H s =
    (let s = (if s_fault s = FCorruptConfig \<and> c_state (s_c s) = PAUSED_SAFE then do_rollback H s else s)
     in if s_fault s = FCrash \<and> s_target s = OBSERVING \<and> s_point s = Some AfterCheckpoint
        then do_rollback H s else s)"

definition drill_glass :: "string \<Rightarrow> string \<Rightarrow> int option \<Rightarrow> break_glass" where
  "drill_glass kind home expires = \<lparr>bg_issuer = Some ''operator'', bg_issuer_kind = Some kind,
     bg_incident_id = Some ''INC-2026-0905-1'', bg_host = Some ''devs'', bg_action = Some ''read'',
     bg_path = Some ''/home/dev/aup/drill'', bg_expires_at = expires, bg_config_home = Some home,
     bg_default_config_home = Some ''/home/dev/.claude''\<rparr>"

definition do_glass :: "break_glass \<Rightarrow> scenario \<Rightarrow> scenario" where
  "do_glass bg s = (case use_break_glass bg (s_c s) of (c, ok) \<Rightarrow>
     s\<lparr>s_c := c, s_break_glass := s_break_glass s @ [ok]\<rparr>)"

definition glass_clause :: "scenario \<Rightarrow> scenario" where
  "glass_clause s = (if s_fault s = FAuthRevoke
     then let now = clock (c_world (s_c s)); home = ''/home/dev/aup/bg-home'';
              s = do_glass (drill_glass ''human'' home (Some (now + 30))) s;
              s = do_glass (drill_glass ''human'' home (Some (now - 1))) s;
              s = do_glass (drill_glass ''human'' home None) s;
              s = do_glass (drill_glass ''agent'' home (Some (now + 30))) s;
              s = do_glass (drill_glass ''human'' ''/home/dev/.claude'' (Some (now + 30))) s;
              s = s\<lparr>s_c := (s_c s)\<lparr>c_world := advance 31 (c_world (s_c s))\<rparr>\<rparr>
          in do_glass (drill_glass ''human'' home (Some (now + 30))) s
     else s)"

definition Scenario ::
  "(string \<Rightarrow> string) \<Rightarrow> fault \<Rightarrow> cstate \<Rightarrow> hook_point option \<Rightarrow> mutation set \<Rightarrow> observer \<Rightarrow> scenario" where
  "Scenario H f st p muts ob = \<lparr>s_fault = f, s_target = st, s_point = p,
     s_c = Coordinator (World H default_sse) [] ob ''mig-016-drill'' muts True, s_paused_reasons = [],
     s_abort = None, s_rollback = None, s_stale_writer = None, s_resumes = [], s_break_glass = [], s_crashed = False\<rparr>"

definition scenario_run :: "(string \<Rightarrow> string) \<Rightarrow> scenario \<Rightarrow> (scenario, unit) outc" where
  "scenario_run H s =
    bindx (first_run H s) (\<lambda>s _.
    bindx (clear_clause H (abort_clause (note_pause s))) (\<lambda>s _.
      do_resume (glass_clause (rollback_clause H (stale_clause s)))))"

definition transitions_json :: "jrec list \<Rightarrow> json" where
  "transitions_json js = JArr (map (\<lambda>r. JArr [case trans_from r of None \<Rightarrow> JNull | Some a \<Rightarrow> JStr (state_name a),
     case trans_to r of None \<Rightarrow> JNull | Some b \<Rightarrow> JStr (state_name b)]) (only_transitions js))"

definition scenario_trace :: "(string \<Rightarrow> string) \<Rightarrow> string option \<Rightarrow> scenario \<Rightarrow> trace" where
  "scenario_trace H live s = (let c = s_c s; w = c_world c in
     \<lparr>t_replay = ob_replay (c_observer c), t_journal = c_journal c, t_events = events w,
      t_ledger = effect_ledger w, t_authority = auth_log (auth w), t_final = snapshot H w,
      t_state = c_state c, t_paused_reason = c_paused_reason c,
      t_digest = Some (digest H (transitions_json (c_journal c))), t_live_digest = live\<rparr>)"

subsection \<open>Checking the expectation\<close>

datatype mismatch = XFinal | XReason | XNoPause | XUnexpectedPause | XReasonFirst | XEffectMax | XNotReconciled
  | XAbortNotAccepted | XAbortAfterCommit | XAbortNotRefused | XFenceActive | XRollbackNotRefused
  | XStaleWriter | XPartialAck | XFinding | XResumeChanged | XTwoResumes | XModelCalls | XBreakGlass

definition bad :: "bool \<Rightarrow> mismatch \<Rightarrow> mismatch list" where
  "bad b m = (if b then [m] else [])"

definition terminal_reconciliation :: "jrec \<Rightarrow> bool" where
  "terminal_reconciliation r = (case j_body r of RecReconciliation _ _ _ (Some _) _ \<Rightarrow> True | _ \<Rightarrow> False)"

fun two_changes :: "bool list \<Rightarrow> nat" where
  "two_changes (a # b # bs) = (if a \<and> b then 1 else 0) + two_changes (b # bs)"
| "two_changes _ = 0"

definition check_expectation :: "(string \<Rightarrow> string) \<Rightarrow> scenario \<Rightarrow> mismatch list" where
  "check_expectation H s =
    (let x = expectation (s_fault s) (s_target s); c = s_c s; w = c_world c;
         ps = s_paused_reasons s; accepted = (case s_abort s of Some (ok, _) \<Rightarrow> ok | None \<Rightarrow> False)
     in bad (c_state c \<noteq> x_final x) XFinal @
        bad (x_reason x \<noteq> None \<and> c_paused_reason c \<noteq> map_option PauseReason (x_reason x)) XReason @
        bad (x_paused_first x = Some True \<and> ps = []) XNoPause @
        bad (x_paused_first x = Some False \<and> ps \<noteq> []) XUnexpectedPause @
        bad (x_reason_first x \<noteq> None \<and> (ps = [] \<or> hd ps \<noteq> map_option PauseReason (x_reason_first x))) XReasonFirst @
        (case x_effect_max x of None \<Rightarrow> [] | Some n \<Rightarrow>
           bad (\<exists>kr\<in>set (effect_ledger w). n < led_count (snd kr)) XEffectMax) @
        bad (x_reconciled x \<and> \<not> (\<exists>r\<in>set (c_journal c). terminal_reconciliation r)) XNotReconciled @
        bad (x_abort_allowed x = Some True \<and> \<not> accepted) XAbortNotAccepted @
        bad (x_abort_allowed x = Some False \<and> accepted) XAbortAfterCommit @
        bad (x_abort_refused x \<and> \<not> (s_abort s \<noteq> None \<and> \<not> accepted)) XAbortNotRefused @
        bad (x_fence_released x \<and> fence_active (auth w)) XFenceActive @
        bad (x_rollback_refused x \<and> s_rollback s \<noteq> Some False) XRollbackNotRefused @
        bad (x_stale_writer_rejected x \<and>
             \<not> (case s_stale_writer s of Some (Rejected _) \<Rightarrow> True | _ \<Rightarrow> False)) XStaleWriter @
        bad (x_partial_ack x \<and> \<not> (\<forall>h\<in>set HOSTS. acked_epoch (hosts w h) = Some (current_epoch (auth w)))) XPartialAck @
        (case x_finding x of None \<Rightarrow> [] | Some t \<Rightarrow> bad (\<not> (\<exists>f\<in>set (c_findings c). sublist t f)) XFinding) @
        bad (x_resume_changes_nothing x \<and> (\<exists>r\<in>set (s_resumes s). snd r)) XResumeChanged @
        replicate (two_changes (map snd (s_resumes s))) XTwoResumes @
        (case x_model_calls_max x of None \<Rightarrow> [] | Some n \<Rightarrow>
           bad (\<exists>k\<in>set (model_call_keys (events w)). n < count_list (model_call_keys (events w)) k) XModelCalls) @
        bad (s_fault s = FAuthRevoke \<and> s_break_glass s \<noteq> [True, False, False, False, False, False]) XBreakGlass)"

end
