(* ===== verification/Drill_Audit.thy ===== *)
theory Drill_Audit
  imports Drill_Static Drill_Oracle Drill_Scenarios
begin

section \<open>The oracle accepts the coordinator\<close>

text \<open>
  \<open>audit_inv\<close>: the oracle's transition rules find nothing in the journal, and the pause state the
  oracle has in mind is the coordinator's. A fourth interpretation of \<open>coord_invariant\<close>. The scenario
  runner's fault hook is a \<open>fault_hook\<close>, so every invariant holds under it.
\<close>

subsection \<open>The audit of the transitions, one record at a time\<close>

definition pause_after :: "jrec list \<Rightarrow> cstate option \<Rightarrow> cstate option" where
  "pause_after ts pa = fold (\<lambda>r pa. snd (audit_transition r pa)) ts pa"

lemma audit_transitions_append:
  "audit_transitions (ts @ [r]) pa = audit_transitions ts pa @ fst (audit_transition r (pause_after ts pa))"
  by (induction ts arbitrary: pa) (simp_all add: pause_after_def split: prod.split)

lemma pause_after_append: "pause_after (ts @ [r]) pa = snd (audit_transition r (pause_after ts pa))"
  by (simp add: pause_after_def)

lemma only_transitions_eq: "only_transitions = transitions"
  by (simp add: only_transitions_def transitions_def fun_eq_iff)

definition audit_inv :: "view \<Rightarrow> bool" where
  "audit_inv v \<longleftrightarrow> jinv v \<and> ct_migration_id (v_ctl v) \<noteq> [] \<and> ct_keyed (v_ctl v) \<noteq> [] \<and>
     audit_transitions (v_trans v) None = [] \<and>
     (ct_state (v_ctl v) = PAUSED_SAFE \<longrightarrow> pause_after (v_trans v) None = ct_paused_at (v_ctl v))"

lemma audit_cong:
  assumes "audit_inv v" "jinv u" "v_trans u = v_trans v"
    "ct_migration_id (v_ctl u) = ct_migration_id (v_ctl v)" "ct_keyed (v_ctl u) = ct_keyed (v_ctl v)"
    "ct_state (v_ctl u) = ct_state (v_ctl v)" "ct_paused_at (v_ctl u) = ct_paused_at (v_ctl v)"
  shows "audit_inv u"
  using assms by (simp add: audit_inv_def)

text \<open>A new transition record the oracle has no objection to.\<close>

lemma audit_new:
  assumes "audit_inv v" "jinv u" "v_trans u = v_trans v @ [r]"
    "ct_migration_id (v_ctl u) = ct_migration_id (v_ctl v)" "ct_keyed (v_ctl u) = ct_keyed (v_ctl v)"
    "fst (audit_transition r (pause_after (v_trans v) None)) = []"
    "ct_state (v_ctl u) = PAUSED_SAFE \<longrightarrow>
       snd (audit_transition r (pause_after (v_trans v) None)) = ct_paused_at (v_ctl u)"
  shows "audit_inv u"
  using assms by (simp add: audit_inv_def audit_transitions_append pause_after_append)

lemma keyed_ok:
  assumes "audit_inv (view c)"
  shows "\<not> unkeyed (jkeys_of c)"
  using assms by (auto simp: audit_inv_def unkeyed_def jkeys_of_def dest: jinvD(2))

subsection \<open>The contract\<close>

lemma audit_pause:
  assumes "audit_inv (view c)" "active c" "c_state c \<noteq> PAUSED_SAFE"
  shows "audit_inv (view (pause r c))"
proof -
  have j: "jinv (view c)" using assms(1) by (simp add: audit_inv_def)
  note so = jinvD(1) [OF j] and ref = jinvD(2) [OF j]
  let ?r = "\<lparr>j_seq = Suc (length (c_journal c)), j_at = clock (c_world c), j_keys = jkeys_of c,
     j_body = RecTransition (Some (c_state c)) PAUSED_SAFE (Some (PauseReason r)) (Some (c_state c)) None None\<rparr>"
  have t: "transitions (c_journal (pause r c)) = transitions (c_journal c) @ [?r]"
    using assms(3) ref by (simp add: pause_def Let_def cevent_def durable_def)
  have st: "in_order (Some (c_state c)) \<or> c_state c = INIT"
    using assms(2,3) by (cases "c_state c") (auto simp: active_def in_order_def ORDER_def)
  have at: "audit_transition ?r pa = ([], Some (c_state c))" for pa
    using keyed_ok [OF assms(1)] st
    by (auto simp: audit_transition_def hit_def reasonless_def edge_ok_def or_else_def ORDER_def)
  show ?thesis
    by (rule audit_new [OF assms(1) jinv_pause [OF j assms(2,3)], where r = ?r])
      (simp_all add: t view_pause [OF so ref assms(3)] at)
qed

lemma audit_intent:
  assumes "audit_inv (view c)" "working (c_state c)" "nxt = next_state (c_state c)"
  shows "audit_inv (view (durable (RecIntent nxt (effect_keys nxt c)) c))"
proof -
  have j: "jinv (view c)" using assms(1) by (simp add: audit_inv_def)
  show ?thesis
    by (rule audit_cong [OF assms(1) jinv_intent [OF j assms(2,3)]]) (simp_all add: view_intent [OF jinvD(1) [OF j]])
qed

lemma edge_next: "working s \<Longrightarrow> edge_ok (Some s) (next_state s) pa"
  by (erule working_cases) (simp_all add: edge_ok_def in_order_def ORDER_def idx_def)

lemma audit_checkpoint:
  assumes "audit_inv (view c)" "active c" "dangling_intent (c_journal c) = Some (st, keys)"
  shows "audit_inv (view (checkpoint st keys v c))"
proof -
  have j: "jinv (view c)" using assms(1) by (simp add: audit_inv_def)
  note op = jinv_open [OF j assms(2,3)] and ne = eff_of_dangling [OF j assms(2,3)] and so = jinvD(1) [OF j]
  let ?r = "\<lparr>j_seq = Suc (Suc (length (c_journal c))), j_at = clock (c_world c), j_keys = jkeys_of c,
     j_body = RecTransition (Some (eff_state c)) st None None None (Some v)\<rparr>"
  have frm: "(if c_state c \<noteq> PAUSED_SAFE then Some (c_state c) else c_paused_at c) = Some (eff_state c)"
    using jinvD(4) [OF j] by (auto simp: eff_state_eq)
  have jk: "jkeys_of (durable b c) = jkeys_of c" for b by (simp add: jkeys_of_def durable_def)
  have t: "transitions (c_journal (checkpoint st keys v c)) = transitions (c_journal c) @ [?r]"
    using frm by (simp add: checkpoint_def Let_def cevent_def jk [unfolded durable_def] durable_def)
      (auto simp: journal_append_def split: if_splits)
  have "st \<noteq> PAUSED_SAFE" "st \<noteq> ABORTED" using ne by simp_all
  then have at: "audit_transition ?r pa = ([], pa)" for pa
    using keyed_ok [OF assms(1)] edge_next [OF op(1), of pa] op(2)
    by (simp add: audit_transition_def hit_def or_else_def)
  show ?thesis
    by (rule audit_new [OF assms(1) jinv_checkpoint [OF j assms(2,3)], where r = ?r])
      (use ne in \<open>simp_all add: t view_checkpoint [OF so ne(1)] at\<close>)
qed

lemma audit_forward:
  assumes "audit_inv (view c)" "c_state c = PAUSED_SAFE" "c_paused_at c = Some s" "working s"
    "c_paused_reason c \<noteq> None" "pause_cleared c"
  shows "audit_inv (view (fst (forward_recovery c)))"
proof -
  have j: "jinv (view c)" using assms(1) by (simp add: audit_inv_def)
  have s: "s \<noteq> PAUSED_SAFE" "s \<noteq> ABORTED" "s \<in> set ORDER \<or> s = INIT"
    using assms(4) by (auto simp: working_def STATES_def ORDER_def)
  let ?r = "\<lparr>j_seq = Suc (length (c_journal c)), j_at = clock (c_world c), j_keys = jkeys_of c,
     j_body = RecTransition (Some PAUSED_SAFE) s (Some (TextReason ''forward recovery: cause cleared'')) None None None\<rparr>"
  have t: "transitions (c_journal (fst (forward_recovery c))) = transitions (c_journal c) @ [?r]"
    using assms by (simp add: forward_recovery_def Let_def cevent_def durable_def)
  have pa: "pause_after (transitions (c_journal c)) None = Some s" using assms(1-3) by (simp add: audit_inv_def)
  have at: "audit_transition ?r (Some s) = ([], Some s)"
    using keyed_ok [OF assms(1)] s by (auto simp: audit_transition_def hit_def or_else_def edge_ok_def)
  show ?thesis
    by (rule audit_new [OF assms(1) jinv_forward [OF j assms(2-6)], where r = ?r])
      (use s in \<open>simp_all add: t view_forward [OF jinvD(1) [OF j] assms(2,3) s(1) assms(5,6)] at pa\<close>)
qed

lemma audit_abort:
  assumes "audit_inv (view c)" "active c" "\<not> past_commit (Some (eff_state c))"
  shows "audit_inv (view (fst (abort why c)))"
proof -
  have j: "jinv (view c)" using assms(1) by (simp add: audit_inv_def)
  note so = jinvD(1) [OF j] and ref = jinvD(2) [OF j]
  have at: "(if c_state c = PAUSED_SAFE then c_paused_at c else Some (c_state c)) = Some (eff_state c)"
    using jinvD(4) [OF j] by (auto simp: eff_state_eq)
  have va: "view (fst (abort why c)) = (view c)\<lparr>v_ctl := (ctl c)\<lparr>ct_state := ABORTED,
      ct_rec_state := ABORTED\<rparr>, v_trans := transitions (c_journal (fst (abort why c))),
      v_core := abort_core (c_lease_token c) (core_of (c_world c))\<rparr>"
    using view_abort [OF so ref, of why] assms(2,3) unfolding at by (simp add: active_def)
  let ?w = "fst (release_lease (c_lease_token c) (fst (release_fence (fence_key_of (c_migration_id c)) (c_world c))))"
  let ?r = "\<lparr>j_seq = Suc (length (c_journal c)), j_at = clock ?w, j_keys = jkeys_of c,
     j_body = RecTransition (Some (c_state c)) ABORTED (Some (TextReason why)) None (Some (eff_state c)) None\<rparr>"
  have t: "transitions (c_journal (fst (abort why c))) = transitions (c_journal c) @ [?r]"
    using assms(2,3) ref unfolding abort_def Let_def at
    by (simp add: active_def cevent_def durable_def jkeys_of_def)
  have "in_order (Some (c_state c)) \<or> c_state c = PAUSED_SAFE \<or> c_state c = INIT"
    using assms(2) by (cases "c_state c") (auto simp: active_def in_order_def ORDER_def)
  moreover have "\<not> (in_order (Some (eff_state c)) \<and> COMMIT_INDEX \<le> idx (Some (eff_state c)))"
    using assms(3) by (cases "eff_state c")
      (simp_all add: past_commit_iff committed_def in_order_def idx_def ORDER_def COMMIT_INDEX_def)
  ultimately have au: "audit_transition ?r pa = ([], pa)" for pa
    using keyed_ok [OF assms(1)]
    by (auto simp: audit_transition_def hit_def or_else_def edge_ok_def ORDER_def Let_def)
  show ?thesis
    by (rule audit_new [OF assms(1) jinv_abort [OF j assms(2,3)], where r = ?r])
      (simp_all only: va, simp_all add: t au)
qed

lemma audit_effect:
  assumes "audit_inv (view c)" "active c" "dangling_intent (c_journal c) = Some (st, keys)"
    "key \<in> set keys" "effect_fn st key c = (d, r)"
  shows "audit_inv (if r = Inr Applied then mark key (view d) else view d)"
proof -
  have j: "jinv (view c)" using assms(1) by (simp add: audit_inv_def)
  have jd: "jinv (view d)" using jinv_effect [OF j assms(2-5)] by (auto split: if_splits)
  have ct: "ctl d = ctl c" using ctl_effect_fn [of st key c] assms(5) by simp
  have "transitions (c_journal d) = transitions (c_journal c)"
    using assms(5) by (auto simp: effect_fn_def quiesce_fn_def fence_fn_def take_lease_def lease_needed_def
      commit_fn_def ack_fn_def complete_fn_def durable_def Let_def
      split: cstate.splits prod.splits sum.splits option.splits if_splits effect_key.splits key_tail.splits)
  then have "audit_inv (view d)"
    using ct by (intro audit_cong [OF assms(1) jd]) (simp_all add: ctl_eq_iff)
  then show ?thesis by (auto simp: audit_inv_def)
qed

interpretation audit: coord_invariant audit_inv hook for hook :: "'h hook"
proof unfold_locales
  show "v_seq_ok v \<and> v_open v \<and> cinv (v_ctl v)" if "audit_inv v" for v
    using that by (simp add: audit_inv_def jinv_def)
  show "audit_inv (v\<lparr>v_ctl := (v_ctl v)\<lparr>ct_paused_reason := a, ct_paused_at := b\<rparr>\<rparr>)"
    if "audit_inv v" "ct_state (v_ctl v) \<noteq> PAUSED_SAFE" for v a b
    using that journal.keep_stale [OF _ that(2)] by (simp add: audit_inv_def)
qed (assumption | rule audit_pause audit_intent audit_effect audit_checkpoint audit_forward audit_abort)+

subsection \<open>Scenarios\<close>

lemma env_step_fault_event:
  "fault_event k \<Longrightarrow> env_step w v \<Longrightarrow> env_step w (event k v)"
  by (force simp: env_step_def event_def Let_def fault_event_def)

lemma env_step_trans: "env_step u v \<Longrightarrow> env_step v w \<Longrightarrow> env_step u w"
  by (force simp: env_step_def)

lemma env_step_inject: "env_step w (fst (inject f w))"
  by (auto simp: inject_def env_step_def advance_def LEASE_TTL_def corrupt_known_good_def split: fault.split)

lemma fault_hook_scenario: "fault_hook (scenario_hook f st p)"
proof -
  have "env_step w (fst (inject f (event (EvFaultInjected f t q) w)))" for t q w
    using env_step_trans [OF env_step_fault_event [OF _ env_step_refl] env_step_inject]
    by (simp add: fault_event_def)
  then show ?thesis
    by (auto simp: fault_hook_def scenario_hook_def split: prod.split) (metis fst_conv)+
qed

lemma audit_start:
  assumes "mig \<noteq> []" "source_set_epoch w \<noteq> []"
  shows "audit_inv (view (Coordinator w [] ob mig {} hk))"
proof -
  have "ct_keyed (ctl (Coordinator w [] ob mig {} hk)) = source_set_epoch w"
    "transitions (c_journal (Coordinator w [] ob mig {} hk)) = []"
    by (simp_all add: Coordinator_def recover_def Let_def durable_def journal_append_def transitions_def)
  then show ?thesis
    using assms jinv_start [of w ob mig hk] ctl_start [of w ob mig hk] by (simp add: audit_inv_def)
qed

subsection \<open>Properties\<close>

text \<open>C3. The oracle's transition rules hold: in whatever state a migration with a name and a source-set
  epoch can come, the oracle's ordering, abort, keying and pause-reason rules find nothing to object to in
  the transitions of its journal. The one call left out is a rollback that is refused after the
  migration has ended: it opens the migration again, and \<open>reopened_breaks_order\<close> shows that the
  order rule then objects.\<close>

theorem oracle_accepts_transitions:
  assumes "reach_unreopened H hook (Coordinator w [] ob mig {} hk) c" "fault_hook hook" "mig \<noteq> []" "source_set_epoch w \<noteq> []"
  shows "audit_transitions (only_transitions (c_journal c)) None = []"
  using audit.reach_keep [OF assms(1,2) jinv_start audit_start [OF assms(3,4)]]
  by (simp add: audit_inv_def only_transitions_eq)

theorem oracle_accepts_transitions_witness:
  "audit_transitions (only_transitions (c_journal (fst (step id (scenario_hook FCrash QUIESCING (Some AfterEffect))
     (Coordinator (World id default_sse) [] observer0 ''m'' {} True))))) None = []"
  by (rule oracle_accepts_transitions [OF reach_unreopened.step [OF reach_unreopened.init] fault_hook_scenario])
    (simp_all add: World_def default_sse_def)

text \<open>The abstract specification of the transition rules, written out edge by edge: the eight steps
  of a migration, a pause of every state that is not itself a pause or an abort, the return from a pause
  to the state it was taken in, an abort, and the keys and reasons a record has to carry.\<close>

inductive allowed_edge :: "cstate option \<Rightarrow> cstate \<Rightarrow> cstate option \<Rightarrow> bool" where
  advance_edge: "(a, b) \<in> {(INIT, QUIESCING), (QUIESCING, FENCED), (FENCED, FINAL_SYNC), (FINAL_SYNC, VALIDATED),
      (VALIDATED, WRITE_COMMITTED), (WRITE_COMMITTED, HOSTS_ACTIVATING), (HOSTS_ACTIVATING, OBSERVING),
      (OBSERVING, COMPLETE)} \<Longrightarrow> allowed_edge (Some a) b paused_at"
| pause_edge: "a \<noteq> PAUSED_SAFE \<Longrightarrow> a \<noteq> ABORTED \<Longrightarrow> allowed_edge (Some a) PAUSED_SAFE paused_at"
| return_edge: "b \<noteq> PAUSED_SAFE \<Longrightarrow> b \<noteq> ABORTED \<Longrightarrow> allowed_edge (Some PAUSED_SAFE) b (Some b)"
| abort_edge: "a \<noteq> ABORTED \<Longrightarrow> allowed_edge (Some a) ABORTED paused_at"

inductive_simps allowed_edge_simps: "allowed_edge a b paused_at"

inductive audit_path :: "cstate option \<Rightarrow> jrec list \<Rightarrow> bool" where
  path_nil: "audit_path pa []"
| path_step: "j_body r = RecTransition a b reason pat aat v \<Longrightarrow> allowed_edge a b pa \<Longrightarrow>
    k_migration_id (j_keys r) \<noteq> [] \<Longrightarrow> k_source_set_epoch (j_keys r) \<noteq> [] \<Longrightarrow>
    k_target_writer_epoch (j_keys r) \<noteq> None \<Longrightarrow>
    (b = PAUSED_SAFE \<longrightarrow> (\<exists>why. reason = Some why \<and> why \<noteq> TextReason [])) \<Longrightarrow>
    (b = ABORTED \<longrightarrow> (case aat of Some s \<Rightarrow> Some s | None \<Rightarrow> if a = Some PAUSED_SAFE then pa else a) \<notin>
       Some ` {WRITE_COMMITTED, HOSTS_ACTIVATING, OBSERVING, COMPLETE}) \<Longrightarrow>
    audit_path (if b = PAUSED_SAFE then (case pat of Some s \<Rightarrow> Some s | None \<Rightarrow> a) else pa) rs \<Longrightarrow>
    audit_path pa (r # rs)"

lemma edge_ok_iff: "edge_ok a b pa \<longleftrightarrow> allowed_edge a b pa"
proof (cases a)
  case (Some s)
  then show ?thesis
    by (cases s; cases b)
      (auto simp: edge_ok_def allowed_edge_simps in_order_def idx_def ORDER_def)
qed (auto simp: edge_ok_def allowed_edge_simps in_order_def)

lemma or_else_case: "or_else x y = (case x of Some s \<Rightarrow> Some s | None \<Rightarrow> y)"
  by (simp add: or_else_def split: option.split)

lemma audit_path_Cons:
  assumes "j_body r = RecTransition a b reason pat aat v"
  shows "audit_path pa (r # rs) \<longleftrightarrow> allowed_edge a b pa \<and> (k_migration_id (j_keys r) \<noteq> [] \<and>
    k_source_set_epoch (j_keys r) \<noteq> [] \<and> k_target_writer_epoch (j_keys r) \<noteq> None) \<and>
    (b = PAUSED_SAFE \<longrightarrow> (\<exists>why. reason = Some why \<and> why \<noteq> TextReason [])) \<and>
    (b = ABORTED \<longrightarrow> (case aat of Some s \<Rightarrow> Some s | None \<Rightarrow> if a = Some PAUSED_SAFE then pa else a) \<notin>
       Some ` {WRITE_COMMITTED, HOSTS_ACTIVATING, OBSERVING, COMPLETE}) \<and>
    audit_path (if b = PAUSED_SAFE then (case pat of Some s \<Rightarrow> Some s | None \<Rightarrow> a) else pa) rs"
    (is "_ \<longleftrightarrow> ?rest")
proof
  assume "audit_path pa (r # rs)"
  then show ?rest
    by (rule audit_path.cases) (use assms in \<open>simp_all only: list.inject list.simps jbody.inject simp_thms\<close>)
qed (elim conjE, rule path_step [OF assms])

lemma reason_iff: "\<not> reasonless reason \<longleftrightarrow> (\<exists>why. reason = Some why \<and> why \<noteq> TextReason [])"
  by (cases reason) (auto simp: reasonless_def)

lemma commit_index_iff: "in_order at \<and> COMMIT_INDEX \<le> idx at \<longleftrightarrow> at \<in> Some ` {s. committed s}"
proof (cases at)
  case (Some s)
  then show ?thesis
    by (cases s) (simp_all add: in_order_def idx_def ORDER_def COMMIT_INDEX_def committed_def image_iff)
qed (auto simp: in_order_def)


end
