(* ===== verification/Ladder.thy ===== *)
theory Ladder
  imports World
begin

section \<open>The readiness ladder (\<^verbatim>\<open>cutover/coordinator.py\<close>, \<open>LadderStore\<close>)\<close>

text \<open>
  The durable ladder of nine readiness states. \<open>state.json\<close> and the receipt directory are the
  disk: a file is the JSON document it holds, its digest is the SHA-256 of the text the tool
  writes (\<open>file_digest\<close>; key order is not part of a document, every text the tool produces sorts
  it). State names are strings, because the operations are called with names from the command
  line and read names from disk: an unknown target is refused, an unknown recorded state raises.

  \<open>ladder_env\<close> is what lies outside: the hash, the clock (the n-th reading of \<open>now_iso\<close>), the
  random source (only read by a mutant) and the host name. \<open>advance\<close> of the source is
  \<open>advance_ladder\<close> here, as \<open>World.advance\<close> is the clock's.
\<close>

subsection \<open>The two vocabularies\<close>

definition LADDER :: "string list" where
  "LADDER = [''FILES_AUTHORITATIVE'', ''SHADOW_PROJECTION'', ''FROZEN'', ''FENCE_ENFORCED'',
     ''PROJECTION_VERIFIED'', ''DELTA_IMPORTED'', ''ROLLBACK_DRILLED'', ''SWITCHING'',
     ''MUNERAL_AUTHORITATIVE'']"

fun ladder_name :: "ladder_state \<Rightarrow> string" where
  "ladder_name FILES_AUTHORITATIVE = ''FILES_AUTHORITATIVE''"
| "ladder_name SHADOW_PROJECTION = ''SHADOW_PROJECTION''"
| "ladder_name FROZEN = ''FROZEN''"
| "ladder_name FENCE_ENFORCED = ''FENCE_ENFORCED''"
| "ladder_name PROJECTION_VERIFIED = ''PROJECTION_VERIFIED''"
| "ladder_name DELTA_IMPORTED = ''DELTA_IMPORTED''"
| "ladder_name ROLLBACK_DRILLED = ''ROLLBACK_DRILLED''"
| "ladder_name SWITCHING = ''SWITCHING''"
| "ladder_name MUNERAL_AUTHORITATIVE = ''MUNERAL_AUTHORITATIVE''"

definition PHASES :: "cstate list" where
  "PHASES = [QUIESCING, FENCED, FINAL_SYNC, VALIDATED, WRITE_COMMITTED, HOSTS_ACTIVATING,
     OBSERVING, COMPLETE]"

text \<open>The minimum ladder state that authorises a window phase; \<open>None\<close> is the \<open>KeyError\<close>.\<close>

fun AUTHORISING_LADDER_STATE :: "cstate \<Rightarrow> ladder_state option" where
  "AUTHORISING_LADDER_STATE QUIESCING = Some FROZEN"
| "AUTHORISING_LADDER_STATE FENCED = Some FENCE_ENFORCED"
| "AUTHORISING_LADDER_STATE FINAL_SYNC = Some DELTA_IMPORTED"
| "AUTHORISING_LADDER_STATE VALIDATED = Some ROLLBACK_DRILLED"
| "AUTHORISING_LADDER_STATE WRITE_COMMITTED = Some SWITCHING"
| "AUTHORISING_LADDER_STATE HOSTS_ACTIVATING = Some SWITCHING"
| "AUTHORISING_LADDER_STATE OBSERVING = Some SWITCHING"
| "AUTHORISING_LADDER_STATE COMPLETE = Some MUNERAL_AUTHORITATIVE"
| "AUTHORISING_LADDER_STATE _ = None"

definition RECONCILIATION :: "(string \<times> json \<times> string) list" where
  "RECONCILIATION =
    [(''FILES_AUTHORITATIVE'', JNull,
      ''the baseline before any cutover work; AUP-E25 has no state for it''),
     (''SHADOW_PROJECTION'', JNull,
      ''dark launch, added by DEC-AUP-0012 (cheapest reversible step); no AUP-E25 analogue''),
     (''FROZEN'', JStr ''QUIESCING'',
      ''the DEC-AUP-0011 freeze is what authorises the drain of migration-owned lanes''),
     (''FENCE_ENFORCED'', JStr ''FENCED'',
      ''the fence mechanism is proven (real rejection + ruleset refusal) before the coordinator sets '' @
      ''the global legacy-write fence and takes the single writer lease''),
     (''PROJECTION_VERIFIED'', JNull,
      ''AUP-E25 folds this into VALIDATED; the decision makes it its own gate (100 % of the fenced rows)''),
     (''DELTA_IMPORTED'', JStr ''FINAL_SYNC'',
      ''re-discovery of roots / worktrees / refs / backups under the fence and the final delta''),
     (''ROLLBACK_DRILLED'', JStr ''VALIDATED'',
      ''consistency + Scrutator ack are only accepted once the rollback and the database restore are drilled''),
     (''SWITCHING'', JStr ''WRITE_COMMITTED / HOSTS_ACTIVATING / OBSERVING'',
      ''the decision has one atomic state for the CAS commit, the idempotent per-host acks and the '' @
      ''observation window; AUP-E25 splits it into three phases, which the window keeps''),
     (''MUNERAL_AUTHORITATIVE'', JStr ''COMPLETE'',
      ''reached only after the 24 h bake; COMPLETE then makes the legacy contour read-only'')]"

definition ORDER_CONFLICTS :: "string list" where
  "ORDER_CONFLICTS =
    [''order: DEC-AUP-0012 verifies the projection (PROJECTION_VERIFIED) *before* importing the delta '' @
     ''(DELTA_IMPORTED); AUP-E25 runs FINAL_SYNC (the final delta) *before* VALIDATED. Held, not resolved by '' @
     ''default: the window's FINAL_SYNC is authorised by DELTA_IMPORTED and VALIDATED by ROLLBACK_DRILLED, so '' @
     ''both ladder gates are satisfied before either phase runs and neither order is violated.'',
     ''granularity: AUP-E25 gives host activation and the observation window their own states; DEC-AUP-0012 '' @
     ''keeps them inside SWITCHING. The ladder follows the decision; the window keeps the three phases so the '' @
     ''MIG-014 fault matrix stays applicable, and each phase carries the SWITCHING authorisation.'',
     ''vocabulary: AUP-E25's FENCED is the *operational* fence during the cutover window; DEC-AUP-0012's '' @
     ''FENCE_ENFORCED is the *proof* that the fence rejects a real write. Same word, different obligations; '' @
     ''the proof gates the operation.'']"

definition DARK_LAUNCH_TOP :: string where
  "DARK_LAUNCH_TOP = ''SHADOW_PROJECTION''"

definition PORTION_DEFAULT :: string where
  "PORTION_DEFAULT = ''AUP-MIG-016:coord0''"

definition TOOL :: string where
  "TOOL = ''tools/mig/cutover/coordinator.py''"

definition VERSION :: string where
  "VERSION = ''1.1.0''"

definition MODEL :: string where
  "MODEL = ''claude-opus-5''"

text \<open>The protective rules a mutant of the cutover tools switches off, beside the drill's.\<close>

datatype nmutation = N01_ignore_ladder_authorisation | N02_state_advances_before_receipt
  | N03_barrier_accepts_candidate_schema | N04_host_ack_not_idempotent
  | N05_gate_passes_with_missing_receipt | N06_state_file_written_at_any_state
  | N08_resume_recomputes_state | N09_not_measured_counts_as_pass | N10_gate_omits_missing_receipts
  | N11_receipt_regenerated_on_resume | N12_delta_checklist_list_shape_dropped
  | N13_delta_checklist_mismatch_ignored | N14_derived_marker_ignores_in_place_rewrite
  | N15_derived_marker_stale_accepted | N16_rollback_without_enable_flag
  | N17_rollback_state_before_receipt | N18_rollback_beyond_dark_launch

subsection \<open>Notes written into the receipts\<close>

abbreviation section_sign :: string where
  "section_sign \<equiv> [CHR 0xC2, CHR 0xA7]"

abbreviation em_dash :: string where
  "em_dash \<equiv> [CHR 0xE2, CHR 0x80, CHR 0x94]"

text \<open>\<open>LADDER.index\<close>, which raises on a name that is not there.\<close>

definition ladder_index :: "json \<Rightarrow> nat result" where
  "ladder_index j = (case j of JStr s \<Rightarrow> if s \<in> set LADDER then Inr (index_of s LADDER) else Inl ValueError
     | _ \<Rightarrow> Inl ValueError)"

definition authorised_phases :: "string \<Rightarrow> cstate list" where
  "authorised_phases ladder_state = filter (\<lambda>p. case AUTHORISING_LADDER_STATE p of None \<Rightarrow> False
     | Some need \<Rightarrow> index_of (ladder_name need) LADDER \<le> index_of ladder_state LADDER) PHASES"

definition reconciliation_row :: "string \<Rightarrow> json" where
  "reconciliation_row ladder_state = (case find (\<lambda>r. fst r = ladder_state) RECONCILIATION of None \<Rightarrow> JNull
     | Some (s, p, n) \<Rightarrow> JObj [(''ladder_state'', JStr s), (''spec_phase'', p), (''note'', JStr n)])"

definition reconciliation_entry :: "string \<Rightarrow> jobj" where
  "reconciliation_entry ladder_state =
    (let authorised = authorised_phases ladder_state in
     [(''decision_ref'', JStr ''DEC-AUP-0012''),
      (''spec_ref'', JStr (''universal-program/specifications/AUP-E25-transition.md '' @ section_sign @ '' AUP-MIG-016'')),
      (''entry'', reconciliation_row ladder_state),
      (''authorises_window_phases'', JArr (map (\<lambda>p. JStr (state_name p)) authorised)),
      (''dark_launch'', JBool (authorised = [])),
      (''rule'', JStr (''the decision wins on gating: a window phase whose authorising ladder state is not reached '' @
         ''pauses safe, whatever the spec's order suggests'')),
      (''conflicts_held'', JArr (map JStr ORDER_CONFLICTS))])"

definition rollback_note :: "string \<Rightarrow> string \<Rightarrow> jobj" where
  "rollback_note from_state to_state =
    (let reversible = (index_of to_state LADDER \<le> index_of DARK_LAUNCH_TOP LADDER) in
     [(''reversible'', JBool reversible),
      (''returns_to'', JStr from_state),
      (if reversible then ''why_it_is_cheap'' else ''why_it_is_not_cheap'', JStr (if reversible
         then ''up to and including SHADOW_PROJECTION the ladder is a dark launch: no freeze, no fence, no '' @
              ''single-writer switch, no writer epoch and no write to datarim/ or arcanada-workspace happened, '' @
              ''so the whole externally visible effect of the transition is the two files named below''
         else ''this state has external effects (freeze / fence / writer epoch) that the coordinator does not own'')),
      (''procedure'', JArr
        [JStr (''python3 '' @ TOOL @ '' --rollback-to '' @ from_state @ '' --enable-rollback --reason '' @
           [CHR 0x27] @ ''<why>'' @ [CHR 0x27] @ '' --portion <the card doing it>  # writes a CutoverRollbackReceipt/v1, then the state file''),
         JStr (''or, equivalently and without the tool: '' @ [CHR 0x60] @ ''git revert'' @ [CHR 0x60] @ '' the commit that carries '' @
           ''receipts/cutover/state.json at this state '' @ em_dash @ '' the transition receipt is kept either way '' @
           ''(the ladder history is append-only; a rollback is a new entry, never a deletion)''),
         JStr (''re-running '' @ [CHR 0x60] @ ''--gates'' @ [CHR 0x60] @ '' afterwards must read the ladder back at '' @ from_state)]),
      (''not_undone_by_this'', JArr
        [JStr ''the evidence receipts the gate rested on (they stay: the measurement happened)'',
         JStr ''the transition receipt itself (append-only history)''])])"

subsection \<open>The store\<close>

record ladder_env =
  le_hash :: "string \<Rightarrow> string"
  le_now :: "nat \<Rightarrow> string"
  le_nonce :: "nat \<Rightarrow> string"
  le_host :: string

datatype refusal = NO_SUCH_STATE | NOT_THE_NEXT_STATE | CARD_SCOPE_COORD0 | GATE_VERDICT json
  | GATE_REPORT_MISMATCH | NO_STATE_FILE | RECEIPT_DIGEST_MISMATCH | NOT_THE_PREVIOUS_STATE
  | ROLLBACK_NOT_ENABLED | ROLLBACK_BEYOND_DARK_LAUNCH | ROLLBACK_WITHOUT_REASON

datatype op_kind = AdvanceOp | RollbackOp

datatype ladder_op =
    OpStateWrite json string string          \<comment> \<open>state, path, digest\<close>
  | OpReceiptWrite string string string op_kind
  | OpReceiptReused string string string op_kind
  | OpInitNoop "json option"
  | OpRefused op_kind json string refusal

record ladder_rec =
  lo_seq :: nat
  lo_op :: ladder_op

datatype crash_after = CrashAfterReceipt | CrashAfterState

record ladder_store =
  ls_path :: string
  ls_dir :: string
  ls_file :: "jobj option"
  ls_receipts :: "(string \<times> jobj) list"
  ls_allow_advance :: bool
  ls_allow_rollback :: bool
  ls_portion :: string
  ls_mutations :: "nmutation set"
  ls_crash_after :: "crash_after option"
  ls_journal :: "ladder_rec list"
  ls_reads :: nat

text \<open>\<open>__init__\<close>: a process that finds the disk as it is. The drill's mutants and crashes are off
  unless set.\<close>

definition LadderStore :: "string \<Rightarrow> string \<Rightarrow> jobj option \<Rightarrow> (string \<times> jobj) list \<Rightarrow> nat \<Rightarrow> bool \<Rightarrow>
  nmutation set \<Rightarrow> crash_after option \<Rightarrow> string \<Rightarrow> bool \<Rightarrow> ladder_store" where
  "LadderStore path dir file receipts reads allow_advance muts crash portion allow_rollback =
    \<lparr>ls_path = path, ls_dir = dir, ls_file = file, ls_receipts = receipts,
     ls_allow_advance = allow_advance, ls_allow_rollback = allow_rollback, ls_portion = portion,
     ls_mutations = muts, ls_crash_after = crash, ls_journal = [], ls_reads = reads\<rparr>"

definition ladder_op :: "ladder_op \<Rightarrow> ladder_store \<Rightarrow> ladder_store" where
  "ladder_op op s = s\<lparr>ls_journal := ls_journal s @ [\<lparr>lo_seq = length (ls_journal s) + 1, lo_op = op\<rparr>]\<rparr>"

text \<open>One reading of the clock.\<close>

definition now_iso :: "ladder_env \<Rightarrow> ladder_store \<Rightarrow> ladder_store \<times> string" where
  "now_iso E s = (s\<lparr>ls_reads := ls_reads s + 1\<rparr>, le_now E (ls_reads s))"

definition write_state :: "ladder_env \<Rightarrow> jobj \<Rightarrow> ladder_store \<Rightarrow> (ladder_store, string) outc" where
  "write_state E doc s =
    (let s = s\<lparr>ls_file := Some doc\<rparr>; d = file_digest (le_hash E) (JObj doc)
     in case map_of doc ''state'' of
          None \<Rightarrow> (s, Inl KeyError)
        | Some st \<Rightarrow> (ladder_op (OpStateWrite st (ls_path s) d) s, Inr d))"

definition pad2 :: "nat \<Rightarrow> string" where
  "pad2 n = (if n < 10 then CHR ''0'' # show_nat n else show_nat n)"

definition transition_name :: "string \<Rightarrow> string" where
  "transition_name to_state = ''transition-'' @ pad2 (index_of to_state LADDER) @ ''-'' @ to_state @ ''.json''"

definition rollback_name :: "string \<Rightarrow> string \<Rightarrow> string" where
  "rollback_name from_state to_state =
     ''rollback-'' @ pad2 (index_of from_state LADDER) @ ''-'' @ from_state @ ''-to-'' @ to_state @ ''.json''"

definition in_dir :: "ladder_store \<Rightarrow> string \<Rightarrow> string" where
  "in_dir s name = ls_dir s @ ''/'' @ name"

text \<open>What the receipt writers return: the path, the digest, whether the file was already there.\<close>

record receipt_ref =
  rr_name :: string
  rr_path :: string
  rr_digest :: string
  rr_reused :: bool

definition produced_by :: json where
  "produced_by = JObj [(''tool'', JStr TOOL), (''version'', JStr VERSION)]"

definition update_all :: "jobj \<Rightarrow> jobj \<Rightarrow> jobj" where
  "update_all extra doc = fold (\<lambda>(k, v). AList.update k v) extra doc"

definition transition_doc :: "ladder_env \<Rightarrow> string \<Rightarrow> json \<Rightarrow> json \<Rightarrow> json \<Rightarrow> string \<Rightarrow> json \<Rightarrow> string \<Rightarrow> jobj" where
  "transition_doc E portion mig keys from_state to_state gate now =
    [(''schema'', JStr ''CutoverTransitionReceipt/v1''), (''portion_id'', JStr portion),
     (''migration_id'', mig), (''keys'', keys), (''from_state'', from_state), (''to_state'', JStr to_state),
     (''decision_ref'', JStr ''DEC-AUP-0012''), (''gate'', gate), (''produced_by'', produced_by),
     (''captured_at_utc'', JStr now), (''host'', JStr (le_host E)),
     (''backends'', JStr ''none (ladder transition; the window's backends are declared in its own receipts)''),
     (''model'', JStr MODEL), (''provisional_until_fable_review'', JBool True)]"

text \<open>\<open>d[k]\<close> on a JSON value.\<close>

definition jindex :: "json \<Rightarrow> string \<Rightarrow> json result" where
  "jindex j k = (case j of JObj d \<Rightarrow> (case map_of d k of None \<Rightarrow> Inl KeyError | Some v \<Rightarrow> Inr v)
     | _ \<Rightarrow> Inl TypeError)"

definition with_nonce :: "ladder_env \<Rightarrow> ladder_store \<Rightarrow> jobj \<Rightarrow> ladder_store \<times> jobj" where
  "with_nonce E s doc = (if N11_receipt_regenerated_on_resume \<in> ls_mutations s
     then (s\<lparr>ls_reads := ls_reads s + 1\<rparr>, AList.update ''nonce'' (JStr (le_nonce E (ls_reads s))) doc)
     else (s, doc))"

definition put_receipt :: "ladder_env \<Rightarrow> string \<Rightarrow> jobj \<Rightarrow> string \<Rightarrow> op_kind \<Rightarrow> ladder_store \<Rightarrow>
  ladder_store \<times> receipt_ref" where
  "put_receipt E name doc to_state kind s =
    (let s = s\<lparr>ls_receipts := AList.update name doc (ls_receipts s)\<rparr>;
         d = file_digest (le_hash E) (JObj doc)
     in (ladder_op (OpReceiptWrite to_state (in_dir s name) d kind) s,
         \<lparr>rr_name = name, rr_path = in_dir s name, rr_digest = d, rr_reused = False\<rparr>))"

definition reuse_receipt :: "ladder_env \<Rightarrow> string \<Rightarrow> jobj \<Rightarrow> string \<Rightarrow> op_kind \<Rightarrow> ladder_store \<Rightarrow>
  ladder_store \<times> receipt_ref" where
  "reuse_receipt E name doc to_state kind s =
    (let d = file_digest (le_hash E) (JObj doc)
     in (ladder_op (OpReceiptReused to_state (in_dir s name) d kind) s,
         \<lparr>rr_name = name, rr_path = in_dir s name, rr_digest = d, rr_reused = True\<rparr>))"

definition write_receipt :: "ladder_env \<Rightarrow> json \<Rightarrow> string \<Rightarrow> json \<Rightarrow> json \<Rightarrow> jobj \<Rightarrow> ladder_store \<Rightarrow>
  (ladder_store, receipt_ref) outc" where
  "write_receipt E from_state to_state keys gate extra s =
    (let name = transition_name to_state in
     case (map_of (ls_receipts s) name, N11_receipt_regenerated_on_resume \<notin> ls_mutations s) of
       (Some doc, True) \<Rightarrow> (case reuse_receipt E name doc to_state AdvanceOp s of (s, r) \<Rightarrow> (s, Inr r))
     | _ \<Rightarrow>
       (case jindex keys ''migration_id'' of
          Inl e \<Rightarrow> (s, Inl e)
        | Inr mig \<Rightarrow>
           (case now_iso E s of (s, now) \<Rightarrow>
            case with_nonce E s (update_all extra (transition_doc E (ls_portion s) mig keys from_state to_state gate now)) of
              (s, doc) \<Rightarrow> case put_receipt E name doc to_state AdvanceOp s of (s, r) \<Rightarrow> (s, Inr r))))"

definition rollback_doc :: "ladder_env \<Rightarrow> string \<Rightarrow> json \<Rightarrow> json \<Rightarrow> string \<Rightarrow> string \<Rightarrow> string \<Rightarrow> json \<Rightarrow> string \<Rightarrow> jobj" where
  "rollback_doc E portion mig keys from_state to_state reason note now =
    [(''schema'', JStr ''CutoverRollbackReceipt/v1''), (''portion_id'', JStr portion),
     (''migration_id'', mig), (''keys'', keys), (''from_state'', JStr from_state), (''to_state'', JStr to_state),
     (''direction'', JStr ''backward''), (''decision_ref'', JStr ''DEC-AUP-0012''), (''reason'', JStr reason),
     (''note'', note),
     (''dark_launch_band'', JObj [(''top'', JStr DARK_LAUNCH_TOP),
        (''claim'', JStr (''no freeze, fence, writer epoch, single-writer switch or write to '' @
           ''datarim/ was activated by the state being left, so this rollback '' @
           ''reverses one file and nothing outside receipts/''))]),
     (''produced_by'', produced_by), (''captured_at_utc'', JStr now), (''host'', JStr (le_host E)),
     (''model'', JStr MODEL), (''provisional_until_fable_review'', JBool True)]"

definition write_rollback_receipt :: "ladder_env \<Rightarrow> string \<Rightarrow> string \<Rightarrow> json \<Rightarrow> string \<Rightarrow> json \<Rightarrow> ladder_store \<Rightarrow>
  (ladder_store, receipt_ref) outc" where
  "write_rollback_receipt E from_state to_state keys reason note s =
    (let name = rollback_name from_state to_state in
     case map_of (ls_receipts s) name of
       Some doc \<Rightarrow> (case reuse_receipt E name doc to_state RollbackOp s of (s, r) \<Rightarrow> (s, Inr r))
     | None \<Rightarrow>
       (case jindex keys ''migration_id'' of
          Inl e \<Rightarrow> (s, Inl e)
        | Inr mig \<Rightarrow>
           (case now_iso E s of (s, now) \<Rightarrow>
            case put_receipt E name (rollback_doc E (ls_portion s) mig keys from_state to_state reason note now)
                   to_state RollbackOp s of (s, r) \<Rightarrow> (s, Inr r))))"

subsection \<open>The protocol\<close>

datatype ladder_result =
    Moved json string receipt_ref            \<comment> \<open>from, to, the receipt\<close>
  | Refused json string refusal
  | InitExists "json option"
  | InitCreated receipt_ref string           \<comment> \<open>the receipt, the digest of the state file\<close>

definition refuse :: "op_kind \<Rightarrow> json \<Rightarrow> string \<Rightarrow> refusal \<Rightarrow> ladder_store \<Rightarrow> (ladder_store, ladder_result) outc" where
  "refuse kind current to_state reason s =
    (ladder_op (OpRefused kind current to_state reason) s, Inr (Refused current to_state reason))"

definition init_keys :: "string \<Rightarrow> string \<Rightarrow> int option \<Rightarrow> json" where
  "init_keys mig sse target = JObj [(''migration_id'', JStr mig), (''source_set_epoch'', JStr sse),
     (''target_writer_epoch'', case target of None \<Rightarrow> JNull | Some e \<Rightarrow> JInt e)]"

definition init_doc :: "string \<Rightarrow> string \<Rightarrow> json \<Rightarrow> receipt_ref \<Rightarrow> string \<Rightarrow> string \<Rightarrow> string \<Rightarrow> jobj" where
  "init_doc portion mig keys r t1 t2 t3 =
    [(''schema'', JStr ''CutoverLadderState/v1''), (''portion_id'', JStr portion), (''migration_id'', JStr mig),
     (''keys'', keys), (''state'', JStr ''FILES_AUTHORITATIVE''), (''ladder'', JArr (map JStr LADDER)),
     (''created_at_utc'', JStr t1), (''updated_at_utc'', JStr t2),
     (''history'', JArr [JObj [(''from'', JNull), (''to'', JStr ''FILES_AUTHORITATIVE''), (''at_utc'', JStr t3),
        (''receipt'', JStr (rr_path r)), (''receipt_digest'', JStr (rr_digest r))]]),
     (''written_by'', JObj [(''tool'', JStr TOOL), (''version'', JStr VERSION), (''card'', JStr portion)]),
     (''rule'', JStr (''the receipt is written before the state advances; every other transition is refused '' @
        ''unless its DEC-AUP-0012 gate receipt exists and verifies'')),
     (''model'', JStr MODEL), (''provisional_until_fable_review'', JBool True)]"

definition initialise :: "ladder_env \<Rightarrow> string \<Rightarrow> string \<Rightarrow> int option \<Rightarrow> ladder_store \<Rightarrow>
  (ladder_store, ladder_result) outc" where
  "initialise E mig sse target s =
    (case ls_file s of
       Some existing \<Rightarrow> (ladder_op (OpInitNoop (map_of existing ''state'')) s,
                         Inr (InitExists (map_of existing ''state'')))
     | None \<Rightarrow>
         bindx (write_receipt E JNull ''FILES_AUTHORITATIVE'' (init_keys mig sse target) JNull [] s) (\<lambda>s r.
         case now_iso E s of (s, t1) \<Rightarrow> case now_iso E s of (s, t2) \<Rightarrow> case now_iso E s of (s, t3) \<Rightarrow>
         bindx (write_state E (init_doc (ls_portion s) mig (init_keys mig sse target) r t1 t2 t3) s) (\<lambda>s d.
           (s, Inr (InitCreated r d)))))"

text \<open>\<^verbatim>\<open>doc["state"] if doc else "FILES_AUTHORITATIVE"\<close>: an empty document counts as none.\<close>

definition current_state :: "ladder_store \<Rightarrow> json result" where
  "current_state s = (case ls_file s of
     None \<Rightarrow> Inr (JStr ''FILES_AUTHORITATIVE'')
   | Some doc \<Rightarrow> if doc = [] then Inr (JStr ''FILES_AUTHORITATIVE'')
       else (case map_of doc ''state'' of None \<Rightarrow> Inl KeyError | Some st \<Rightarrow> Inr st))"

text \<open>\<^verbatim>\<open>doc.setdefault("history", []).append(entry)\<close>.\<close>

definition append_history :: "jobj \<Rightarrow> jobj \<Rightarrow> jobj result" where
  "append_history entry doc = (case map_of doc ''history'' of
     None \<Rightarrow> Inr (AList.update ''history'' (JArr [JObj entry]) doc)
   | Some (JArr hs) \<Rightarrow> Inr (AList.update ''history'' (JArr (hs @ [JObj entry])) doc)
   | Some _ \<Rightarrow> Inl AttributeError)"

definition set_state :: "ladder_env \<Rightarrow> string \<Rightarrow> jobj \<Rightarrow> ladder_store \<Rightarrow> ladder_store \<times> jobj" where
  "set_state E to_state doc s = (case now_iso E s of (s, now) \<Rightarrow>
     (s, AList.update ''updated_at_utc'' (JStr now) (AList.update ''state'' (JStr to_state) doc)))"

text \<open>The tail both movements share: append the history entry, write the state file.\<close>

definition record_move :: "ladder_env \<Rightarrow> json \<Rightarrow> string \<Rightarrow> receipt_ref \<Rightarrow> jobj \<Rightarrow> jobj \<Rightarrow> ladder_store \<Rightarrow>
  (ladder_store, ladder_result) outc" where
  "record_move E current to_state r extra doc s =
    (case now_iso E s of (s, now) \<Rightarrow>
     case append_history ([(''from'', current), (''to'', JStr to_state), (''at_utc'', JStr now),
            (''receipt'', JStr (rr_path r)), (''receipt_digest'', JStr (rr_digest r))] @ extra) doc of
       Inl e \<Rightarrow> (s, Inl e)
     | Inr doc \<Rightarrow> bindx (write_state E doc s) (\<lambda>s _. (s, Inr (Moved current to_state r))))"

definition advance_extra :: "string \<Rightarrow> string \<Rightarrow> json option \<Rightarrow> jobj option \<Rightarrow> jobj" where
  "advance_extra current to_state relied_on gate_report =
    [(''relied_on'', case relied_on of Some r \<Rightarrow> r | None \<Rightarrow> JStr ''not_measured: the caller passed no evidence list''),
     (''gate_report'', case gate_report of Some g \<Rightarrow> JObj g | None \<Rightarrow> JNull),
     (''rollback'', JObj (rollback_note current to_state)),
     (''reconciliation'', JObj (reconciliation_entry to_state))]"

definition forward_entry :: "ladder_env \<Rightarrow> jobj \<Rightarrow> string \<Rightarrow> jobj" where
  "forward_entry E gate portion = [(''gate_digest'', JStr (digest (le_hash E) (JObj gate))),
     (''direction'', JStr ''forward''), (''by_portion'', JStr portion)]"

text \<open>The write part of \<open>advance\<close>, once every guard passed.\<close>

definition advance_write :: "ladder_env \<Rightarrow> string \<Rightarrow> string \<Rightarrow> jobj \<Rightarrow> jobj \<Rightarrow> jobj \<Rightarrow> ladder_store \<Rightarrow>
  (ladder_store, ladder_result) outc" where
  "advance_write E current to_state gate extra doc s =
    (case map_of doc ''keys'' of
       None \<Rightarrow> (s, Inl KeyError)
     | Some keys \<Rightarrow>
         if N02_state_advances_before_receipt \<in> ls_mutations s
         then (case set_state E to_state doc s of (s, doc) \<Rightarrow>
               bindx (write_state E doc s) (\<lambda>s _.
               bindx (write_receipt E (JStr current) to_state keys (JObj gate) extra s) (\<lambda>s r.
                 record_move E (JStr current) to_state r (forward_entry E gate (ls_portion s)) doc s)))
         else bindx (write_receipt E (JStr current) to_state keys (JObj gate) extra s) (\<lambda>s r.
               if ls_crash_after s = Some CrashAfterReceipt then (s, Inl LadderCrash)
               else if (case map_of (ls_receipts s) (rr_name r) of None \<Rightarrow> True
                        | Some f \<Rightarrow> file_digest (le_hash E) (JObj f) \<noteq> rr_digest r)
               then refuse AdvanceOp (JStr current) to_state RECEIPT_DIGEST_MISMATCH s
               else case set_state E to_state doc s of (s, doc) \<Rightarrow>
                 record_move E (JStr current) to_state r (forward_entry E gate (ls_portion s)) doc s))"

text \<open>\<^verbatim>\<open>gate_verdict.get("verdict")\<close>, \<open>None\<close> as null.\<close>

definition jget :: "jobj \<Rightarrow> string \<Rightarrow> json" where
  "jget d k = (case map_of d k of None \<Rightarrow> JNull | Some v \<Rightarrow> v)"

definition advance_ladder :: "ladder_env \<Rightarrow> string \<Rightarrow> jobj \<Rightarrow> json option \<Rightarrow> jobj option \<Rightarrow> ladder_store \<Rightarrow>
  (ladder_store, ladder_result) outc" where
  "advance_ladder E to_state gate relied_on gate_report s =
    (case current_state s of
       Inl e \<Rightarrow> (s, Inl e)
     | Inr current \<Rightarrow>
       if to_state \<notin> set LADDER then refuse AdvanceOp current to_state NO_SUCH_STATE s
       else (case current of
          JStr cur \<Rightarrow>
            if cur \<notin> set LADDER then (s, Inl ValueError)
            else if index_of to_state LADDER \<noteq> index_of cur LADDER + 1
            then refuse AdvanceOp current to_state NOT_THE_NEXT_STATE s
            else if \<not> ls_allow_advance s \<and> N06_state_file_written_at_any_state \<notin> ls_mutations s
            then refuse AdvanceOp current to_state CARD_SCOPE_COORD0 s
            else if jget gate ''verdict'' \<noteq> JStr ''PASS''
            then refuse AdvanceOp current to_state (GATE_VERDICT (jget gate ''verdict'')) s
            else if (case gate_report of None \<Rightarrow> False
                     | Some g \<Rightarrow> jget g ''recorded_verdict'' \<noteq> jget gate ''verdict'')
            then refuse AdvanceOp current to_state GATE_REPORT_MISMATCH s
            else (case ls_file s of
                    None \<Rightarrow> refuse AdvanceOp current to_state NO_STATE_FILE s
                  | Some doc \<Rightarrow> advance_write E cur to_state gate
                                  (advance_extra cur to_state relied_on gate_report) doc s)
        | _ \<Rightarrow> (s, Inl ValueError)))"

definition backward_entry :: "string \<Rightarrow> string \<Rightarrow> jobj" where
  "backward_entry portion reason = [(''direction'', JStr ''backward''), (''by_portion'', JStr portion),
     (''reason'', JStr reason)]"

definition rollback_write :: "ladder_env \<Rightarrow> string \<Rightarrow> string \<Rightarrow> string \<Rightarrow> json \<Rightarrow> jobj \<Rightarrow> ladder_store \<Rightarrow>
  (ladder_store, ladder_result) outc" where
  "rollback_write E current to_state reason note doc s =
    bindx (if N17_rollback_state_before_receipt \<in> ls_mutations s
           then (case set_state E to_state doc s of (s, doc) \<Rightarrow>
                 bindx (write_state E doc s) (\<lambda>s _. (s, Inr doc)))
           else (s, Inr doc)) (\<lambda>s doc.
    case map_of doc ''keys'' of
      None \<Rightarrow> (s, Inl KeyError)
    | Some keys \<Rightarrow>
        bindx (write_rollback_receipt E current to_state keys reason note s) (\<lambda>s r.
        case (if N17_rollback_state_before_receipt \<in> ls_mutations s then (s, doc)
              else set_state E to_state doc s) of
          (s, doc) \<Rightarrow> record_move E (JStr current) to_state r (backward_entry (ls_portion s) reason) doc s))"

definition rollback :: "ladder_env \<Rightarrow> string \<Rightarrow> string \<Rightarrow> json \<Rightarrow> ladder_store \<Rightarrow>
  (ladder_store, ladder_result) outc" where
  "rollback E to_state reason note s =
    (case current_state s of
       Inl e \<Rightarrow> (s, Inl e)
     | Inr current \<Rightarrow>
       if to_state \<notin> set LADDER then refuse RollbackOp current to_state NO_SUCH_STATE s
       else (case current of
          JStr cur \<Rightarrow>
            if cur \<notin> set LADDER then (s, Inl ValueError)
            else if int (index_of to_state LADDER) \<noteq> int (index_of cur LADDER) - 1
            then refuse RollbackOp current to_state NOT_THE_PREVIOUS_STATE s
            else if \<not> ls_allow_rollback s \<and> N16_rollback_without_enable_flag \<notin> ls_mutations s
            then refuse RollbackOp current to_state ROLLBACK_NOT_ENABLED s
            else if index_of DARK_LAUNCH_TOP LADDER < index_of cur LADDER
                    \<and> N18_rollback_beyond_dark_launch \<notin> ls_mutations s
            then refuse RollbackOp current to_state ROLLBACK_BEYOND_DARK_LAUNCH s
            else if reason = [] then refuse RollbackOp current to_state ROLLBACK_WITHOUT_REASON s
            else (case ls_file s of
                    None \<Rightarrow> refuse RollbackOp current to_state NO_STATE_FILE s
                  | Some doc \<Rightarrow> rollback_write E cur to_state reason note doc s)
        | _ \<Rightarrow> (s, Inl ValueError)))"

subsection \<open>The window's view of the ladder\<close>

record ladder_view =
  lv_state :: string
  lv_source :: string

text \<open>\<open>authorises\<close>: a phase without an entry is a \<open>KeyError\<close>, an unknown state a \<open>ValueError\<close>.\<close>

definition authorises :: "ladder_view \<Rightarrow> cstate \<Rightarrow> bool result" where
  "authorises lv p = (case AUTHORISING_LADDER_STATE p of None \<Rightarrow> Inl KeyError
     | Some need \<Rightarrow> if lv_state lv \<notin> set LADDER then Inl ValueError
         else Inr (index_of (ladder_name need) LADDER \<le> index_of (lv_state lv) LADDER))"

definition ladder_view_json :: "ladder_view \<Rightarrow> json" where
  "ladder_view_json lv = JObj [(''state'', JStr (lv_state lv)), (''source'', JStr (lv_source lv))]"

subsection \<open>The rollback rehearsal\<close>

text \<open>
  \<open>rehearse_rollback\<close> rolls a copy of the ladder back one state in a temporary directory \<open>tmp\<close>:
  the state file and the transition receipts are copied, the source is only read. The result keeps
  the fields the verdict rests on; \<open>rh_source\<close> and \<open>rh_target\<close> are \<open>source_state\<close> and
  \<open>target_state\<close>.
\<close>

record rehearsal =
  rh_source :: string
  rh_target :: "string option"
  rh_verdict :: string
  rh_attempt :: "ladder_result option"
  rh_journal :: "ladder_rec list"
  rh_copied :: "string list"
  rh_before :: string
  rh_after :: string
  rh_document :: "jobj option"
  rh_checks :: "(string \<times> bool) list"
  rh_failed :: "string list"

definition is_transition_file :: "string \<Rightarrow> bool" where
  "is_transition_file n \<longleftrightarrow> prefix ''transition-'' n \<and> suffix ''.json'' n \<and> length ''transition-.json'' \<le> length n"

definition first_write :: "ladder_rec list \<Rightarrow> ladder_op option" where
  "first_write js = map_option lo_op (find (\<lambda>r. case lo_op r of OpStateWrite _ _ _ \<Rightarrow> True
     | OpReceiptWrite _ _ _ _ \<Rightarrow> True | OpReceiptReused _ _ _ _ \<Rightarrow> True | _ \<Rightarrow> False) js)"

definition is_receipt_op :: "ladder_op option \<Rightarrow> bool" where
  "is_receipt_op op = (case op of Some (OpReceiptWrite _ _ _ _) \<Rightarrow> True | Some (OpReceiptReused _ _ _ _) \<Rightarrow> True
     | _ \<Rightarrow> False)"

definition history_length :: "jobj \<Rightarrow> nat result" where
  "history_length doc = (case map_of doc ''history'' of None \<Rightarrow> Inr 0 | Some (JArr hs) \<Rightarrow> Inr (length hs)
     | Some (JStr s) \<Rightarrow> Inr (length s) | Some (JObj kvs) \<Rightarrow> Inr (length kvs) | Some _ \<Rightarrow> Inl TypeError)"

definition rehearsal_checks :: "ladder_result result \<Rightarrow> jobj \<Rightarrow> jobj \<Rightarrow> string \<Rightarrow> ladder_rec list \<Rightarrow> string list \<Rightarrow>
  string list \<Rightarrow> string \<Rightarrow> string \<Rightarrow> (string \<times> bool) list result" where
  "rehearsal_checks attempt src after_doc target js kept copied before after =
    (case (history_length after_doc, history_length src) of
       (Inr n', Inr n) \<Rightarrow> Inr
         [(''rolled_back'', case attempt of Inr (Moved _ _ _) \<Rightarrow> True | _ \<Rightarrow> False),
          (''copy_returned_to_target'', jget after_doc ''state'' = JStr target),
          (''history_appended_not_rewritten'', n' = n + 1),
          (''receipt_written_before_state'', is_receipt_op (first_write js)),
          (''transition_receipts_kept'', kept = copied),
          (''source_state_file_untouched'', before = after)]
     | _ \<Rightarrow> Inl TypeError)"

definition rehearse_rollback :: "ladder_env \<Rightarrow> string \<Rightarrow> string \<Rightarrow> string \<Rightarrow> ladder_store \<Rightarrow> rehearsal result" where
  "rehearse_rollback E portion reason tmp src =
    (case ls_file src of
       None \<Rightarrow> Inl KeyError
     | Some doc \<Rightarrow>
       (case map_of doc ''state'' of
          Some (JStr cur) \<Rightarrow>
            if cur \<notin> set LADDER then Inl ValueError
            else let before = file_digest (le_hash E) (JObj doc);
                     base = \<lparr>rh_source = cur, rh_target = None, rh_verdict = ''NOT_MEASURED'', rh_attempt = None,
                       rh_journal = [], rh_copied = [], rh_before = before, rh_after = before, rh_document = None,
                       rh_checks = [], rh_failed = []\<rparr>
                 in if index_of cur LADDER = 0 then Inr base
                    else let target = LADDER ! (index_of cur LADDER - 1);
                             copied = sort (filter is_transition_file (map fst (ls_receipts src)));
                             store = LadderStore (tmp @ ''/state.json'') tmp (Some doc)
                               (filter (\<lambda>f. is_transition_file (fst f)) (ls_receipts src)) (ls_reads src + 1)
                               False {} None portion True
                         in case rollback E target reason JNull store of
                              (_, Inl e) \<Rightarrow> Inl e
                            | (s, Inr attempt) \<Rightarrow>
                                (case ls_file s of None \<Rightarrow> Inl KeyError
                                 | Some after_doc \<Rightarrow>
                                   (case rehearsal_checks (Inr attempt) doc after_doc target (ls_journal s)
                                       (filter (\<lambda>n. map_of (ls_receipts s) n \<noteq> None) copied) copied before
                                       (case ls_file src of Some f \<Rightarrow> file_digest (le_hash E) (JObj f) | None \<Rightarrow> []) of
                                      Inl e \<Rightarrow> Inl e
                                    | Inr checks \<Rightarrow> Inr (base\<lparr>rh_target := Some target,
                                        rh_verdict := (if list_all snd checks then ''PASS'' else ''FAIL''),
                                        rh_attempt := Some attempt, rh_journal := ls_journal s, rh_copied := copied,
                                        rh_document := Some after_doc, rh_checks := checks,
                                        rh_failed := sort (map fst (filter (\<lambda>c. \<not> snd c) checks))\<rparr>)))
        | Some _ \<Rightarrow> Inl ValueError
        | None \<Rightarrow> Inl KeyError))"

end
