(* ===== verification/Ladder_Props.thy ===== *)
theory Ladder_Props
  imports Ladder
begin

section \<open>The ladder keeps its promises\<close>

text \<open>
  \<open>receipt_writer\<close> is the contract both receipt writers give the two movements of the ladder: the
  state file is left alone, no receipt is overwritten, and what is returned names a receipt that is
  on disk with that digest. The movements are verified once against it. From it follow the
  invariant of every reachable ladder (\<open>ladder_inv\<close>: the history is a path of allowed edges that
  ends in the recorded state and every entry is receipted), that receipts and history only ever
  grow, and the behaviour of a transition that was interrupted after its receipt.
\<close>

subsection \<open>Vocabulary of the specification\<close>

definition ladder_edge :: "string \<Rightarrow> string \<Rightarrow> bool" where
  "ladder_edge cur t \<longleftrightarrow> cur \<in> set LADDER \<and> t \<in> set LADDER \<and>
     (index_of t LADDER = index_of cur LADDER + 1 \<or>
      index_of cur LADDER = index_of t LADDER + 1 \<and> index_of cur LADDER \<le> index_of DARK_LAUNCH_TOP LADDER)"

inductive ladder_path :: "json list \<Rightarrow> string \<Rightarrow> bool" where
  path_start: "jget e ''from'' = JNull \<Longrightarrow> jget e ''to'' = JStr ''FILES_AUTHORITATIVE'' \<Longrightarrow>
    ladder_path [JObj e] ''FILES_AUTHORITATIVE''"
| path_move: "ladder_path hs cur \<Longrightarrow> jget e ''from'' = JStr cur \<Longrightarrow> jget e ''to'' = JStr t \<Longrightarrow>
    ladder_edge cur t \<Longrightarrow> ladder_path (hs @ [JObj e]) t"

lemma ladder_path_state: "ladder_path hs st \<Longrightarrow> st \<in> set LADDER"
  by (induction rule: ladder_path.induct) (simp_all add: ladder_edge_def LADDER_def)

text \<open>The entry names a receipt that is on disk, by its path and its digest.\<close>

definition receipted :: "ladder_env \<Rightarrow> ladder_store \<Rightarrow> json \<Rightarrow> bool" where
  "receipted E s e \<longleftrightarrow> (\<exists>kvs name doc. e = JObj kvs \<and> map_of (ls_receipts s) name = Some doc \<and>
     jget kvs ''receipt'' = JStr (in_dir s name) \<and>
     jget kvs ''receipt_digest'' = JStr (file_digest (le_hash E) (JObj doc)))"

definition history :: "jobj \<Rightarrow> json list" where
  "history doc = (case map_of doc ''history'' of Some (JArr hs) \<Rightarrow> hs | _ \<Rightarrow> [])"

definition ladder_inv :: "ladder_env \<Rightarrow> ladder_store \<Rightarrow> bool" where
  "ladder_inv E s \<longleftrightarrow> ls_mutations s = {} \<and> (\<forall>doc. ls_file s = Some doc \<longrightarrow>
     (\<exists>hs st keys mig. map_of doc ''history'' = Some (JArr hs) \<and> map_of doc ''state'' = Some (JStr st) \<and>
        map_of doc ''keys'' = Some keys \<and> jindex keys ''migration_id'' = Inr mig \<and>
        ladder_path hs st \<and> (\<forall>e\<in>set hs. receipted E s e)))"

text \<open>What no operation may undo.\<close>

definition extends :: "ladder_store \<Rightarrow> ladder_store \<Rightarrow> bool" where
  "extends s s' \<longleftrightarrow> ls_dir s' = ls_dir s \<and>
     (\<forall>n d. map_of (ls_receipts s) n = Some d \<longrightarrow> map_of (ls_receipts s') n = Some d) \<and>
     (\<forall>doc. ls_file s = Some doc \<longrightarrow> (\<exists>doc'. ls_file s' = Some doc' \<and> prefix (history doc) (history doc')))"

lemma extends_refl [simp]: "extends s s"
  by (simp add: extends_def)

lemma extends_file:
  assumes "extends s s'" "ls_file s = Some doc"
  obtains doc' where "ls_file s' = Some doc'" "prefix (history doc) (history doc')"
  using assms unfolding extends_def by blast

lemma extends_trans:
  assumes "extends s t" "extends t u"
  shows "extends s u"
  unfolding extends_def
proof (intro conjI allI impI)
  fix doc
  assume "ls_file s = Some doc"
  with assms(1) obtain d where "ls_file t = Some d" and p: "prefix (history doc) (history d)"
    by (rule extends_file)
  with assms(2) obtain d' where "ls_file u = Some d'" "prefix (history d) (history d')"
    by - (rule extends_file)
  with p show "\<exists>d'. ls_file u = Some d' \<and> prefix (history doc) (history d')"
    using prefix_order.trans by blast
qed (use assms in \<open>simp_all add: extends_def\<close>)

lemma receipted_mono:
  "receipted E s e \<Longrightarrow> ls_dir s' = ls_dir s \<Longrightarrow>
   (\<And>n d. map_of (ls_receipts s) n = Some d \<Longrightarrow> map_of (ls_receipts s') n = Some d) \<Longrightarrow> receipted E s' e"
  by (force simp: receipted_def in_dir_def)

lemma ladder_invE:
  assumes "ladder_inv E s" "ls_file s = Some doc"
  obtains hs st keys mig where "map_of doc ''history'' = Some (JArr hs)" "map_of doc ''state'' = Some (JStr st)"
    "map_of doc ''keys'' = Some keys" "jindex keys ''migration_id'' = Inr mig"
    "ladder_path hs st" "\<forall>e\<in>set hs. receipted E s e"
  using assms unfolding ladder_inv_def by blast

lemma ladder_invI:
  assumes "ls_mutations s = {}" "ls_file s = Some doc"
    and "map_of doc ''history'' = Some (JArr hs)" "map_of doc ''state'' = Some (JStr st)"
    "map_of doc ''keys'' = Some keys" "jindex keys ''migration_id'' = Inr mig"
    "ladder_path hs st" "\<forall>e\<in>set hs. receipted E s e"
  shows "ladder_inv E s"
  unfolding ladder_inv_def using assms by auto

lemma ladder_inv_mutations: "ladder_inv E s \<Longrightarrow> ls_mutations s = {}"
  by (simp add: ladder_inv_def)

lemma ladder_inv_fresh: "ls_mutations s = {} \<Longrightarrow> ls_file s = None \<Longrightarrow> ladder_inv E s"
  by (simp add: ladder_inv_def)

lemma map_of_update_new:
  "map_of xs k = None \<Longrightarrow> map_of xs n = Some d \<Longrightarrow> map_of (AList.update k v xs) n = Some d"
  by (cases "n = k") simp_all

lemma index_of_distinct: "distinct xs \<Longrightarrow> i < length xs \<Longrightarrow> index_of (xs ! i) xs = i"
  by (induction xs arbitrary: i) (auto simp: nth_Cons split: nat.split)

lemma LADDER_distinct: "distinct LADDER"
  by (simp add: LADDER_def)

subsection \<open>Frames\<close>

lemma ladder_op_simps [simp]:
  "ls_path (ladder_op op s) = ls_path s" "ls_dir (ladder_op op s) = ls_dir s"
  "ls_file (ladder_op op s) = ls_file s" "ls_receipts (ladder_op op s) = ls_receipts s"
  "ls_allow_advance (ladder_op op s) = ls_allow_advance s"
  "ls_allow_rollback (ladder_op op s) = ls_allow_rollback s" "ls_portion (ladder_op op s) = ls_portion s"
  "ls_mutations (ladder_op op s) = ls_mutations s" "ls_crash_after (ladder_op op s) = ls_crash_after s"
  "ls_reads (ladder_op op s) = ls_reads s"
  "ls_journal (ladder_op op s) = ls_journal s @ [\<lparr>lo_seq = length (ls_journal s) + 1, lo_op = op\<rparr>]"
  by (simp_all add: ladder_op_def)

lemma in_dir_ladder_op [simp]: "in_dir (ladder_op op s) n = in_dir s n"
  "in_dir (s\<lparr>ls_reads := k\<rparr>) n = in_dir s n" "in_dir (s\<lparr>ls_receipts := rs\<rparr>) n = in_dir s n"
  by (simp_all add: in_dir_def)

text \<open>Two stores with the same disk are the same to the invariant.\<close>

lemma ladder_inv_cong:
  assumes "ladder_inv E s" "ls_mutations s' = ls_mutations s" "ls_dir s' = ls_dir s"
    "ls_file s' = ls_file s"
    and "\<And>n d. map_of (ls_receipts s) n = Some d \<Longrightarrow> map_of (ls_receipts s') n = Some d"
  shows "ladder_inv E s'"
proof (cases "ls_file s")
  case None
  then show ?thesis using assms(1,2,4) by (simp add: ladder_inv_fresh ladder_inv_mutations)
next
  case (Some doc)
  from ladder_invE [OF assms(1) Some] obtain hs st keys mig where d: "map_of doc ''history'' = Some (JArr hs)"
    "map_of doc ''state'' = Some (JStr st)" "map_of doc ''keys'' = Some keys"
    "jindex keys ''migration_id'' = Inr mig" "ladder_path hs st" "\<forall>e\<in>set hs. receipted E s e"
    by blast
  have "receipted E s' e" if "e \<in> set hs" for e
    using receipted_mono [OF _ assms(3,5), of E e] d(6) that by blast
  with d show ?thesis using assms(1,2,4) Some by (auto intro!: ladder_invI simp: ladder_inv_mutations)
qed

lemma extends_disk:
  assumes "ls_dir s' = ls_dir s" "ls_file s' = ls_file s"
    and "\<And>n d. map_of (ls_receipts s) n = Some d \<Longrightarrow> map_of (ls_receipts s') n = Some d"
  shows "extends s s'"
  using assms by (auto simp: extends_def)

lemma refuse_simps [simp]:
  "fst (refuse k c t r s) = ladder_op (OpRefused k c t r) s" "snd (refuse k c t r s) = Inr (Refused c t r)"
  by (simp_all add: refuse_def)

subsection \<open>The contract of a receipt writer\<close>

text \<open>The entry a movement appends to the history.\<close>

definition move_entry :: "string \<Rightarrow> string \<Rightarrow> string \<Rightarrow> receipt_ref \<Rightarrow> jobj \<Rightarrow> jobj" where
  "move_entry cur t now r ex = [(''from'', JStr cur), (''to'', JStr t), (''at_utc'', JStr now),
     (''receipt'', JStr (rr_path r)), (''receipt_digest'', JStr (rr_digest r))] @ ex"

locale receipt_writer =
  fixes E :: ladder_env
    and writes :: "ladder_store \<Rightarrow> (ladder_store, receipt_ref) outc"
  assumes keeps_file: "ls_file (fst (writes s)) = ls_file s"
    and keeps_settings: "ls_mutations (fst (writes s)) = ls_mutations s" "ls_dir (fst (writes s)) = ls_dir s"
      "ls_crash_after (fst (writes s)) = ls_crash_after s" "ls_portion (fst (writes s)) = ls_portion s"
      "ls_allow_advance (fst (writes s)) = ls_allow_advance s"
    and keeps_receipts: "ls_mutations s = {} \<Longrightarrow> map_of (ls_receipts s) n = Some d \<Longrightarrow>
      map_of (ls_receipts (fst (writes s))) n = Some d"
    and on_disk: "writes s = (s', Inr r) \<Longrightarrow> rr_path r = in_dir s' (rr_name r) \<and>
      (\<exists>doc. map_of (ls_receipts s') (rr_name r) = Some doc \<and> rr_digest r = file_digest (le_hash E) (JObj doc))"
begin

lemma write_inv: "ladder_inv E s \<Longrightarrow> ladder_inv E (fst (writes s))"
  using keeps_receipts [OF ladder_inv_mutations]
  by (blast intro: ladder_inv_cong [OF _ keeps_settings(1,2) keeps_file])

lemma write_extends: "ls_mutations s = {} \<Longrightarrow> extends s (fst (writes s))"
  by (rule extends_disk) (simp_all add: keeps_file keeps_settings keeps_receipts)

text \<open>The movement: state and history in one write of the state file, over a receipt on disk.\<close>

lemma moved:
  fixes ex :: jobj
  assumes w: "writes s = (s', Inr r)" and inv: "ladder_inv E s" and f: "ls_file s = Some doc"
    and st: "map_of doc ''state'' = Some (JStr cur)" and edge: "ladder_edge cur t"
  defines "m \<equiv> (case set_state E t doc s' of (s, doc) \<Rightarrow> record_move E (JStr cur) t r ex doc s)"
  shows "ladder_inv E (fst m)" and "extends s (fst m)" and "snd m = Inr (Moved (JStr cur) t r)"
    and "\<exists>doc'. ls_file (fst m) = Some doc' \<and> map_of doc' ''state'' = Some (JStr t) \<and>
      (\<exists>e. history doc' = history doc @ [JObj e] \<and> jget e ''receipt_digest'' = JStr (rr_digest r)) \<and>
      (\<forall>k. k \<notin> {''state'', ''updated_at_utc'', ''history''} \<longrightarrow> map_of doc' k = map_of doc k)"
    and "ls_receipts (fst m) = ls_receipts s'"
    and "\<exists>doc' now. ls_file (fst m) = Some doc' \<and> history doc' = history doc @ [JObj (move_entry cur t now r ex)] \<and>
      map_of doc' ''state'' = Some (JStr t) \<and>
      (\<forall>k. k \<notin> {''state'', ''updated_at_utc'', ''history''} \<longrightarrow> map_of doc' k = map_of doc k)"
proof -
  have mu: "ls_mutations s = {}" using inv by (rule ladder_inv_mutations)
  obtain hs st0 keys mig where d: "map_of doc ''history'' = Some (JArr hs)" "map_of doc ''state'' = Some (JStr st0)"
    "map_of doc ''keys'' = Some keys" "jindex keys ''migration_id'' = Inr mig" "ladder_path hs st0"
    "\<forall>e\<in>set hs. receipted E s e"
    by (rule ladder_invE [OF inv f])
  with st have d4: "ladder_path hs cur" by simp
  let ?e = "[(''from'', JStr cur), (''to'', JStr t), (''at_utc'', JStr (le_now E (Suc (ls_reads s')))),
    (''receipt'', JStr (rr_path r)), (''receipt_digest'', JStr (rr_digest r))] @ ex"
  let ?doc = "AList.update ''history'' (JArr (hs @ [JObj ?e])) (AList.update ''updated_at_utc''
    (JStr (le_now E (ls_reads s'))) (AList.update ''state'' (JStr t) doc))"
  have m: "m = (ladder_op (OpStateWrite (JStr t) (ls_path s') (file_digest (le_hash E) (JObj ?doc)))
      (s'\<lparr>ls_reads := Suc (Suc (ls_reads s')), ls_file := Some ?doc\<rparr>), Inr (Moved (JStr cur) t r))"
    by (simp add: m_def set_state_def now_iso_def record_move_def append_history_def write_state_def d Let_def)
  have keep: "map_of (ls_receipts s) n = Some x \<Longrightarrow> map_of (ls_receipts s') n = Some x" for n x
    using keeps_receipts [OF mu, of n x] w by simp
  have same: "ls_dir s' = ls_dir s" "ls_mutations s' = {}" "ls_file s' = Some doc"
    using keeps_settings(1,2) [of s] keeps_file [of s] w mu f by simp_all
  have "receipted E (fst m) x" if "x \<in> set hs" for x
    by (rule receipted_mono [of E s x]) (use that d(6) in \<open>simp_all add: m same keep\<close>)
  moreover have "receipted E (fst m) (JObj ?e)"
    using on_disk [OF w] by (auto simp: receipted_def m jget_def in_dir_def)
  moreover have "ladder_path (hs @ [JObj ?e]) t"
    by (rule path_move [OF d4 _ _ edge]) (simp_all add: jget_def)
  ultimately show "ladder_inv E (fst m)"
    by (intro ladder_invI [where hs = "hs @ [JObj ?e]"]) (auto simp: m d same)
  show "extends s (fst m)"
    using keep same f d(1) by (auto simp: extends_def m history_def)
  show "snd m = Inr (Moved (JStr cur) t r)" by (simp add: m)
  show "\<exists>doc'. ls_file (fst m) = Some doc' \<and> map_of doc' ''state'' = Some (JStr t) \<and>
      (\<exists>e. history doc' = history doc @ [JObj e] \<and> jget e ''receipt_digest'' = JStr (rr_digest r)) \<and>
      (\<forall>k. k \<notin> {''state'', ''updated_at_utc'', ''history''} \<longrightarrow> map_of doc' k = map_of doc k)"
    using d(1) by (auto simp: m history_def jget_def intro!: exI [of _ ?e])
  show "ls_receipts (fst m) = ls_receipts s'" by (simp add: m)
  show "\<exists>doc' now. ls_file (fst m) = Some doc' \<and> history doc' = history doc @ [JObj (move_entry cur t now r ex)] \<and>
      map_of doc' ''state'' = Some (JStr t) \<and>
      (\<forall>k. k \<notin> {''state'', ''updated_at_utc'', ''history''} \<longrightarrow> map_of doc' k = map_of doc k)"
    using d(1) by (auto simp: m history_def move_entry_def intro!: exI [of _ "le_now E (Suc (ls_reads s'))"])
qed

end

lemmas receipt_defs = write_receipt_def write_rollback_receipt_def reuse_receipt_def put_receipt_def
  with_nonce_def now_iso_def Let_def

interpretation forward: receipt_writer E "write_receipt E f t keys gate extra"
  for E f t keys gate extra
  by unfold_locales
    (auto simp: receipt_defs in_dir_def intro: map_of_update_new
      split: option.splits sum.splits bool.splits if_splits)

interpretation backward: receipt_writer E "write_rollback_receipt E f t keys reason nt"
  for E f t keys reason nt
  by unfold_locales
    (auto simp: receipt_defs in_dir_def intro: map_of_update_new
      split: option.splits sum.splits bool.splits if_splits)

subsection \<open>The operations\<close>

lemma set_state_portion: "set_state E t doc s = (u, d) \<Longrightarrow> ls_portion u = ls_portion s"
  by (auto simp: set_state_def now_iso_def)

lemma advance_write_keeps:
  assumes inv: "ladder_inv E s" and f: "ls_file s = Some doc" and st: "map_of doc ''state'' = Some (JStr cur)"
    and edge: "ladder_edge cur t"
  shows "ladder_inv E (fst (advance_write E cur t gate extra doc s)) \<and>
    extends s (fst (advance_write E cur t gate extra doc s))"
proof -
  have mu: "ls_mutations s = {}" using inv by (rule ladder_inv_mutations)
  obtain hs st0 keys mig where keys: "map_of doc ''keys'' = Some keys"
    by (rule ladder_invE [OF inv f])
  let ?w = "write_receipt E (JStr cur) t keys (JObj gate) extra"
  show ?thesis
  proof (cases "snd (?w s)")
    case (Inl e)
    then have "fst (advance_write E cur t gate extra doc s) = fst (?w s)"
      by (simp add: advance_write_def keys mu bindx_def)
    then show ?thesis using forward.write_inv [OF inv] forward.write_extends [OF mu] by simp
  next
    case (Inr r)
    then obtain s' where w: "?w s = (s', Inr r)" by (cases "?w s") simp
    have s': "ladder_inv E s'" "extends s s'"
      using forward.write_inv [OF inv] forward.write_extends [OF mu] w by (metis fst_conv)+
    have aw: "advance_write E cur t gate extra doc s =
      (if ls_crash_after s' = Some CrashAfterReceipt then (s', Inl LadderCrash)
       else case set_state E t doc s' of (u, d) \<Rightarrow> record_move E (JStr cur) t r (forward_entry E gate (ls_portion u)) d u)"
      using forward.on_disk [OF w] by (auto simp: advance_write_def keys mu w)
    show ?thesis
    proof (cases "ls_crash_after s' = Some CrashAfterReceipt")
      case True
      then show ?thesis using aw s' by simp
    next
      case False
      with aw have "advance_write E cur t gate extra doc s = (case set_state E t doc s' of (u, d) \<Rightarrow>
          record_move E (JStr cur) t r (forward_entry E gate (ls_portion s')) d u)"
        by (auto dest: set_state_portion split: prod.split)
      then show ?thesis using forward.moved(1,2) [OF w inv f st edge] by simp
    qed
  qed
qed

lemma rollback_write_eq:
  assumes "ls_mutations s = {}" "map_of doc ''keys'' = Some keys"
  shows "rollback_write E cur t reason nt doc s =
    bindx (write_rollback_receipt E cur t keys reason nt s) (\<lambda>s r. case set_state E t doc s of
      (u, d) \<Rightarrow> record_move E (JStr cur) t r (backward_entry (ls_portion s) reason) d u)"
proof -
  have "ls_mutations s' = {}" if "write_rollback_receipt E cur t keys reason nt s = (s', Inr r)" for s' r
    using backward.keeps_settings(1) [of E cur t keys reason nt s] that assms(1) by simp
  then show ?thesis
    by (auto simp: rollback_write_def assms dest!: set_state_portion intro!: bindx_cong_eq split: prod.split)
qed

lemma rollback_write_keeps:
  assumes inv: "ladder_inv E s" and f: "ls_file s = Some doc" and st: "map_of doc ''state'' = Some (JStr cur)"
    and edge: "ladder_edge cur t"
  shows "ladder_inv E (fst (rollback_write E cur t reason nt doc s)) \<and>
    extends s (fst (rollback_write E cur t reason nt doc s))"
proof -
  have mu: "ls_mutations s = {}" using inv by (rule ladder_inv_mutations)
  obtain hs st0 keys mig where keys: "map_of doc ''keys'' = Some keys"
    by (rule ladder_invE [OF inv f])
  show ?thesis
    unfolding rollback_write_eq [OF mu keys]
    by (rule fst_bindx_induct)
      (use backward.write_inv [OF inv] backward.write_extends [OF mu] backward.moved(1,2) [OF _ inv f st edge] in auto)
qed

lemma ladder_op_keeps [simp]: "ladder_inv E s \<Longrightarrow> ladder_inv E (ladder_op op s)"
  "extends s (ladder_op op s)"
  by (rule ladder_inv_cong, assumption, simp_all) (rule extends_disk, simp_all)

lemma ladder_inv_current:
  assumes "ladder_inv E s" "ls_file s = Some doc"
  obtains cur where "current_state s = Inr (JStr cur)" "map_of doc ''state'' = Some (JStr cur)" "cur \<in> set LADDER"
proof -
  obtain hs st keys mig where "map_of doc ''state'' = Some (JStr st)" "ladder_path hs st"
    by (rule ladder_invE [OF assms])
  with assms(2) that show ?thesis
    by (cases "doc = []") (auto simp: current_state_def dest: ladder_path_state)
qed

lemma advance_keeps:
  assumes "ladder_inv E s"
  shows "ladder_inv E (fst (advance_ladder E t gate relied report s)) \<and>
    extends s (fst (advance_ladder E t gate relied report s))"
proof (cases "ls_file s")
  case None
  then show ?thesis using assms by (simp add: advance_ladder_def current_state_def LADDER_def)
next
  case (Some doc)
  obtain cur where c: "current_state s = Inr (JStr cur)" "map_of doc ''state'' = Some (JStr cur)"
    "cur \<in> set LADDER"
    by (rule ladder_inv_current [OF assms Some])
  show ?thesis
  proof (cases "t \<in> set LADDER \<and> index_of t LADDER = index_of cur LADDER + 1")
    case True
    then have "ladder_edge cur t" using c by (simp add: ladder_edge_def)
    from advance_write_keeps [OF assms Some c(2) this] show ?thesis
      using assms c True Some by (simp add: advance_ladder_def)
  next
    case False
    then show ?thesis using assms c by (auto simp: advance_ladder_def)
  qed
qed

lemma rollback_keeps:
  assumes "ladder_inv E s"
  shows "ladder_inv E (fst (rollback E t reason nt s)) \<and> extends s (fst (rollback E t reason nt s))"
proof (cases "ls_file s")
  case None
  then show ?thesis using assms by (simp add: rollback_def current_state_def LADDER_def)
next
  case (Some doc)
  have mu: "ls_mutations s = {}" using assms by (rule ladder_inv_mutations)
  obtain cur where c: "current_state s = Inr (JStr cur)" "map_of doc ''state'' = Some (JStr cur)"
    "cur \<in> set LADDER"
    by (rule ladder_inv_current [OF assms Some])
  show ?thesis
  proof (cases "t \<in> set LADDER \<and> int (index_of t LADDER) = int (index_of cur LADDER) - 1 \<and>
      index_of cur LADDER \<le> index_of DARK_LAUNCH_TOP LADDER")
    case True
    then have "ladder_edge cur t" using c by (auto simp: ladder_edge_def)
    from rollback_write_keeps [OF assms Some c(2) this] show ?thesis
      using assms c True Some by (simp add: rollback_def)
  next
    case False
    then show ?thesis using assms c mu by (auto simp: rollback_def)
  qed
qed

lemma initialise_keeps:
  assumes "ladder_inv E s"
  shows "ladder_inv E (fst (initialise E mig sse target s)) \<and> extends s (fst (initialise E mig sse target s))"
proof (cases "ls_file s")
  case (Some doc)
  then show ?thesis using assms by (simp add: initialise_def)
next
  case None
  have mu: "ls_mutations s = {}" using assms by (rule ladder_inv_mutations)
  let ?keys = "init_keys mig sse target"
  let ?w = "write_receipt E JNull ''FILES_AUTHORITATIVE'' ?keys JNull []"
  obtain s' res where w: "?w s = (s', res)" by (cases "?w s")
  have s': "ladder_inv E s'" "extends s s'" "ls_mutations s' = {}"
    using forward.write_inv [OF assms] forward.write_extends [OF mu] forward.keeps_settings(1) w mu
    by (metis fst_conv)+
  show ?thesis
  proof (cases res)
    case (Inl e)
    then show ?thesis using None w s' by (simp add: initialise_def)
  next
    case (Inr r)
    let ?doc = "init_doc (ls_portion s') mig ?keys r (le_now E (ls_reads s')) (le_now E (Suc (ls_reads s')))
      (le_now E (Suc (Suc (ls_reads s'))))"
    let ?e = "[(''from'', JNull), (''to'', JStr ''FILES_AUTHORITATIVE''), (''at_utc'', JStr (le_now E (Suc (Suc (ls_reads s'))))),
      (''receipt'', JStr (rr_path r)), (''receipt_digest'', JStr (rr_digest r))]"
    let ?u = "ladder_op (OpStateWrite (JStr ''FILES_AUTHORITATIVE'') (ls_path s') (file_digest (le_hash E) (JObj ?doc)))
      (s'\<lparr>ls_reads := Suc (Suc (Suc (ls_reads s'))), ls_file := Some ?doc\<rparr>)"
    have st: "map_of ?doc ''state'' = Some (JStr ''FILES_AUTHORITATIVE'')"
      "map_of ?doc ''history'' = Some (JArr [JObj ?e])" "map_of ?doc ''keys'' = Some ?keys"
      by (simp_all add: init_doc_def)
    have u: "fst (initialise E mig sse target s) = ?u"
      using None w Inr st(1) by (simp add: initialise_def now_iso_def write_state_def Let_def)
    have "receipted E ?u (JObj ?e)"
      using forward.on_disk [OF w [unfolded Inr]] by (auto simp: receipted_def jget_def in_dir_def)
    moreover have "ladder_path [JObj ?e] ''FILES_AUTHORITATIVE''"
      by (rule path_start) (simp_all add: jget_def)
    ultimately have "ladder_inv E ?u"
      using s'(3) by (intro ladder_invI [OF _ _ st(2,1,3)]) (simp_all add: init_keys_def jindex_def)
    then show ?thesis using s'(2) None unfolding u by (simp add: extends_def)
  qed
qed

subsection \<open>Reachable ladders\<close>

text \<open>Any card at any time: an operation of the running process, also one that raises, or a new
  process (with other permissions, with or without a simulated crash) on the same disk.\<close>

inductive ladder_step :: "ladder_env \<Rightarrow> ladder_store \<Rightarrow> ladder_store \<Rightarrow> bool" for E where
  step_init: "ladder_step E s (fst (initialise E mig sse target s))"
| step_advance: "ladder_step E s (fst (advance_ladder E t gate relied report s))"
| step_rollback: "ladder_step E s (fst (rollback E t reason nt s))"
| step_process: "ladder_step E s (LadderStore (ls_path s) (ls_dir s) (ls_file s) (ls_receipts s) (ls_reads s)
    allow_advance {} crash portion allow_rollback)"

lemma ladder_step_keeps: "ladder_step E s s' \<Longrightarrow> ladder_inv E s \<Longrightarrow> ladder_inv E s' \<and> extends s s'"
proof (induction rule: ladder_step.induct)
  case (step_process s allow_advance crash portion allow_rollback)
  then show ?case
    by (auto intro!: ladder_inv_cong [of E s] extends_disk simp: LadderStore_def ladder_inv_mutations)
qed (simp_all add: initialise_keeps advance_keeps rollback_keeps)

lemma ladder_steps_keep: "(ladder_step E)\<^sup>*\<^sup>* s s' \<Longrightarrow> ladder_inv E s \<Longrightarrow> ladder_inv E s' \<and> extends s s'"
  by (induction rule: rtranclp_induct) (auto dest: ladder_step_keeps intro: extends_trans)

definition empty_disk :: "string \<Rightarrow> string \<Rightarrow> ladder_store" where
  "empty_disk path dir = LadderStore path dir None [] 0 False {} None PORTION_DEFAULT False"

lemma empty_disk_inv: "ladder_inv E (empty_disk path dir)"
  by (rule ladder_inv_fresh) (simp_all add: empty_disk_def LadderStore_def)

subsection \<open>When a transition is made\<close>

text \<open>The conditions under which a card may take the ladder one state up.\<close>

definition may_advance :: "ladder_store \<Rightarrow> string \<Rightarrow> string \<Rightarrow> jobj \<Rightarrow> jobj option \<Rightarrow> bool" where
  "may_advance s cur t gate report \<longleftrightarrow> t \<in> set LADDER \<and> index_of t LADDER = index_of cur LADDER + 1 \<and>
     ls_allow_advance s \<and> jget gate ''verdict'' = JStr ''PASS'' \<and>
     (case report of None \<Rightarrow> True | Some g \<Rightarrow> jget g ''recorded_verdict'' = JStr ''PASS'')"

text \<open>The reason an advance is refused for: the first condition that fails, in this order.\<close>

inductive refused_for :: "ladder_store \<Rightarrow> string \<Rightarrow> string \<Rightarrow> jobj \<Rightarrow> jobj option \<Rightarrow> refusal \<Rightarrow> bool" where
  no_such_state: "t \<notin> set LADDER \<Longrightarrow> refused_for s cur t gate report NO_SUCH_STATE"
| not_next: "t \<in> set LADDER \<Longrightarrow> index_of t LADDER \<noteq> index_of cur LADDER + 1 \<Longrightarrow>
    refused_for s cur t gate report NOT_THE_NEXT_STATE"
| card_scope: "t \<in> set LADDER \<Longrightarrow> index_of t LADDER = index_of cur LADDER + 1 \<Longrightarrow> \<not> ls_allow_advance s \<Longrightarrow>
    refused_for s cur t gate report CARD_SCOPE_COORD0"
| gate_verdict: "t \<in> set LADDER \<Longrightarrow> index_of t LADDER = index_of cur LADDER + 1 \<Longrightarrow> ls_allow_advance s \<Longrightarrow>
    jget gate ''verdict'' = v \<Longrightarrow> v \<noteq> JStr ''PASS'' \<Longrightarrow> refused_for s cur t gate report (GATE_VERDICT v)"
| gate_report: "t \<in> set LADDER \<Longrightarrow> index_of t LADDER = index_of cur LADDER + 1 \<Longrightarrow> ls_allow_advance s \<Longrightarrow>
    jget gate ''verdict'' = JStr ''PASS'' \<Longrightarrow> jget g ''recorded_verdict'' \<noteq> JStr ''PASS'' \<Longrightarrow>
    refused_for s cur t gate (Some g) GATE_REPORT_MISMATCH"

lemma write_receipt_succeeds:
  assumes "jindex keys ''migration_id'' = Inr mig"
  shows "\<exists>s' r. write_receipt E f t keys gate extra s = (s', Inr r) \<and>
    rr_name r = transition_name t \<and> (rr_reused r \<longleftrightarrow> map_of (ls_receipts s) (transition_name t) \<noteq> None \<and>
       N11_receipt_regenerated_on_resume \<notin> ls_mutations s)"
  using assms by (auto simp: receipt_defs split: option.splits bool.splits if_splits)

lemma write_rollback_receipt_succeeds:
  assumes "jindex keys ''migration_id'' = Inr mig"
  shows "\<exists>s' r. write_rollback_receipt E f t keys reason nt s = (s', Inr r)"
  using assms by (auto simp: receipt_defs split: option.splits)

lemma advance_write_result:
  assumes inv: "ladder_inv E s" and f: "ls_file s = Some doc"
  obtains keys s' r where "map_of doc ''keys'' = Some keys"
    "write_receipt E (JStr cur) t keys (JObj gate) extra s = (s', Inr r)" "rr_name r = transition_name t"
    "rr_reused r \<longleftrightarrow> map_of (ls_receipts s) (transition_name t) \<noteq> None"
    "advance_write E cur t gate extra doc s =
      (if ls_crash_after s = Some CrashAfterReceipt then (s', Inl LadderCrash)
       else case set_state E t doc s' of (u, d) \<Rightarrow>
         record_move E (JStr cur) t r (forward_entry E gate (ls_portion s')) d u)"
proof -
  have mu: "ls_mutations s = {}" using inv by (rule ladder_inv_mutations)
  obtain hs st keys mig where keys: "map_of doc ''keys'' = Some keys" "jindex keys ''migration_id'' = Inr mig"
    by (rule ladder_invE [OF inv f])
  obtain s' r where w: "write_receipt E (JStr cur) t keys (JObj gate) extra s = (s', Inr r)"
    "rr_name r = transition_name t" "rr_reused r \<longleftrightarrow> map_of (ls_receipts s) (transition_name t) \<noteq> None"
    using write_receipt_succeeds [OF keys(2), of E "JStr cur" t "JObj gate" extra s] mu by auto
  have "ls_crash_after s' = ls_crash_after s"
    using forward.keeps_settings(3) [of E "JStr cur" t keys "JObj gate" extra s] w(1) by simp
  then have "advance_write E cur t gate extra doc s =
      (if ls_crash_after s = Some CrashAfterReceipt then (s', Inl LadderCrash)
       else case set_state E t doc s' of (u, d) \<Rightarrow>
         record_move E (JStr cur) t r (forward_entry E gate (ls_portion s')) d u)"
    using forward.on_disk [OF w(1)] by (auto simp: advance_write_def keys mu w dest!: set_state_portion split: prod.split)
  with keys(1) w that show thesis by blast
qed

lemma advance_admitted:
  assumes "ladder_inv E s" "ls_file s = Some doc" "map_of doc ''state'' = Some (JStr cur)"
    "may_advance s cur t gate report"
  shows "advance_ladder E t gate relied report s =
    advance_write E cur t gate (advance_extra cur t relied report) doc s"
    and "ladder_edge cur t"
proof -
  obtain cur' where c: "current_state s = Inr (JStr cur')" "map_of doc ''state'' = Some (JStr cur')" "cur' \<in> set LADDER"
    by (rule ladder_inv_current [OF assms(1,2)])
  with assms(3) have "cur' = cur" by simp
  with c assms show "advance_ladder E t gate relied report s =
      advance_write E cur t gate (advance_extra cur t relied report) doc s" "ladder_edge cur t"
    by (auto simp: advance_ladder_def may_advance_def ladder_edge_def split: option.splits)
qed

lemma advance_moves:
  assumes "ladder_inv E s" "ls_file s = Some doc" "map_of doc ''state'' = Some (JStr cur)"
    "may_advance s cur t gate report" "ls_crash_after s = None"
  shows "\<exists>s' r doc' e. advance_ladder E t gate relied report s = (s', Inr (Moved (JStr cur) t r)) \<and>
    ls_file s' = Some doc' \<and> map_of doc' ''state'' = Some (JStr t) \<and> history doc' = history doc @ [JObj e]"
proof -
  note adm = advance_admitted [OF assms(1-4)]
  let ?extra = "advance_extra cur t relied report"
  obtain keys s' r where w: "write_receipt E (JStr cur) t keys (JObj gate) ?extra s = (s', Inr r)"
    and aw: "advance_write E cur t gate ?extra doc s =
      (if ls_crash_after s = Some CrashAfterReceipt then (s', Inl LadderCrash)
       else case set_state E t doc s' of (u, d) \<Rightarrow>
         record_move E (JStr cur) t r (forward_entry E gate (ls_portion s')) d u)"
    by (rule advance_write_result [OF assms(1,2)])
  let ?m = "case set_state E t doc s' of (u, d) \<Rightarrow>
    record_move E (JStr cur) t r (forward_entry E gate (ls_portion s')) d u"
  note mv = forward.moved [OF w assms(1-3) adm(2), of "forward_entry E gate (ls_portion s')"]
  have "advance_ladder E t gate relied report s = (fst ?m, Inr (Moved (JStr cur) t r))"
    using adm(1) aw assms(5) mv(3) by (metis option.distinct(1) prod.collapse)
  moreover obtain doc' e where "ls_file (fst ?m) = Some doc'" "map_of doc' ''state'' = Some (JStr t)"
    "history doc' = history doc @ [JObj e]"
    using mv(4) by blast
  ultimately show ?thesis by blast
qed

lemma advance_not_admitted:
  assumes "ladder_inv E s" "ls_file s = Some doc" "map_of doc ''state'' = Some (JStr cur)"
    "\<not> may_advance s cur t gate report"
  shows "\<exists>why. advance_ladder E t gate relied report s = refuse AdvanceOp (JStr cur) t why s \<and>
    refused_for s cur t gate report why"
proof -
  obtain cur' where c: "current_state s = Inr (JStr cur')" "map_of doc ''state'' = Some (JStr cur')" "cur' \<in> set LADDER"
    by (rule ladder_inv_current [OF assms(1,2)])
  moreover have "ls_mutations s = {}" using assms(1) by (rule ladder_inv_mutations)
  ultimately show ?thesis using assms
    by (auto simp: advance_ladder_def may_advance_def refused_for.simps split: option.splits)
qed

definition may_rollback :: "ladder_store \<Rightarrow> string \<Rightarrow> string \<Rightarrow> string \<Rightarrow> bool" where
  "may_rollback s cur t reason \<longleftrightarrow> t \<in> set LADDER \<and> index_of cur LADDER = index_of t LADDER + 1 \<and>
     ls_allow_rollback s \<and> index_of cur LADDER \<le> index_of DARK_LAUNCH_TOP LADDER \<and> reason \<noteq> []"

lemma rollback_result:
  assumes inv: "ladder_inv E s" and f: "ls_file s = Some doc" and st: "map_of doc ''state'' = Some (JStr cur)"
    and may: "may_rollback s cur t reason"
  obtains keys s' r where "write_rollback_receipt E cur t keys reason nt s = (s', Inr r)" "ladder_edge cur t"
    "rollback E t reason nt s = (case set_state E t doc s' of (u, d) \<Rightarrow>
       record_move E (JStr cur) t r (backward_entry (ls_portion s') reason) d u)"
proof -
  have mu: "ls_mutations s = {}" using inv by (rule ladder_inv_mutations)
  obtain hs st0 keys mig where keys: "map_of doc ''keys'' = Some keys" "jindex keys ''migration_id'' = Inr mig"
    by (rule ladder_invE [OF inv f])
  obtain s' r where w: "write_rollback_receipt E cur t keys reason nt s = (s', Inr r)"
    using write_rollback_receipt_succeeds [OF keys(2)] by blast
  obtain cur' where c: "current_state s = Inr (JStr cur')" "map_of doc ''state'' = Some (JStr cur')" "cur' \<in> set LADDER"
    by (rule ladder_inv_current [OF inv f])
  with st have "cur' = cur" by simp
  with c may f have "rollback E t reason nt s = rollback_write E cur t reason nt doc s" "ladder_edge cur t"
    by (auto simp: rollback_def may_rollback_def ladder_edge_def)
  with that [OF w] show thesis unfolding rollback_write_eq [OF mu keys(1)] w by simp
qed

lemma rollback_not_admitted:
  assumes "ladder_inv E s" "ls_file s = Some doc" "map_of doc ''state'' = Some (JStr cur)"
    "\<not> may_rollback s cur t reason"
  shows "\<exists>why. rollback E t reason nt s = refuse RollbackOp (JStr cur) t why s"
proof -
  obtain cur' where c: "current_state s = Inr (JStr cur')" "map_of doc ''state'' = Some (JStr cur')" "cur' \<in> set LADDER"
    by (rule ladder_inv_current [OF assms(1,2)])
  moreover have "ls_mutations s = {}" using assms(1) by (rule ladder_inv_mutations)
  ultimately show ?thesis using assms by (auto simp: rollback_def may_rollback_def)
qed

subsection \<open>Properties\<close>

definition env0 :: ladder_env where
  "env0 = \<lparr>le_hash = id, le_now = show_nat, le_nonce = show_nat, le_host = ''host''\<rparr>"

definition baseline0 :: ladder_store where
  "baseline0 = fst (initialise env0 ''m'' ''s'' None (empty_disk ''d/state.json'' ''d''))"

definition with_card :: "bool \<Rightarrow> bool \<Rightarrow> crash_after option \<Rightarrow> ladder_store \<Rightarrow> ladder_store" where
  "with_card adv rb crash s = LadderStore (ls_path s) (ls_dir s) (ls_file s) (ls_receipts s) (ls_reads s)
     adv {} crash ''card'' rb"

definition pass_gate :: jobj where
  "pass_gate = [(''verdict'', JStr ''PASS'')]"

lemma baseline0_reached: "(ladder_step env0)\<^sup>*\<^sup>* (empty_disk ''d/state.json'' ''d'') baseline0"
  unfolding baseline0_def by (rule r_into_rtranclp, rule step_init)

lemma baseline0_inv: "ladder_inv env0 baseline0"
  using ladder_steps_keep [OF baseline0_reached empty_disk_inv] by simp

lemma baseline0_doc:
  obtains doc where "ls_file baseline0 = Some doc" "map_of doc ''state'' = Some (JStr ''FILES_AUTHORITATIVE'')"
    "length (history doc) = 1"
  by (simp add: baseline0_def initialise_def empty_disk_def LadderStore_def receipt_defs jindex_def init_keys_def
      write_state_def init_doc_def history_def env0_def)

lemma with_card_step: "ladder_step E s (with_card adv rb crash s)"
  unfolding with_card_def by (rule step_process)

lemma with_card_inv: "ladder_inv E s \<Longrightarrow> ladder_inv E (with_card adv rb crash s)"
  using ladder_step_keeps [OF with_card_step] by blast

text \<open>C29. The recorded state of a ladder is never just asserted: in every ladder the tool can reach,
  through any sequence of operations of any cards, including refused, failing and interrupted ones,
  the history in the state file is a path that starts at FILES_AUTHORITATIVE, goes up one state at a
  time or down one state inside the dark-launch band, ends in the recorded state, and every one of
  its entries names a receipt that is on disk with the recorded digest.\<close>

theorem ladder_history_sound:
  assumes "(ladder_step E)\<^sup>*\<^sup>* (empty_disk path dir) s" "ls_file s = Some doc"
  shows "\<exists>hs st. map_of doc ''history'' = Some (JArr hs) \<and> map_of doc ''state'' = Some (JStr st) \<and>
    ladder_path hs st \<and> list_all (receipted E s) hs"
proof -
  have "ladder_inv E s" using ladder_steps_keep [OF assms(1) empty_disk_inv] by simp
  then obtain hs st keys mig where "map_of doc ''history'' = Some (JArr hs)" "map_of doc ''state'' = Some (JStr st)"
    "map_of doc ''keys'' = Some keys" "jindex keys ''migration_id'' = Inr mig"
    "ladder_path hs st" "\<forall>e\<in>set hs. receipted E s e"
    by (rule ladder_invE [OF _ assms(2)])
  then show ?thesis by (simp add: list_all_iff)
qed

theorem ladder_history_sound_witness:
  "\<exists>hs st. map_of (the (ls_file baseline0)) ''history'' = Some (JArr hs) \<and>
    map_of (the (ls_file baseline0)) ''state'' = Some (JStr st) \<and>
    ladder_path hs st \<and> list_all (receipted env0 baseline0) hs"
  by (rule ladder_history_sound [OF baseline0_reached]) (rule baseline0_doc, simp)

text \<open>Nothing the ladder wrote is ever rewritten: from a reachable ladder on, no sequence of
  operations changes or removes a receipt, and the history is only appended to.\<close>

theorem ladder_append_only:
  assumes "(ladder_step E)\<^sup>*\<^sup>* (empty_disk path dir) s" "(ladder_step E)\<^sup>*\<^sup>* s s'"
    "ls_file s = Some doc"
  shows "\<exists>doc'. ls_file s' = Some doc' \<and> prefix (history doc) (history doc') \<and>
    map_of (ls_receipts s) \<subseteq>\<^sub>m map_of (ls_receipts s')"
proof -
  have "extends s s'"
    using ladder_steps_keep [OF assms(1) empty_disk_inv] ladder_steps_keep [OF assms(2)] by blast
  then show ?thesis using assms(3) by (auto simp: extends_def map_le_def dom_def)
qed

definition shadow0 :: ladder_store where
  "shadow0 = fst (advance_ladder env0 ''SHADOW_PROJECTION'' pass_gate None None (with_card True False None baseline0))"

text \<open>C30. The gate of the ladder: on a ladder with a state file, an advance moves it exactly when
  the target is the next state, the running card may advance, the gate's verdict is PASS and the
  committed gate report, when there is one, agrees; in every other case it is refused for the first
  of these conditions that fails (\<open>refused_for\<close>: no such state, not the next state, the card's scope, the
  gate's verdict itself, a report that disagrees), and a refusal leaves the state file and the
  receipts as they were.\<close>

theorem advance_admission:
  assumes "ladder_inv E s" "ls_file s = Some doc" "map_of doc ''state'' = Some (JStr cur)"
    "ls_crash_after s = None"
  shows "(case advance_ladder E t gate relied report s of (s', res) \<Rightarrow>
    if may_advance s cur t gate report
    then (\<exists>r doc'. res = Inr (Moved (JStr cur) t r) \<and> ls_file s' = Some doc' \<and>
      map_of doc' ''state'' = Some (JStr t) \<and> length (history doc') = Suc (length (history doc)))
    else (\<exists>why. res = Inr (Refused (JStr cur) t why) \<and> refused_for s cur t gate report why) \<and> ls_file s' = ls_file s \<and> ls_receipts s' = ls_receipts s)"
proof (cases "may_advance s cur t gate report")
  case True
  from advance_moves [OF assms(1-3) True assms(4)] obtain s' r doc' e where
    "advance_ladder E t gate relied report s = (s', Inr (Moved (JStr cur) t r))" "ls_file s' = Some doc'"
    "map_of doc' ''state'' = Some (JStr t)" "history doc' = history doc @ [JObj e]"
    by blast
  with True show ?thesis by simp
next
  case False
  with advance_not_admitted [OF assms(1-3) False, of relied] show ?thesis by (auto simp: refuse_def)
qed

theorem advance_admission_witness:
  "\<exists>r doc'. snd (advance_ladder env0 ''SHADOW_PROJECTION'' pass_gate None None (with_card True False None baseline0)) =
      Inr (Moved (JStr ''FILES_AUTHORITATIVE'') ''SHADOW_PROJECTION'' r) \<and> ls_file shadow0 = Some doc' \<and>
      map_of doc' ''state'' = Some (JStr ''SHADOW_PROJECTION'') \<and> length (history doc') = 2"
proof -
  obtain doc where d: "ls_file baseline0 = Some doc" "map_of doc ''state'' = Some (JStr ''FILES_AUTHORITATIVE'')"
    "length (history doc) = 1"
    by (rule baseline0_doc)
  let ?s = "with_card True False None baseline0"
  have f: "ls_file ?s = Some doc" "ls_crash_after ?s = None" by (simp_all add: with_card_def LadderStore_def d)
  have may: "may_advance ?s ''FILES_AUTHORITATIVE'' ''SHADOW_PROJECTION'' pass_gate None"
    by (simp add: may_advance_def with_card_def LadderStore_def LADDER_def pass_gate_def jget_def)
  show ?thesis
    using advance_admission [OF with_card_inv [OF baseline0_inv] f(1) d(2) f(2), of "''SHADOW_PROJECTION''" pass_gate None None]
      may d(3) by (simp add: shadow0_def numeral_2_eq_2 case_prod_unfold)
qed

lemma advance_moves0:
  "\<exists>r. advance_ladder env0 ''SHADOW_PROJECTION'' pass_gate None None (with_card True False None baseline0) =
    (shadow0, Inr (Moved (JStr ''FILES_AUTHORITATIVE'') ''SHADOW_PROJECTION'' r))"
proof -
  obtain doc where d: "ls_file baseline0 = Some doc" "map_of doc ''state'' = Some (JStr ''FILES_AUTHORITATIVE'')"
    by (rule baseline0_doc)
  let ?s = "with_card True False None baseline0"
  have f: "ls_file ?s = Some doc" "ls_crash_after ?s = None"
    "may_advance ?s ''FILES_AUTHORITATIVE'' ''SHADOW_PROJECTION'' pass_gate None"
    by (simp_all add: may_advance_def with_card_def LadderStore_def LADDER_def pass_gate_def jget_def d)
  show ?thesis
    using advance_moves [OF with_card_inv [OF baseline0_inv] f(1) d(2) f(3,2), of None] by (auto simp: shadow0_def)
qed

text \<open>The same card started again on the disk a dead process left, its clock at any later reading.\<close>

definition started_again :: "nat \<Rightarrow> ladder_store \<Rightarrow> ladder_store" where
  "started_again n s = LadderStore (ls_path s) (ls_dir s) (ls_file s) (ls_receipts s) n (ls_allow_advance s) {} None
     (ls_portion s) (ls_allow_rollback s)"

lemma write_receipt_crash:
  "write_receipt E f t keys gate extra (s\<lparr>ls_crash_after := c\<rparr>) =
    (case write_receipt E f t keys gate extra s of (u, r) \<Rightarrow> (u\<lparr>ls_crash_after := c\<rparr>, r))"
  by (auto simp: receipt_defs ladder_op_def in_dir_def split: option.split bool.split sum.split)

lemma write_receipt_again:
  assumes "write_receipt E f t keys gate extra s = (s', Inr r)" "ls_mutations s = {}"
  shows "\<exists>v r'. write_receipt E f t keys gate extra (started_again n s') = (v, Inr r') \<and> rr_reused r' \<and>
    rr_path r' = rr_path r \<and> rr_digest r' = rr_digest r \<and> ls_receipts v = ls_receipts s' \<and> ls_portion v = ls_portion s"
proof -
  have rn: "rr_name r = transition_name t" using assms by (auto simp: receipt_defs split: option.splits sum.splits)
  obtain rdoc where "map_of (ls_receipts s') (transition_name t) = Some rdoc" "rr_digest r = file_digest (le_hash E) (JObj rdoc)"
    "rr_path r = in_dir s' (transition_name t)"
    using forward.on_disk [OF assms(1)] rn by auto
  moreover have "ls_portion s' = ls_portion s" using forward.keeps_settings(4) [of E f t keys gate extra s] assms(1) by simp
  ultimately show ?thesis
    by (simp add: write_receipt_def reuse_receipt_def started_again_def LadderStore_def in_dir_def Let_def)
qed

lemma started_again_inv: "ladder_inv E s \<Longrightarrow> ladder_inv E (started_again n s)"
  by (rule ladder_inv_cong) (simp_all add: started_again_def LadderStore_def ladder_inv_mutations)

text \<open>What an admitted advance without a crash leaves, in terms of what its receipt writer returns.\<close>

lemma advance_outcome:
  assumes "ladder_inv E s" "ls_file s = Some doc" "map_of doc ''state'' = Some (JStr cur)"
    "may_advance s cur t gate report" "ls_crash_after s = None" "map_of doc ''keys'' = Some keys"
    "write_receipt E (JStr cur) t keys (JObj gate) (advance_extra cur t relied report) s = (u, Inr r)"
  shows "\<exists>s' doc' now. advance_ladder E t gate relied report s = (s', Inr (Moved (JStr cur) t r)) \<and>
    ls_receipts s' = ls_receipts u \<and> ls_file s' = Some doc' \<and> map_of doc' ''state'' = Some (JStr t) \<and>
    history doc' = history doc @ [JObj (move_entry cur t now r (forward_entry E gate (ls_portion u)))] \<and>
    (\<forall>k. k \<notin> {''state'', ''updated_at_utc'', ''history''} \<longrightarrow> map_of doc' k = map_of doc k)"
proof -
  note adm = advance_admitted [OF assms(1-4)]
  let ?ex = "forward_entry E gate (ls_portion u)"
  let ?m = "case set_state E t doc u of (v, d) \<Rightarrow> record_move E (JStr cur) t r ?ex d v"
  obtain keys' u' r' where k: "map_of doc ''keys'' = Some keys'"
    "write_receipt E (JStr cur) t keys' (JObj gate) (advance_extra cur t relied report) s = (u', Inr r')"
    "advance_write E cur t gate (advance_extra cur t relied report) doc s =
      (if ls_crash_after s = Some CrashAfterReceipt then (u', Inl LadderCrash)
       else case set_state E t doc u' of (v, d) \<Rightarrow>
         record_move E (JStr cur) t r' (forward_entry E gate (ls_portion u')) d v)"
    by (rule advance_write_result [OF assms(1,2)])
  have "u' = u" "r' = r" using k(1,2) assms(6,7) by simp_all
  with k(3) adm(1) assms(5) have eq: "advance_ladder E t gate relied report s = ?m" by simp
  note mv = forward.moved [OF assms(7,1,2,3) adm(2), of ?ex]
  have "?m = (fst ?m, Inr (Moved (JStr cur) t r))" using mv(3) by (metis prod.collapse)
  with eq have "advance_ladder E t gate relied report s = (fst ?m, Inr (Moved (JStr cur) t r))" by simp
  with mv(5) mv(6) show ?thesis
    by (elim exE conjE) (intro exI conjI, assumption+)
qed

text \<open>C31. A transition interrupted between its receipt and the state file and repeated by the same card
  ends as the undisturbed transition does: the crash leaves the state file as it was; the next process
  reuses the receipt on disk and writes no other one; the two runs, from the same ladder, end with the same receipts, in
  state documents that agree on every key but \<open>updated_at_utc\<close> and \<open>history\<close>, and their histories extend
  the old one by entries that agree on every key (also the receipt and its digest) but the time \<open>at_utc\<close>.\<close>

theorem advance_crash_resume:
  assumes "ladder_inv E s" "ls_file s = Some doc" "map_of doc ''state'' = Some (JStr cur)"
    "may_advance s cur t gate report" "ls_crash_after s = Some CrashAfterReceipt"
  shows "\<exists>s' s'' u r ru again undisturbed e eu.
    advance_ladder E t gate relied report s = (s', Inl LadderCrash) \<and> ls_file s' = Some doc \<and>
    advance_ladder E t gate relied report (started_again n s') = (s'', Inr (Moved (JStr cur) t r)) \<and> rr_reused r \<and>
    advance_ladder E t gate relied report (s\<lparr>ls_crash_after := None\<rparr>) = (u, Inr (Moved (JStr cur) t ru)) \<and>
    ls_receipts s'' = ls_receipts s' \<and> ls_receipts s'' = ls_receipts u \<and>
    ls_file s'' = Some again \<and> ls_file u = Some undisturbed \<and> map_of again ''state'' = Some (JStr t) \<and>
    (\<forall>k. k \<notin> {''updated_at_utc'', ''history''} \<longrightarrow> map_of again k = map_of undisturbed k) \<and>
    history again = history doc @ [JObj e] \<and> history undisturbed = history doc @ [JObj eu] \<and>
    (\<forall>k. k \<noteq> ''at_utc'' \<longrightarrow> map_of e k = map_of eu k) \<and> rr_digest r = rr_digest ru"
proof -
  let ?extra = "advance_extra cur t relied report"
  have mu: "ls_mutations s = {}" using assms(1) by (rule ladder_inv_mutations)
  obtain keys s' r0 where keys: "map_of doc ''keys'' = Some keys"
    and w: "write_receipt E (JStr cur) t keys (JObj gate) ?extra s = (s', Inr r0)"
    and aw: "advance_write E cur t gate ?extra doc s =
      (if ls_crash_after s = Some CrashAfterReceipt then (s', Inl LadderCrash)
       else case set_state E t doc s' of (u, d) \<Rightarrow>
         record_move E (JStr cur) t r0 (forward_entry E gate (ls_portion s')) d u)"
    by (rule advance_write_result [OF assms(1,2)])
  have crash: "advance_ladder E t gate relied report s = (s', Inl LadderCrash)"
    using advance_admitted(1) [OF assms(1-4)] aw assms(5) by simp
  have s': "ladder_inv E s'" "ls_file s' = Some doc" "ls_portion s' = ls_portion s" "ls_allow_advance s' = ls_allow_advance s"
    using forward.write_inv [OF assms(1), of "JStr cur" t keys "JObj gate" ?extra]
      forward.keeps_file [of E "JStr cur" t keys "JObj gate" ?extra s]
      forward.keeps_settings(4,5) [of E "JStr cur" t keys "JObj gate" ?extra s] w assms(2) by simp_all
  let ?p = "started_again n s'" and ?v = "s\<lparr>ls_crash_after := None\<rparr>"
  obtain v r where w': "write_receipt E (JStr cur) t keys (JObj gate) ?extra ?p = (v, Inr r)" "rr_reused r"
    "rr_path r = rr_path r0" "rr_digest r = rr_digest r0" "ls_receipts v = ls_receipts s'" "ls_portion v = ls_portion s"
    using write_receipt_again [OF w mu] by blast
  have p: "ls_file ?p = Some doc" "may_advance ?p cur t gate report" "ls_crash_after ?p = None"
    using s' assms(4) by (simp_all add: started_again_def LadderStore_def may_advance_def)
  from advance_outcome [OF started_again_inv [OF s'(1)] p(1) assms(3) p(2,3) keys w'(1)] obtain s'' again now where a:
    "advance_ladder E t gate relied report ?p = (s'', Inr (Moved (JStr cur) t r))" "ls_receipts s'' = ls_receipts v"
    "ls_file s'' = Some again" "map_of again ''state'' = Some (JStr t)"
    "history again = history doc @ [JObj (move_entry cur t now r (forward_entry E gate (ls_portion v)))]"
    "\<forall>k. k \<notin> {''state'', ''updated_at_utc'', ''history''} \<longrightarrow> map_of again k = map_of doc k" by (elim exE conjE) (rule that)
  have v: "ladder_inv E ?v" "ls_file ?v = Some doc" "may_advance ?v cur t gate report" "ls_crash_after ?v = None"
    "write_receipt E (JStr cur) t keys (JObj gate) ?extra ?v = (s'\<lparr>ls_crash_after := None\<rparr>, Inr r0)"
    using ladder_inv_cong [OF assms(1), of ?v] assms(2,4) by (simp_all add: may_advance_def write_receipt_crash w)
  from advance_outcome [OF v(1,2) assms(3) v(3,4) keys v(5)] obtain u undisturbed now' where b:
    "advance_ladder E t gate relied report ?v = (u, Inr (Moved (JStr cur) t r0))" "ls_receipts u = ls_receipts (s'\<lparr>ls_crash_after := None\<rparr>)"
    "ls_file u = Some undisturbed" "map_of undisturbed ''state'' = Some (JStr t)"
    "history undisturbed = history doc @ [JObj (move_entry cur t now' r0 (forward_entry E gate (ls_portion (s'\<lparr>ls_crash_after := None\<rparr>))))]"
    "\<forall>k. k \<notin> {''state'', ''updated_at_utc'', ''history''} \<longrightarrow> map_of undisturbed k = map_of doc k" by (elim exE conjE) (rule that)
  have same: "ls_receipts s'' = ls_receipts s'" "ls_receipts s'' = ls_receipts u" using a(2) b(2) w'(5) by simp_all
  have docs: "\<forall>k. k \<notin> {''updated_at_utc'', ''history''} \<longrightarrow> map_of again k = map_of undisturbed k"
    using a(4,6) b(4,6) by (metis insert_iff)
  have entries: "\<forall>k. k \<noteq> ''at_utc'' \<longrightarrow> map_of (move_entry cur t now r (forward_entry E gate (ls_portion v))) k =
      map_of (move_entry cur t now' r0 (forward_entry E gate (ls_portion (s'\<lparr>ls_crash_after := None\<rparr>)))) k"
    using w'(3,4,6) s'(3) by (simp add: move_entry_def)
  show ?thesis
    by (intro exI conjI) (rule crash s'(2) a(1) w'(2) b(1) same a(3) b(3) a(4) docs a(5) b(5) entries w'(4))+
qed

theorem advance_crash_resume_witness:
  "\<exists>s' s'' u r ru. advance_ladder env0 ''SHADOW_PROJECTION'' pass_gate None None
      (with_card True False (Some CrashAfterReceipt) baseline0) = (s', Inl LadderCrash) \<and>
    advance_ladder env0 ''SHADOW_PROJECTION'' pass_gate None None (started_again 9 s') =
      (s'', Inr (Moved (JStr ''FILES_AUTHORITATIVE'') ''SHADOW_PROJECTION'' r)) \<and> rr_reused r \<and>
    advance_ladder env0 ''SHADOW_PROJECTION'' pass_gate None None
      ((with_card True False (Some CrashAfterReceipt) baseline0)\<lparr>ls_crash_after := None\<rparr>) =
      (u, Inr (Moved (JStr ''FILES_AUTHORITATIVE'') ''SHADOW_PROJECTION'' ru)) \<and> ls_receipts s'' = ls_receipts u"
proof -
  obtain doc where d: "ls_file baseline0 = Some doc" "map_of doc ''state'' = Some (JStr ''FILES_AUTHORITATIVE'')"
    by (rule baseline0_doc)
  let ?s = "with_card True False (Some CrashAfterReceipt) baseline0"
  have f: "ls_file ?s = Some doc" "ls_crash_after ?s = Some CrashAfterReceipt"
    by (simp_all add: with_card_def LadderStore_def d)
  have may: "may_advance ?s ''FILES_AUTHORITATIVE'' ''SHADOW_PROJECTION'' pass_gate None"
    by (simp add: may_advance_def with_card_def LadderStore_def LADDER_def pass_gate_def jget_def)
  show ?thesis
    using advance_crash_resume [OF with_card_inv [OF baseline0_inv] f(1) d(2) may f(2), of None 9]
    by (elim exE conjE) (intro exI conjI)
qed

text \<open>The dark launch is reversible: after an advance that leaves the ladder inside the
  dark-launch band, a card that may roll back returns it to the state it came from; both movements
  are appended to the history, and no other entry of the state document changes.\<close>

theorem advance_rollback_roundtrip:
  assumes "ladder_inv E s" "ls_file s = Some doc" "map_of doc ''state'' = Some (JStr cur)"
    "advance_ladder E t gate relied report s = (s', Inr (Moved (JStr cur) t r))"
    "index_of t LADDER \<le> index_of DARK_LAUNCH_TOP LADDER" "reason \<noteq> []"
  shows "\<exists>s'' r' doc'' e e'. rollback E cur reason nt (with_card False True None s') = (s'', Inr (Moved (JStr t) cur r')) \<and>
    ls_file s'' = Some doc'' \<and> map_of doc'' ''state'' = Some (JStr cur) \<and>
    history doc'' = history doc @ [JObj e, JObj e'] \<and>
    (\<forall>k. k \<notin> {''state'', ''updated_at_utc'', ''history''} \<longrightarrow> map_of doc'' k = map_of doc k)"
proof -
  have may: "may_advance s cur t gate report"
    using advance_not_admitted [OF assms(1-3), of t gate report relied] assms(4) by (auto simp: refuse_def)
  note adm = advance_admitted [OF assms(1-3) may]
  let ?extra = "advance_extra cur t relied report"
  obtain keys u q where w: "write_receipt E (JStr cur) t keys (JObj gate) ?extra s = (u, Inr q)"
    and aw: "advance_write E cur t gate ?extra doc s =
      (if ls_crash_after s = Some CrashAfterReceipt then (u, Inl LadderCrash)
       else case set_state E t doc u of (v, d) \<Rightarrow>
         record_move E (JStr cur) t q (forward_entry E gate (ls_portion u)) d v)"
    by (rule advance_write_result [OF assms(1,2)])
  let ?m = "case set_state E t doc u of (v, d) \<Rightarrow> record_move E (JStr cur) t q (forward_entry E gate (ls_portion u)) d v"
  have m: "?m = (s', Inr (Moved (JStr cur) t r))" using adm(1) aw assms(4) by (auto split: if_splits)
  note mv = forward.moved [OF w assms(1-3) adm(2), of "forward_entry E gate (ls_portion u)"]
  obtain doc' e where d': "ls_file s' = Some doc'" "map_of doc' ''state'' = Some (JStr t)"
    "history doc' = history doc @ [JObj e]"
    "\<forall>k. k \<notin> {''state'', ''updated_at_utc'', ''history''} \<longrightarrow> map_of doc' k = map_of doc k"
    using mv(4) unfolding m by auto
  let ?p = "with_card False True None s'"
  have p: "ladder_inv E ?p" "ls_file ?p = Some doc'" using mv(1) d'(1) unfolding m
    by (simp_all add: with_card_inv) (simp add: with_card_def LadderStore_def)
  have "may_rollback ?p t cur reason"
    using adm(2) may assms(5,6) by (auto simp: may_rollback_def ladder_edge_def may_advance_def with_card_def LadderStore_def)
  then obtain keys' v q' where w': "write_rollback_receipt E t cur keys' reason nt ?p = (v, Inr q')" "ladder_edge t cur"
    and rb: "rollback E cur reason nt ?p = (case set_state E cur doc' v of (x, d) \<Rightarrow>
       record_move E (JStr t) cur q' (backward_entry (ls_portion v) reason) d x)"
    by (rule rollback_result [OF p d'(2)])
  note mv' = backward.moved [OF w'(1) p d'(2) w'(2), of "backward_entry (ls_portion v) reason", folded rb]
  obtain doc'' e' where d'': "ls_file (fst (rollback E cur reason nt ?p)) = Some doc''"
    "map_of doc'' ''state'' = Some (JStr cur)" "history doc'' = history doc' @ [JObj e']"
    "\<forall>k. k \<notin> {''state'', ''updated_at_utc'', ''history''} \<longrightarrow> map_of doc'' k = map_of doc' k"
    using mv'(4) by blast
  have "rollback E cur reason nt ?p = (fst (rollback E cur reason nt ?p), Inr (Moved (JStr t) cur q'))"
    using mv'(3) by (metis prod.collapse)
  moreover have "history doc'' = history doc @ [JObj e, JObj e']" using d''(3) d'(3) by simp
  moreover have "\<forall>k. k \<notin> {''state'', ''updated_at_utc'', ''history''} \<longrightarrow> map_of doc'' k = map_of doc k"
    using d''(4) d'(4) by simp
  ultimately show ?thesis using d''(1,2) by blast
qed

text \<open>What a transition receipt says of its way back is what the two vocabularies say: a ladder
  state is recorded as reversible exactly when it authorises no phase of the cutover window.\<close>

theorem reversible_iff_dark_launch:
  assumes "t \<in> set LADDER"
  shows "jget (rollback_note f t) ''reversible'' = jget (reconciliation_entry t) ''dark_launch''"
proof -
  have "index_of t LADDER \<le> index_of DARK_LAUNCH_TOP LADDER \<longleftrightarrow> authorised_phases t = []"
    using assms by (auto simp: LADDER_def DARK_LAUNCH_TOP_def authorised_phases_def PHASES_def)
  then show ?thesis by (simp add: rollback_note_def reconciliation_entry_def jget_def Let_def)
qed

end
