(* ===== verification/Ladder_Rehearsal.thy ===== *)
theory Ladder_Rehearsal
  imports Ladder_Props
begin

section \<open>The rollback rehearsal tells the truth\<close>

text \<open>
  What \<open>rehearse_rollback\<close> reports for every ladder the tool can reach: nothing to measure at the
  baseline, PASS inside the dark-launch band, FAIL above it (where a rollback is refused), and the
  same digest of the source state file before and after. And what the reuse of receipts means once
  a rollback has happened.
\<close>

lemma rollback_band:
  assumes "ls_file s = Some doc" "map_of doc ''state'' = Some (JStr cur)" "ls_mutations s = {}"
    "map_of doc ''history'' = Some (JArr hs)" "map_of doc ''keys'' = Some keys" "jindex keys ''migration_id'' = Inr mig"
    "cur \<in> set LADDER" "may_rollback s cur t reason" "ls_journal s = []"
  shows "\<exists>s' r e doc'. rollback E t reason nt s = (s', Inr (Moved (JStr cur) t r)) \<and> ls_file s' = Some doc' \<and>
    map_of doc' ''state'' = Some (JStr t) \<and> map_of doc' ''history'' = Some (JArr (hs @ [JObj e])) \<and>
    is_receipt_op (first_write (ls_journal s')) \<and>
    (\<forall>n. map_of (ls_receipts s) n \<noteq> None \<longrightarrow> map_of (ls_receipts s') n \<noteq> None)"
proof -
  have "current_state s = Inr (JStr cur)" using assms(1,2) by (cases doc) (auto simp: current_state_def)
  then have rb: "rollback E t reason nt s = rollback_write E cur t reason nt doc s"
    using assms(1,7,8) by (auto simp: rollback_def may_rollback_def)
  obtain s' r where w: "write_rollback_receipt E cur t keys reason nt s = (s', Inr r)"
    using write_rollback_receipt_succeeds [OF assms(6)] by blast
  have j: "is_receipt_op (first_write (ls_journal s' @ js))" for js
    using w assms(6,9) by (auto simp: receipt_defs first_write_def is_receipt_op_def split: option.splits)
  have keep: "map_of (ls_receipts s') n \<noteq> None" if "map_of (ls_receipts s) n \<noteq> None" for n
  proof -
    from that obtain f where "map_of (ls_receipts s) n = Some f" by blast
    then show ?thesis using backward.keeps_receipts [OF assms(3), of n f E cur t keys reason nt] w by simp
  qed
  show ?thesis
    unfolding rb rollback_write_eq [OF assms(3,5)] w
    using j keep by (simp add: set_state_def now_iso_def record_move_def append_history_def write_state_def assms(4) Let_def)
qed

text \<open>A name in the directory listing is a file of the copy.\<close>

lemma copied_present: "n \<in> set (filter P (map fst fs)) \<Longrightarrow> map_of (filter (\<lambda>f. P (fst f)) fs) n \<noteq> None"
  by (induction fs) (auto split: if_splits)

definition rehearsal_verdict_of :: "string \<Rightarrow> string" where
  "rehearsal_verdict_of cur = (if index_of cur LADDER = 0 then ''NOT_MEASURED''
     else if index_of cur LADDER \<le> index_of DARK_LAUNCH_TOP LADDER then ''PASS'' else ''FAIL'')"

text \<open>On every ladder the tool can reach, the rollback rehearsal ends with a verdict: NOT_MEASURED
  at the baseline, PASS for a state inside the dark-launch band (every one of its six checks holds),
  FAIL above the band; the digests of the source state file before and after agree.\<close>

theorem rehearsal_verdict:
  assumes "ladder_inv E s" "ls_file s = Some doc" "map_of doc ''state'' = Some (JStr cur)" "reason \<noteq> []"
  shows "\<exists>h. rehearse_rollback E portion reason tmp s = Inr h \<and> rh_source h = cur \<and> rh_before h = rh_after h \<and>
    rh_verdict h = rehearsal_verdict_of cur"
proof -
  obtain hs st keys mig where d: "map_of doc ''history'' = Some (JArr hs)" "map_of doc ''state'' = Some (JStr st)"
    "map_of doc ''keys'' = Some keys" "jindex keys ''migration_id'' = Inr mig" "ladder_path hs st"
    by (rule ladder_invE [OF assms(1,2)])
  then have cur: "st = cur" "cur \<in> set LADDER" using assms(3) ladder_path_state by auto
  show ?thesis
  proof (cases "index_of cur LADDER = 0")
    case True
    then show ?thesis using assms(2,3) cur by (simp add: rehearse_rollback_def rehearsal_verdict_of_def Let_def)
  next
    case False
    let ?t = "LADDER ! (index_of cur LADDER - 1)"
    let ?copied = "sort (filter is_transition_file (map fst (ls_receipts s)))"
    let ?s = "LadderStore (tmp @ ''/state.json'') tmp (Some doc)
      (filter (\<lambda>f. is_transition_file (fst f)) (ls_receipts s)) (ls_reads s + 1) False {} None portion True"
    have lt: "index_of cur LADDER - 1 < length LADDER" using index_of_less [OF cur(2)] by simp
    have t: "?t \<in> set LADDER" "index_of cur LADDER = Suc (index_of ?t LADDER)"
      using index_of_distinct [OF LADDER_distinct lt] nth_mem [OF lt] False by simp_all
    have s: "ls_file ?s = Some doc" "ls_mutations ?s = {}" "ls_journal ?s = []" "ls_allow_rollback ?s"
      "ls_receipts ?s = filter (\<lambda>f. is_transition_file (fst f)) (ls_receipts s)"
      by (simp_all add: LadderStore_def)
    show ?thesis
    proof (cases "index_of cur LADDER \<le> index_of DARK_LAUNCH_TOP LADDER")
      case True
      then have "may_rollback ?s cur ?t reason" using t s(4) assms(4) by (simp add: may_rollback_def)
      from rollback_band [OF s(1) assms(3) s(2) d(1,3,4) cur(2) this s(3), of E JNull]
      obtain s' r e doc' where m: "rollback E ?t reason JNull ?s = (s', Inr (Moved (JStr cur) ?t r))"
        "ls_file s' = Some doc'" "map_of doc' ''state'' = Some (JStr ?t)"
        "map_of doc' ''history'' = Some (JArr (hs @ [JObj e]))" "is_receipt_op (first_write (ls_journal s'))"
        "\<And>n. map_of (ls_receipts ?s) n \<noteq> None \<Longrightarrow> map_of (ls_receipts s') n \<noteq> None"
        by blast
      have "filter (\<lambda>n. map_of (ls_receipts s') n \<noteq> None) ?copied = ?copied"
        using m(6) copied_present [of _ is_transition_file "ls_receipts s"] s(5) by (simp add: filter_id_conv)
      then show ?thesis using assms(2,3) cur d(1) False True m
        by (simp add: rehearse_rollback_def rehearsal_checks_def history_length_def jget_def rehearsal_verdict_of_def Let_def)
    next
      case above: False
      have "current_state ?s = Inr (JStr cur)" using s(1) assms(3) by (cases doc) (auto simp: current_state_def)
      then have "rollback E ?t reason JNull ?s = refuse RollbackOp (JStr cur) ?t ROLLBACK_BEYOND_DARK_LAUNCH ?s"
        using above t s cur(2) by (simp add: rollback_def)
      then show ?thesis using assms(2,3) cur d(1) False above s(1)
        by (simp add: rehearse_rollback_def rehearsal_checks_def history_length_def rehearsal_verdict_of_def Let_def refuse_def)
    qed
  qed
qed

subsection \<open>A repeated transition keeps the first receipt\<close>

text \<open>A transition that is made again after a rollback reuses the receipt of the first time: the new
  gate verdict, the new evidence list and the time of the second transition are in no receipt.\<close>

lemma repeated_transition_keeps_old_receipt:
  assumes "ladder_inv E s" "ls_file s = Some doc" "map_of doc ''state'' = Some (JStr cur)"
    "may_advance s cur t gate report" "ls_crash_after s = None"
    "map_of (ls_receipts s) (transition_name t) = Some old"
  shows "\<exists>s' r. advance_ladder E t gate relied report s = (s', Inr (Moved (JStr cur) t r)) \<and>
    ls_receipts s' = ls_receipts s"
proof -
  note adm = advance_admitted [OF assms(1-4)]
  let ?extra = "advance_extra cur t relied report"
  obtain keys s' r where w: "write_receipt E (JStr cur) t keys (JObj gate) ?extra s = (s', Inr r)"
    and aw: "advance_write E cur t gate ?extra doc s =
      (if ls_crash_after s = Some CrashAfterReceipt then (s', Inl LadderCrash)
       else case set_state E t doc s' of (u, d) \<Rightarrow>
         record_move E (JStr cur) t r (forward_entry E gate (ls_portion s')) d u)"
    by (rule advance_write_result [OF assms(1,2)])
  have "ls_receipts s' = ls_receipts s"
    using w assms(6) ladder_inv_mutations [OF assms(1)] by (auto simp: receipt_defs)
  moreover note mv = forward.moved(3,5) [OF w assms(1-3) adm(2), of "forward_entry E gate (ls_portion s')"]
  ultimately show ?thesis
    using adm(1) aw assms(5) by (metis option.distinct(1) prod.collapse)
qed

end
