(* ===== verification/Pyval.thy ===== *)
theory Pyval
  imports Prelude
begin

section \<open>Python values read from receipts\<close>

text \<open>
  What \<open>json.loads\<close> returns for a receipt somebody else wrote: nothing is known of its shape, so
  the evaluators meet every kind of value under every key. A finite float is the dyadic fraction
  it stands for (\<open>PFloat m e\<close> is \<open>m / 2 ^ e\<close>). \<open>py_eq\<close> is \<open>==\<close> (numbers compare by value, also
  booleans; dictionaries without regard to the order of their keys), \<open>py_true\<close> is truth. Strings
  are their UTF-8 bytes; \<open>upper\<close>, \<open>lower\<close> and \<open>isalnum\<close> are Python's on ASCII text.

  \<open>pyenv\<close> holds what the standard library makes of other texts: \<open>datetime.fromisoformat\<close>,
  \<open>float\<close> of a string and \<open>str\<close> of a float, a list or a dictionary.
\<close>

datatype pyval = PNone | PBool bool | PInt int | PFloat int nat | PStr string
  | PList "pyval list" | PDict "(string \<times> pyval) list"

datatype instant = Aware int | Naive int    \<comment> \<open>microseconds since the year 1\<close>

record pyenv =
  py_fromiso :: "string \<Rightarrow> instant option"
  py_float :: "string \<Rightarrow> (int \<times> nat) option"
  py_repr :: "pyval \<Rightarrow> string"

subsection \<open>Equality and truth\<close>

fun reduce :: "int \<Rightarrow> nat \<Rightarrow> int \<times> nat" where
  "reduce m 0 = (m, 0)"
| "reduce m (Suc e) = (if even m then reduce (m div 2) e else (m, Suc e))"

fun norm :: "pyval \<Rightarrow> pyval" where
  "norm (PBool b) = PFloat (if b then 1 else 0) 0"
| "norm (PInt i) = PFloat i 0"
| "norm (PFloat m e) = (case reduce m e of (m, e) \<Rightarrow> PFloat m e)"
| "norm (PList xs) = PList (map norm xs)"
| "norm (PDict kvs) = PDict (sort_key fst (map (map_prod id norm) kvs))"
| "norm v = v"

definition py_eq :: "pyval \<Rightarrow> pyval \<Rightarrow> bool" where
  "py_eq a b \<longleftrightarrow> norm a = norm b"

lemma py_eq_refl [simp]: "py_eq a a"
  by (simp add: py_eq_def)

lemma py_eq_sym: "py_eq a b \<longleftrightarrow> py_eq b a"
  by (auto simp: py_eq_def)

lemma py_eq_trans: "py_eq a b \<Longrightarrow> py_eq b c \<Longrightarrow> py_eq a c"
  by (simp add: py_eq_def)

text \<open>Two numbers are equal when their values are.\<close>

lemma reduce_value: "reduce m e = (m', e') \<Longrightarrow> m * 2 ^ e' = m' * 2 ^ e"
proof (induction m e arbitrary: m' e' rule: reduce.induct)
  case (2 m e)
  then show ?case by (fastforce split: if_splits)
qed simp

lemma reduce_odd: "reduce m e = (m', e') \<Longrightarrow> e' = 0 \<or> odd m'"
  by (induction m e rule: reduce.induct) (auto split: if_splits)

lemma odd_fraction_eq:
  assumes "m * 2 ^ e' = m' * (2 :: int) ^ e" "e = 0 \<or> odd m" "e' = 0 \<or> odd m'"
  shows "m = m' \<and> e = e'"
proof -
  have lt: False if "m * 2 ^ e' = m' * (2 :: int) ^ e" "e < e'" "e' = 0 \<or> odd m'" for m m' :: int and e e'
  proof -
    from that(2) have "(2 :: int) ^ e' = 2 ^ (e' - e) * 2 ^ e" by (simp flip: power_add)
    with that(1) have "m * 2 ^ (e' - e) = m'" by (metis mult.assoc mult_right_cancel power_not_zero zero_neq_numeral)
    then have "even m'" using that(2) by (metis dvd_mult dvd_power zero_less_diff)
    with that(2,3) show False by simp
  qed
  have "e = e'"
    using lt [of m e' m' e] lt [of m' e m e'] assms by (metis linorder_neqE_nat)
  with assms(1) show ?thesis by simp
qed

lemma py_eq_float: "py_eq (PFloat m e) (PFloat m' e') \<longleftrightarrow> m * 2 ^ e' = m' * 2 ^ e"
proof -
  obtain a b where r: "reduce m e = (a, b)" by fastforce
  obtain c d where r': "reduce m' e' = (c, d)" by fastforce
  note v = reduce_value [OF r] reduce_value [OF r'] and o = reduce_odd [OF r] reduce_odd [OF r']
  have "a * 2 ^ d = c * 2 ^ b \<longleftrightarrow> m * 2 ^ e' = m' * 2 ^ e"
  proof -
    have "a * 2 ^ d * (2 ^ e * 2 ^ e') = (a * 2 ^ e) * (2 ^ d * 2 ^ e')" by (simp only: ac_simps)
    also have "\<dots> = m * 2 ^ e' * (2 ^ b * 2 ^ d)" unfolding v(1) [symmetric] by (simp only: ac_simps)
    finally have l: "a * 2 ^ d * (2 ^ e * 2 ^ e') = m * 2 ^ e' * (2 ^ b * 2 ^ d)" .
    have "c * 2 ^ b * (2 ^ e * 2 ^ e') = (c * 2 ^ e') * (2 ^ b * 2 ^ e)" by (simp only: ac_simps)
    also have "\<dots> = m' * 2 ^ e * (2 ^ b * 2 ^ d)" unfolding v(2) [symmetric] by (simp only: ac_simps)
    finally have r: "c * 2 ^ b * (2 ^ e * 2 ^ e') = m' * 2 ^ e * (2 ^ b * 2 ^ d)" .
    have "a * 2 ^ d = c * 2 ^ b \<longleftrightarrow> a * 2 ^ d * (2 ^ e * 2 ^ e') = c * 2 ^ b * (2 ^ e * 2 ^ e')" by simp
    also have "\<dots> \<longleftrightarrow> m * 2 ^ e' = m' * 2 ^ e" unfolding l r by simp
    finally show ?thesis .
  qed
  then show ?thesis using odd_fraction_eq [of a d c b] o by (auto simp: py_eq_def r r')
qed

fun py_true :: "pyval \<Rightarrow> bool" where
  "py_true PNone = False"
| "py_true (PBool b) = b"
| "py_true (PInt i) = (i \<noteq> 0)"
| "py_true (PFloat m e) = (m \<noteq> 0)"
| "py_true (PStr s) = (s \<noteq> [])"
| "py_true (PList xs) = (xs \<noteq> [])"
| "py_true (PDict kvs) = (kvs \<noteq> [])"

definition or_empty :: "pyval \<Rightarrow> pyval" where
  \<comment> \<open>\<open>v or []\<close>\<close>
  "or_empty v = (if py_true v then v else PList [])"

definition py_get :: "(string \<times> pyval) list \<Rightarrow> string \<Rightarrow> pyval" where
  "py_get d k = (case map_of d k of None \<Rightarrow> PNone | Some v \<Rightarrow> v)"

subsection \<open>Conversions\<close>

fun py_len :: "pyval \<Rightarrow> nat result" where
  "py_len (PStr s) = Inr (length s)"
| "py_len (PList xs) = Inr (length xs)"
| "py_len (PDict kvs) = Inr (length kvs)"
| "py_len _ = Inl TypeError"

fun to_float :: "pyenv \<Rightarrow> pyval \<Rightarrow> (int \<times> nat) result" where
  "to_float P (PBool b) = Inr (if b then 1 else 0, 0)"
| "to_float P (PInt i) = Inr (i, 0)"
| "to_float P (PFloat m e) = Inr (m, e)"
| "to_float P (PStr s) = (case py_float P s of Some r \<Rightarrow> Inr r | None \<Rightarrow> Inl ValueError)"
| "to_float P _ = Inl TypeError"

definition float_ge :: "int \<times> nat \<Rightarrow> int \<Rightarrow> bool" where
  "float_ge f n \<longleftrightarrow> n * 2 ^ snd f \<le> fst f"

fun py_str :: "pyenv \<Rightarrow> pyval \<Rightarrow> string" where
  "py_str P PNone = ''None''"
| "py_str P (PBool b) = (if b then ''True'' else ''False'')"
| "py_str P (PInt i) = show_int i"
| "py_str P (PStr s) = s"
| "py_str P v = py_repr P v"

definition is_lower :: "char \<Rightarrow> bool" where
  "is_lower c \<longleftrightarrow> (97 :: nat) \<le> of_char c \<and> of_char c \<le> (122 :: nat)"

definition is_upper :: "char \<Rightarrow> bool" where
  "is_upper c \<longleftrightarrow> (65 :: nat) \<le> of_char c \<and> of_char c \<le> (90 :: nat)"

definition is_digit :: "char \<Rightarrow> bool" where
  "is_digit c \<longleftrightarrow> (48 :: nat) \<le> of_char c \<and> of_char c \<le> (57 :: nat)"

definition upper :: "string \<Rightarrow> string" where
  "upper = map (\<lambda>c. if is_lower c then char_of (of_char c - (32 :: nat)) else c)"

definition lower :: "string \<Rightarrow> string" where
  "lower = map (\<lambda>c. if is_upper c then char_of (of_char c + (32 :: nat)) else c)"

definition isalnum :: "char \<Rightarrow> bool" where
  "isalnum c \<longleftrightarrow> is_lower c \<or> is_upper c \<or> is_digit c"

subsection \<open>Sequencing pure computations that may raise\<close>

definition bindr :: "'a result \<Rightarrow> ('a \<Rightarrow> 'b result) \<Rightarrow> 'b result" where
  "bindr m k = (case m of Inl e \<Rightarrow> Inl e | Inr a \<Rightarrow> k a)"

lemma bindr_simps [simp]: "bindr (Inl e) k = Inl e" "bindr (Inr a) k = k a"
  by (simp_all add: bindr_def)

lemma bindr_Inr: "bindr m k = Inr b \<longleftrightarrow> (\<exists>a. m = Inr a \<and> k a = Inr b)"
  by (cases m) simp_all

fun mapr :: "('a \<Rightarrow> 'b result) \<Rightarrow> 'a list \<Rightarrow> 'b list result" where
  "mapr f [] = Inr []"
| "mapr f (x # xs) = bindr (f x) (\<lambda>y. bindr (mapr f xs) (\<lambda>ys. Inr (y # ys)))"

fun filterr :: "('a \<Rightarrow> bool result) \<Rightarrow> 'a list \<Rightarrow> 'a list result" where
  "filterr f [] = Inr []"
| "filterr f (x # xs) = bindr (f x) (\<lambda>b. bindr (filterr f xs) (\<lambda>ys. Inr (if b then x # ys else ys)))"

lemma mapr_Inr: "mapr f xs = Inr ys \<longleftrightarrow> list_all2 (\<lambda>x y. f x = Inr y) xs ys"
  by (induction xs arbitrary: ys) (auto simp: bindr_Inr list_all2_Cons1)

lemma filterr_subset: "filterr f xs = Inr ys \<Longrightarrow> y \<in> set ys \<Longrightarrow> y \<in> set xs \<and> f y = Inr True"
  by (induction xs arbitrary: ys) (auto simp: bindr_Inr split: if_splits)

end
