(* ===== verification/Evidence.thy ===== *)
theory Evidence
  imports Pyval "HOL-Library.Product_Lexorder"
begin

section \<open>The evidence index (\<^verbatim>\<open>cutover/gates.py\<close>, \<open>EvidenceIndex\<close>)\<close>

text \<open>
  Every JSON receipt below \<open>receipts/\<close>, grouped by its \<open>schema\<close> and sorted by its time. The input is
  what \<open>os.walk\<close> delivers: directories (relative to the program root) with their files, and for
  each file its size, the value \<open>json.loads\<close> gives and the digest of its bytes, or the name of the
  exception the access raises. Comparing a time with an offset to one without raises in Python:
  the constructor is fallible.
\<close>

subsection \<open>Times\<close>

definition digits :: "string \<Rightarrow> nat" where
  "digits s = foldl (\<lambda>n c. 10 * n + (of_char c - 48)) 0 s"

definition leap :: "nat \<Rightarrow> bool" where
  "leap y \<longleftrightarrow> y mod 4 = 0 \<and> (y mod 100 \<noteq> 0 \<or> y mod 400 = 0)"

definition month_lengths :: "nat \<Rightarrow> nat list" where
  "month_lengths y = [31, if leap y then 29 else 28, 31, 30, 31, 30, 31, 31, 30, 31, 30, 31]"

text \<open>Days since the first day of the year 1.\<close>

definition day_number :: "nat \<Rightarrow> nat \<Rightarrow> nat \<Rightarrow> nat" where
  "day_number y m d = (y - 1) * 365 + (y - 1) div 4 - (y - 1) div 100 + (y - 1) div 400
     + sum_list (take (m - 1) (month_lengths y)) + (d - 1)"

text \<open>\<^verbatim>\<open>strptime(s, "%Y-%m-%dT%H:%M:%SZ")\<close> on the twenty-character form, the one the tools write. Shorter fields,
  which \<^verbatim>\<open>strptime\<close> takes as well, are left to \<open>py_fromiso\<close>, the parameter for the texts the model does not parse.\<close>

definition digit_positions :: "nat list" where
  "digit_positions = [0, 1, 2, 3, 5, 6, 8, 9, 11, 12, 14, 15, 17, 18]"

definition strptime_z :: "string \<Rightarrow> int option" where
  "strptime_z s =
    (if length s = 20 \<and> list_all (\<lambda>i. is_digit (s ! i)) digit_positions \<and>
        s ! 4 = CHR ''-'' \<and> s ! 7 = CHR ''-'' \<and> s ! 10 = CHR ''T'' \<and> s ! 13 = CHR '':'' \<and> s ! 16 = CHR '':'' \<and>
        s ! 19 = CHR ''Z''
     then let y = digits (take 4 s); mo = digits (take 2 (drop 5 s)); d = digits (take 2 (drop 8 s));
              h = digits (take 2 (drop 11 s)); mi = digits (take 2 (drop 14 s)); sec = digits (take 2 (drop 17 s))
          in if 1 \<le> y \<and> 1 \<le> mo \<and> mo \<le> 12 \<and> 1 \<le> d \<and> d \<le> month_lengths y ! (mo - 1) \<and> h < 24 \<and> mi < 60 \<and> sec < 60
             then Some (1000000 * int (((day_number y mo d * 24 + h) * 60 + mi) * 60 + sec)) else None
     else None)"

definition replace_z :: "string \<Rightarrow> string" where
  "replace_z s = concat (map (\<lambda>c. if c = CHR ''Z'' then ''+00:00'' else [c]) s)"

definition parse_iso :: "pyenv \<Rightarrow> pyval \<Rightarrow> instant option" where
  "parse_iso P v = (case v of PStr s \<Rightarrow> (case strptime_z s of Some t \<Rightarrow> Some (Aware t)
       | None \<Rightarrow> py_fromiso P (replace_z s))
     | _ \<Rightarrow> None)"

subsection \<open>Documents\<close>

record evidence_doc =
  d_path :: string
  d_digest :: string
  d_schema :: string
  d_doc :: "(string \<times> pyval) list"
  d_captured :: "instant option"

record evidence_ref =
  r_path :: string
  r_digest :: string
  r_captured :: "instant option"    \<comment> \<open>formatted in the source\<close>

definition doc_ref :: "evidence_doc \<Rightarrow> evidence_ref" where
  "doc_ref d = \<lparr>r_path = d_path d, r_digest = d_digest d, r_captured = d_captured d\<rparr>"

definition refs :: "evidence_doc list \<Rightarrow> evidence_ref list" where
  "refs docs = map doc_ref (take 12 docs)"

definition MAX_PARSE_BYTES :: nat where
  "MAX_PARSE_BYTES = 2000000"

record file_entry =
  f_size :: "string + nat"           \<comment> \<open>or the name of the exception of \<open>stat\<close>\<close>
  f_json :: "string + pyval"         \<comment> \<open>or the name of the exception of reading and parsing\<close>
  f_sha :: string

type_synonym walk = "(string \<times> (string \<times> file_entry) list) list"

datatype skip_reason = StatFailed string | LargerThanParseLimit nat | Unparsable string

record evidence_index =
  ix_by_schema :: "(string \<times> evidence_doc list) list"
  ix_skipped :: "(string \<times> skip_reason) list"
  ix_files :: nat

subsection \<open>Building the index\<close>

definition add_doc :: "evidence_doc \<Rightarrow> evidence_index \<Rightarrow> evidence_index" where
  "add_doc d ix = ix\<lparr>ix_by_schema := AList.update (d_schema d)
     ((case map_of (ix_by_schema ix) (d_schema d) of None \<Rightarrow> [] | Some ds \<Rightarrow> ds) @ [d]) (ix_by_schema ix)\<rparr>"

definition captured_field :: "(string \<times> pyval) list \<Rightarrow> pyval" where
  "captured_field doc = (let c = py_get doc ''captured_at_utc'' in
     if py_true c then c else py_get doc ''issued_at_utc'')"

definition index_file :: "pyenv \<Rightarrow> string \<Rightarrow> file_entry \<Rightarrow> evidence_index \<Rightarrow> evidence_index" where
  "index_file P path f ix =
    (let ix = ix\<lparr>ix_files := ix_files ix + 1\<rparr>;
         skip = (\<lambda>why. ix\<lparr>ix_skipped := ix_skipped ix @ [(path, why)]\<rparr>)
     in case f_size f of
          Inl exc \<Rightarrow> skip (StatFailed exc)
        | Inr n \<Rightarrow>
            if MAX_PARSE_BYTES < n then skip (LargerThanParseLimit n)
            else (case f_json f of
                Inl exc \<Rightarrow> skip (Unparsable exc)
              | Inr (PDict doc) \<Rightarrow>
                  (case py_get doc ''schema'' of
                     PStr schema \<Rightarrow> add_doc \<lparr>d_path = path, d_digest = f_sha f, d_schema = schema, d_doc = doc,
                        d_captured = parse_iso P (captured_field doc)\<rparr> ix
                   | _ \<Rightarrow> ix)
              | Inr _ \<Rightarrow> ix))"

definition index_dir :: "pyenv \<Rightarrow> string \<times> (string \<times> file_entry) list \<Rightarrow> evidence_index \<Rightarrow> evidence_index" where
  "index_dir P dir ix = fold (\<lambda>(name, f) ix. if suffix ''.json'' name
     then index_file P (fst dir @ ''/'' @ name) f ix else ix) (sort_key fst (snd dir)) ix"

text \<open>The sort key of a document; a document without a time counts as the earliest instant.\<close>

definition sort_time :: "evidence_doc \<Rightarrow> instant" where
  "sort_time d = (case d_captured d of Some t \<Rightarrow> t | None \<Rightarrow> Aware 0)"

fun micros :: "instant \<Rightarrow> int" where
  "micros (Aware t) = t"
| "micros (Naive t) = t"

fun is_aware :: "instant \<Rightarrow> bool" where
  "is_aware (Aware _) = True"
| "is_aware (Naive _) = False"

text \<open>\<open>docs.sort(...)\<close>: a sort determines the whole order, so it compares a time with an offset to one
  without as soon as both occur.\<close>

definition sort_docs :: "evidence_doc list \<Rightarrow> evidence_doc list result" where
  "sort_docs ds =
    (if list_all (\<lambda>d. is_aware (sort_time d)) ds \<or> list_all (\<lambda>d. \<not> is_aware (sort_time d)) ds
     then Inr (sort_key (\<lambda>d. (micros (sort_time d), d_path d)) ds) else Inl TypeError)"

definition EvidenceIndex :: "pyenv \<Rightarrow> walk \<Rightarrow> evidence_index result" where
  "EvidenceIndex P w =
    (let ix = fold (index_dir P) w \<lparr>ix_by_schema = [], ix_skipped = [], ix_files = 0\<rparr>
     in bindr (mapr (\<lambda>(k, ds). bindr (sort_docs ds) (\<lambda>ds. Inr (k, ds))) (ix_by_schema ix)) (\<lambda>by_schema.
          Inr (ix\<lparr>ix_by_schema := by_schema\<rparr>)))"

definition of_schema :: "evidence_index \<Rightarrow> string \<Rightarrow> evidence_doc list" where
  "of_schema ix schema = (case map_of (ix_by_schema ix) schema of None \<Rightarrow> [] | Some ds \<Rightarrow> ds)"

definition dget :: "evidence_doc \<Rightarrow> string \<Rightarrow> pyval" where
  "dget d k = py_get (d_doc d) k"

end
