(* ===== verification/Gates.thy ===== *)
theory Gates
  imports Evidence Ladder
begin

section \<open>The evidence gates (\<^verbatim>\<open>cutover/gates.py\<close>)\<close>

text \<open>
  One evaluator per requirement, in the order of the source, and the aggregation per ladder
  transition. A verdict is tri-valued. The detail of a verdict keeps the keys of the source's
  dictionary except the constant prose (\<open>required\<close>, \<open>note\<close>, the questions); where an f-string shows a
  value by its \<open>repr\<close> the value itself is kept. \<open>P\<close> is the Python environment of \<open>Pyval\<close>.
\<close>

datatype verdict = PASS | BLOCK | NOT_MEASURED

fun verdict_name :: "verdict \<Rightarrow> string" where
  "verdict_name PASS = ''PASS''"
| "verdict_name BLOCK = ''BLOCK''"
| "verdict_name NOT_MEASURED = ''NOT_MEASURED''"

datatype dval = DVal pyval | DRefs "evidence_ref list"

type_synonym detail = "(string \<times> dval) list"
type_synonym finding = "verdict \<times> string option \<times> detail"

abbreviation texts :: "string list \<Rightarrow> dval" where
  "texts ss \<equiv> DVal (PList (map PStr ss))"

abbreviation num :: "nat \<Rightarrow> dval" where
  "num n \<equiv> DVal (PInt (int n))"

definition latest_ref :: "evidence_doc list \<Rightarrow> dval" where
  "latest_ref docs = (if docs = [] then DVal PNone else DRefs [doc_ref (last docs)])"

text \<open>\<^verbatim>\<open>(PASS, None, detail) if ok else (BLOCK, code, detail)\<close>.\<close>

definition pass_or_block :: "bool \<Rightarrow> string \<Rightarrow> detail \<Rightarrow> finding" where
  "pass_or_block ok code det = (if ok then (PASS, None, det) else (BLOCK, Some code, det))"

text \<open>The requirements that only ask whether a receipt of the class exists.\<close>

definition presence :: "evidence_index \<Rightarrow> string \<Rightarrow> string \<Rightarrow> string \<Rightarrow> finding" where
  "presence ix cls wanted code = (let docs = of_schema ix cls in
     pass_or_block (docs \<noteq> []) code
       [(''present'', DRefs (refs docs)), (''missing'', texts (if docs \<noteq> [] then [] else [wanted]))])"

subsection \<open>The shadow projection\<close>

definition add_run :: "pyval \<Rightarrow> (pyval \<times> nat) list \<Rightarrow> (pyval \<times> nat) list" where
  "add_run dig rs = (if rs \<noteq> [] \<and> py_eq (fst (last rs)) dig
     then butlast rs @ [(dig, snd (last rs) + 1)] else rs @ [(dig, 1)])"

definition shadow_docs :: "evidence_index \<Rightarrow> evidence_doc list" where
  "shadow_docs ix = filter (\<lambda>d. py_true (dget d ''output_digest'')) (of_schema ix ''ShadowProjectionReceipt/v1'')"

definition shadow_runs :: "evidence_index \<Rightarrow> evidence_doc list \<times> (pyval \<times> nat) list" where
  "shadow_runs ix = (let docs = shadow_docs ix in (docs, fold (\<lambda>d. add_run (dget d ''output_digest'')) docs []))"

text \<open>\<open>max(runs, key=...)\<close>: the first of the longest.\<close>

fun longest_stable_run :: "(pyval \<times> nat) list \<Rightarrow> pyval option \<times> nat" where
  "longest_stable_run [] = (None, 0)"
| "longest_stable_run (r # rs) = (case fold (\<lambda>r best. if snd best < snd r then r else best) rs r of
     (dig, n) \<Rightarrow> (Some dig, n))"

definition opt_val :: "pyval option \<Rightarrow> dval" where
  "opt_val v = DVal (case v of None \<Rightarrow> PNone | Some x \<Rightarrow> x)"

definition shadow_stable :: "evidence_index \<Rightarrow> finding" where
  "shadow_stable ix = (case shadow_runs ix of (docs, rs) \<Rightarrow> case longest_stable_run rs of (dig, longest) \<Rightarrow>
     let det = [(''receipts_found'', num (length docs)), (''longest_stable_run'', num longest),
           (''longest_stable_run_output_digest'', opt_val dig),
           (''runs'', DVal (PList (map (\<lambda>(d, n). PDict [(''output_digest'', d), (''consecutive'', PInt (int n))]) rs))),
           (''present'', DRefs (refs docs)),
           (''missing'', texts (if 10 \<le> longest then []
              else [show_nat (10 - longest) @ '' further consecutive ShadowProjectionReceipt/v1 with the same output_digest'']))]
     in if docs = [] then (NOT_MEASURED, Some ''SHADOW_PROJECTION_NOT_MEASURED'', det)
        else pass_or_block (10 \<le> longest) ''SHADOW_NOT_YET_STABLE'' det)"

subsection \<open>Parity\<close>

definition status_text :: "pyenv \<Rightarrow> evidence_doc \<Rightarrow> string \<Rightarrow> string" where
  \<comment> \<open>\<^verbatim>\<open>str(d.doc.get(k, "")).upper()\<close>\<close>
  "status_text P d k = upper (case map_of (d_doc d) k of None \<Rightarrow> [] | Some v \<Rightarrow> py_str P v)"

definition good_parity :: "pyenv \<Rightarrow> evidence_doc \<Rightarrow> bool result" where
  "good_parity P d =
    (if dget d ''identical_digest'' \<noteq> PBool True then Inr False
     else bindr (to_float P (if py_true (dget d ''gap_seconds'') then dget d ''gap_seconds'' else PInt 0)) (\<lambda>gap.
       Inr (float_ge gap 3600 \<and> status_text P d ''status'' \<in> {''VERIFIED'', ''PASS''})))"

definition parity_pairs :: "pyenv \<Rightarrow> evidence_index \<Rightarrow> finding result" where
  "parity_pairs P ix =
    (let docs = of_schema ix ''ProjectionParity/v1'' in
     bindr (filterr (good_parity P) docs) (\<lambda>good.
     let det = [(''receipts_found'', num (length docs)), (''qualifying'', num (length good)),
           (''present'', DRefs (refs docs)),
           (''rejected'', DVal (PList (map (\<lambda>d. PDict [(''path'', PStr (d_path d)),
              (''identical_digest'', dget d ''identical_digest''), (''gap_seconds'', dget d ''gap_seconds''),
              (''status'', dget d ''status'')]) (filter (\<lambda>d. d \<notin> set good) docs)))),
           (''missing'', texts (if 2 \<le> length good then []
              else [show_nat (2 - length good) @ '' further qualifying ProjectionParity/v1'']))]
     in Inr (if docs = [] then (NOT_MEASURED, Some ''PARITY_NOT_MEASURED'', det)
             else pass_or_block (2 \<le> length good) ''PARITY_INSUFFICIENT'' det)))"

subsection \<open>The derived-row markers\<close>

text \<open>\<^verbatim>\<open>[u.get('legacyId') for u in rows][:10]\<close>.\<close>

definition legacy_ids :: "pyval \<Rightarrow> pyval result" where
  "legacy_ids rows = (case rows of
     PList xs \<Rightarrow> bindr (mapr (\<lambda>x. case x of PDict d \<Rightarrow> Inr (py_get d ''legacyId'') | _ \<Rightarrow> Inl AttributeError) xs)
       (\<lambda>ids. Inr (PList (take 10 ids)))
   | _ \<Rightarrow> Inl AttributeError)"

definition violation :: "bool \<Rightarrow> string \<Rightarrow> nat \<Rightarrow> pyval \<Rightarrow> pyval list result" where
  "violation on label n rows = (if \<not> on then Inr []
     else bindr (legacy_ids rows) (\<lambda>ids. Inr [PList [PInt (int n), PStr label, ids]]))"

definition derived_marker_audit :: "nmutation set \<Rightarrow> detail \<Rightarrow> pyval option \<Rightarrow> evidence_doc \<Rightarrow> finding result" where
  "derived_marker_audit muts det0 steady latest =
    (let unmarked = or_empty (dget latest ''unmarked_derived''); malformed = or_empty (dget latest ''malformed_markers'');
         in_place = or_empty (dget latest ''in_place_rewrites'');
         held_total = dget latest ''held_total''; held_both = dget latest ''held_both_values_count'';
         audited = dget latest ''tree_digest''
     in bindr (py_len unmarked) (\<lambda>nu. bindr (py_len malformed) (\<lambda>nm. bindr (py_len in_place) (\<lambda>ni.
        let det = det0 @ [(''latest_audit'', DRefs [doc_ref latest]), (''audited_tree_digest'', DVal audited),
              (''rows_total'', DVal (dget latest ''rows_total'')),
              (''derived_eligible_rows'', DVal (dget latest ''derived_eligible_rows'')),
              (''derived_marked_count'', DVal (dget latest ''derived_marked_count'')),
              (''unmarked_derived_count'', num nu), (''malformed_marker_count'', num nm),
              (''in_place_rewrite_count'', num ni), (''held_total'', DVal held_total),
              (''held_both_values_count'', DVal held_both)];
            stale = (case steady of None \<Rightarrow> True | Some dig \<Rightarrow> \<not> py_eq audited dig)
        in if stale \<and> N15_derived_marker_stale_accepted \<notin> muts
           then Inr (BLOCK, Some ''MARKER_AUDIT_STALE'', det @ [(''missing'', DVal (PList [PList
                  [PStr ''a DerivedMarkerAudit/v1 whose tree_digest matches the stable run'',
                   (case steady of None \<Rightarrow> PNone | Some dig \<Rightarrow> dig), audited]]))])
           else bindr (violation (py_true unmarked) ''unmarked derived row(s)'' nu unmarked) (\<lambda>v1.
                bindr (violation (py_true malformed) ''malformed derived marker(s)'' nm malformed) (\<lambda>v2.
                bindr (violation (py_true in_place \<and> N14_derived_marker_ignores_in_place_rewrite \<notin> muts)
                         ''identity(ies) with a raw status rewritten in place'' ni in_place) (\<lambda>v3.
                let v4 = (if held_total \<noteq> PNone \<and> held_both \<noteq> PNone \<and> \<not> py_eq held_both held_total
                          then [PList [PStr ''held identities render every raw value'', held_both, held_total]] else []);
                    vs = v1 @ v2 @ v3 @ v4
                in Inr (pass_or_block (vs = []) ''DERIVED_MARKER_VIOLATION'' (det @ [(''missing'', DVal (PList vs))])))))))))"

definition derived_marker :: "nmutation set \<Rightarrow> evidence_index \<Rightarrow> finding result" where
  "derived_marker muts ix =
    (let docs = of_schema ix ''DerivedMarkerAudit/v1'' in
     case longest_stable_run (snd (shadow_runs ix)) of (steady, n) \<Rightarrow>
     let det = [(''receipts_found'', num (length docs)), (''present'', DRefs (refs docs)),
           (''stable_run_output_digest'', opt_val steady), (''stable_run_length'', num n)]
     in if docs = [] then Inr (NOT_MEASURED, Some ''DERIVED_MARKER_NOT_MEASURED'', det @ [(''missing'', texts
          [''a DerivedMarkerAudit/v1 receipt (tools/projection/marker_audit.py has not been run '' @
           ''against a shadow-branch revision yet)''])])
        else derived_marker_audit muts det steady (last docs))"

subsection \<open>The freeze and the fence\<close>

definition freeze_activation :: "evidence_index \<Rightarrow> finding" where
  "freeze_activation ix = presence ix ''FreezeActivationReceipt/v1''
     ''FreezeActivationReceipt/v1 (no document of this class exists)'' ''FREEZE_NOT_ACTIVATED''"

definition clean_observation :: "evidence_doc \<Rightarrow> bool" where
  "clean_observation d \<longleftrightarrow>
     (py_eq (dget d ''foreign_writes'') (PInt 0) \<or> py_eq (dget d ''foreign_writes'') (PList []) \<or>
      dget d ''foreign_writes'' = PNone) \<and> dget d ''canary_seen'' = PBool True"

definition fence_observation_window :: "evidence_index \<Rightarrow> finding" where
  "fence_observation_window ix =
    (let docs = of_schema ix ''FenceObservationReceipt/v1''; clean = filter clean_observation docs;
         det = [(''window_hours_minimum'', num 72), (''receipts_found'', num (length docs)),
           (''receipts_with_canary_and_no_foreign_write'', num (length clean)), (''present'', DRefs (refs docs)),
           (''missing'', texts (if 72 \<le> length clean then []
              else [show_nat (72 - length clean) @ '' further hourly FenceObservationReceipt/v1 with canary_seen = true'']))]
     in if docs = [] then (NOT_MEASURED, Some ''FENCE_OBSERVATION_NOT_MEASURED'', det)
        else pass_or_block (72 \<le> length clean) ''FENCE_WINDOW_INCOMPLETE'' det)"

definition fleet_drain :: "evidence_index \<Rightarrow> finding" where
  "fleet_drain ix =
    (let docs = of_schema ix ''FleetDrainReceipt/v1'';
         undetermined = (if docs = [] then PNone else dget (last docs) ''undetermined_count'');
         det = [(''present'', DRefs (refs docs)), (''latest'', latest_ref docs), (''undetermined_count'', DVal undetermined),
           (''missing'', texts (if docs \<noteq> [] then [] else [''FleetDrainReceipt/v1'']))]
     in if docs = [] then (NOT_MEASURED, Some ''DRAIN_NOT_MEASURED'', det)
        else pass_or_block (py_eq undetermined (PInt 0)) ''DRAIN_UNDETERMINED'' det)"

definition freeze_rollback_drill :: "pyenv \<Rightarrow> evidence_index \<Rightarrow> finding" where
  "freeze_rollback_drill P ix =
    (let docs = of_schema ix ''FreezeRollbackDrillReceipt/v1'';
         ok = filter (\<lambda>d. prefix ''PASS'' (status_text P d ''verdict'')) docs;
         det = [(''present'', DRefs (refs docs)), (''passing'', DRefs (refs ok)),
           (''missing'', texts (if ok \<noteq> [] then [] else [''a passing FreezeRollbackDrillReceipt/v1'']))]
     in if docs = [] then (NOT_MEASURED, Some ''FREEZE_ROLLBACK_NOT_MEASURED'', det)
        else pass_or_block (ok \<noteq> []) ''FREEZE_ROLLBACK_NOT_PASSED'' det)"

definition fence_proof :: "evidence_index \<Rightarrow> finding" where
  "fence_proof ix = presence ix ''FenceProofReceipt/v1''
     (''FenceProofReceipt/v1 (class not minted yet; this evaluator fixes the name '' @ ''for the producing card)'')
     ''FENCE_PROOF_MISSING''"

definition projection_100 :: "evidence_index \<Rightarrow> finding" where
  "projection_100 ix =
    (let docs = of_schema ix ''ShadowProjectionReceipt/v1'';
         field = (\<lambda>k. if docs = [] then PNone else dget (last docs) k);
         rows = field ''rows_total''; identical = field ''rows_identical'';
         ok = (py_eq rows (PInt 1382) \<and> py_eq identical rows);
         det = [(''expected_rows'', num 1382), (''latest'', latest_ref docs), (''rows_total'', DVal rows),
           (''rows_identical'', DVal identical), (''findings'', DVal (field ''finding_count'')),
           (''present'', DRefs (refs (drop (length docs - 3) docs))),
           (''missing'', texts (if ok then []
              else [''a receipt in which every fenced row is verified (rows_identical = rows_total = 1382)'']))]
     in if docs = [] then (NOT_MEASURED, Some ''PROJECTION_NOT_MEASURED'', det)
        else pass_or_block ok ''PROJECTION_NOT_VERIFIED'' det)"

subsection \<open>The delta batch\<close>

definition DELTA_CONDITIONS :: "string list" where
  "DELTA_CONDITIONS = [''sourceSetEpoch_git_pinned'', ''capturedAt_pinned'', ''unmappedCount_0'',
     ''statusMapRevision_unchanged_or_bumped_by_decision'', ''rerun_converges_to_one_occurrenceDigest'',
     ''epoch1_occurrenceDigest_unchanged'', ''new_conflicts_projected_under_DEC_AUP_0014'',
     ''verify_import_passes_under_batch_epoch'']"

definition DELTA_CONDITION_ALIASES :: "(string \<times> string) list" where
  "DELTA_CONDITION_ALIASES =
    [(''sourceSetEpoch git-pinned'', ''sourceSetEpoch_git_pinned''),
     (''capturedAt pinned'', ''capturedAt_pinned''),
     (''unmappedCount = 0'', ''unmappedCount_0''),
     (''statusMapRevision unchanged or bumped by decision'', ''statusMapRevision_unchanged_or_bumped_by_decision''),
     (''rerun converges to one occurrenceDigest'', ''rerun_converges_to_one_occurrenceDigest''),
     (''epoch-1 occurrenceDigest unchanged'', ''epoch1_occurrenceDigest_unchanged''),
     (''new conflicts projected under DEC-AUP-0014'', ''new_conflicts_projected_under_DEC_AUP_0014''),
     (''verify_import.py PASS under the batch's epoch'', ''verify_import_passes_under_batch_epoch'')]"

definition slug :: "string \<Rightarrow> string" where
  "slug s = filter isalnum (lower s)"

definition match_delta_condition :: "string \<Rightarrow> string option" where
  "match_delta_condition label =
    (case map_of (map (\<lambda>c. (slug c, c)) DELTA_CONDITIONS) (slug label) of
       Some c \<Rightarrow> Some c
     | None \<Rightarrow> map_of (map (\<lambda>(k, c). (slug k, c)) DELTA_CONDITION_ALIASES) (slug label))"

type_synonym pydict = "(string \<times> pyval) list"

fun checklist_items :: "pyval list \<Rightarrow> pydict \<times> pydict \<Rightarrow> (pydict \<times> pydict) option" where
  "checklist_items [] acc = Some acc"
| "checklist_items (x # xs) (conds, extra) = (case x of
     PDict d \<Rightarrow> (case py_get d ''check'' of
         PStr label \<Rightarrow> checklist_items xs (case match_delta_condition label of
             Some c \<Rightarrow> (AList.update c (py_get d ''verdict'') conds, extra)
           | None \<Rightarrow> (conds, AList.update label (py_get d ''verdict'') extra))
       | _ \<Rightarrow> None)
   | _ \<Rightarrow> None)"

definition normalize_delta_checklist :: "nmutation set \<Rightarrow> pyval \<Rightarrow> (pydict \<times> pydict) option" where
  "normalize_delta_checklist muts block = (case block of
     PDict d \<Rightarrow> Some (concat (map (\<lambda>c. case map_of d c of None \<Rightarrow> [] | Some v \<Rightarrow> [(c, v)]) DELTA_CONDITIONS),
                      filter (\<lambda>kv. fst kv \<notin> set DELTA_CONDITIONS) d)
   | PList xs \<Rightarrow> if N12_delta_checklist_list_shape_dropped \<notin> muts then checklist_items xs ([], [])
       else if N13_delta_checklist_mismatch_ignored \<in> muts then Some ([], []) else None
   | _ \<Rightarrow> if N13_delta_checklist_mismatch_ignored \<in> muts then Some ([], []) else None)"

definition condition_text :: "pyenv \<Rightarrow> pydict \<Rightarrow> string \<Rightarrow> string" where
  "condition_text P conds c =
    (let raw = py_get conds c; v = (case raw of PDict d \<Rightarrow> py_get d ''verdict'' | _ \<Rightarrow> raw)
     in if v = PNone then ''NOT_REPORTED'' else upper (py_str P v))"

definition has_checklist :: "evidence_doc \<Rightarrow> bool" where
  "has_checklist d \<longleftrightarrow> list_ex (\<lambda>(k, _). prefix ''delta_imported_checklist'' k) (d_doc d)"

definition checklist_block :: "evidence_doc \<Rightarrow> pyval" where
  "checklist_block d = (case find (\<lambda>(k, _). prefix ''delta_imported_checklist'' k) (d_doc d) of
     Some (_, v) \<Rightarrow> v | None \<Rightarrow> PDict [])"

definition type_name :: "pyval \<Rightarrow> string" where
  "type_name v = (case v of PNone \<Rightarrow> ''NoneType'' | PBool _ \<Rightarrow> ''bool'' | PInt _ \<Rightarrow> ''int'' | PFloat _ _ \<Rightarrow> ''float''
     | PStr _ \<Rightarrow> ''str'' | PList _ \<Rightarrow> ''list'' | PDict _ \<Rightarrow> ''dict'')"

definition delta_verdict :: "pyenv \<Rightarrow> detail \<Rightarrow> evidence_doc \<Rightarrow> pydict \<Rightarrow> pydict \<Rightarrow> finding" where
  "delta_verdict P det0 latest conds extra =
    (let texts_of = map (\<lambda>c. (c, condition_text P conds c)) DELTA_CONDITIONS;
         failed = map fst (filter (\<lambda>(c, v). v \<notin> {''PASS'', ''NOT_MEASURED'', ''NOT_REPORTED''}) texts_of);
         unmeasured = map fst (filter (\<lambda>(c, v). v \<in> {''NOT_MEASURED'', ''NOT_REPORTED''}) texts_of);
         det = det0 @ [(''checklist_source'', DRefs [doc_ref latest]),
           (''conditions'', DVal (PDict (map (\<lambda>(c, v). (c, PStr v)) texts_of))),
           (''additional_conditions_reported_by_the_producer'', DVal (PDict (map (\<lambda>(k, v). (k,
              case v of PDict d \<Rightarrow> py_get d ''verdict'' | _ \<Rightarrow> v)) extra))),
           (''missing'', texts (map (\<lambda>c. ''condition '' @ c @ '' = '' @ condition_text P conds c) (failed @ unmeasured)))]
     in if failed \<noteq> [] then (BLOCK, Some ''DELTA_CONDITION_FAILED'', det)
        else if unmeasured \<noteq> [] then (NOT_MEASURED, Some ''DELTA_CONDITION_NOT_MEASURED'', det)
        else (PASS, None, det))"

definition delta_batch :: "pyenv \<Rightarrow> nmutation set \<Rightarrow> evidence_index \<Rightarrow> finding" where
  "delta_batch P muts ix =
    (let receipts = of_schema ix ''ReadinessReceipt/v1''; docs = filter has_checklist receipts;
         det = [(''checklists_found'', DRefs (refs docs)),
           (''import_verify_receipts'', DRefs (refs (filter (\<lambda>d. prefix ''receipts/import/verify-'' (d_path d)) receipts))),
           (''source_set_deltas'', num (length (of_schema ix ''SourceSetDelta/v1'')))]
     in if docs = [] then (BLOCK, Some ''DELTA_BATCH_NOT_ADMITTED'', det @ [(''missing'', texts
            [''a receipt carrying the DEC-AUP-0012 rule-5 checklist for the second (delta) batch '' @ em_dash @
             '' the follow-up batch for ARCA-0211 / MUN-0040 named by the decision''])])
        else let latest = last docs; block = checklist_block latest
        in case normalize_delta_checklist muts block of
             None \<Rightarrow> (BLOCK, Some ''DELTA_CHECKLIST_SCHEMA_MISMATCH'', det @ [(''checklist_source'', DRefs [doc_ref latest]),
                (''offending_shape'', DVal (PStr (type_name block))),
                (''missing'', texts [''delta_imported_checklist at '' @ d_path latest @
                   '' is neither a dict keyed by condition nor a list of {check, verdict} items''])])
           | Some (conds, extra) \<Rightarrow> delta_verdict P det latest conds extra)"

subsection \<open>Drills, the switch and the bake\<close>

definition cutover_rollback_drill :: "evidence_index \<Rightarrow> finding" where
  "cutover_rollback_drill ix = presence ix ''CutoverRollbackDrillReceipt/v1''
     ''CutoverRollbackDrillReceipt/v1'' ''CUTOVER_ROLLBACK_DRILL_MISSING''"

definition db_restore_drill :: "evidence_index \<Rightarrow> finding" where
  "db_restore_drill ix =
    (let docs = of_schema ix ''DatabaseRestoreDrillReceipt/v1'';
         surveys = filter (\<lambda>d. prefix ''receipts/recovery/backup-survey'' (d_path d)) (of_schema ix ''ReadinessReceipt/v1'')
     in pass_or_block (docs \<noteq> []) ''DB_RESTORE_DRILL_MISSING''
          [(''input_present'', DRefs (refs surveys)), (''present'', DRefs (refs docs)),
           (''missing'', texts (if docs \<noteq> [] then [] else [''DatabaseRestoreDrillReceipt/v1 (class not minted yet; the backup survey is '' @
              ''the input it must cite)'']))])"

definition writer_epoch :: "evidence_index \<Rightarrow> finding" where
  "writer_epoch ix = presence ix ''WriterEpochReceipt/v1'' ''WriterEpochReceipt/v1'' ''WRITER_EPOCH_RECEIPT_MISSING''"

definition key_inventory :: "evidence_index \<Rightarrow> finding" where
  "key_inventory ix = presence ix ''KeyInventoryReceipt/v1'' ''KeyInventoryReceipt/v1'' ''KEY_INVENTORY_MISSING''"

definition readiness_attestation :: "evidence_index \<Rightarrow> finding" where
  "readiness_attestation ix =
    (let docs = of_schema ix ''CutoverReadinessAttestation/v1'';
         blocks = filter (\<lambda>d. prefix ''receipts/mig/gate0-block'' (d_path d)) (of_schema ix ''BlockReceipt/v1'')
     in pass_or_block (docs \<noteq> []) ''READINESS_ATTESTATION_MISSING''
          [(''present'', DRefs (refs docs)), (''latest_gate_refusal'', latest_ref blocks),
           (''missing'', texts (if docs \<noteq> [] then [] else [''CutoverReadinessAttestation/v1 '' @ em_dash @
              '' AUP-MIG-015:gate0 currently issues a BlockReceipt/v1 instead'']))])"

definition bake :: "evidence_index \<Rightarrow> finding" where
  "bake ix =
    (let docs = of_schema ix ''CutoverBakeObservationReceipt/v1'';
         det = [(''hours_required'', num 24), (''present'', DRefs (refs docs)),
           (''missing'', texts (if 24 \<le> length docs then []
              else [show_nat (24 - length docs) @ '' hourly CutoverBakeObservationReceipt/v1'']))]
     in if docs = [] then (BLOCK, Some ''BAKE_NOT_STARTED'', det)
        else pass_or_block (24 \<le> length docs) ''BAKE_INCOMPLETE'' det)"

subsection \<open>The gate table and its evaluation\<close>

datatype check_fn = ShadowStable | ParityPairs | DerivedMarker | FreezeActivation | FenceObservationWindow
  | FleetDrain | FreezeRollbackDrill | FenceProof | Projection100 | DeltaBatch | CutoverRollbackDrill
  | DbRestoreDrill | WriterEpoch | KeyInventory | ReadinessAttestation | Bake

fun run_check :: "pyenv \<Rightarrow> nmutation set \<Rightarrow> evidence_index \<Rightarrow> check_fn \<Rightarrow> finding result" where
  "run_check P muts ix ShadowStable = Inr (shadow_stable ix)"
| "run_check P muts ix ParityPairs = parity_pairs P ix"
| "run_check P muts ix DerivedMarker = derived_marker muts ix"
| "run_check P muts ix FreezeActivation = Inr (freeze_activation ix)"
| "run_check P muts ix FenceObservationWindow = Inr (fence_observation_window ix)"
| "run_check P muts ix FleetDrain = Inr (fleet_drain ix)"
| "run_check P muts ix FreezeRollbackDrill = Inr (freeze_rollback_drill P ix)"
| "run_check P muts ix FenceProof = Inr (fence_proof ix)"
| "run_check P muts ix Projection100 = Inr (projection_100 ix)"
| "run_check P muts ix DeltaBatch = Inr (delta_batch P muts ix)"
| "run_check P muts ix CutoverRollbackDrill = Inr (cutover_rollback_drill ix)"
| "run_check P muts ix DbRestoreDrill = Inr (db_restore_drill ix)"
| "run_check P muts ix WriterEpoch = Inr (writer_epoch ix)"
| "run_check P muts ix KeyInventory = Inr (key_inventory ix)"
| "run_check P muts ix ReadinessAttestation = Inr (readiness_attestation ix)"
| "run_check P muts ix Bake = Inr (bake ix)"

record requirement =
  rq_id :: string
  rq_class :: string
  rq_producer :: string
  rq_check :: check_fn
  rq_also_reads :: "string list"

definition Requirement :: "string \<Rightarrow> string \<Rightarrow> string \<Rightarrow> check_fn \<Rightarrow> requirement" where
  "Requirement i c p f = \<lparr>rq_id = i, rq_class = c, rq_producer = p, rq_check = f, rq_also_reads = []\<rparr>"

record gate =
  g_from :: string
  g_to :: string
  g_rule :: string
  g_requirements :: "requirement list"

definition Gate :: "string \<Rightarrow> string \<Rightarrow> string \<Rightarrow> requirement list \<Rightarrow> gate" where
  "Gate f t r reqs = \<lparr>g_from = f, g_to = t, g_rule = r, g_requirements = reqs\<rparr>"

definition GATES :: "gate list" where
  "GATES =
    [Gate ''FILES_AUTHORITATIVE'' ''SHADOW_PROJECTION'' ''DEC-AUP-0012 rule 2 (dark launch first)''
       [Requirement ''E1.1'' ''ShadowProjectionReceipt/v1'' ''PROJ-SHADOW1 (hourly job)'' ShadowStable,
        Requirement ''E1.2'' ''ProjectionParity/v1'' ''PROJ-SHADOW1'' ParityPairs,
        (Requirement ''E1.3'' ''DerivedMarkerAudit/v1''
           ''AUP-MIG-016 shadow-marker0 (tools/projection/marker_audit.py)'' DerivedMarker)
          \<lparr>rq_also_reads := [''ShadowProjectionReceipt/v1'']\<rparr>],
     Gate ''SHADOW_PROJECTION'' ''FROZEN'' ''DEC-AUP-0012 rule 3 (FROZEN = the DEC-AUP-0011 gate)''
       [Requirement ''E2.1'' ''FreezeActivationReceipt/v1'' ''the DEC-AUP-0011 freeze-activation card'' FreezeActivation,
        Requirement ''E2.2'' ''FenceObservationReceipt/v1'' ''AUP-FENCE-OBS0 (hourly job)'' FenceObservationWindow,
        Requirement ''E2.3'' ''FleetDrainReceipt/v1'' ''the drain observer'' FleetDrain,
        Requirement ''E2.4'' ''FreezeRollbackDrillReceipt/v1'' ''AUP-FENCE-OBS0'' FreezeRollbackDrill],
     Gate ''FROZEN'' ''FENCE_ENFORCED'' ''DEC-AUP-0012 rule 3 (real rejection + ruleset refusal)''
       [Requirement ''E3.1'' ''FenceProofReceipt/v1'' ''the fence-enforcement card (DEC-AUP-0011)'' FenceProof],
     Gate ''FENCE_ENFORCED'' ''PROJECTION_VERIFIED'' ''DEC-AUP-0012 rule 4 (100 % of the fenced rows, no sampling)''
       [Requirement ''E4.1'' ''ShadowProjectionReceipt/v1'' ''PROJ-SHADOW1'' Projection100,
        Requirement ''E4.2'' ''ProjectionParity/v1'' ''PROJ-SHADOW1'' ParityPairs],
     Gate ''PROJECTION_VERIFIED'' ''DELTA_IMPORTED'' ''DEC-AUP-0012 rule 5 (a second batch only under eight conditions)''
       [Requirement ''E5.1'' ''ReadinessReceipt/v1 (receipts/import/verify-*)'' ''AUP-MUN-0041 delta-import card'' DeltaBatch],
     Gate ''DELTA_IMPORTED'' ''ROLLBACK_DRILLED'' (''DEC-AUP-0012 rule 6 (rollback '' @ [CHR 0xE2, CHR 0x89, CHR 0xA4] @
         '' 15 min + a database restore drill)'')
       [Requirement ''E6.1'' ''CutoverRollbackDrillReceipt/v1'' ''the rollback-drill card'' CutoverRollbackDrill,
        Requirement ''E6.2'' ''DatabaseRestoreDrillReceipt/v1'' ''the restore-drill card'' DbRestoreDrill],
     Gate ''ROLLBACK_DRILLED'' ''SWITCHING'' ''DEC-AUP-0012 rule 8 (one atomic program commit, least-privilege bot)''
       [Requirement ''E7.1'' ''WriterEpochReceipt/v1'' ''the SWITCHING card'' WriterEpoch,
        Requirement ''E7.2'' ''KeyInventoryReceipt/v1'' ''the SWITCHING card'' KeyInventory,
        Requirement ''E7.3'' ''CutoverReadinessAttestation/v1'' ''AUP-MIG-015:gate0'' ReadinessAttestation],
     Gate ''SWITCHING'' ''MUNERAL_AUTHORITATIVE'' ''DEC-AUP-0012 rule 9 (24 h bake)''
       [Requirement ''E8.1'' ''CutoverBakeObservationReceipt/v1'' ''the bake observer card'' Bake]]"

record check =
  ck_id :: string
  ck_class :: string
  ck_producer :: string
  ck_verdict :: verdict
  ck_reason :: "string option"
  ck_detail :: detail

record gate_eval =
  ge_from :: string
  ge_target :: string
  ge_rule :: string
  ge_verdict :: verdict
  ge_reason :: "string option"
  ge_pass :: nat
  ge_block :: nat
  ge_not_measured :: nat
  ge_checks :: "check list"

definition evaluate_requirement :: "pyenv \<Rightarrow> nmutation set \<Rightarrow> evidence_index \<Rightarrow> requirement \<Rightarrow> check result" where
  "evaluate_requirement P muts ix rq =
    bindr (run_check P (if rq_id rq \<in> {''E5.1'', ''E1.3''} then muts else {}) ix (rq_check rq)) (\<lambda>(v, reason, det).
      let passes = (N05_gate_passes_with_missing_receipt \<in> muts \<and> v = BLOCK)
      in Inr \<lparr>ck_id = rq_id rq, ck_class = rq_class rq, ck_producer = rq_producer rq,
           ck_verdict = (if passes then PASS else v), ck_reason = (if passes then None else reason),
           ck_detail = (if N10_gate_omits_missing_receipts \<in> muts then filter (\<lambda>kv. fst kv \<noteq> ''missing'') det else det)\<rparr>)"

definition with_verdict :: "verdict \<Rightarrow> check list \<Rightarrow> check list" where
  "with_verdict v = filter (\<lambda>c. ck_verdict c = v)"

text \<open>The aggregate: BLOCK over NOT_MEASURED over PASS, with the reason of the first offender.\<close>

definition aggregate :: "nmutation set \<Rightarrow> check list \<Rightarrow> verdict \<times> string option" where
  "aggregate muts checks =
    (let blocked = with_verdict BLOCK checks;
         unmeasured = (if N09_not_measured_counts_as_pass \<in> muts then [] else with_verdict NOT_MEASURED checks)
     in if blocked \<noteq> [] then (BLOCK, ck_reason (hd blocked))
        else if unmeasured \<noteq> [] then (NOT_MEASURED, ck_reason (hd unmeasured))
        else (PASS, None))"

definition evaluate_gate :: "pyenv \<Rightarrow> nmutation set \<Rightarrow> evidence_index \<Rightarrow> string \<Rightarrow> gate_eval result" where
  "evaluate_gate P muts ix target =
    (case find (\<lambda>g. g_to g = target) GATES of
       None \<Rightarrow> Inr \<lparr>ge_from = [], ge_target = target, ge_rule = [], ge_verdict = BLOCK,
                ge_reason = Some ''NO_SUCH_TRANSITION'', ge_pass = 0, ge_block = 0, ge_not_measured = 0, ge_checks = []\<rparr>
     | Some g \<Rightarrow>
         bindr (mapr (evaluate_requirement P muts ix) (g_requirements g)) (\<lambda>checks.
         case aggregate muts checks of (v, reason) \<Rightarrow>
           Inr \<lparr>ge_from = g_from g, ge_target = target, ge_rule = g_rule g, ge_verdict = v, ge_reason = reason,
             ge_pass = length (with_verdict PASS checks), ge_block = length (with_verdict BLOCK checks),
             ge_not_measured = (if N09_not_measured_counts_as_pass \<in> muts then 0
               else length (with_verdict NOT_MEASURED checks)),
             ge_checks = checks\<rparr>))"

definition evaluate_all :: "pyenv \<Rightarrow> nmutation set \<Rightarrow> evidence_index \<Rightarrow> gate_eval list result" where
  "evaluate_all P muts ix = mapr (\<lambda>g. evaluate_gate P muts ix (g_to g)) GATES"

subsection \<open>The evidence a verdict rests on\<close>

record relied_on =
  ro_check :: string
  ro_classes :: "string list"
  ro_verdict :: verdict
  ro_refs :: "(evidence_ref \<times> string) list"    \<comment> \<open>the reference and its receipt class\<close>

fun collect_refs :: "(string \<times> evidence_doc) list \<Rightarrow> string list \<Rightarrow> (evidence_ref \<times> string) list" where
  "collect_refs [] seen = []"
| "collect_refs ((cls, d) # ds) seen = (if d_path d \<in> set seen then collect_refs ds seen
     else (doc_ref d, cls) # collect_refs ds (d_path d # seen))"

definition requirement_by_id :: "string \<Rightarrow> requirement option" where
  "requirement_by_id i = find (\<lambda>r. rq_id r = i) (concat (map g_requirements GATES))"

definition relied_on_refs :: "evidence_index \<Rightarrow> gate_eval \<Rightarrow> relied_on list" where
  "relied_on_refs ix ev = map (\<lambda>c.
     let classes = ck_class c # (case requirement_by_id (ck_id c) of None \<Rightarrow> [] | Some r \<Rightarrow> rq_also_reads r)
     in \<lparr>ro_check = ck_id c, ro_classes = classes, ro_verdict = ck_verdict c,
         ro_refs = collect_refs (concat (map (\<lambda>cls. map (Pair cls) (of_schema ix cls)) classes)) []\<rparr>) (ge_checks ev)"

end
