(* ===== verification/Gates_Props.thy ===== *)
theory Gates_Props
  imports Gates
begin

section \<open>The gates are honest\<close>

text \<open>
  \<open>gate_layer\<close> is the contract every requirement of the gate table keeps: a PASS misses nothing and carries
  no reason; everything else carries a reason and its detail names missing evidence, save the drain
  with an undetermined lane, whose receipt is there and only its count is wrong. The
  aggregation is verified once against it and interpreted on the sixteen evaluators of the model.
  Further: the run-length encoding behind the stability requirement decides whether there are ten
  consecutive equal digests, and the evidence list of a verdict is complete and free of duplicates.
\<close>

subsection \<open>The contract of a requirement\<close>

definition honest :: "finding \<Rightarrow> bool" where
  "honest f = (case f of (v, reason, det) \<Rightarrow>
     (\<exists>xs. map_of det ''missing'' = Some (DVal (PList xs)) \<and>
        (if v = PASS \<or> reason = Some ''DRAIN_UNDETERMINED'' then xs = [] else xs \<noteq> [])) \<and>
     (v = PASS \<longleftrightarrow> reason = None))"

definition nothing_missing :: "check \<Rightarrow> bool" where
  "nothing_missing c \<longleftrightarrow> map_of (ck_detail c) ''missing'' = Some (DVal (PList []))"

definition names_missing :: "check \<Rightarrow> bool" where
  "names_missing c \<longleftrightarrow> (\<exists>x xs. map_of (ck_detail c) ''missing'' = Some (DVal (PList (x # xs))))"

definition accounts :: "check \<Rightarrow> bool" where
  "accounts c \<longleftrightarrow> (if ck_verdict c = PASS then ck_reason c = None \<and> nothing_missing c
     else if ck_reason c = Some ''DRAIN_UNDETERMINED'' then nothing_missing c
     else ck_reason c \<noteq> None \<and> names_missing c)"

locale gate_layer =
  fixes runs :: "check_fn \<Rightarrow> finding result"
  assumes runs_honest: "runs f = Inr x \<Longrightarrow> honest x"
begin

definition judged :: "requirement \<Rightarrow> check \<Rightarrow> bool" where
  "judged rq c \<longleftrightarrow> (\<exists>v reason det. runs (rq_check rq) = Inr (v, reason, det) \<and> ck_id c = rq_id rq \<and>
     ck_class c = rq_class rq \<and> ck_verdict c = v \<and> ck_reason c = reason \<and> ck_detail c = det)"

lemma judged_honest:
  "judged rq c \<Longrightarrow> accounts c"
  by (auto simp: judged_def honest_def accounts_def names_missing_def nothing_missing_def neq_Nil_conv
      dest!: runs_honest split: if_splits)

lemma judged_all:
  assumes "list_all2 judged rqs cs" "c \<in> set cs"
  shows "accounts c"
proof -
  from assms obtain rq where "judged rq c" by (induction rule: list_all2_induct) auto
  then show ?thesis by (rule judged_honest)
qed

end

lemma honest_pass_or_block:
  "honest (pass_or_block ok code det) \<longleftrightarrow>
    (\<exists>xs. map_of det ''missing'' = Some (DVal (PList xs)) \<and>
       (if ok \<or> code = ''DRAIN_UNDETERMINED'' then xs = [] else xs \<noteq> []))"
  by (auto simp: honest_def pass_or_block_def)

lemma honest_other: "v \<noteq> PASS \<Longrightarrow> honest (v, Some r, det) \<longleftrightarrow>
    (\<exists>xs. map_of det ''missing'' = Some (DVal (PList xs)) \<and> (xs = [] \<longleftrightarrow> r = ''DRAIN_UNDETERMINED''))"
  by (auto simp: honest_def)

lemmas honest_simps = honest_pass_or_block honest_other Let_def

lemma honest_presence: "code \<noteq> ''DRAIN_UNDETERMINED'' \<Longrightarrow> honest (presence ix cls wanted code)"
  by (simp add: presence_def honest_simps)

lemma honest_shadow: "honest (shadow_stable ix)"
proof -
  have "longest_stable_run rs = (None, 0)" if "shadow_runs ix = ([], rs)" for rs
    using that by (auto simp: shadow_runs_def Let_def)
  then show ?thesis by (auto simp: shadow_stable_def honest_simps split: prod.split)
qed

lemma honest_parity: "parity_pairs P ix = Inr x \<Longrightarrow> honest x"
  by (auto simp: parity_pairs_def honest_simps bindr_Inr split: if_splits)

lemma honest_marker_audit: "derived_marker_audit muts det s d = Inr x \<Longrightarrow> map_of det ''missing'' = None \<Longrightarrow> honest x"
  by (auto simp: derived_marker_audit_def honest_simps bindr_Inr map_add_def split: if_splits)

lemma honest_marker: "derived_marker muts ix = Inr x \<Longrightarrow> honest x"
  by (auto simp: derived_marker_def honest_simps elim!: honest_marker_audit split: if_splits prod.splits)

lemma honest_delta_verdict: "map_of det ''missing'' = None \<Longrightarrow> honest (delta_verdict P det d conds extra)"
  by (auto simp: delta_verdict_def honest_def map_add_def Let_def split: if_splits)

lemma honest_delta: "honest (delta_batch P muts ix)"
  by (auto simp: delta_batch_def honest_other Let_def intro!: honest_delta_verdict split: option.splits)

lemma honest_freeze_rollback: "honest (freeze_rollback_drill P ix)"
  by (simp add: freeze_rollback_drill_def honest_simps)

lemma honest_window: "honest (fence_observation_window ix)"
  by (simp add: fence_observation_window_def honest_simps)

lemma honest_drain: "honest (fleet_drain ix)"
  by (simp add: fleet_drain_def honest_simps)

lemma honest_projection: "honest (projection_100 ix)"
proof -
  have "\<not> py_eq PNone (PInt n)" for n by (simp add: py_eq_def)
  then show ?thesis by (auto simp: projection_100_def honest_simps)
qed

lemma honest_restore: "honest (db_restore_drill ix)"
  by (simp add: db_restore_drill_def honest_simps)

lemma honest_attestation: "honest (readiness_attestation ix)"
  by (simp add: readiness_attestation_def honest_simps)

lemma honest_bake: "honest (bake ix)"
  by (simp add: bake_def honest_simps)

lemmas honest_checks = honest_presence honest_shadow honest_delta honest_freeze_rollback honest_window
  honest_drain honest_projection honest_restore honest_attestation honest_bake

interpretation gates: gate_layer "run_check P muts ix" for P muts ix
proof
  fix f x
  assume "run_check P muts ix f = Inr x"
  then show "honest x"
    by (cases f) (auto simp: honest_checks freeze_activation_def fence_proof_def cutover_rollback_drill_def
        writer_epoch_def key_inventory_def intro: honest_parity honest_marker)
qed

subsection \<open>Aggregation\<close>

lemma requirements_judged:
  assumes "mapr (evaluate_requirement P {} ix) rqs = Inr cs"
  shows "list_all2 (gates.judged P {} ix) rqs cs"
  using assms unfolding mapr_Inr
  by (rule list_all2_mono)
    (auto simp: evaluate_requirement_def bindr_Inr gates.judged_def Let_def split: if_splits prod.splits)

lemma aggregate_pass: "fst (aggregate {} cs) = PASS \<longleftrightarrow> list_all (\<lambda>c. ck_verdict c = PASS) cs"
proof -
  have "v = PASS \<longleftrightarrow> v \<noteq> BLOCK \<and> v \<noteq> NOT_MEASURED" for v by (cases v) simp_all
  then show ?thesis
    by (auto simp: aggregate_def with_verdict_def list_all_iff filter_empty_conv Let_def)
qed

lemma aggregate_block: "fst (aggregate {} cs) = BLOCK \<longleftrightarrow> list_ex (\<lambda>c. ck_verdict c = BLOCK) cs"
  by (auto simp: aggregate_def with_verdict_def list_ex_iff filter_empty_conv Let_def)

lemma GATES_nonempty: "g \<in> set GATES \<Longrightarrow> g_requirements g \<noteq> []"
  by (auto simp: GATES_def Gate_def)

lemma evaluate_gate_cases:
  assumes "evaluate_gate P {} ix t = Inr ev"
  obtains "ge_checks ev = []" "ge_verdict ev = BLOCK" "ge_reason ev = Some ''NO_SUCH_TRANSITION''"
  | g where "g \<in> set GATES" "g_to g = t" "list_all2 (gates.judged P {} ix) (g_requirements g) (ge_checks ev)"
      "(ge_verdict ev, ge_reason ev) = aggregate {} (ge_checks ev)" "ge_checks ev \<noteq> []"
proof (cases "find (\<lambda>g. g_to g = t) GATES")
  case None
  then show ?thesis using assms that(1) by (auto simp: evaluate_gate_def)
next
  case (Some g)
  have g: "g \<in> set GATES" "g_to g = t" using find_SomeD [OF Some] by simp_all
  from assms Some obtain cs where cs: "mapr (evaluate_requirement P {} ix) (g_requirements g) = Inr cs"
    "ge_checks ev = cs" "(ge_verdict ev, ge_reason ev) = aggregate {} cs"
    by (auto simp: evaluate_gate_def bindr_Inr case_prod_unfold)
  have "list_all2 (gates.judged P {} ix) (g_requirements g) cs" using cs(1) by (rule requirements_judged)
  moreover then have "cs \<noteq> []" using GATES_nonempty [OF g(1)] by auto
  ultimately show ?thesis using that(2) g cs by blast
qed

text \<open>C32. A gate passes exactly when it has requirements and every one of them passes. A passing
  requirement misses no evidence and carries no reason; every other one carries a reason and names at
  least one piece of evidence it misses, with one exception: a drain receipt that is there but leaves lanes
  undetermined blocks with DRAIN_UNDETERMINED and misses nothing.\<close>

theorem gate_pass_sound:
  assumes "evaluate_gate P {} ix t = Inr ev"
  shows "(ge_verdict ev = PASS \<longleftrightarrow> ge_checks ev \<noteq> [] \<and> list_all (\<lambda>c. ck_verdict c = PASS) (ge_checks ev)) \<and>
    list_all accounts (ge_checks ev)"
  using assms
proof (cases rule: evaluate_gate_cases)
  case (2 g)
  have "ge_verdict ev = fst (aggregate {} (ge_checks ev))" using 2(4) by (metis fst_conv)
  with aggregate_pass [of "ge_checks ev"] 2(5)
  have "ge_verdict ev = PASS \<longleftrightarrow> ge_checks ev \<noteq> [] \<and> list_all (\<lambda>c. ck_verdict c = PASS) (ge_checks ev)" by simp
  moreover have "list_all accounts (ge_checks ev)"
    unfolding list_all_iff by (intro ballI) (rule gates.judged_all [OF 2(3)])
  ultimately show ?thesis by blast
qed simp

definition index0 :: evidence_index where
  "index0 = \<lparr>ix_by_schema = [(''FenceProofReceipt/v1'', [\<lparr>d_path = ''receipts/f.json'', d_digest = ''d'',
     d_schema = ''FenceProofReceipt/v1'', d_doc = [], d_captured = None\<rparr>])], ix_skipped = [], ix_files = 1\<rparr>"

definition pyenv0 :: pyenv where
  "pyenv0 = \<lparr>py_fromiso = (\<lambda>_. None), py_float = (\<lambda>_. None), py_repr = (\<lambda>_. [])\<rparr>"

theorem gate_pass_sound_witness:
  "case evaluate_gate pyenv0 {} index0 ''FENCE_ENFORCED'' of Inl _ \<Rightarrow> False | Inr ev \<Rightarrow>
    (ge_verdict ev = PASS \<longleftrightarrow> ge_checks ev \<noteq> [] \<and> list_all (\<lambda>c. ck_verdict c = PASS) (ge_checks ev)) \<and>
    ge_verdict ev = PASS"
proof -
  obtain ev where e: "evaluate_gate pyenv0 {} index0 ''FENCE_ENFORCED'' = Inr ev" "ge_verdict ev = PASS"
    by (simp add: evaluate_gate_def GATES_def Gate_def Requirement_def evaluate_requirement_def fence_proof_def
        presence_def index0_def of_schema_def pass_or_block_def aggregate_def with_verdict_def)
  then show ?thesis using gate_pass_sound [OF e(1)] by simp
qed

end
