(* ===== verification/Gates_Evidence.thy ===== *)
theory Gates_Evidence
  imports Gates_Props
begin

section \<open>What the gates read\<close>

text \<open>
  The evidence behind the verdicts: the index holds, per schema, exactly the readable receipts of that
  schema in the order of their times (\<open>index_complete\<close>); the stability requirement is the existence of
  ten consecutive equal digests (\<open>shadow_stable_iff\<close>); the evidence list written into a transition
  receipt is complete (\<open>relied_on_complete\<close>). The last part records where the evaluators ask for less
  than their own descriptions.
\<close>

subsection \<open>Run-length encoding\<close>

definition expand :: "(pyval \<times> nat) list \<Rightarrow> pyval list" where
  "expand rs = concat (map (\<lambda>r. replicate (snd r) (norm (fst r))) rs)"

fun separated :: "(pyval \<times> nat) list \<Rightarrow> bool" where
  "separated (r # r' # rs) \<longleftrightarrow> norm (fst r) \<noteq> norm (fst r') \<and> separated (r' # rs)"
| "separated _ = True"

definition encoded :: "(pyval \<times> nat) list \<Rightarrow> bool" where
  "encoded rs \<longleftrightarrow> separated rs \<and> list_all (\<lambda>r. 0 < snd r) rs"

lemma separated_snoc: "separated (rs @ [r]) \<longleftrightarrow> separated rs \<and> (rs \<noteq> [] \<longrightarrow> norm (fst (last rs)) \<noteq> norm (fst r))"
  by (induction rs rule: separated.induct) auto

lemma add_run_encodes:
  assumes "encoded rs"
  shows "encoded (add_run dig rs) \<and> expand (add_run dig rs) = expand rs @ [norm dig]"
proof (cases "rs \<noteq> [] \<and> py_eq (fst (last rs)) dig")
  case True
  then obtain ps r where rs: "rs = ps @ [r]" and n: "norm (fst r) = norm dig"
    by (metis append_butlast_last_id py_eq_def)
  have "separated (ps @ [(dig, Suc (snd r))])" using assms n by (simp add: encoded_def rs separated_snoc)
  moreover have "expand (ps @ [(dig, Suc (snd r))]) = expand rs @ [norm dig]"
    using n by (simp add: expand_def rs replicate_append_same [symmetric])
  ultimately show ?thesis using assms True by (simp add: add_run_def rs encoded_def)
next
  case False
  then have "add_run dig rs = rs @ [(dig, 1)]" by (auto simp: add_run_def)
  with assms False show ?thesis by (auto simp: encoded_def separated_snoc expand_def py_eq_def)
qed

lemma runs_encode: "encoded (fold add_run ds []) \<and> expand (fold add_run ds []) = map norm ds"
  by (induction ds rule: rev_induct) (auto simp: encoded_def [of "[]"] expand_def [of "[]"] dest: add_run_encodes)

text \<open>\<open>n\<close> consecutive equal elements.\<close>

definition window :: "nat \<Rightarrow> 'a list \<Rightarrow> bool" where
  "window n xs \<longleftrightarrow> (\<exists>i. i + n \<le> length xs \<and> (\<forall>j<n. xs ! (i + j) = xs ! i))"

lemma window_append: "window n ys \<Longrightarrow> window n (xs @ ys)"
proof -
  assume "window n ys"
  then obtain i where "i + n \<le> length ys" "\<forall>j<n. ys ! (i + j) = ys ! i" by (auto simp: window_def)
  then show ?thesis
    by (auto simp: window_def nth_append intro!: exI [of _ "length xs + i"])
qed

lemma window_replicate: "n \<le> m \<Longrightarrow> window n (replicate m x @ ys)"
  by (auto simp: window_def nth_append intro!: exI [of _ 0])

lemma window_expand: "encoded rs \<Longrightarrow> 0 < n \<Longrightarrow> window n (expand rs) \<longleftrightarrow> (\<exists>r\<in>set rs. n \<le> snd r)"
proof (induction rs)
  case Nil
  then show ?case by (simp add: window_def expand_def)
next
  case (Cons r rs)
  have enc: "encoded rs" using Cons.prems by (cases rs) (auto simp: encoded_def)
  let ?m = "snd r"
  have ex: "expand (r # rs) = replicate ?m (norm (fst r)) @ expand rs" by (simp add: expand_def)
  show ?case
  proof
    assume "window n (expand (r # rs))"
    then obtain i where i: "i + n \<le> length (expand (r # rs))"
      "\<And>j. j < n \<Longrightarrow> expand (r # rs) ! (i + j) = expand (r # rs) ! i" by (auto simp: window_def)
    consider "i + n \<le> ?m" | "?m \<le> i" | "i < ?m" "?m < i + n" by linarith
    then show "\<exists>r\<in>set (r # rs). n \<le> snd r"
    proof cases
      case 1
      then show ?thesis by auto
    next
      case 2
      have "window n (expand rs)" unfolding window_def
      proof (intro exI [of _ "i - ?m"] conjI allI impI)
        show "i - ?m + n \<le> length (expand rs)" using i(1) 2 by (simp add: ex)
        fix j assume "j < n"
        from i(2) [OF this] 2 show "expand rs ! (i - ?m + j) = expand rs ! (i - ?m)"
          by (simp add: ex nth_append)
      qed
      then show ?thesis using Cons.IH [OF enc Cons.prems(2)] by auto
    next
      case 3
      then obtain r' rs' where rs: "rs = r' # rs'" using i(1) by (cases rs) (auto simp: ex expand_def)
      have "0 < snd r'" and ne: "norm (fst r) \<noteq> norm (fst r')" using Cons.prems(1) by (auto simp: encoded_def rs)
      then have "expand (r # rs) ! ?m = norm (fst r')" by (simp add: ex rs expand_def nth_append)
      moreover have "expand (r # rs) ! i = norm (fst r)" using 3(1) by (simp add: ex nth_append)
      moreover have "?m - i < n" using 3 by linarith
      ultimately show ?thesis using i(2) [of "?m - i"] 3 ne by simp
    qed
  next
    assume "\<exists>r\<in>set (r # rs). n \<le> snd r"
    then show "window n (expand (r # rs))"
      unfolding ex using Cons.IH [OF enc Cons.prems(2)] window_append window_replicate by auto
  qed
qed

lemma longest_max: "n \<le> snd (fold (\<lambda>r best. if snd best < snd r then r else best) rs r) \<longleftrightarrow>
    (\<exists>x\<in>set (r # rs). n \<le> snd (x :: pyval \<times> nat))"
proof (induction rs arbitrary: r)
  case (Cons x rs)
  show ?case by (auto simp: Cons.IH)
qed simp

lemma longest_stable_run_iff: "0 < n \<Longrightarrow> n \<le> snd (longest_stable_run rs) \<longleftrightarrow> (\<exists>r\<in>set rs. n \<le> snd r)"
  by (cases rs) (simp_all add: longest_max case_prod_unfold)

lemma fold_digests: "fold (\<lambda>d. add_run (g d)) ds rs = fold add_run (map g ds) rs"
  by (induction ds arbitrary: rs) simp_all

text \<open>C33. The shadow projection counts as stable exactly when ten consecutive receipts (in the order of
  the index, those without a digest left out) carry equal digests: the run-length encoding of the
  source decides the property its description states.\<close>

theorem shadow_stable_iff:
  "fst (shadow_stable ix) = PASS \<longleftrightarrow>
    window 10 (map (\<lambda>d. norm (dget d ''output_digest'')) (shadow_docs ix))"
proof -
  let ?rs = "fold add_run (map (\<lambda>d. dget d ''output_digest'') (shadow_docs ix)) []"
  have w: "window 10 (map (\<lambda>d. norm (dget d ''output_digest'')) (shadow_docs ix)) \<longleftrightarrow>
      10 \<le> snd (longest_stable_run ?rs)"
    using runs_encode [of "map (\<lambda>d. dget d ''output_digest'') (shadow_docs ix)"]
    by (simp add: longest_stable_run_iff window_expand [symmetric] comp_def)
  obtain dig n where l: "longest_stable_run ?rs = (dig, n)" by fastforce
  have "shadow_docs ix = [] \<Longrightarrow> n = 0" using l by simp
  moreover have runs: "shadow_runs ix = (shadow_docs ix, ?rs)"
    unfolding shadow_runs_def Let_def by (subst fold_digests) (rule refl)
  moreover have "fst (shadow_stable ix) = (if shadow_docs ix = [] then NOT_MEASURED
      else if 10 \<le> n then PASS else BLOCK)"
    by (simp add: shadow_stable_def runs pass_or_block_def Let_def l)
  ultimately show ?thesis unfolding w l by auto
qed

subsection \<open>The index\<close>

definition file_doc :: "pyenv \<Rightarrow> string \<Rightarrow> file_entry \<Rightarrow> evidence_doc option" where
  "file_doc P path f = (case (f_size f, f_json f) of
     (Inr n, Inr (PDict doc)) \<Rightarrow> (case py_get doc ''schema'' of
         PStr s \<Rightarrow> if MAX_PARSE_BYTES < n then None
           else Some \<lparr>d_path = path, d_digest = f_sha f, d_schema = s, d_doc = doc,
             d_captured = parse_iso P (captured_field doc)\<rparr>
       | _ \<Rightarrow> None)
   | _ \<Rightarrow> None)"

text \<open>The readable receipts of a directory tree.\<close>

definition dir_docs :: "pyenv \<Rightarrow> string \<times> (string \<times> file_entry) list \<Rightarrow> evidence_doc list" where
  "dir_docs P dir = List.map_filter (\<lambda>(name, f). if suffix ''.json'' name
     then file_doc P (fst dir @ ''/'' @ name) f else None) (sort_key fst (snd dir))"

definition readable :: "pyenv \<Rightarrow> walk \<Rightarrow> evidence_doc list" where
  "readable P w = concat (map (dir_docs P) w)"

lemma of_schema_add_doc: "of_schema (add_doc d ix) s = of_schema ix s @ (if d_schema d = s then [d] else [])"
  by (auto simp: add_doc_def of_schema_def split: option.split)

lemma of_schema_index_file:
  "of_schema (index_file P path f ix) s = of_schema ix s @
    (case file_doc P path f of None \<Rightarrow> [] | Some d \<Rightarrow> if d_schema d = s then [d] else [])"
proof -
  have eq: "of_schema (ix\<lparr>ix_files := n\<rparr>) s = of_schema ix s" "of_schema (ix\<lparr>ix_files := n, ix_skipped := k\<rparr>) s = of_schema ix s"
    for n k by (simp_all add: of_schema_def)
  show ?thesis
    by (auto simp: index_file_def file_doc_def eq of_schema_add_doc Let_def split: sum.split pyval.split)
qed

lemma of_schema_files:
  "of_schema (fold (\<lambda>(name, f) ix. if suffix ''.json'' name then index_file P (dir @ ''/'' @ name) f ix else ix) fs ix) s =
    of_schema ix s @ filter (\<lambda>d. d_schema d = s) (List.map_filter (\<lambda>(name, f). if suffix ''.json'' name
      then file_doc P (dir @ ''/'' @ name) f else None) fs)"
proof (induction fs arbitrary: ix)
  case (Cons x fs)
  obtain name f where x: "x = (name, f)" by fastforce
  show ?case
    by (cases "suffix ''.json'' name"; cases "file_doc P (dir @ ''/'' @ name) f")
      (simp_all add: x Cons.IH of_schema_index_file List.map_filter_simps)
qed (simp add: List.map_filter_simps)

lemma of_schema_walk:
  "of_schema (fold (index_dir P) w ix) s = of_schema ix s @ filter (\<lambda>d. d_schema d = s) (readable P w)"
proof (induction w arbitrary: ix)
  case (Cons dir w)
  have "of_schema (index_dir P dir ix) s = of_schema ix s @ filter (\<lambda>d. d_schema d = s) (dir_docs P dir)"
    by (simp add: index_dir_def of_schema_files dir_docs_def)
  then show ?case by (simp add: Cons.IH readable_def)
qed (simp add: readable_def)

lemma sort_docs_Inr:
  "sort_docs ds = Inr es \<Longrightarrow> es = sort_key (\<lambda>d. (micros (sort_time d), d_path d)) ds"
  by (auto simp: sort_docs_def split: if_splits)

lemma sorted_schemas:
  "mapr (\<lambda>(k, ds). bindr (sort_docs ds) (\<lambda>ds. Inr (k, ds))) by_schema = Inr out \<Longrightarrow>
    (case map_of out s of None \<Rightarrow> [] | Some ds \<Rightarrow> ds) =
      sort_key (\<lambda>d. (micros (sort_time d), d_path d)) (case map_of by_schema s of None \<Rightarrow> [] | Some ds \<Rightarrow> ds)"
  by (induction by_schema arbitrary: out) (auto simp: bindr_Inr dest!: sort_docs_Inr)

text \<open>When the index can be built, the documents it returns for a schema are exactly the receipts
  of the tree that can be read, are not oversized and carry that schema, ordered by time and path.\<close>

theorem index_complete:
  assumes "EvidenceIndex P w = Inr ix"
  shows "of_schema ix s = sort_key (\<lambda>d. (micros (sort_time d), d_path d)) (filter (\<lambda>d. d_schema d = s) (readable P w))"
proof -
  let ?ix = "fold (index_dir P) w \<lparr>ix_by_schema = [], ix_skipped = [], ix_files = 0\<rparr>"
  have e: "of_schema \<lparr>ix_by_schema = [], ix_skipped = [], ix_files = 0\<rparr> s = []" by (simp add: of_schema_def)
  from assms obtain out where "mapr (\<lambda>(k, ds). bindr (sort_docs ds) (\<lambda>ds. Inr (k, ds))) (ix_by_schema ?ix) = Inr out"
    and ix: "ix = ?ix\<lparr>ix_by_schema := out\<rparr>"
    by (auto simp: EvidenceIndex_def bindr_Inr Let_def)
  from sorted_schemas [OF this(1), of s] show ?thesis
    using of_schema_walk [of P w _ s, unfolded of_schema_def [of ?ix]] e by (simp add: ix of_schema_def)
qed

definition walk0 :: walk where
  "walk0 = [(''receipts'', [(''a.json'', \<lparr>f_size = Inr 10, f_json = Inr (PDict [(''schema'', PStr ''S/v1'')]), f_sha = ''h''\<rparr>)])]"

subsection \<open>The evidence list of a transition\<close>

lemma collect_refs_paths:
  "(\<lambda>r. r_path (fst r)) ` set (collect_refs ds seen) = d_path ` snd ` set ds - set seen"
  by (induction ds seen rule: collect_refs.induct) (auto simp: doc_ref_def)

lemma collect_refs_distinct: "distinct (map (\<lambda>r. r_path (fst r)) (collect_refs ds seen))"
proof (induction ds seen rule: collect_refs.induct)
  case (2 cls d ds seen)
  then show ?case using collect_refs_paths [of ds "d_path d # seen"] by (auto simp: doc_ref_def image_iff)
qed simp

lemma refs_of_classes:
  "(\<lambda>x. r_path (fst x)) ` set (collect_refs (concat (map (\<lambda>cls. map (Pair cls) (of_schema ix cls)) classes)) []) =
    (\<Union>cls\<in>set classes. d_path ` set (of_schema ix cls))"
proof -
  have "snd ` set (concat (map (\<lambda>cls. map (Pair cls) (of_schema ix cls)) classes)) =
      (\<Union>cls\<in>set classes. set (of_schema ix cls))"
    by (force simp: image_iff)
  then show ?thesis by (simp only: collect_refs_paths image_UN list.set(1) Diff_empty)
qed

text \<open>The evidence list of a verdict is complete: for every requirement it holds, once each, the
  paths of all indexed documents of the requirement's receipt class and of the further classes its
  check reads, never a sample.\<close>

theorem relied_on_complete:
  "list_all (\<lambda>r. distinct (map (\<lambda>x. r_path (fst x)) (ro_refs r)) \<and>
      (\<lambda>x. r_path (fst x)) ` set (ro_refs r) = (\<Union>cls\<in>set (ro_classes r). d_path ` set (of_schema ix cls)))
    (relied_on_refs ix ev)"
  by (simp only: relied_on_refs_def Let_def list_all_iff set_map ball_simps relied_on.simps refs_of_classes
      collect_refs_distinct simp_thms) simp

subsection \<open>Where an evaluator asks for less than it says\<close>

text \<open>The delta requirement names its receipt class with a path pattern, which is the schema of no
  document: its evidence list is empty whatever the verdict rests on.\<close>

lemma delta_evidence_unlisted:
  assumes "ck_id c = ''E5.1''" "ck_class c = ''ReadinessReceipt/v1 (receipts/import/verify-*)''"
    "ge_checks ev = [c]" "of_schema ix (ck_class c) = []"
  shows "map ro_refs (relied_on_refs ix ev) = [[]]"
proof -
  have "requirement_by_id ''E5.1'' = Some (Requirement ''E5.1'' ''ReadinessReceipt/v1 (receipts/import/verify-*)''
      ''AUP-MUN-0041 delta-import card'' DeltaBatch)"
    by (simp add: requirement_by_id_def GATES_def Gate_def Requirement_def)
  then show ?thesis using assms by (simp add: relied_on_refs_def Requirement_def)
qed

text \<open>The observation window of the freeze counts clean receipts; that they are consecutive and hourly is
  not asked: any number of observed foreign writes in between does not matter.\<close>

lemma window_ignores_foreign_writes:
  assumes "72 \<le> length (filter clean_observation (of_schema ix ''FenceObservationReceipt/v1''))"
  shows "fst (fence_observation_window ix) = PASS"
proof -
  have "of_schema ix ''FenceObservationReceipt/v1'' \<noteq> []" using assms by auto
  with assms show ?thesis by (simp add: fence_observation_window_def pass_or_block_def Let_def)
qed

text \<open>The bake passes on the number of its receipts alone, whatever they observed.\<close>

lemma bake_ignores_content:
  assumes "24 \<le> length (of_schema ix ''CutoverBakeObservationReceipt/v1'')"
  shows "fst (bake ix) = PASS"
proof -
  have "of_schema ix ''CutoverBakeObservationReceipt/v1'' \<noteq> []" using assms by auto
  with assms show ?thesis by (simp add: bake_def pass_or_block_def Let_def)
qed

text \<open>One receipt whose time has no offset makes the index of its schema fail as soon as there is a
  second receipt with an offset or without a time: nothing is evaluated at all.\<close>

lemma naive_time_breaks_index:
  assumes "d \<in> set ds" "d_captured d = Some (Naive t)" "d' \<in> set ds" "d_captured d' \<in> {None, Some (Aware t')}"
  shows "sort_docs ds = Inl TypeError"
proof -
  have "\<not> is_aware (sort_time d)" "is_aware (sort_time d')" using assms by (auto simp: sort_time_def)
  then show ?thesis using assms(1,3) by (auto simp: sort_docs_def list_all_iff)
qed

end
