(* ===== verification/Backends.thy ===== *)
theory Backends
  imports World
begin

section \<open>Backends and the production barrier (\<^verbatim>\<open>cutover/backends.py\<close>)\<close>

text \<open>
  The coordinator of the cutover talks to four interfaces: fence, writer lease, host activation and
  barrier store. Each is a locale with the laws its clients rely on; the only implementation the
  source has, the simulated one over the drill's world, is an interpretation of each. The
  production barrier is a JSON document: \<open>make_production_barrier\<close> builds it,
  \<open>validate_production_barrier\<close> accepts it and rejects the rehearsal receipt.
\<close>

subsection \<open>The production barrier\<close>

definition BARRIER_SCHEMA :: string where
  "BARRIER_SCHEMA = ''ProductionCutoverBarrier/v1''"

definition CANDIDATE_SCHEMA :: string where
  "CANDIDATE_SCHEMA = ''CandidateBarrierReceipt''"

definition BARRIER_REQUIRED :: "string list" where
  "BARRIER_REQUIRED = [''schema'', ''migration_id'', ''source_set_epoch'', ''previous_writer_epoch'',
     ''target_writer_epoch'', ''scope'', ''global_fence_key'', ''fencing_token_id'', ''cas_result'',
     ''authorising_decisions'', ''ladder_state'', ''host_activation_ledger'']"

definition CANDIDATE_REQUIRED :: "string list" where
  "CANDIDATE_REQUIRED = [''schema'', ''rehearsal'', ''candidate_scope'', ''bounded_paths'',
     ''active_generation_pointer_unchanged'']"

definition BARRIER_DISJOINT_PROOF :: "string list" where
  "BARRIER_DISJOINT_PROOF = sort (filter (\<lambda>k. k \<in> set CANDIDATE_REQUIRED) (remdups BARRIER_REQUIRED))"

datatype barrier_problem = NotAnObject | SchemaIsNot json | MissingKey string
  | CandidateOnlyKeyPresent string | ScopeIsNotProductionGlobal json

record barrier_validation =
  bv_valid :: bool
  bv_problems :: "barrier_problem list"
  bv_schema :: json

definition doc_get :: "jobj \<Rightarrow> string \<Rightarrow> json" where
  "doc_get d k = (case map_of d k of None \<Rightarrow> JNull | Some v \<Rightarrow> v)"

definition barrier_problems :: "jobj \<Rightarrow> barrier_problem list" where
  "barrier_problems doc =
     (if doc_get doc ''schema'' \<noteq> JStr BARRIER_SCHEMA then [SchemaIsNot (doc_get doc ''schema'')] else []) @
     map MissingKey (filter (\<lambda>k. k \<notin> fst ` set doc) BARRIER_REQUIRED) @
     map CandidateOnlyKeyPresent (filter (\<lambda>k. k \<in> fst ` set doc \<and> k \<noteq> ''schema'') CANDIDATE_REQUIRED) @
     (if doc_get doc ''scope'' \<notin> {JNull, JStr ''production-global''}
      then [ScopeIsNotProductionGlobal (doc_get doc ''scope'')] else [])"

definition validate_production_barrier :: "json \<Rightarrow> bool \<Rightarrow> barrier_validation" where
  "validate_production_barrier j accept_candidate = (case j of
     JObj doc \<Rightarrow> (let problems = (if accept_candidate then [] else barrier_problems doc) in
       \<lparr>bv_valid = (problems = []), bv_problems = problems, bv_schema = doc_get doc ''schema''\<rparr>)
   | _ \<Rightarrow> \<lparr>bv_valid = False, bv_problems = [NotAnObject], bv_schema = JNull\<rparr>)"

abbreviation section_mark :: string where
  "section_mark \<equiv> [CHR 0xC2, CHR 0xA7]"

definition barrier_body :: "string \<Rightarrow> string \<Rightarrow> int \<Rightarrow> int \<Rightarrow> string \<Rightarrow> lease_token option \<Rightarrow> outcome \<Rightarrow>
  json list \<Rightarrow> json \<Rightarrow> jobj" where
  "barrier_body mig sse previous target fkey tok cas ledger evidence =
    [(''schema'', JStr BARRIER_SCHEMA), (''migration_id'', JStr mig), (''source_set_epoch'', JStr sse),
     (''previous_writer_epoch'', JInt previous), (''target_writer_epoch'', JInt target),
     (''scope'', JStr ''production-global''), (''global_fence_key'', JStr fkey),
     (''fencing_token_id'', case tok of None \<Rightarrow> JNull | Some t \<Rightarrow> JStr (token_str t)),
     (''cas_result'', JStr (outcome_str cas)),
     (''authorising_decisions'', JArr [JStr ''DEC-AUP-0012'', JStr ''DEC-AUP-0010'']),
     (''ladder_state'', JStr ''SWITCHING''), (''host_activation_ledger'', JArr ledger), (''evidence'', evidence),
     (''distinct_from'', JObj [(''schema'', JStr CANDIDATE_SCHEMA),
        (''shared_required_keys'', JArr (map JStr BARRIER_DISJOINT_PROOF)),
        (''note'', JStr (''AUP-E25 '' @ section_mark @ '' MIG-016: the production barrier differs in schema from the candidate receipt''))])]"

definition make_production_barrier :: "(string \<Rightarrow> string) \<Rightarrow> string \<Rightarrow> string \<Rightarrow> int \<Rightarrow> int \<Rightarrow> string \<Rightarrow>
  lease_token option \<Rightarrow> outcome \<Rightarrow> json list \<Rightarrow> json \<Rightarrow> jobj" where
  "make_production_barrier H mig sse previous target fkey tok cas ledger evidence =
    (let doc = barrier_body mig sse previous target fkey tok cas ledger evidence
     in doc @ [(''document_digest'', JStr (digest H (JObj doc)))])"

subsection \<open>The interfaces\<close>

text \<open>The global legacy-write fence.\<close>

locale fence_backend =
  fixes set_f :: "string \<Rightarrow> 's \<Rightarrow> 's \<times> outcome"
    and release_f :: "string \<Rightarrow> 's \<Rightarrow> 's \<times> outcome"
    and active_f :: "'s \<Rightarrow> bool"
  assumes set_active: "active_f (fst (set_f k s))" and set_applied: "snd (set_f k s) = Applied"
    and release_inactive: "\<not> active_f (fst (release_f k s))"
begin

lemma set_release: "\<not> active_f (fst (release_f k (fst (set_f k' s))))"
  by (rule release_inactive)

lemma set_twice: "active_f (fst (set_f k (fst (set_f k s)))) \<and> snd (set_f k (fst (set_f k s))) = Applied"
  by (simp add: set_active set_applied)

end

text \<open>The single writer lease and the compare-and-swap of the writer epoch.\<close>

locale lease_backend =
  fixes acquire_l :: "string \<Rightarrow> int \<Rightarrow> 's \<Rightarrow> 's \<times> lease result"
    and check_l :: "lease_token option \<Rightarrow> 's \<Rightarrow> 's \<times> token_check"
    and release_l :: "lease_token option \<Rightarrow> 's \<Rightarrow> 's \<times> bool"
    and cas_l :: "lease_token option \<Rightarrow> int \<Rightarrow> int \<Rightarrow> bool \<Rightarrow> 's \<Rightarrow> 's \<times> outcome"
    and epoch_l :: "'s \<Rightarrow> int"
  assumes acquire_valid: "0 < ttl \<Longrightarrow> acquire_l h ttl s = (s', Inr l) \<Longrightarrow> snd (check_l (Some (l_token l)) s') = TokValid"
    and acquire_epoch: "acquire_l h ttl s = (s', res) \<Longrightarrow> epoch_l s' = epoch_l s"
    and acquire_next: "acquire_l h ttl s = (s', Inr l) \<Longrightarrow> l_epoch l = epoch_l s + 1"
    and check_epoch: "epoch_l (fst (check_l t s)) = epoch_l s"
    and check_again: "snd (check_l t (fst (check_l t' s))) = snd (check_l t s)"
    and release_revokes: "snd (check_l t (fst (release_l t s))) \<noteq> TokValid"
    and cas_applied: "cas_l t e n False s = (s', Applied) \<Longrightarrow> snd (check_l t s) = TokValid \<and> epoch_l s = e \<and> epoch_l s' = n"
    and cas_rejected: "cas_l t e n b s = (s', Rejected rj) \<Longrightarrow> epoch_l s' = epoch_l s"
begin

text \<open>Taking the lease and committing moves the epoch by one.\<close>

lemma acquire_commit:
  assumes "acquire_l h ttl s = (s', Inr l)" "cas_l (Some (l_token l)) (l_epoch l - 1) (l_epoch l) False s' = (s'', Applied)"
  shows "epoch_l s'' = epoch_l s + 1"
  using acquire_next [OF assms(1)] cas_applied [OF assms(2)] by simp

text \<open>A released lease cannot commit.\<close>

lemma released_cannot_commit: "snd (cas_l t e n False (fst (release_l t s))) \<noteq> Applied"
  using cas_applied [of t e n "fst (release_l t s)"] release_revokes [of t s]
  by (cases "cas_l t e n False (fst (release_l t s))") auto

text \<open>The second of two commits with the same expected epoch is refused, unless it changes nothing.\<close>

lemma commit_once:
  assumes "cas_l t e n False s = (s', Applied)" "cas_l t' e m False s' = (s'', Applied)"
  shows "n = e"
  using cas_applied [OF assms(1)] cas_applied [OF assms(2)] by simp

end

text \<open>Per-host activation acknowledgements.\<close>

locale host_backend =
  fixes ack_h :: "host \<Rightarrow> int \<Rightarrow> string \<Rightarrow> bool \<Rightarrow> 's \<Rightarrow> 's \<times> outcome"
    and epoch_h :: "'s \<Rightarrow> int"
  assumes ack_stale: "e < epoch_h s \<Longrightarrow> snd (ack_h h e m False s) = Rejected RStaleEpoch"
    and ack_current: "epoch_h s \<le> e \<Longrightarrow> snd (ack_h h e m b s) = Applied"
    and ack_epoch: "epoch_h (fst (ack_h h e m b s)) = epoch_h s"
begin

text \<open>An acknowledgement can be repeated with the same answer.\<close>

lemma ack_repeat: "snd (ack_h h e m False (fst (ack_h h e m False s))) = snd (ack_h h e m False s)"
proof (cases "e < epoch_h s")
  case True
  then show ?thesis using ack_epoch [of h e m False s] by (simp add: ack_stale)
next
  case False
  then show ?thesis using ack_epoch [of h e m False s] by (simp add: ack_current)
qed

end

text \<open>The barrier store, keyed by migration and target epoch.\<close>

type_synonym barrier_key = "json \<times> json"
type_synonym barrier_docs = "(barrier_key \<times> jobj) list"

definition barrier_key :: "jobj \<Rightarrow> barrier_key" where
  "barrier_key doc = (doc_get doc ''migration_id'', doc_get doc ''target_writer_epoch'')"

locale barrier_store =
  fixes put_b :: "jobj \<Rightarrow> 's \<Rightarrow> 's \<times> put_result"
    and get_b :: "barrier_key \<Rightarrow> 's \<Rightarrow> jobj option"
  assumes get_put_new: "get_b (barrier_key d) s = None \<Longrightarrow>
      get_b (barrier_key d) (fst (put_b d s)) = Some d \<and> snd (put_b d s) = PutApplied"
    and get_put_kept: "get_b k s = Some d' \<Longrightarrow> get_b k (fst (put_b d s)) = Some d'"
    and put_existing: "get_b (barrier_key d) s = Some d' \<Longrightarrow>
      snd (put_b d s) = (if canonical (JObj d') = canonical (JObj d) then PutIdempotent else PutConflict)"
begin

text \<open>Putting the same document again is idempotent, a different one for the same key is a conflict,
  and the first document stays.\<close>

lemma put_twice:
  assumes "get_b (barrier_key d) s = None"
  shows "snd (put_b d (fst (put_b d s))) = PutIdempotent"
  using get_put_new [OF assms] put_existing by simp

lemma put_conflict:
  assumes "get_b (barrier_key d) s = None" "barrier_key d' = barrier_key d" "canonical (JObj d') \<noteq> canonical (JObj d)"
  shows "snd (put_b d' (fst (put_b d s))) = PutConflict \<and>
    get_b (barrier_key d) (fst (put_b d' (fst (put_b d s)))) = Some d"
proof -
  have g: "get_b (barrier_key d') (fst (put_b d s)) = Some d" using get_put_new [OF assms(1)] assms(2) by simp
  from put_existing [OF g] get_put_kept [OF g, of d'] show ?thesis using assms(2,3) by auto
qed

end

subsection \<open>The simulated implementations\<close>

definition sim_fence_active :: "world \<Rightarrow> bool" where
  "sim_fence_active w = fence_active (auth w)"

definition sim_current_epoch :: "world \<Rightarrow> int" where
  "sim_current_epoch w = current_epoch (auth w)"

definition sim_alive :: "host \<Rightarrow> world \<Rightarrow> bool" where
  "sim_alive h w = alive (hosts w h)"

definition sim_put :: "jobj \<Rightarrow> barrier_docs \<Rightarrow> barrier_docs \<times> put_result" where
  "sim_put doc docs = (case map_of docs (barrier_key doc) of
     Some existing \<Rightarrow> (docs, if canonical (JObj existing) = canonical (JObj doc) then PutIdempotent else PutConflict)
   | None \<Rightarrow> (AList.update (barrier_key doc) doc docs, PutApplied))"

definition sim_get :: "barrier_key \<Rightarrow> barrier_docs \<Rightarrow> jobj option" where
  "sim_get k docs = map_of docs k"

lemma a_rec_simps [simp]:
  "current_epoch (auth (a_rec op w)) = current_epoch (auth w)" "cur_lease (auth (a_rec op w)) = cur_lease (auth w)"
  "fence_active (auth (a_rec op w)) = fence_active (auth w)" "clock (a_rec op w) = clock w"
  "hosts (a_rec op w) = hosts w"
  by (simp_all add: a_rec_def Let_def)

interpretation sim_fence: fence_backend set_fence release_fence sim_fence_active
  by unfold_locales (simp_all add: set_fence_def release_fence_def sim_fence_active_def)

interpretation sim_lease: lease_backend acquire_lease check_token release_lease cas_commit sim_current_epoch
proof
  fix h ttl s s' l
  show "0 < ttl \<Longrightarrow> acquire_lease h ttl s = (s', Inr l) \<Longrightarrow> snd (check_token (Some (l_token l)) s') = TokValid"
    by (auto simp: acquire_lease_def check_token_def token_status_def Let_def split: if_splits)
next
  fix t s
  show "snd (check_token t (fst (release_lease t s))) \<noteq> TokValid"
    by (auto simp: check_token_def token_status_def release_lease_def split: option.splits)
next
  fix t e n s s'
  show "cas_commit t e n False s = (s', Applied) \<Longrightarrow>
      snd (check_token t s) = TokValid \<and> sim_current_epoch s = e \<and> sim_current_epoch s' = n"
    by (auto simp: cas_commit_def check_token_def sim_current_epoch_def split: if_splits)
next
  fix t e n b s s' r
  show "cas_commit t e n b s = (s', Rejected r) \<Longrightarrow> sim_current_epoch s' = sim_current_epoch s"
    by (auto simp: cas_commit_def check_token_def sim_current_epoch_def split: if_splits)
qed (auto simp: acquire_lease_def check_token_def token_status_def sim_current_epoch_def Let_def
      split: if_splits option.splits)

interpretation sim_hosts: host_backend host_ack sim_current_epoch
  by unfold_locales (auto simp: host_ack_def sim_current_epoch_def Let_def)

interpretation sim_barrier: barrier_store sim_put sim_get
proof
  fix k s d' d
  show "sim_get k s = Some d' \<Longrightarrow> sim_get k (fst (sim_put d s)) = Some d'"
    by (cases "k = barrier_key d") (auto simp: sim_put_def sim_get_def split: option.split)
qed (auto simp: sim_put_def sim_get_def)

text \<open>The description of the backends that every receipt carries, and the request for real ones.\<close>

definition SIMULATED :: string where
  "SIMULATED = ''simulated (tools/mig/fault_drill/world.py '' @ [CHR 0xE2, CHR 0x80, CHR 0x94] @
     '' no host, service, repository or process is touched)''"

definition describe_backends :: json where
  "describe_backends = JObj [(''mode'', JStr ''simulated''), (''fence'', JStr SIMULATED), (''lease'', JStr SIMULATED),
     (''host_activation'', JStr SIMULATED), (''barrier'', JStr SIMULATED),
     (''real_backends'', JStr ''refused (BackendNotAvailable): later cards under DEC-AUP-0011 / DEC-AUP-0012'')]"

definition real_backends :: "barrier_docs result" where
  "real_backends = Inl BackendNotAvailable"

subsection \<open>Properties\<close>

lemma barrier_keys:
  "fst ` set (make_production_barrier H mig sse p t fk tok cas ledger ev) =
    set BARRIER_REQUIRED \<union> {''evidence'', ''distinct_from'', ''document_digest''}"
  by (auto simp: make_production_barrier_def barrier_body_def BARRIER_REQUIRED_def Let_def)

lemma minted_barrier_valid:
  "validate_production_barrier (JObj (make_production_barrier H mig sse p t fk tok cas ledger ev)) False =
    \<lparr>bv_valid = True, bv_problems = [], bv_schema = JStr BARRIER_SCHEMA\<rparr>"
proof -
  let ?doc = "make_production_barrier H mig sse p t fk tok cas ledger ev"
  have "doc_get ?doc ''schema'' = JStr BARRIER_SCHEMA" "doc_get ?doc ''scope'' = JStr ''production-global''"
    by (simp_all add: make_production_barrier_def barrier_body_def doc_get_def Let_def)
  moreover have "filter (\<lambda>k. k \<notin> fst ` set ?doc) BARRIER_REQUIRED = []"
    by (auto simp: filter_empty_conv barrier_keys)
  moreover have "filter (\<lambda>k. k \<in> fst ` set ?doc \<and> k \<noteq> ''schema'') CANDIDATE_REQUIRED = []"
    unfolding barrier_keys by (simp add: CANDIDATE_REQUIRED_def BARRIER_REQUIRED_def)
  ultimately show ?thesis
    by (simp add: validate_production_barrier_def barrier_problems_def)
qed

text \<open>The production barrier and the rehearsal receipt cannot be taken for each other: what
  \<open>make_production_barrier\<close> produces validates without a problem, and no document that carries the
  required keys of the rehearsal receipt validates as a production barrier.\<close>

theorem barrier_schema_distinct:
  assumes "set CANDIDATE_REQUIRED \<subseteq> fst ` set candidate"
  shows "bv_valid (validate_production_barrier (JObj (make_production_barrier H mig sse p t fk tok cas ledger ev)) False) \<and>
    \<not> bv_valid (validate_production_barrier (JObj candidate) False)"
proof -
  have "''rehearsal'' \<in> fst ` set candidate" using assms by (auto simp: CANDIDATE_REQUIRED_def)
  then have "barrier_problems candidate \<noteq> []"
    by (auto simp: barrier_problems_def CANDIDATE_REQUIRED_def)
  then have "\<not> bv_valid (validate_production_barrier (JObj candidate) False)"
    by (simp add: validate_production_barrier_def Let_def)
  then show ?thesis by (simp add: minted_barrier_valid)
qed

definition candidate0 :: jobj where
  "candidate0 = [(''schema'', JStr CANDIDATE_SCHEMA), (''rehearsal'', JBool True), (''candidate_scope'', JStr ''bounded''),
     (''bounded_paths'', JArr [JStr ''datarim/tasks.md'']), (''active_generation_pointer_unchanged'', JBool True)]"

text \<open>The barrier store is a write-once register: on a store without a document for the key, a put
  is applied and read back, putting the same document again is idempotent, and a different document
  for the same migration and epoch is a conflict that leaves the first one in place.\<close>

theorem barrier_put_once:
  assumes "sim_get (barrier_key d) docs = None" "barrier_key d' = barrier_key d"
    "sorted_keys (JObj d') \<noteq> sorted_keys (JObj d)"
  shows "snd (sim_put d docs) = PutApplied \<and> sim_get (barrier_key d) (fst (sim_put d docs)) = Some d \<and>
    snd (sim_put d (fst (sim_put d docs))) = PutIdempotent \<and>
    snd (sim_put d' (fst (sim_put d docs))) = PutConflict \<and>
    sim_get (barrier_key d) (fst (sim_put d' (fst (sim_put d docs)))) = Some d"
  using sim_barrier.get_put_new [OF assms(1)] sim_barrier.put_twice [OF assms(1)]
    sim_barrier.put_conflict [OF assms(1,2)] assms(3) by (simp only: canonical_eq_iff simp_thms)

text \<open>The writer epoch is moved by one compare-and-swap at most: after a lease was taken and its
  commit applied, the epoch is the next one and no second commit that expects the old epoch is
  applied, whatever token it carries.\<close>

theorem lease_commit_once:
  assumes "acquire_lease h ttl w = (w1, Inr l)"
    "cas_commit (Some (l_token l)) (l_epoch l - 1) (l_epoch l) False w1 = (w2, Applied)"
  shows "current_epoch (auth w2) = current_epoch (auth w) + 1 \<and>
    snd (cas_commit tok (l_epoch l - 1) n False w2) \<noteq> Applied"
proof -
  have "snd (cas_commit tok (l_epoch l - 1) n False w2) \<noteq> Applied"
    using sim_lease.commit_once [OF assms(2), of tok n] by (cases "cas_commit tok (l_epoch l - 1) n False w2") auto
  then show ?thesis using sim_lease.acquire_commit [OF assms] by (simp add: sim_current_epoch_def)
qed

end
