(* ===== verification/Window.thy ===== *)
theory Window
  imports Drill_Coordinator Ladder Backends
begin

section \<open>The cutover window (\<^verbatim>\<open>cutover/coordinator.py\<close>, \<open>CutoverWindow\<close>)\<close>

text \<open>
  The coordinator of the real cutover. It follows the protocol of the rehearsed one and adds: the
  ladder decides whether a phase may run at all (\<open>gate_check\<close> records), every phase writes a receipt
  before its checkpoint, the commit mints the production barrier, host activations go through an
  idempotent ledger, and a process start takes the recorded state and says so. The record kinds both
  coordinators share are \<open>jbody\<close> (\<open>Shared\<close>); code that is textually the same in both files
  (\<open>observe\<close>, \<open>bg_validate\<close>, \<open>NEEDS\<close>, \<open>lane_classes\<close>, \<open>reason_for\<close>, \<open>issue_stops\<close>, \<open>first_rejected\<close>,
  \<open>next_state\<close>, \<open>past_commit\<close>, \<open>terminal\<close>, \<open>dead_hosts\<close>) is modelled once. Documents in the journal are
  values: a later change of a ledger entry does not reach into a barrier minted before.
\<close>

subsection \<open>The journal\<close>

text \<open>What an ack record says of the activation: the answer of the authority, or a repeat.\<close>

datatype ack_text = AckOutcome outcome | AckRepeat

datatype wbody =
    Shared jbody
  | WMeta json json                          \<comment> \<open>ladder, backends\<close>
  | WGateCheck cstate "ladder_state option" string bool
      \<comment> \<open>phase, required state, ladder state, authorised\<close>
  | WPhaseReceipt cstate jobj string         \<comment> \<open>phase, document, digest\<close>
  | WBarrier jobj barrier_validation put_result
  | WAck host int ack_text string            \<comment> \<open>host, epoch, result, migration\<close>

record wrec =
  wr_seq :: nat
  wr_at :: int
  wr_keys :: jkeys
  wr_body :: wbody

record ack_entry =
  ae_host :: host
  ae_epoch :: int
  ae_result :: ack_text
  ae_repeats :: "nat option"                 \<comment> \<open>absent in an entry rebuilt from the journal\<close>

subsection \<open>The window\<close>

record 'h cwin =
  cw_world :: world
  cw_journal :: "wrec list"
  cw_observer :: observer
  cw_hook :: 'h
  cw_migration_id :: string
  cw_mutations :: "mutation set"
  cw_nmutations :: "nmutation set"
  cw_ladder :: ladder_view
  cw_barrier_docs :: barrier_docs
  cw_keyed_epoch :: string
  cw_state :: cstate
  cw_paused_reason :: "treason option"
  cw_paused_at :: "cstate option"
  cw_lease_token :: "lease_token option"
  cw_target_epoch :: int
  cw_findings :: "string list"
  cw_break_glass_log :: "(bool \<times> string list) list"
  cw_ack_ledger :: "ack_entry list"
  cw_barrier :: "jobj option"
  cw_resume_count :: nat
  cw_nonces :: nat                           \<comment> \<open>random numbers drawn (a mutant only)\<close>

definition wkeys :: "'h cwin \<Rightarrow> jkeys" where
  "wkeys c = \<lparr>k_migration_id = cw_migration_id c, k_source_set_epoch = cw_keyed_epoch c,
     k_target_writer_epoch =
       (if M14_unkeyed_transition \<in> cw_mutations c then None else Some (cw_target_epoch c))\<rparr>"

definition wdurable :: "wbody \<Rightarrow> 'h cwin \<Rightarrow> 'h cwin" where
  "wdurable b c = c\<lparr>cw_journal := cw_journal c @ [\<lparr>wr_seq = length (cw_journal c) + 1,
     wr_at = clock (cw_world c), wr_keys = wkeys c, wr_body = b\<rparr>]\<rparr>"

definition wevent :: "event_kind \<Rightarrow> 'h cwin \<Rightarrow> 'h cwin" where
  "wevent k c = c\<lparr>cw_world := event k (cw_world c)\<rparr>"

definition wpause :: "pause_reason \<Rightarrow> 'h cwin \<Rightarrow> 'h cwin" where
  "wpause reason c =
    (if cw_state c = PAUSED_SAFE then c
     else let st = cw_state c;
              c = wdurable (Shared (RecTransition (Some st) PAUSED_SAFE
                    (if M16_pause_without_reason \<in> cw_mutations c then None else Some (PauseReason reason))
                    (Some st) None None)) c;
              c = c\<lparr>cw_paused_reason := Some (PauseReason reason), cw_paused_at := Some st, cw_state := PAUSED_SAFE\<rparr>
          in wevent (EvPausedSafe reason st) c)"

text \<open>\<open>_recover\<close>, one record; the recorded state is the first component.\<close>

definition wrecover_rec :: "wrec \<Rightarrow> cstate \<times> 'h cwin \<Rightarrow> cstate \<times> 'h cwin" where
  "wrecover_rec r sc = (case sc of (recorded, c) \<Rightarrow> case wr_body r of
     Shared (RecTransition _ to reason paused_at _ _) \<Rightarrow>
       (to, let c = (if to = PAUSED_SAFE then c\<lparr>cw_paused_reason := reason, cw_paused_at := paused_at\<rparr> else c)
            in if to = ABORTED then c\<lparr>cw_paused_reason := reason\<rparr> else c)
   | Shared (RecLease tok epoch _ _) \<Rightarrow> (recorded, c\<lparr>cw_lease_token := Some tok, cw_target_epoch := epoch\<rparr>)
   | WMeta _ _ \<Rightarrow> (recorded, c\<lparr>cw_keyed_epoch := k_source_set_epoch (wr_keys r)\<rparr>)
   | WBarrier doc _ _ \<Rightarrow> (recorded, c\<lparr>cw_barrier := Some doc\<rparr>)
   | WAck h e res _ \<Rightarrow> (recorded, c\<lparr>cw_ack_ledger := cw_ack_ledger c @
        [\<lparr>ae_host = h, ae_epoch = e, ae_result = res, ae_repeats = None\<rparr>]\<rparr>)
   | _ \<Rightarrow> (recorded, c))"

definition guess_state_from_world :: "'h cwin \<Rightarrow> cstate" where
  "guess_state_from_world c =
    (if cw_target_epoch c \<le> sim_current_epoch (cw_world c) then WRITE_COMMITTED
     else if sim_fence_active (cw_world c) then FENCED else INIT)"

definition wrecover :: "'h cwin \<Rightarrow> 'h cwin" where
  "wrecover c = (case fold wrecover_rec (cw_journal c) (INIT, c) of (recorded, c) \<Rightarrow>
     let taken = (if N08_resume_recomputes_state \<in> cw_nmutations c then guess_state_from_world c else recorded);
         c = wevent (EvResumeRecovered recorded taken (N08_resume_recomputes_state \<notin> cw_nmutations c)) c;
         c = c\<lparr>cw_state := taken\<rparr>
     in if cw_journal c = [] then wdurable (WMeta (ladder_view_json (cw_ladder c)) describe_backends) c else c)"

definition default_ladder :: ladder_view where
  "default_ladder = \<lparr>lv_state = ''MUNERAL_AUTHORITATIVE'', lv_source = ''drill fixture: every gate satisfied''\<rparr>"

definition CutoverWindow :: "world \<Rightarrow> wrec list \<Rightarrow> observer \<Rightarrow> string \<Rightarrow> mutation set \<Rightarrow> nmutation set \<Rightarrow>
  ladder_view \<Rightarrow> barrier_docs \<Rightarrow> 'h \<Rightarrow> 'h cwin" where
  "CutoverWindow w js ob mig muts nmuts ladder docs hk = wrecover
    \<lparr>cw_world = w, cw_journal = js, cw_observer = ob, cw_hook = hk, cw_migration_id = mig,
     cw_mutations = muts, cw_nmutations = nmuts, cw_ladder = ladder, cw_barrier_docs = docs,
     cw_keyed_epoch = source_set_epoch w, cw_state = INIT, cw_paused_reason = None, cw_paused_at = None,
     cw_lease_token = None, cw_target_epoch = sim_current_epoch w + 1, cw_findings = [],
     cw_break_glass_log = [], cw_ack_ledger = [], cw_barrier = None, cw_resume_count = 0, cw_nonces = 0\<rparr>"

subsection \<open>Contexts and guards\<close>

definition wcontext :: "cstate \<Rightarrow> 'h cwin \<Rightarrow> obs_context" where
  "wcontext p c = (if p = QUIESCING then CtxLanes (lane_classes (cw_world c))
     else CtxState p (source_set_epoch (cw_world c)))"

definition wguard_lease :: "cstate \<Rightarrow> 'h cwin \<Rightarrow> 'h cwin \<times> pause_reason option" where
  "wguard_lease nxt c =
    (if nxt \<in> FENCE_STATES \<and> M12_ignore_lease_expiry \<notin> cw_mutations c
     then (case check_token (cw_lease_token c) (cw_world c) of (w, chk) \<Rightarrow>
             (c\<lparr>cw_world := w\<rparr>,
              if chk = TokValid then None
              else if chk = TokExpired then Some LEASE_EXPIRED else Some (LEASE_CHECK chk)))
     else (c, None))"

definition wnote_drift :: "cstate \<Rightarrow> 'h cwin \<Rightarrow> 'h cwin" where
  "wnote_drift nxt c =
    (if nxt \<in> {HOSTS_ACTIVATING, OBSERVING, COMPLETE} \<and>
        source_set_epoch (cw_world c) \<noteq> cw_keyed_epoch c \<and> drift_finding \<notin> set (cw_findings c)
     then wevent (EvFinding drift_finding) (c\<lparr>cw_findings := cw_findings c @ [drift_finding]\<rparr>)
     else c)"

text \<open>The guards after the ladder's.\<close>

definition wguard_facts :: "cstate \<Rightarrow> 'h cwin \<Rightarrow> 'h cwin \<times> pause_reason option" where
  "wguard_facts nxt c =
    (if nxt = QUIESCING \<and> dead_hosts (cw_world c) \<noteq> [] \<and> M15_drain_unknown_proceeds \<notin> cw_mutations c
     then (c, Some DRAIN_UNKNOWN)
     else if nxt \<in> {VALIDATED, WRITE_COMMITTED} \<and> source_set_epoch (cw_world c) \<noteq> cw_keyed_epoch c
             \<and> M13_ignore_source_set_epoch_change \<notin> cw_mutations c
     then (c, Some REVALIDATION_REQUIRED)
     else (case wguard_lease nxt c of
         (c, Some g) \<Rightarrow> (c, Some g)
       | (c, None) \<Rightarrow>
           if nxt \<in> {OBSERVING, COMPLETE} \<and> dead_hosts (cw_world c) \<noteq> []
           then (c, Some HOST_LOST_IN_OBSERVATION)
           else (wnote_drift nxt c, None)))"

definition wguard :: "cstate \<Rightarrow> 'h cwin \<Rightarrow> ('h cwin, pause_reason option) outc" where
  "wguard nxt c =
    (case authorises (cw_ladder c) nxt of
       Inl e \<Rightarrow> (c, Inl e)
     | Inr ok \<Rightarrow>
         (case AUTHORISING_LADDER_STATE nxt of None \<Rightarrow> (c, Inl KeyError)
          | Some need \<Rightarrow>
            if \<not> ok \<and> N01_ignore_ladder_authorisation \<notin> cw_nmutations c
            then (wdurable (WGateCheck nxt (Some need) (lv_state (cw_ladder c)) False) c,
                  Inr (Some (GATE_NOT_SATISFIED need)))
            else (case wguard_facts nxt (wdurable (WGateCheck nxt (Some need) (lv_state (cw_ladder c)) True) c) of
                    (c, g) \<Rightarrow> (c, Inr g))))"

definition weffect_keys :: "cstate \<Rightarrow> 'h cwin \<Rightarrow> effect_key list" where
  "weffect_keys p c =
    (if p = HOSTS_ACTIVATING
     then map (\<lambda>h. EffKey (cw_migration_id c) (cw_target_epoch c) (KAck h)) HOSTS
     else [EffKey (cw_migration_id c) (cw_target_epoch c) (KPhase p)])"

subsection \<open>Effects\<close>

definition stoppable_lanes :: "mutation set \<Rightarrow> world \<Rightarrow> lane list" where
  "stoppable_lanes muts w =
    (if M03_stop_foreign_lanes \<in> muts then filter (\<lambda>l. \<not> stopped l) (lanes w)
     else filter (\<lambda>l. \<not> stopped l \<and> lane_class l = MigrationOwned \<and> alive (hosts w (lane_host l))) (lanes w))"

fun wquiesce_lanes :: "string set \<Rightarrow> lane list \<Rightarrow> world \<Rightarrow> lane list \<times> world" where
  "wquiesce_lanes ids [] w = ([], w)"
| "wquiesce_lanes ids (l # ls) w =
     (case (if stopped l then (l, w) else if lane_id l \<in> ids then stop_lane l ''coordinator'' w
            else handoff_lane l w) of
      (l', w1) \<Rightarrow> case wquiesce_lanes ids ls w1 of (ls', w2) \<Rightarrow> (l' # ls', w2))"

definition wquiesce_fn :: "'h cwin \<Rightarrow> ('h cwin, outcome) outc" where
  "wquiesce_fn c = (case wquiesce_lanes (lane_id ` set (stoppable_lanes (cw_mutations c) (cw_world c)))
       (lanes (cw_world c)) (cw_world c) of
     (ls, w) \<Rightarrow> (c\<lparr>cw_world := w\<lparr>lanes := ls\<rparr>\<rparr>, Inr Applied))"

definition wlease_needed :: "'h cwin \<Rightarrow> 'h cwin \<times> bool" where
  "wlease_needed c = (case cw_lease_token c of
     None \<Rightarrow> (c, True)
   | Some t \<Rightarrow> (case check_token (Some t) (cw_world c) of (w, chk) \<Rightarrow>
       (c\<lparr>cw_world := w\<rparr>, chk \<noteq> TokValid)))"

definition wtake_lease :: "'h cwin \<Rightarrow> ('h cwin, outcome) outc" where
  "wtake_lease c = (case acquire_lease (cw_migration_id c) LEASE_TTL (cw_world c) of
     (w, Inl e) \<Rightarrow> (c\<lparr>cw_world := w\<rparr>, Inl e)
   | (w, Inr l) \<Rightarrow>
       (let c = c\<lparr>cw_world := w, cw_lease_token := Some (l_token l), cw_target_epoch := l_epoch l\<rparr>;
            c = wdurable (Shared (RecLease (l_token l) (l_epoch l) (l_expires_at l) LEASE_TTL)) c;
            c = wdurable (Shared (RecFence (fence_key_of (cw_migration_id c)) True (Some (l_token l)))) c
        in (c, Inr Applied)))"

definition wfence_fn :: "'h cwin \<Rightarrow> ('h cwin, outcome) outc" where
  "wfence_fn c =
    (case wlease_needed (c\<lparr>cw_world := fst (set_fence (fence_key_of (cw_migration_id c)) (cw_world c))\<rparr>) of
       (c, need) \<Rightarrow> if need then wtake_lease c else (c, Inr Applied))"

definition ack_text_str :: "ack_text \<Rightarrow> string" where
  "ack_text_str t = (case t of AckOutcome r \<Rightarrow> outcome_str r | AckRepeat \<Rightarrow> ''idempotent'')"

definition ack_entry_json :: "ack_entry \<Rightarrow> json" where
  "ack_entry_json a = JObj ([(''host'', JStr (host_name (ae_host a))), (''epoch'', JInt (ae_epoch a)),
     (''result'', JStr (ack_text_str (ae_result a)))] @
     (case ae_repeats a of None \<Rightarrow> [] | Some n \<Rightarrow> [(''repeats'', JInt (int n))]))"

definition rehearsal_barrier :: jobj where
  "rehearsal_barrier = [(''schema'', JStr CANDIDATE_SCHEMA), (''rehearsal'', JBool True),
     (''candidate_scope'', JStr ''bounded''), (''bounded_paths'', JArr [JStr ''datarim/tasks.md'']),
     (''active_generation_pointer_unchanged'', JBool True)]"

definition mint_barrier :: "(string \<Rightarrow> string) \<Rightarrow> outcome \<Rightarrow> 'h cwin \<Rightarrow> 'h cwin" where
  "mint_barrier H cas c =
    (let mutant = (N03_barrier_accepts_candidate_schema \<in> cw_nmutations c);
         doc = (if mutant then rehearsal_barrier
           else make_production_barrier H (cw_migration_id c) (cw_keyed_epoch c) (cw_target_epoch c - 1)
             (cw_target_epoch c) (fence_key_of (cw_migration_id c)) (cw_lease_token c) cas
             (map ack_entry_json (cw_ack_ledger c))
             (JObj [(''ladder_state'', JStr (lv_state (cw_ladder c))), (''backends'', describe_backends)]));
         v = validate_production_barrier (JObj doc) mutant
     in case sim_put doc (cw_barrier_docs c) of (docs, put) \<Rightarrow>
        let c = c\<lparr>cw_barrier_docs := docs, cw_barrier := Some doc\<rparr>;
            c = wdurable (WBarrier doc v put) c
        in wevent (EvBarrierMinted (bv_valid v) put (Some (doc_get doc ''schema''))) c)"

definition wcommit_fn :: "(string \<Rightarrow> string) \<Rightarrow> 'h cwin \<Rightarrow> ('h cwin, outcome) outc" where
  "wcommit_fn H c = (case cas_commit (cw_lease_token c) (cw_target_epoch c - 1) (cw_target_epoch c)
       (M04_authority_accepts_stale_epoch \<in> cw_mutations c) (cw_world c) of
     (w, r) \<Rightarrow> (let c = c\<lparr>cw_world := w\<rparr> in (if r = Applied then mint_barrier H r c else c, Inr r)))"

text \<open>\<open>_record_ack\<close>: the first entry for the host and epoch counts the repeat.\<close>

fun count_repeat :: "host \<Rightarrow> int \<Rightarrow> ack_entry list \<Rightarrow> ack_entry list" where
  "count_repeat h e [] = []"
| "count_repeat h e (a # as) = (if ae_host a = h \<and> ae_epoch a = e
     then a\<lparr>ae_repeats := Some (case ae_repeats a of None \<Rightarrow> 1 | Some n \<Rightarrow> n + 1)\<rparr> # as
     else a # count_repeat h e as)"

definition in_ack_ledger :: "host \<Rightarrow> int \<Rightarrow> ack_entry list \<Rightarrow> bool" where
  "in_ack_ledger h e as \<longleftrightarrow> list_ex (\<lambda>a. ae_host a = h \<and> ae_epoch a = e) as"

definition record_ack :: "host \<Rightarrow> int \<Rightarrow> outcome \<Rightarrow> 'h cwin \<Rightarrow> 'h cwin" where
  "record_ack h e res c =
    (if in_ack_ledger h e (cw_ack_ledger c) \<and> N04_host_ack_not_idempotent \<notin> cw_nmutations c
     then wdurable (WAck h e AckRepeat (cw_migration_id c))
            (c\<lparr>cw_ack_ledger := count_repeat h e (cw_ack_ledger c)\<rparr>)
     else wdurable (WAck h e (AckOutcome res) (cw_migration_id c))
            (c\<lparr>cw_ack_ledger := cw_ack_ledger c @
               [\<lparr>ae_host = h, ae_epoch = e, ae_result = AckOutcome res, ae_repeats = Some 0\<rparr>]\<rparr>))"

definition wack_fn :: "effect_key \<Rightarrow> 'h cwin \<Rightarrow> ('h cwin, outcome) outc" where
  "wack_fn key c = (case key of
     EffKey _ _ (KAck h) \<Rightarrow>
       if \<not> sim_alive h (cw_world c) then (c, Inr (Rejected RHostUnreachable))
       else (case host_ack h (cw_target_epoch c) (cw_migration_id c)
               (M04_authority_accepts_stale_epoch \<in> cw_mutations c) (cw_world c) of
             (w, r) \<Rightarrow> (record_ack h (cw_target_epoch c) r (c\<lparr>cw_world := w\<rparr>), Inr r))
   | _ \<Rightarrow> (c, Inl KeyError))"

definition wcomplete_fn :: "'h cwin \<Rightarrow> ('h cwin, outcome) outc" where
  "wcomplete_fn c =
    (let m = cw_migration_id c;
         w = (cw_world c)\<lparr>legacy_policy := ''read-only''\<rparr>;
         w = fst (release_fence (fence_key_of m) w);
         w = fst (release_lease (cw_lease_token c) w);
         c = c\<lparr>cw_world := w\<rparr>
     in (wdurable (Shared (RecFence (fence_key_of m) False (cw_lease_token c))) c, Inr Applied))"

definition weffect_fn :: "(string \<Rightarrow> string) \<Rightarrow> cstate \<Rightarrow> effect_key \<Rightarrow> 'h cwin \<Rightarrow> ('h cwin, outcome) outc" where
  "weffect_fn H p key = (case p of
     QUIESCING \<Rightarrow> wquiesce_fn
   | FENCED \<Rightarrow> wfence_fn
   | FINAL_SYNC \<Rightarrow> (\<lambda>c. (c, Inr Applied))
   | VALIDATED \<Rightarrow> (\<lambda>c. (c, Inr Applied))
   | WRITE_COMMITTED \<Rightarrow> wcommit_fn H
   | HOSTS_ACTIVATING \<Rightarrow> wack_fn key
   | OBSERVING \<Rightarrow> (\<lambda>c. (c, Inr Applied))
   | COMPLETE \<Rightarrow> wcomplete_fn
   | _ \<Rightarrow> (\<lambda>c. (c, Inl ValueError)))"

definition wissue_once :: "(string \<Rightarrow> string) \<Rightarrow> cstate \<Rightarrow> effect_key \<Rightarrow> 'h cwin \<Rightarrow> ('h cwin, outcome) outc" where
  "wissue_once H p key c = apply_effect cw_world cw_world_update key p (weffect_fn H p key) (NEEDS p)
     (M08_resume_revoked_run \<in> cw_mutations c) c"

fun wissue_loop :: "nat \<Rightarrow> outcome \<Rightarrow> (string \<Rightarrow> string) \<Rightarrow> cstate \<Rightarrow> effect_key \<Rightarrow> 'h cwin \<Rightarrow> ('h cwin, outcome) outc" where
  "wissue_loop 0 prev H p key c = (c, Inr prev)"
| "wissue_loop (Suc n) prev H p key c =
     bindx (wissue_once H p key c) (\<lambda>c r.
       if issue_stops r then (c, Inr r)
       else wissue_loop n r H p key (c\<lparr>cw_world := advance 1 (cw_world c)\<rparr>))"

definition wissue :: "(string \<Rightarrow> string) \<Rightarrow> cstate \<Rightarrow> effect_key \<Rightarrow> 'h cwin \<Rightarrow> ('h cwin, outcome) outc" where
  "wissue H p key c = wissue_loop MAX_ATTEMPTS (Rejected RUnissued) H p key c"

subsection \<open>Receipts and checkpoints\<close>

definition keys_json :: "jkeys \<Rightarrow> json" where
  "keys_json k = JObj ([(''migration_id'', JStr (k_migration_id k)), (''source_set_epoch'', JStr (k_source_set_epoch k))] @
     (case k_target_writer_epoch k of None \<Rightarrow> [] | Some e \<Rightarrow> [(''target_writer_epoch'', JInt e)]))"

fun via_name :: "via \<Rightarrow> string" where
  "via_name ViaStep = ''step''"
| "via_name ViaReconciliation = ''reconciliation''"

definition phase_receipt_body :: "cstate \<Rightarrow> effect_key list \<Rightarrow> via \<Rightarrow> 'h cwin \<Rightarrow> jobj" where
  "phase_receipt_body p keys v c =
    [(''schema'', JStr ''CutoverPhaseReceipt/v1''), (''portion_id'', JStr ''AUP-MIG-016:coord0''),
     (''phase'', JStr (state_name p)), (''keys'', keys_json (wkeys c)),
     (''ladder_state'', JStr (lv_state (cw_ladder c))),
     (''authorising_ladder_state'', case AUTHORISING_LADDER_STATE p of None \<Rightarrow> JNull | Some s \<Rightarrow> JStr (ladder_name s)),
     (''effect_keys'', JArr (map JStr (sort (map key_str keys)))),
     (''lease_id'', case cw_lease_token c of None \<Rightarrow> JNull | Some t \<Rightarrow> JStr (token_str t)),
     (''backends'', describe_backends), (''via'', JStr (via_name v))]"

definition has_phase_receipt :: "cstate \<Rightarrow> wrec list \<Rightarrow> bool" where
  "has_phase_receipt p js \<longleftrightarrow> list_ex (\<lambda>r. case wr_body r of WPhaseReceipt q _ _ \<Rightarrow> q = p | _ \<Rightarrow> False) js"

definition phase_receipt :: "(string \<Rightarrow> string) \<Rightarrow> (nat \<Rightarrow> string) \<Rightarrow> cstate \<Rightarrow> effect_key list \<Rightarrow> via \<Rightarrow> 'h cwin \<Rightarrow> 'h cwin" where
  "phase_receipt H nonce p keys v c =
    (if has_phase_receipt p (cw_journal c) \<and> N11_receipt_regenerated_on_resume \<notin> cw_nmutations c
     then wevent (EvPhaseReceiptReused p) c
     else let body = phase_receipt_body p keys v c;
              doc = (if N11_receipt_regenerated_on_resume \<in> cw_nmutations c
                then body @ [(''nonce'', JStr (nonce (cw_nonces c)))] else body);
              c = (if N11_receipt_regenerated_on_resume \<in> cw_nmutations c then c\<lparr>cw_nonces := cw_nonces c + 1\<rparr> else c);
              d = digest H (JObj doc);
              c = wdurable (WPhaseReceipt p (doc @ [(''document_digest'', JStr d)]) d) c
          in wevent (EvPhaseReceiptWritten p d) c)"

definition wcheckpoint :: "cstate \<Rightarrow> effect_key list \<Rightarrow> via \<Rightarrow> 'h cwin \<Rightarrow> 'h cwin" where
  "wcheckpoint nxt keys v c =
    (let c = wdurable (Shared (RecCheckpoint nxt keys v)) c;
         c = wdurable (Shared (RecTransition (if cw_state c \<noteq> PAUSED_SAFE then Some (cw_state c) else cw_paused_at c)
               nxt None None None (Some v))) c;
         c = wevent (EvTransition (cw_state c) nxt v) c
     in c\<lparr>cw_state := nxt, cw_paused_reason := None\<rparr>)"

subsection \<open>Resume\<close>

fun wreconcile_keys :: "(string \<Rightarrow> string) \<Rightarrow> cstate \<Rightarrow> effect_key list \<Rightarrow> 'h cwin \<Rightarrow> ('h cwin, bool) outc" where
  \<comment> \<open>the value says whether the loop ran to its end\<close>
  "wreconcile_keys H p [] c = (c, Inr True)"
| "wreconcile_keys H p (key # keys) c =
     (if M01_reissue_effect_on_resume \<in> cw_mutations c
      then bindx (apply_effect cw_world cw_world_update key p (weffect_fn H p key) (NEEDS p) False
                    (wevent (EvReconcileBlind key) c))
             (\<lambda>c _. wreconcile_keys H p keys c)
      else (case readback key (cw_world c) of (w, rb) \<Rightarrow>
        let c = wdurable (Shared (RecReconciliation p key rb rb False)) (c\<lparr>cw_world := w\<rparr>);
            c = wevent (EvReconcileReadback key rb) c
        in (case rb of
              None \<Rightarrow> (wpause UNKNOWN_EFFECT_UNRECONCILED c, Inr False)
            | Some RbApplied \<Rightarrow> wreconcile_keys H p keys c
            | Some RbNotApplied \<Rightarrow>
                bindx (wissue H p key c) (\<lambda>c r. case r of
                    Unknown \<Rightarrow> (wpause UNKNOWN_EFFECT_UNRECONCILED
                                 (wdurable (Shared (RecReconciliation p key None None False)) c), Inr False)
                  | Rejected rj \<Rightarrow> (wpause (reason_for rj) c, Inr False)
                  | Applied \<Rightarrow> wreconcile_keys H p keys c))))"

fun wreadback_all :: "effect_key list \<Rightarrow> 'h cwin \<Rightarrow> 'h cwin \<times> bool" where
  "wreadback_all [] c = (c, True)"
| "wreadback_all (k # ks) c = (case readback k (cw_world c) of (w, rb) \<Rightarrow>
     if rb = Some RbApplied then wreadback_all ks (c\<lparr>cw_world := w\<rparr>) else (c\<lparr>cw_world := w\<rparr>, False))"

definition wreconcile :: "(string \<Rightarrow> string) \<Rightarrow> (nat \<Rightarrow> string) \<Rightarrow> cstate \<Rightarrow> effect_key list \<Rightarrow> 'h cwin \<Rightarrow> ('h cwin, unit) outc" where
  "wreconcile H nonce p keys c =
    bindx (wreconcile_keys H p keys c) (\<lambda>c fin.
      if \<not> fin then (c, Inr ())
      else (case wreadback_all keys c of
          (c, True) \<Rightarrow> (wcheckpoint p keys ViaReconciliation
                         (phase_receipt H nonce p keys ViaReconciliation c), Inr ())
        | (c, False) \<Rightarrow> (c, Inr ())))"

definition wpause_cleared :: "'h cwin \<Rightarrow> bool" where
  "wpause_cleared c = (case cw_paused_reason c of
     Some (PauseReason (SERVICE_UNAVAILABLE s)) \<Rightarrow> services (cw_world c) s
   | Some (PauseReason r) \<Rightarrow> r \<in> {UNKNOWN_EFFECT_UNRECONCILED, DRAIN_UNKNOWN, HOST_UNREACHABLE, HOST_LOST_IN_OBSERVATION}
       \<and> network (cw_world c) \<and> dead_hosts (cw_world c) = []
   | _ \<Rightarrow> False)"

definition wlast :: "(wbody \<Rightarrow> bool) \<Rightarrow> wrec list \<Rightarrow> wrec option" where
  "wlast kind js = find (\<lambda>r. kind (wr_body r)) (rev js)"

fun shared_kind :: "(jbody \<Rightarrow> bool) \<Rightarrow> wbody \<Rightarrow> bool" where
  "shared_kind k (Shared b) = k b"
| "shared_kind k _ = False"

definition wdangling_intent :: "wrec list \<Rightarrow> (cstate \<times> effect_key list) option" where
  "wdangling_intent js = (case wlast (shared_kind is_intent) js of None \<Rightarrow> None
     | Some i \<Rightarrow>
         (case wr_body i of Shared (RecIntent st keys) \<Rightarrow>
            (case wlast (shared_kind is_checkpoint) js of
               None \<Rightarrow> Some (st, keys)
             | Some cp \<Rightarrow> if wr_seq cp < wr_seq i then Some (st, keys) else None)
          | _ \<Rightarrow> None))"

definition wdouble_transition :: "'h cwin \<Rightarrow> 'h cwin" where
  "wdouble_transition c =
    (if M10_double_transition_on_resume \<in> cw_mutations c
     then (case wlast (shared_kind is_transition) (cw_journal c) of
         Some r \<Rightarrow> (case wr_body r of Shared (RecTransition _ to _ _ _ _) \<Rightarrow>
             if to \<in> set PHASES \<and> to \<noteq> COMPLETE
             then (let nxt = PHASES ! (index_of to PHASES + 1)
                   in (wdurable (Shared (RecTransition (Some to) nxt (Some (TextReason ''M10 replayed transition''))
                        None None None)) c)\<lparr>cw_state := nxt\<rparr>)
             else c
           | _ \<Rightarrow> c)
       | None \<Rightarrow> c)
     else c)"

definition wforward_recovery :: "'h cwin \<Rightarrow> ('h cwin, unit) outc" where
  "wforward_recovery c =
    (if cw_state c = PAUSED_SAFE \<and> cw_paused_reason c \<noteq> None \<and> wpause_cleared c
     then (case cw_paused_at c of
         None \<Rightarrow> (c, Inl StateLost)
       | Some st \<Rightarrow>
           (let c = wdurable (Shared (RecTransition (Some PAUSED_SAFE) st
                      (Some (TextReason ''forward recovery: cause cleared'')) None None None)) c;
                c = wevent (EvForwardRecovery st (cw_paused_reason c)) c
            in (c\<lparr>cw_state := st, cw_paused_reason := None\<rparr>, Inr ())))
     else (c, Inr ()))"

definition wresume :: "(string \<Rightarrow> string) \<Rightarrow> (nat \<Rightarrow> string) \<Rightarrow> 'h cwin \<Rightarrow> ('h cwin, cstate \<times> bool) outc" where
  "wresume H nonce c =
    (let c = c\<lparr>cw_resume_count := cw_resume_count c + 1\<rparr>;
         before = cw_state c;
         c = wevent (EvResume (cw_state c) (cw_resume_count c)) c
     in if cw_state c \<in> {ABORTED, COMPLETE} then (c, Inr (cw_state c, False))
        else if \<not> auth_valid (cw_world c) \<and> M08_resume_revoked_run \<notin> cw_mutations c
        then (let c = wpause AUTH_REVOKED c in (c, Inr (cw_state c, before \<noteq> cw_state c)))
        else let c = wdouble_transition c in
          bindx (case wdangling_intent (cw_journal c) of
                   None \<Rightarrow> (c, Inr ())
                 | Some (st, keys) \<Rightarrow> wreconcile H nonce st keys c)
            (\<lambda>c _. bindx (wforward_recovery c)
              (\<lambda>c _. (c, Inr (cw_state c, before \<noteq> cw_state c)))))"

subsection \<open>Step and run\<close>

definition wfire :: "'h hook \<Rightarrow> hook_point \<Rightarrow> cstate \<Rightarrow> 'h cwin \<Rightarrow> ('h cwin, unit) outc" where
  "wfire hook p st c = (case hook p st (cw_hook c, cw_world c) of
     ((hk, w), r) \<Rightarrow> (c\<lparr>cw_hook := hk, cw_world := w\<rparr>, r))"

definition wfresh_observe ::
  "(string \<Rightarrow> string) \<Rightarrow> obs_key \<Rightarrow> cstate \<Rightarrow> 'h cwin \<Rightarrow> ('h cwin, observation) outc" where
  "wfresh_observe H key nxt c =
    (case observe H key nxt (wcontext nxt c) (M11_replay_calls_model \<in> cw_mutations c)
       (cw_observer c, cw_world c) of
       ((ob, w), Inl e) \<Rightarrow> (c\<lparr>cw_observer := ob, cw_world := w\<rparr>, Inl e)
     | ((ob, w), Inr o1) \<Rightarrow>
         (wdurable (Shared (RecObservation key nxt o1)) (c\<lparr>cw_observer := ob, cw_world := w\<rparr>), Inr o1))"

fun wjournaled_observation :: "obs_key \<Rightarrow> wrec list \<Rightarrow> observation option" where
  "wjournaled_observation key [] = None"
| "wjournaled_observation key (r # rs) = (case wr_body r of
     Shared (RecObservation k _ o1) \<Rightarrow> if k = key then Some o1 else wjournaled_observation key rs
   | _ \<Rightarrow> wjournaled_observation key rs)"

definition wstep_observe ::
  "(string \<Rightarrow> string) \<Rightarrow> cstate \<Rightarrow> 'h cwin \<Rightarrow> ('h cwin, observation) outc" where
  "wstep_observe H nxt c =
    (let key = ObsKey (cw_migration_id c) nxt in
     case wjournaled_observation key (cw_journal c) of
       None \<Rightarrow> wfresh_observe H key nxt c
     | Some o1 \<Rightarrow>
         if M11_replay_calls_model \<in> cw_mutations c then wfresh_observe H key nxt c
         else (wevent (EvObservationReused key nxt) c, Inr o1))"

fun wissue_all ::
  "(string \<Rightarrow> string) \<Rightarrow> cstate \<Rightarrow> effect_key list \<Rightarrow> 'h cwin \<Rightarrow> ('h cwin, (effect_key \<times> outcome) list) outc" where
  "wissue_all H p [] c = (c, Inr [])"
| "wissue_all H p (key # keys) c =
     bindx (wissue H p key c) (\<lambda>c r.
     bindx (if r = Unknown \<and> M09_repeat_unknown_effect \<in> cw_mutations c then wissue H p key c else (c, Inr r))
       (\<lambda>c r. bindx (wissue_all H p keys c) (\<lambda>c rs. (c, Inr ((key, r) # rs)))))"

definition wstep_effects :: "(string \<Rightarrow> string) \<Rightarrow> (nat \<Rightarrow> string) \<Rightarrow> 'h hook \<Rightarrow> cstate \<Rightarrow> 'h cwin \<Rightarrow> ('h cwin, cstate) outc" where
  "wstep_effects H nonce hook nxt c =
    (let keys = weffect_keys nxt c; c = wdurable (Shared (RecIntent nxt keys)) c
     in bindx (wissue_all H nxt keys c) (\<lambda>c results.
        case find (\<lambda>kr. snd kr = Unknown) results of
          Some (key, _) \<Rightarrow>
            (let c = wpause UNKNOWN_EFFECT_UNRECONCILED (wdurable (Shared (RecReconciliation nxt key None None False)) c)
             in (c, Inr (cw_state c)))
        | None \<Rightarrow>
            (case first_rejected results of
               Some rj \<Rightarrow> (let c = wpause (reason_for rj) c in (c, Inr (cw_state c)))
             | None \<Rightarrow>
                 bindx (wfire hook AfterEffect nxt c) (\<lambda>c _.
                 bindx (wfire hook AfterReceipt nxt (phase_receipt H nonce nxt keys ViaStep c)) (\<lambda>c _.
                 bindx (wfire hook AfterCheckpoint nxt (wcheckpoint nxt keys ViaStep c)) (\<lambda>c _.
                   (c, Inr (cw_state c))))))))"

definition wstep :: "(string \<Rightarrow> string) \<Rightarrow> (nat \<Rightarrow> string) \<Rightarrow> 'h hook \<Rightarrow> 'h cwin \<Rightarrow> ('h cwin, cstate) outc" where
  "wstep H nonce hook c =
    (if terminal (cw_state c) then (c, Inr (cw_state c))
     else let nxt = next_state (cw_state c);
              c = c\<lparr>cw_world := advance STEP_TICKS (cw_world c)\<rparr>
          in bindx (wfire hook BeforeObservation nxt c) (\<lambda>c _.
             if \<not> known_good_ok H (cw_world c)
             then (let c = wpause KNOWN_GOOD_CORRUPT c in (c, Inr (cw_state c)))
             else bindx (wstep_observe H nxt c) (\<lambda>c obs.
                  bindx (wfire hook AfterObservation nxt c) (\<lambda>c _.
                  bindx (wguard nxt c) (\<lambda>c g. case g of
                      Some r \<Rightarrow> (let c = wpause r c in (c, Inr (cw_state c)))
                    | None \<Rightarrow> wstep_effects H nonce hook nxt c)))))"

fun wrun_loop :: "nat \<Rightarrow> (string \<Rightarrow> string) \<Rightarrow> (nat \<Rightarrow> string) \<Rightarrow> 'h hook \<Rightarrow> 'h cwin \<Rightarrow> ('h cwin, cstate) outc" where
  "wrun_loop 0 H nonce hook c = (c, Inr (cw_state c))"
| "wrun_loop (Suc n) H nonce hook c =
     bindx (wstep H nonce hook c) (\<lambda>c s. if terminal s then (c, Inr s) else wrun_loop n H nonce hook c)"

definition wrun :: "(string \<Rightarrow> string) \<Rightarrow> (nat \<Rightarrow> string) \<Rightarrow> 'h hook \<Rightarrow> 'h cwin \<Rightarrow> ('h cwin, cstate) outc" where
  "wrun H nonce hook c = wrun_loop 20 H nonce hook c"

subsection \<open>Abort, rollback, reactivation and break-glass\<close>

definition wabort :: "string \<Rightarrow> 'h cwin \<Rightarrow> 'h cwin \<times> bool \<times> cstate" where
  "wabort reason c =
    (let at = (if cw_state c = PAUSED_SAFE then cw_paused_at c else Some (cw_state c))
     in if past_commit at \<and> M02_abort_after_commit \<notin> cw_mutations c
        then (wevent (EvAbortRefused at) c, False, cw_state c)
        else if cw_state c \<in> {ABORTED, COMPLETE} then (c, False, cw_state c)
        else let w = fst (release_fence (fence_key_of (cw_migration_id c)) (cw_world c));
                 w = fst (release_lease (cw_lease_token c) w);
                 c = c\<lparr>cw_world := w\<rparr>;
                 c = wdurable (Shared (RecTransition (Some (cw_state c)) ABORTED (Some (TextReason reason))
                       None at None)) c;
                 c = wevent (EvAborted at reason) c;
                 c = c\<lparr>cw_state := ABORTED\<rparr>
             in (c, True, ABORTED))"

definition wrollback_to_known_good :: "(string \<Rightarrow> string) \<Rightarrow> 'h cwin \<Rightarrow> 'h cwin \<times> bool" where
  "wrollback_to_known_good H c =
    (if \<not> known_good_ok H (cw_world c) \<and> M05_rollback_on_corrupt_known_good \<notin> cw_mutations c
     then (let c = wdurable (Shared (RecRollback False (Some KNOWN_GOOD_CORRUPT) None None)) c;
               c = wpause KNOWN_GOOD_CORRUPT c
           in (wevent (EvRollbackRefused KNOWN_GOOD_CORRUPT) c, False))
     else let c = (if M07_rollback_restores_legacy_hooks \<in> cw_mutations c
                   then wevent EvLegacyHooksRestored
                          (c\<lparr>cw_world := (cw_world c)\<lparr>legacy_hooks_restored := True\<rparr>\<rparr>)
                   else c);
              kg = known_good (cw_world c);
              c = c\<lparr>cw_world := (cw_world c)\<lparr>active_generation := kg\<rparr>\<rparr>;
              c = wdurable (Shared (RecRollback True None (Some kg) (Some (known_good_digest (cw_world c))))) c
          in (wevent (EvRollbackApplied (map fst kg)) c, True))"

definition reactivate_host :: "host \<Rightarrow> int option \<Rightarrow> 'h cwin \<Rightarrow> 'h cwin \<times> outcome" where
  "reactivate_host h epoch c =
    (let e = (case epoch of None \<Rightarrow> cw_target_epoch c | Some e \<Rightarrow> e) in
     if \<not> sim_alive h (cw_world c)
     then (wdurable (WAck h e (AckOutcome (Rejected RHostUnreachable)) (cw_migration_id c)) c, Rejected RHostUnreachable)
     else (case host_ack h e (cw_migration_id c) (M04_authority_accepts_stale_epoch \<in> cw_mutations c) (cw_world c) of
         (w, res) \<Rightarrow>
           (let c = record_ack h e res (c\<lparr>cw_world := w\<rparr>)
            in (wevent (EvHostReactivation h e res (legacy_policy (cw_world c))) c, res))))"

definition wuse_break_glass :: "break_glass \<Rightarrow> 'h cwin \<Rightarrow> 'h cwin \<times> bool" where
  "wuse_break_glass bg c =
    (case bg_validate (clock (cw_world c)) (cw_mutations c) bg of (ok, problems) \<Rightarrow>
       (wevent (EvBreakGlass ok problems (bg_expires_at bg))
          (c\<lparr>cw_break_glass_log := cw_break_glass_log c @ [(ok, problems)]\<rparr>), ok))"

end
