(* ===== verification/Gate_Oracle.thy ===== *)
theory Gate_Oracle
  imports Window Gates
begin

section \<open>The oracle of the gate layer (\<^verbatim>\<open>cutover/gate_oracle.py\<close>)\<close>

text \<open>
  Rules G01 to G10 over a trace: the journal of the window, the journal of the ladder, the events of
  the world and the gate evaluations. The oracle declares its own orders and tables. A violation is
  the rule it breaks; the explanatory texts are not modelled.
\<close>

datatype grule = G01_RECEIPT_BEFORE_ADVANCE | G02_MISSING_EVIDENCE_NAMED | G03_NO_PASS_ON_MISSING
  | G04_BARRIER_SCHEMA_DISTINCT | G05_ACK_IDEMPOTENT | G06_PHASE_AUTHORISED | G07_LADDER_ONLY_INITIALISED
  | G08_RESUME_FROM_RECORD | G09_TRIVALUED | G10_RECEIPT_DETERMINISTIC

record gate_trace =
  gt_window_journal :: "wrec list"
  gt_ladder_journal :: "ladder_rec list"
  gt_events :: "event_rec list"
  gt_gate_evaluations :: "gate_eval list"
  gt_card :: "string option"

definition LADDER_ORDER :: "string list" where
  "LADDER_ORDER = [''FILES_AUTHORITATIVE'', ''SHADOW_PROJECTION'', ''FROZEN'', ''FENCE_ENFORCED'',
     ''PROJECTION_VERIFIED'', ''DELTA_IMPORTED'', ''ROLLBACK_DRILLED'', ''SWITCHING'',
     ''MUNERAL_AUTHORITATIVE'']"

definition PHASE_ORDER :: "cstate list" where
  "PHASE_ORDER = [QUIESCING, FENCED, FINAL_SYNC, VALIDATED, WRITE_COMMITTED, HOSTS_ACTIVATING,
     OBSERVING, COMPLETE]"

fun REQUIRED_LADDER_FOR_PHASE :: "cstate \<Rightarrow> string option" where
  "REQUIRED_LADDER_FOR_PHASE QUIESCING = Some ''FROZEN''"
| "REQUIRED_LADDER_FOR_PHASE FENCED = Some ''FENCE_ENFORCED''"
| "REQUIRED_LADDER_FOR_PHASE FINAL_SYNC = Some ''DELTA_IMPORTED''"
| "REQUIRED_LADDER_FOR_PHASE VALIDATED = Some ''ROLLBACK_DRILLED''"
| "REQUIRED_LADDER_FOR_PHASE WRITE_COMMITTED = Some ''SWITCHING''"
| "REQUIRED_LADDER_FOR_PHASE HOSTS_ACTIVATING = Some ''SWITCHING''"
| "REQUIRED_LADDER_FOR_PHASE OBSERVING = Some ''SWITCHING''"
| "REQUIRED_LADDER_FOR_PHASE COMPLETE = Some ''MUNERAL_AUTHORITATIVE''"
| "REQUIRED_LADDER_FOR_PHASE _ = None"

definition CANDIDATE_KEYS :: "string list" where
  "CANDIDATE_KEYS = [''rehearsal'', ''candidate_scope'', ''bounded_paths'', ''active_generation_pointer_unchanged'']"

definition ghit :: "bool \<Rightarrow> grule \<Rightarrow> grule list" where
  "ghit b r = (if b then [r] else [])"

subsection \<open>The ladder journal\<close>

fun audit_ladder :: "bool \<Rightarrow> json list \<Rightarrow> ladder_rec list \<Rightarrow> grule list" where
  "audit_ladder coord0 seen [] = []"
| "audit_ladder coord0 seen (r # rs) = (case lo_op r of
     OpReceiptWrite st _ _ _ \<Rightarrow> audit_ladder coord0 (JStr st # seen) rs
   | OpReceiptReused st _ _ _ \<Rightarrow> audit_ladder coord0 (JStr st # seen) rs
   | OpStateWrite st _ _ \<Rightarrow>
       ghit (st \<notin> set seen) G01_RECEIPT_BEFORE_ADVANCE @
       ghit (st \<noteq> JStr ''FILES_AUTHORITATIVE'' \<and> coord0) G07_LADDER_ONLY_INITIALISED @
       audit_ladder coord0 seen rs
   | _ \<Rightarrow> audit_ladder coord0 seen rs)"

definition ladder_receipts :: "ladder_rec list \<Rightarrow> (string \<times> string) list" where
  "ladder_receipts js = concat (map (\<lambda>r. case lo_op r of OpReceiptWrite st _ d _ \<Rightarrow> [(st, d)]
     | OpReceiptReused st _ d _ \<Rightarrow> [(st, d)] | _ \<Rightarrow> []) js)"

text \<open>One violation per key with more than one distinct digest.\<close>

definition ambiguous :: "('k \<times> string) list \<Rightarrow> 'k list" where
  "ambiguous ps = filter (\<lambda>k. 1 < card (snd ` {p \<in> set ps. fst p = k})) (remdups (map fst ps))"

definition audit_ladder_digests :: "ladder_rec list \<Rightarrow> grule list" where
  "audit_ladder_digests js = map (\<lambda>_. G10_RECEIPT_DETERMINISTIC) (ambiguous (ladder_receipts js))"

subsection \<open>The window journal\<close>

fun audit_window :: "cstate list \<Rightarrow> wrec list \<Rightarrow> grule list" where
  "audit_window seen [] = []"
| "audit_window seen (r # rs) = (case wr_body r of
     WPhaseReceipt p _ _ \<Rightarrow> audit_window (p # seen) rs
   | Shared (RecTransition _ to _ _ _ _) \<Rightarrow>
       ghit (to \<in> set PHASE_ORDER \<and> to \<notin> set seen) G01_RECEIPT_BEFORE_ADVANCE @ audit_window seen rs
   | _ \<Rightarrow> audit_window seen rs)"

definition phase_receipts :: "wrec list \<Rightarrow> (cstate \<times> string) list" where
  "phase_receipts js = concat (map (\<lambda>r. case wr_body r of WPhaseReceipt p _ d \<Rightarrow> [(p, d)] | _ \<Rightarrow> []) js)"

definition audit_window_digests :: "wrec list \<Rightarrow> grule list" where
  "audit_window_digests js = map (\<lambda>_. G10_RECEIPT_DETERMINISTIC) (ambiguous (phase_receipts js))"

definition really_authorised :: "cstate \<Rightarrow> string \<Rightarrow> bool" where
  "really_authorised p ladder = (case REQUIRED_LADDER_FOR_PHASE p of None \<Rightarrow> False
     | Some need \<Rightarrow> ladder \<in> set LADDER_ORDER \<and> need \<in> set LADDER_ORDER \<and>
         index_of need LADDER_ORDER \<le> index_of ladder LADDER_ORDER)"

fun audit_authorised :: "(cstate \<Rightarrow> bool) \<Rightarrow> wrec list \<Rightarrow> grule list" where
  "audit_authorised known [] = []"
| "audit_authorised known (r # rs) = (case wr_body r of
     WGateCheck p _ ladder declared \<Rightarrow>
       ghit (declared \<and> \<not> really_authorised p ladder) G06_PHASE_AUTHORISED @
       audit_authorised (known(p := really_authorised p ladder)) rs
   | Shared (RecIntent p _) \<Rightarrow> ghit (\<not> known p) G06_PHASE_AUTHORISED @ audit_authorised known rs
   | _ \<Rightarrow> audit_authorised known rs)"

definition audit_barrier_doc :: "jobj \<Rightarrow> grule list" where
  "audit_barrier_doc doc =
     ghit (doc_get doc ''schema'' \<noteq> JStr ''ProductionCutoverBarrier/v1'') G04_BARRIER_SCHEMA_DISTINCT @
     ghit (filter (\<lambda>k. k \<in> fst ` set doc) CANDIDATE_KEYS \<noteq> []) G04_BARRIER_SCHEMA_DISTINCT @
     ghit (doc_get doc ''scope'' \<noteq> JStr ''production-global'') G04_BARRIER_SCHEMA_DISTINCT"

definition audit_barriers :: "wrec list \<Rightarrow> grule list" where
  "audit_barriers js = concat (map (\<lambda>r. case wr_body r of WBarrier doc _ _ \<Rightarrow> audit_barrier_doc doc | _ \<Rightarrow> []) js)"

definition applied_acks :: "wrec list \<Rightarrow> (host \<times> int) list" where
  "applied_acks js = concat (map (\<lambda>r. case wr_body r of
     WAck h e (AckOutcome Applied) _ \<Rightarrow> [(h, e)] | _ \<Rightarrow> []) js)"

definition audit_acks :: "wrec list \<Rightarrow> grule list" where
  "audit_acks js = map (\<lambda>_. G05_ACK_IDEMPOTENT)
     (filter (\<lambda>k. 1 < count_list (applied_acks js) k) (remdups (applied_acks js)))"

subsection \<open>Events and gate evaluations\<close>

definition audit_recoveries :: "event_rec list \<Rightarrow> grule list" where
  "audit_recoveries es = concat (map (\<lambda>e. case ev_kind e of
     EvResumeRecovered recorded recovered _ \<Rightarrow> ghit (recovered \<noteq> recorded) G08_RESUME_FROM_RECORD | _ \<Rightarrow> []) es)"

definition truthy :: "dval option \<Rightarrow> bool" where
  "truthy v = (case v of None \<Rightarrow> False | Some (DVal x) \<Rightarrow> py_true x | Some (DRefs rs) \<Rightarrow> rs \<noteq> [])"

definition audit_check :: "check \<Rightarrow> grule list" where
  "audit_check c =
     ghit (ck_verdict c \<notin> {PASS, BLOCK, NOT_MEASURED}) G09_TRIVALUED @
     ghit (ck_verdict c \<in> {BLOCK, NOT_MEASURED} \<and> ''missing'' \<notin> fst ` set (ck_detail c)) G02_MISSING_EVIDENCE_NAMED @
     ghit (ck_verdict c = PASS \<and> truthy (map_of (ck_detail c) ''missing'')) G03_NO_PASS_ON_MISSING"

definition audit_gate :: "gate_eval \<Rightarrow> grule list" where
  "audit_gate ev = concat (map audit_check (ge_checks ev)) @
     (if ge_verdict ev = PASS
      then ghit (filter (\<lambda>c. ck_verdict c \<noteq> PASS) (ge_checks ev) \<noteq> []) G09_TRIVALUED @
           ghit (filter (\<lambda>c. truthy (map_of (ck_detail c) ''missing'')) (ge_checks ev) \<noteq> []) G03_NO_PASS_ON_MISSING
      else []) @
     ghit (ge_verdict ev \<notin> {PASS, BLOCK, NOT_MEASURED}) G09_TRIVALUED"

definition gate_hits :: "gate_trace \<Rightarrow> grule list" where
  "gate_hits t =
     audit_ladder (gt_card t = Some ''coord0'') [] (gt_ladder_journal t) @
     audit_ladder_digests (gt_ladder_journal t) @
     audit_window [] (gt_window_journal t) @ audit_window_digests (gt_window_journal t) @
     audit_authorised (\<lambda>_. False) (gt_window_journal t) @ audit_barriers (gt_window_journal t) @
     audit_acks (gt_window_journal t) @ audit_recoveries (gt_events t) @
     concat (map audit_gate (gt_gate_evaluations t))"

definition gate_evaluate :: "gate_trace \<Rightarrow> grule set \<Rightarrow> grule list" where
  "gate_evaluate t disabled = filter (\<lambda>r. r \<notin> disabled) (gate_hits t)"

end
