(* ===== verification/Window_Audit.thy ===== *)
theory Window_Audit
  imports Gate_Oracle
begin

section \<open>The gate oracle accepts the window\<close>

text \<open>
  \<open>window_ok\<close> specifies a journal record by record: which record may follow which history. It is
  equivalent to the oracle's rules over the window journal (\<open>window_rules_iff\<close>). \<open>recorded\<close> is what
  a journal says of the window. \<open>winv\<close> is the invariant of the window: its journal is acceptable, the
  state and the pause state have their receipts, the activation ledger knows every applied
  acknowledgement, and the volatile fields are the recorded ones. None of it depends on the world.
\<close>

subsection \<open>The specification of a journal\<close>

definition receipts_in :: "wrec list \<Rightarrow> cstate set" where
  "receipts_in js = {p. has_phase_receipt p js}"

definition auth_step :: "wrec \<Rightarrow> (cstate \<Rightarrow> bool) \<Rightarrow> cstate \<Rightarrow> bool" where
  "auth_step r a = (case wr_body r of WGateCheck p _ ladder _ \<Rightarrow> a(p := really_authorised p ladder) | _ \<Rightarrow> a)"

definition auth_after :: "wrec list \<Rightarrow> cstate \<Rightarrow> bool" where
  "auth_after js = fold auth_step js (\<lambda>_. False)"

definition admissible :: "wrec list \<Rightarrow> wbody \<Rightarrow> bool" where
  "admissible js b = (case b of
     Shared (RecTransition _ to _ _ _ _) \<Rightarrow> to \<in> set PHASE_ORDER \<longrightarrow> to \<in> receipts_in js
   | Shared (RecIntent p _) \<Rightarrow> auth_after js p
   | WGateCheck p _ ladder declared \<Rightarrow> declared \<longrightarrow> really_authorised p ladder
   | WPhaseReceipt p _ d \<Rightarrow> \<forall>d'. (p, d') \<in> set (phase_receipts js) \<longrightarrow> d' = d
   | WBarrier doc _ _ \<Rightarrow> audit_barrier_doc doc = []
   | WAck h e res _ \<Rightarrow> res = AckOutcome Applied \<longrightarrow> (h, e) \<notin> set (applied_acks js)
   | _ \<Rightarrow> True)"

inductive window_ok :: "wrec list \<Rightarrow> bool" where
  ok_nil: "window_ok []"
| ok_snoc: "window_ok js \<Longrightarrow> admissible js (wr_body r) \<Longrightarrow> window_ok (js @ [r])"

inductive_cases window_ok_snocE: "window_ok (js @ [r])"

lemma window_ok_snoc: "window_ok (js @ [r]) \<longleftrightarrow> window_ok js \<and> admissible js (wr_body r)"
  by (auto intro: ok_snoc elim: window_ok_snocE)

lemma has_phase_receipt_append [simp]: "has_phase_receipt p (js @ ks) \<longleftrightarrow> has_phase_receipt p js \<or> has_phase_receipt p ks"
  by (simp add: has_phase_receipt_def)

lemma receipts_in_append: "receipts_in (js @ ks) = receipts_in js \<union> receipts_in ks"
  by (auto simp: receipts_in_def)

lemma phase_receipts_keys: "fst ` set (phase_receipts js) = receipts_in js"
proof (induction js)
  case (Cons r js)
  then show ?case by (cases "wr_body r") (auto simp: phase_receipts_def receipts_in_def has_phase_receipt_def)
qed (simp add: phase_receipts_def receipts_in_def has_phase_receipt_def)

lemma auth_after_snoc: "auth_after (js @ [r]) = auth_step r (auth_after js)"
  by (simp add: auth_after_def)

subsection \<open>The oracle's rules, one record at a time\<close>

definition seen_after :: "wrec list \<Rightarrow> cstate list \<Rightarrow> cstate list" where
  "seen_after js seen = fold (\<lambda>r seen. case wr_body r of WPhaseReceipt p _ _ \<Rightarrow> p # seen | _ \<Rightarrow> seen) js seen"

lemma seen_after_set: "set (seen_after js seen) = set seen \<union> receipts_in js"
proof (induction js arbitrary: seen)
  case (Cons r js)
  show ?case
    by (cases "wr_body r") (auto simp: seen_after_def Cons.IH [unfolded seen_after_def] receipts_in_def has_phase_receipt_def)
qed (simp add: seen_after_def receipts_in_def has_phase_receipt_def)

lemma audit_window_snoc:
  "audit_window seen (js @ [r]) = audit_window seen js @ (case wr_body r of
     Shared (RecTransition _ to _ _ _ _) \<Rightarrow>
       ghit (to \<in> set PHASE_ORDER \<and> to \<notin> set seen \<union> receipts_in js) G01_RECEIPT_BEFORE_ADVANCE | _ \<Rightarrow> [])"
proof (induction js arbitrary: seen)
  case Nil
  show ?case by (simp add: receipts_in_def has_phase_receipt_def split: wbody.split jbody.split)
next
  case (Cons x js)
  have "receipts_in (x # js) = receipts_in [x] \<union> receipts_in js" using receipts_in_append [of "[x]" js] by simp
  then show ?case
    by (cases "wr_body x") (auto simp: Cons.IH receipts_in_def has_phase_receipt_def split: jbody.split wbody.split)
qed

definition auth_hit :: "wrec \<Rightarrow> (cstate \<Rightarrow> bool) \<Rightarrow> grule list" where
  "auth_hit r a = (case wr_body r of
     WGateCheck p _ ladder declared \<Rightarrow> ghit (declared \<and> \<not> really_authorised p ladder) G06_PHASE_AUTHORISED
   | Shared (RecIntent p _) \<Rightarrow> ghit (\<not> a p) G06_PHASE_AUTHORISED | _ \<Rightarrow> [])"

lemma audit_authorised_Cons: "audit_authorised a (r # rs) = auth_hit r a @ audit_authorised (auth_step r a) rs"
  by (cases "wr_body r") (simp_all add: auth_hit_def auth_step_def split: jbody.split)

lemma audit_authorised_snoc:
  "audit_authorised a (js @ [r]) = audit_authorised a js @ auth_hit r (fold auth_step js a)"
  by (induction js arbitrary: a) (simp_all add: audit_authorised_Cons del: audit_authorised.simps(2))

lemma card_le_one: "finite A \<Longrightarrow> \<not> 1 < card A \<longleftrightarrow> (\<forall>x\<in>A. \<forall>y\<in>A. x = y)"
  using card_le_Suc0_iff_eq [of A] by auto

lemma ambiguous_nil: "ambiguous ps = [] \<longleftrightarrow> (\<forall>p\<in>set ps. \<forall>q\<in>set ps. fst p = fst q \<longrightarrow> snd p = snd q)"
proof -
  have "ambiguous ps = [] \<longleftrightarrow> (\<forall>k\<in>fst ` set ps. \<not> 1 < card (snd ` {p \<in> set ps. fst p = k}))"
    by (simp add: ambiguous_def filter_empty_conv)
  also have "\<dots> \<longleftrightarrow> (\<forall>p\<in>set ps. \<forall>q\<in>set ps. fst p = fst q \<longrightarrow> snd p = snd q)"
    by (subst card_le_one) (simp, force)
  finally show ?thesis .
qed

lemma ambiguous_snoc:
  "ambiguous (ps @ [(k, d)]) = [] \<longleftrightarrow> ambiguous ps = [] \<and> (\<forall>d'. (k, d') \<in> set ps \<longrightarrow> d' = d)"
proof -
  have "(\<forall>p\<in>insert (k, d) A. \<forall>q\<in>insert (k, d) A. fst p = fst q \<longrightarrow> snd p = snd q) \<longleftrightarrow>
      (\<forall>p\<in>A. \<forall>q\<in>A. fst p = fst q \<longrightarrow> snd p = snd q) \<and> (\<forall>p\<in>A. fst p = k \<longrightarrow> snd p = d)" for A
    by (auto 0 3)
  moreover have "(\<forall>p\<in>A. fst p = k \<longrightarrow> snd p = d) \<longleftrightarrow> (\<forall>d'. (k, d') \<in> A \<longrightarrow> d' = d)" for A by auto
  ultimately show ?thesis unfolding ambiguous_nil by simp
qed

lemma phase_receipts_snoc: "phase_receipts (js @ [r]) = phase_receipts js @ (case wr_body r of WPhaseReceipt p _ d \<Rightarrow> [(p, d)] | _ \<Rightarrow> [])"
  by (simp add: phase_receipts_def)

lemma applied_acks_snoc: "applied_acks (js @ [r]) = applied_acks js @ (case wr_body r of
   WAck h e (AckOutcome Applied) _ \<Rightarrow> [(h, e)] | _ \<Rightarrow> [])"
  by (simp add: applied_acks_def)

lemma applied_acks_snocD:
  "(h, e) \<in> set (applied_acks (js @ [r])) \<Longrightarrow> (h, e) \<in> set (applied_acks js) \<or> (\<exists>m. wr_body r = WAck h e (AckOutcome Applied) m)"
  by (cases "wr_body r") (auto simp: applied_acks_snoc split: ack_text.splits outcome.splits)

lemma distinct_iff_count: "distinct xs \<longleftrightarrow> (\<forall>x\<in>set xs. count_list xs x \<le> 1)"
proof (induction xs)
  case (Cons a xs)
  have a: "count_list (a # xs) a \<le> 1 \<longleftrightarrow> a \<notin> set xs" by (simp add: count_list_0_iff)
  show ?case
  proof (cases "a \<in> set xs")
    case True
    with a show ?thesis by force
  next
    case False
    then have "count_list (a # xs) x = count_list xs x" if "x \<in> set xs" for x using that by auto
    with a False Cons.IH show ?thesis by simp
  qed
qed simp

lemma audit_acks_nil: "audit_acks js = [] \<longleftrightarrow> distinct (applied_acks js)"
  by (simp add: audit_acks_def filter_empty_conv distinct_iff_count not_less)

definition window_hits :: "wrec list \<Rightarrow> grule list" where
  "window_hits js = gate_hits \<lparr>gt_window_journal = js, gt_ladder_journal = [], gt_events = [],
     gt_gate_evaluations = [], gt_card = None\<rparr>"

lemma window_hits_nil: "window_hits js = [] \<longleftrightarrow> audit_window [] js = [] \<and> audit_window_digests js = [] \<and>
    audit_authorised (\<lambda>_. False) js = [] \<and> audit_barriers js = [] \<and> audit_acks js = []"
  by (simp add: window_hits_def gate_hits_def audit_ladder_digests_def ladder_receipts_def ambiguous_def audit_recoveries_def)

lemma audit_barriers_snoc: "audit_barriers (js @ [r]) = audit_barriers js @ (case wr_body r of
   WBarrier doc _ _ \<Rightarrow> audit_barrier_doc doc | _ \<Rightarrow> [])"
  by (simp add: audit_barriers_def)

lemma digests_snoc:
  "audit_window_digests (js @ [r]) = [] \<longleftrightarrow> audit_window_digests js = [] \<and>
    (case wr_body r of WPhaseReceipt p _ d \<Rightarrow> \<forall>d'. (p, d') \<in> set (phase_receipts js) \<longrightarrow> d' = d | _ \<Rightarrow> True)"
proof (cases "\<exists>p doc d. wr_body r = WPhaseReceipt p doc d")
  case True
  then obtain p doc d where r: "wr_body r = WPhaseReceipt p doc d" by blast
  then show ?thesis by (simp add: audit_window_digests_def phase_receipts_snoc ambiguous_snoc)
next
  case False
  then show ?thesis by (cases "wr_body r") (simp_all add: audit_window_digests_def phase_receipts_snoc)
qed

lemma hits_snoc:
  "window_hits (js @ [r]) = [] \<longleftrightarrow> window_hits js = [] \<and> admissible js (wr_body r)"
proof -
  have w: "audit_window [] (js @ [r]) = [] \<longleftrightarrow> audit_window [] js = [] \<and> (case wr_body r of
      Shared (RecTransition _ to _ _ _ _) \<Rightarrow> to \<in> set PHASE_ORDER \<longrightarrow> to \<in> receipts_in js | _ \<Rightarrow> True)"
    by (auto simp: audit_window_snoc ghit_def split: wbody.split jbody.split)
  have a: "audit_authorised (\<lambda>_. False) (js @ [r]) = [] \<longleftrightarrow> audit_authorised (\<lambda>_. False) js = [] \<and> (case wr_body r of
      Shared (RecIntent p _) \<Rightarrow> auth_after js p | WGateCheck p _ ladder declared \<Rightarrow> declared \<longrightarrow> really_authorised p ladder
    | _ \<Rightarrow> True)"
    by (auto simp: audit_authorised_snoc auth_hit_def auth_after_def ghit_def split: wbody.split jbody.split)
  have k: "audit_acks (js @ [r]) = [] \<longleftrightarrow> audit_acks js = [] \<and> (case wr_body r of
      WAck h e res _ \<Rightarrow> res = AckOutcome Applied \<longrightarrow> (h, e) \<notin> set (applied_acks js) | _ \<Rightarrow> True)"
    by (auto simp: audit_acks_nil applied_acks_snoc split: wbody.split ack_text.split outcome.split)
  show ?thesis
    unfolding window_hits_nil w a k digests_snoc audit_barriers_snoc
    by (cases "wr_body r") (auto simp: admissible_def split: jbody.split)
qed

lemma window_hits_ok: "window_hits js = [] \<longleftrightarrow> window_ok js"
proof (induction js rule: rev_induct)
  case Nil
  show ?case
    by (simp add: ok_nil window_hits_nil audit_window_digests_def ambiguous_def phase_receipts_def audit_barriers_def
        audit_acks_def applied_acks_def)
next
  case (snoc r js)
  then show ?case by (simp add: hits_snoc window_ok_snoc)
qed


subsection \<open>Receipted states\<close>

definition phase_receipted :: "wrec list \<Rightarrow> cstate \<Rightarrow> bool" where
  "phase_receipted js st \<longleftrightarrow> (st \<in> set PHASE_ORDER \<longrightarrow> st \<in> receipts_in js)"

text \<open>The state a pause remembers is the state a forward recovery goes back to.\<close>

definition resumable :: "wrec list \<Rightarrow> cstate \<Rightarrow> bool" where
  "resumable js p \<longleftrightarrow> p \<noteq> PAUSED_SAFE \<and> phase_receipted js p"

fun pause_target :: "wbody \<Rightarrow> cstate option" where
  "pause_target (Shared (RecTransition _ _ _ p _ _)) = p"
| "pause_target _ = None"

definition pauses_ok :: "wrec list \<Rightarrow> bool" where
  "pauses_ok js \<longleftrightarrow> (\<forall>r\<in>set js. \<forall>p. pause_target (wr_body r) = Some p \<longrightarrow> resumable js p)"

subsection \<open>What a journal records\<close>

record wview =
  wv_state :: cstate
  wv_reason :: "treason option"
  wv_paused_at :: "cstate option"
  wv_token :: "lease_token option"
  wv_epoch :: "int option"
  wv_keyed :: "string option"
  wv_barrier :: "jobj option"

definition view_step :: "wrec \<Rightarrow> wview \<Rightarrow> wview" where
  "view_step r v = (case wr_body r of
     Shared (RecTransition _ to reason at _ _) \<Rightarrow> v\<lparr>wv_state := to,
       wv_reason := (if to = PAUSED_SAFE \<or> to = ABORTED then reason else wv_reason v),
       wv_paused_at := (if to = PAUSED_SAFE then at else wv_paused_at v)\<rparr>
   | Shared (RecLease tok epoch _ _) \<Rightarrow> v\<lparr>wv_token := Some tok, wv_epoch := Some epoch\<rparr>
   | WMeta _ _ \<Rightarrow> v\<lparr>wv_keyed := Some (k_source_set_epoch (wr_keys r))\<rparr>
   | WBarrier doc _ _ \<Rightarrow> v\<lparr>wv_barrier := Some doc\<rparr>
   | _ \<Rightarrow> v)"

definition recorded :: "wrec list \<Rightarrow> wview" where
  "recorded js = fold view_step js \<lparr>wv_state = INIT, wv_reason = None, wv_paused_at = None,
     wv_token = None, wv_epoch = None, wv_keyed = None, wv_barrier = None\<rparr>"

lemma recorded_snoc: "recorded (js @ [r]) = view_step r (recorded js)"
  by (simp add: recorded_def)

lemma recorded_token_epoch: "wv_token (recorded js) = None \<longleftrightarrow> wv_epoch (recorded js) = None"
proof (induction js rule: rev_induct)
  case (snoc r js)
  then show ?case
    by (cases "wr_body r") (auto simp: recorded_snoc view_step_def split: jbody.split)
qed (simp add: recorded_def)

definition synced :: "'h cwin \<Rightarrow> bool" where
  "synced c \<longleftrightarrow> (let v = recorded (cw_journal c) in
     wv_state v = cw_state c \<and> wv_paused_at v = cw_paused_at c \<and> wv_token v = cw_lease_token c \<and>
     wv_barrier v = cw_barrier c \<and> wv_keyed v = Some (cw_keyed_epoch c) \<and>
     (wv_epoch v = None \<or> wv_epoch v = Some (cw_target_epoch c)) \<and>
     (cw_state c = PAUSED_SAFE \<longrightarrow> wv_reason v = cw_paused_reason c))"

subsection \<open>The invariant\<close>

definition receipted_all :: "'h cwin \<Rightarrow> bool" where
  "receipted_all c \<longleftrightarrow> cw_mutations c = {} \<and> cw_nmutations c = {} \<and> window_ok (cw_journal c) \<and> pauses_ok (cw_journal c) \<and>
     phase_receipted (cw_journal c) (cw_state c) \<and>
     (\<forall>p. cw_paused_at c = Some p \<longrightarrow> resumable (cw_journal c) p) \<and>
     (\<forall>h e. (h, e) \<in> set (applied_acks (cw_journal c)) \<longrightarrow> in_ack_ledger h e (cw_ack_ledger c))"

definition winv :: "'h cwin \<Rightarrow> bool" where
  "winv c \<longleftrightarrow> receipted_all c \<and> synced c"

lemma winv_mutations: "winv c \<Longrightarrow> cw_mutations c = {} \<and> cw_nmutations c = {}"
  by (simp add: winv_def receipted_all_def)

lemma phase_receipted_mono: "phase_receipted js p \<Longrightarrow> phase_receipted (js @ ks) p"
  by (auto simp: phase_receipted_def receipts_in_append)

lemma resumable_mono: "resumable js p \<Longrightarrow> resumable (js @ ks) p"
  by (simp add: resumable_def phase_receipted_mono)

lemma pauses_ok_snoc: "pauses_ok js \<Longrightarrow> (\<And>p. pause_target (wr_body r) = Some p \<Longrightarrow> resumable js p) \<Longrightarrow>
    pauses_ok (js @ [r])"
  by (auto simp: pauses_ok_def intro: resumable_mono)

text \<open>A new record.\<close>

lemma wdurable_journal: "cw_journal (wdurable b c) = cw_journal c @ [\<lparr>wr_seq = length (cw_journal c) + 1,
    wr_at = clock (cw_world c), wr_keys = wkeys c, wr_body = b\<rparr>]"
  by (simp add: wdurable_def)

lemma wdurable_fields [simp]:
  "cw_mutations (wdurable b c) = cw_mutations c" "cw_nmutations (wdurable b c) = cw_nmutations c"
  "cw_state (wdurable b c) = cw_state c" "cw_paused_at (wdurable b c) = cw_paused_at c"
  "cw_paused_reason (wdurable b c) = cw_paused_reason c" "cw_ack_ledger (wdurable b c) = cw_ack_ledger c"
  "cw_lease_token (wdurable b c) = cw_lease_token c" "cw_target_epoch (wdurable b c) = cw_target_epoch c"
  "cw_keyed_epoch (wdurable b c) = cw_keyed_epoch c" "cw_barrier (wdurable b c) = cw_barrier c"
  "cw_ladder (wdurable b c) = cw_ladder c" "cw_world (wdurable b c) = cw_world c"
  by (simp_all add: wdurable_def)

lemma wevent_fields [simp]:
  "cw_mutations (wevent k c) = cw_mutations c" "cw_nmutations (wevent k c) = cw_nmutations c"
  "cw_state (wevent k c) = cw_state c" "cw_paused_at (wevent k c) = cw_paused_at c"
  "cw_paused_reason (wevent k c) = cw_paused_reason c" "cw_ack_ledger (wevent k c) = cw_ack_ledger c"
  "cw_lease_token (wevent k c) = cw_lease_token c" "cw_target_epoch (wevent k c) = cw_target_epoch c"
  "cw_keyed_epoch (wevent k c) = cw_keyed_epoch c" "cw_barrier (wevent k c) = cw_barrier c"
  "cw_ladder (wevent k c) = cw_ladder c" "cw_journal (wevent k c) = cw_journal c"
  by (simp_all add: wevent_def)

text \<open>The invariant reads these fields only.\<close>

lemma receipted_all_snoc:
  assumes c: "receipted_all c" and d: "cw_journal d = cw_journal c @ [r]" "cw_mutations d = {}" "cw_nmutations d = {}"
    and r: "admissible (cw_journal c) (wr_body r)" "\<And>p. pause_target (wr_body r) = Some p \<Longrightarrow> resumable (cw_journal c) p"
    and st: "phase_receipted (cw_journal c @ [r]) (cw_state d)" "\<And>p. cw_paused_at d = Some p \<Longrightarrow> resumable (cw_journal c) p"
    and acks: "\<And>h e. in_ack_ledger h e (cw_ack_ledger c) \<Longrightarrow> in_ack_ledger h e (cw_ack_ledger d)"
      "\<And>h e m. wr_body r = WAck h e (AckOutcome Applied) m \<Longrightarrow> in_ack_ledger h e (cw_ack_ledger d)"
  shows "receipted_all d"
proof -
  have "window_ok (cw_journal d)" using c r(1) by (simp add: d window_ok_snoc receipted_all_def)
  moreover have "pauses_ok (cw_journal d)"
    unfolding d by (rule pauses_ok_snoc) (use c r(2) in \<open>auto simp: receipted_all_def\<close>)
  moreover have "in_ack_ledger h e (cw_ack_ledger d)" if "(h, e) \<in> set (applied_acks (cw_journal d))" for h e
    using applied_acks_snocD [OF that [unfolded d]] c acks by (auto simp: receipted_all_def)
  ultimately show ?thesis
    using d st by (auto simp: receipted_all_def intro: resumable_mono)
qed

fun harmless :: "wbody \<Rightarrow> bool" where
  "harmless (Shared (RecTransition _ _ _ _ _ _)) = False"
| "harmless (Shared (RecIntent _ _)) = False"
| "harmless (Shared (RecLease _ _ _ _)) = False"
| "harmless (Shared _) = True"
| "harmless _ = False"

lemma harmless_view: "harmless (wr_body r) \<Longrightarrow> view_step r v = v"
  by (cases "wr_body r" rule: harmless.cases) (simp_all add: view_step_def)

lemma harmless_admissible: "harmless b \<Longrightarrow> admissible js b \<and> pause_target b = None \<and> b \<noteq> WAck h e t m"
  by (cases b rule: harmless.cases) (simp_all add: admissible_def)

text \<open>A record that changes none of the recorded fields.\<close>

lemma winv_quiet:
  assumes c: "winv c" and "admissible (cw_journal c) b" "pause_target b = None" "\<And>h e m. b \<noteq> WAck h e (AckOutcome Applied) m"
    and "\<And>r v. wr_body r = b \<Longrightarrow> view_step r v = v"
  shows "winv (wdurable b c)"
proof -
  have "receipted_all (wdurable b c)"
    by (rule receipted_all_snoc [of c, OF _ wdurable_journal])
      (use assms in \<open>auto simp: winv_def receipted_all_def wdurable_fields intro: phase_receipted_mono\<close>)
  then show ?thesis using assms(1,5) by (simp add: winv_def synced_def wdurable_journal wdurable_fields recorded_snoc)
qed

lemma winv_harmless [simp, intro]: "winv c \<Longrightarrow> harmless b \<Longrightarrow> winv (wdurable b c)"
  by (rule winv_quiet) (auto simp: harmless_admissible harmless_view)

lemma winv_updates [simp]:
  "winv (c\<lparr>cw_world := w\<rparr>) = winv c" "winv (cw_world_update f c) = winv c" "winv (c\<lparr>cw_hook := hk\<rparr>) = winv c"
  "winv (c\<lparr>cw_hook := hk, cw_world := w\<rparr>) = winv c" "winv (c\<lparr>cw_observer := ob\<rparr>) = winv c" "winv (c\<lparr>cw_observer := ob, cw_world := w\<rparr>) = winv c"
  "winv (c\<lparr>cw_findings := fs\<rparr>) = winv c" "winv (c\<lparr>cw_break_glass_log := gs\<rparr>) = winv c"
  "winv (c\<lparr>cw_barrier_docs := ds\<rparr>) = winv c" "winv (c\<lparr>cw_resume_count := n\<rparr>) = winv c"
  "winv (wevent k c) = winv c"
  by (simp_all add: winv_def receipted_all_def synced_def wevent_def)

end
