(* ===== verification/Window_Safety.thy ===== *)
theory Window_Safety
  imports Window_Audit
begin

section \<open>Every operation of the window keeps its invariant\<close>

text \<open>
  Lemmas \<open>\<dots>_winv\<close>: the records an operation writes are admissible where it writes them and keep the
  volatile fields in step with the journal. The operations are composed from world updates, harmless
  records and the few records that carry meaning; each of the latter has its own lemma. A process
  that starts on an acceptable journal takes the recorded state (\<open>restart_winv\<close>).
\<close>

named_theorems winv_intros \<open>operations that keep the window invariant\<close>

subsection \<open>The records that carry meaning\<close>

lemma winvD:
  assumes "winv c"
  shows "receipted_all c" "synced c" "cw_mutations c = {}" "cw_nmutations c = {}"
    "window_ok (cw_journal c)" "phase_receipted (cw_journal c) (cw_state c)"
  using assms by (simp_all add: winv_def receipted_all_def)

text \<open>A transition, whatever its cause.\<close>

lemma winv_transition:
  assumes c: "winv c" and d: "cw_journal d = cw_journal (wdurable (Shared (RecTransition f to re at a v)) c)"
      "cw_state d = to" "cw_paused_at d = (if to = PAUSED_SAFE then at else cw_paused_at c)"
      "to = PAUSED_SAFE \<Longrightarrow> cw_paused_reason d = re"
    and same: "cw_mutations d = cw_mutations c" "cw_nmutations d = cw_nmutations c" "cw_ack_ledger d = cw_ack_ledger c"
      "cw_lease_token d = cw_lease_token c" "cw_target_epoch d = cw_target_epoch c"
      "cw_keyed_epoch d = cw_keyed_epoch c" "cw_barrier d = cw_barrier c"
    and ok: "phase_receipted (cw_journal c) to" "\<And>p. at = Some p \<Longrightarrow> resumable (cw_journal c) p"
  shows "winv d"
proof -
  obtain r where r: "cw_journal d = cw_journal c @ [r]" "wr_body r = Shared (RecTransition f to re at a v)"
    using d(1) by (simp add: wdurable_journal)
  have "receipted_all d"
  proof (rule receipted_all_snoc [of c, OF _ r(1)])
    show "admissible (cw_journal c) (wr_body r)" using ok(1) by (simp add: r(2) admissible_def phase_receipted_def)
    show "phase_receipted (cw_journal c @ [r]) (cw_state d)" using ok(1) by (simp add: d(2) phase_receipted_mono)
  qed (use winvD [OF c] d r(2) ok(2) same in \<open>auto simp: receipted_all_def split: if_splits\<close>)
  moreover have "synced d"
    using winvD(2) [OF c] d(2-4) same by (auto simp: synced_def r recorded_snoc view_step_def Let_def)
  ultimately show ?thesis by (simp add: winv_def)
qed

lemma receipted_pseudo [simp]: "phase_receipted js PAUSED_SAFE" "phase_receipted js ABORTED"
  by (simp_all add: phase_receipted_def PHASE_ORDER_def)

lemma winv_resumable: "winv c \<Longrightarrow> cw_state c \<noteq> PAUSED_SAFE \<Longrightarrow> resumable (cw_journal c) (cw_state c)"
  "winv c \<Longrightarrow> cw_paused_at c = Some p \<Longrightarrow> resumable (cw_journal c) p"
  by (simp_all add: winv_def receipted_all_def resumable_def)

lemma wpause_winv [winv_intros]:
  assumes c: "winv c"
  shows "winv (wpause reason c)"
proof (cases "cw_state c = PAUSED_SAFE")
  case False
  show ?thesis
    unfolding wpause_def Let_def if_not_P [OF False] winv_updates
    by (rule winv_transition [OF c], simp add: winvD(3) [OF c]) (use False winv_resumable(1) [OF c] in auto)
qed (simp add: wpause_def c)

text \<open>A checkpoint of a phase that has its receipt.\<close>

lemma wcheckpoint_winv:
  assumes c: "winv c" and p: "p \<in> set PHASE_ORDER" "phase_receipted (cw_journal c) p"
  shows "winv (wcheckpoint p keys v c)"
proof -
  let ?c = "wdurable (Shared (RecCheckpoint p keys v)) c"
  have c': "winv ?c" using c by simp
  have np: "p \<noteq> PAUSED_SAFE" using p(1) by (auto simp: PHASE_ORDER_def)
  have "winv ((wevent k (wdurable (Shared (RecTransition f p None None None (Some v))) ?c))\<lparr>cw_state := p, cw_paused_reason := None\<rparr>)"
    for k f
    by (rule winv_transition [OF c'], simp) (use np p(2) in \<open>auto simp: wdurable_journal [of _ c] phase_receipted_mono\<close>)
  then show ?thesis by (simp add: wcheckpoint_def Let_def)
qed

lemma phase_receipt_winv [winv_intros]:
  assumes c: "winv c"
  shows "winv (phase_receipt H nonce p keys v c)"
proof (cases "has_phase_receipt p (cw_journal c)")
  case True
  with c winvD(4) [OF c] show ?thesis by (simp add: phase_receipt_def)
next
  case False
  then have "p \<notin> fst ` set (phase_receipts (cw_journal c))" by (simp add: phase_receipts_keys receipts_in_def)
  then have fresh: "(p, d) \<notin> set (phase_receipts (cw_journal c))" for d by force
  have "winv (wdurable (WPhaseReceipt p doc d) c)" for doc d
    by (rule winv_quiet [OF c]) (use fresh in \<open>auto simp: admissible_def view_step_def\<close>)
  with False winvD(4) [OF c] show ?thesis by (simp add: phase_receipt_def Let_def)
qed

lemma phase_receipt_gives: "winv c \<Longrightarrow> phase_receipted (cw_journal (phase_receipt H nonce p keys v c)) p"
  using winvD(4) [of c]
  by (auto simp: phase_receipted_def phase_receipt_def receipts_in_def wdurable_journal has_phase_receipt_def Let_def)

lemma wabort_winv [winv_intros]:
  assumes c: "winv c"
  shows "winv (fst (wabort reason c))"
proof -
  let ?w = "fst (release_lease (cw_lease_token c) (fst (release_fence (fence_key_of (cw_migration_id c)) (cw_world c))))"
  have c': "winv (c\<lparr>cw_world := ?w\<rparr>)" using c by simp
  have "winv ((wevent k (wdurable (Shared (RecTransition st ABORTED re None a None)) (c\<lparr>cw_world := ?w\<rparr>)))\<lparr>cw_state := ABORTED\<rparr>)"
    for k st re a
    by (rule winv_transition [OF c'], simp) simp_all
  then show ?thesis using c by (simp add: wabort_def Let_def)
qed

lemma wforward_recovery_winv [winv_intros]:
  assumes c: "winv c"
  shows "winv (fst (wforward_recovery c))"
proof (cases "cw_state c = PAUSED_SAFE \<and> cw_paused_reason c \<noteq> None \<and> wpause_cleared c \<and> cw_paused_at c \<noteq> None")
  case True
  then obtain p where p: "cw_paused_at c = Some p" by blast
  have "winv ((wevent k (wdurable (Shared (RecTransition (Some PAUSED_SAFE) p re None None None)) c))\<lparr>cw_state := p, cw_paused_reason := None\<rparr>)"
    for k re
    by (rule winv_transition [OF c], simp) (use winv_resumable(2) [OF c p] in \<open>auto simp: resumable_def\<close>)
  with True p show ?thesis by (simp add: wforward_recovery_def Let_def)
next
  case False
  with c show ?thesis by (auto simp: wforward_recovery_def split: option.split)
qed

subsection \<open>Effects\<close>

lemma apply_effect_keeps:
  assumes upd: "\<And>f s. I (upd f s) = I s" and fn: "keeps I fn"
  shows "keeps I (apply_effect get upd key kind fn needs b)"
proof (rule keepsI)
  fix s assume s: "I s"
  have "I (fst (bindx (fn t) (\<lambda>s res. (upd (g res (get s)) s, Inr (r res (get s))))))"
    if "I t" for t g and r :: "outcome \<Rightarrow> world \<Rightarrow> outcome"
    by (rule fst_bindx_induct) (use keepsD [OF fn that] in \<open>simp_all add: upd\<close>)
  from this [of _ "\<lambda>res w. effect_note key kind (res = Applied)
      (if res = Applied \<and> \<not> network w then Unknown else res)"
      "\<lambda>res w. if res = Applied \<and> \<not> network w then Unknown else res"]
  show "I (fst (apply_effect get upd key kind fn needs b s))"
    using s by (simp add: apply_effect_def Let_def upd split: option.split)
qed

text \<open>An acknowledgement beside its ledger.\<close>

lemma winv_ack:
  assumes c: "winv c" and led: "\<And>h' e'. in_ack_ledger h' e' (cw_ack_ledger c) \<Longrightarrow> in_ack_ledger h' e' as"
    and new: "t = AckOutcome Applied \<Longrightarrow> \<not> in_ack_ledger h e (cw_ack_ledger c) \<and> in_ack_ledger h e as"
  shows "winv (wdurable (WAck h e t m) (c\<lparr>cw_ack_ledger := as\<rparr>))" (is "winv ?d")
proof -
  have "(h, e) \<notin> set (applied_acks (cw_journal c))" if "t = AckOutcome Applied"
    using new [OF that] winvD(1) [OF c] by (auto simp: receipted_all_def)
  then have "receipted_all ?d"
    by (intro receipted_all_snoc [OF winvD(1) [OF c]])
      (use c led new in \<open>auto simp: wdurable_journal admissible_def winv_def receipted_all_def phase_receipted_mono\<close>)
  then show ?thesis using winvD(2) [OF c] by (simp add: winv_def synced_def wdurable_journal recorded_snoc view_step_def Let_def)
qed

lemma in_ack_ledger_count [simp]: "in_ack_ledger h e (count_repeat h' e' as) = in_ack_ledger h e as"
  unfolding in_ack_ledger_def by (induction as) auto

lemma in_ack_ledger_snoc: "in_ack_ledger h e (as @ [a]) \<longleftrightarrow> in_ack_ledger h e as \<or> ae_host a = h \<and> ae_epoch a = e"
  by (simp add: in_ack_ledger_def)

lemma record_ack_winv [winv_intros]: "winv c \<Longrightarrow> winv (record_ack h e res c)"
  using winvD(4) [of c] by (auto simp: record_ack_def in_ack_ledger_snoc intro!: winv_ack)

lemma production_barrier_accepted: "audit_barrier_doc (make_production_barrier H mig sse pv t fk tok cas led ev) = []"
  by (simp add: audit_barrier_doc_def make_production_barrier_def barrier_body_def Let_def doc_get_def BARRIER_SCHEMA_def
      CANDIDATE_KEYS_def ghit_def)

lemma mint_barrier_winv [winv_intros]:
  assumes c: "winv c"
  shows "winv (mint_barrier H cas c)"
proof -
  have "winv (wdurable (WBarrier doc v put) (c\<lparr>cw_barrier_docs := docs, cw_barrier := Some doc\<rparr>))" (is "winv ?d")
    if "audit_barrier_doc doc = []" for doc v put docs
  proof -
    have "receipted_all ?d"
      by (rule receipted_all_snoc [OF winvD(1) [OF c]])
        (use c that in \<open>auto simp: wdurable_journal admissible_def winv_def receipted_all_def phase_receipted_mono\<close>)
    then show ?thesis using winvD(2) [OF c] by (simp add: winv_def synced_def wdurable_journal recorded_snoc view_step_def Let_def)
  qed
  then show ?thesis
    using winvD(4) [OF c] by (simp add: mint_barrier_def Let_def production_barrier_accepted split: prod.split)
qed

lemma wtake_lease_winv [winv_intros]:
  assumes c: "winv c"
  shows "winv (fst (wtake_lease c))"
proof -
  have "winv (wdurable (Shared (RecLease t e x y)) (c\<lparr>cw_world := w, cw_lease_token := Some t, cw_target_epoch := e\<rparr>))" (is "winv ?d")
    for t e x y w
  proof -
    have "receipted_all ?d"
      by (rule receipted_all_snoc [OF winvD(1) [OF c]])
        (use c in \<open>auto simp: wdurable_journal admissible_def winv_def receipted_all_def phase_receipted_mono\<close>)
    then show ?thesis using winvD(2) [OF c] by (simp add: winv_def synced_def wdurable_journal recorded_snoc view_step_def Let_def)
  qed
  then show ?thesis using c by (simp add: wtake_lease_def Let_def split: prod.split sum.split)
qed

lemma wlease_needed_winv [winv_intros]: "winv c \<Longrightarrow> winv (fst (wlease_needed c))"
  by (simp add: wlease_needed_def split: option.split prod.split)

lemma weffect_fn_keeps: "keeps winv (weffect_fn H p key)"
proof (rule keepsI)
  fix c :: "'a cwin" assume c: "winv c"
  have "winv (fst (wquiesce_fn c))" using c by (simp add: wquiesce_fn_def split: prod.split)
  moreover have "winv (fst (wfence_fn c))"
    unfolding wfence_fn_def using wlease_needed_winv [of "c\<lparr>cw_world := fst (set_fence (fence_key_of (cw_migration_id c)) (cw_world c))\<rparr>"] c
    by (auto simp: wtake_lease_winv split: prod.split)
  moreover have "winv (fst (wcommit_fn H c))"
    using c by (simp add: wcommit_fn_def Let_def mint_barrier_winv split: prod.split)
  moreover have "winv (fst (wack_fn key c))"
    using c by (simp add: wack_fn_def record_ack_winv split: effect_key.split key_tail.split prod.split)
  moreover have "winv (fst (wcomplete_fn c))" using c by (simp add: wcomplete_fn_def Let_def)
  ultimately show "winv (fst (weffect_fn H p key c))" using c by (simp add: weffect_fn_def split: cstate.split)
qed

lemma wissue_once_winv: "winv c \<Longrightarrow> winv (fst (wissue_once H p key c))"
  unfolding wissue_once_def by (rule keepsD [OF apply_effect_keeps [OF _ weffect_fn_keeps]]) simp_all

lemma wissue_loop_winv: "winv c \<Longrightarrow> winv (fst (wissue_loop n prev H p key c))"
proof (induction n arbitrary: prev c)
  case (Suc n)
  show ?case unfolding wissue_loop.simps
    by (rule fst_bindx_keep, rule wissue_once_winv [OF Suc.prems]) (simp add: Suc.IH)
qed simp

lemma wissue_winv [winv_intros]: "winv c \<Longrightarrow> winv (fst (wissue H p key c))"
  by (simp add: wissue_def wissue_loop_winv)

lemma wissue_all_winv [winv_intros]: "winv c \<Longrightarrow> winv (fst (wissue_all H p keys c))"
proof (induction keys arbitrary: c)
  case (Cons key keys)
  have tail: "winv (fst (bindx (wissue_all H p keys d) (\<lambda>c rs. (c, Inr ((key, r) # rs)))))" if "winv d" for d :: "'a cwin" and r
    by (rule fst_bindx_keep, rule Cons.IH [OF that]) simp
  have again: "winv (fst (bindx (if b then wissue H p key d else (d, Inr r))
      (\<lambda>c r. bindx (wissue_all H p keys c) (\<lambda>c rs. (c, Inr ((key, r) # rs))))))" if "winv d" for d :: "'a cwin" and r b
    by (rule fst_bindx_keep) (simp_all add: wissue_winv that tail)
  show ?case unfolding wissue_all.simps
    by (rule fst_bindx_keep) (simp_all add: wissue_winv Cons.prems again)
qed simp

subsection \<open>The guard authorises the intent\<close>

lemma authorises_really: "authorises lv p = Inr True \<Longrightarrow> really_authorised p (lv_state lv)"
  by (cases p) (auto simp: authorises_def really_authorised_def LADDER_def LADDER_ORDER_def split: if_splits)

lemma wguard_facts_frame:
  "cw_journal (fst (wguard_facts nxt c)) = cw_journal c \<and> winv (fst (wguard_facts nxt c)) = winv c"
  by (simp add: wguard_facts_def wguard_lease_def wnote_drift_def check_token_def split: prod.split option.split)

lemma winv_gate_check:
  assumes "winv c" "declared \<Longrightarrow> really_authorised p ladder"
  shows "winv (wdurable (WGateCheck p need ladder declared) c)"
  by (rule winv_quiet [OF assms(1)]) (use assms(2) in \<open>simp_all add: admissible_def view_step_def\<close>)

lemma wguard_winv:
  assumes c: "winv c"
  shows "winv (fst (wguard nxt c)) \<and> (snd (wguard nxt c) = Inr None \<longrightarrow> auth_after (cw_journal (fst (wguard nxt c))) nxt)"
proof (cases "authorises (cw_ladder c) nxt")
  case (Inr ok)
  then obtain need where need: "AUTHORISING_LADDER_STATE nxt = Some need" by (auto simp: authorises_def split: option.splits)
  show ?thesis
  proof (cases ok)
    case True
    let ?d = "wdurable (WGateCheck nxt (Some need) (lv_state (cw_ladder c)) True) c"
    have ra: "really_authorised nxt (lv_state (cw_ladder c))" using Inr True by (simp add: authorises_really)
    have "winv ?d" by (rule winv_gate_check [OF c ra])
    moreover have "auth_after (cw_journal ?d) nxt" by (simp add: wdurable_journal auth_after_snoc auth_step_def ra)
    ultimately show ?thesis
      using wguard_facts_frame [of nxt ?d] by (cases "wguard_facts nxt ?d") (simp add: wguard_def Inr need True)
  next
    case False
    then show ?thesis using c winvD(4) [OF c] by (simp add: wguard_def Inr need winv_gate_check)
  qed
qed (use c in \<open>simp add: wguard_def\<close>)

lemma winv_intent: "winv c \<Longrightarrow> auth_after (cw_journal c) p \<Longrightarrow> winv (wdurable (Shared (RecIntent p keys)) c)"
  by (rule winv_quiet) (simp_all add: admissible_def view_step_def)

lemma auth_after_phase: "auth_after js p \<Longrightarrow> p \<in> set PHASE_ORDER"
proof (induction js rule: rev_induct)
  case (snoc r js)
  have "really_authorised q l \<Longrightarrow> q \<in> set PHASE_ORDER" for q l
    by (cases q) (simp_all add: really_authorised_def PHASE_ORDER_def)
  with snoc show ?case by (cases "wr_body r") (auto simp: auth_after_snoc auth_step_def split: if_splits)
qed (simp add: auth_after_def)

lemma intent_phase: "window_ok js \<Longrightarrow> r \<in> set js \<Longrightarrow> wr_body r = Shared (RecIntent p keys) \<Longrightarrow> p \<in> set PHASE_ORDER"
  by (induction rule: window_ok.induct) (auto simp: admissible_def dest: auth_after_phase)

end
