(* ===== verification/Window_Props.thy ===== *)
theory Window_Props
  imports Window_Safety Gates_Props
begin

section \<open>Reachable windows pass the oracle and survive a restart\<close>

text \<open>
  \<open>wreach\<close> is every history of windows over one journal: operations in any order, hooks that raise
  anywhere they are fired, arbitrary changes of the world, the ladder moving between processes, and
  restarts of the process on the journal it left. All of them keep \<open>winv\<close>.
\<close>

subsection \<open>Step and run\<close>

lemma wfire_winv [winv_intros]: "winv c \<Longrightarrow> winv (fst (wfire hook p st c))"
  by (simp add: wfire_def split: prod.split)

lemma wfire_journal: "cw_journal (fst (wfire hook p st c)) = cw_journal c"
  by (simp add: wfire_def split: prod.split)

lemma wfresh_observe_winv: "winv c \<Longrightarrow> winv (fst (wfresh_observe H key nxt c))"
  by (simp add: wfresh_observe_def split: prod.split sum.split)

lemma wstep_observe_winv [winv_intros]: "winv c \<Longrightarrow> winv (fst (wstep_observe H nxt c))"
  by (simp add: wstep_observe_def Let_def wfresh_observe_winv split: option.split)

lemma receipted_checkpoint_winv:
  assumes "winv c" "p \<in> set PHASE_ORDER"
  shows "winv (wcheckpoint p keys v (phase_receipt H nonce p keys v c))"
  by (rule wcheckpoint_winv) (simp_all add: assms phase_receipt_winv phase_receipt_gives)

lemma wstep_commit_winv:
  assumes c: "winv c" and p: "p \<in> set PHASE_ORDER"
  shows "winv (fst (bindx (wfire hook AfterEffect p c) (\<lambda>c _.
     bindx (wfire hook AfterReceipt p (phase_receipt H nonce p keys v c)) (\<lambda>c _.
     bindx (wfire hook AfterCheckpoint p (wcheckpoint p keys v c)) (\<lambda>c _. (c, Inr (cw_state c)))))))"
proof (rule fst_bindx_keep)
  show "winv (fst (wfire hook AfterEffect p c))" using c by (rule wfire_winv)
next
  fix d :: "'a cwin" and a :: unit assume d: "winv d"
  let ?r = "phase_receipt H nonce p keys v d"
  have r: "winv (fst (wfire hook AfterReceipt p ?r))" "phase_receipted (cw_journal (fst (wfire hook AfterReceipt p ?r))) p"
    using d by (simp_all add: wfire_winv phase_receipt_winv phase_receipt_gives wfire_journal)
  show "winv (fst (bindx (wfire hook AfterReceipt p ?r) (\<lambda>c _.
      bindx (wfire hook AfterCheckpoint p (wcheckpoint p keys v c)) (\<lambda>c _. (c, Inr (cw_state c))))))"
  proof (rule fst_bindx_induct [of winv, OF r(1)])
    fix e :: "'a cwin" and u :: unit assume "wfire hook AfterReceipt p ?r = (e, Inr u)"
    with r p have "winv (wcheckpoint p keys v e)" by (simp add: wcheckpoint_winv)
    then show "winv (fst (bindx (wfire hook AfterCheckpoint p (wcheckpoint p keys v e)) (\<lambda>c _. (c, Inr (cw_state c)))))"
      by (intro fst_bindx_keep [of winv] wfire_winv) simp_all
  qed
qed

lemma wstep_effects_winv [winv_intros]:
  assumes c: "winv c" and a: "auth_after (cw_journal c) p"
  shows "winv (fst (wstep_effects H nonce hook p c))"
proof -
  let ?keys = "weffect_keys p c"
  have "winv (fst (wissue_all H p ?keys (wdurable (Shared (RecIntent p ?keys)) c)))"
    by (intro wissue_all_winv winv_intent c a)
  then show ?thesis
    unfolding wstep_effects_def Let_def
    by (rule fst_bindx_keep)
      (simp add: wpause_winv wstep_commit_winv auth_after_phase [OF a] split: option.split)
qed

lemma wstep_winv [winv_intros]:
  assumes c: "winv c"
  shows "winv (fst (wstep H nonce hook c))"
proof (cases "terminal (cw_state c)")
  case False
  let ?n = "next_state (cw_state c)"
  have guarded: "winv (fst (bindx (wguard ?n d) (\<lambda>c g. case g of
      Some r \<Rightarrow> (let c = wpause r c in (c, Inr (cw_state c))) | None \<Rightarrow> wstep_effects H nonce hook ?n c)))"
    if d: "winv d" for d :: "'a cwin"
    by (rule fst_bindx_induct [of winv])
      (use wguard_winv [OF d, of ?n] in \<open>auto simp: Let_def wpause_winv wstep_effects_winv split: option.split\<close>)
  have observed: "winv (fst (bindx (wstep_observe H ?n d) (\<lambda>c obs. bindx (wfire hook AfterObservation ?n c) (\<lambda>c _.
      bindx (wguard ?n c) (\<lambda>c g. case g of
      Some r \<Rightarrow> (let c = wpause r c in (c, Inr (cw_state c))) | None \<Rightarrow> wstep_effects H nonce hook ?n c)))))"
    if "winv d" for d :: "'a cwin"
    using that by (intro fst_bindx_keep [of winv] wstep_observe_winv wfire_winv guarded)
  have "winv (fst (wfire hook BeforeObservation ?n (c\<lparr>cw_world := advance STEP_TICKS (cw_world c)\<rparr>)))"
    by (rule wfire_winv) (simp add: c)
  with False show ?thesis
    unfolding wstep_def Let_def if_not_P [OF False]
    by (intro fst_bindx_keep [of winv]) (auto simp: wpause_winv observed [unfolded Let_def])
qed (simp add: wstep_def c)

lemma wrun_loop_winv: "winv c \<Longrightarrow> winv (fst (wrun_loop n H nonce hook c))"
proof (induction n arbitrary: c)
  case (Suc n)
  show ?case unfolding wrun_loop.simps
    by (rule fst_bindx_keep, rule wstep_winv [OF Suc.prems]) (simp add: Suc.IH)
qed simp

lemma wrun_winv [winv_intros]: "winv c \<Longrightarrow> winv (fst (wrun H nonce hook c))"
  by (simp add: wrun_def wrun_loop_winv)

subsection \<open>Resume and restart\<close>

lemma wlast_in: "wlast k js = Some r \<Longrightarrow> r \<in> set js"
  unfolding wlast_def by (auto dest: find_SomeD)

lemma dangling_phase:
  assumes "window_ok js" "wdangling_intent js = Some (p, keys)"
  shows "p \<in> set PHASE_ORDER"
proof -
  obtain i where i: "wlast (shared_kind is_intent) js = Some i" "wr_body i = Shared (RecIntent p keys)"
    using assms(2) by (auto simp: wdangling_intent_def split: option.splits wbody.splits jbody.splits if_splits)
  show ?thesis by (rule intent_phase [OF assms(1) wlast_in [OF i(1)] i(2)])
qed

lemma wreconcile_keys_winv: "winv c \<Longrightarrow> winv (fst (wreconcile_keys H p keys c))"
proof (induction keys arbitrary: c)
  case (Cons key keys)
  obtain w rb where rb: "readback key (cw_world c) = (w, rb)" by (cases "readback key (cw_world c)")
  let ?c = "wevent (EvReconcileReadback key rb) (wdurable (Shared (RecReconciliation p key rb rb False)) (c\<lparr>cw_world := w\<rparr>))"
  have c': "winv ?c" using Cons.prems by simp
  have "winv (fst (bindx (wissue H p key ?c) (\<lambda>c r. case r of
      Unknown \<Rightarrow> (wpause UNKNOWN_EFFECT_UNRECONCILED (wdurable (Shared (RecReconciliation p key None None False)) c), Inr False)
    | Rejected rj \<Rightarrow> (wpause (reason_for rj) c, Inr False) | Applied \<Rightarrow> wreconcile_keys H p keys c)))"
    by (rule fst_bindx_keep, rule wissue_winv [OF c']) (simp add: wpause_winv Cons.IH split: outcome.split)
  then show ?case
    using c' winvD(3) [OF Cons.prems] Cons.IH [OF c'] by (auto simp: rb Let_def wpause_winv split: option.split readback_result.split)
qed simp

lemma wreadback_all_winv: "winv (fst (wreadback_all keys c)) = winv c"
  by (induction keys arbitrary: c) (simp_all split: prod.split)

lemma wreconcile_winv:
  assumes c: "winv c" and p: "p \<in> set PHASE_ORDER"
  shows "winv (fst (wreconcile H nonce p keys c))"
  unfolding wreconcile_def
proof (rule fst_bindx_keep, rule wreconcile_keys_winv [OF c])
  fix d :: "'a cwin" and fin assume d: "winv d"
  then have "winv (fst (wreadback_all keys d))" by (simp add: wreadback_all_winv)
  with d p show "winv (fst (if \<not> fin then (d, Inr ()) else (case wreadback_all keys d of
      (c, True) \<Rightarrow> (wcheckpoint p keys ViaReconciliation (phase_receipt H nonce p keys ViaReconciliation c), Inr ())
    | (c, False) \<Rightarrow> (c, Inr ()))))"
    by (cases "wreadback_all keys d") (simp add: receipted_checkpoint_winv split: bool.split)
qed

lemma wresume_winv [winv_intros]:
  assumes c: "winv c"
  shows "winv (fst (wresume H nonce c))"
proof -
  let ?c = "wevent (EvResume (cw_state c) (Suc (cw_resume_count c))) (c\<lparr>cw_resume_count := Suc (cw_resume_count c)\<rparr>)"
  have c': "winv ?c" using c by simp
  have rec: "winv (fst (case wdangling_intent (cw_journal ?c) of None \<Rightarrow> (?c, Inr ())
      | Some (st, keys) \<Rightarrow> wreconcile H nonce st keys ?c))"
    using c' dangling_phase [OF winvD(5) [OF c']] by (auto simp: wreconcile_winv split: option.split)
  have fwd: "winv (fst (bindx (wforward_recovery d) (\<lambda>c _. (c, Inr (cw_state c, b \<noteq> cw_state c)))))"
    if "winv d" for d :: "'a cwin" and b
    by (intro fst_bindx_keep [of winv] wforward_recovery_winv that) simp
  have "winv (fst (bindx (case wdangling_intent (cw_journal ?c) of None \<Rightarrow> (?c, Inr ())
      | Some (st, keys) \<Rightarrow> wreconcile H nonce st keys ?c) (\<lambda>c _. bindx (wforward_recovery c)
        (\<lambda>c _. (c, Inr (cw_state c, b \<noteq> cw_state c))))))" for b
    by (intro fst_bindx_keep [of winv] rec fwd)
  then show ?thesis
    using c' winvD(3) [OF c] by (simp add: wresume_def wdouble_transition_def Let_def wpause_winv)
qed

lemma wrollback_winv [winv_intros]: "winv c \<Longrightarrow> winv (fst (wrollback_to_known_good H c))"
  using winvD(3) [of c] by (simp add: wrollback_to_known_good_def Let_def wpause_winv)

lemma reactivate_host_winv [winv_intros]: "winv c \<Longrightarrow> winv (fst (reactivate_host h e c))"
proof -
  assume c: "winv c"
  have "winv (wdurable (WAck h e' (AckOutcome (Rejected RHostUnreachable)) m) c)" for e' m
    using winv_ack [OF c, of "cw_ack_ledger c" "AckOutcome (Rejected RHostUnreachable)" h e' m] by simp
  with c show ?thesis by (simp add: reactivate_host_def Let_def record_ack_winv split: prod.split)
qed

lemma break_glass_winv [winv_intros]: "winv c \<Longrightarrow> winv (fst (wuse_break_glass bg c))"
  by (simp add: wuse_break_glass_def split: prod.split)

text \<open>Recovery reads the view of the journal; its fold over an acceptable journal ends in a receipted state.\<close>

definition of_view :: "wview \<Rightarrow> 'h cwin \<Rightarrow> 'h cwin" where
  "of_view v c = c\<lparr>cw_paused_reason := wv_reason v, cw_paused_at := wv_paused_at v, cw_lease_token := wv_token v,
     cw_target_epoch := (case wv_epoch v of None \<Rightarrow> cw_target_epoch c | Some e \<Rightarrow> e),
     cw_keyed_epoch := (case wv_keyed v of None \<Rightarrow> cw_keyed_epoch c | Some k \<Rightarrow> k), cw_barrier := wv_barrier v\<rparr>"

definition ack_entries :: "wrec list \<Rightarrow> ack_entry list" where
  "ack_entries js = concat (map (\<lambda>r. case wr_body r of
     WAck h e res _ \<Rightarrow> [\<lparr>ae_host = h, ae_epoch = e, ae_result = res, ae_repeats = None\<rparr>] | _ \<Rightarrow> []) js)"

lemma wrecover_rec_view:
  "wrecover_rec r (wv_state v, (of_view v c)\<lparr>cw_ack_ledger := as\<rparr>) =
    (wv_state (view_step r v), (of_view (view_step r v) c)\<lparr>cw_ack_ledger := as @ ack_entries [r]\<rparr>)"
  by (cases "wr_body r") (auto simp: wrecover_rec_def view_step_def of_view_def ack_entries_def Let_def split: jbody.split)

lemma recover_fold:
  "fold wrecover_rec js (wv_state v, (of_view v c)\<lparr>cw_ack_ledger := as\<rparr>) =
    (wv_state (fold view_step js v), (of_view (fold view_step js v) c)\<lparr>cw_ack_ledger := as @ ack_entries js\<rparr>)"
proof (induction js arbitrary: v as)
  case (Cons r js)
  have "ack_entries (r # js) = ack_entries [r] @ ack_entries js" by (simp add: ack_entries_def)
  then show ?case by (simp add: wrecover_rec_view Cons.IH)
qed (simp add: ack_entries_def)

lemma applied_in_entries: "(h, e) \<in> set (applied_acks js) \<Longrightarrow> in_ack_ledger h e (ack_entries js)"
proof (induction js rule: rev_induct)
  case (snoc r js)
  have *: "ack_entries (js @ [r]) = ack_entries js @ ack_entries [r]" by (simp add: ack_entries_def)
  from applied_acks_snocD [OF snoc.prems] show ?case
    using snoc.IH by (auto simp: * in_ack_ledger_def ack_entries_def)
qed (simp add: applied_acks_def)

definition blank :: "world \<Rightarrow> wrec list \<Rightarrow> observer \<Rightarrow> string \<Rightarrow> ladder_view \<Rightarrow> barrier_docs \<Rightarrow> 'h \<Rightarrow> 'h cwin" where
  "blank w js ob mig ladder docs hk =
    \<lparr>cw_world = w, cw_journal = js, cw_observer = ob, cw_hook = hk, cw_migration_id = mig,
     cw_mutations = {}, cw_nmutations = {}, cw_ladder = ladder, cw_barrier_docs = docs,
     cw_keyed_epoch = source_set_epoch w, cw_state = INIT, cw_paused_reason = None, cw_paused_at = None,
     cw_lease_token = None, cw_target_epoch = sim_current_epoch w + 1, cw_findings = [],
     cw_break_glass_log = [], cw_ack_ledger = [], cw_barrier = None, cw_resume_count = 0, cw_nonces = 0\<rparr>"

lemma blank_fields [simp]:
  "cw_journal (of_view v c) = cw_journal c" "cw_ladder (of_view v c) = cw_ladder c"
  "cw_nmutations (of_view v c) = cw_nmutations c" "cw_journal (blank w js ob mig ladder docs hk) = js"
  "cw_ladder (blank w js ob mig ladder docs hk) = ladder" "cw_nmutations (blank w js ob mig ladder docs hk) = {}"
  by (simp_all add: of_view_def blank_def)

lemma restart_eq:
  "CutoverWindow w js ob mig {} {} ladder docs hk =
    (let s = wv_state (recorded js);
         c = (wevent (EvResumeRecovered s s True) ((of_view (recorded js) (blank w js ob mig ladder docs hk))\<lparr>cw_ack_ledger := ack_entries js\<rparr>))\<lparr>cw_state := s\<rparr>
     in if js = [] then wdurable (WMeta (ladder_view_json ladder) describe_backends) c else c)"
proof -
  let ?v = "\<lparr>wv_state = INIT, wv_reason = None, wv_paused_at = None, wv_token = None, wv_epoch = None,
      wv_keyed = None, wv_barrier = None\<rparr> :: wview"
  let ?b = "blank w js ob mig ladder docs hk"
  have "?b = (of_view ?v ?b)\<lparr>cw_ack_ledger := []\<rparr>" by (simp add: of_view_def blank_def)
  then have "fold wrecover_rec js (INIT, ?b) = (wv_state (recorded js), (of_view (recorded js) ?b)\<lparr>cw_ack_ledger := ack_entries js\<rparr>)"
    using recover_fold [where js = js and v = ?v and c = ?b and as = "[]"] by (simp add: recorded_def)
  moreover have "CutoverWindow w js ob mig {} {} ladder docs hk = wrecover ?b" by (simp add: CutoverWindow_def blank_def)
  ultimately show ?thesis by (simp add: wrecover_def Let_def)
qed

definition acceptable :: "wrec list \<Rightarrow> bool" where
  "acceptable js \<longleftrightarrow> window_ok js \<and> pauses_ok js \<and> (js = [] \<or> wv_keyed (recorded js) \<noteq> None)"

lemma recorded_state_receipted: "window_ok js \<Longrightarrow> phase_receipted js (wv_state (recorded js))"
proof (induction rule: window_ok.induct)
  case (ok_snoc js r)
  show ?case
  proof (cases "\<exists>f to re at a v. wr_body r = Shared (RecTransition f to re at a v)")
    case True
    with ok_snoc.hyps show ?thesis
      by (auto simp: recorded_snoc view_step_def admissible_def phase_receipted_def receipts_in_append)
  next
    case False
    then have "wv_state (recorded (js @ [r])) = wv_state (recorded js)"
      by (cases "wr_body r") (auto simp: recorded_snoc view_step_def split: jbody.split)
    with ok_snoc.IH show ?thesis by (simp add: phase_receipted_mono)
  qed
qed (simp add: recorded_def phase_receipted_def PHASE_ORDER_def)

lemma recorded_pause: "wv_paused_at (recorded js) = Some p \<Longrightarrow> \<exists>r\<in>set js. pause_target (wr_body r) = Some p"
proof (induction js rule: rev_induct)
  case (snoc r js)
  then show ?case
    by (cases "wr_body r" rule: pause_target.cases) (auto simp: recorded_snoc view_step_def split: if_splits)
qed (simp add: recorded_def)

lemma restart_winv:
  assumes js: "acceptable js"
  shows "winv (CutoverWindow w js ob mig {} {} ladder docs hk)"
proof -
  let ?s = "wv_state (recorded js)"
  let ?c = "(wevent (EvResumeRecovered ?s ?s True) ((of_view (recorded js) (blank w js ob mig ladder docs hk))\<lparr>cw_ack_ledger := ack_entries js\<rparr>))\<lparr>cw_state := ?s\<rparr>"
  have r: "receipted_all ?c"
    using js recorded_state_receipted [of js] recorded_pause [of js]
    by (auto simp: receipted_all_def of_view_def blank_def acceptable_def pauses_ok_def applied_in_entries)
  show ?thesis
  proof (cases "js = []")
    case False
    with js have "synced ?c" by (auto simp: synced_def of_view_def blank_def acceptable_def Let_def split: option.split)
    with r False show ?thesis by (simp add: restart_eq winv_def Let_def)
  next
    case True
    have "receipted_all (wdurable (WMeta m n) ?c)" for m n
      by (rule receipted_all_snoc [OF r]) (use r in \<open>auto simp: wdurable_journal receipted_all_def admissible_def phase_receipted_mono\<close>)
    moreover have "synced (wdurable (WMeta m n) ?c)" for m n
      using True by (simp add: synced_def wdurable_journal recorded_def view_step_def of_view_def blank_def wkeys_def wevent_def Let_def)
    ultimately show ?thesis using True by (simp add: restart_eq winv_def Let_def)
  qed
qed

lemma winv_acceptable: "winv c \<Longrightarrow> acceptable (cw_journal c)"
  by (simp add: winv_def receipted_all_def synced_def acceptable_def Let_def)

subsection \<open>Histories\<close>

inductive wreach :: "(string \<Rightarrow> string) \<Rightarrow> (nat \<Rightarrow> string) \<Rightarrow> 'h cwin \<Rightarrow> bool" for H nonce where
  start: "wreach H nonce (CutoverWindow w [] ob mig {} {} ladder docs hk)"
| restart: "wreach H nonce c \<Longrightarrow> wreach H nonce (CutoverWindow w (cw_journal c) ob mig {} {} ladder docs hk)"
| world: "wreach H nonce c \<Longrightarrow> wreach H nonce (c\<lparr>cw_world := w\<rparr>)"
| step: "wreach H nonce c \<Longrightarrow> wreach H nonce (fst (wstep H nonce hook c))"
| run: "wreach H nonce c \<Longrightarrow> wreach H nonce (fst (wrun H nonce hook c))"
| resume: "wreach H nonce c \<Longrightarrow> wreach H nonce (fst (wresume H nonce c))"
| abort: "wreach H nonce c \<Longrightarrow> wreach H nonce (fst (wabort reason c))"
| rollback: "wreach H nonce c \<Longrightarrow> wreach H nonce (fst (wrollback_to_known_good H c))"
| reactivate: "wreach H nonce c \<Longrightarrow> wreach H nonce (fst (reactivate_host h e c))"
| glass: "wreach H nonce c \<Longrightarrow> wreach H nonce (fst (wuse_break_glass bg c))"

lemma wreach_winv: "wreach H nonce c \<Longrightarrow> winv c"
proof (induction rule: wreach.induct)
  case start
  show ?case by (rule restart_winv) (simp add: acceptable_def ok_nil pauses_ok_def)
next
  case restart
  then show ?case by (intro restart_winv winv_acceptable)
qed (simp_all add: winv_intros)

definition observer0 :: observer where
  "observer0 = \<lparr>ob_saved = [], ob_replay = False\<rparr>"

definition window0 :: "unit cwin" where
  "window0 = CutoverWindow (World id ''s1'') [] observer0 ''mig'' {} {} default_ladder [] ()"

lemma window0_reach: "wreach id (\<lambda>_. []) window0"
  unfolding window0_def by (rule wreach.start)

text \<open>C19. Whatever the order of steps, runs, crashes, restarts, resumptions, aborts, rollbacks, host
  reactivations and changes of the world, the journal a window leaves passes the rules of the gate
  oracle: receipts come before the advance, effects are intended only under a sufficient ladder
  state, no acknowledgement is applied twice, barriers are production barriers, receipts are unique.\<close>

theorem window_journal_accepted:
  assumes "wreach H nonce c"
  shows "window_hits (cw_journal c) = []"
proof -
  have "window_ok (cw_journal c)" using wreach_winv [OF assms] by (rule winvD)
  then show ?thesis by (simp add: window_hits_ok)
qed

theorem window_journal_accepted_witness:
  "window_hits (cw_journal (fst (wrun id (\<lambda>_. []) (\<lambda>_ _ s. (s, Inr ())) window0))) = []"
  by (rule window_journal_accepted [OF wreach.run [OF window0_reach]])

text \<open>C20. A process that starts on the journal another one left takes over exactly its recorded
  control state: state, the state it paused at, lease token, barrier and keyed epoch; the target epoch
  too if a lease token is held (before a lease it is computed from the authority of the world the
  process finds), and the pause reason if the window is paused. It changes no record of the journal
  and reports that it took the recorded state.\<close>

theorem restart_takes_over:
  assumes "wreach H nonce c" and "c' = CutoverWindow w (cw_journal c) ob mig {} {} ladder docs hk"
  shows "cw_journal c' = cw_journal c \<and> cw_state c' = cw_state c \<and> cw_paused_at c' = cw_paused_at c \<and>
    cw_lease_token c' = cw_lease_token c \<and> cw_barrier c' = cw_barrier c \<and> cw_keyed_epoch c' = cw_keyed_epoch c \<and>
    (cw_lease_token c \<noteq> None \<longrightarrow> cw_target_epoch c' = cw_target_epoch c) \<and>
    (cw_state c = PAUSED_SAFE \<longrightarrow> cw_paused_reason c' = cw_paused_reason c) \<and>
    cw_world c' = event (EvResumeRecovered (cw_state c) (cw_state c) True) w"
proof -
  have s: "synced c" using wreach_winv [OF assms(1)] by (rule winvD)
  have ne: "cw_journal c \<noteq> []" using s by (auto simp: synced_def recorded_def)
  have e: "wv_epoch (recorded (cw_journal c)) = Some (cw_target_epoch c)" if "cw_lease_token c \<noteq> None"
    using s that recorded_token_epoch [of "cw_journal c"] by (auto simp: synced_def Let_def)
  show ?thesis
    using s ne e unfolding assms(2) restart_eq
    by (simp add: Let_def synced_def wevent_def) (simp add: of_view_def blank_def)
qed

theorem restart_takes_over_witness:
  "cw_state (CutoverWindow (World id ''s2'') (cw_journal (fst (wrun id (\<lambda>_. []) (\<lambda>_ _ s. (s, Inr ())) window0)))
     observer0 ''mig'' {} {} default_ladder [] ()) = cw_state (fst (wrun id (\<lambda>_. []) (\<lambda>_ _ s. (s, Inr ())) window0))"
  by (rule restart_takes_over [OF wreach.run [OF window0_reach] refl, THEN conjunct2, THEN conjunct1])

subsection \<open>The ladder decides\<close>

definition effects_of :: "world \<Rightarrow> (effect_key \<times> ledger_rec) list \<times> authority \<times> (host \<Rightarrow> host_state) \<times> lane list \<times> string" where
  "effects_of w = (effect_ledger w, auth w, hosts w, lanes w, legacy_policy w)"

lemma effects_of_event [simp]: "effects_of (event k w) = effects_of w" "effects_of (advance n w) = effects_of w"
  by (simp_all add: effects_of_def event_def advance_def)

lemma effects_of_pause [simp]: "effects_of (cw_world (wpause r c)) = effects_of (cw_world c)"
  by (simp add: wpause_def Let_def wevent_def)

lemma wpause_state [simp]: "cw_state (wpause r c) = PAUSED_SAFE"
  by (simp add: wpause_def Let_def)

lemma effects_of_observe: "observe H key st ctx force (ob, w) = ((ob', w'), r) \<Longrightarrow> effects_of w' = effects_of w"
  by (auto simp: observe_def Let_def effects_of_def event_def split: if_splits option.splits)

lemma wstep_observe_frame:
  assumes "wstep_observe H nxt c = (d, r)"
  shows "effects_of (cw_world d) = effects_of (cw_world c) \<and> cw_ladder d = cw_ladder c \<and> cw_state d = cw_state c \<and>
    cw_nmutations d = cw_nmutations c"
  using assms
  by (auto simp: wstep_observe_def wfresh_observe_def Let_def wevent_def dest: effects_of_observe
      split: option.splits if_splits prod.splits sum.splits)

text \<open>C22. The ladder holds the window back: while it does not authorise the next phase, a step ends in
  \<open>PAUSED_SAFE\<close> or in an exception of the observer, and it touches neither the effect ledger, the
  lease and writer epoch, the hosts, the lanes nor the legacy policy.\<close>

theorem ladder_blocks_phase:
  assumes "cw_nmutations c = {}" "\<not> terminal (cw_state c)" "authorises (cw_ladder c) (next_state (cw_state c)) = Inr False"
    and "c' = wstep H nonce (\<lambda>_ _ s. (s, Inr ())) c"
  shows "effects_of (cw_world (fst c')) = effects_of (cw_world c) \<and>
    (snd c' = Inr PAUSED_SAFE \<and> cw_state (fst c') = PAUSED_SAFE \<or> (\<exists>e. snd c' = Inl e) \<and> cw_state (fst c') = cw_state c)"
proof -
  let ?n = "next_state (cw_state c)" and ?c = "c\<lparr>cw_world := advance STEP_TICKS (cw_world c)\<rparr>"
  have fire: "wfire (\<lambda>_ _ s. (s, Inr ())) p st d = (d, Inr ())" for p st and d :: "'a cwin" by (simp add: wfire_def)
  obtain d r where d: "wstep_observe H ?n ?c = (d, r)" by fastforce
  have f: "effects_of (cw_world d) = effects_of (cw_world c)" "cw_ladder d = cw_ladder c" "cw_state d = cw_state c" "cw_nmutations d = {}"
    using wstep_observe_frame [OF d] assms(1) by simp_all
  obtain need where need: "AUTHORISING_LADDER_STATE ?n = Some need"
    using assms(3) by (auto simp: authorises_def split: option.splits)
  have g: "wguard ?n d = (wdurable (WGateCheck ?n (Some need) (lv_state (cw_ladder d)) False) d, Inr (Some (GATE_NOT_SATISFIED need)))"
    using assms(3) by (simp add: wguard_def need f)
  show ?thesis
    unfolding assms(4) wstep_def Let_def if_not_P [OF assms(2)]
    by (cases r) (simp_all add: fire d g f)
qed

theorem ladder_blocks_phase_witness:
  "let c = window0\<lparr>cw_ladder := \<lparr>lv_state = ''FILES_AUTHORITATIVE'', lv_source = []\<rparr>\<rparr>;
       c' = wstep id (\<lambda>_. []) (\<lambda>_ _ s. (s, Inr ())) c
   in effects_of (cw_world (fst c')) = effects_of (cw_world c)"
proof -
  let ?c = "window0\<lparr>cw_ladder := \<lparr>lv_state = ''FILES_AUTHORITATIVE'', lv_source = []\<rparr>\<rparr>"
  have f: "cw_nmutations ?c = {}" "cw_state ?c = INIT"
    by (simp_all add: window0_def restart_eq Let_def recorded_def)
  have "\<not> terminal (cw_state ?c)" "next_state (cw_state ?c) = QUIESCING" unfolding f by code_simp+
  moreover have "authorises (cw_ladder ?c) QUIESCING = Inr False"
    by (simp add: authorises_def LADDER_def)
  ultimately show ?thesis using ladder_blocks_phase [OF f(1) _ _ refl] by (simp add: Let_def)
qed

subsection \<open>The oracle accepts what the gates report\<close>

lemma audit_check_honest:
  assumes "accounts c"
  shows "audit_check c = [] \<and> (ck_verdict c = PASS \<longrightarrow> \<not> truthy (map_of (ck_detail c) ''missing''))"
proof -
  obtain xs where xs: "map_of (ck_detail c) ''missing'' = Some (DVal (PList xs))" using assms
    by (auto simp: accounts_def names_missing_def nothing_missing_def split: if_splits)
  have "''missing'' \<in> fst ` set (ck_detail c)" using xs by (metis map_of_SomeD fst_conv image_eqI)
  moreover have "ck_verdict c \<in> {PASS, BLOCK, NOT_MEASURED}" by (cases "ck_verdict c") simp_all
  moreover have "\<not> truthy (map_of (ck_detail c) ''missing'')" if "ck_verdict c = PASS"
    using assms that by (simp add: accounts_def nothing_missing_def truthy_def)
  ultimately show ?thesis by (auto simp: audit_check_def ghit_def)
qed

text \<open>The oracle finds nothing to object to in what the reference gates report on any evidence: every
  verdict is one of the three, a check carries its list of what is missing, a passing check or gate
  has nothing missing.\<close>

theorem gate_reports_accepted:
  assumes "evaluate_all P {} ix = Inr evs"
  shows "concat (map audit_gate evs) = []"
proof -
  have "audit_gate ev = []" if ev: "evaluate_gate P {} ix t = Inr ev" for t ev
    using ev
  proof (cases rule: evaluate_gate_cases)
    case (2 g)
    have ok: "audit_check c = [] \<and> (ck_verdict c = PASS \<longrightarrow> \<not> truthy (map_of (ck_detail c) ''missing''))"
      if "c \<in> set (ge_checks ev)" for c
      using gates.judged_all [OF 2(3) that] by (rule audit_check_honest)
    have v: "ge_verdict ev = fst (aggregate {} (ge_checks ev))" using 2(4) by (metis fst_conv)
    have "ck_verdict c = PASS" if "ge_verdict ev = PASS" "c \<in> set (ge_checks ev)" for c
      using that aggregate_pass [of "ge_checks ev"] by (simp add: v list_all_iff)
    moreover have "ge_verdict ev \<in> {PASS, BLOCK, NOT_MEASURED}" by (cases "ge_verdict ev") simp_all
    ultimately show ?thesis using ok by (auto simp: audit_gate_def ghit_def filter_empty_conv)
  qed (simp add: audit_gate_def ghit_def)
  note acc = this
  have "list_all2 (\<lambda>g ev. audit_gate ev = []) GATES evs"
    using assms unfolding evaluate_all_def mapr_Inr by (rule list_all2_mono) (rule acc)
  then show ?thesis by (induction rule: list_all2_induct) simp_all
qed

end
