(* ===== verification/Window_Findings.thy ===== *)
theory Window_Findings
  imports Window_Props
begin

section \<open>What the window does not do\<close>

text \<open>
  A restarted window rebuilds its activation ledger from every acknowledgement record, also from those
  that say the host was not reachable, which the ledger of the running process never holds.
\<close>

lemma unreachable_host_counts_as_acked:
  assumes dead: "\<not> sim_alive h (cw_world c)"
    and c1: "c1 = CutoverWindow w (cw_journal (fst (reactivate_host h (Some e) c))) ob mig {} {} ladder docs hk"
    and c2: "c2 = fst (reactivate_host h (Some e) c1)" and up: "sim_alive h (cw_world c1)"
  shows "wr_body (last (cw_journal c2)) = WAck h e AckRepeat mig"
proof -
  have r: "fst (reactivate_host h (Some e) c) = wdurable (WAck h e (AckOutcome (Rejected RHostUnreachable)) (cw_migration_id c)) c"
    using dead by (simp add: reactivate_host_def)
  let ?js = "cw_journal c @ [\<lparr>wr_seq = length (cw_journal c) + 1, wr_at = clock (cw_world c), wr_keys = wkeys c,
      wr_body = WAck h e (AckOutcome (Rejected RHostUnreachable)) (cw_migration_id c)\<rparr>]"
  have "c1 = CutoverWindow w ?js ob mig {} {} ladder docs hk" unfolding c1 r wdurable_journal ..
  then have led: "cw_ack_ledger c1 = ack_entries ?js" "cw_nmutations c1 = {}" "cw_migration_id c1 = mig"
    by (simp_all add: restart_eq Let_def wevent_def of_view_def blank_def)
  have "in_ack_ledger h e (cw_ack_ledger c1)" unfolding led by (simp add: in_ack_ledger_def ack_entries_def)
  then have "record_ack h e res (c1\<lparr>cw_world := w'\<rparr>) =
      wdurable (WAck h e AckRepeat mig) (c1\<lparr>cw_world := w', cw_ack_ledger := count_repeat h e (cw_ack_ledger c1)\<rparr>)" for res w'
    using led(2,3) by (simp add: record_ack_def)
  then show ?thesis
    using up by (simp add: c2 reactivate_host_def Let_def wdurable_journal split: prod.split)
qed

end
