(* ===== verification/Run_Ends.thy ===== *)
theory Run_Ends
  imports Drill_Props Window_Props
begin

section \<open>The bound on a run is never what stops it\<close>

text \<open>
  Both coordinators run by stepping until they rest, at most twenty times (\<open>Coordinator.run\<close>,
  \<open>CutoverWindow.run\<close>). The locale \<open>bounded_run\<close> says what a step of either promises: at rest it does
  nothing, and otherwise it raises, pauses, or lands in the successor of the state it started from.
  From that alone a run needs no more steps than the phases ahead of it, eight at most, whatever the
  world, the hooks and the switched-off rules do; the rest of the twenty is slack.
\<close>

fun phases_ahead :: "cstate \<Rightarrow> nat" where
  "phases_ahead INIT = 8"
| "phases_ahead QUIESCING = 7"
| "phases_ahead FENCED = 6"
| "phases_ahead FINAL_SYNC = 5"
| "phases_ahead VALIDATED = 4"
| "phases_ahead WRITE_COMMITTED = 3"
| "phases_ahead HOSTS_ACTIVATING = 2"
| "phases_ahead OBSERVING = 1"
| "phases_ahead _ = 0"

lemma phases_ahead_0: "phases_ahead s = 0 \<longleftrightarrow> terminal s"
  by (induction s) (simp_all add: terminal_def)

lemma phases_ahead_next: "\<not> terminal s \<Longrightarrow> phases_ahead s = Suc (phases_ahead (next_state s))"
  by (induction s) (simp_all add: terminal_def next_state_def STATES_def)

lemma phases_ahead_le: "phases_ahead s \<le> 8"
  by (induction s) simp_all

text \<open>An outcome that raises, or reports the state it is in, which is a pause or the state \<open>n\<close>.\<close>

definition lands :: "('s \<Rightarrow> cstate) \<Rightarrow> cstate \<Rightarrow> ('s, cstate) outc \<Rightarrow> bool" where
  "lands st n m = (case snd m of Inl e \<Rightarrow> True | Inr s \<Rightarrow> s = st (fst m) \<and> (s = PAUSED_SAFE \<or> s = n))"

lemma lands_bindx:
  assumes "\<And>a. snd m = Inr a \<Longrightarrow> lands st n (k (fst m) a)"
  shows "lands st n (bindx m k)"
  using assms by (cases "snd m") (simp_all add: bindx_def lands_def)

lemma lands_simps [simp]:
  "lands st n (c, Inr s) \<longleftrightarrow> s = st c \<and> (s = PAUSED_SAFE \<or> s = n)" "lands st n (c, Inl e)"
  by (simp_all add: lands_def)

subsection \<open>The contract and what follows from it\<close>

locale bounded_run =
  fixes st :: "'s \<Rightarrow> cstate"
    and stp :: "'s \<Rightarrow> ('s, cstate) outc"
    and loop :: "nat \<Rightarrow> 's \<Rightarrow> ('s, cstate) outc"
  assumes at_rest: "terminal (st c) \<Longrightarrow> stp c = (c, Inr (st c))"
    and moves: "\<not> terminal (st c) \<Longrightarrow> lands st (next_state (st c)) (stp c)"
    and loop_0: "loop 0 c = (c, Inr (st c))"
    and loop_Suc: "loop (Suc n) c = bindx (stp c) (\<lambda>d s. if terminal s then (d, Inr s) else loop n d)"
begin

lemma progress:
  assumes "\<not> terminal (st c)" "stp c = (d, Inr s)"
  shows "s = st d \<and> phases_ahead s < phases_ahead (st c)"
  using moves [OF assms(1)] phases_ahead_next [OF assms(1)] assms(2) by (auto simp: lands_def)

lemma rests: "terminal (st c) \<Longrightarrow> loop n c = (c, Inr (st c))"
  by (cases n) (simp_all add: loop_0 loop_Suc at_rest)

lemma ends:
  assumes "phases_ahead (st c) \<le> n"
  shows "case snd (loop n c) of Inl e \<Rightarrow> True | Inr s \<Rightarrow> terminal s \<and> st (fst (loop n c)) = s"
  using assms
proof (induction n arbitrary: c)
  case 0
  then show ?case by (simp add: phases_ahead_0 loop_0)
next
  case (Suc n)
  show ?case
  proof (cases "terminal (st c)")
    case False
    show ?thesis
    proof (cases "stp c")
      case (Pair d r)
      have "phases_ahead (st d) \<le> n" if "r = Inr s" for s
        using progress [OF False, of d s] Pair that Suc.prems by auto
      moreover have "s = st d" if "r = Inr s" for s
        using progress [OF False, of d s] Pair that by simp
      ultimately show ?thesis
        using Suc.IH [of d] by (cases r) (simp_all add: loop_Suc Pair cong: sum.case_cong)
    qed
  qed (simp add: rests)
qed

lemma bound_irrelevant:
  assumes "phases_ahead (st c) \<le> n"
  shows "loop (n + k) c = loop n c"
  using assms
proof (induction n arbitrary: c)
  case 0
  then show ?case by (simp add: phases_ahead_0 rests)
next
  case (Suc n)
  show ?case
  proof (cases "terminal (st c)")
    case False
    show ?thesis
    proof (cases "stp c")
      case (Pair d r)
      have "phases_ahead (st d) \<le> n" if "r = Inr s" for s
        using progress [OF False, of d s] Pair that Suc.prems by auto
      moreover have "s = st d" if "r = Inr s" for s
        using progress [OF False, of d s] Pair that by simp
      ultimately show ?thesis
        using Suc.IH [of d] by (cases r) (simp_all add: loop_Suc Pair)
    qed
  qed (simp only: rests)
qed

end

subsection \<open>The rehearsed coordinator\<close>

lemma pause_state [simp]: "c_state (pause r c) = PAUSED_SAFE"
  by (simp add: pause_def Let_def cevent_def)

lemma checkpoint_state [simp]: "c_state (checkpoint n keys v c) = n"
  by (simp add: checkpoint_def Let_def)

lemma fire_state [simp]: "c_state (fst (fire hook p s c)) = c_state c"
  using ctl_fire [of hook p s c] by (simp add: ctl_eq_iff)

lemma step_effects_lands: "lands c_state n (step_effects hook n c)"
  unfolding step_effects_def Let_def
  by (rule lands_bindx)
    (auto split: option.split intro!: lands_bindx)

lemma step_lands: "\<not> terminal (c_state c) \<Longrightarrow> lands c_state (next_state (c_state c)) (step H hook c)"
  unfolding step_def Let_def
  by (auto split: option.split prod.split intro!: lands_bindx step_effects_lands)

interpretation drill_run: bounded_run c_state "step H hook" "\<lambda>n. run_loop n H hook"
  by unfold_locales (simp_all add: step_lands, simp add: step_def)

subsection \<open>The cutover window\<close>

lemma wcheckpoint_state [simp]: "cw_state (wcheckpoint n keys v c) = n"
  by (simp add: wcheckpoint_def Let_def)

lemma wfire_state [simp]: "cw_state (fst (wfire hook p s c)) = cw_state c"
  by (simp add: wfire_def split: prod.split)

lemma wstep_effects_lands: "lands cw_state n (wstep_effects H nonce hook n c)"
  unfolding wstep_effects_def Let_def
  by (rule lands_bindx)
    (auto split: option.split intro!: lands_bindx)

lemma wstep_lands: "\<not> terminal (cw_state c) \<Longrightarrow> lands cw_state (next_state (cw_state c)) (wstep H nonce hook c)"
  unfolding wstep_def Let_def
  by (auto split: option.split intro!: lands_bindx wstep_effects_lands)

interpretation window_run: bounded_run cw_state "wstep H nonce hook" "\<lambda>n. wrun_loop n H nonce hook"
  by unfold_locales (simp_all add: wstep_lands, simp add: wstep_def)

text \<open>C9. A run of either coordinator, on any state, world, hook and set of switched-off rules, raises or
  comes to rest: the state it returns is a pause, an abort or completion, and is the state it is in. Any
  bound from eight steps on gives the same run, so the twenty of the code never cut one short.\<close>

theorem runs_end:
  "(case snd (run H hook c) of Inl e \<Rightarrow> True | Inr s \<Rightarrow> terminal s \<and> c_state (fst (run H hook c)) = s) \<and>
   run_loop (8 + k) H hook c = run H hook c \<and>
   (case snd (wrun H nonce whook d) of Inl e \<Rightarrow> True
    | Inr s \<Rightarrow> terminal s \<and> cw_state (fst (wrun H nonce whook d)) = s) \<and>
   wrun_loop (8 + k) H nonce whook d = wrun H nonce whook d"
proof -
  have a: "phases_ahead s \<le> 20" for s using phases_ahead_le [of s] by simp
  have e: "run_loop (8 + j) H hook c = run_loop 8 H hook c" for j
    by (rule drill_run.bound_irrelevant [OF phases_ahead_le])
  have w: "wrun_loop (8 + j) H nonce whook d = wrun_loop 8 H nonce whook d" for j
    by (rule window_run.bound_irrelevant [OF phases_ahead_le])
  show ?thesis
    unfolding run_def wrun_def
    using drill_run.ends [OF a, of H hook c] window_run.ends [OF a, of H nonce whook d]
      e [of k] e [of 12] w [of k] w [of 12]
    by (intro conjI) (simp_all only: add_numeral_left arith_simps)
qed

end
