(* ===== verification/Ascii_Json.thy ===== *)
theory Ascii_Json
  imports Json
begin

section \<open>ASCII renderings of JSON values\<close>

text \<open>
  The rebuild tools keep the standard \<^verbatim>\<open>ensure_ascii=True\<close>: every character outside the printable
  ASCII range is written as an escape of its UTF-16 code units. Strings of the model are UTF-8 bytes, so
  the encoder reads code points first. \<open>dumps\<close> takes the two separators: \<^verbatim>\<open>", "\<close> and \<^verbatim>\<open>": "\<close> by default,
  \<^verbatim>\<open>","\<close> and \<^verbatim>\<open>":"\<close> for the canonical text. On documents without characters that need the escape the
  canonical text is the one of \<open>Json\<close> (\<open>dumps_canonical\<close>).
\<close>

text \<open>The code points of UTF-8 bytes; a Python string has no malformed sequence.\<close>

fun code_points :: "nat list \<Rightarrow> nat list" where
  "code_points (a # b # c # d # bs) =
    (if a < 128 then a # code_points (b # c # d # bs)
     else if a < 224 then ((a - 192) * 64 + (b - 128)) # code_points (c # d # bs)
     else if a < 240 then (((a - 224) * 64 + (b - 128)) * 64 + (c - 128)) # code_points (d # bs)
     else ((((a - 240) * 64 + (b - 128)) * 64 + (c - 128)) * 64 + (d - 128)) # code_points bs)"
| "code_points [a, b, c] =
    (if a < 128 then a # code_points [b, c]
     else if a < 224 then ((a - 192) * 64 + (b - 128)) # code_points [c]
     else [((a - 224) * 64 + (b - 128)) * 64 + (c - 128)])"
| "code_points [a, b] = (if a < 128 then [a, b] else [(a - 192) * 64 + (b - 128)])"
| "code_points [a] = [a]"
| "code_points [] = []"

definition hex4 :: "nat \<Rightarrow> string" where
  "hex4 n = [hex_digit (n div 4096 mod 16), hex_digit (n div 256 mod 16), hex_digit (n div 16 mod 16), hex_digit (n mod 16)]"

definition unicode_escape :: "nat \<Rightarrow> string" where
  "unicode_escape n = (if n < 65536 then [CHR 0x5C, CHR ''u''] @ hex4 n
     else let m = n - 65536
          in [CHR 0x5C, CHR ''u''] @ hex4 (55296 + m div 1024 mod 1024) @ [CHR 0x5C, CHR ''u''] @ hex4 (56320 + m mod 1024))"

text \<open>\<open>py_encode_basestring_ascii\<close>.\<close>

definition esc_ascii :: "nat \<Rightarrow> string" where
  "esc_ascii n = (if n < 128 \<and> (32 \<le> n \<and> n \<le> 126 \<or> n \<in> {8, 9, 10, 12, 13}) then esc (char_of n) else unicode_escape n)"

definition quote_ascii :: "string \<Rightarrow> string" where
  "quote_ascii s = CHR 0x22 # concat (map esc_ascii (code_points (map of_char s))) @ [CHR 0x22]"

fun dumps_with :: "string \<Rightarrow> string \<Rightarrow> json \<Rightarrow> string" where
  "dumps_with isep ksep JNull = ''null''"
| "dumps_with isep ksep (JBool b) = (if b then ''true'' else ''false'')"
| "dumps_with isep ksep (JInt i) = show_int i"
| "dumps_with isep ksep (JStr s) = quote_ascii s"
| "dumps_with isep ksep (JArr xs) = ''['' @ join isep (map (dumps_with isep ksep) xs) @ '']''"
| "dumps_with isep ksep (JObj kvs) =
     ''{'' @ join isep (map (\<lambda>kv. quote_ascii (fst kv) @ ksep @ dumps_with isep ksep (snd kv)) kvs) @ ''}''"

text \<open>\<^verbatim>\<open>json.dumps(payload, sort_keys=True)\<close>\<close>

definition dumps :: "json \<Rightarrow> string" where
  "dumps j = dumps_with '', '' '': '' (sorted_keys j)"

text \<open>\<^verbatim>\<open>json.dumps(payload, sort_keys=True, indent=2)\<close>\<close>

fun indented :: "nat \<Rightarrow> json \<Rightarrow> string" where
  "indented n (JArr xs) = (if xs = [] then ''[]''
     else ''['' @ newline (n + 2) @ join (CHR '','' # newline (n + 2)) (map (indented (n + 2)) xs) @ newline n @ '']'')"
| "indented n (JObj kvs) = (if kvs = [] then ''{}''
     else ''{'' @ newline (n + 2) @ join (CHR '','' # newline (n + 2))
       (map (\<lambda>kv. quote_ascii (fst kv) @ '': '' @ indented (n + 2) (snd kv)) kvs) @ newline n @ ''}'')"
| "indented n (JStr s) = quote_ascii s"
| "indented n (JInt i) = show_int i"
| "indented n (JBool b) = (if b then ''true'' else ''false'')"
| "indented n JNull = ''null''"

definition dumps_indent2 :: "json \<Rightarrow> string" where
  "dumps_indent2 j = indented 0 (sorted_keys j)"

subsection \<open>Documents of printable text\<close>

definition printable :: "string \<Rightarrow> bool" where
  "printable s \<longleftrightarrow> list_all (\<lambda>c. 32 \<le> (of_char c :: nat) \<and> of_char c \<le> (126 :: nat)) s"

fun printable_json :: "json \<Rightarrow> bool" where
  "printable_json (JStr s) = printable s"
| "printable_json (JArr xs) = list_all printable_json xs"
| "printable_json (JObj kvs) = list_all (\<lambda>kv. printable (fst kv) \<and> printable_json (snd kv)) kvs"
| "printable_json _ = True"

lemma code_points_ascii: "\<forall>n\<in>set ns. n < 128 \<Longrightarrow> code_points ns = ns"
  by (induction ns rule: code_points.induct) simp_all

lemma quote_ascii_printable:
  assumes "printable s"
  shows "quote_ascii s = quote s"
proof -
  have "code_points (map of_char s) = map of_char s"
    by (rule code_points_ascii) (use assms in \<open>auto simp: printable_def list_all_iff\<close>)
  moreover have "esc_ascii (of_char c) = esc c" if "c \<in> set s" for c
    using assms that by (auto simp: printable_def list_all_iff esc_ascii_def)
  ultimately show ?thesis by (simp add: quote_ascii_def quote_def comp_def cong: map_cong)
qed

lemma join_elems: "join '','' (map render xs) = render_elems xs"
  by (induction xs rule: induct_list012) simp_all

lemma join_items: "join '','' (map (\<lambda>kv. quote (fst kv) @ '':'' @ render (snd kv)) kvs) = render_items kvs"
  by (induction kvs rule: induct_list012) (auto simp: split_beta)

lemma dumps_with_render: "printable_json j \<Longrightarrow> dumps_with '','' '':'' j = render j"
proof (induction j)
  case (JArr xs)
  then have "map (dumps_with '','' '':'') xs = map render xs" by (simp add: list_all_iff)
  then show ?case unfolding dumps_with.simps by (simp only: join_elems) simp
next
  case (JObj kvs)
  then have "map (\<lambda>kv. quote_ascii (fst kv) @ '':'' @ dumps_with '','' '':'' (snd kv)) kvs =
      map (\<lambda>kv. quote (fst kv) @ '':'' @ render (snd kv)) kvs"
    by (fastforce simp: list_all_iff quote_ascii_printable)
  then show ?case unfolding dumps_with.simps by (simp only: join_items) simp
qed (simp_all add: quote_ascii_printable)

lemma printable_sorted: "printable_json (sorted_keys j) = printable_json j"
proof (induction j)
  case (JObj kvs)
  then show ?case by (fastforce simp: list_all_iff)
qed (simp_all add: list_all_iff)

lemma dumps_canonical: "printable_json j \<Longrightarrow> dumps_with '','' '':'' (sorted_keys j) = canonical j"
  by (simp add: canonical_def dumps_with_render printable_sorted)

end
