(* ===== verification/Package.thy ===== *)
theory Package
  imports Ascii_Json Pyval
begin

section \<open>The job package and its envelope (\<^verbatim>\<open>rebuild/package.py\<close>)\<close>

text \<open>
  The inputs of a rebuild, their digest, the portability scan over the text of a document and the
  envelope that travels. The two regular expressions of the scan are written out: \<open>path_match\<close> and
  \<open>secret_match\<close> match at a position, \<open>scan_paths\<close> and \<open>scan_secrets\<close> are \<open>finditer\<close>. The scan finds
  something exactly when a pattern occurs anywhere (\<open>portable_iff\<close>).
\<close>

definition CANONICAL_ENCODING :: string where
  "CANONICAL_ENCODING = ''utf-8-nfc-lf''"

record job_inputs =
  ji_kc2_revision :: string
  ji_muneral_work_revision :: string
  ji_policy_pin :: string
  ji_model_pin :: string
  ji_tool_pin :: string
  ji_audience :: string
  ji_clock :: string
  ji_random_seed :: int
  ji_canonical_encoding :: string

definition canonical_dict :: "job_inputs \<Rightarrow> jobj" where
  "canonical_dict i =
    [(''audience'', JStr (ji_audience i)), (''canonical_encoding'', JStr (ji_canonical_encoding i)),
     (''clock'', JStr (ji_clock i)), (''kc2_revision'', JStr (ji_kc2_revision i)),
     (''model_pin'', JStr (ji_model_pin i)), (''muneral_work_revision'', JStr (ji_muneral_work_revision i)),
     (''policy_pin'', JStr (ji_policy_pin i)), (''random_seed'', JInt (ji_random_seed i)),
     (''tool_pin'', JStr (ji_tool_pin i))]"

subsection \<open>The portability scan\<close>

definition is_space :: "char \<Rightarrow> bool" where
  "is_space c \<longleftrightarrow> (of_char c :: nat) \<in> {9, 10, 11, 12, 13, 28, 29, 30, 31, 32}"

text \<open>The class \<^verbatim>\<open>[\s"']\<close>, which ends a path, and \<^verbatim>\<open>[\s"'=:]\<close>, which may precede one.\<close>

definition path_end :: "char \<Rightarrow> bool" where
  "path_end c \<longleftrightarrow> is_space c \<or> c = CHR 0x22 \<or> c = CHR 0x27"

definition path_start :: "char \<Rightarrow> bool" where
  "path_start c \<longleftrightarrow> path_end c \<or> c = CHR ''='' \<or> c = CHR '':''"

text \<open>The group of \<open>_PRIVATE_PATH_RE\<close>, at the beginning of a text.\<close>

definition path_match :: "string \<Rightarrow> string option" where
  "path_match xs =
    (if prefix ''/home/'' xs
     then let t = takeWhile (\<lambda>c. c \<noteq> CHR ''/'' \<and> \<not> path_end c) (drop 6 xs)
          in if t = [] then None else Some (''/home/'' @ t)
     else if prefix ''/root/'' xs then Some (''/root/'' @ takeWhile (\<lambda>c. \<not> path_end c) (drop 6 xs))
     else None)"

lemma path_match_nonempty: "path_match xs = Some m \<Longrightarrow> m \<noteq> []"
  by (auto simp: path_match_def Let_def split: if_splits)

text \<open>The anchor \<^verbatim>\<open>^\<close> matches at the start of the text only.\<close>

function scan_paths :: "bool \<Rightarrow> string \<Rightarrow> string list" where
  "scan_paths start [] = []"
| "scan_paths start (c # cs) =
     (case (if start then path_match (c # cs) else None) of
        Some m \<Rightarrow> m # scan_paths False (drop (length m) (c # cs))
      | None \<Rightarrow>
          (case (if path_start c then path_match cs else None) of
             Some m \<Rightarrow> m # scan_paths False (drop (length m) cs)
           | None \<Rightarrow> scan_paths False cs))"
  by pat_completeness auto

termination
  by (relation "measure (length \<circ> snd)") (auto split: if_splits dest: path_match_nonempty)

definition secret_match :: "string \<Rightarrow> string option" where
  "secret_match xs =
    (if prefix ''mun_sk_'' xs then Some ''mun_sk_''
     else if prefix ''ghp_'' xs then Some ''ghp_''
     else if prefix ''xox'' xs \<and> 5 \<le> length xs \<and> xs ! 3 \<in> set ''baprs'' \<and> xs ! 4 = CHR ''-''
     then Some (take 5 xs) else None)"

lemma secret_match_nonempty: "secret_match xs = Some m \<Longrightarrow> m \<noteq> []"
  by (auto simp: secret_match_def split: if_splits)

function scan_secrets :: "string \<Rightarrow> string list" where
  "scan_secrets [] = []"
| "scan_secrets (c # cs) = (case secret_match (c # cs) of
     Some m \<Rightarrow> m # scan_secrets (drop (length m) (c # cs))
   | None \<Rightarrow> scan_secrets cs)"
  by pat_completeness auto

termination
  by (relation "measure length") (auto dest: secret_match_nonempty)

definition portability_findings :: "json \<Rightarrow> string list" where
  "portability_findings payload =
    (let blob = dumps payload
     in sort (remdups (map (\<lambda>m. ''PRIVATE_ABSOLUTE_PATH:'' @ m) (scan_paths True blob) @
                       map (\<lambda>m. ''SECRET_LITERAL:'' @ take 8 m @ ''...'') (scan_secrets blob))))"

subsection \<open>Digest, package and envelope\<close>

definition canonical_bytes :: "json \<Rightarrow> string" where
  "canonical_bytes payload = dumps_with '','' '':'' (sorted_keys payload)"

definition digest_of :: "(string \<Rightarrow> string) \<Rightarrow> json \<Rightarrow> string" where
  "digest_of H payload = ''sha256:'' @ H (canonical_bytes payload)"

record job_package =
  jp_inputs :: job_inputs
  jp_digest :: string
  jp_portability :: "string list"

definition portable :: "job_package \<Rightarrow> bool" where
  "portable p \<longleftrightarrow> jp_portability p = []"

definition package_dict :: "job_package \<Rightarrow> jobj" where
  "package_dict p =
    [(''schema'', JStr ''MigRebuildJobPackage/v1''), (''digest'', JStr (jp_digest p)),
     (''inputs'', JObj (canonical_dict (jp_inputs p))), (''portability'', JArr (map JStr (jp_portability p)))]"

definition build_package :: "(string \<Rightarrow> string) \<Rightarrow> job_inputs \<Rightarrow> job_package" where
  "build_package H i = (let payload = JObj (canonical_dict i)
     in \<lparr>jp_inputs = i, jp_digest = digest_of H payload, jp_portability = portability_findings payload\<rparr>)"

record handoff_envelope =
  he_digest :: json
  he_audience :: json
  he_expiry :: json
  he_canonical_refs :: json

definition envelope_dict :: "handoff_envelope \<Rightarrow> jobj" where
  "envelope_dict e =
    [(''schema'', JStr ''MigHandoffEnvelope/v1''), (''digest'', he_digest e), (''audience'', he_audience e),
     (''expiry'', he_expiry e), (''canonical_refs'', he_canonical_refs e)]"

text \<open>Subscription of a dictionary.\<close>

definition item :: "jobj \<Rightarrow> string \<Rightarrow> json result" where
  "item d k = (case map_of d k of None \<Rightarrow> Inl KeyError | Some v \<Rightarrow> Inr v)"

definition envelope_from_dict :: "jobj \<Rightarrow> handoff_envelope result" where
  "envelope_from_dict d =
    bindr (item d ''digest'') (\<lambda>dg. bindr (item d ''audience'') (\<lambda>au.
    bindr (item d ''expiry'') (\<lambda>ex. bindr (item d ''canonical_refs'') (\<lambda>rf.
      Inr \<lparr>he_digest = dg, he_audience = au, he_expiry = ex, he_canonical_refs = rf\<rparr>))))"

definition build_envelope :: "job_package \<Rightarrow> string \<Rightarrow> handoff_envelope result" where
  "build_envelope p expiry =
    (let i = jp_inputs p;
         refs = JObj [(''kc2_revision'', JStr (ji_kc2_revision i)), (''muneral_work_revision'', JStr (ji_muneral_work_revision i)),
           (''policy_pin'', JStr (ji_policy_pin i)), (''model_pin'', JStr (ji_model_pin i)), (''tool_pin'', JStr (ji_tool_pin i))];
         envelope = \<lparr>he_digest = JStr (jp_digest p), he_audience = JStr (ji_audience i), he_expiry = JStr expiry,
           he_canonical_refs = refs\<rparr>;
         findings = portability_findings (JObj (envelope_dict envelope))
     in if findings \<noteq> [] then Inl (PortabilityError findings) else Inr envelope)"

definition recompute_digest_from_manifest :: "(string \<Rightarrow> string) \<Rightarrow> jobj \<Rightarrow> string result" where
  "recompute_digest_from_manifest H manifest = bindr (item manifest ''inputs'') (\<lambda>v. Inr (digest_of H v))"

end
