(* ===== verification/Rehearsal.thy ===== *)
theory Rehearsal
  imports Package
begin

section \<open>The rehearsal target and its idempotent effect (\<^verbatim>\<open>rebuild/backend.py\<close>)\<close>

text \<open>
  The target is a git repository. Git, the file system and \<open>json.loads\<close> are parameters (\<open>git_ops\<close>): a
  command is its argument list and yields its return code and output, \<open>'s\<close> is whatever it works on. What
  the code relies on is \<open>git_contract\<close> of theory \<open>Rehearsal_Props\<close>.
\<close>

record 's git_ops =
  dot_git :: "'s \<Rightarrow> bool"                                        \<comment> \<open>\<open>(root / ".git").exists()\<close>\<close>
  git_cmd :: "string list \<Rightarrow> 's \<Rightarrow> ('s, int \<times> string) outc"
  mkdirs :: "string \<Rightarrow> 's \<Rightarrow> ('s, unit) outc"                     \<comment> \<open>\<open>mkdir(parents=True, exist_ok=True)\<close>\<close>
  put_text :: "string \<Rightarrow> string \<Rightarrow> 's \<Rightarrow> ('s, unit) outc"
  loads :: "string \<Rightarrow> json result"

definition run_git :: "'s git_ops \<Rightarrow> string list \<Rightarrow> bool \<Rightarrow> 's \<Rightarrow> ('s, int \<times> string) outc" where
  "run_git G args check s = bindx (git_cmd G args s) (\<lambda>s r.
     if check \<and> fst r \<noteq> 0 then (s, Inl CalledProcessError) else (s, Inr r))"

datatype effect_status = APPLIED | ALREADY_APPLIED | UNKNOWN | NOT_APPLIED

record effect_result =
  er_status :: effect_status
  er_key :: string
  er_reason :: string

definition README :: string where
  "README = ''task-owned rehearsal target for AUP-MIG-013 rebuild0 -- canary records only, '' @
     ''never datarim/, never pushed anywhere.'' @ [CHR 0x0A]"

definition ensure_init :: "'s git_ops \<Rightarrow> 's \<Rightarrow> ('s, unit) outc" where
  "ensure_init G s =
    (if dot_git G s then (s, Inr ())
     else bindx (mkdirs G [] s) (\<lambda>s _.
          bindx (run_git G [''init'', ''-q'', ''-b'', ''main''] True s) (\<lambda>s _.
          bindx (run_git G [''config'', ''user.email'', ''aup-rehearsal@localhost''] True s) (\<lambda>s _.
          bindx (run_git G [''config'', ''user.name'', ''aup-rehearsal''] True s) (\<lambda>s _.
          bindx (put_text G ''README.md'' README s) (\<lambda>s _.
          bindx (run_git G [''add'', ''README.md''] True s) (\<lambda>s _.
          bindx (run_git G [''commit'', ''-q'', ''-m'', ''init rehearsal target''] True s) (\<lambda>s _. (s, Inr ())))))))))"

definition committed_path :: "'s git_ops \<Rightarrow> string \<Rightarrow> 's \<Rightarrow> ('s, string option) outc" where
  "committed_path G rel s = bindx (run_git G [''show'', ''HEAD:'' @ rel] False s) (\<lambda>s r.
     (s, Inr (if fst r \<noteq> 0 then None else Some (snd r))))"

definition canary_path :: "string \<Rightarrow> string" where
  "canary_path key = ''canary/handoff/'' @ key @ ''.json''"

text \<open>The value read back; Python's \<open>None\<close> and the JSON \<open>null\<close> are the same value.\<close>

definition target_readback :: "'s git_ops \<Rightarrow> string \<Rightarrow> 's \<Rightarrow> ('s, json) outc" where
  "target_readback G key s = bindx (committed_path G (canary_path key) s) (\<lambda>s raw.
     case raw of None \<Rightarrow> (s, Inr JNull) | Some t \<Rightarrow> (s, loads G t))"

definition effect_text :: "jobj \<Rightarrow> string" where
  "effect_text payload = dumps_indent2 (JObj payload) @ [CHR 0x0A]"

definition target_apply_effect :: "'s git_ops \<Rightarrow> string \<Rightarrow> jobj \<Rightarrow> 's \<Rightarrow> ('s, effect_result) outc" where
  "target_apply_effect G key payload s =
    bindx (ensure_init G s) (\<lambda>s _.
    bindx (target_readback G key s) (\<lambda>s found.
      if found \<noteq> JNull then (s, Inr \<lparr>er_status = ALREADY_APPLIED, er_key = key, er_reason = []\<rparr>)
      else bindx (mkdirs G ''canary/handoff'' s) (\<lambda>s _.
           bindx (put_text G (canary_path key) (effect_text payload) s) (\<lambda>s _.
           bindx (run_git G [''add'', canary_path key] True s) (\<lambda>s _.
           bindx (run_git G [''commit'', ''-q'', ''-m'', ''canary effect '' @ key] True s) (\<lambda>s _.
             (s, Inr \<lparr>er_status = APPLIED, er_key = key, er_reason = []\<rparr>)))))))"

definition backend_handoff_canary :: "'s git_ops \<Rightarrow> string \<Rightarrow> jobj \<Rightarrow> bool \<Rightarrow> 's \<Rightarrow> ('s, effect_result) outc" where
  "backend_handoff_canary G key payload simulate_network_loss s =
    bindx (target_apply_effect G key payload s) (\<lambda>s r.
      if simulate_network_loss
      then (s, Inr \<lparr>er_status = UNKNOWN, er_key = key, er_reason = ''NETWORK_LOSS_SIMULATED''\<rparr>)
      else (s, Inr r))"

definition force_effect :: "'s git_ops \<Rightarrow> string \<Rightarrow> jobj \<Rightarrow> 's \<Rightarrow> ('s, effect_result) outc" where
  "force_effect G key payload s =
    bindx (ensure_init G s) (\<lambda>s _.
    bindx (mkdirs G ''canary/handoff'' s) (\<lambda>s _.
    bindx (put_text G (canary_path key) (effect_text payload) s) (\<lambda>s _.
    bindx (run_git G [''add'', canary_path key] True s) (\<lambda>s _.
    bindx (run_git G [''commit'', ''-q'', ''--allow-empty'', ''-m'', ''forced re-effect '' @ key] True s) (\<lambda>s _.
      (s, Inr \<lparr>er_status = APPLIED, er_key = key, er_reason = ''FORCED_REISSUE''\<rparr>))))))"

subsection \<open>Counting the effects\<close>

definition strip :: "string \<Rightarrow> string" where
  "strip t = rev (dropWhile is_space (rev (dropWhile is_space t)))"

definition line_break :: "char \<Rightarrow> bool" where
  "line_break c \<longleftrightarrow> (of_char c :: nat) \<in> {10, 11, 12, 13, 28, 29, 30}"

function splitlines :: "string \<Rightarrow> string list" where
  "splitlines [] = []"
| "splitlines (c # cs) =
    (if c = CHR 0x0D \<and> cs \<noteq> [] \<and> hd cs = CHR 0x0A then [] # splitlines (tl cs)
     else if line_break c then [] # splitlines cs
     else (case splitlines cs of [] \<Rightarrow> [[c]] | l # ls \<Rightarrow> (c # l) # ls))"
  by pat_completeness auto

termination
  by (relation "measure length") auto

definition effect_commit_count :: "'s git_ops \<Rightarrow> string \<Rightarrow> 's \<Rightarrow> ('s, nat) outc" where
  "effect_commit_count G key s =
    bindx (run_git G [''log'', ''--oneline'', ''--'', canary_path key] False s) (\<lambda>s r.
      if fst r \<noteq> 0 \<or> strip (snd r) = [] then (s, Inr 0) else (s, Inr (length (splitlines (strip (snd r))))))"

definition backend_reconcile :: "'s git_ops \<Rightarrow> string \<Rightarrow> 's \<Rightarrow> ('s, effect_result) outc" where
  "backend_reconcile G key s = bindx (target_readback G key s) (\<lambda>s found.
     (s, Inr \<lparr>er_status = (if found = JNull then NOT_APPLIED else APPLIED), er_key = key,
       er_reason = ''RECONCILED_BY_READBACK''\<rparr>))"

end
