(* ===== verification/Handoff.thy ===== *)
theory Handoff
  imports Rehearsal
begin

section \<open>The handoff checks and their oracle (\<^verbatim>\<open>rebuild/core.py\<close>, \<^verbatim>\<open>rebuild/oracle.py\<close>)\<close>

text \<open>
  \<open>verify_handoff\<close> with its switchable protective checks, and the rules R01 to R07 over the trace it
  leaves. The texts of the reasons are constructors that carry what the text is built from.
\<close>

datatype rmutant = M01_SKIP_TWICE_CHECK | M02_SKIP_DIGEST_CHECK | M03_SKIP_AUTHORITY_CHECK | M04_SKIP_TRACE_PARITY
  | M05_SKIP_PORTABILITY | M06_RECONCILE_REISSUES_EFFECT | M07_SKIP_MISSING_LINK_TYPING

record twice_result =
  tw_verdict :: string
  tw_digest_a :: string
  tw_digest_b :: string
  tw_package :: job_package
  tw_trace :: jobj

definition twice_check :: "(string \<Rightarrow> string) \<Rightarrow> job_inputs \<Rightarrow> bool \<Rightarrow> rmutant set \<Rightarrow> twice_result" where
  "twice_check H inputs inject_hidden_nondeterminism active_mutants =
    (let pkg_a = build_package H inputs;
         inputs_b = (if inject_hidden_nondeterminism then inputs\<lparr>ji_tool_pin := ji_tool_pin inputs @ ''+drift''\<rparr> else inputs);
         pkg_b = build_package H inputs_b;
         m = (jp_digest pkg_a = jp_digest pkg_b);
         verdict = (if \<not> m \<and> M01_SKIP_TWICE_CHECK \<notin> active_mutants then ''DIGEST_MISMATCH_BETWEEN_BUILDS'' else ''PASS'')
     in \<lparr>tw_verdict = verdict, tw_digest_a = jp_digest pkg_a, tw_digest_b = jp_digest pkg_b, tw_package = pkg_a,
         tw_trace = [(''twice_attempted'', JBool True), (''twice_match'', JBool m), (''verdict'', JStr verdict)]\<rparr>)"

datatype reason = Finding string | DigestMismatch string json json | AuthoritySubstituted json string
  | TraceWithoutTargetEffect

datatype missing_link = NoTargetConfigured | TargetRaised exn

record verify_result =
  vr_verdict :: string
  vr_reasons :: "reason list"
  vr_not_measured :: "missing_link list"
  vr_trace :: jobj

definition verdict_of :: "string \<Rightarrow> reason list \<Rightarrow> missing_link list \<Rightarrow> jobj \<Rightarrow> verify_result" where
  "verdict_of v reasons missing trace = \<lparr>vr_verdict = v, vr_reasons = reasons, vr_not_measured = missing,
     vr_trace = trace @ [(''verdict'', JStr v)]\<rparr>"

text \<open>\<open>recomputed == manifest["digest"] == envelope["digest"]\<close>\<close>

definition digests_match :: "string \<Rightarrow> jobj \<Rightarrow> jobj \<Rightarrow> bool result" where
  "digests_match recomputed manifest envelope =
    bindr (item manifest ''digest'') (\<lambda>md.
      if md = JStr recomputed then bindr (item envelope ''digest'') (\<lambda>ed. Inr (ed = md)) else Inr False)"

definition unreachable :: "rmutant set \<Rightarrow> missing_link \<Rightarrow> jobj \<Rightarrow> verify_result" where
  "unreachable active_mutants why trace =
    (let trace = trace @ [(''target_unreachable'', JBool True)]
     in if M07_SKIP_MISSING_LINK_TYPING \<in> active_mutants then verdict_of ''PASS'' [] [] trace
        else verdict_of ''NOT_MEASURED'' [] [why] trace)"

definition parity :: "rmutant set \<Rightarrow> bool option \<Rightarrow> json \<Rightarrow> jobj \<Rightarrow> verify_result" where
  "parity active_mutants claims record trace =
    (let has = (record \<noteq> JNull); trace = trace @ [(''target_has_record'', JBool has)]
     in case claims of
          None \<Rightarrow> verdict_of ''PASS'' [] [] trace
        | Some claimed \<Rightarrow>
            (let trace = trace @ [(''trace_claims_applied'', JBool claimed)]
             in if claimed \<and> \<not> has \<and> M04_SKIP_TRACE_PARITY \<notin> active_mutants
                then verdict_of ''DETECTED'' [TraceWithoutTargetEffect] [] trace
                else verdict_of ''PASS'' [] [] trace))"

text \<open>The target: nothing, or a repository in some state, which the read may change.\<close>

definition check_target :: "'s git_ops \<Rightarrow> rmutant set \<Rightarrow> string \<Rightarrow> bool option \<Rightarrow> jobj \<Rightarrow> 's option \<Rightarrow> 's option \<times> verify_result" where
  "check_target G active_mutants key claims trace target = (case target of
     None \<Rightarrow> (None, unreachable active_mutants NoTargetConfigured trace)
   | Some s \<Rightarrow> (case target_readback G key s of
         (s, Inl e) \<Rightarrow> (Some s, unreachable active_mutants (TargetRaised e) trace)
       | (s, Inr record) \<Rightarrow> (Some s, parity active_mutants claims record trace)))"

definition verify_handoff :: "'s git_ops \<Rightarrow> (string \<Rightarrow> string) \<Rightarrow> jobj \<Rightarrow> jobj \<Rightarrow> string \<Rightarrow> string \<Rightarrow> bool option \<Rightarrow>
  rmutant set \<Rightarrow> 's option \<Rightarrow> ('s option, verify_result) outc" where
  "verify_handoff G H manifest envelope expected_audience key claims active_mutants target =
    (let findings = portability_findings (JObj manifest) @ portability_findings (JObj envelope);
         trace = [(''portability_findings'', JArr (map JStr findings))]
     in if findings \<noteq> [] \<and> M05_SKIP_PORTABILITY \<notin> active_mutants
        then (target, Inr (verdict_of ''NONPORTABLE'' (map Finding findings) [] trace))
        else (case bindr (recompute_digest_from_manifest H manifest) (\<lambda>r.
                     bindr (digests_match r manifest envelope) (\<lambda>m. Inr (r, m))) of
            Inl e \<Rightarrow> (target, Inl e)
          | Inr (recomputed, digest_match) \<Rightarrow>
            let trace = trace @ [(''digest_checked'', JBool True), (''digest_match'', JBool digest_match)]
            in if \<not> digest_match \<and> M02_SKIP_DIGEST_CHECK \<notin> active_mutants
               then (target, bindr (item manifest ''digest'') (\<lambda>md. bindr (item envelope ''digest'') (\<lambda>ed.
                      Inr (verdict_of ''DIGEST_MISMATCH'' [DigestMismatch recomputed md ed] [] trace))))
               else (case item envelope ''audience'' of
                   Inl e \<Rightarrow> (target, Inl e)
                 | Inr audience \<Rightarrow>
                   let authority_match = (audience = JStr expected_audience);
                       trace = trace @ [(''authority_checked'', JBool True), (''authority_match'', JBool authority_match)]
                   in if \<not> authority_match \<and> M03_SKIP_AUTHORITY_CHECK \<notin> active_mutants
                      then (target, Inr (verdict_of ''REJECTED'' [AuthoritySubstituted audience expected_audience] [] trace))
                      else (case check_target G active_mutants key claims trace target of
                              (target, r) \<Rightarrow> (target, Inr r)))))"

definition core_handoff_canary :: "'s git_ops \<Rightarrow> string \<Rightarrow> jobj \<Rightarrow> bool \<Rightarrow> 's \<Rightarrow> ('s, effect_result) outc" where
  "core_handoff_canary G key payload simulate_network_loss = backend_handoff_canary G key payload simulate_network_loss"

definition core_reconcile :: "'s git_ops \<Rightarrow> string \<Rightarrow> rmutant set \<Rightarrow> 's \<Rightarrow> ('s, effect_result) outc" where
  "core_reconcile G key active_mutants =
    (if M06_RECONCILE_REISSUES_EFFECT \<in> active_mutants
     then force_effect G key [(''reissued_by'', JStr ''buggy_reconcile'')] else backend_reconcile G key)"

subsection \<open>The oracle\<close>

datatype rrule = R01_TWICE_CHECK_ENFORCED | R02_DIGEST_RECOMPUTE_ENFORCED | R03_AUTHORITY_PIN_ENFORCED
  | R04_TRACE_TARGET_PARITY_ENFORCED | R05_PORTABILITY_ENFORCED | R06_EFFECT_COUNT_AT_MOST_ONE | R07_MISSING_LINK_TYPED

fun json_true :: "json \<Rightarrow> bool" where
  "json_true JNull = False"
| "json_true (JBool b) = b"
| "json_true (JInt i) = (i \<noteq> 0)"
| "json_true (JStr s) = (s \<noteq> [])"
| "json_true (JArr xs) = (xs \<noteq> [])"
| "json_true (JObj kvs) = (kvs \<noteq> [])"

definition get_or :: "jobj \<Rightarrow> string \<Rightarrow> json \<Rightarrow> json" where
  "get_or d k dflt = (case map_of d k of None \<Rightarrow> dflt | Some v \<Rightarrow> v)"

text \<open>The effect count is an integer wherever a trace has one.\<close>

definition check_trace :: "jobj \<Rightarrow> rrule list" where
  "check_trace t =
    (let v = get_or t ''verdict'' JNull in
     (if json_true (get_or t ''twice_attempted'' JNull) \<and> \<not> json_true (get_or t ''twice_match'' (JBool True)) \<and>
         v \<noteq> JStr ''DIGEST_MISMATCH_BETWEEN_BUILDS'' then [R01_TWICE_CHECK_ENFORCED] else []) @
     (if json_true (get_or t ''digest_checked'' JNull) \<and> \<not> json_true (get_or t ''digest_match'' (JBool True)) \<and>
         v = JStr ''PASS'' then [R02_DIGEST_RECOMPUTE_ENFORCED] else []) @
     (if json_true (get_or t ''authority_checked'' JNull) \<and> \<not> json_true (get_or t ''authority_match'' (JBool True)) \<and>
         v \<noteq> JStr ''REJECTED'' then [R03_AUTHORITY_PIN_ENFORCED] else []) @
     (if json_true (get_or t ''trace_claims_applied'' JNull) \<and> \<not> json_true (get_or t ''target_has_record'' (JBool True)) \<and>
         v \<noteq> JStr ''DETECTED'' then [R04_TRACE_TARGET_PARITY_ENFORCED] else []) @
     (if json_true (get_or t ''portability_findings'' JNull) \<and> v \<noteq> JStr ''NONPORTABLE'' then [R05_PORTABILITY_ENFORCED] else []) @
     (case map_of t ''effect_count'' of Some (JInt n) \<Rightarrow> if 1 < n then [R06_EFFECT_COUNT_AT_MOST_ONE] else [] | _ \<Rightarrow> []) @
     (if json_true (get_or t ''target_unreachable'' JNull) \<and> v \<noteq> JStr ''NOT_MEASURED'' then [R07_MISSING_LINK_TYPED] else []))"

subsection \<open>The commands (\<^verbatim>\<open>rebuild/rebuild.py\<close>)\<close>

text \<open>A command yields the document it writes and its exit code.\<close>

definition cmd_rebuild :: "(string \<Rightarrow> string) \<Rightarrow> job_inputs \<Rightarrow> bool \<Rightarrow> string \<Rightarrow> jobj \<times> nat" where
  "cmd_rebuild H inputs twice expiry =
    (let result = twice_check H inputs False {};
         pkg = (if twice then tw_package result else build_package H inputs)
     in if twice \<and> tw_verdict result \<noteq> ''PASS''
        then ([(''schema'', JStr ''ReadinessReceipt/v1''), (''verdict'', JStr (tw_verdict result)), (''trace'', JObj (tw_trace result))], 1)
        else (case build_envelope pkg expiry of
            Inl e \<Rightarrow> ([(''schema'', JStr ''ReadinessReceipt/v1''), (''verdict'', JStr ''NONPORTABLE''),
                (''findings'', JArr (map JStr (case e of PortabilityError fs \<Rightarrow> fs | _ \<Rightarrow> [])))], 1)
          | Inr envelope \<Rightarrow> ([(''schema'', JStr ''ReadinessReceipt/v1''), (''verdict'', JStr ''PASS''),
                (''manifest'', JObj (package_dict pkg)), (''envelope'', JObj (envelope_dict envelope)),
                (''twice_checked'', JBool twice)], 0)))"

fun status_name :: "effect_status \<Rightarrow> string" where
  "status_name APPLIED = ''APPLIED''"
| "status_name ALREADY_APPLIED = ''ALREADY_APPLIED''"
| "status_name UNKNOWN = ''UNKNOWN''"
| "status_name NOT_APPLIED = ''NOT_APPLIED''"

definition cmd_handoff_canary :: "'s git_ops \<Rightarrow> jobj \<Rightarrow> string \<Rightarrow> string \<Rightarrow> bool \<Rightarrow> 's \<Rightarrow> ('s, jobj \<times> nat) outc" where
  "cmd_handoff_canary G manifest manifest_path key simulate_network_loss s =
    (case item manifest ''digest'' of
       Inl e \<Rightarrow> (s, Inl e)
     | Inr dg \<Rightarrow> bindx (core_handoff_canary G key [(''digest'', dg), (''manifest_path'', JStr manifest_path)] simulate_network_loss s)
         (\<lambda>s r. (s, Inr ([(''schema'', JStr ''MigHandoffCanaryResult/v1''), (''status'', JStr (status_name (er_status r))),
            (''reason'', JStr (er_reason r)), (''idempotency_key'', JStr (er_key r))],
            if er_status r \<in> {APPLIED, ALREADY_APPLIED} then 0 else 2))))"

definition cmd_reconcile :: "'s git_ops \<Rightarrow> string \<Rightarrow> 's \<Rightarrow> ('s, jobj \<times> nat) outc" where
  "cmd_reconcile G key s = bindx (core_reconcile G key {} s) (\<lambda>s r.
     (s, Inr ([(''schema'', JStr ''MigReconcileResult/v1''), (''status'', JStr (status_name (er_status r))),
        (''reason'', JStr (er_reason r))], 0)))"

text \<open>The verdict and the exit code; the flag is a store-true argument, never absent.\<close>

definition cmd_verify_handoff :: "'s git_ops \<Rightarrow> (string \<Rightarrow> string) \<Rightarrow> jobj \<Rightarrow> jobj \<Rightarrow> string \<Rightarrow> string \<Rightarrow> bool \<Rightarrow>
  's option \<Rightarrow> ('s option, verify_result \<times> nat) outc" where
  "cmd_verify_handoff G H manifest envelope expected_audience key claims target =
    bindx (verify_handoff G H manifest envelope expected_audience key (Some claims) {} target)
      (\<lambda>t r. (t, Inr (r, if vr_verdict r = ''PASS'' then 0 else 1)))"

end
