(* ===== verification/Rehearsal_Props.thy ===== *)
theory Rehearsal_Props
  imports Handoff
begin

section \<open>One effect per key\<close>

text \<open>
  \<open>git_contract\<close> states what the code relies on of git, the file system and the JSON reader, in terms of a
  view of the repository: work tree, index, head and how many commits touched a path. Under it the
  target refines a map from keys to records (\<open>ledger\<close>) that is written once per key.
\<close>

subsection \<open>What the target relies on\<close>

text \<open>
  A view of the target directory: its directories, relative to the root (\<open>[]\<close>), the files of the work tree, and
  the repository with its own configuration, index, head and the number of commits that touched a path.
\<close>

record repo =
  r_git :: bool
  r_dirs :: "string set"
  r_config :: "string \<rightharpoonup> string"
  r_work :: "string \<rightharpoonup> string"
  r_index :: "string \<rightharpoonup> string"
  r_head :: "(string \<rightharpoonup> string) option"
  r_touched :: "string \<Rightarrow> nat"

definition head_file :: "repo \<Rightarrow> string \<Rightarrow> string option" where
  "head_file r p = (case r_head r of None \<Rightarrow> None | Some h \<Rightarrow> h p)"

definition commit_index :: "repo \<Rightarrow> repo" where
  "commit_index r = r\<lparr>r_head := Some (r_index r),
     r_touched := (\<lambda>p. r_touched r p + (if head_file r p = r_index r p then 0 else 1))\<rparr>"

definition identity :: "repo \<Rightarrow> bool" where
  "identity r \<longleftrightarrow> r_config r ''user.email'' \<noteq> None \<and> r_config r ''user.name'' \<noteq> None"

text \<open>
  Keys that are one file name: letters, digits, \<^verbatim>\<open>-\<close>, \<^verbatim>\<open>_\<close> and \<^verbatim>\<open>.\<close>, and short enough. A key with a slash names a file in a
  directory nobody creates, and \<^verbatim>\<open>git add\<close> and \<^verbatim>\<open>git log\<close> read \<^verbatim>\<open>*\<close>, \<^verbatim>\<open>?\<close> and \<^verbatim>\<open>[\<close> as patterns; nothing is claimed of such keys.
\<close>

definition plain_char :: "char \<Rightarrow> bool" where
  "plain_char c \<longleftrightarrow> c \<in> set ''ABCDEFGHIJKLMNOPQRSTUVWXYZabcdefghijklmnopqrstuvwxyz0123456789-_.''"

definition plain_key :: "string \<Rightarrow> bool" where
  "plain_key k \<longleftrightarrow> length k \<le> 200 \<and> list_all plain_char k"

definition plain_message :: "string \<Rightarrow> bool" where
  "plain_message m \<longleftrightarrow> m \<noteq> [] \<and> plain_char (hd m) \<and> list_all (\<lambda>c. plain_char c \<or> c = CHR '' '') m"

definition target_file :: "string \<Rightarrow> bool" where
  "target_file p \<longleftrightarrow> p = ''README.md'' \<or> (\<exists>k. plain_key k \<and> p = canary_path k)"

definition parent_of :: "string \<Rightarrow> string" where
  "parent_of p = (if p = ''README.md'' then [] else ''canary/handoff'')"

definition dirs_to :: "string \<Rightarrow> string set" where
  "dirs_to p = (if p = [] then {[]} else {[], ''canary'', ''canary/handoff''})"

text \<open>A command that succeeds and takes the repository from one view to another.\<close>

definition succeeds :: "'s git_ops \<Rightarrow> ('s \<Rightarrow> repo) \<Rightarrow> string list \<Rightarrow> 's \<Rightarrow> repo \<Rightarrow> bool" where
  "succeeds G view args s r \<longleftrightarrow> (\<exists>t out. git_cmd G args s = (t, Inr (0, out)) \<and> view t = r)"

text \<open>
  The contract, for the calls the target makes, on a disk that takes what is written and a git without ignore
  rules, hooks, filters or signing of its own: a directory can be made where no file is in the way, a file be
  written where its directory exists; \<^verbatim>\<open>init\<close> needs the directory, \<^verbatim>\<open>add\<close> the file, \<^verbatim>\<open>commit\<close> an identity, a message and
  something to commit; \<^verbatim>\<open>show\<close> reads the head, \<^verbatim>\<open>log\<close> lists the commits that touched a path.
\<close>

definition git_contract :: "'s git_ops \<Rightarrow> ('s \<Rightarrow> repo) \<Rightarrow> bool" where
  "git_contract G view \<longleftrightarrow>
    (\<forall>s. dot_git G s = r_git (view s)) \<and>
    (\<forall>p s. p \<in> {[], ''canary/handoff''} \<and> (\<forall>q\<in>dirs_to p. r_work (view s) q = None) \<longrightarrow>
       (\<exists>t. mkdirs G p s = (t, Inr ()) \<and> view t = (view s)\<lparr>r_dirs := r_dirs (view s) \<union> dirs_to p\<rparr>)) \<and>
    (\<forall>p c s. target_file p \<and> parent_of p \<in> r_dirs (view s) \<and> p \<notin> r_dirs (view s) \<longrightarrow>
       (\<exists>t. put_text G p c s = (t, Inr ()) \<and> view t = (view s)\<lparr>r_work := (r_work (view s))(p \<mapsto> c)\<rparr>)) \<and>
    (\<forall>s. \<not> r_git (view s) \<and> [] \<in> r_dirs (view s) \<longrightarrow> succeeds G view [''init'', ''-q'', ''-b'', ''main''] s
       ((view s)\<lparr>r_git := True, r_config := Map.empty, r_index := Map.empty, r_head := None, r_touched := (\<lambda>_. 0)\<rparr>)) \<and>
    (\<forall>k v s. r_git (view s) \<and> k \<in> {''user.email'', ''user.name''} \<longrightarrow>
       succeeds G view [''config'', k, v] s ((view s)\<lparr>r_config := (r_config (view s))(k \<mapsto> v)\<rparr>)) \<and>
    (\<forall>p c s. r_git (view s) \<and> target_file p \<and> r_work (view s) p = Some c \<longrightarrow>
       succeeds G view [''add'', p] s ((view s)\<lparr>r_index := (r_index (view s))(p \<mapsto> c)\<rparr>)) \<and>
    (\<forall>m s. r_git (view s) \<and> identity (view s) \<and> plain_message m \<and> r_head (view s) \<noteq> Some (r_index (view s)) \<longrightarrow>
       succeeds G view [''commit'', ''-q'', ''-m'', m] s (commit_index (view s))) \<and>
    (\<forall>p s. r_git (view s) \<and> target_file p \<longrightarrow> (\<exists>t rc out. git_cmd G [''show'', ''HEAD:'' @ p] s = (t, Inr (rc, out)) \<and> view t = view s \<and>
       (case head_file (view s) p of None \<Rightarrow> rc \<noteq> 0 | Some c \<Rightarrow> rc = 0 \<and> out = c))) \<and>
    (\<forall>p s. r_git (view s) \<and> r_head (view s) \<noteq> None \<and> target_file p \<longrightarrow>
       (\<exists>t out. git_cmd G [''log'', ''--oneline'', ''--'', p] s = (t, Inr (0, out)) \<and>
         view t = view s \<and> length (splitlines (strip out)) = r_touched (view s) p)) \<and>
    (\<forall>d. \<exists>kvs. loads G (effect_text d) = Inr (JObj kvs))"

lemma git_contractD:
  assumes "git_contract G view"
  shows "dot_git G s = r_git (view s)"
    and "p \<in> {[], ''canary/handoff''} \<Longrightarrow> \<forall>q\<in>dirs_to p. r_work (view s) q = None \<Longrightarrow>
       \<exists>t. mkdirs G p s = (t, Inr ()) \<and> view t = (view s)\<lparr>r_dirs := r_dirs (view s) \<union> dirs_to p\<rparr>"
    and "target_file p \<Longrightarrow> parent_of p \<in> r_dirs (view s) \<Longrightarrow> p \<notin> r_dirs (view s) \<Longrightarrow>
       \<exists>t. put_text G p c s = (t, Inr ()) \<and> view t = (view s)\<lparr>r_work := (r_work (view s))(p \<mapsto> c)\<rparr>"
    and "\<not> r_git (view s) \<Longrightarrow> [] \<in> r_dirs (view s) \<Longrightarrow> succeeds G view [''init'', ''-q'', ''-b'', ''main''] s
       ((view s)\<lparr>r_git := True, r_config := Map.empty, r_index := Map.empty, r_head := None, r_touched := (\<lambda>_. 0)\<rparr>)"
    and "r_git (view s) \<Longrightarrow> k \<in> {''user.email'', ''user.name''} \<Longrightarrow>
       succeeds G view [''config'', k, v] s ((view s)\<lparr>r_config := (r_config (view s))(k \<mapsto> v)\<rparr>)"
    and "r_git (view s) \<Longrightarrow> target_file p \<Longrightarrow> r_work (view s) p = Some c \<Longrightarrow>
       succeeds G view [''add'', p] s ((view s)\<lparr>r_index := (r_index (view s))(p \<mapsto> c)\<rparr>)"
    and "r_git (view s) \<Longrightarrow> identity (view s) \<Longrightarrow> plain_message m \<Longrightarrow> r_head (view s) \<noteq> Some (r_index (view s)) \<Longrightarrow>
       succeeds G view [''commit'', ''-q'', ''-m'', m] s (commit_index (view s))"
    and "r_git (view s) \<Longrightarrow> target_file p \<Longrightarrow>
       \<exists>t rc out. git_cmd G [''show'', ''HEAD:'' @ p] s = (t, Inr (rc, out)) \<and> view t = view s \<and>
       (case head_file (view s) p of None \<Rightarrow> rc \<noteq> 0 | Some c \<Rightarrow> rc = 0 \<and> out = c)"
    and "r_git (view s) \<Longrightarrow> r_head (view s) \<noteq> None \<Longrightarrow> target_file p \<Longrightarrow>
       \<exists>t out. git_cmd G [''log'', ''--oneline'', ''--'', p] s = (t, Inr (0, out)) \<and>
       view t = view s \<and> length (splitlines (strip out)) = r_touched (view s) p"
    and "\<exists>kvs. loads G (effect_text d) = Inr (JObj kvs)"
proof -
  note c = assms [unfolded git_contract_def]
  show "dot_git G s = r_git (view s)"
    by (rule c [THEN conjunct1, THEN spec])
  show "\<exists>t. mkdirs G p s = (t, Inr ()) \<and> view t = (view s)\<lparr>r_dirs := r_dirs (view s) \<union> dirs_to p\<rparr>"
    if "p \<in> {[], ''canary/handoff''}" "\<forall>q\<in>dirs_to p. r_work (view s) q = None"
    by (rule c [THEN conjunct2, THEN conjunct1, THEN spec, THEN spec, THEN mp, OF conjI [OF that(1) that(2)]])
  show "\<exists>t. put_text G p c s = (t, Inr ()) \<and> view t = (view s)\<lparr>r_work := (r_work (view s))(p \<mapsto> c)\<rparr>"
    if "target_file p" "parent_of p \<in> r_dirs (view s)" "p \<notin> r_dirs (view s)"
    by (rule c [THEN conjunct2, THEN conjunct2, THEN conjunct1, THEN spec, THEN spec, THEN spec, THEN mp, OF conjI [OF that(1) conjI [OF that(2) that(3)]]])
  show "succeeds G view [''init'', ''-q'', ''-b'', ''main''] s
       ((view s)\<lparr>r_git := True, r_config := Map.empty, r_index := Map.empty, r_head := None, r_touched := (\<lambda>_. 0)\<rparr>)"
    if "\<not> r_git (view s)" "[] \<in> r_dirs (view s)"
    by (rule c [THEN conjunct2, THEN conjunct2, THEN conjunct2, THEN conjunct1, THEN spec, THEN mp, OF conjI [OF that(1) that(2)]])
  show "succeeds G view [''config'', k, v] s ((view s)\<lparr>r_config := (r_config (view s))(k \<mapsto> v)\<rparr>)"
    if "r_git (view s)" "k \<in> {''user.email'', ''user.name''}"
    by (rule c [THEN conjunct2, THEN conjunct2, THEN conjunct2, THEN conjunct2, THEN conjunct1, THEN spec, THEN spec, THEN spec, THEN mp, OF conjI [OF that(1) that(2)]])
  show "succeeds G view [''add'', p] s ((view s)\<lparr>r_index := (r_index (view s))(p \<mapsto> c)\<rparr>)"
    if "r_git (view s)" "target_file p" "r_work (view s) p = Some c"
    by (rule c [THEN conjunct2, THEN conjunct2, THEN conjunct2, THEN conjunct2, THEN conjunct2, THEN conjunct1, THEN spec, THEN spec, THEN spec, THEN mp, OF conjI [OF that(1) conjI [OF that(2) that(3)]]])
  show "succeeds G view [''commit'', ''-q'', ''-m'', m] s (commit_index (view s))"
    if "r_git (view s)" "identity (view s)" "plain_message m" "r_head (view s) \<noteq> Some (r_index (view s))"
    by (rule c [THEN conjunct2, THEN conjunct2, THEN conjunct2, THEN conjunct2, THEN conjunct2, THEN conjunct2, THEN conjunct1, THEN spec, THEN spec, THEN mp, OF conjI [OF that(1) conjI [OF that(2) conjI [OF that(3) that(4)]]]])
  show "\<exists>t rc out. git_cmd G [''show'', ''HEAD:'' @ p] s = (t, Inr (rc, out)) \<and> view t = view s \<and>
       (case head_file (view s) p of None \<Rightarrow> rc \<noteq> 0 | Some c \<Rightarrow> rc = 0 \<and> out = c)"
    if "r_git (view s)" "target_file p"
    by (rule c [THEN conjunct2, THEN conjunct2, THEN conjunct2, THEN conjunct2, THEN conjunct2, THEN conjunct2, THEN conjunct2, THEN conjunct1, THEN spec, THEN spec, THEN mp, OF conjI [OF that(1) that(2)]])
  show "\<exists>t out. git_cmd G [''log'', ''--oneline'', ''--'', p] s = (t, Inr (0, out)) \<and>
       view t = view s \<and> length (splitlines (strip out)) = r_touched (view s) p"
    if "r_git (view s)" "r_head (view s) \<noteq> None" "target_file p"
    by (rule c [THEN conjunct2, THEN conjunct2, THEN conjunct2, THEN conjunct2, THEN conjunct2, THEN conjunct2, THEN conjunct2, THEN conjunct2, THEN conjunct1, THEN spec, THEN spec, THEN mp, OF conjI [OF that(1) conjI [OF that(2) that(3)]]])
  show "\<exists>kvs. loads G (effect_text d) = Inr (JObj kvs)"
    by (rule c [THEN conjunct2, THEN conjunct2, THEN conjunct2, THEN conjunct2, THEN conjunct2, THEN conjunct2, THEN conjunct2, THEN conjunct2, THEN conjunct2, THEN spec])
qed

subsection \<open>The steps of the target\<close>

text \<open>\<open>ends m Q\<close>: the command sequence \<open>m\<close> raises nothing and ends in a state and value with \<open>Q\<close>.\<close>

definition ends :: "('s, 'a) outc \<Rightarrow> ('s \<Rightarrow> 'a \<Rightarrow> bool) \<Rightarrow> bool" where
  "ends m Q \<longleftrightarrow> (\<exists>t a. m = (t, Inr a) \<and> Q t a)"

lemma ends_return [simp]: "ends (s, Inr a) Q = Q s a"
  by (simp add: ends_def)

lemma ends_bindx: "ends m R \<Longrightarrow> (\<And>t a. R t a \<Longrightarrow> ends (k t a) Q) \<Longrightarrow> ends (bindx m k) Q"
  by (auto simp: ends_def)

lemma ends_mono: "ends m R \<Longrightarrow> (\<And>t a. R t a \<Longrightarrow> Q t a) \<Longrightarrow> ends m Q"
  by (auto simp: ends_def)

lemma ends_git: "succeeds G view args s r \<Longrightarrow> ends (run_git G args True s) (\<lambda>t _. view t = r)"
  by (auto simp: succeeds_def run_git_def ends_def)

lemma ends_unit: "\<exists>t. m = (t, Inr ()) \<and> view t = r \<Longrightarrow> ends m (\<lambda>t _. view t = r)"
  by (auto simp: ends_def)

lemma canary_path_inj [simp]: "canary_path k = canary_path k' \<longleftrightarrow> k = k'" "canary_path k \<noteq> ''README.md''"
  by (simp_all add: canary_path_def)

lemma dirs_no_files: "target_file p \<Longrightarrow> p \<notin> dirs_to q"
  by (auto simp: target_file_def dirs_to_def canary_path_def)

lemma target_files [simp]: "target_file ''README.md''" "plain_key k \<Longrightarrow> target_file (canary_path k)"
  by (auto simp: target_file_def)

lemma parents [simp]: "parent_of ''README.md'' = []" "parent_of (canary_path k) = ''canary/handoff''"
  by (simp_all add: parent_of_def)

lemma dirs_to_self: "[] \<in> dirs_to p" "''canary/handoff'' \<in> dirs_to ''canary/handoff''"
  by (simp_all add: dirs_to_def)

text \<open>
  The ledger of a repository at rest: one committed record per key, one commit each, and neither a file in the
  way of a directory nor a directory in the way of a file.
\<close>

definition clear :: "repo \<Rightarrow> bool" where
  "clear r \<longleftrightarrow> (\<forall>p. \<forall>q\<in>dirs_to p. r_work r q = None) \<and> (\<forall>p. target_file p \<longrightarrow> p \<notin> r_dirs r)"

definition ledger :: "repo \<Rightarrow> (string \<rightharpoonup> string) \<Rightarrow> bool" where
  "ledger r m \<longleftrightarrow> clear r \<and> (\<forall>k c. m k = Some c \<longrightarrow> (\<exists>d. c = effect_text d)) \<and>
    (if r_git r then identity r \<and> r_head r = Some (r_index r) \<and>
       (\<forall>k. plain_key k \<longrightarrow> r_index r (canary_path k) = m k \<and> r_touched r (canary_path k) = (if m k = None then 0 else 1))
     else m = Map.empty)"

lemma clear_dirs: "clear r \<Longrightarrow> clear (r\<lparr>r_dirs := r_dirs r \<union> dirs_to p\<rparr>)"
  by (auto simp: clear_def dest: dirs_no_files)

lemma clear_work: "clear r \<Longrightarrow> target_file p \<Longrightarrow> clear (r\<lparr>r_work := (r_work r)(p \<mapsto> c)\<rparr>)"
  by (auto simp: clear_def dest: dirs_no_files)

lemma clear_cong: "r_work r = r_work r' \<Longrightarrow> r_dirs r = r_dirs r' \<Longrightarrow> clear r = clear r'"
  by (simp add: clear_def)

lemma ends_contract:
  assumes G: "git_contract G view"
  shows "view s = r \<Longrightarrow> clear r \<Longrightarrow> p \<in> {[], ''canary/handoff''} \<Longrightarrow>
       ends (mkdirs G p s) (\<lambda>t _. view t = r\<lparr>r_dirs := r_dirs r \<union> dirs_to p\<rparr>)"
    and "view s = r \<Longrightarrow> clear r \<Longrightarrow> target_file p \<Longrightarrow> parent_of p \<in> r_dirs r \<Longrightarrow>
       ends (put_text G p c s) (\<lambda>t _. view t = r\<lparr>r_work := (r_work r)(p \<mapsto> c)\<rparr>)"
    and "view s = r \<Longrightarrow> \<not> r_git r \<Longrightarrow> [] \<in> r_dirs r \<Longrightarrow> ends (run_git G [''init'', ''-q'', ''-b'', ''main''] True s)
       (\<lambda>t _. view t = r\<lparr>r_git := True, r_config := Map.empty, r_index := Map.empty, r_head := None, r_touched := (\<lambda>_. 0)\<rparr>)"
    and "view s = r \<Longrightarrow> r_git r \<Longrightarrow> k \<in> {''user.email'', ''user.name''} \<Longrightarrow>
       ends (run_git G [''config'', k, v] True s) (\<lambda>t _. view t = r\<lparr>r_config := (r_config r)(k \<mapsto> v)\<rparr>)"
    and "view s = r \<Longrightarrow> r_git r \<Longrightarrow> target_file p \<Longrightarrow> r_work r p = Some c \<Longrightarrow>
       ends (run_git G [''add'', p] True s) (\<lambda>t _. view t = r\<lparr>r_index := (r_index r)(p \<mapsto> c)\<rparr>)"
    and "view s = r \<Longrightarrow> r_git r \<Longrightarrow> identity r \<Longrightarrow> plain_message m \<Longrightarrow> r_head r \<noteq> Some (r_index r) \<Longrightarrow>
       ends (run_git G [''commit'', ''-q'', ''-m'', m] True s) (\<lambda>t _. view t = commit_index r)"
proof -
  show "ends (mkdirs G p s) (\<lambda>t _. view t = r\<lparr>r_dirs := r_dirs r \<union> dirs_to p\<rparr>)"
    if "view s = r" "clear r" "p \<in> {[], ''canary/handoff''}"
    using ends_unit [OF git_contractD(2) [OF G that(3), of s]] that(1,2) by (simp add: clear_def)
  show "ends (put_text G p c s) (\<lambda>t _. view t = r\<lparr>r_work := (r_work r)(p \<mapsto> c)\<rparr>)"
    if "view s = r" "clear r" "target_file p" "parent_of p \<in> r_dirs r"
    using ends_unit [OF git_contractD(3) [OF G that(3), of s c]] that by (simp add: clear_def)
  show "ends (run_git G [''init'', ''-q'', ''-b'', ''main''] True s)
       (\<lambda>t _. view t = r\<lparr>r_git := True, r_config := Map.empty, r_index := Map.empty, r_head := None, r_touched := (\<lambda>_. 0)\<rparr>)"
    if "view s = r" "\<not> r_git r" "[] \<in> r_dirs r"
    using ends_git [OF git_contractD(4) [OF G, of s]] that by simp
  show "ends (run_git G [''config'', k, v] True s) (\<lambda>t _. view t = r\<lparr>r_config := (r_config r)(k \<mapsto> v)\<rparr>)"
    if "view s = r" "r_git r" "k \<in> {''user.email'', ''user.name''}"
    using ends_git [OF git_contractD(5) [OF G _ that(3), of s v]] that(1,2) by simp
  show "ends (run_git G [''add'', p] True s) (\<lambda>t _. view t = r\<lparr>r_index := (r_index r)(p \<mapsto> c)\<rparr>)"
    if "view s = r" "r_git r" "target_file p" "r_work r p = Some c"
    using ends_git [OF git_contractD(6) [OF G _ that(3), of s c]] that by simp
  show "ends (run_git G [''commit'', ''-q'', ''-m'', m] True s) (\<lambda>t _. view t = commit_index r)"
    if "view s = r" "r_git r" "identity r" "plain_message m" "r_head r \<noteq> Some (r_index r)"
    using ends_git [OF git_contractD(7) [OF G, of s m]] that by simp
qed

lemma init_message: "plain_message ''init rehearsal target''"
  by (simp add: plain_message_def plain_char_def)

lemma effect_message: "plain_key k \<Longrightarrow> plain_message (''canary effect '' @ k)"
proof -
  assume "plain_key k"
  then have "list_all (\<lambda>c. plain_char c \<or> c = CHR '' '') k" by (simp add: plain_key_def list_all_iff)
  moreover have "list_all (\<lambda>c. plain_char c \<or> c = CHR '' '') ''canary effect ''" "plain_char (CHR ''c'')"
    by (simp_all add: plain_char_def)
  ultimately show "plain_message (''canary effect '' @ k)"
    unfolding plain_message_def list_all_append by (intro conjI) simp_all
qed

text \<open>The view after each command of \<open>ensure_init\<close>.\<close>

definition inited :: "repo \<Rightarrow> repo" where
  "inited r = r\<lparr>r_dirs := r_dirs r \<union> dirs_to [], r_git := True, r_config := Map.empty, r_index := Map.empty, r_head := None, r_touched := (\<lambda>_. 0)\<rparr>"

definition configured :: "repo \<Rightarrow> repo" where
  "configured r = r\<lparr>r_config := (r_config r)(''user.email'' \<mapsto> ''aup-rehearsal@localhost'', ''user.name'' \<mapsto> ''aup-rehearsal'')\<rparr>"

definition staged :: "string \<Rightarrow> string \<Rightarrow> repo \<Rightarrow> repo" where
  "staged p c r = r\<lparr>r_work := (r_work r)(p \<mapsto> c), r_index := (r_index r)(p \<mapsto> c)\<rparr>"

text \<open>Writing a file, adding and committing it, the tail both operations share.\<close>

lemma ends_record:
  assumes G: "git_contract G view" and s: "view s = r" "clear r" "r_git r" "identity r" "target_file p" "parent_of p \<in> r_dirs r"
    and msg: "plain_message m" and new: "r_head r \<noteq> Some ((r_index r)(p \<mapsto> c))"
    and Q: "\<And>t. view t = commit_index (staged p c r) \<Longrightarrow> Q t a"
  shows "ends (bindx (put_text G p c s) (\<lambda>s _. bindx (run_git G [''add'', p] True s) (\<lambda>s _.
      bindx (run_git G [''commit'', ''-q'', ''-m'', m] True s) (\<lambda>s _. (s, Inr a))))) Q"
proof -
  note steps = ends_contract [OF G]
  let ?r1 = "r\<lparr>r_work := (r_work r)(p \<mapsto> c)\<rparr>"
  have add: "ends (run_git G [''add'', p] True t) (\<lambda>t _. view t = staged p c r)" if "view t = ?r1" for t
    using steps(5) [OF that _ s(5), of c] s(3) by (simp add: staged_def)
  have com: "ends (run_git G [''commit'', ''-q'', ''-m'', m] True t) (\<lambda>t _. view t = commit_index (staged p c r))"
    if "view t = staged p c r" for t
    using steps(6) [OF that _ _ msg] s(3,4) new by (simp add: staged_def identity_def)
  show ?thesis
    by (rule ends_bindx [OF steps(2) [OF s(1,2,5,6)]], rule ends_bindx [OF add], assumption,
        rule ends_bindx [OF com], assumption) (simp add: Q)
qed

lemma ledger_inited:
  assumes m: "ledger r m" "\<not> r_git r"
  shows "ledger (commit_index (staged ''README.md'' c (configured (inited r)))) m"
proof -
  have "clear (r\<lparr>r_dirs := r_dirs r \<union> dirs_to [], r_work := (r_work r)(''README.md'' \<mapsto> c)\<rparr>)"
    using clear_work [OF clear_dirs, of r "''README.md''" "[]" c] m(1) by (simp add: ledger_def)
  then have "clear (commit_index (staged ''README.md'' c (configured (inited r))))"
    by (rule clear_cong [THEN iffD1, rotated -1]) (simp_all add: commit_index_def staged_def configured_def inited_def)
  then show ?thesis
    using m by (auto simp: ledger_def commit_index_def staged_def configured_def inited_def identity_def head_file_def)
qed

lemma ensure_init_ok:
  assumes G: "git_contract G view" and m: "ledger (view s) m"
  shows "ends (ensure_init G s) (\<lambda>t _. r_git (view t) \<and> ledger (view t) m)"
proof (cases "r_git (view s)")
  case True
  then show ?thesis using m by (simp add: ensure_init_def git_contractD(1) [OF G])
next
  case False
  note steps = ends_contract [OF G]
  let ?d = "(view s)\<lparr>r_dirs := r_dirs (view s) \<union> dirs_to []\<rparr>" and ?i = "inited (view s)"
  let ?c = "configured ?i"
  have cl: "clear ?d" using m clear_dirs by (simp add: ledger_def)
  have mk: "ends (mkdirs G [] s) (\<lambda>t _. view t = ?d)" using steps(1) [OF refl, of s "[]"] m by (simp add: ledger_def)
  have init: "ends (run_git G [''init'', ''-q'', ''-b'', ''main''] True t) (\<lambda>t _. view t = ?i)" if "view t = ?d" for t
    using steps(3) [OF that] False by (simp add: inited_def dirs_to_def)
  have mail: "ends (run_git G [''config'', ''user.email'', v] True t) (\<lambda>t _. view t = ?i\<lparr>r_config := (r_config ?i)(''user.email'' \<mapsto> v)\<rparr>)"
    if "view t = ?i" for t v using steps(4) [OF that, of "''user.email''" v] by (simp add: inited_def)
  have name: "ends (run_git G [''config'', ''user.name'', ''aup-rehearsal''] True t) (\<lambda>t _. view t = ?c)"
    if "view t = ?i\<lparr>r_config := (r_config ?i)(''user.email'' \<mapsto> ''aup-rehearsal@localhost'')\<rparr>" for t
    using steps(4) [OF that, of "''user.name''" "''aup-rehearsal''"] by (simp add: inited_def configured_def)
  have c: "clear ?c" "r_git ?c" "identity ?c" "[] \<in> r_dirs ?c" "r_head ?c = None"
    using cl clear_cong [of ?d ?c] by (simp_all add: configured_def inited_def identity_def dirs_to_def)
  have last: "ends (bindx (put_text G ''README.md'' README t) (\<lambda>s _. bindx (run_git G [''add'', ''README.md''] True s) (\<lambda>s _.
      bindx (run_git G [''commit'', ''-q'', ''-m'', ''init rehearsal target''] True s) (\<lambda>s _. (s, Inr ())))))
    (\<lambda>t _. r_git (view t) \<and> ledger (view t) m)" if "view t = ?c" for t
    by (rule ends_record [OF G that c(1-3) target_files(1) _ init_message])
      (use c ledger_inited [OF m False] in \<open>simp_all add: commit_index_def staged_def\<close>)
  show ?thesis
    unfolding ensure_init_def git_contractD(1) [OF G] if_not_P [OF False]
    by (rule ends_bindx [OF mk], rule ends_bindx [OF init], assumption, rule ends_bindx [OF mail], assumption,
        rule ends_bindx [OF name], assumption, rule last)
qed

text \<open>Reading through the committed tree changes nothing and finds exactly the recorded keys.\<close>

lemma readback_ok:
  assumes G: "git_contract G view" and r: "r_git (view s)" and m: "ledger (view s) m" and k: "plain_key k"
  shows "ends (target_readback G k s) (\<lambda>t v. view t = view s \<and> (v = JNull \<longleftrightarrow> m k = None))"
proof -
  have h: "head_file (view s) (canary_path k) = m k" using m r k by (simp add: ledger_def head_file_def)
  obtain t rc out where g: "git_cmd G [''show'', ''HEAD:'' @ canary_path k] s = (t, Inr (rc, out))" "view t = view s"
    "case m k of None \<Rightarrow> rc \<noteq> 0 | Some c \<Rightarrow> rc = 0 \<and> out = c"
    using git_contractD(8) [OF G r target_files(2) [OF k]] by (auto simp: h)
  show ?thesis
  proof (cases "m k")
    case None
    with g show ?thesis by (simp add: target_readback_def committed_path_def run_git_def)
  next
    case (Some c)
    then obtain d where "c = effect_text d" using m by (auto simp: ledger_def)
    then obtain kvs where "loads G c = Inr (JObj kvs)" using git_contractD(10) [OF G] by blast
    with Some g show ?thesis by (simp add: target_readback_def committed_path_def run_git_def)
  qed
qed

subsection \<open>The abstract effect\<close>

definition effect_spec :: "string \<Rightarrow> jobj \<Rightarrow> (string \<rightharpoonup> string) \<Rightarrow> (string \<rightharpoonup> string) \<times> effect_status" where
  "effect_spec k d m = (if m k = None then (m(k \<mapsto> effect_text d), APPLIED) else (m, ALREADY_APPLIED))"

lemma ledger_commit:
  assumes m: "ledger r m" "r_git r" "m k = None" "plain_key k"
  shows "ledger (commit_index (staged (canary_path k) (effect_text d) (r\<lparr>r_dirs := r_dirs r \<union> dirs_to p\<rparr>))) (m(k \<mapsto> effect_text d))"
proof -
  have "clear (r\<lparr>r_dirs := r_dirs r \<union> dirs_to p, r_work := (r_work r)(canary_path k \<mapsto> effect_text d)\<rparr>)"
    using clear_work [OF clear_dirs, of r "canary_path k" p] m(1,4) by (simp add: ledger_def)
  then have "clear (commit_index (staged (canary_path k) (effect_text d) (r\<lparr>r_dirs := r_dirs r \<union> dirs_to p\<rparr>)))"
    by (rule clear_cong [THEN iffD1, rotated -1]) (simp_all add: commit_index_def staged_def)
  then show ?thesis using m by (auto simp: ledger_def commit_index_def staged_def identity_def head_file_def)
qed

lemma apply_effect_refines:
  assumes G: "git_contract G view" and m: "ledger (view s) m" and k: "plain_key k"
  shows "ends (target_apply_effect G k d s) (\<lambda>t r. r_git (view t) \<and> ledger (view t) (fst (effect_spec k d m)) \<and>
    r = \<lparr>er_status = snd (effect_spec k d m), er_key = k, er_reason = []\<rparr>)"
  unfolding target_apply_effect_def
proof (rule ends_bindx [OF ensure_init_ok [OF G m]], rule ends_bindx)
  fix t :: 'a and u :: unit
  assume t: "r_git (view t) \<and> ledger (view t) m"
  then show "ends (target_readback G k t) (\<lambda>t' v. view t' = view t \<and> (v = JNull \<longleftrightarrow> m k = None))"
    by (intro readback_ok [OF G _ _ k]) simp_all
next
  fix t :: 'a and u :: unit and s' v
  assume t: "r_git (view t) \<and> ledger (view t) m" and v: "view s' = view t \<and> (v = JNull \<longleftrightarrow> m k = None)"
  let ?P = "\<lambda>t r. r_git (view t) \<and> ledger (view t) (fst (effect_spec k d m)) \<and>
       r = \<lparr>er_status = snd (effect_spec k d m), er_key = k, er_reason = []\<rparr>"
  let ?d = "(view t)\<lparr>r_dirs := r_dirs (view t) \<union> dirs_to ''canary/handoff''\<rparr>"
  show "ends (if v \<noteq> JNull then (s', Inr \<lparr>er_status = ALREADY_APPLIED, er_key = k, er_reason = []\<rparr>)
      else bindx (mkdirs G ''canary/handoff'' s') (\<lambda>s _. bindx (put_text G (canary_path k) (effect_text d) s) (\<lambda>s _.
           bindx (run_git G [''add'', canary_path k] True s) (\<lambda>s _.
           bindx (run_git G [''commit'', ''-q'', ''-m'', ''canary effect '' @ k] True s) (\<lambda>s _.
             (s, Inr \<lparr>er_status = APPLIED, er_key = k, er_reason = []\<rparr>)))))) ?P"
  proof (cases "m k")
    case (Some c)
    with v t show ?thesis by (simp add: effect_spec_def)
  next
    case None
    have i: "identity (view t)" "clear (view t)" using t by (simp_all add: ledger_def)
    have d: "clear ?d" "r_git ?d" "identity ?d" "''canary/handoff'' \<in> r_dirs ?d"
      using t i(1) clear_dirs [OF i(2)] dirs_to_self(2) by (simp_all add: identity_def)
    have mk: "ends (mkdirs G ''canary/handoff'' s') (\<lambda>x _. view x = ?d)"
      using ends_contract(1) [OF G, of s' "view t" "''canary/handoff''"] v t by (simp add: ledger_def)
    have new: "r_head ?d \<noteq> Some ((r_index ?d)(canary_path k \<mapsto> effect_text d))"
    proof
      assume "r_head ?d = Some ((r_index ?d)(canary_path k \<mapsto> effect_text d))"
      then have "r_index (view t) = (r_index (view t))(canary_path k \<mapsto> effect_text d)" using t by (simp add: ledger_def)
      then have "r_index (view t) (canary_path k) = Some (effect_text d)" by (metis fun_upd_same)
      with t None k show False by (simp add: ledger_def)
    qed
    have Q: "?P x \<lparr>er_status = APPLIED, er_key = k, er_reason = []\<rparr>"
      if "view x = commit_index (staged (canary_path k) (effect_text d) ?d)" for x
      using ledger_commit [of "view t" m k d "''canary/handoff''"] t None k that
      by (simp add: effect_spec_def) (simp add: commit_index_def staged_def)
    have rec: "ends (bindx (put_text G (canary_path k) (effect_text d) x) (\<lambda>s _.
           bindx (run_git G [''add'', canary_path k] True s) (\<lambda>s _.
           bindx (run_git G [''commit'', ''-q'', ''-m'', ''canary effect '' @ k] True s) (\<lambda>s _.
             (s, Inr \<lparr>er_status = APPLIED, er_key = k, er_reason = []\<rparr>))))) ?P" if "view x = ?d" for x
      by (rule ends_record [OF G that d(1-3) target_files(2) [OF k] _ effect_message [OF k] new], use d(4) in \<open>simp only: parents\<close>, rule Q)
    have "v = JNull" using v None by simp
    then show ?thesis by (simp only: not_True_eq_False if_False simp_thms) (rule ends_bindx [OF mk], rule rec)
  qed
qed

subsection \<open>Any sequence of handoffs\<close>

datatype target_op = Canary string jobj bool | Reconcile string

fun target_run :: "'s git_ops \<Rightarrow> target_op list \<Rightarrow> 's \<Rightarrow> ('s, effect_status list) outc" where
  "target_run G [] s = (s, Inr [])"
| "target_run G (Canary k d loss # ops) s = bindx (core_handoff_canary G k d loss s) (\<lambda>s r.
     bindx (target_run G ops s) (\<lambda>s rs. (s, Inr (er_status r # rs))))"
| "target_run G (Reconcile k # ops) s = bindx (core_reconcile G k {} s) (\<lambda>s r.
     bindx (target_run G ops s) (\<lambda>s rs. (s, Inr (er_status r # rs))))"

fun op_key :: "target_op \<Rightarrow> string" where
  "op_key (Canary k d loss) = k"
| "op_key (Reconcile k) = k"

fun first_payload :: "string \<Rightarrow> target_op list \<Rightarrow> jobj option" where
  "first_payload k [] = None"
| "first_payload k (Canary k' d loss # ops) = (if k' = k then Some d else first_payload k ops)"
| "first_payload k (Reconcile _ # ops) = first_payload k ops"

lemma canary_ok:
  assumes G: "git_contract G view" and m: "ledger (view s) m" and k: "plain_key k"
  shows "ends (core_handoff_canary G k d loss s) (\<lambda>t r. r_git (view t) \<and> ledger (view t) (fst (effect_spec k d m)) \<and>
    er_status r = (if loss then UNKNOWN else snd (effect_spec k d m)))"
  unfolding core_handoff_canary_def backend_handoff_canary_def
  by (rule ends_bindx [OF apply_effect_refines [OF G m k]]) simp

lemma reconcile_ok:
  assumes G: "git_contract G view" and r: "r_git (view s)" and m: "ledger (view s) m" and k: "plain_key k"
  shows "ends (core_reconcile G k {} s) (\<lambda>t r. view t = view s \<and> er_status r = (if m k = None then NOT_APPLIED else APPLIED))"
proof -
  have "core_reconcile G k {} = backend_reconcile G k" by (simp add: core_reconcile_def)
  then show ?thesis
    by (simp only: backend_reconcile_def) (rule ends_bindx [OF readback_ok [OF G r m k]], simp)
qed

definition recorded_by :: "target_op list \<Rightarrow> (string \<rightharpoonup> string) \<Rightarrow> (string \<rightharpoonup> string)" where
  "recorded_by ops m = (\<lambda>k. case m k of Some c \<Rightarrow> Some c | None \<Rightarrow> map_option effect_text (first_payload k ops))"

lemma recorded_by_Nil: "recorded_by [] m = m"
  by (auto simp: recorded_by_def fun_eq_iff split: option.split)

lemma recorded_by_Canary: "recorded_by (Canary k d loss # ops) m = recorded_by ops (fst (effect_spec k d m))"
  by (auto simp: recorded_by_def effect_spec_def fun_eq_iff split: option.split)

lemma recorded_by_Reconcile: "recorded_by (Reconcile k # ops) m = recorded_by ops m"
  unfolding recorded_by_def first_payload.simps ..

lemma target_run_ledger:
  assumes G: "git_contract G view"
  shows "r_git (view s) \<Longrightarrow> ledger (view s) m \<Longrightarrow> \<forall>op\<in>set ops. plain_key (op_key op) \<Longrightarrow>
    ends (target_run G ops s) (\<lambda>t _. r_git (view t) \<and> ledger (view t) (recorded_by ops m))"
proof (induction ops arbitrary: s m)
  case Nil
  then show ?case by (simp add: recorded_by_Nil)
next
  case (Cons op ops)
  have tail: "ends (bindx (target_run G ops t) (\<lambda>s rs. (s, Inr (e # rs)))) (\<lambda>t _. r_git (view t) \<and> ledger (view t) (recorded_by ops m'))"
    if "r_git (view t)" "ledger (view t) m'" for t m' e
    by (rule ends_bindx [OF Cons.IH [OF that]]) (use Cons.prems(3) in simp_all)
  show ?case
  proof (cases op)
    case (Canary k d loss)
    show ?thesis unfolding Canary target_run.simps recorded_by_Canary
      by (rule ends_bindx [OF canary_ok [OF G Cons.prems(2)]], use Cons.prems(3) Canary in simp, rule tail) simp_all
  next
    case (Reconcile k)
    show ?thesis unfolding Reconcile target_run.simps recorded_by_Reconcile
      by (rule ends_bindx [OF reconcile_ok [OF G Cons.prems(1,2)]], use Cons.prems(3) Reconcile in simp, rule tail) (use Cons.prems in simp_all)
  qed
qed

lemma commit_count_ok:
  assumes G: "git_contract G view" and r: "r_git (view s)" and m: "ledger (view s) m" and k: "plain_key k"
  shows "ends (effect_commit_count G k s) (\<lambda>_ n. n = (if m k = None then 0 else 1))"
proof -
  have h: "r_head (view s) \<noteq> None" "r_touched (view s) (canary_path k) = (if m k = None then 0 else 1)"
    using r m k by (simp_all add: ledger_def)
  obtain t out where t: "git_cmd G [''log'', ''--oneline'', ''--'', canary_path k] s = (t, Inr (0, out))"
    "length (splitlines (strip out)) = (if m k = None then 0 else 1)"
    using git_contractD(9) [OF G r h(1) target_files(2) [OF k]] h(2) by auto
  then show ?thesis by (auto simp: effect_commit_count_def run_git_def)
qed



subsection \<open>A repository that keeps the contract\<close>

definition git0_cmd :: "string list \<Rightarrow> repo \<Rightarrow> (repo, int \<times> string) outc" where
  "git0_cmd args r =
    (if hd args = ''init'' then (r\<lparr>r_git := True, r_config := Map.empty, r_index := Map.empty, r_head := None, r_touched := (\<lambda>_. 0)\<rparr>, Inr (0, []))
     else if hd args = ''config'' then (r\<lparr>r_config := (r_config r)(args ! 1 \<mapsto> args ! 2)\<rparr>, Inr (0, []))
     else if hd args = ''add'' then (case r_work r (args ! 1) of None \<Rightarrow> (r, Inr (128, []))
       | Some c \<Rightarrow> (r\<lparr>r_index := (r_index r)(args ! 1 \<mapsto> c)\<rparr>, Inr (0, [])))
     else if hd args = ''commit'' then
       (if \<not> identity r then (r, Inr (128, []))
        else if r_head r \<noteq> Some (r_index r) then (commit_index r, Inr (0, [])) else (r, Inr (1, [])))
     else if hd args = ''show'' then (case head_file r (drop 5 (args ! 1)) of None \<Rightarrow> (r, Inr (128, [])) | Some c \<Rightarrow> (r, Inr (0, c)))
     else (r, Inr (0, join [CHR 0x0A] (replicate (r_touched r (args ! 3)) ''x''))))"

definition git0 :: "repo git_ops" where
  "git0 = \<lparr>dot_git = r_git, git_cmd = git0_cmd, mkdirs = (\<lambda>p r. (r\<lparr>r_dirs := r_dirs r \<union> dirs_to p\<rparr>, Inr ())),
     put_text = (\<lambda>p c r. if parent_of p \<in> r_dirs r then (r\<lparr>r_work := (r_work r)(p \<mapsto> c)\<rparr>, Inr ()) else (r, Inl KeyError)),
     loads = (\<lambda>_. Inr (JObj []))\<rparr>"

lemma splitlines_join: "splitlines (join [CHR 0x0A] (replicate n ''x'')) = replicate n ''x''"
proof (induction n)
  case (Suc n)
  then show ?case by (cases n) (simp_all add: line_break_def)
qed simp

lemma concat_replicate_snoc: "concat (replicate m xs) @ xs = xs @ concat (replicate m xs)"
  by (induction m) simp_all

lemma strip_join: "strip (join [CHR 0x0A] (replicate n ''x'')) = join [CHR 0x0A] (replicate n ''x'')"
proof (cases n)
  case (Suc m)
  have "join [CHR 0x0A] (replicate (Suc m) ''x'') = CHR ''x'' # concat (replicate m [CHR 0x0A, CHR ''x''])"
    by (induction m) simp_all
  moreover have "rev (CHR ''x'' # concat (replicate m [CHR 0x0A, CHR ''x''])) = CHR ''x'' # concat (replicate m [CHR 0x0A, CHR ''x''])"
    by (induction m) (simp_all add: concat_replicate_snoc)
  ultimately show ?thesis using Suc by (simp add: strip_def is_space_def)
qed (simp add: strip_def)

lemma git0_contract: "git_contract git0 id"
  unfolding git_contract_def succeeds_def
  by (auto simp: git0_def git0_cmd_def splitlines_join strip_join split: option.split)

definition repo0 :: repo where
  "repo0 = \<lparr>r_git = True, r_dirs = {[]}, r_config = [''user.email'' \<mapsto> ''e'', ''user.name'' \<mapsto> ''n''], r_work = Map.empty, r_index = Map.empty, r_head = Some Map.empty, r_touched = (\<lambda>_. 0)\<rparr>"

lemma repo0_ledger: "ledger (id repo0) Map.empty"
  using dirs_no_files [of _ "[]"] by (auto simp: ledger_def clear_def identity_def repo0_def dirs_to_def)

lemma plain_k: "plain_key ''k''"
  by (simp add: plain_key_def plain_char_def)



end
