(* ===== verification/Handoff_Props.thy ===== *)
theory Handoff_Props
  imports Rehearsal_Props
begin

section \<open>What a passing handoff means\<close>

text \<open>
  The portability scan finds something exactly when a pattern occurs in the text; a handoff passes exactly
  when manifest and envelope are portable, agree with the recomputed digest, name the expected audience
  and the target can be read and bears out the claim; a manifest that passes carries the inputs of the
  package whose digest the envelope pins; the oracle accepts every trace the reference checks leave.
\<close>

subsection \<open>The portability scan\<close>

definition SECRETS :: "string list" where
  "SECRETS = [''mun_sk_'', ''ghp_'', ''xoxb-'', ''xoxa-'', ''xoxp-'', ''xoxr-'', ''xoxs-'']"

definition secret_in :: "string \<Rightarrow> bool" where
  "secret_in t \<longleftrightarrow> (\<exists>p\<in>set SECRETS. sublist p t)"

definition private_path_in :: "string \<Rightarrow> bool" where
  "private_path_in t \<longleftrightarrow> (\<exists>c. path_start c \<and> (sublist (c # ''/root/'') t \<or>
     (\<exists>x. x \<noteq> CHR ''/'' \<and> \<not> path_end x \<and> sublist (c # ''/home/'' @ [x]) t)))"

lemma secret_match_iff: "secret_match xs \<noteq> None \<longleftrightarrow> (\<exists>p\<in>set SECRETS. prefix p xs)"
proof -
  have "prefix ''xox'' xs \<and> 5 \<le> length xs \<and> xs ! 3 = c \<and> xs ! 4 = CHR ''-'' \<longleftrightarrow> prefix [CHR ''x'', CHR ''o'', CHR ''x'', c, CHR ''-''] xs" for c
    by (cases xs rule: list.exhaust; cases "tl xs" rule: list.exhaust; cases "tl (tl xs)" rule: list.exhaust;
        cases "tl (tl (tl xs))" rule: list.exhaust; cases "tl (tl (tl (tl xs)))" rule: list.exhaust) auto
  then show ?thesis by (auto simp: secret_match_def SECRETS_def)
qed

lemma scan_secrets_Nil: "scan_secrets xs = [] \<longleftrightarrow> \<not> secret_in xs"
proof (induction xs rule: scan_secrets.induct)
  case 1
  show ?case by (simp add: secret_in_def SECRETS_def)
next
  case (2 c cs)
  have s: "secret_in (c # cs) \<longleftrightarrow> secret_match (c # cs) \<noteq> None \<or> secret_in cs"
    unfolding secret_in_def secret_match_iff sublist_Cons_right by blast
  show ?case
  proof (cases "secret_match (c # cs)")
    case None
    with 2 s show ?thesis by simp
  next
    case (Some m)
    with s show ?thesis by simp
  qed
qed

lemma path_match_iff: "path_match xs \<noteq> None \<longleftrightarrow> prefix ''/root/'' xs \<or>
   (\<exists>x. x \<noteq> CHR ''/'' \<and> \<not> path_end x \<and> prefix (''/home/'' @ [x]) xs)"
proof (cases "prefix ''/home/'' xs")
  case True
  then obtain ys where ys: "xs = ''/home/'' @ ys" by (auto simp: prefix_def)
  have "takeWhile (\<lambda>c. c \<noteq> CHR ''/'' \<and> \<not> path_end c) ys \<noteq> [] \<longleftrightarrow> (\<exists>x. x \<noteq> CHR ''/'' \<and> \<not> path_end x \<and> prefix [x] ys)"
    by (cases ys) auto
  then show ?thesis by (auto simp: path_match_def ys Let_def)
next
  case False
  then have "\<not> prefix (''/home/'' @ [x]) xs" for x using append_prefixD by blast
  with False show ?thesis by (simp add: path_match_def)
qed

lemma private_path_Cons:
  "private_path_in (c # cs) \<longleftrightarrow> path_start c \<and> path_match cs \<noteq> None \<or> private_path_in cs"
  unfolding private_path_in_def path_match_iff sublist_Cons_right by auto

lemma scan_paths_Nil: "scan_paths False xs = [] \<longleftrightarrow> \<not> private_path_in xs"
proof (induction "False" xs rule: scan_paths.induct)
  case 1
  show ?case by (simp add: private_path_in_def)
next
  case (2 c cs)
  show ?case
  proof (cases "path_start c \<and> path_match cs \<noteq> None")
    case True
    then show ?thesis by (auto simp: private_path_Cons split: option.split)
  next
    case False
    then have none: "(if path_start c then path_match cs else None) = None" by auto
    have "scan_paths False cs = [] \<longleftrightarrow> \<not> private_path_in cs" using 2 none by simp
    with False none show ?thesis by (simp add: private_path_Cons)
  qed
qed

lemma scan_paths_object: "scan_paths True (CHR ''{'' # cs) = scan_paths False (CHR ''{'' # cs)"
  by (simp add: path_match_def)

lemma sort_remdups_Nil: "sort (remdups xs) = [] \<longleftrightarrow> xs = []" for xs :: "string list"
  unfolding set_empty [symmetric] set_sort set_remdups ..

definition clean :: "json \<Rightarrow> bool" where
  "clean j \<longleftrightarrow> \<not> private_path_in (dumps j) \<and> \<not> secret_in (dumps j)"

lemma findings_Nil: "portability_findings (JObj d) = [] \<longleftrightarrow> clean (JObj d)"
proof -
  obtain cs where cs: "dumps (JObj d) = CHR ''{'' # cs" by (simp add: dumps_def)
  have "portability_findings (JObj d) = [] \<longleftrightarrow> scan_paths True (dumps (JObj d)) = [] \<and> scan_secrets (dumps (JObj d)) = []"
    unfolding portability_findings_def Let_def sort_remdups_Nil append_is_Nil_conv map_is_Nil_conv ..
  then show ?thesis unfolding cs clean_def scan_paths_object scan_paths_Nil scan_secrets_Nil .
qed

text \<open>The envelope of a package, before it is scanned.\<close>

definition envelope_of :: "job_package \<Rightarrow> string \<Rightarrow> handoff_envelope" where
  "envelope_of p expiry = \<lparr>he_digest = JStr (jp_digest p), he_audience = JStr (ji_audience (jp_inputs p)), he_expiry = JStr expiry,
     he_canonical_refs = JObj [(''kc2_revision'', JStr (ji_kc2_revision (jp_inputs p))),
       (''muneral_work_revision'', JStr (ji_muneral_work_revision (jp_inputs p))), (''policy_pin'', JStr (ji_policy_pin (jp_inputs p))),
       (''model_pin'', JStr (ji_model_pin (jp_inputs p))), (''tool_pin'', JStr (ji_tool_pin (jp_inputs p)))]\<rparr>"

lemma build_envelope_of: "build_envelope p expiry = (if portability_findings (JObj (envelope_dict (envelope_of p expiry))) = []
    then Inr (envelope_of p expiry) else Inl (PortabilityError (portability_findings (JObj (envelope_dict (envelope_of p expiry))))))"
  by (simp add: build_envelope_def envelope_of_def Let_def)

text \<open>C38. A package is portable, and an envelope is issued, exactly when the text contains none of the secret
  prefixes and no private absolute path after a separator: the two scans miss no occurrence and invent
  none.\<close>

theorem portable_iff:
  "(portable (build_package H i) \<longleftrightarrow> clean (JObj (canonical_dict i))) \<and>
   (build_envelope p expiry = Inr (envelope_of p expiry) \<longleftrightarrow> clean (JObj (envelope_dict (envelope_of p expiry))))"
  by (simp add: portable_def build_package_def Let_def findings_Nil build_envelope_of)

subsection \<open>What a handoff has to show\<close>

definition handoff_verdict :: "'t \<times> (exn + verify_result) \<Rightarrow> string option" where
  "handoff_verdict x = (case snd x of Inl e \<Rightarrow> None | Inr r \<Rightarrow> Some (vr_verdict r))"

text \<open>The inputs of the manifest hash to the digest that manifest and envelope both name.\<close>

definition digest_pinned :: "(string \<Rightarrow> string) \<Rightarrow> jobj \<Rightarrow> jobj \<Rightarrow> bool" where
  "digest_pinned H manifest envelope \<longleftrightarrow> (\<exists>v. map_of manifest ''inputs'' = Some v \<and>
     map_of manifest ''digest'' = Some (JStr (digest_of H v)) \<and> map_of envelope ''digest'' = Some (JStr (digest_of H v)))"

text \<open>The target answers, and bears out a claim that the effect was applied.\<close>

definition target_bears_out :: "'s git_ops \<Rightarrow> string \<Rightarrow> bool option \<Rightarrow> 's option \<Rightarrow> bool" where
  "target_bears_out G key claims target \<longleftrightarrow> (\<exists>s v. target = Some s \<and> snd (target_readback G key s) = Inr v \<and>
     \<not> (claims = Some True \<and> v = JNull))"

definition deserves_pass :: "'s git_ops \<Rightarrow> (string \<Rightarrow> string) \<Rightarrow> jobj \<Rightarrow> jobj \<Rightarrow> string \<Rightarrow> string \<Rightarrow> bool option \<Rightarrow> 's option \<Rightarrow> bool" where
  "deserves_pass G H manifest envelope audience key claims target \<longleftrightarrow>
     portability_findings (JObj manifest) = [] \<and> portability_findings (JObj envelope) = [] \<and>
     digest_pinned H manifest envelope \<and> map_of envelope ''audience'' = Some (JStr audience) \<and>
     target_bears_out G key claims target"

lemma digest_result:
  "bindr (recompute_digest_from_manifest H manifest) (\<lambda>r. bindr (digests_match r manifest envelope) (\<lambda>m. Inr (r, m))) = Inr (r, m) \<Longrightarrow>
    m = digest_pinned H manifest envelope"
  by (auto simp: recompute_digest_from_manifest_def digests_match_def digest_pinned_def item_def bindr_def
      split: option.splits if_splits)

text \<open>The keys that each step adds to the trace, the oracle reading them and nothing else.\<close>

definition head_trace :: "string list \<Rightarrow> bool \<Rightarrow> bool \<Rightarrow> jobj" where
  "head_trace fs dm am = [(''portability_findings'', JArr (map JStr fs)), (''digest_checked'', JBool True),
     (''digest_match'', JBool dm), (''authority_checked'', JBool True), (''authority_match'', JBool am)]"

lemma check_trace_simps:
  "check_trace [(''portability_findings'', JArr xs), (''verdict'', JStr ''NONPORTABLE'')] = []"
  "check_trace [(''portability_findings'', JArr []), (''digest_checked'', JBool True), (''digest_match'', JBool dm),
     (''verdict'', JStr ''DIGEST_MISMATCH'')] = []"
  "check_trace (head_trace [] True am @ [(''verdict'', JStr ''REJECTED'')]) = []"
  "check_trace (head_trace fs dm am @ [(''target_unreachable'', JBool True), (''verdict'', JStr ''NOT_MEASURED'')]) = [] \<longleftrightarrow> fs = [] \<and> am"
  "check_trace (head_trace fs dm am @ [(''target_unreachable'', JBool True), (''verdict'', JStr ''PASS'')]) \<noteq> []"
  "check_trace (head_trace fs dm am @ [(''target_has_record'', JBool h), (''verdict'', JStr ''PASS'')]) = [] \<longleftrightarrow> fs = [] \<and> dm \<and> am"
  "check_trace (head_trace fs dm am @ [(''target_has_record'', JBool h), (''trace_claims_applied'', JBool c), (''verdict'', JStr ''PASS'')]) = [] \<longleftrightarrow>
     fs = [] \<and> dm \<and> am \<and> \<not> (c \<and> \<not> h)"
  "check_trace (head_trace fs dm am @ [(''target_has_record'', JBool h), (''trace_claims_applied'', JBool c), (''verdict'', JStr ''DETECTED'')]) = [] \<longleftrightarrow>
     fs = [] \<and> am"
  by (simp_all add: check_trace_def head_trace_def get_or_def)

text \<open>The part of the check that reads the target.\<close>

lemma check_target_pass:
  assumes "snd (check_target G ms key claims (head_trace fs dm am) target) = r" "vr_verdict r = ''PASS''"
  shows "check_trace (vr_trace r) = [] \<longleftrightarrow> fs = [] \<and> dm \<and> am \<and> target_bears_out G key claims target"
proof (cases target)
  case None
  with assms have "vr_trace r = head_trace fs dm am @ [(''target_unreachable'', JBool True), (''verdict'', JStr ''PASS'')]"
    by (auto simp: check_target_def unreachable_def verdict_of_def Let_def split: if_splits)
  then show ?thesis using None by (simp add: check_trace_simps target_bears_out_def)
next
  case (Some s)
  show ?thesis
  proof (cases "snd (target_readback G key s)")
    case (Inl e)
    with assms Some have "vr_trace r = head_trace fs dm am @ [(''target_unreachable'', JBool True), (''verdict'', JStr ''PASS'')]"
      by (auto simp: check_target_def unreachable_def verdict_of_def Let_def split: if_splits prod.splits sum.splits)
    then show ?thesis using Some Inl by (simp add: check_trace_simps target_bears_out_def)
  next
    case (Inr v)
    with assms Some have r: "r = parity ms claims v (head_trace fs dm am)"
      by (auto simp: check_target_def split: prod.splits sum.splits)
    show ?thesis
    proof (cases claims)
      case None
      then show ?thesis using r Some Inr by (simp add: parity_def verdict_of_def Let_def check_trace_simps target_bears_out_def)
    next
      fix c assume c: "claims = Some c"
      have "vr_trace r = head_trace fs dm am @ [(''target_has_record'', JBool (v \<noteq> JNull)), (''trace_claims_applied'', JBool c), (''verdict'', JStr ''PASS'')]"
        using assms(2) by (simp add: r c parity_def verdict_of_def Let_def split: if_splits)
      then show ?thesis using Some Inr c by (simp add: check_trace_simps target_bears_out_def)
    qed
  qed
qed

lemma verify_cases:
  assumes "verify_handoff G H manifest envelope audience key claims ms target = (t, Inr r)"
    and fs: "fs = portability_findings (JObj manifest) @ portability_findings (JObj envelope)"
    and dm: "dm = digest_pinned H manifest envelope"
    and am: "am = (map_of envelope ''audience'' = Some (JStr audience))"
  obtains "fs \<noteq> []" "r = verdict_of ''NONPORTABLE'' (map Finding fs) [] [(''portability_findings'', JArr (map JStr fs))]"
  | why where "fs = [] \<or> M05_SKIP_PORTABILITY \<in> ms" "\<not> dm"
      "r = verdict_of ''DIGEST_MISMATCH'' why [] [(''portability_findings'', JArr (map JStr fs)), (''digest_checked'', JBool True), (''digest_match'', JBool dm)]"
  | why where "fs = [] \<or> M05_SKIP_PORTABILITY \<in> ms" "dm \<or> M02_SKIP_DIGEST_CHECK \<in> ms" "\<not> am"
      "r = verdict_of ''REJECTED'' why [] (head_trace fs dm am)"
  | "fs = [] \<or> M05_SKIP_PORTABILITY \<in> ms" "dm \<or> M02_SKIP_DIGEST_CHECK \<in> ms" "am \<or> M03_SKIP_AUTHORITY_CHECK \<in> ms"
      "snd (check_target G ms key claims (head_trace fs dm am) target) = r"
proof -
  let ?v = "verify_handoff G H manifest envelope audience key claims ms target"
  let ?d = "bindr (recompute_digest_from_manifest H manifest) (\<lambda>r. bindr (digests_match r manifest envelope) (\<lambda>m. Inr (r, m)))"
  show ?thesis
  proof (cases "fs \<noteq> [] \<and> M05_SKIP_PORTABILITY \<notin> ms")
    case True
    then show ?thesis using assms(1) that(1) by (simp add: verify_handoff_def fs)
  next
    case f: False
    then obtain rc where d: "?d = Inr (rc, dm)"
      using assms(1) digest_result [of H manifest envelope]
      by (auto simp: verify_handoff_def fs dm split: sum.splits)
    show ?thesis
    proof (cases "\<not> dm \<and> M02_SKIP_DIGEST_CHECK \<notin> ms")
      case True
      then obtain md ed where "r = verdict_of ''DIGEST_MISMATCH'' [DigestMismatch rc md ed] []
          [(''portability_findings'', JArr (map JStr fs)), (''digest_checked'', JBool True), (''digest_match'', JBool dm)]"
        using assms(1) f d by (auto simp: verify_handoff_def fs item_def bindr_def Let_def split: option.splits)
      then show ?thesis using that(2) f True by blast
    next
      case g: False
      obtain au where au: "item envelope ''audience'' = Inr au"
        using assms(1) f d g by (auto simp: verify_handoff_def fs Let_def split: sum.splits)
      then have a: "(au = JStr audience) = am" by (auto simp: am item_def split: option.splits)
      show ?thesis
      proof (cases "\<not> am \<and> M03_SKIP_AUTHORITY_CHECK \<notin> ms")
        case True
        then have "r = verdict_of ''REJECTED'' [AuthoritySubstituted au audience] [] (head_trace fs dm am)"
          using assms(1) f d g au by (simp add: verify_handoff_def fs [symmetric] Let_def a head_trace_def)
        then show ?thesis using that(3) f g True by blast
      next
        case h: False
        then have "snd (check_target G ms key claims (head_trace fs dm am) target) = r"
          using assms(1) f d g au
          by (simp add: verify_handoff_def fs [symmetric] Let_def a head_trace_def split: prod.splits if_splits)
        then show ?thesis using that(4) f g h by blast
      qed
    qed
  qed
qed

text \<open>C27. A mutilated verifier that lets a handoff pass is caught by the oracle exactly when the handoff
  did not deserve to pass: whatever set of protective checks is switched off, an accepted passing trace
  means portable documents, a digest pinned by both, the expected audience and a target that bears out
  the claim.\<close>

theorem oracle_exact_on_pass:
  assumes v: "verify_handoff G H manifest envelope audience key claims ms target = (t, Inr r)"
    and pass: "vr_verdict r = ''PASS''"
  shows "check_trace (vr_trace r) = [] \<longleftrightarrow> deserves_pass G H manifest envelope audience key claims target"
  using v refl refl refl
proof (rule verify_cases)
  assume "snd (check_target G ms key claims (head_trace (portability_findings (JObj manifest) @ portability_findings (JObj envelope))
    (digest_pinned H manifest envelope) (map_of envelope ''audience'' = Some (JStr audience))) target) = r"
  from check_target_pass [OF this pass] show ?thesis by (simp add: deserves_pass_def)
qed (use pass in \<open>simp_all add: verdict_of_def\<close>)

lemma check_target_reference:
  "check_trace (vr_trace (snd (check_target G {} key claims (head_trace [] True True) target))) = []"
  "vr_verdict (snd (check_target G {} key claims (head_trace [] True True) target)) = ''PASS'' \<longleftrightarrow> target_bears_out G key claims target"
  by (auto simp: check_target_def unreachable_def parity_def verdict_of_def Let_def check_trace_simps target_bears_out_def
      split: option.splits prod.splits sum.splits)

text \<open>The oracle has nothing to object to in the trace of the reference verifier, on any documents,
  claim and target, whatever git answers.\<close>

theorem oracle_accepts_reference:
  assumes "verify_handoff G H manifest envelope audience key claims {} target = (t, Inr r)"
  shows "check_trace (vr_trace r) = []"
  using assms refl refl refl
proof (rule verify_cases)
  fix why
  assume "portability_findings (JObj manifest) @ portability_findings (JObj envelope) = [] \<or> M05_SKIP_PORTABILITY \<in> {}"
    "r = verdict_of ''DIGEST_MISMATCH'' why [] [(''portability_findings'', JArr (map JStr (portability_findings (JObj manifest) @ portability_findings (JObj envelope)))),
      (''digest_checked'', JBool True), (''digest_match'', JBool (digest_pinned H manifest envelope))]"
  then show ?thesis by (simp add: verdict_of_def check_trace_simps)
next
  fix why
  assume "portability_findings (JObj manifest) @ portability_findings (JObj envelope) = [] \<or> M05_SKIP_PORTABILITY \<in> {}"
    "digest_pinned H manifest envelope \<or> M02_SKIP_DIGEST_CHECK \<in> {}"
    "r = verdict_of ''REJECTED'' why [] (head_trace (portability_findings (JObj manifest) @ portability_findings (JObj envelope))
      (digest_pinned H manifest envelope) (map_of envelope ''audience'' = Some (JStr audience)))"
  then show ?thesis by (simp add: verdict_of_def check_trace_simps)
next
  assume "portability_findings (JObj manifest) @ portability_findings (JObj envelope) = [] \<or> M05_SKIP_PORTABILITY \<in> {}"
    "digest_pinned H manifest envelope \<or> M02_SKIP_DIGEST_CHECK \<in> {}"
    "map_of envelope ''audience'' = Some (JStr audience) \<or> M03_SKIP_AUTHORITY_CHECK \<in> {}"
    "snd (check_target G {} key claims (head_trace (portability_findings (JObj manifest) @ portability_findings (JObj envelope))
      (digest_pinned H manifest envelope) (map_of envelope ''audience'' = Some (JStr audience))) target) = r"
  then show ?thesis using check_target_reference(1) [of G key claims target] by auto
qed (simp add: verdict_of_def check_trace_simps)

lemma reference_pass:
  "handoff_verdict (verify_handoff G H manifest envelope audience key claims {} target) = Some ''PASS'' \<longleftrightarrow>
    deserves_pass G H manifest envelope audience key claims target"
proof
  assume "handoff_verdict (verify_handoff G H manifest envelope audience key claims {} target) = Some ''PASS''"
  then obtain t r where v: "verify_handoff G H manifest envelope audience key claims {} target = (t, Inr r)" "vr_verdict r = ''PASS''"
    by (cases "verify_handoff G H manifest envelope audience key claims {} target") (auto simp: handoff_verdict_def split: sum.splits)
  from v(1) refl refl refl show "deserves_pass G H manifest envelope audience key claims target"
  proof (rule verify_cases)
    assume "portability_findings (JObj manifest) @ portability_findings (JObj envelope) = [] \<or> M05_SKIP_PORTABILITY \<in> {}"
      "digest_pinned H manifest envelope \<or> M02_SKIP_DIGEST_CHECK \<in> {}"
      "map_of envelope ''audience'' = Some (JStr audience) \<or> M03_SKIP_AUTHORITY_CHECK \<in> {}"
      "snd (check_target G {} key claims (head_trace (portability_findings (JObj manifest) @ portability_findings (JObj envelope))
        (digest_pinned H manifest envelope) (map_of envelope ''audience'' = Some (JStr audience))) target) = r"
    then show ?thesis using v(2) check_target_reference(2) [of G key claims target] by (auto simp: deserves_pass_def)
  qed (use v(2) in \<open>simp_all add: verdict_of_def\<close>)
next
  assume d: "deserves_pass G H manifest envelope audience key claims target"
  then obtain v where v: "map_of manifest ''inputs'' = Some v" "map_of manifest ''digest'' = Some (JStr (digest_of H v))"
      "map_of envelope ''digest'' = Some (JStr (digest_of H v))"
    by (auto simp: deserves_pass_def digest_pinned_def)
  have "verify_handoff G H manifest envelope audience key claims {} target =
      map_prod id Inr (check_target G {} key claims (head_trace [] True True) target)"
    using d v by (simp add: verify_handoff_def deserves_pass_def recompute_digest_from_manifest_def digests_match_def item_def
        head_trace_def Let_def split: prod.split)
  then show "handoff_verdict (verify_handoff G H manifest envelope audience key claims {} target) = Some ''PASS''"
    using d check_target_reference(2) [of G key claims target] by (simp add: handoff_verdict_def deserves_pass_def)
qed

text \<open>C28. The command accepts a handoff (exit code 0) exactly when manifest and envelope are portable, the
  inputs of the manifest hash to the digest both name, the envelope names the expected audience and
  the target answers and bears out the claim; a missing key is never accepted.\<close>

theorem verify_pass_iff:
  "(\<exists>t r. cmd_verify_handoff G H manifest envelope audience key claims target = (t, Inr (r, 0))) \<longleftrightarrow>
    deserves_pass G H manifest envelope audience key (Some claims) target"
  unfolding reference_pass [symmetric]
  by (cases "verify_handoff G H manifest envelope audience key (Some claims) {} target")
    (auto simp: cmd_verify_handoff_def handoff_verdict_def split: sum.splits)

text \<open>C39. The digest of the envelope pins the inputs: when a handoff under the envelope of a built package
  passes and the inputs on both sides are printable ASCII, the inputs of the manifest it came with are those of
  that package, key by key, unless the hash of the two texts collides.\<close>

theorem passing_manifest_pinned:
  assumes env: "build_envelope (build_package H i) expiry = Inr e"
    and pass: "handoff_verdict (verify_handoff G H manifest (envelope_dict e) audience key claims {} target) = Some ''PASS''"
    and v: "map_of manifest ''inputs'' = Some v"
    and no_collision: "H (canonical_bytes v) = H (canonical_bytes (JObj (canonical_dict i))) \<Longrightarrow>
      canonical_bytes v = canonical_bytes (JObj (canonical_dict i))"
    and ascii: "printable_json v" "printable_json (JObj (canonical_dict i))"
  shows "sorted_keys v = JObj (canonical_dict i) \<and> audience = ji_audience i"
proof
  have e: "map_of (envelope_dict e) ''digest'' = Some (JStr (digest_of H (JObj (canonical_dict i))))"
      "map_of (envelope_dict e) ''audience'' = Some (JStr (ji_audience i))"
    using env by (auto simp: build_envelope_def build_package_def Let_def envelope_dict_def split: if_splits)
  have d: "deserves_pass G H manifest (envelope_dict e) audience key claims target" using pass by (simp only: reference_pass)
  then have "digest_of H v = digest_of H (JObj (canonical_dict i))" using e v by (simp add: deserves_pass_def digest_pinned_def)
  then have "canonical_bytes v = canonical_bytes (JObj (canonical_dict i))" using no_collision by (simp add: digest_of_def)
  then have "sorted_keys v = sorted_keys (JObj (canonical_dict i))"
    using ascii by (simp only: canonical_bytes_def dumps_canonical canonical_eq_iff)
  moreover have "sorted_keys (JObj (canonical_dict i)) = JObj (canonical_dict i)" by (simp add: canonical_dict_def)
  ultimately show "sorted_keys v = JObj (canonical_dict i)" by simp
  show "audience = ji_audience i" using d e by (simp add: deserves_pass_def)
qed


subsection \<open>Concrete handoffs\<close>

text \<open>No two neighbouring characters that every pattern needs.\<close>

definition calm_pair :: "char \<Rightarrow> char \<Rightarrow> bool" where
  "calm_pair c d \<longleftrightarrow> \<not> (path_start c \<and> d = CHR ''/'') \<and> \<not> (d = CHR ''_'' \<and> (c = CHR ''n'' \<or> c = CHR ''p'')) \<and>
     \<not> (c = CHR ''x'' \<and> d = CHR ''o'')"

fun calm :: "string \<Rightarrow> bool" where
  "calm (c # d # cs) \<longleftrightarrow> calm_pair c d \<and> calm (d # cs)"
| "calm _ = True"

lemma calm_sublist: "calm t \<Longrightarrow> sublist (c # d # p) t \<Longrightarrow> calm_pair c d"
proof (induction t rule: calm.induct)
  case (1 a b cs)
  then show ?case by (auto simp: sublist_Cons_right)
qed (auto simp: sublist_Cons_right)

lemma calm_portable:
  assumes "calm (dumps (JObj d))"
  shows "portability_findings (JObj d) = []"
proof -
  note pair = calm_sublist [OF assms]
  have "\<not> private_path_in (dumps (JObj d))"
    using pair by (fastforce simp: private_path_in_def calm_pair_def)
  moreover have "\<not> secret_in (dumps (JObj d))"
  proof
    assume "secret_in (dumps (JObj d))"
    then consider "sublist ''mun_sk_'' (dumps (JObj d))" | "sublist ''ghp_'' (dumps (JObj d))" | c where "sublist (''xox'' @ [c] @ ''-'') (dumps (JObj d))"
      by (auto simp: secret_in_def SECRETS_def)
    then show False
    proof cases
      case 1
      then have "sublist ''n_sk_'' (dumps (JObj d))" by (rule sublist_order.order_trans [rotated]) (simp add: sublist_Cons_right)
      then show False using pair by (auto simp: calm_pair_def)
    next
      case 2
      then have "sublist ''p_'' (dumps (JObj d))" by (rule sublist_order.order_trans [rotated]) (simp add: sublist_Cons_right)
      then show False using pair by (auto simp: calm_pair_def)
    next
      case 3
      then show False using pair by (auto simp: calm_pair_def)
    qed
  qed
  ultimately show ?thesis by (simp add: findings_Nil clean_def)
qed

definition H0 :: "string \<Rightarrow> string" where
  "H0 t = ''d1''"

definition inputs0 :: job_inputs where
  "inputs0 = \<lparr>ji_kc2_revision = ''r'', ji_muneral_work_revision = ''w'', ji_policy_pin = ''p'', ji_model_pin = ''m'',
     ji_tool_pin = ''t'', ji_audience = ''mac'', ji_clock = ''0'', ji_random_seed = 7, ji_canonical_encoding = CANONICAL_ENCODING\<rparr>"

lemma show_seven: "show_int 7 = ''7''"
  by code_simp

lemmas text0 = dumps_def canonical_dict_def inputs0_def CANONICAL_ENCODING_def show_seven quote_ascii_printable printable_def
  quote_def esc_def calm_pair_def path_start_def path_end_def is_space_def

lemma inputs0_calm: "portability_findings (JObj (canonical_dict inputs0)) = []"
  by (rule calm_portable) (simp add: text0)

definition manifest0 :: jobj where
  "manifest0 = [(''schema'', JStr ''MigRebuildJobPackage/v1''), (''digest'', JStr ''sha256:d1''),
     (''inputs'', JObj (canonical_dict inputs0)), (''portability'', JArr [])]"

lemma manifest0: "package_dict (build_package H0 inputs0) = manifest0"
  by (simp add: package_dict_def build_package_def Let_def inputs0_calm digest_of_def H0_def manifest0_def)

lemma findings0: "portability_findings (JObj manifest0) = []"
  by (rule calm_portable) (simp add: text0 manifest0_def)

definition envelope0 :: handoff_envelope where
  "envelope0 = \<lparr>he_digest = JStr ''sha256:d1'', he_audience = JStr ''mac'', he_expiry = JStr ''1'',
     he_canonical_refs = JObj [(''kc2_revision'', JStr ''r''), (''muneral_work_revision'', JStr ''w''), (''policy_pin'', JStr ''p''),
       (''model_pin'', JStr ''m''), (''tool_pin'', JStr ''t'')]\<rparr>"

lemma envelope0_calm: "portability_findings (JObj (envelope_dict envelope0)) = []"
  by (rule calm_portable) (simp add: text0 envelope_dict_def envelope0_def)

lemma envelope0: "build_envelope (build_package H0 inputs0) ''1'' = Inr envelope0"
proof -
  have "envelope_of (build_package H0 inputs0) ''1'' = envelope0"
    by (simp add: envelope_of_def envelope0_def build_package_def Let_def digest_of_def H0_def inputs0_def)
  then show ?thesis by (simp add: build_envelope_of envelope0_calm)
qed


definition target0 :: repo where
  "target0 = repo0\<lparr>r_head := Some [canary_path ''k'' \<mapsto> ''{}'']\<rparr>"

lemma pass0: "handoff_verdict (verify_handoff git0 H0 manifest0 (envelope_dict envelope0) ''mac'' ''k'' (Some True) {} (Some target0)) = Some ''PASS''"
proof -
  have "digest_pinned H0 manifest0 (envelope_dict envelope0)"
    by (simp add: digest_pinned_def manifest0_def envelope_dict_def envelope0_def digest_of_def H0_def)
  moreover have "target_bears_out git0 ''k'' (Some True) (Some target0)"
    by (simp add: target_bears_out_def target_readback_def committed_path_def run_git_def git0_def git0_cmd_def target0_def
        head_file_def)
  ultimately show ?thesis
    unfolding reference_pass deserves_pass_def using findings0 envelope0_calm by (simp add: envelope_dict_def envelope0_def)
qed

theorem passing_manifest_pinned_witness:
  "sorted_keys (JObj (canonical_dict inputs0)) = JObj (canonical_dict inputs0) \<and> ''mac'' = ji_audience inputs0"
proof (rule passing_manifest_pinned [OF envelope0 pass0])
  show "map_of manifest0 ''inputs'' = Some (JObj (canonical_dict inputs0))"
    by (simp add: manifest0_def)
  show "printable_json (JObj (canonical_dict inputs0))" "printable_json (JObj (canonical_dict inputs0))"
    by (simp_all add: canonical_dict_def inputs0_def printable_def CANONICAL_ENCODING_def)
qed simp

lemma items0:
  "item manifest0 ''digest'' = Inr (JStr ''sha256:d1'')" "item manifest0 ''inputs'' = Inr (JObj (canonical_dict inputs0))"
  "item (envelope_dict envelope0) ''digest'' = Inr (JStr ''sha256:d1'')" "item (envelope_dict envelope0) ''audience'' = Inr (JStr ''mac'')"
  "digest_of H0 v = ''sha256:d1''"
  by (simp_all add: item_def manifest0_def envelope_dict_def envelope0_def digest_of_def H0_def)

text \<open>With M07 active a handoff to no target passes, and the oracle objects.\<close>

lemma skipped0:
  "verify_handoff git0 H0 manifest0 (envelope_dict envelope0) ''mac'' ''k'' None {M07_SKIP_MISSING_LINK_TYPING} None =
    (None, Inr (verdict_of ''PASS'' [] [] (head_trace [] True True @ [(''target_unreachable'', JBool True)])))"
  by (simp add: verify_handoff_def findings0 envelope0_calm recompute_digest_from_manifest_def digests_match_def items0 Let_def
      check_target_def unreachable_def head_trace_def)

theorem oracle_exact_on_pass_witness:
  "check_trace (head_trace [] True True @ [(''target_unreachable'', JBool True), (''verdict'', JStr ''PASS'')]) \<noteq> [] \<and>
   \<not> deserves_pass git0 H0 manifest0 (envelope_dict envelope0) ''mac'' ''k'' None None"
  using oracle_exact_on_pass [OF skipped0] check_trace_simps(5) [of "[]" True True] by (simp add: verdict_of_def)

text \<open>The rebuild looks at the envelope only: the clock, which travels in the manifest alone, may name a
  private path, and the receipt still says PASS.\<close>

lemma rebuild_passes_nonportable:
  "\<not> portable (build_package H0 (inputs0\<lparr>ji_clock := ''/root/x''\<rparr>)) \<and>
   snd (cmd_rebuild H0 (inputs0\<lparr>ji_clock := ''/root/x''\<rparr>) False ''1'') = 0"
proof -
  let ?i = "inputs0\<lparr>ji_clock := ''/root/x''\<rparr>"
  have "sublist (CHR 0x22 # ''/root/'') (dumps (JObj (canonical_dict ?i)))"
    by (simp add: text0 sublist_Cons_right)
  then have "\<not> clean (JObj (canonical_dict ?i))"
    unfolding clean_def private_path_in_def path_start_def path_end_def by blast
  moreover have "envelope_of (build_package H0 ?i) ''1'' = envelope0"
    by (simp add: envelope_of_def envelope0_def build_package_def Let_def digest_of_def H0_def inputs0_def)
  ultimately show ?thesis
    by (simp add: portable_def build_package_def Let_def findings_Nil cmd_rebuild_def build_envelope_of envelope0_calm [unfolded findings_Nil])
qed

end
