(* ===== verification/Data_Gate.thy ===== *)
theory Data_Gate
  imports Pyval
begin

section \<open>The data gate (\<^verbatim>\<open>data_gate/consume_data_gate.py\<close>): verifiers and minting rule\<close>

text \<open>
  Two verifiers read one evidence dictionary, each a list of tri-valued checks, and an artifact is
  minted from their verdicts. The evidence is a dictionary of values of any shape (\<open>Pyval\<close>): where the
  code calls \<open>get\<close> on something that is not a dictionary, takes the length of something without one,
  subscripts a missing key or compares values of different types, the model raises what Python raises.
  A check keeps its identifier, plane, verdict, reason code and the values of its detail; the constant
  prose of the details (\<open>rule\<close>, \<open>note\<close>) and the questions are left out.
\<close>

datatype verdict = PASS | BLOCK | NOT_MEASURED

fun verdict_str :: "verdict \<Rightarrow> string" where
  "verdict_str PASS = ''PASS''"
| "verdict_str BLOCK = ''BLOCK''"
| "verdict_str NOT_MEASURED = ''NOT_MEASURED''"

datatype gmutant = missing_plane_is_pass | unknown_is_pass | ignore_stale_epoch | ignore_hidden_mount
  | data_pass_is_permission | ignore_revocation | ignore_expiry | allow_signer_is_issuer | restore_not_measured_is_pass
  | ignore_plane_disagreement | ignore_mapping_revision | single_ref_attestation | writer_epoch_touched
  | dossier_revision_unpinned_ok | noop

type_synonym pydict = "(string \<times> pyval) list"

subsection \<open>Rule tables\<close>

definition CLASS_MAP_REV :: int where
  "CLASS_MAP_REV = 1"

definition AUTHORITY_PROFILE_REV :: int where
  "AUTHORITY_PROFILE_REV = 1"

definition STATUS_CLASSES :: "string list" where
  "STATUS_CLASSES = [''active'', ''planned'', ''completed'', ''cancelled'']"

definition CLASS_ROWS :: "string list" where
  "CLASS_ROWS = STATUS_CLASSES @ [''archived'']"

definition PLANES :: "string list" where
  "PLANES = [''files'', ''muneral'', ''index'']"

subsection \<open>Dictionary access\<close>

definition getd :: "pydict \<Rightarrow> string \<Rightarrow> pyval \<Rightarrow> pyval" where
  "getd d k dflt = (case map_of d k of None \<Rightarrow> dflt | Some v \<Rightarrow> v)"

text \<open>The dictionary whose \<open>get\<close> is called.\<close>

fun as_dict :: "pyval \<Rightarrow> pydict result" where
  "as_dict (PDict d) = Inr d"
| "as_dict _ = Inl AttributeError"

text \<open>\<open>d.get(k, {})\<close> and \<open>(d.get(k, {}) or {})\<close>, each followed by a \<open>get\<close>.\<close>

definition sub :: "pydict \<Rightarrow> string \<Rightarrow> pydict result" where
  "sub d k = as_dict (getd d k (PDict []))"

definition sub_or :: "pydict \<Rightarrow> string \<Rightarrow> pydict result" where
  "sub_or d k = (let v = getd d k (PDict []) in if py_true v then as_dict v else Inr [])"

text \<open>Subscription, and iteration over a value.\<close>

definition itemv :: "pydict \<Rightarrow> string \<Rightarrow> pyval result" where
  "itemv d k = (case map_of d k of None \<Rightarrow> Inl KeyError | Some v \<Rightarrow> Inr v)"

fun iter_of :: "pyval \<Rightarrow> pyval list result" where
  "iter_of (PList xs) = Inr xs"
| "iter_of (PStr s) = Inr (map (\<lambda>c. PStr [c]) s)"
| "iter_of (PDict d) = Inr (map (PStr \<circ> fst) d)"
| "iter_of _ = Inl TypeError"

definition dicts_of :: "pyval \<Rightarrow> pydict list result" where
  "dicts_of v = bindr (iter_of (or_empty v)) (mapr as_dict)"

abbreviation strs :: "string list \<Rightarrow> pyval" where
  "strs ss \<equiv> PList (map PStr ss)"

definition copy_keys :: "string list \<Rightarrow> pydict \<Rightarrow> pydict" where
  "copy_keys ks d = map (\<lambda>k. (k, py_get d k)) ks"

subsection \<open>Checks\<close>

record check =
  ck_id :: string
  ck_verifier :: string
  ck_plane :: "string option"
  ck_verdict :: verdict
  ck_reason :: "string option"
  ck_detail :: "pydict option"

definition Check :: "string \<Rightarrow> string \<Rightarrow> verdict \<Rightarrow> string option \<Rightarrow> pydict option \<Rightarrow> string option \<Rightarrow> check" where
  "Check i vf v reason det plane =
    \<lparr>ck_id = i, ck_verifier = vf, ck_plane = plane, ck_verdict = v, ck_reason = reason, ck_detail = det\<rparr>"

text \<open>\<^verbatim>\<open>v = PASS if mutant in mutants else BLOCK\<close>, the reason code only when it blocks.\<close>

definition blocks :: "string \<Rightarrow> string \<Rightarrow> bool \<Rightarrow> string \<Rightarrow> pydict option \<Rightarrow> string option \<Rightarrow> check" where
  "blocks i vf waived code det plane =
    (if waived then Check i vf PASS None det plane else Check i vf BLOCK (Some code) det plane)"

definition check_dict :: "check \<Rightarrow> pydict" where
  "check_dict c =
    [(''id'', PStr (ck_id c)), (''verifier'', PStr (ck_verifier c)), (''verdict'', PStr (verdict_str (ck_verdict c)))] @
    (case ck_plane c of None \<Rightarrow> [] | Some p \<Rightarrow> if p = [] then [] else [(''plane'', PStr p)]) @
    (case ck_reason c of None \<Rightarrow> [] | Some r \<Rightarrow> if r = [] then [] else [(''reason_code'', PStr r)]) @
    (case ck_detail c of None \<Rightarrow> [] | Some d \<Rightarrow> [(''detail'', PDict d)])"

record report =
  rp_verifier :: string
  rp_verdict :: verdict
  rp_checks :: "check list"
  rp_total :: nat
  rp_passed :: nat
  rp_blocked :: nat
  rp_not_measured_count :: nat
  rp_reason_codes :: "string list"
  rp_not_measured :: "string list"
  rp_mutants :: "gmutant set"

definition count_verdict :: "verdict \<Rightarrow> check list \<Rightarrow> nat" where
  "count_verdict v cs = length (filter (\<lambda>c. ck_verdict c = v) cs)"

definition block_reasons :: "check list \<Rightarrow> string list" where
  "block_reasons cs = concat (map (\<lambda>c. case ck_reason c of
     Some r \<Rightarrow> if ck_verdict c = BLOCK \<and> r \<noteq> [] then [r] else [] | None \<Rightarrow> []) cs)"

definition unmeasured_names :: "check list \<Rightarrow> string list" where
  "unmeasured_names cs = concat (map (\<lambda>c. if ck_verdict c = NOT_MEASURED
     then [case ck_reason c of Some r \<Rightarrow> if r = [] then ck_id c else r | None \<Rightarrow> ck_id c] else []) cs)"

definition finish :: "check list \<Rightarrow> string \<Rightarrow> gmutant set \<Rightarrow> report" where
  "finish cs verifier mutants =
    \<lparr>rp_verifier = verifier,
     rp_verdict = (if (\<forall>c\<in>set cs. ck_verdict c = PASS) \<and> cs \<noteq> [] then PASS else BLOCK),
     rp_checks = cs, rp_total = length cs, rp_passed = count_verdict PASS cs, rp_blocked = count_verdict BLOCK cs,
     rp_not_measured_count = count_verdict NOT_MEASURED cs,
     rp_reason_codes = sort (remdups (block_reasons cs)), rp_not_measured = sort (remdups (unmeasured_names cs)),
     rp_mutants = mutants\<rparr>"

subsection \<open>The data verifier\<close>

definition D01 :: "gmutant set \<Rightarrow> pydict \<Rightarrow> check" where
  "D01 ms d =
    (if \<not> py_true (py_get d ''present'') then Check ''D01'' ''data'' BLOCK (Some ''DOSSIER_MISSING'') None None
     else if \<not> (py_true (py_get d ''revision_pinned'') \<and> py_get d ''revision_resolvable'' \<noteq> PBool False)
     then blocks ''D01'' ''data'' (dossier_revision_unpinned_ok \<in> ms) ''DOSSIER_REVISION_UNPINNED''
       (Some [(''program_commit'', py_get d ''program_commit''), (''resolvable'', py_get d ''revision_resolvable'')]) None
     else Check ''D01'' ''data'' PASS None (Some (copy_keys [''program_commit'', ''path'', ''digest''] d)) None)"

definition D02 :: "pydict \<Rightarrow> check list result" where
  "D02 d =
    (if \<not> py_true (py_get d ''present'') then Inr []
     else bindr (py_len (getd d ''unresolved_external_gaps'' (PList []))) (\<lambda>gaps.
       Inr [blocks ''D02'' ''data'' (py_get d ''verdict'' = PStr ''PASS'' \<and> py_get d ''global_complete'' = PBool True) ''DOSSIER_NOT_CLEAN''
         (Some [(''verdict'', py_get d ''verdict''), (''global_complete'', py_get d ''global_complete''),
           (''unresolved_external_gaps'', PInt (int gaps)), (''flag_counts'', py_get d ''flag_counts'')]) None]))"

definition D03 :: "pydict \<Rightarrow> check" where
  "D03 e =
    (if \<not> py_true (py_get e ''pinned'')
     then Check ''D03'' ''data'' BLOCK (Some ''UNPINNED_SOURCE_SET_EPOCH'') (Some (copy_keys [''declared''] e)) None
     else Check ''D03'' ''data'' PASS None (Some [(''epoch'', py_get e ''declared'')]) None)"

definition D04 :: "pydict \<Rightarrow> pydict \<Rightarrow> check list" where
  "D04 d e =
    (if py_true (py_get e ''pinned'') \<and> py_true (py_get d ''present'')
     then [blocks ''D04'' ''data'' (py_true (py_get e ''matches_dossier'')) ''EPOCH_DOSSIER_MISMATCH''
       (Some [(''epoch_sha'', py_get e ''sha''), (''dossier_source_commit'', py_get d ''coverage_source_commit'')]) None]
     else [])"

definition D05 :: "gmutant set \<Rightarrow> pydict \<Rightarrow> check" where
  "D05 ms e = (let observed = py_get e ''observed_main_head'' in
     if \<not> py_true observed then Check ''D05'' ''data'' NOT_MEASURED (Some ''SOURCE_SET_HEAD_NOT_OBSERVED'') None None
     else if \<not> py_eq observed (py_get e ''sha'')
     then blocks ''D05'' ''data'' (ignore_stale_epoch \<in> ms) ''STALE_SOURCE_SET_EPOCH''
       (Some [(''epoch_sha'', py_get e ''sha''), (''observed_main_head'', observed), (''observed_from'', py_get e ''observed_from'')]) None
     else Check ''D05'' ''data'' PASS None None None)"

text \<open>One plane: is it readable, and does the class map cover its values?\<close>

definition D06 :: "gmutant set \<Rightarrow> string \<Rightarrow> pydict \<Rightarrow> check" where
  "D06 ms plane p = (let state = getd p ''state'' (PStr ''MISSING''); i = ''D06.'' @ plane in
     if state = PStr ''MISSING''
     then blocks i ''data'' (missing_plane_is_pass \<in> ms) ''MISSING_PLANE'' (Some (copy_keys [''source'', ''verdict''] p)) (Some plane)
     else if state = PStr ''UNKNOWN''
     then blocks i ''data'' (unknown_is_pass \<in> ms) ''PLANE_UNKNOWN'' (Some (copy_keys [''source''] p)) (Some plane)
     else Check i ''data'' PASS None (Some (copy_keys [''total'', ''rows''] p)) (Some plane))"

definition D07 :: "string \<Rightarrow> pydict \<Rightarrow> check list" where
  "D07 plane p =
    (if py_true (py_get p ''unmapped_values'')
     then [Check (''D07.'' @ plane) ''data'' BLOCK (Some ''UNMAPPED_STATUS_VALUE'')
       (Some [(''values'', py_get p ''unmapped_values''), (''class_map_rev'', PInt CLASS_MAP_REV)]) (Some plane)]
     else [])"

definition plane_checks :: "gmutant set \<Rightarrow> pydict \<Rightarrow> check list result" where
  "plane_checks ms planes = bindr (mapr (\<lambda>plane. bindr (sub_or planes plane) (\<lambda>p. Inr (D06 ms plane p # D07 plane p))) PLANES)
     (\<lambda>css. Inr (concat css))"

definition measured_planes :: "pydict \<Rightarrow> string list result" where
  "measured_planes planes = filterr (\<lambda>pl. bindr (sub_or planes pl) (\<lambda>p. Inr (py_get p ''state'' = PStr ''MEASURED''))) PLANES"

text \<open>The number of distinct values of a set comprehension; a list or a dictionary is not hashable.\<close>

fun hashable :: "pyval \<Rightarrow> bool" where
  "hashable (PList _) = False"
| "hashable (PDict _) = False"
| "hashable _ = True"

definition distinct_count :: "pyval list \<Rightarrow> nat result" where
  "distinct_count vs = (if list_all hashable vs then Inr (length (remdups (map norm vs))) else Inl TypeError)"

definition class_values :: "pydict \<Rightarrow> string list \<Rightarrow> string \<Rightarrow> pydict result" where
  "class_values planes measured cls = mapr (\<lambda>pl. bindr (sub_or planes pl) (\<lambda>p. bindr (sub_or p ''rows'') (\<lambda>rows.
     Inr (pl, py_get rows cls)))) measured"

definition disagreement :: "pydict \<Rightarrow> string list \<Rightarrow> string \<Rightarrow> pyval list result" where
  "disagreement planes measured cls = bindr (class_values planes measured cls) (\<lambda>vals.
     bindr (distinct_count (filter (\<lambda>v. v \<noteq> PNone) (map snd vals))) (\<lambda>n.
       Inr (if 1 < n then [PDict [(''class'', PStr cls), (''by_plane'', PDict vals)]] else [])))"

definition D08 :: "gmutant set \<Rightarrow> pydict \<Rightarrow> check result" where
  "D08 ms planes = bindr (measured_planes planes) (\<lambda>measured.
     bindr (mapr (disagreement planes measured) CLASS_ROWS) (\<lambda>found. let disagreements = concat found in
       Inr (if length measured < length PLANES
            then Check ''D08'' ''data'' NOT_MEASURED (Some ''PLANE_COMPARISON_INCOMPLETE'')
              (Some [(''planes_measured'', strs measured), (''planes_required'', strs PLANES)]) None
            else if disagreements \<noteq> []
            then blocks ''D08'' ''data'' (ignore_plane_disagreement \<in> ms) ''PLANE_DISAGREEMENT''
              (Some [(''disagreements'', PList disagreements)]) None
            else Check ''D08'' ''data'' PASS None None None)))"

definition D09 :: "gmutant set \<Rightarrow> pydict \<Rightarrow> check result" where
  "D09 ms planes = bindr (sub_or planes ''index'') (\<lambda>idx. bindr (sub_or planes ''muneral'') (\<lambda>mun.
     Inr (if py_get idx ''state'' \<noteq> PStr ''MEASURED''
          then blocks ''D09'' ''data'' (missing_plane_is_pass \<in> ms) ''UNINDEXED_NOT_MEASURED''
            (Some [(''index_verdict'', py_get idx ''verdict''), (''identities_in_store'', py_get mun ''readback_identities''),
              (''planned_files'', py_get idx ''planned_files'')]) (Some ''index'')
          else Check ''D09'' ''data'' PASS None
            (Some [(''indexed'', py_get idx ''total''), (''identities_in_store'', py_get mun ''readback_identities'')]) None)))"

definition D10 :: "pydict \<Rightarrow> check result" where
  "D10 c = bindr (mapr (\<lambda>k. bindr (sub_or c k) (\<lambda>p. Inr (k, p))) PLANES) (\<lambda>ps.
     let by_plane = (\<lambda>key. PDict (map (\<lambda>(k, p). (k, py_get p key)) ps)) in
     Inr (if py_get (map (\<lambda>(k, p). (k, py_get p ''count'')) ps) ''index'' = PNone
          then Check ''D10'' ''data'' NOT_MEASURED (Some ''CONFLICTS_PLANE_MISSING'')
            (Some [(''by_plane'', by_plane ''count''), (''denominators'', by_plane ''denominator'')]) None
          else Check ''D10'' ''data'' PASS None (Some [(''by_plane'', by_plane ''count'')]) None))"

definition D11 :: "gmutant set \<Rightarrow> pydict \<Rightarrow> check" where
  "D11 ms mp =
    (if py_get mp ''batch_revision'' = PNone \<or> py_get mp ''record_revision'' = PNone
     then Check ''D11'' ''data'' NOT_MEASURED (Some ''MAPPING_REVISION_NOT_MEASURED'') (Some mp) None
     else if \<not> py_eq (py_get mp ''batch_revision'') (py_get mp ''record_revision'')
     then blocks ''D11'' ''data'' (ignore_mapping_revision \<in> ms) ''MAPPING_REVISION_BEHIND_RECORD''
       (Some (copy_keys [''batch_revision'', ''record_revision''] mp)) None
     else Check ''D11'' ''data'' PASS None None None)"

definition D12 :: "pydict \<Rightarrow> check" where
  "D12 mp = (if py_true (py_get mp ''unmapped_raw_statuses'')
     then Check ''D12'' ''data'' BLOCK (Some ''UNMAPPED_STATUS_VALUE'') (Some [(''values'', py_get mp ''unmapped_raw_statuses'')]) None
     else Check ''D12'' ''data'' PASS None None None)"

definition D13 :: "pydict \<Rightarrow> check" where
  "D13 bc = (if py_get bc ''state'' \<noteq> PStr ''MEASURED''
     then Check ''D13'' ''data'' BLOCK (Some ''BYTE_COPY_UNPROVEN'') (Some (copy_keys [''source''] bc)) None
     else Check ''D13'' ''data'' PASS None (Some (copy_keys [''files'', ''source''] bc)) None)"

definition D14 :: "gmutant set \<Rightarrow> pydict \<Rightarrow> check" where
  "D14 ms r = (if py_get r ''state'' \<noteq> PStr ''MEASURED''
     then blocks ''D14'' ''data'' (restore_not_measured_is_pass \<in> ms) ''RESTORE_NOT_MEASURED''
       (Some (copy_keys [''probe_verdicts'', ''probes'', ''dossier_task_verdict'', ''drill_receipts''] r)) None
     else Check ''D14'' ''data'' PASS None (Some (copy_keys [''drill_receipts''] r)) None)"

definition D15 :: "gmutant set \<Rightarrow> string \<Rightarrow> pydict \<Rightarrow> check" where
  "D15 ms role h = (let i = ''D15.'' @ role in
     if \<not> py_true (py_get h ''present'')
     then Check i ''data'' BLOCK (Some ''CLEAN_READ_THROUGH_MISSING'') (Some [(''role'', PStr role)]) None
     else if py_true (py_get h ''source_mount'') \<or> py_true (py_get h ''cache'')
     then blocks i ''data'' (ignore_hidden_mount \<in> ms) ''HIDDEN_MOUNT_OR_CACHE'' (Some (copy_keys [''source_mount'', ''cache'', ''source''] h)) None
     else if \<not> py_true (py_get h ''declared'')
     then Check i ''data'' BLOCK (Some ''CLEAN_READ_THROUGH_NOT_DECLARED'') (Some (copy_keys [''source''] h)) None
     else Check i ''data'' PASS None (Some (copy_keys [''source'', ''digest''] h)) None)"

definition ROLES :: "string list" where
  "ROLES = [''execution'', ''control'']"

definition verify_data :: "gmutant set \<Rightarrow> pydict \<Rightarrow> report result" where
  "verify_data ms ev =
    bindr (sub ev ''dossier'') (\<lambda>d. bindr (D02 d) (\<lambda>c02.
    bindr (sub ev ''epoch'') (\<lambda>e.
    bindr (sub ev ''planes'') (\<lambda>planes. bindr (plane_checks ms planes) (\<lambda>c06.
    bindr (D08 ms planes) (\<lambda>c08. bindr (D09 ms planes) (\<lambda>c09.
    bindr (sub ev ''conflicts'') (\<lambda>c. bindr (D10 c) (\<lambda>c10.
    bindr (sub ev ''mapping'') (\<lambda>mp.
    bindr (sub ev ''byte_copy'') (\<lambda>bc.
    bindr (sub ev ''restore'') (\<lambda>r.
    bindr (sub ev ''clean_read_through'') (\<lambda>crt. bindr (mapr (\<lambda>role. bindr (sub_or crt role) (\<lambda>h. Inr (D15 ms role h))) ROLES) (\<lambda>c15.
      Inr (finish ([D01 ms d] @ c02 @ [D03 e] @ D04 d e @ [D05 ms e] @ c06 @ [c08, c09, c10, D11 ms mp, D12 mp, D13 bc, D14 ms r] @ c15)
        ''data'' ms)))))))))))))))"

subsection \<open>The authority verifier\<close>

text \<open>\<open>>\<close> on two values: numbers by value, texts and lists lexicographically, everything else raises.\<close>

fun as_number :: "pyval \<Rightarrow> (int \<times> nat) option" where
  "as_number (PBool b) = Some (if b then 1 else 0, 0)"
| "as_number (PInt i) = Some (i, 0)"
| "as_number (PFloat m e) = Some (m, e)"
| "as_number _ = None"

definition number_gt :: "int \<times> nat \<Rightarrow> int \<times> nat \<Rightarrow> bool" where
  "number_gt a b \<longleftrightarrow> fst b * 2 ^ snd a < fst a * 2 ^ snd b"

fun py_gt :: "pyval \<Rightarrow> pyval \<Rightarrow> bool result" and list_gt :: "pyval list \<Rightarrow> pyval list \<Rightarrow> bool result" where
  "py_gt (PStr s) (PStr t) = Inr (t < s)"
| "py_gt (PList xs) (PList ys) = list_gt xs ys"
| "py_gt a b = (case (as_number a, as_number b) of (Some m, Some n) \<Rightarrow> Inr (number_gt m n) | _ \<Rightarrow> Inl TypeError)"
| "list_gt [] ys = Inr False"
| "list_gt (x # xs) [] = Inr True"
| "list_gt (x # xs) (y # ys) = (if py_eq x y then list_gt xs ys else py_gt x y)"

definition or_str :: "pyval \<Rightarrow> pyval" where
  "or_str v = (if py_true v then v else PStr [])"

definition with_verdict :: "string \<Rightarrow> pydict list \<Rightarrow> pydict list" where
  "with_verdict v rs = filter (\<lambda>r. py_get r ''verdict'' = PStr v) rs"

definition A02 :: "pydict \<Rightarrow> check" where
  "A02 a = (if py_true (py_get a ''profile_confirmed_in_decision'')
     then Check ''A02'' ''authority'' PASS None
       (Some (copy_keys [''action'', ''resources'', ''hosts'', ''target_generation''] a @ [(''profile_rev'', PInt AUTHORITY_PROFILE_REV)])) None
     else Check ''A02'' ''authority'' NOT_MEASURED (Some ''AUTHORITY_SCOPE_NOT_CONFIRMED'')
       (Some [(''assertions_not_found'', py_get a ''profile_assertions_not_found'')]) None)"

definition A03 :: "pydict \<Rightarrow> check" where
  "A03 a = (let issuer = py_get a ''issuer_identity'' in
     if \<not> py_true issuer then Check ''A03'' ''authority'' BLOCK (Some ''AUTHORITY_ISSUER_MISSING'') None None
     else Check ''A03'' ''authority'' PASS None (Some [(''issuer'', issuer)]) None)"

definition A04 :: "gmutant set \<Rightarrow> pydict \<Rightarrow> pydict \<Rightarrow> check" where
  "A04 ms a ds = (let issuer = py_get a ''issuer_identity''; signer = py_get ds ''identity'';
       det = Some [(''signer'', signer), (''issuer'', issuer)] in
     if py_true signer \<and> py_true issuer \<and> py_eq signer issuer
     then blocks ''A04'' ''authority'' (allow_signer_is_issuer \<in> ms) ''AUTHORITY_SIGNER_IS_DATA_SIGNER'' det None
     else Check ''A04'' ''authority'' PASS None det None)"

definition later_decisions :: "pydict \<Rightarrow> pyval list \<Rightarrow> pyval list result" where
  "later_decisions a = filterr (\<lambda>x. bindr (as_dict x) (\<lambda>s.
     py_gt (or_str (py_get s ''issued_at_utc'')) (or_str (py_get a ''issued_at_utc''))))"

definition A05 :: "gmutant set \<Rightarrow> pydict \<Rightarrow> check result" where
  "A05 ms a = bindr (iter_of (or_empty (py_get a ''superseded_by''))) (\<lambda>sup. bindr (later_decisions a sup) (\<lambda>later.
     Inr (if later \<noteq> []
          then blocks ''A05'' ''authority'' (ignore_revocation \<in> ms) ''AUTHORITY_REVOKED'' (Some [(''superseded_by'', PList later)]) None
          else Check ''A05'' ''authority'' PASS None (Some [(''supersedes_scanned'', PInt (int (length sup)))]) None)))"

definition A06 :: "gmutant set \<Rightarrow> pydict \<Rightarrow> check result" where
  "A06 ms a = bindr (dicts_of (py_get a ''reverse_if_state'')) (\<lambda>rstate.
     let fired = with_verdict ''TRIGGERED'' rstate; unmeasured = with_verdict ''NOT_MEASURED'' rstate in
     if fired \<noteq> []
     then Inr (blocks ''A06'' ''authority'' (ignore_expiry \<in> ms) ''AUTHORITY_EXPIRED'' (Some [(''triggered'', PList (map PDict fired))]) None)
     else if unmeasured \<noteq> []
     then bindr (mapr (\<lambda>r. itemv r ''condition'') unmeasured) (\<lambda>nm.
          bindr (mapr (\<lambda>r. itemv r ''condition'') (with_verdict ''NOT_YET_APPLICABLE'' rstate)) (\<lambda>nya.
            let det = Some [(''not_measured'', PList nm), (''not_yet_applicable'', PList nya)] in
            Inr (if unknown_is_pass \<in> ms then Check ''A06'' ''authority'' PASS None det None
                 else Check ''A06'' ''authority'' NOT_MEASURED (Some ''AUTHORITY_EXPIRY_NOT_MEASURED'') det None)))
     else Inr (Check ''A06'' ''authority'' PASS None None None))"

text \<open>\<open>states[0] if states else None\<close>, and \<open>states.index(x)\<close>: a position, or no such position.\<close>

fun first_of :: "pyval \<Rightarrow> pyval result" where
  "first_of (PList xs) = (case xs of [] \<Rightarrow> Inr PNone | x # _ \<Rightarrow> Inr x)"
| "first_of (PStr s) = (case s of [] \<Rightarrow> Inr PNone | c # _ \<Rightarrow> Inr (PStr [c]))"
| "first_of (PDict d) = (if d = [] then Inr PNone else Inl KeyError)"
| "first_of v = (if py_true v then Inl TypeError else Inr PNone)"

fun list_index :: "pyval \<Rightarrow> pyval list \<Rightarrow> nat option" where
  "list_index v [] = None"
| "list_index v (x # xs) = (if py_eq x v then Some 0 else map_option Suc (list_index v xs))"

fun str_index :: "string \<Rightarrow> string \<Rightarrow> nat option" where
  "str_index s [] = (if s = [] then Some 0 else None)"
| "str_index s (c # cs) = (if take (length s) (c # cs) = s then Some 0 else map_option Suc (str_index s cs))"

fun index_in :: "pyval \<Rightarrow> pyval \<Rightarrow> nat option result" where
  "index_in (PList xs) v = Inr (list_index v xs)"
| "index_in (PStr t) (PStr s) = Inr (str_index s t)"
| "index_in (PStr t) v = Inl TypeError"
| "index_in _ v = Inl AttributeError"

definition state_reached :: "pyval \<Rightarrow> pyval \<Rightarrow> pyval \<Rightarrow> bool result" where
  "state_reached states state minimum = bindr (index_in states state) (\<lambda>i. case i of
     None \<Rightarrow> Inr False
   | Some i \<Rightarrow> bindr (index_in states minimum) (\<lambda>j. Inr (case j of None \<Rightarrow> False | Some j \<Rightarrow> j \<le> i)))"

definition A07 :: "pydict \<Rightarrow> check result" where
  "A07 a = bindr (sub_or a ''state_machine'') (\<lambda>sm.
     let states = or_empty (py_get a ''states''); minimum = py_get a ''readiness_state_min'' in
     if \<not> py_true (py_get sm ''present'') \<or> \<not> py_true (py_get sm ''state'')
     then bindr (first_of states) (\<lambda>implied.
       Inr (Check ''A07'' ''authority'' BLOCK (Some ''AUTHORITY_STATE_UNINITIALISED'')
         (Some [(''expected_file'', py_get sm ''path''), (''readiness_state_min'', minimum), (''implied_state'', implied)]) None))
     else bindr (state_reached states (py_get sm ''state'') minimum) (\<lambda>ok.
       Inr (blocks ''A07'' ''authority'' ok ''AUTHORITY_NOT_IN_EFFECT''
         (Some [(''state'', py_get sm ''state''), (''readiness_state_min'', minimum)]) None)))"

definition A08 :: "gmutant set \<Rightarrow> pydict \<Rightarrow> check result" where
  "A08 ms a = bindr (dicts_of (py_get a ''evidence_gate_state'')) (\<lambda>gate.
     let unsat = with_verdict ''UNSATISFIED'' gate; notm = with_verdict ''NOT_MEASURED'' gate in
     if unsat \<noteq> []
     then bindr (mapr (\<lambda>g. itemv g ''item'') unsat) (\<lambda>us. bindr (mapr (\<lambda>g. itemv g ''item'') notm) (\<lambda>nm.
       Inr (Check ''A08'' ''authority'' BLOCK (Some ''AUTHORITY_EVIDENCE_GATE_INCOMPLETE'')
         (Some [(''satisfied'', PInt (int (length gate) - int (length unsat) - int (length notm))), (''total'', PInt (int (length gate))),
           (''unsatisfied'', PList us), (''not_measured'', PList nm)]) None)))
     else if notm \<noteq> []
     then bindr (mapr (\<lambda>g. itemv g ''item'') notm) (\<lambda>nm. let det = Some [(''not_measured'', PList nm)] in
       Inr (if unknown_is_pass \<in> ms then Check ''A08'' ''authority'' PASS None det None
            else Check ''A08'' ''authority'' NOT_MEASURED (Some ''AUTHORITY_EVIDENCE_GATE_NOT_MEASURED'') det None))
     else Inr (Check ''A08'' ''authority'' PASS None (Some [(''items'', PInt (int (length gate)))]) None))"

definition verify_authority :: "gmutant set \<Rightarrow> pydict \<Rightarrow> report result" where
  "verify_authority ms ev = bindr (sub_or ev ''authority'') (\<lambda>a.
     if \<not> py_true (py_get a ''present'')
     then Inr (finish [Check ''A01'' ''authority'' BLOCK (Some ''AUTHORITY_DECISION_MISSING'') (Some (copy_keys [''decision_id''] a)) None]
       ''authority'' ms)
     else bindr (sub_or ev ''data_signer'') (\<lambda>ds.
          bindr (A05 ms a) (\<lambda>a05. bindr (A06 ms a) (\<lambda>a06. bindr (A07 a) (\<lambda>a07. bindr (A08 ms a) (\<lambda>a08.
            Inr (finish [Check ''A01'' ''authority'' PASS None (Some (copy_keys [''decision_id'', ''digest'', ''issued_at_utc''] a)) None,
                A02 a, A03 a, A04 ms a ds, a05, a06, a07, a08] ''authority'' ms)))))))"

subsection \<open>The minting rule\<close>

definition negatives :: "report \<Rightarrow> report \<Rightarrow> pyval" where
  "negatives dat aut = PList (map (\<lambda>c. PDict [(''check'', PStr (ck_id c)), (''verifier'', PStr (ck_verifier c)),
       (''verdict'', PStr (verdict_str (ck_verdict c))), (''reason_code'', py_get (check_dict c) ''reason_code''),
       (''detail'', py_get (check_dict c) ''detail'')])
     (filter (\<lambda>c. ck_verdict c \<noteq> PASS) (rp_checks dat @ rp_checks aut)))"

definition TOOL :: string where
  "TOOL = ''tools/mig/data_gate/consume_data_gate.py''"

definition TOOL_VERSION :: string where
  "TOOL_VERSION = ''1.3.0''"

definition data_ref :: "pydict \<Rightarrow> pydict \<Rightarrow> pydict" where
  "data_ref d ds = [(''kind'', PStr ''data''), (''receipt'', py_get d ''path''), (''digest'', py_get d ''digest''),
     (''signer'', py_get ds ''identity'')]"

definition gate_digests :: "pydict \<Rightarrow> pyval list result" where
  "gate_digests a = bindr (iter_of (or_empty (py_get a ''evidence_gate_state''))) (\<lambda>gs.
     bindr (filterr (\<lambda>x. bindr (as_dict x) (\<lambda>g. Inr (py_true (py_get g ''receipts'')))) gs)
       (mapr (\<lambda>x. bindr (as_dict x) (\<lambda>g. bindr (itemv g ''item'') (\<lambda>i.
          Inr (PDict [(''item'', i), (''receipts'', getd g ''receipts'' (PList [])), (''digests'', getd g ''digests'' (PList []))]))))))"

definition authority_ref :: "pydict \<Rightarrow> pydict result" where
  "authority_ref a = bindr (gate_digests a) (\<lambda>gs.
     Inr [(''kind'', PStr ''authority''), (''decision_id'', py_get a ''decision_id''), (''decision_digest'', py_get a ''digest''),
       (''issuer'', py_get a ''issuer_identity''), (''gate_receipt_digests'', PList gs)])"

definition common_fields :: "pydict \<Rightarrow> pydict \<Rightarrow> string \<Rightarrow> pydict" where
  "common_fields ev ep ts =
    [(''captured_at_utc'', PStr ts), (''tool'', PStr TOOL), (''tool_version'', PStr TOOL_VERSION),
     (''portion_id'', PStr ''AUP-MIG-015:gate0''), (''host'', py_get ev ''host''), (''read_only'', PBool True),
     (''source_set_epoch'', py_get ep ''declared''), (''source_set_epoch_observed_head'', py_get ep ''observed_main_head''),
     (''writer_epoch'', PDict [(''changed'', PBool False), (''rule'', PStr ''MIG-015 mints no authority and never changes the writer epoch'')]),
     (''class_map_rev'', PInt CLASS_MAP_REV), (''authority_profile_rev'', PInt AUTHORITY_PROFILE_REV), (''model'', py_get ev ''model''),
     (''model_source'', PStr ''declared by the invoking life via --model; not measurable from inside the tool''),
     (''provisional_until_fable_review'', PBool True)]"

definition attestation :: "gmutant set \<Rightarrow> pydict \<Rightarrow> pydict \<Rightarrow> pydict \<Rightarrow> report \<Rightarrow> report \<Rightarrow> pydict" where
  "attestation ms com dref aref dat aut =
    (let refs = (if single_ref_attestation \<in> ms then [PDict dref] else [PDict dref, PDict aref]);
         com = (if writer_epoch_touched \<in> ms
           then AList.update ''writer_epoch'' (PDict [(''changed'', PBool True), (''rule'', PStr ''mutant'')]) com else com)
     in com @ [(''schema'', PStr ''CutoverReadinessAttestation/v1''), (''verdict'', PStr ''PASS''), (''refs'', PList refs),
       (''negative_verdicts'', negatives dat aut),
       (''rule'', PStr (''issued only when the data verifier and the authority verifier both PASS; '' @
          ''two refs (data receipt + authority decision and its gate receipts); the data '' @
          ''signer is not the authority issuer; the writer epoch is unchanged''))])"

definition block_receipt :: "pydict \<Rightarrow> pydict \<Rightarrow> pydict \<Rightarrow> report \<Rightarrow> report \<Rightarrow> pydict" where
  "block_receipt com dref aref dat aut =
     com @ [(''schema'', PStr ''BlockReceipt/v1''), (''verdict'', PStr ''BLOCK''),
       (''blocked_by'', strs (sort (remdups (rp_reason_codes dat @ rp_reason_codes aut)))),
       (''not_measured'', strs (sort (remdups (rp_not_measured dat @ rp_not_measured aut)))),
       (''refs_withheld'', PDict
         [(''data'', if rp_verdict dat = PASS then PDict dref else PStr ''withheld: data verifier did not PASS''),
          (''authority'', if rp_verdict aut = PASS then PDict aref else PStr ''withheld: authority verifier did not PASS'')]),
       (''negative_verdicts'', negatives dat aut),
       (''rule'', PStr (''no attestation is minted unless BOTH verifiers PASS; a data PASS is never '' @
          ''permission and never upgrades to an approval''))]"

definition both_pass :: "gmutant set \<Rightarrow> report \<Rightarrow> report \<Rightarrow> bool" where
  "both_pass ms dat aut \<longleftrightarrow>
    (if data_pass_is_permission \<in> ms then rp_verdict dat = PASS else rp_verdict dat = PASS \<and> rp_verdict aut = PASS)"

definition mint :: "gmutant set \<Rightarrow> pydict \<Rightarrow> report \<Rightarrow> report \<Rightarrow> string \<Rightarrow> pydict result" where
  "mint ms ev dat aut ts =
    bindr (sub_or ev ''dossier'') (\<lambda>d. bindr (sub_or ev ''data_signer'') (\<lambda>ds.
    bindr (sub_or ev ''authority'') (\<lambda>a. bindr (authority_ref a) (\<lambda>aref. bindr (sub_or ev ''epoch'') (\<lambda>ep.
      let dref = data_ref d ds; com = common_fields ev ep ts
      in Inr (if both_pass ms dat aut then attestation ms com dref aref dat aut else block_receipt com dref aref dat aut))))))"

record gate_result =
  gr_data :: report
  gr_authority :: report
  gr_artifact :: pydict
  gr_outcome :: pyval

definition run_gate :: "gmutant set \<Rightarrow> pydict \<Rightarrow> string \<Rightarrow> gate_result result" where
  "run_gate ms ev ts =
    bindr (verify_data ms ev) (\<lambda>dat. bindr (verify_authority ms ev) (\<lambda>aut. bindr (mint ms ev dat aut ts) (\<lambda>art.
    bindr (itemv art ''verdict'') (\<lambda>v.
      Inr \<lparr>gr_data = dat, gr_authority = aut, gr_artifact = art, gr_outcome = v\<rparr>))))"

end
