(* ===== verification/Data_Files.thy ===== *)
theory Data_Files
  imports Data_Gate Ascii_Json
begin

section \<open>What the evidence collection reads\<close>

text \<open>
  The file tree below the program root, as the list of its files: \<open>ff_doc\<close> is what \<open>json.load\<close> makes of a
  file, \<open>ff_hex\<close> its SHA-256. Paths are relative to the root, so \<open>rel\<close> is the identity. \<open>glob\<close> matches the
  components of a path: \<^verbatim>\<open>*\<close> inside a component, \<^verbatim>\<open>**\<close> any number of directories, no name with a leading
  dot unless the pattern has it. Git is a parameter: arguments to return code and standard output.
\<close>

record json_file =
  ff_doc :: "pyval result"
  ff_hex :: string

record gate_env =
  ge_files :: "(string \<times> json_file) list"
  ge_git :: "string list \<Rightarrow> int \<times> string"
  ge_now :: string
  ge_host :: string
  ge_py :: pyenv

subsection \<open>Globbing\<close>

fun split_path :: "string \<Rightarrow> string list" where
  "split_path [] = [[]]"
| "split_path (c # cs) = (if c = CHR ''/'' then [] # split_path cs
     else (case split_path cs of [] \<Rightarrow> [[c]] | p # ps \<Rightarrow> (c # p) # ps))"

fun star_match :: "string \<Rightarrow> string \<Rightarrow> bool" where
  "star_match [] name = (name = [])"
| "star_match (p # ps) [] = (p = CHR ''*'' \<and> star_match ps [])"
| "star_match (p # ps) (c # cs) = (if p = CHR ''*'' then star_match ps (c # cs) \<or> star_match (p # ps) cs
     else p = c \<and> star_match ps cs)"

definition hidden :: "string \<Rightarrow> bool" where
  "hidden name \<longleftrightarrow> name \<noteq> [] \<and> hd name = CHR ''.''"

definition name_match :: "string \<Rightarrow> string \<Rightarrow> bool" where
  "name_match p name \<longleftrightarrow> star_match p name \<and> (hidden name \<longrightarrow> hidden p)"

fun path_match :: "string list \<Rightarrow> string list \<Rightarrow> bool" where
  "path_match [] names = (names = [])"
| "path_match (p # ps) [] = (p = ''**'' \<and> path_match ps [])"
| "path_match (p # ps) (n # ns) = (if p = ''**'' then path_match ps (n # ns) \<or> (\<not> hidden n \<and> path_match (p # ps) ns)
     else name_match p n \<and> path_match ps ns)"

definition glob :: "gate_env \<Rightarrow> string \<Rightarrow> string list" where
  "glob E pattern = filter (\<lambda>p. path_match (split_path pattern) (split_path p)) (map fst (ge_files E))"

definition newest :: "string list \<Rightarrow> string option" where
  "newest paths = (if paths = [] then None else Some (last (sort paths)))"

definition exists_file :: "gate_env \<Rightarrow> string \<Rightarrow> bool" where
  "exists_file E p \<longleftrightarrow> map_of (ge_files E) p \<noteq> None"

text \<open>Only files that a glob or an existence test found are read.\<close>

definition read_json :: "gate_env \<Rightarrow> string \<Rightarrow> pyval result" where
  "read_json E p = (case map_of (ge_files E) p of None \<Rightarrow> Inl KeyError | Some f \<Rightarrow> ff_doc f)"

definition sha256_file :: "gate_env \<Rightarrow> string \<Rightarrow> string" where
  "sha256_file E p = ''sha256:'' @ (case map_of (ge_files E) p of None \<Rightarrow> [] | Some f \<Rightarrow> ff_hex f)"

text \<open>\<open>read_json(p) if p else {}\<close>, and a path or \<open>None\<close>.\<close>

definition read_newest :: "gate_env \<Rightarrow> string option \<Rightarrow> pyval result" where
  "read_newest E p = (case p of None \<Rightarrow> Inr (PDict []) | Some q \<Rightarrow> read_json E q)"

definition opt_str :: "string option \<Rightarrow> pyval" where
  "opt_str p = (case p of None \<Rightarrow> PNone | Some q \<Rightarrow> PStr q)"

subsection \<open>The text of a document\<close>

fun dump_text :: "pyenv \<Rightarrow> (string \<Rightarrow> string) \<Rightarrow> pyval \<Rightarrow> string" where
  "dump_text P q PNone = ''null''"
| "dump_text P q (PBool b) = (if b then ''true'' else ''false'')"
| "dump_text P q (PInt i) = show_int i"
| "dump_text P q (PFloat m e) = py_repr P (PFloat m e)"
| "dump_text P q (PStr s) = q s"
| "dump_text P q (PList xs) = ''['' @ join '', '' (map (dump_text P q) xs) @ '']''"
| "dump_text P q (PDict kvs) = ''{'' @ join '', '' (map (\<lambda>kv. q (fst kv) @ '': '' @ dump_text P q (snd kv)) kvs) @ ''}''"

text \<open>\<open>re.findall(r"DEC-AUP-\d{4}", text)\<close>\<close>

function decision_refs :: "string \<Rightarrow> string list" where
  "decision_refs [] = []"
| "decision_refs (c # cs) =
    (let m = take 12 (c # cs)
     in if length m = 12 \<and> take 8 m = ''DEC-AUP-'' \<and> list_all is_digit (drop 8 m)
        then m # decision_refs (drop 11 cs) else decision_refs cs)"
  by pat_completeness auto
termination
  by (relation "measure length") auto

definition lower_hex :: "char \<Rightarrow> bool" where
  "lower_hex c \<longleftrightarrow> is_digit c \<or> c \<in> set ''abcdef''"

text \<open>\<open>re.fullmatch(r"[0-9a-f]{40}", s)\<close>\<close>

definition is_sha :: "string \<Rightarrow> bool" where
  "is_sha s \<longleftrightarrow> length s = 40 \<and> list_all lower_hex s"

definition repo_char :: "char \<Rightarrow> bool" where
  "repo_char c \<longleftrightarrow> isalnum c \<or> c \<in> set ''_.-''"

text \<open>\<open>re.fullmatch(r"git:([\w.-]+/?[\w.-]*)@([0-9a-f]{40})", s)\<close>, its two groups.\<close>

definition epoch_match :: "string \<Rightarrow> (string \<times> string) option" where
  "epoch_match s =
    (let n = length s; repo = drop 4 (take (n - 41) s); sha = drop (n - 40) s;
         rest = dropWhile repo_char repo
     in if 45 < n \<and> take 4 s = ''git:'' \<and> s ! (n - 41) = CHR ''@'' \<and> is_sha sha \<and> repo_char (hd repo) \<and>
           (rest = [] \<or> hd rest = CHR ''/'' \<and> list_all repo_char (tl rest))
        then Some (repo, sha) else None)"

subsection \<open>Numbers and order\<close>

text \<open>Counts are integers; \<open>sum\<close> of anything else raises (a float count is outside the model).\<close>

fun as_int :: "pyval \<Rightarrow> int result" where
  "as_int (PInt i) = Inr i"
| "as_int (PBool b) = Inr (if b then 1 else 0)"
| "as_int _ = Inl TypeError"

definition sum_values :: "pydict \<Rightarrow> int result" where
  "sum_values d = bindr (mapr (as_int \<circ> snd) d) (\<lambda>ns. Inr (sum_list ns))"

definition or_none :: "int \<Rightarrow> pyval" where
  "or_none n = (if n = 0 then PNone else PInt n)"

definition py_or :: "pyval \<Rightarrow> pyval \<Rightarrow> pyval" where
  "py_or a b = (if py_true a then a else b)"

text \<open>\<open>sorted\<close> of values, by insertion; incomparable values raise.\<close>

fun insert_value :: "pyval \<Rightarrow> pyval list \<Rightarrow> pyval list result" where
  "insert_value v [] = Inr [v]"
| "insert_value v (x # xs) = bindr (py_gt v x) (\<lambda>gt. if gt then bindr (insert_value v xs) (\<lambda>ys. Inr (x # ys)) else Inr (v # x # xs))"

fun sort_values :: "pyval list \<Rightarrow> pyval list result" where
  "sort_values [] = Inr []"
| "sort_values (x # xs) = bindr (sort_values xs) (insert_value x)"

fun dedup :: "pyval list \<Rightarrow> pyval list" where
  "dedup [] = []"
| "dedup (x # xs) = (if list_ex (py_eq x) xs then dedup xs else x # dedup xs)"

end
