(* ===== verification/Data_Collect.thy ===== *)
theory Data_Collect
  imports Data_Files
begin

section \<open>Collecting the evidence\<close>

text \<open>
  The status classes, the versioned status maps, the three planes, the authority with its probes, and
  the evidence dictionary assembled from the file tree. The prose of the probe details is left out.
\<close>

definition PROJECTED_TO_CLASS :: "(string \<times> string) list" where
  "PROJECTED_TO_CLASS = [(''in_progress'', ''active''), (''review'', ''active''), (''todo'', ''planned''), (''blocked'', ''planned''),
     (''done'', ''completed''), (''archived'', ''archived''), (''cancelled'', ''cancelled'')]"

definition NO_CLAIM_RAW_VALUES :: "string list" where
  "NO_CLAIM_RAW_VALUES = [''absent'']"

subsection \<open>Status classes\<close>

definition none_rows :: pydict where
  "none_rows = map (\<lambda>c. (c, PNone)) CLASS_ROWS"

fun class_of :: "pyval \<Rightarrow> string option" where
  "class_of (PStr s) = map_of PROJECTED_TO_CLASS s"
| "class_of _ = None"

fun count_projected :: "(pyval \<times> pyval) list \<Rightarrow> (string \<times> int) list \<Rightarrow> pyval list \<Rightarrow> ((string \<times> int) list \<times> pyval list) result" where
  "count_projected [] rows unmapped = Inr (rows, unmapped)"
| "count_projected ((status, n) # xs) rows unmapped = (case class_of status of
     None \<Rightarrow> count_projected xs rows (unmapped @ [status])
   | Some c \<Rightarrow> bindr (as_int n) (\<lambda>i. count_projected xs (map (\<lambda>(c', m). (c', if c' = c then m + i else m)) rows) unmapped))"

definition classify_projected :: "(pyval \<times> pyval) list \<Rightarrow> (pydict \<times> pyval list) result" where
  "classify_projected distribution = bindr (count_projected distribution (map (\<lambda>c. (c, 0)) CLASS_ROWS) []) (\<lambda>(rows, unmapped).
     Inr (if distribution = [] then none_rows else map (map_prod id PInt) rows, unmapped))"

text \<open>\<open>entry["muneral"]\<close>, used as a key.\<close>

definition projected_key :: "pyval \<Rightarrow> pyval result" where
  "projected_key entry = (case entry of
     PDict e \<Rightarrow> bindr (itemv e ''muneral'') (\<lambda>v. if hashable v then Inr v else Inl TypeError)
   | _ \<Rightarrow> Inl TypeError)"

fun add_projected :: "pyval \<Rightarrow> int \<Rightarrow> (pyval \<times> int) list \<Rightarrow> (pyval \<times> int) list" where
  "add_projected k n [] = [(k, n)]"
| "add_projected k n ((k', m) # xs) = (if py_eq k' k then (k', m + n) # xs else (k', m) # add_projected k n xs)"

fun project_raw :: "pyval \<Rightarrow> pydict \<Rightarrow> (pyval \<times> int) list \<Rightarrow> pyval list \<Rightarrow> ((pyval \<times> int) list \<times> pyval list) result" where
  "project_raw status_map [] projected unmapped = Inr (projected, unmapped)"
| "project_raw status_map ((raw, n) # xs) projected unmapped = bindr (as_dict status_map) (\<lambda>m.
     if \<not> py_true (py_get m raw) then project_raw status_map xs projected (unmapped @ [PStr raw])
     else bindr (projected_key (py_get m raw)) (\<lambda>k. bindr (as_int n) (\<lambda>i.
          project_raw status_map xs (add_projected k i projected) unmapped)))"

definition or_dict :: "pyval \<Rightarrow> pyval" where
  "or_dict v = (if py_true v then v else PDict [])"

definition classify_raw :: "pyval \<Rightarrow> pyval \<Rightarrow> (pydict \<times> pyval list) result" where
  "classify_raw distribution status_map = bindr (as_dict (or_dict distribution)) (\<lambda>d.
     if \<not> py_true status_map then Inr (none_rows, map (PStr \<circ> fst) d)
     else bindr (project_raw status_map d [] []) (\<lambda>(projected, unmapped).
          bindr (classify_projected (map (map_prod id PInt) projected)) (\<lambda>(rows, unmapped_status).
            Inr (rows, unmapped @ unmapped_status))))"

subsection \<open>The status maps\<close>

record status_map_file =
  sm_path :: string
  sm_map :: pyval
  sm_digest :: string

fun as_revision :: "pyval \<Rightarrow> int option" where
  "as_revision (PInt i) = Some i"
| "as_revision (PBool b) = Some (if b then 1 else 0)"
| "as_revision _ = None"

fun load_maps :: "gate_env \<Rightarrow> string list \<Rightarrow> (int \<times> status_map_file) list \<Rightarrow> (int \<times> status_map_file) list result" where
  "load_maps E [] maps = Inr maps"
| "load_maps E (p # ps) maps = (case read_json E p of
     Inl _ \<Rightarrow> load_maps E ps maps
   | Inr doc \<Rightarrow> bindr (as_dict doc) (\<lambda>d. case as_revision (py_get d ''revision'') of
         None \<Rightarrow> load_maps E ps maps
       | Some r \<Rightarrow> load_maps E ps (AList.update r \<lparr>sm_path = p, sm_map = getd d ''map'' (PDict []), sm_digest = sha256_file E p\<rparr> maps)))"

definition load_status_maps :: "gate_env \<Rightarrow> (int \<times> status_map_file) list result" where
  "load_status_maps E = load_maps E (sort (glob E ''contracts/status-mapping/status-map-v1*.json'')) []"

text \<open>\<open>status_maps.get(rev)\<close>\<close>

definition find_map :: "(int \<times> status_map_file) list \<Rightarrow> pyval \<Rightarrow> status_map_file option result" where
  "find_map maps r = (if hashable r
     then Inr (map_option snd (find (\<lambda>(k, _). py_eq (PInt k) r) maps)) else Inl TypeError)"

definition map_field :: "status_map_file option \<Rightarrow> pyval" where
  "map_field f = (case f of None \<Rightarrow> PNone | Some f \<Rightarrow> sm_map f)"

definition record_revision :: "(int \<times> status_map_file) list \<Rightarrow> pyval" where
  "record_revision maps = (if maps = [] then PNone else PInt (Max (set (map fst maps))))"

subsection \<open>The dossier and the epoch\<close>

fun as_text :: "pyval \<Rightarrow> string result" where
  "as_text (PStr s) = Inr s"
| "as_text _ = Inl TypeError"

definition collect_dossier :: "gate_env \<Rightarrow> string option \<Rightarrow> pydict result" where
  "collect_dossier E dossier_path =
    (case (case dossier_path of Some (c # cs) \<Rightarrow> Some (c # cs) | _ \<Rightarrow> newest (glob E ''receipts/acceptance/acceptance0-*.json'')) of
       None \<Rightarrow> Inr [(''present'', PBool False)]
     | Some p \<Rightarrow> if \<not> exists_file E p then Inr [(''present'', PBool False)]
       else bindr (read_json E p) (\<lambda>doc. bindr (as_dict doc) (\<lambda>acc. let pin = py_get acc ''program_commit'' in
            bindr (as_text (or_str pin)) (\<lambda>s.
            bindr (sub acc ''coverage'') (\<lambda>cov. bindr (sub cov ''permitted_corpus'') (\<lambda>corpus.
              Inr [(''present'', PBool True), (''path'', PStr p), (''digest'', PStr (sha256_file E p)),
                (''captured_at_utc'', py_get acc ''captured_at_utc''), (''program_commit'', pin),
                (''revision_pinned'', PBool (py_true pin \<and> is_sha s)),
                (''revision_resolvable'', PBool (fst (ge_git E [''cat-file'', ''-e'', s @ ''^{commit}'']) = 0)),
                (''environment_host'', py_get acc ''host''), (''verdict'', py_get acc ''verdict''),
                (''global_complete'', py_get acc ''global_complete''), (''task_verdicts'', getd acc ''task_verdicts'' (PDict [])),
                (''coverage_source_commit'', py_get corpus ''source_commit''),
                (''unresolved_external_gaps'', getd cov ''unresolved_external_gaps'' (PList [])),
                (''flag_counts'', getd acc ''flag_counts'' (PDict []))]))))))"

definition collect_epoch :: "pydict \<Rightarrow> string option \<Rightarrow> pydict \<Rightarrow> pyval \<Rightarrow> pyval \<Rightarrow> pydict result" where
  "collect_epoch imp imp_path dossier observed observed_from =
    bindr (as_text (or_str (py_get imp ''epoch''))) (\<lambda>decl. let m = epoch_match decl in
      Inr [(''declared'', py_get imp ''epoch''), (''repo'', opt_str (map_option fst m)), (''sha'', opt_str (map_option snd m)),
        (''pinned'', PBool (m \<noteq> None)), (''source'', opt_str imp_path),
        (''matches_dossier'', PBool (case m of None \<Rightarrow> False | Some (_, sha) \<Rightarrow> py_get dossier ''coverage_source_commit'' = PStr sha)),
        (''observed_main_head'', observed), (''observed_from'', observed_from)])"

subsection \<open>The index plane\<close>

definition plane_state :: "pyval \<Rightarrow> pyval \<Rightarrow> pyval \<Rightarrow> bool \<Rightarrow> string" where
  "plane_state indexed plan_state not_indexed any =
    (if py_true indexed then ''MEASURED''
     else if plan_state = PStr ''PLANNED_NOT_INGESTED'' \<or> plan_state = PStr ''HISTORY_NOT_INDEXED'' \<or> py_true not_indexed then ''MISSING''
     else if any then ''UNKNOWN'' else ''MISSING'')"

definition collect_index_plane :: "gate_env \<Rightarrow> pydict result" where
  "collect_index_plane E =
    (let probe = newest (glob E ''receipts/indexack/probe-*.json''); plan = newest (glob E ''receipts/indexack/history-plan-*.json'') in
     bindr (read_newest E probe) (\<lambda>probe_v. bindr (read_newest E plan) (\<lambda>plan_v.
     bindr (as_dict plan_v) (\<lambda>plan_doc. bindr (sub_or plan_doc ''counts'') (\<lambda>counts. bindr (sub_or counts ''acks'') (\<lambda>acks.
     let indexed = py_or (py_get acks ''ACKED'') (py_get acks ''INDEXED''); not_indexed = py_get acks ''NOT_INDEXED'';
         st = py_or (py_get plan_doc ''state'') (py_get plan_doc ''verdict'') in
     bindr (if py_true (py_get counts ''files'') then Inr (py_get counts ''files'') else bindr (sum_values acks) (\<lambda>n. Inr (or_none n))) (\<lambda>planned.
     bindr (as_dict probe_v) (\<lambda>probe_doc. bindr (dicts_of (py_get probe_doc ''acks'')) (\<lambda>as.
       Inr [(''state'', PStr (plane_state indexed st not_indexed (py_true plan_v \<or> py_true probe_v))),
         (''source'', (case (plan, probe) of (Some p, Some q) \<Rightarrow> PStr (p @ '', '' @ q) | (Some p, None) \<Rightarrow> PStr p | (None, q) \<Rightarrow> opt_str q)),
         (''denominator'', PStr (''files of the imported source set acknowledged by the KB/Scrutator '' @ ''history namespace'')),
         (''total'', indexed), (''rows'', PDict none_rows), (''verdict'', st), (''acks'', PDict acks), (''not_indexed'', not_indexed),
         (''not_done'', py_get plan_doc ''not_done''), (''planned_files'', planned),
         (''other_namespace_probe'', PDict [(''source'', opt_str probe),
            (''acked_rows'', or_none (int (length (filter (\<lambda>a. py_get a ''state'' = PStr ''ACKED'') as))))])])))))))))"

subsection \<open>The authority\<close>

definition PROFILE_ACTION :: string where
  "PROFILE_ACTION = ''Muneral becomes the writer of record for work-item state''"

definition PROFILE_RESOURCES :: "string list" where
  "PROFILE_RESOURCES = [''datarim/tasks.md'', ''datarim/backlog.md'', ''datarim/tasks/*.md'']"

definition PROFILE_HOSTS :: "string list" where
  "PROFILE_HOSTS = [''mac'', ''arcana-devs'']"

definition PROFILE_STATES :: "string list" where
  "PROFILE_STATES = [''FILES_AUTHORITATIVE'', ''SHADOW_PROJECTION'', ''FROZEN'', ''FENCE_ENFORCED'', ''PROJECTION_VERIFIED'',
     ''DELTA_IMPORTED'', ''ROLLBACK_DRILLED'', ''SWITCHING'', ''MUNERAL_AUTHORITATIVE'']"

definition MUST_APPEAR :: "string list" where
  "MUST_APPEAR = [''MUNERAL_AUTHORITATIVE'', ''ROLLBACK_DRILLED'', ''PAUSED_SAFE'', ''receipts/cutover/state.json'']"

text \<open>One probe per item of the evidence gate: pattern, schema, number of receipts, extra rule.\<close>

datatype probe_extra = NoExtra | StateChain | ParityPair | SecondBatch | RestoreDrill

definition EVIDENCE_GATE_PROBES :: "(string \<times> string \<times> string option \<times> nat \<times> probe_extra) list" where
  "EVIDENCE_GATE_PROBES =
    [(''one receipt per state, digest-chained'', ''receipts/cutover/*.json'', None, 1, StateChain),
     (''ShadowProjectionReceipt '' @ [CHR 0xC3, CHR 0x97] @ ''10 stable'', ''receipts/projection/shadow*.json'', Some ''ShadowProjectionReceipt/v1'', 10, NoExtra),
     (''ProjectionParity/v1 twice, identical'', ''receipts/projection/parity*.json'', Some ''ProjectionParity/v1'', 2, ParityPair),
     (''FenceProof (host rejection + ruleset refusal)'', ''receipts/fence/fence-proof*.json'', Some ''FenceProof/v1'', 1, NoExtra),
     (''delta batch verify PASS'', ''receipts/import/verify-*.json'', Some ''ReadinessReceipt/v1'', 2, SecondBatch),
     (''CutoverRollbackDrillReceipt/v1 '' @ [CHR 0xE2, CHR 0x89, CHR 0xA4] @ '' 15 min + DB restore drill receipt'',
        ''receipts/**/CutoverRollbackDrill*.json'', Some ''CutoverRollbackDrillReceipt/v1'', 1, RestoreDrill),
     (''WriterEpochReceipt/v1 present in program main and Muneral'', ''receipts/**/writer-epoch*.json'', Some ''WriterEpochReceipt/v1'', 1, NoExtra),
     (''key-inventory receipt'', ''receipts/**/key-inventory*.json'', None, 1, NoExtra)]"

text \<open>The receipts a pattern finds: unreadable ones are skipped, and those of another schema.\<close>

fun gate_hits :: "gate_env \<Rightarrow> string option \<Rightarrow> string list \<Rightarrow> string list result" where
  "gate_hits E schema [] = Inr []"
| "gate_hits E schema (p # ps) = (case read_json E p of
     Inl _ \<Rightarrow> gate_hits E schema ps
   | Inr doc \<Rightarrow> (case schema of
         None \<Rightarrow> bindr (gate_hits E schema ps) (\<lambda>hits. Inr (p # hits))
       | Some sc \<Rightarrow> bindr (as_dict doc) (\<lambda>d. bindr (gate_hits E schema ps) (\<lambda>hits.
           Inr (if py_get d ''schema'' = PStr sc then p # hits else hits)))))"

text \<open>A status whose text starts with DRAFT; a status that is not a text is shown by \<open>str\<close>.\<close>

definition draft :: "gate_env \<Rightarrow> string \<Rightarrow> bool" where
  "draft E p = (case read_json E p of Inr (PDict d) \<Rightarrow> prefix ''DRAFT'' (py_str (ge_py E) (getd d ''status'' (PStr []))) | _ \<Rightarrow> False)"

definition probe_gate_item :: "gate_env \<Rightarrow> pyval \<Rightarrow> pyval result" where
  "probe_gate_item E item =
    (if \<not> hashable item then Inl TypeError
     else case (case item of PStr s \<Rightarrow> map_of EVIDENCE_GATE_PROBES s | _ \<Rightarrow> None) of
       None \<Rightarrow> Inr (PDict [(''item'', item), (''verdict'', PStr ''NOT_MEASURED'')])
     | Some (pattern, schema, min_count, extra) \<Rightarrow>
         bindr (gate_hits E schema (sort (glob E pattern))) (\<lambda>hits.
           let enough = min_count \<le> length hits;
               undrafted = (extra = ParityPair \<longrightarrow> list_all (\<lambda>p. \<not> draft E p) hits);
               drilled = (extra = RestoreDrill \<longrightarrow> glob E ''receipts/recovery/*restore-drill*.json'' \<noteq> [])
           in Inr (PDict [(''item'', item), (''verdict'', PStr (if enough \<and> undrafted \<and> drilled then ''SATISFIED'' else ''UNSATISFIED'')),
                (''receipts'', strs (take 10 hits)), (''digests'', strs (take 10 (map (sha256_file E) hits)))])))"

definition probe_evidence_gate :: "gate_env \<Rightarrow> pyval \<Rightarrow> pyval list result" where
  "probe_evidence_gate E items = bindr (iter_of items) (mapr (probe_gate_item E))"

definition probe_condition :: "pyval \<Rightarrow> pyval \<Rightarrow> pyval result" where
  "probe_condition reached cond = (case cond of
     PStr s \<Rightarrow> (let c = lower s; post_switch = (reached = PStr ''SWITCHING'' \<or> reached = PStr ''MUNERAL_AUTHORITATIVE'') in
       Inr (PDict [(''condition'', cond), (''verdict'', PStr
         (if sublist ''epoch'' c \<and> (sublist ''unpinned'' c \<or> sublist ''reused'' c) then ''NOT_TRIGGERED''
          else if sublist ''bake'' c \<or> sublist ''after switching'' c \<or> sublist ''legacy write'' c
          then (if post_switch then ''NOT_TRIGGERED'' else ''NOT_YET_APPLICABLE'')
          else ''NOT_MEASURED''))]))
   | _ \<Rightarrow> Inl AttributeError)"

definition probe_reverse_if :: "pyval \<Rightarrow> pyval \<Rightarrow> pyval list result" where
  "probe_reverse_if reached conditions = bindr (iter_of conditions) (mapr (probe_condition reached))"

definition decision_path :: "string \<Rightarrow> string" where
  "decision_path i = ''governance/decisions/'' @ i @ ''.json''"

text \<open>The decision and the decisions it refers to, with their texts.\<close>

definition decision_closure :: "gate_env \<Rightarrow> string \<Rightarrow> pyval \<Rightarrow> (string \<times> string) list result" where
  "decision_closure E i doc =
    (let dump = dump_text (ge_py E) quote; own = dump doc;
         referenced = filter (\<lambda>r. r \<noteq> i \<and> exists_file E (decision_path r)) (sort (remdups (decision_refs own)))
     in bindr (mapr (\<lambda>r. bindr (read_json E (decision_path r)) (\<lambda>d. Inr (r, dump d))) referenced) (\<lambda>others. Inr ((i, own) # others)))"

definition PROFILE_ASSERTIONS :: "string list" where
  "PROFILE_ASSERTIONS = MUST_APPEAR @ [PROFILE_ACTION] @ PROFILE_RESOURCES @ [''MUNERAL_AUTHORITATIVE'']"

text \<open>Any other decision that names this one among those it supersedes.\<close>

definition supersedes :: "gate_env \<Rightarrow> string \<Rightarrow> pyval \<Rightarrow> pyval list result" where
  "supersedes E i other = bindr (as_dict other) (\<lambda>d.
     if py_get d ''id'' = PStr i then Inr []
     else case getd d ''supersedes_in_part'' (PList []) of
         PList xs \<Rightarrow> Inr (if sublist i (dump_text (ge_py E) quote (PList (xs @ [getd d ''supersedes'' (PStr [])])))
           then [PDict (copy_keys [''id'', ''issued_at_utc''] d)] else [])
       | _ \<Rightarrow> Inl TypeError)"

definition superseded_by :: "gate_env \<Rightarrow> string \<Rightarrow> pyval list result" where
  "superseded_by E i = bindr (mapr (\<lambda>p. bindr (read_json E p) (supersedes E i)) (sort (glob E ''governance/decisions/DEC-AUP-*.json'')))
     (\<lambda>xss. Inr (concat xss))"

definition collect_state_machine :: "gate_env \<Rightarrow> pydict result" where
  "collect_state_machine E = (let p = ''receipts/cutover/state.json'' in
     if exists_file E p
     then bindr (read_json E p) (\<lambda>v. bindr (as_dict v) (\<lambda>d.
       Inr [(''present'', PBool True), (''path'', PStr p), (''state'', py_get d ''state''), (''digest'', PStr (sha256_file E p)),
         (''updated_at_utc'', py_get d ''captured_at_utc'')]))
     else Inr [(''present'', PBool False), (''path'', PStr p), (''state'', PNone)])"

definition collect_authority :: "gate_env \<Rightarrow> pydict result" where
  "collect_authority E =
    (let i = ''DEC-AUP-0012''; dpath = decision_path i;
         out = [(''decision_id'', PStr i), (''present'', PBool (exists_file E dpath)), (''profile_rev'', PInt AUTHORITY_PROFILE_REV)] in
     if \<not> exists_file E dpath then Inr out
     else bindr (read_json E dpath) (\<lambda>v. bindr (decision_closure E i v) (\<lambda>closure. bindr (as_dict v) (\<lambda>doc.
          let txt = join [CHR 0x0A] (map snd closure); missing = filter (\<lambda>s. \<not> sublist s txt) PROFILE_ASSERTIONS in
          bindr (superseded_by E i) (\<lambda>sup. bindr (collect_state_machine E) (\<lambda>sm.
          bindr (probe_evidence_gate E (getd doc ''evidence_gate'' (PList []))) (\<lambda>gate.
          bindr (probe_reverse_if (py_get sm ''state'') (getd doc ''reverse_if'' (PList []))) (\<lambda>conds.
            Inr (out @ [(''path'', PStr dpath), (''digest'', PStr (sha256_file E dpath)), (''issued_at_utc'', py_get doc ''issued_at_utc''),
              (''issuer_identity'', py_get doc ''decided_by''), (''authority_statement'', py_get doc ''authority''),
              (''reversible'', py_get doc ''reversible''), (''title'', py_get doc ''title''), (''action'', PStr PROFILE_ACTION),
              (''resources'', strs PROFILE_RESOURCES), (''hosts'', strs PROFILE_HOSTS), (''target_generation'', PStr ''MUNERAL_AUTHORITATIVE''),
              (''readiness_state_min'', PStr ''ROLLBACK_DRILLED''), (''states'', strs PROFILE_STATES),
              (''reverse_if'', getd doc ''reverse_if'' (PList [])), (''evidence_gate'', getd doc ''evidence_gate'' (PList [])),
              (''profile_confirmed_in_decision'', PBool (missing = [])), (''profile_assertions_not_found'', strs missing),
              (''profile_confirmed_by'', PDict (map (\<lambda>s. (s, strs (sort (map fst (filter (\<lambda>(_, t). sublist s t) closure))))) (remdups PROFILE_ASSERTIONS))),
              (''decision_closure'', strs (sort (map fst closure))), (''superseded_by'', PList sup), (''state_machine'', PDict sm),
              (''evidence_gate_state'', PList gate), (''reverse_if_state'', PList conds)])))))))))"

subsection \<open>The evidence\<close>

definition DEFAULT_MODEL :: string where
  "DEFAULT_MODEL = ''claude-opus-5''"

definition delta_of :: "pydict \<Rightarrow> pydict \<Rightarrow> string \<Rightarrow> int result" where
  "delta_of a b c = (let zero = (\<lambda>v. if v = PNone then PInt 0 else v) in
     bindr (as_int (zero (py_get a c))) (\<lambda>m. bindr (as_int (zero (py_get b c))) (\<lambda>n. Inr (m - n))))"

definition conflict_count :: "pyval \<Rightarrow> pyval" where
  "conflict_count doc = (case doc of
     PDict d \<Rightarrow> (let n = py_or (py_get d ''count'') (py_get d ''conflicts_count'') in
       if n = PNone then (case py_get d ''conflicts'' of PList xs \<Rightarrow> PInt (int (length xs)) | _ \<Rightarrow> PNone) else n)
   | _ \<Rightarrow> PNone)"

fun recovery_probes :: "gate_env \<Rightarrow> string list \<Rightarrow> pydict list result" where
  "recovery_probes E [] = Inr []"
| "recovery_probes E (p # ps) = (case read_json E p of
     Inl _ \<Rightarrow> recovery_probes E ps
   | Inr v \<Rightarrow> bindr (as_dict v) (\<lambda>d. bindr (recovery_probes E ps) (\<lambda>ds.
       Inr ([(''source'', PStr p), (''verdict'', py_get d ''verdict''), (''host'', py_or (py_get d ''host'') (py_get d ''producer''))] # ds))))"

definition probe_verdicts :: "pydict list \<Rightarrow> pyval list result" where
  "probe_verdicts ps = (let vs = filter py_true (map (\<lambda>p. py_get p ''verdict'') ps) in
     if list_all hashable vs then sort_values (dedup vs) else Inl TypeError)"

definition collect_restore :: "gate_env \<Rightarrow> pydict \<Rightarrow> pydict result" where
  "collect_restore E dossier =
    bindr (recovery_probes E (sort (glob E ''receipts/recovery/*.json''))) (\<lambda>probes. bindr (probe_verdicts probes) (\<lambda>vs.
    bindr (sub dossier ''task_verdicts'') (\<lambda>tv.
      let drills = sort (glob E ''receipts/recovery/*restore-drill*.json'' @ glob E ''receipts/**/CutoverRollbackDrill*.json'') in
      Inr [(''probes'', PList (map PDict probes)), (''source'', if probes = [] then PNone else py_get (hd probes) ''source''),
        (''probe_verdicts'', PList vs), (''drill_receipts'', strs drills),
        (''state'', PStr (if drills \<noteq> [] then ''MEASURED'' else if probes \<noteq> [] then ''NOT_MEASURED'' else ''MISSING'')),
        (''dossier_task_verdict'', py_get tv ''AUP-DAT-017'')])))"

definition clean_pattern :: "string \<Rightarrow> string" where
  "clean_pattern role = ''receipts/acceptance/'' @ (if role = ''execution'' then ''clean-path-devs-*.json'' else ''clean-path-mac-*.json'')"

definition collect_clean :: "gate_env \<Rightarrow> string \<Rightarrow> pydict result" where
  "collect_clean E role = (case newest (glob E (clean_pattern role)) of
     None \<Rightarrow> Inr [(''present'', PBool False), (''declared'', PNone), (''source_mount'', PNone), (''cache'', PNone), (''source'', PNone)]
   | Some p \<Rightarrow> bindr (read_json E p) (\<lambda>v. bindr (as_dict v) (\<lambda>doc. let steps_v = or_empty (getd doc ''steps'' (PList [])) in
       bindr (dicts_of steps_v) (\<lambda>steps. bindr (sub_or doc ''environment'') (\<lambda>env. bindr (py_len steps_v) (\<lambda>n.
       let no_mount = (py_get env ''AUP_NO_SOURCE_MOUNT'' = PStr ''1'');
           mounted = list_ex (\<lambda>s. py_true (py_get s ''source_mount_in_env'') \<or> py_true (py_get s ''datarim_path_in_cwd'')) steps in
       Inr [(''present'', PBool True), (''source'', PStr p), (''digest'', PStr (sha256_file E p)), (''host'', py_get doc ''host''),
         (''declared'', PBool (no_mount \<and> py_get env ''cwd_outside_datarim_root'' = PBool True)),
         (''source_mount'', PBool (mounted \<or> \<not> no_mount)),
         (''cache'', if sublist ''cache'' (dump_text (ge_py E) quote_ascii (PDict env)) then PBool True else PNone),
         (''steps'', PInt (int n))]))))))"

definition files_plane :: "gate_env \<Rightarrow> pyval \<Rightarrow> pyval \<Rightarrow> pyval \<Rightarrow> pyval \<Rightarrow> pyval \<Rightarrow> pydict \<times> pyval list \<Rightarrow> pydict \<Rightarrow> pydict result" where
  "files_plane E source raw_dist map_of_record record_rev map_path rows batch_rows =
    bindr (as_dict (or_dict raw_dist)) (\<lambda>raw. bindr (sum_values raw) (\<lambda>n.
      Inr [(''state'', PStr (if py_true raw_dist \<and> py_true map_of_record then ''MEASURED'' else if py_true raw_dist then ''UNKNOWN'' else ''MISSING'')),
        (''source'', source), (''denominator'', PStr ''occurrences read from git objects at the pinned epoch''), (''total'', or_none n),
        (''rows'', PDict (fst rows)), (''unmapped_values'', PList (snd rows)), (''status_map_revision_used'', record_rev),
        (''status_map_path'', map_path), (''rows_under_batch_revision'', PDict batch_rows),
        (''no_claim_occurrences'', PDict (filter (\<lambda>(k, _). k \<in> set NO_CLAIM_RAW_VALUES) raw))]))"

definition muneral_plane :: "gate_env \<Rightarrow> pyval \<Rightarrow> pydict \<Rightarrow> pyval \<Rightarrow> pydict \<times> pyval list \<Rightarrow> pyval \<Rightarrow> pydict \<Rightarrow> pydict result" where
  "muneral_plane E source imp dist rows batch_rev readback =
    bindr (as_dict (or_dict dist)) (\<lambda>d. bindr (sum_values d) (\<lambda>n.
      Inr [(''state'', PStr (if py_true dist then ''MEASURED'' else ''MISSING'')), (''source'', source),
        (''denominator'', PStr (''occurrence projections committed in batch '' @ py_str (ge_py E) (py_get imp ''batch_id'') @ '' and read back'')),
        (''total'', or_none n), (''rows'', PDict (fst rows)), (''unmapped_values'', PList (snd rows)), (''status_map_revision_used'', batch_rev),
        (''readback_identities'', py_get readback ''identities_checked''), (''readback_clean'', py_get readback ''identities_clean''),
        (''readback_mismatched'', py_get readback ''identities_mismatched'')]))"

text \<open>The three planes, the byte copy and the mapping, all from the import receipt and the status maps.\<close>

definition collect_planes :: "gate_env \<Rightarrow> string option \<Rightarrow> pydict \<Rightarrow> (pydict \<times> pydict) result" where
  "collect_planes E imp_path imp =
    bindr (sub_or imp ''plan'') (\<lambda>plan. bindr (sub_or imp ''readback'') (\<lambda>readback.
    bindr (load_status_maps E) (\<lambda>maps. bindr (sub_or imp ''status_map'') (\<lambda>sm.
    let batch_rev = py_get sm ''revision''; record_rev = record_revision maps;
        raw_dist = getd plan ''raw_status_distribution'' (PDict []); dist = getd plan ''projected_status_distribution'' (PDict []) in
    bindr (find_map maps record_rev) (\<lambda>of_record. bindr (find_map maps batch_rev) (\<lambda>of_batch.
    bindr (classify_raw raw_dist (map_field of_record)) (\<lambda>files_rows.
    bindr (classify_raw raw_dist (map_field of_batch)) (\<lambda>batch_rows.
    bindr (bindr (as_dict (or_dict dist)) (\<lambda>d. classify_projected (map (map_prod PStr id) d))) (\<lambda>mun_rows.
    bindr (files_plane E (opt_str imp_path) raw_dist (map_field of_record) record_rev (opt_str (map_option sm_path of_record)) files_rows (fst batch_rows)) (\<lambda>fp.
    bindr (muneral_plane E (opt_str imp_path) imp dist mun_rows batch_rev readback) (\<lambda>mp.
    bindr (collect_index_plane E) (\<lambda>ip.
    bindr (mapr (\<lambda>c. bindr (delta_of (fst files_rows) (fst batch_rows) c) (\<lambda>n. Inr (c, PInt n))) CLASS_ROWS) (\<lambda>deltas.
      Inr ([(''files'', PDict fp), (''muneral'', PDict mp), (''index'', PDict ip)],
           [(''batch_revision'', batch_rev), (''record_revision'', record_rev), (''available_revisions'', PList (map PInt (sort (map fst maps)))),
            (''rows_delta_between_revisions'', PDict deltas), (''unmapped_raw_statuses'', py_get plan ''unmapped_raw_statuses''),
            (''projection_rule_decision'', PStr ''DEC-AUP-0014'')]))))))))))))))"

definition collect_conflicts :: "gate_env \<Rightarrow> string option \<Rightarrow> pydict \<Rightarrow> pydict result" where
  "collect_conflicts E imp_path imp =
    (let hist = newest (glob E ''receipts/history/conflicts-*.json''); proj = newest (glob E ''receipts/projection/projection0-*.json'') in
     bindr (read_newest E hist) (\<lambda>hist_doc. bindr (read_newest E proj) (\<lambda>proj_v.
     bindr (sub_or imp ''conflicts_held_I4'') (\<lambda>held. bindr (as_dict proj_v) (\<lambda>proj_doc.
       Inr [(''files'', PDict [(''count'', conflict_count hist_doc), (''source'', opt_str hist),
              (''denominator'', PStr ''status conflicts across all census roots (AUP-DAT-007)'')]),
         (''muneral'', PDict [(''count'', py_get held ''count''), (''source'', opt_str imp_path),
              (''denominator'', PStr ''within-root conflicts HELD under the batch SourceSetEpoch'')]),
         (''index'', PDict [(''count'', PNone), (''source'', PNone), (''denominator'', PNone)]),
         (''projection'', PDict [(''source'', opt_str proj), (''rule_rev'', py_get proj_doc ''projection_rule_rev''), (''verdict'', py_get proj_doc ''verdict'')])])))))"

definition collect_byte_copy :: "gate_env \<Rightarrow> pydict result" where
  "collect_byte_copy E = (let snap = newest (glob E ''receipts/snapshot/SNAPSHOT-*.json'') in
     bindr (read_newest E snap) (\<lambda>v. bindr (as_dict v) (\<lambda>doc. bindr (sub_or doc ''counts'') (\<lambda>counts.
       Inr [(''source'', opt_str snap), (''state'', PStr (if doc \<noteq> [] then ''MEASURED'' else ''MISSING'')),
         (''files'', py_or (py_get counts ''files'') (py_get doc ''files'')), (''readback'', py_or (py_get doc ''readback'') (py_get doc ''READBACK''))]))))"

definition collect_evidence :: "gate_env \<Rightarrow> string option \<Rightarrow> string option \<Rightarrow> string option \<Rightarrow> pydict result" where
  "collect_evidence E ws_head dossier_path model =
    (let rc_head = ge_git E [''rev-parse'', ''HEAD''];
         imp_path = newest (glob E ''receipts/import/verify-*.json'');
         fences = sort (glob E ''receipts/fence/observation/fence-obs-*.json'');
         fence_path = (if fences = [] then None else Some (last fences));
         given = (case ws_head of Some (c # cs) \<Rightarrow> True | _ \<Rightarrow> False) in
     bindr (collect_dossier E dossier_path) (\<lambda>dossier.
     bindr (read_newest E imp_path) (\<lambda>imp_v. bindr (as_dict imp_v) (\<lambda>imp.
     bindr (read_newest E fence_path) (\<lambda>fence_v. bindr (as_dict fence_v) (\<lambda>fence.
     bindr (if given then Inr (opt_str ws_head) else bindr (sub_or fence ''workspace'') (\<lambda>w. Inr (py_get w ''head_commit''))) (\<lambda>observed.
     bindr (collect_epoch imp imp_path dossier observed (if given then PStr ''--ws-head argument'' else opt_str fence_path)) (\<lambda>epoch.
     bindr (collect_planes E imp_path imp) (\<lambda>(planes, mapping).
     bindr (collect_byte_copy E) (\<lambda>byte_copy. bindr (collect_conflicts E imp_path imp) (\<lambda>conflicts.
     bindr (collect_restore E dossier) (\<lambda>restore.
     bindr (mapr (\<lambda>role. bindr (collect_clean E role) (\<lambda>h. Inr (role, PDict h))) ROLES) (\<lambda>clean.
     bindr (collect_authority E) (\<lambda>authority.
       Inr [(''collected_at_utc'', PStr (ge_now E)), (''root'', PStr ''.''), (''host'', PStr (ge_host E)), (''class_map_rev'', PInt CLASS_MAP_REV),
         (''model'', PStr (case model of Some (c # cs) \<Rightarrow> c # cs | _ \<Rightarrow> DEFAULT_MODEL)),
         (''program'', PDict [(''commit'', if fst rc_head = 0 then PStr (snd rc_head) else PNone), (''git_ok'', PBool (fst rc_head = 0))]),
         (''dossier'', PDict dossier), (''epoch'', PDict epoch),
         (''fence'', PDict [(''hourly_receipts'', PInt (int (length fences))), (''latest'', opt_str fence_path),
            (''foreign_writes_latest'', py_get fence ''foreign_writes''), (''canary_seen_latest'', py_get fence ''canary_seen''),
            (''bake_hours_required'', PInt 72)]),
         (''planes'', PDict planes), (''byte_copy'', PDict byte_copy), (''mapping'', PDict mapping), (''conflicts'', PDict conflicts),
         (''restore'', PDict restore), (''clean_read_through'', PDict clean), (''authority'', PDict authority),
         (''data_signer'', PDict [(''identity'', PStr (''aup-mig015 executor life (gen1) running '' @ TOOL @ '' on '' @ ge_host E)),
            (''role'', PStr ''data verifier'')]),
         (''writer_epoch'', PDict [(''receipts'', strs (sort (glob E ''receipts/**/writer-epoch*.json''))), (''changed_by_this_tool'', PBool False)])]))))))))))))))"

end
