(* ===== verification/Data_Fixtures.thy ===== *)
theory Data_Fixtures
  imports Data_Collect
begin

section \<open>The fixtures and the oracle of the data gate\<close>

text \<open>
  The wholly green evidence, the fourteen fixtures derived from it, the signature the oracle compares and
  its five rules. \<open>ev["a"]["b"] = v\<close> is an update along a path of keys that exist in the green evidence.
\<close>

definition SHA_A :: string where
  "SHA_A = replicate 40 (CHR ''a'')"

definition SHA_B :: string where
  "SHA_B = replicate 40 (CHR ''b'')"

definition digest0 :: "char \<Rightarrow> pyval" where
  "digest0 c = PStr (''sha256:'' @ replicate 64 c)"

definition rows0 :: pydict where
  "rows0 = [(''active'', PInt 90), (''planned'', PInt 702), (''completed'', PInt 517), (''cancelled'', PInt 35), (''archived'', PInt 1351)]"

definition plane0 :: "string \<Rightarrow> pydict" where
  "plane0 src = [(''state'', PStr ''MEASURED''), (''source'', PStr src), (''denominator'', PStr ''fixture''), (''total'', PInt 2695),
     (''rows'', PDict rows0), (''unmapped_values'', PList [])]"

definition baseline_dossier :: pydict where
  "baseline_dossier = [(''present'', PBool True), (''path'', PStr ''receipts/acceptance/acceptance0-fixture.json''), (''digest'', digest0 (CHR ''0'')),
     (''captured_at_utc'', PStr ''2026-01-01T00:00:00Z''), (''program_commit'', PStr SHA_A), (''revision_pinned'', PBool True),
     (''revision_resolvable'', PBool True), (''environment_host'', PStr ''fixture-host''), (''verdict'', PStr ''PASS''),
     (''global_complete'', PBool True), (''task_verdicts'', PDict [(''AUP-DAT-017'', PStr ''PASS'')]), (''coverage_source_commit'', PStr SHA_B),
     (''unresolved_external_gaps'', PList []), (''flag_counts'', PDict [])]"

definition baseline_epoch :: pydict where
  "baseline_epoch = [(''declared'', PStr (''git:arcanada-workspace@'' @ SHA_B)), (''repo'', PStr ''arcanada-workspace''), (''sha'', PStr SHA_B),
     (''pinned'', PBool True), (''source'', PStr ''fixture''), (''matches_dossier'', PBool True), (''observed_main_head'', PStr SHA_B),
     (''observed_from'', PStr ''fixture'')]"

definition baseline_authority :: pydict where
  "baseline_authority = [(''decision_id'', PStr ''DEC-AUP-0012''), (''present'', PBool True), (''profile_rev'', PInt AUTHORITY_PROFILE_REV),
     (''path'', PStr ''governance/decisions/DEC-AUP-0012.json''), (''digest'', digest0 (CHR ''2'')), (''issued_at_utc'', PStr ''2026-01-01T00:00:00Z''),
     (''issuer_identity'', PStr ''aup-orchestrator (fixture incarnation)''), (''action'', PStr PROFILE_ACTION), (''resources'', strs PROFILE_RESOURCES),
     (''hosts'', strs PROFILE_HOSTS), (''target_generation'', PStr ''MUNERAL_AUTHORITATIVE''), (''readiness_state_min'', PStr ''ROLLBACK_DRILLED''),
     (''states'', strs PROFILE_STATES), (''profile_confirmed_in_decision'', PBool True), (''profile_assertions_not_found'', PList []),
     (''superseded_by'', PList []),
     (''state_machine'', PDict [(''present'', PBool True), (''path'', PStr ''receipts/cutover/state.json''), (''state'', PStr ''ROLLBACK_DRILLED''),
       (''digest'', digest0 (CHR ''3''))]),
     (''reverse_if'', strs [''fixture condition'']),
     (''reverse_if_state'', PList [PDict [(''condition'', PStr ''fixture condition''), (''verdict'', PStr ''NOT_TRIGGERED''), (''detail'', PStr ''fixture'')]]),
     (''evidence_gate'', strs [''fixture gate item'']),
     (''evidence_gate_state'', PList [PDict [(''item'', PStr ''fixture gate item''), (''verdict'', PStr ''SATISFIED''), (''detail'', PStr ''fixture''),
       (''receipts'', strs [''receipts/fixture.json'']), (''digests'', PList [digest0 (CHR ''4'')])]])]"

definition baseline_host :: "string \<Rightarrow> pydict" where
  "baseline_host role = [(''present'', PBool True), (''source'', PStr (''fixture:'' @ role)), (''digest'', digest0 (CHR ''1'')), (''host'', PStr role),
     (''declared'', PBool True), (''source_mount'', PBool False), (''cache'', PNone), (''steps'', PInt 7)]"

definition conflict0 :: "int \<Rightarrow> string \<Rightarrow> pydict" where
  "conflict0 n denominator = [(''count'', PInt n), (''source'', PStr ''fixture''), (''denominator'', PStr denominator)]"

definition baseline :: pydict where
  "baseline =
    [(''collected_at_utc'', PStr ''2026-01-01T00:00:00Z''), (''root'', PStr ''<fixture>''), (''host'', PStr ''fixture-host''),
     (''class_map_rev'', PInt CLASS_MAP_REV), (''model'', PStr ''fixture-model''),
     (''program'', PDict [(''commit'', PStr SHA_A), (''git_ok'', PBool True)]),
     (''dossier'', PDict baseline_dossier), (''epoch'', PDict baseline_epoch),
     (''fence'', PDict [(''hourly_receipts'', PInt 96), (''foreign_writes_latest'', PInt 0), (''canary_seen_latest'', PBool True), (''bake_hours_required'', PInt 72)]),
     (''planes'', PDict [(''files'', PDict (plane0 ''fixture:files'')),
       (''muneral'', PDict (plane0 ''fixture:muneral'' @ [(''readback_identities'', PInt 2486), (''readback_clean'', PInt 2486), (''readback_mismatched'', PInt 0)])),
       (''index'', PDict (plane0 ''fixture:index'' @ [(''verdict'', PStr ''INDEXED''), (''planned_files'', PInt 2585)]))]),
     (''byte_copy'', PDict [(''source'', PStr ''fixture:snapshot''), (''state'', PStr ''MEASURED''), (''files'', PInt 1819), (''readback'', PStr ''1819/1819'')]),
     (''mapping'', PDict [(''batch_revision'', PInt 3), (''record_revision'', PInt 3), (''available_revisions'', PList [PInt 1, PInt 2, PInt 3]),
       (''unmapped_raw_statuses'', PList []), (''projection_rule_decision'', PStr ''DEC-AUP-0014'')]),
     (''conflicts'', PDict [(''files'', PDict (conflict0 80 ''all roots'')), (''muneral'', PDict (conflict0 26 ''within-root at the epoch'')),
       (''index'', PDict (conflict0 26 ''indexed conflicts'')),
       (''projection'', PDict [(''source'', PStr ''fixture''), (''rule_rev'', PInt 1), (''verdict'', PStr ''PASS'')])]),
     (''restore'', PDict [(''source'', PStr ''fixture''), (''probe_verdicts'', strs [''PASS'']), (''probes'', PList []),
       (''drill_receipts'', strs [''receipts/recovery/restore-drill-fixture.json'']), (''state'', PStr ''MEASURED''), (''dossier_task_verdict'', PStr ''PASS'')]),
     (''clean_read_through'', PDict (map (\<lambda>role. (role, PDict (baseline_host role))) ROLES)),
     (''authority'', PDict baseline_authority),
     (''data_signer'', PDict [(''identity'', PStr ''fixture data verifier''), (''role'', PStr ''data verifier'')]),
     (''writer_epoch'', PDict [(''receipts'', PList []), (''changed_by_this_tool'', PBool False)])]"

subsection \<open>The fixtures\<close>

fun put :: "string list \<Rightarrow> pyval \<Rightarrow> pydict \<Rightarrow> pydict" where
  "put [] v d = d"
| "put [k] v d = AList.update k v d"
| "put (k # ks) v d = (case map_of d k of Some (PDict e) \<Rightarrow> AList.update k (PDict (put ks v e)) d | _ \<Rightarrow> d)"

definition no_rows :: pyval where
  "no_rows = PDict (map (\<lambda>c. (c, PNone)) CLASS_ROWS)"

definition no_state :: pyval where
  "no_state = PDict [(''present'', PBool False), (''path'', PStr ''receipts/cutover/state.json''), (''state'', PNone)]"

definition f_missing_plane :: "pydict \<Rightarrow> pydict" where
  "f_missing_plane ev = put [''conflicts'', ''index''] (PDict [(''count'', PNone), (''source'', PNone), (''denominator'', PNone)])
     (put [''planes'', ''index''] (PDict [(''state'', PStr ''MISSING''), (''source'', PNone), (''denominator'', PStr ''fixture''), (''total'', PNone),
       (''rows'', no_rows), (''verdict'', PStr ''PLANNED_NOT_INGESTED''), (''planned_files'', PInt 2585), (''unmapped_values'', PList [])]) ev)"

definition f_unknown_plane :: "pydict \<Rightarrow> pydict" where
  "f_unknown_plane ev = put [''planes'', ''index'', ''rows''] no_rows (put [''planes'', ''index'', ''state''] (PStr ''UNKNOWN'') ev)"

definition f_stale_epoch :: "pydict \<Rightarrow> pydict" where
  "f_stale_epoch = put [''epoch'', ''observed_main_head''] (PStr (replicate 40 (CHR ''c'')))"

definition f_hidden_mount :: "pydict \<Rightarrow> pydict" where
  "f_hidden_mount = put [''clean_read_through'', ''execution'', ''source_mount''] (PBool True)"

definition f_data_pass_misread :: "pydict \<Rightarrow> pydict" where
  "f_data_pass_misread = put [''authority'', ''state_machine''] no_state"

definition f_revoked :: "pydict \<Rightarrow> pydict" where
  "f_revoked = put [''authority'', ''superseded_by'']
     (PList [PDict [(''id'', PStr ''DEC-AUP-0099''), (''issued_at_utc'', PStr ''2026-06-01T00:00:00Z'')]])"

definition f_expired_before_fence :: "pydict \<Rightarrow> pydict" where
  "f_expired_before_fence ev = put [''fence'', ''hourly_receipts''] (PInt 3) (put [''authority'', ''reverse_if_state'']
     (PList [PDict [(''condition'', PStr ''authority expires before the fence is armed''), (''verdict'', PStr ''TRIGGERED''),
       (''detail'', PStr ''expiry 2026-01-01, fence never armed'')]]) ev)"

definition f_signer_is_issuer :: "pydict \<Rightarrow> pydict" where
  "f_signer_is_issuer = put [''data_signer'', ''identity''] (py_get baseline_authority ''issuer_identity'')"

definition f_restore_not_measured :: "pydict \<Rightarrow> pydict" where
  "f_restore_not_measured = put [''restore''] (PDict [(''source'', PStr ''fixture''), (''probe_verdicts'', strs [''PAUSED_SAFE'']), (''probes'', PList []),
     (''drill_receipts'', PList []), (''state'', PStr ''NOT_MEASURED''), (''dossier_task_verdict'', PStr ''PAUSED_SAFE'')])"

definition f_search_found_store_lost :: "pydict \<Rightarrow> pydict" where
  "f_search_found_store_lost ev = put [''planes'', ''muneral'', ''readback_mismatched''] (PInt 1)
     (put [''planes'', ''muneral'', ''rows'', ''planned''] (PInt 703) (put [''planes'', ''muneral'', ''rows'', ''completed''] (PInt 516) ev))"

definition f_mapping_behind :: "pydict \<Rightarrow> pydict" where
  "f_mapping_behind = put [''mapping'', ''batch_revision''] (PInt 2)"

definition f_dossier_unpinned :: "pydict \<Rightarrow> pydict" where
  "f_dossier_unpinned ev = put [''dossier'', ''revision_pinned''] (PBool False) (put [''dossier'', ''program_commit''] (PStr ''HEAD'') ev)"

definition f_today_shape :: "pydict \<Rightarrow> pydict" where
  "f_today_shape ev = put [''authority'', ''evidence_gate_state'']
       (PList [PDict [(''item'', PStr ''fixture gate item''), (''verdict'', PStr ''NOT_MEASURED''), (''detail'', PStr ''no probe defined'')]])
     (put [''authority'', ''state_machine''] no_state (f_mapping_behind ev))"

definition FIXTURES :: "(string \<times> pydict \<times> verdict \<times> string list) list" where
  "FIXTURES =
    [(''all_green'', baseline, PASS, []),
     (''missing_plane'', f_missing_plane baseline, BLOCK, [''MISSING_PLANE'', ''UNINDEXED_NOT_MEASURED'']),
     (''unknown_plane'', f_unknown_plane baseline, BLOCK, [''PLANE_UNKNOWN'', ''UNINDEXED_NOT_MEASURED'']),
     (''stale_source_set_epoch'', f_stale_epoch baseline, BLOCK, [''STALE_SOURCE_SET_EPOCH'']),
     (''canary_on_hidden_mount'', f_hidden_mount baseline, BLOCK, [''HIDDEN_MOUNT_OR_CACHE'']),
     (''data_pass_misread_as_approval'', f_data_pass_misread baseline, BLOCK, [''AUTHORITY_STATE_UNINITIALISED'']),
     (''authority_revoked'', f_revoked baseline, BLOCK, [''AUTHORITY_REVOKED'']),
     (''authority_expired_before_fence'', f_expired_before_fence baseline, BLOCK, [''AUTHORITY_EXPIRED'']),
     (''signer_is_issuer'', f_signer_is_issuer baseline, BLOCK, [''AUTHORITY_SIGNER_IS_DATA_SIGNER'']),
     (''restore_not_measured'', f_restore_not_measured baseline, BLOCK, [''RESTORE_NOT_MEASURED'']),
     (''search_finds_but_store_lost_transition'', f_search_found_store_lost baseline, BLOCK, [''PLANE_DISAGREEMENT'']),
     (''mapping_revision_behind'', f_mapping_behind baseline, BLOCK, [''MAPPING_REVISION_BEHIND_RECORD'']),
     (''dossier_revision_unpinned'', f_dossier_unpinned baseline, BLOCK, [''DOSSIER_REVISION_UNPINNED'']),
     (''today_shape'', f_today_shape baseline, BLOCK, [''MAPPING_REVISION_BEHIND_RECORD'', ''AUTHORITY_STATE_UNINITIALISED''])]"

subsection \<open>The oracle\<close>

record signature =
  sg_outcome :: pyval
  sg_reason_codes :: "string list"
  sg_not_measured :: "string list"
  sg_ref_kinds :: "pyval list"
  sg_writer_changed :: bool

text \<open>\<open>sorted\<close> on the kinds of the references, which are texts.\<close>

definition sort_texts :: "pyval list \<Rightarrow> pyval list" where
  "sort_texts vs = sort_key (\<lambda>v. case v of PStr s \<Rightarrow> s | _ \<Rightarrow> []) vs"

definition ref_kinds :: "pydict \<Rightarrow> pyval list result" where
  "ref_kinds art = bindr (dicts_of (py_get art ''refs'')) (\<lambda>rs. bindr (mapr (\<lambda>r. itemv r ''kind'') rs) (\<lambda>ks. Inr (sort_texts ks)))"

definition signature_of :: "gate_result \<Rightarrow> signature result" where
  "signature_of res = bindr (ref_kinds (gr_artifact res)) (\<lambda>ks. bindr (sub_or (gr_artifact res) ''writer_epoch'') (\<lambda>we.
     Inr \<lparr>sg_outcome = gr_outcome res,
          sg_reason_codes = sort (remdups (rp_reason_codes (gr_data res) @ rp_reason_codes (gr_authority res))),
          sg_not_measured = sort (remdups (rp_not_measured (gr_data res) @ rp_not_measured (gr_authority res))),
          sg_ref_kinds = ks, sg_writer_changed = py_true (py_get we ''changed'')\<rparr>))"

datatype orule = R1_outcome | R2_reason_codes | R3_not_measured | R4_two_refs_on_pass | R5_writer_unchanged

fun rule_ok :: "orule \<Rightarrow> signature \<Rightarrow> signature \<Rightarrow> bool" where
  "rule_ok R1_outcome e obs = (sg_outcome obs = sg_outcome e)"
| "rule_ok R2_reason_codes e obs = (sg_reason_codes obs = sg_reason_codes e)"
| "rule_ok R3_not_measured e obs = (sg_not_measured obs = sg_not_measured e)"
| "rule_ok R4_two_refs_on_pass e obs = (if sg_outcome obs = sg_outcome e then sg_ref_kinds obs = sg_ref_kinds e else True)"
| "rule_ok R5_writer_unchanged e obs = (\<not> sg_writer_changed obs)"

definition ORULES :: "orule list" where
  "ORULES = [R1_outcome, R2_reason_codes, R3_not_measured, R4_two_refs_on_pass, R5_writer_unchanged]"

definition fires :: "signature \<Rightarrow> signature \<Rightarrow> orule list" where
  "fires e obs = filter (\<lambda>r. \<not> rule_ok r e obs) ORULES"

definition GMUTANTS :: "gmutant list" where
  "GMUTANTS = [missing_plane_is_pass, unknown_is_pass, ignore_stale_epoch, ignore_hidden_mount, data_pass_is_permission, ignore_revocation,
     ignore_expiry, allow_signer_is_issuer, restore_not_measured_is_pass, ignore_plane_disagreement, ignore_mapping_revision,
     single_ref_attestation, writer_epoch_touched, dossier_revision_unpinned_ok]"

definition observe_gate :: "gmutant set \<Rightarrow> pydict \<Rightarrow> signature result" where
  "observe_gate ms ev = bindr (run_gate ms ev ''2026-01-01T00:00:00Z'') signature_of"

text \<open>The fixtures that kill a mutant, with the rules that fire.\<close>

definition killers :: "gmutant \<Rightarrow> (string \<times> orule list) list result" where
  "killers m = bindr (mapr (\<lambda>(name, ev, _, _). bindr (observe_gate {} ev) (\<lambda>e. bindr (observe_gate {m} ev) (\<lambda>obs.
     Inr (name, fires e obs)))) FIXTURES) (\<lambda>ks. Inr (filter (\<lambda>k. snd k \<noteq> []) ks))"

definition fixture_ok :: "string \<times> pydict \<times> verdict \<times> string list \<Rightarrow> bool result" where
  "fixture_ok f = (case f of (name, ev, expected, reasons) \<Rightarrow> bindr (observe_gate {} ev) (\<lambda>sg.
     Inr (sg_outcome sg = PStr (verdict_str expected) \<and>
       (\<forall>r\<in>set reasons. r \<in> set (sg_reason_codes sg @ sg_not_measured sg)))))"

end
