(* ===== verification/Data_Gate_Props.thy ===== *)
theory Data_Gate_Props
  imports Data_Fixtures
begin

section \<open>What the data gate guarantees\<close>

text \<open>
  \<open>data_ok\<close> and \<open>authority_ok\<close> say of the evidence itself what the two verifiers are for. Unmutated, the
  gate passes exactly on evidence with both; the attestation it then mints carries the two references
  and touches no writer epoch, and every block names its reasons.
\<close>

subsection \<open>Reading the evidence\<close>

definition part :: "pydict \<Rightarrow> string \<Rightarrow> pydict" where
  "part d k = (case py_get d k of PDict e \<Rightarrow> e | _ \<Rightarrow> [])"

lemma as_dict_Inr: "as_dict v = Inr d \<longleftrightarrow> v = PDict d"
  by (cases v) auto

lemma sub_Inr: "sub d k = Inr e \<Longrightarrow> e = part d k"
  by (auto simp: sub_def getd_def part_def py_get_def as_dict_Inr split: option.splits)

lemma sub_or_Inr: "sub_or d k = Inr e \<Longrightarrow> e = part d k"
  by (cases "py_get d k") (auto simp: sub_or_def getd_def part_def py_get_def as_dict_Inr Let_def split: option.splits if_splits)

lemma dicts_of_Inr: "dicts_of v = Inr ds \<Longrightarrow> or_empty v = PList (map PDict ds)"
proof -
  assume "dicts_of v = Inr ds"
  then obtain vs where vs: "iter_of (or_empty v) = Inr vs" "list_all2 (\<lambda>x d. x = PDict d) vs ds"
    by (auto simp: dicts_of_def bindr_Inr mapr_Inr as_dict_Inr)
  from vs(2) have m: "vs = map PDict ds" by (induction rule: list_all2_induct) simp_all
  show ?thesis
  proof (cases v)
    case (PStr s)
    with vs m show ?thesis by (cases s; cases ds) (auto simp: or_empty_def split: if_splits)
  next
    case (PDict d)
    with vs m show ?thesis by (cases d; cases ds) (auto simp: or_empty_def split: if_splits)
  qed (use vs m in \<open>auto simp: or_empty_def split: if_splits\<close>)
qed

definition dicts_at :: "pydict \<Rightarrow> string \<Rightarrow> pydict list" where
  "dicts_at d k = (case or_empty (py_get d k) of PList vs \<Rightarrow> map (\<lambda>v. case v of PDict e \<Rightarrow> e | _ \<Rightarrow> []) vs | _ \<Rightarrow> [])"

lemma dicts_at_Inr: "dicts_of (py_get d k) = Inr ds \<Longrightarrow> ds = dicts_at d k"
  by (simp add: dicts_at_def dicts_of_Inr comp_def)

subsection \<open>What each check asks\<close>

lemmas check_simps = Check_def blocks_def Let_def

lemma data_check_pass:
  "ck_verdict (D01 {} d) = PASS \<longleftrightarrow> py_true (py_get d ''present'') \<and> py_true (py_get d ''revision_pinned'') \<and>
     py_get d ''revision_resolvable'' \<noteq> PBool False"
  "ck_verdict (D03 e) = PASS \<longleftrightarrow> py_true (py_get e ''pinned'')"
  "ck_verdict (D05 {} e) = PASS \<longleftrightarrow> py_true (py_get e ''observed_main_head'') \<and> py_eq (py_get e ''observed_main_head'') (py_get e ''sha'')"
  "ck_verdict (D11 {} mp) = PASS \<longleftrightarrow> py_get mp ''batch_revision'' \<noteq> PNone \<and> py_get mp ''record_revision'' \<noteq> PNone \<and>
     py_eq (py_get mp ''batch_revision'') (py_get mp ''record_revision'')"
  "ck_verdict (D12 mp) = PASS \<longleftrightarrow> \<not> py_true (py_get mp ''unmapped_raw_statuses'')"
  "ck_verdict (D13 bc) = PASS \<longleftrightarrow> py_get bc ''state'' = PStr ''MEASURED''"
  "ck_verdict (D14 {} r) = PASS \<longleftrightarrow> py_get r ''state'' = PStr ''MEASURED''"
  "ck_verdict (D15 {} role h) = PASS \<longleftrightarrow> py_true (py_get h ''present'') \<and> \<not> py_true (py_get h ''source_mount'') \<and>
     \<not> py_true (py_get h ''cache'') \<and> py_true (py_get h ''declared'')"
  "ck_verdict (D06 {} plane p) = PASS \<longleftrightarrow> getd p ''state'' (PStr ''MISSING'') \<noteq> PStr ''MISSING'' \<and>
     getd p ''state'' (PStr ''MISSING'') \<noteq> PStr ''UNKNOWN''"
  by (simp_all add: D01_def D03_def D05_def D06_def D11_def D12_def D13_def D14_def D15_def check_simps)

definition all_pass :: "check list \<Rightarrow> bool" where
  "all_pass cs \<longleftrightarrow> (\<forall>c\<in>set cs. ck_verdict c = PASS)"

lemma all_pass_simps [simp]:
  "all_pass []" "all_pass (c # cs) \<longleftrightarrow> ck_verdict c = PASS \<and> all_pass cs" "all_pass (cs @ cs') \<longleftrightarrow> all_pass cs \<and> all_pass cs'"
  by (auto simp: all_pass_def)

lemma finish_pass: "rp_verdict (finish cs vf ms) = PASS \<longleftrightarrow> all_pass cs \<and> cs \<noteq> []"
  by (auto simp: finish_def all_pass_def)

lemma D02_pass: "D02 d = Inr cs \<Longrightarrow> py_true (py_get d ''present'') \<Longrightarrow>
    all_pass cs \<longleftrightarrow> py_get d ''verdict'' = PStr ''PASS'' \<and> py_get d ''global_complete'' = PBool True"
  by (auto simp: D02_def bindr_Inr check_simps split: if_splits)

lemma D04_pass: "py_true (py_get e ''pinned'') \<Longrightarrow> py_true (py_get d ''present'') \<Longrightarrow>
    all_pass (D04 d e) \<longleftrightarrow> py_true (py_get e ''matches_dossier'')"
  by (simp add: D04_def check_simps)

lemma D07_pass: "all_pass (D07 plane p) \<longleftrightarrow> \<not> py_true (py_get p ''unmapped_values'')"
  by (simp add: D07_def check_simps)

lemma measured_readable: "py_get p ''state'' = PStr ''MEASURED'' \<Longrightarrow> ck_verdict (D06 {} plane p) = PASS"
  by (auto simp: data_check_pass getd_def py_get_def split: option.splits)

lemma plane_checks_pass:
  assumes "plane_checks ms planes = Inr cs"
  shows "all_pass cs \<longleftrightarrow> (\<forall>pl\<in>set PLANES. ck_verdict (D06 ms pl (part planes pl)) = PASS \<and> \<not> py_true (py_get (part planes pl) ''unmapped_values''))"
  using assms by (auto simp: plane_checks_def PLANES_def bindr_Inr D07_pass dest!: sub_or_Inr)

lemma measured_planes_all:
  assumes "measured_planes planes = Inr ms"
  shows "length ms < length PLANES \<longleftrightarrow> \<not> (\<forall>pl\<in>set PLANES. py_get (part planes pl) ''state'' = PStr ''MEASURED'')"
    and "(\<forall>pl\<in>set PLANES. py_get (part planes pl) ''state'' = PStr ''MEASURED'') \<Longrightarrow> ms = PLANES"
  using assms by (auto simp: measured_planes_def PLANES_def bindr_Inr dest!: sub_or_Inr split: if_splits)

text \<open>The answers of two planes for a class are consistent when the values are equal or one of the planes
  gives none. The second case is weaker than agreement: the contract and the comment of D08 say that a plane
  that cannot answer never agrees, but the code drops it from the comparison (\<open>rowless_plane_passes\<close>).\<close>

definition consistent :: "pyval \<Rightarrow> pyval \<Rightarrow> bool" where
  "consistent a b \<longleftrightarrow> a = PNone \<or> b = PNone \<or> py_eq a b"

lemma distinct_count_le: "distinct_count vs = Inr n \<Longrightarrow> n \<le> 1 \<longleftrightarrow> (\<forall>a\<in>set vs. \<forall>b\<in>set vs. py_eq a b)"
proof -
  assume "distinct_count vs = Inr n"
  then have "n = card (norm ` set vs)" by (auto simp: distinct_count_def length_remdups_card_conv split: if_splits)
  then have "n \<le> 1 \<longleftrightarrow> (\<forall>a\<in>norm ` set vs. \<forall>b\<in>norm ` set vs. a = b)" by (simp add: card_le_Suc0_iff_eq)
  then show ?thesis by (simp add: py_eq_def)
qed

definition row_of :: "pydict \<Rightarrow> string \<Rightarrow> string \<Rightarrow> pyval" where
  "row_of planes cls pl = py_get (part (part planes pl) ''rows'') cls"

lemma class_values_Inr:
  assumes "class_values planes pls cls = Inr vals"
  shows "map snd vals = map (row_of planes cls) pls"
proof -
  have "list_all2 (\<lambda>pl v. snd v = row_of planes cls pl) pls vals"
    using assms unfolding class_values_def mapr_Inr
    by (rule list_all2_mono) (auto simp: bindr_Inr row_of_def dest!: sub_or_Inr)
  then show ?thesis by (induction rule: list_all2_induct) simp_all
qed

lemma disagreement_Nil:
  assumes "disagreement planes pls cls = Inr ds"
  shows "ds = [] \<longleftrightarrow> (\<forall>a\<in>set pls. \<forall>b\<in>set pls. consistent (row_of planes cls a) (row_of planes cls b))"
proof -
  obtain vals n where v: "class_values planes pls cls = Inr vals" "distinct_count (filter (\<lambda>v. v \<noteq> PNone) (map snd vals)) = Inr n"
      "ds = (if 1 < n then [PDict [(''class'', PStr cls), (''by_plane'', PDict vals)]] else [])"
    using assms by (auto simp: disagreement_def bindr_Inr)
  have "ds = [] \<longleftrightarrow> n \<le> 1" using v(3) by auto
  also have "\<dots> \<longleftrightarrow> (\<forall>a\<in>set pls. \<forall>b\<in>set pls. consistent (row_of planes cls a) (row_of planes cls b))"
    unfolding distinct_count_le [OF v(2)] class_values_Inr [OF v(1)] by (auto simp: consistent_def)
  finally show ?thesis .
qed

definition answers_consistent :: "pydict \<Rightarrow> bool" where
  "answers_consistent planes \<longleftrightarrow> (\<forall>cls\<in>set CLASS_ROWS. \<forall>a\<in>set PLANES. \<forall>b\<in>set PLANES. consistent (row_of planes cls a) (row_of planes cls b))"

definition planes_measured :: "pydict \<Rightarrow> bool" where
  "planes_measured planes \<longleftrightarrow> (\<forall>pl\<in>set PLANES. py_get (part planes pl) ''state'' = PStr ''MEASURED'')"

lemma D08_pass:
  assumes "D08 {} planes = Inr c"
  shows "ck_verdict c = PASS \<longleftrightarrow> planes_measured planes \<and> answers_consistent planes"
proof -
  obtain ms ds where m: "measured_planes planes = Inr ms" "mapr (disagreement planes ms) CLASS_ROWS = Inr ds"
    and c: "c = (if length ms < length PLANES then Check ''D08'' ''data'' NOT_MEASURED (Some ''PLANE_COMPARISON_INCOMPLETE'')
              (Some [(''planes_measured'', strs ms), (''planes_required'', strs PLANES)]) None
            else if concat ds \<noteq> [] then blocks ''D08'' ''data'' False ''PLANE_DISAGREEMENT'' (Some [(''disagreements'', PList (concat ds))]) None
            else Check ''D08'' ''data'' PASS None None None)"
    using assms by (auto simp: D08_def bindr_Inr Let_def)
  show ?thesis
  proof (cases "planes_measured planes")
    case True
    then have ms: "ms = PLANES" using measured_planes_all(2) [OF m(1)] by (simp add: planes_measured_def)
    have "list_all2 (\<lambda>cls d. d = [] \<longleftrightarrow> (\<forall>a\<in>set PLANES. \<forall>b\<in>set PLANES. consistent (row_of planes cls a) (row_of planes cls b))) CLASS_ROWS ds"
      using m(2) unfolding mapr_Inr ms by (rule list_all2_mono) (rule disagreement_Nil)
    then have "concat ds = [] \<longleftrightarrow> answers_consistent planes"
      unfolding answers_consistent_def by (induction rule: list_all2_induct) simp_all
    then show ?thesis using True by (simp add: c ms check_simps)
  next
    case False
    then show ?thesis using measured_planes_all(1) [OF m(1)] by (simp add: c planes_measured_def check_simps)
  qed
qed

text \<open>A plane marked as measured without any rows: the other two differ from nobody, and D08 passes.\<close>

definition rowless_planes :: pydict where
  "rowless_planes = [(''files'', PDict [(''state'', PStr ''MEASURED''), (''rows'', PDict [(''active'', PInt 3)])]),
     (''muneral'', PDict [(''state'', PStr ''MEASURED''), (''rows'', PDict [(''active'', PInt 3)])]),
     (''index'', PDict [(''state'', PStr ''MEASURED''), (''rows'', PNone)])]"

lemma rowless_plane_passes:
  "D08 {} rowless_planes = Inr (Check ''D08'' ''data'' PASS None None None) \<and>
   list_all (\<lambda>cls. row_of rowless_planes cls ''index'' = PNone) CLASS_ROWS"
  by code_simp

lemma D09_pass: "D09 {} planes = Inr c \<Longrightarrow> ck_verdict c = PASS \<longleftrightarrow> py_get (part planes ''index'') ''state'' = PStr ''MEASURED''"
  by (auto simp: D09_def bindr_Inr check_simps dest!: sub_or_Inr split: if_splits)

lemma D10_pass: "D10 c = Inr k \<Longrightarrow> ck_verdict k = PASS \<longleftrightarrow> py_get (part c ''index'') ''count'' \<noteq> PNone"
  by (auto simp: D10_def bindr_Inr PLANES_def check_simps py_get_def dest!: sub_or_Inr)

subsection \<open>Clean data\<close>

definition host_clean :: "pydict \<Rightarrow> bool" where
  "host_clean h \<longleftrightarrow> py_true (py_get h ''present'') \<and> \<not> py_true (py_get h ''source_mount'') \<and> \<not> py_true (py_get h ''cache'') \<and>
     py_true (py_get h ''declared'')"

definition planes_ok :: "pydict \<Rightarrow> bool" where
  "planes_ok planes \<longleftrightarrow> planes_measured planes \<and> answers_consistent planes \<and>
     (\<forall>pl\<in>set PLANES. \<not> py_true (py_get (part planes pl) ''unmapped_values''))"

definition data_ok :: "pydict \<Rightarrow> bool" where
  "data_ok ev \<longleftrightarrow> (let d = part ev ''dossier''; e = part ev ''epoch''; planes = part ev ''planes''; mp = part ev ''mapping'' in
     (py_true (py_get d ''present'') \<and> py_true (py_get d ''revision_pinned'') \<and> py_get d ''revision_resolvable'' \<noteq> PBool False \<and>
      py_get d ''verdict'' = PStr ''PASS'' \<and> py_get d ''global_complete'' = PBool True) \<and>
     (py_true (py_get e ''pinned'') \<and> py_true (py_get e ''matches_dossier'') \<and> py_true (py_get e ''observed_main_head'') \<and>
      py_eq (py_get e ''observed_main_head'') (py_get e ''sha'')) \<and>
     planes_ok planes \<and>
     py_get (part (part ev ''conflicts'') ''index'') ''count'' \<noteq> PNone \<and>
     (py_get mp ''batch_revision'' \<noteq> PNone \<and> py_get mp ''record_revision'' \<noteq> PNone \<and>
      py_eq (py_get mp ''batch_revision'') (py_get mp ''record_revision'') \<and> \<not> py_true (py_get mp ''unmapped_raw_statuses'')) \<and>
     py_get (part ev ''byte_copy'') ''state'' = PStr ''MEASURED'' \<and> py_get (part ev ''restore'') ''state'' = PStr ''MEASURED'' \<and>
     (\<forall>role\<in>set ROLES. host_clean (part (part ev ''clean_read_through'') role)))"

lemma D15_pass:
  assumes "mapr (\<lambda>role. bindr (sub_or crt role) (\<lambda>h. Inr (D15 {} role h))) ROLES = Inr cs"
  shows "all_pass cs \<longleftrightarrow> (\<forall>role\<in>set ROLES. host_clean (part crt role))"
  using assms by (auto simp: ROLES_def bindr_Inr data_check_pass host_clean_def dest!: sub_or_Inr)

lemma verify_data_pass:
  assumes "verify_data {} ev = Inr rep"
  shows "rp_verdict rep = PASS \<longleftrightarrow> data_ok ev"
proof -
  obtain c02 c06 c08 c09 c10 c15 where c: "D02 (part ev ''dossier'') = Inr c02" "plane_checks {} (part ev ''planes'') = Inr c06"
      "D08 {} (part ev ''planes'') = Inr c08" "D09 {} (part ev ''planes'') = Inr c09" "D10 (part ev ''conflicts'') = Inr c10"
      "mapr (\<lambda>role. bindr (sub_or (part ev ''clean_read_through'') role) (\<lambda>h. Inr (D15 {} role h))) ROLES = Inr c15"
    and rep: "rep = finish ([D01 {} (part ev ''dossier'')] @ c02 @ [D03 (part ev ''epoch'')] @ D04 (part ev ''dossier'') (part ev ''epoch'') @
        [D05 {} (part ev ''epoch'')] @ c06 @ [c08, c09, c10, D11 {} (part ev ''mapping''), D12 (part ev ''mapping''), D13 (part ev ''byte_copy''),
        D14 {} (part ev ''restore'')] @ c15) ''data'' {}"
    using assms unfolding verify_data_def bindr_Inr by (auto dest!: sub_Inr)
  note pass = data_check_pass D08_pass [OF c(3)] D09_pass [OF c(4)] D10_pass [OF c(5)] D15_pass [OF c(6)] plane_checks_pass [OF c(2)]
  have idx: "planes_measured (part ev ''planes'') \<Longrightarrow> py_get (part (part ev ''planes'') ''index'') ''state'' = PStr ''MEASURED''"
    by (simp add: planes_measured_def PLANES_def)
  have rd: "planes_measured (part ev ''planes'') \<Longrightarrow> ck_verdict (D06 {} pl (part (part ev ''planes'') pl)) = PASS" if "pl \<in> set PLANES" for pl
    using that by (simp add: planes_measured_def measured_readable)
  have planes: "all_pass c06 \<and> ck_verdict c08 = PASS \<and> ck_verdict c09 = PASS \<longleftrightarrow> planes_ok (part ev ''planes'')"
    unfolding planes_ok_def pass(10,11,14) using idx rd by blast
  have first: "all_pass c02 \<and> all_pass (D04 (part ev ''dossier'') (part ev ''epoch'')) \<longleftrightarrow>
      (py_get (part ev ''dossier'') ''verdict'' = PStr ''PASS'' \<and> py_get (part ev ''dossier'') ''global_complete'' = PBool True) \<and>
      py_true (py_get (part ev ''epoch'') ''matches_dossier'')"
    if "py_true (py_get (part ev ''dossier'') ''present'')" "py_true (py_get (part ev ''epoch'') ''pinned'')"
    using D02_pass [OF c(1) that(1)] D04_pass [OF that(2,1)] by (simp only:)
  show ?thesis
  proof
    assume "rp_verdict rep = PASS"
    note all = this [unfolded rep finish_pass append.simps all_pass_simps, unfolded pass(1-8,12,13)]
    then have "planes_ok (part ev ''planes'')" unfolding planes [symmetric] by (elim conjE, intro conjI) assumption+
    moreover note first
    ultimately show "data_ok ev"
      unfolding data_ok_def Let_def using all by (simp only: simp_thms) (elim conjE)
  next
    assume "data_ok ev"
    note all = this [unfolded data_ok_def Let_def]
    then have "planes_ok (part ev ''planes'')" by (elim conjE)
    then have "all_pass c06 \<and> ck_verdict c08 = PASS \<and> ck_verdict c09 = PASS" unfolding planes .
    then show "rp_verdict rep = PASS"
      unfolding rep finish_pass append.simps all_pass_simps pass(1-8,12,13)
      using all first by (simp only: simp_thms list.distinct) (elim conjE)
  qed
qed

subsection \<open>Authority in force\<close>

definition superseded_later :: "pydict \<Rightarrow> bool" where
  "superseded_later a \<longleftrightarrow> (\<exists>s\<in>set (dicts_at a ''superseded_by''). py_gt (or_str (py_get s ''issued_at_utc'')) (or_str (py_get a ''issued_at_utc'')) = Inr True)"

definition state_sufficient :: "pydict \<Rightarrow> bool" where
  "state_sufficient a \<longleftrightarrow> (let sm = part a ''state_machine''; states = or_empty (py_get a ''states'') in
     py_true (py_get sm ''present'') \<and> py_true (py_get sm ''state'') \<and>
     (\<exists>i j. index_in states (py_get sm ''state'') = Inr (Some i) \<and> index_in states (py_get a ''readiness_state_min'') = Inr (Some j) \<and> j \<le> i))"

definition no_verdict :: "string list \<Rightarrow> pydict list \<Rightarrow> bool" where
  "no_verdict vs ds \<longleftrightarrow> (\<forall>d\<in>set ds. \<forall>v\<in>set vs. py_get d ''verdict'' \<noteq> PStr v)"

definition authority_ok :: "pydict \<Rightarrow> bool" where
  "authority_ok ev \<longleftrightarrow> (let a = part ev ''authority''; issuer = py_get a ''issuer_identity''; signer = py_get (part ev ''data_signer'') ''identity'' in
     py_true (py_get a ''present'') \<and> py_true (py_get a ''profile_confirmed_in_decision'') \<and> py_true issuer \<and>
     \<not> (py_true signer \<and> py_eq signer issuer) \<and> \<not> superseded_later a \<and>
     no_verdict [''TRIGGERED'', ''NOT_MEASURED''] (dicts_at a ''reverse_if_state'') \<and> state_sufficient a \<and>
     no_verdict [''UNSATISFIED'', ''NOT_MEASURED''] (dicts_at a ''evidence_gate_state''))"

lemma filterr_Nil: "filterr f xs = Inr ys \<Longrightarrow> ys = [] \<longleftrightarrow> (\<forall>x\<in>set xs. f x \<noteq> Inr True)"
  by (induction xs arbitrary: ys) (auto simp: bindr_Inr split: if_splits)

lemma filterr_defined: "filterr f xs = Inr ys \<Longrightarrow> x \<in> set xs \<Longrightarrow> \<exists>b. f x = Inr b"
  by (induction xs arbitrary: ys) (auto simp: bindr_Inr)

lemma with_verdict_Nil: "with_verdict v ds = [] \<longleftrightarrow> (\<forall>d\<in>set ds. py_get d ''verdict'' \<noteq> PStr v)"
  by (simp add: with_verdict_def filter_empty_conv)

lemma no_verdict_two: "no_verdict [v, w] ds \<longleftrightarrow> with_verdict v ds = [] \<and> with_verdict w ds = []"
  by (auto simp: no_verdict_def with_verdict_Nil)

lemma later_dicts:
  assumes "iter_of (or_empty v) = Inr xs" "list_all (\<lambda>x. \<exists>d. x = PDict d) xs"
  shows "\<exists>ds. or_empty v = PList (map PDict ds) \<and> xs = map PDict ds"
proof -
  obtain ds where ds: "xs = map PDict ds" using assms(2) by (induction xs) (auto, metis list.simps(9))
  then have "dicts_of v = Inr ds" unfolding dicts_of_def assms(1)
    by (simp add: mapr_Inr list_all2_map1 list.rel_refl)
  from dicts_of_Inr [OF this] ds show ?thesis by blast
qed

lemma A05_pass:
  assumes "A05 {} a = Inr c"
  shows "ck_verdict c = PASS \<longleftrightarrow> \<not> superseded_later a"
proof -
  obtain xs ls where x: "iter_of (or_empty (py_get a ''superseded_by'')) = Inr xs" "later_decisions a xs = Inr ls"
    and c: "c = (if ls \<noteq> [] then blocks ''A05'' ''authority'' False ''AUTHORITY_REVOKED'' (Some [(''superseded_by'', PList ls)]) None
          else Check ''A05'' ''authority'' PASS None (Some [(''supersedes_scanned'', PInt (int (length xs)))]) None)"
    using assms by (auto simp: A05_def bindr_Inr)
  have "list_all (\<lambda>x. \<exists>d. x = PDict d) xs"
    using filterr_defined [OF x(2) [unfolded later_decisions_def]] by (fastforce simp: list_all_iff bindr_Inr as_dict_Inr)
  then obtain ds where ds: "or_empty (py_get a ''superseded_by'') = PList (map PDict ds)" "xs = map PDict ds"
    using later_dicts [OF x(1)] by blast
  have "ls = [] \<longleftrightarrow> \<not> superseded_later a"
    using filterr_Nil [OF x(2) [unfolded later_decisions_def]]
    by (simp add: superseded_later_def dicts_at_def ds comp_def)
  then show ?thesis by (simp add: c check_simps)
qed

lemma A06_pass:
  assumes "A06 {} a = Inr c"
  shows "ck_verdict c = PASS \<longleftrightarrow> no_verdict [''TRIGGERED'', ''NOT_MEASURED''] (dicts_at a ''reverse_if_state'')"
  using assms unfolding no_verdict_two
  by (auto simp: A06_def bindr_Inr check_simps dest!: dicts_at_Inr split: if_splits)

lemma A08_pass:
  assumes "A08 {} a = Inr c"
  shows "ck_verdict c = PASS \<longleftrightarrow> no_verdict [''UNSATISFIED'', ''NOT_MEASURED''] (dicts_at a ''evidence_gate_state'')"
  using assms unfolding no_verdict_two
  by (auto simp: A08_def bindr_Inr check_simps dest!: dicts_at_Inr split: if_splits)

lemma A07_pass:
  assumes "A07 a = Inr c"
  shows "ck_verdict c = PASS \<longleftrightarrow> state_sufficient a"
  using assms
  by (auto simp: A07_def state_sufficient_def state_reached_def bindr_Inr check_simps dest!: sub_or_Inr split: if_splits option.splits)

lemma verify_authority_pass:
  assumes "verify_authority {} ev = Inr rep"
  shows "rp_verdict rep = PASS \<longleftrightarrow> authority_ok ev"
proof (cases "py_true (py_get (part ev ''authority'') ''present'')")
  case False
  then have "rp_verdict rep = BLOCK" using assms
    by (auto simp: verify_authority_def bindr_Inr finish_def Check_def dest!: sub_or_Inr)
  then show ?thesis using False by (simp add: authority_ok_def Let_def)
next
  case True
  obtain a05 a06 a07 a08 where c: "A05 {} (part ev ''authority'') = Inr a05" "A06 {} (part ev ''authority'') = Inr a06"
      "A07 (part ev ''authority'') = Inr a07" "A08 {} (part ev ''authority'') = Inr a08"
    and rep: "rep = finish [Check ''A01'' ''authority'' PASS None (Some (copy_keys [''decision_id'', ''digest'', ''issued_at_utc''] (part ev ''authority''))) None,
        A02 (part ev ''authority''), A03 (part ev ''authority''), A04 {} (part ev ''authority'') (part ev ''data_signer''), a05, a06, a07, a08] ''authority'' {}"
    using assms True unfolding verify_authority_def bindr_Inr by (auto simp: bindr_Inr dest!: sub_or_Inr)
  show ?thesis
    unfolding rep finish_pass authority_ok_def Let_def A05_pass [OF c(1), symmetric] A06_pass [OF c(2), symmetric]
      A07_pass [OF c(3), symmetric] A08_pass [OF c(4), symmetric]
    using True by (auto simp: A02_def A03_def A04_def check_simps)
qed

subsection \<open>The minted artifact\<close>

definition artifact_of :: "gmutant set \<Rightarrow> pydict \<Rightarrow> string \<Rightarrow> pydict \<Rightarrow> report \<Rightarrow> report \<Rightarrow> pydict" where
  "artifact_of ms ev ts aref dat aut =
    (let dref = data_ref (part ev ''dossier'') (part ev ''data_signer''); com = common_fields ev (part ev ''epoch'') ts
     in if both_pass ms dat aut then attestation ms com dref aref dat aut else block_receipt com dref aref dat aut)"

lemma run_gateE:
  assumes "run_gate ms ev ts = Inr r"
  obtains aref where "verify_data ms ev = Inr (gr_data r)" "verify_authority ms ev = Inr (gr_authority r)"
    "authority_ref (part ev ''authority'') = Inr aref"
    "gr_artifact r = artifact_of ms ev ts aref (gr_data r) (gr_authority r)"
    "itemv (gr_artifact r) ''verdict'' = Inr (gr_outcome r)"
proof -
  obtain dat aut art v where g: "verify_data ms ev = Inr dat" "verify_authority ms ev = Inr aut" "mint ms ev dat aut ts = Inr art"
      "itemv art ''verdict'' = Inr v" "r = \<lparr>gr_data = dat, gr_authority = aut, gr_artifact = art, gr_outcome = v\<rparr>"
    using assms by (auto simp: run_gate_def bindr_Inr)
  from g(3) obtain aref where "authority_ref (part ev ''authority'') = Inr aref"
    "art = artifact_of ms ev ts aref dat aut"
    by (auto simp: mint_def bindr_Inr Let_def artifact_of_def dest!: sub_or_Inr)
  with g show ?thesis by (intro that [of aref]) simp_all
qed

lemma outcome_cases:
  assumes "run_gate ms ev ts = Inr r"
  shows "gr_outcome r = (if both_pass ms (gr_data r) (gr_authority r) then PStr ''PASS'' else PStr ''BLOCK'')"
  using assms
proof (rule run_gateE)
  fix aref
  assume a: "gr_artifact r = artifact_of ms ev ts aref (gr_data r) (gr_authority r)" and v: "itemv (gr_artifact r) ''verdict'' = Inr (gr_outcome r)"
  show ?thesis using v unfolding a
    by (simp add: Let_def artifact_of_def itemv_def attestation_def block_receipt_def common_fields_def split: if_splits)
qed


subsection \<open>Typed checks\<close>

text \<open>A check has a reason code exactly when it does not pass, and the code is not empty.\<close>

definition typed_check :: "check \<Rightarrow> bool" where
  "typed_check c \<longleftrightarrow> (case ck_reason c of None \<Rightarrow> ck_verdict c = PASS | Some code \<Rightarrow> ck_verdict c \<noteq> PASS \<and> code \<noteq> [])"

lemma typed_Check: "typed_check (Check i vf v reason det pl) \<longleftrightarrow> (case reason of None \<Rightarrow> v = PASS | Some code \<Rightarrow> v \<noteq> PASS \<and> code \<noteq> [])"
  by (cases reason) (simp_all add: typed_check_def Check_def)

lemma typed_blocks: "code \<noteq> [] \<Longrightarrow> typed_check (blocks i vf w code det pl)"
  by (simp add: blocks_def typed_Check)

lemma typed_data:
  "typed_check (D01 ms d)" "typed_check (D03 e)" "typed_check (D05 ms e)" "typed_check (D06 ms plane p)" "typed_check (D11 ms mp)"
  "typed_check (D12 mp)" "typed_check (D13 bc)" "typed_check (D14 ms r)" "typed_check (D15 ms role h)"
  "list_all typed_check (D04 d e)" "list_all typed_check (D07 plane p)"
  by (simp_all add: D01_def D03_def D05_def D06_def D11_def D12_def D13_def D14_def D15_def D04_def D07_def Let_def typed_Check typed_blocks)

lemma typed_raising:
  "D02 d = Inr cs \<Longrightarrow> list_all typed_check cs" "plane_checks ms planes = Inr cs \<Longrightarrow> list_all typed_check cs"
  "D08 ms planes = Inr c \<Longrightarrow> typed_check c" "D09 ms planes = Inr c \<Longrightarrow> typed_check c" "D10 x = Inr c \<Longrightarrow> typed_check c"
  by (auto simp: D02_def plane_checks_def D08_def D09_def D10_def bindr_Inr PLANES_def Let_def typed_Check typed_blocks typed_data split: if_splits)

lemma D15_typed: "mapr (\<lambda>role. bindr (sub_or crt role) (\<lambda>h. Inr (D15 ms role h))) ROLES = Inr cs \<Longrightarrow> list_all typed_check cs \<and> length cs = 2"
  by (auto simp: ROLES_def bindr_Inr typed_data)

lemma rp_checks_finish [simp]: "rp_checks (finish cs vf ms) = cs"
  by (simp add: finish_def)

lemma data_checks:
  assumes "verify_data ms ev = Inr rep"
  shows "rep = finish (rp_checks rep) ''data'' ms \<and> list_all typed_check (rp_checks rep) \<and> 15 \<le> length (rp_checks rep) \<and> length (rp_checks rep) \<le> 20"
proof -
  obtain d e mp bc r crt c02 c06 c08 c09 c10 c15 planes x where c: "D02 d = Inr c02" "plane_checks ms planes = Inr c06"
      "D08 ms planes = Inr c08" "D09 ms planes = Inr c09" "D10 x = Inr c10"
      "mapr (\<lambda>role. bindr (sub_or crt role) (\<lambda>h. Inr (D15 ms role h))) ROLES = Inr c15"
    and rep: "rep = finish ([D01 ms d] @ c02 @ [D03 e] @ D04 d e @ [D05 ms e] @ c06 @ [c08, c09, c10, D11 ms mp, D12 mp, D13 bc, D14 ms r] @ c15) ''data'' ms"
    using assms unfolding verify_data_def bindr_Inr by blast
  have "length c02 \<le> 1" using c(1) by (auto simp: D02_def bindr_Inr split: if_splits)
  moreover have "3 \<le> length c06" "length c06 \<le> 6"
    using c(2) by (auto simp: plane_checks_def PLANES_def bindr_Inr D07_def)
  moreover have "length (D04 d e) \<le> 1" by (simp add: D04_def)
  ultimately show ?thesis
    using typed_raising(1) [OF c(1)] typed_raising(2) [OF c(2)] typed_raising(3) [OF c(3)] typed_raising(4) [OF c(4)]
      typed_raising(5) [OF c(5)] D15_typed [OF c(6)]
    by (simp add: rep typed_data)
qed

lemma typed_authority:
  "typed_check (A02 a)" "typed_check (A03 a)" "typed_check (A04 ms a ds)" "A05 ms a = Inr c \<Longrightarrow> typed_check c"
  "A06 ms a = Inr c \<Longrightarrow> typed_check c" "A07 a = Inr c \<Longrightarrow> typed_check c" "A08 ms a = Inr c \<Longrightarrow> typed_check c"
  by (auto simp: A02_def A03_def A04_def A05_def A06_def A07_def A08_def bindr_Inr Let_def typed_Check typed_blocks split: if_splits)

lemma authority_checks:
  assumes "verify_authority ms ev = Inr rep"
  shows "rep = finish (rp_checks rep) ''authority'' ms \<and> list_all typed_check (rp_checks rep) \<and> length (rp_checks rep) \<in> {1, 8}"
  using assms
  by (auto simp: verify_authority_def bindr_Inr typed_Check intro: typed_authority split: if_splits)

subsection \<open>Counts\<close>

lemma count_verdict_simps [simp]:
  "count_verdict v [] = 0" "count_verdict v (c # cs) = (if ck_verdict c = v then 1 else 0) + count_verdict v cs"
  by (simp_all add: count_verdict_def)

lemma counts_total: "count_verdict PASS cs + count_verdict BLOCK cs + count_verdict NOT_MEASURED cs = length cs"
proof (induction cs)
  case (Cons c cs)
  then show ?case by (cases "ck_verdict c") simp_all
qed simp

lemma all_pass_count: "all_pass cs \<longleftrightarrow> count_verdict PASS cs = length cs"
proof (induction cs)
  case (Cons c cs)
  have "count_verdict PASS cs \<le> length cs" by (simp add: count_verdict_def)
  with Cons show ?case by auto
qed simp

lemma reasons_bounded: "length (block_reasons cs) \<le> count_verdict BLOCK cs" "length (unmeasured_names cs) = count_verdict NOT_MEASURED cs"
  by (induction cs) (auto simp: block_reasons_def unmeasured_names_def split: option.split)

lemma typed_reasons:
  assumes "list_all typed_check cs" "\<not> all_pass cs"
  shows "block_reasons cs \<noteq> [] \<or> unmeasured_names cs \<noteq> []"
  using assms
proof (induction cs)
  case (Cons c cs)
  then show ?case by (cases "ck_verdict c") (auto simp: block_reasons_def unmeasured_names_def typed_check_def split: option.splits)
qed simp

lemma sort_names_Nil: "sort (remdups xs) = [] \<longleftrightarrow> xs = []" for xs :: "string list"
  unfolding set_empty [symmetric] set_sort set_remdups ..

definition counts_ok :: "report \<Rightarrow> bool" where
  "counts_ok rep \<longleftrightarrow> rp_passed rep + rp_blocked rep + rp_not_measured_count rep = rp_total rep \<and>
     (rp_verdict rep = PASS \<longleftrightarrow> rp_passed rep = rp_total rep) \<and> rp_verdict rep \<noteq> NOT_MEASURED \<and>
     length (rp_reason_codes rep) \<le> rp_blocked rep \<and> length (rp_not_measured rep) \<le> rp_not_measured_count rep \<and>
     distinct (rp_reason_codes rep) \<and> distinct (rp_not_measured rep)"

lemma finish_counts: "cs \<noteq> [] \<Longrightarrow> counts_ok (finish cs vf ms)"
  using counts_total [of cs] all_pass_count [of cs] reasons_bounded [of cs]
    length_remdups_leq [of "block_reasons cs"] length_remdups_leq [of "unmeasured_names cs"]
  by (auto simp: counts_ok_def finish_def all_pass_def intro: order_trans)

text \<open>C37. The counters of the reports are exact and bounded: a data report has between 15 and 20 checks, an
  authority report one or eight, passed, blocked and unmeasured checks add up to them, a report passes
  exactly when all its checks passed, and it names each reason once and no more reasons than checks.\<close>

theorem report_counts:
  assumes "run_gate ms ev ts = Inr r"
  shows "counts_ok (gr_data r) \<and> counts_ok (gr_authority r) \<and> 15 \<le> rp_total (gr_data r) \<and> rp_total (gr_data r) \<le> 20 \<and>
    rp_total (gr_authority r) \<in> {1, 8}"
proof -
  have d: "verify_data ms ev = Inr (gr_data r)" and a: "verify_authority ms ev = Inr (gr_authority r)"
    using assms by (auto elim: run_gateE)
  obtain cs where cs: "gr_data r = finish cs ''data'' ms" "15 \<le> length cs" "length cs \<le> 20" using data_checks [OF d] by blast
  obtain as where as: "gr_authority r = finish as ''authority'' ms" "length as \<in> {1, 8}" using authority_checks [OF a] by blast
  have ne: "cs \<noteq> []" "as \<noteq> []" using cs as by auto
  have "rp_total (finish xs vf ms) = length xs" for xs vf by (simp add: finish_def)
  then show ?thesis using finish_counts [OF ne(1)] finish_counts [OF ne(2)] cs as by simp
qed

lemma finish_named:
  assumes rep: "rep = finish cs vf ms" and ne: "cs \<noteq> []" and typed: "list_all typed_check cs"
  shows "rp_verdict rep = PASS \<longleftrightarrow> rp_reason_codes rep @ rp_not_measured rep = []"
proof -
  have "all_pass cs \<longleftrightarrow> block_reasons cs = [] \<and> unmeasured_names cs = []"
    using typed_reasons [OF typed] reasons_bounded [of cs] counts_total [of cs] all_pass_count [of cs] by auto
  then show ?thesis unfolding rep finish_pass using ne by (simp add: finish_def sort_names_Nil)
qed

text \<open>C36. Every check of both verifiers, whatever mutants are active, carries a reason code exactly when it
  does not pass, and a report that does not pass names a reason code or an unmeasured question.\<close>

theorem checks_typed:
  assumes "run_gate ms ev ts = Inr r"
  shows "list_all typed_check (rp_checks (gr_data r) @ rp_checks (gr_authority r)) \<and>
    (rp_verdict (gr_data r) = PASS \<longleftrightarrow> rp_reason_codes (gr_data r) @ rp_not_measured (gr_data r) = []) \<and>
    (rp_verdict (gr_authority r) = PASS \<longleftrightarrow> rp_reason_codes (gr_authority r) @ rp_not_measured (gr_authority r) = [])"
proof -
  have d: "verify_data ms ev = Inr (gr_data r)" and a: "verify_authority ms ev = Inr (gr_authority r)"
    using assms by (auto elim: run_gateE)
  have ne: "rp_checks (gr_data r) \<noteq> []" "rp_checks (gr_authority r) \<noteq> []"
    using data_checks [OF d] authority_checks [OF a] by auto
  note fd = conjunct1 [OF data_checks [OF d]] and fa = conjunct1 [OF authority_checks [OF a]]
  note td = conjunct1 [OF conjunct2 [OF data_checks [OF d]]] and ta = conjunct1 [OF conjunct2 [OF authority_checks [OF a]]]
  show ?thesis
    using finish_named [OF fd ne(1) td] finish_named [OF fa ne(2) ta] td ta by (simp only: list_all_append simp_thms)
qed

end
