(* ===== verification/Data_Consume.thy ===== *)
theory Data_Consume
  imports Data_Collect
begin

section \<open>The consume command of the data gate\<close>

text \<open>
  The command collects the evidence, runs the gate and writes two documents, the artifact and a receipt.
  The output directory is a path relative to the root; \<open>H\<close> is SHA-256, \<open>ts\<close> the time of the start.
\<close>

fun canonical_py :: "pyenv \<Rightarrow> pyval \<Rightarrow> string" where
  "canonical_py P (PList xs) = ''['' @ join '','' (map (canonical_py P) xs) @ '']''"
| "canonical_py P (PDict kvs) = ''{'' @ join '','' (map (\<lambda>kv. quote (fst kv) @ '':'' @ snd kv)
     (sort_key fst (map (\<lambda>kv. (fst kv, canonical_py P (snd kv))) kvs))) @ ''}''"
| "canonical_py P v = dump_text P quote v"

definition sha256_obj :: "(string \<Rightarrow> string) \<Rightarrow> pyenv \<Rightarrow> pyval \<Rightarrow> string" where
  "sha256_obj H P v = ''sha256:'' @ H (canonical_py P v)"

definition plane_extras :: "string list" where
  "plane_extras = [''verdict'', ''not_indexed'', ''no_claim_occurrences'', ''rows_under_batch_revision'', ''unmapped_values'']"

definition plane_summary :: "pydict \<Rightarrow> pydict" where
  "plane_summary p = copy_keys [''state'', ''source'', ''denominator'', ''total'', ''status_map_revision_used''] p @
     copy_keys (filter (\<lambda>k. py_get p k \<notin> {PNone, PList [], PDict []}) plane_extras) p"

definition plane_table :: "pydict \<Rightarrow> pydict result" where
  "plane_table ev =
    bindr (sub ev ''planes'') (\<lambda>planes. bindr (mapr (\<lambda>pl. bindr (sub_or planes pl) (\<lambda>p. Inr (pl, p))) PLANES) (\<lambda>ps.
    bindr (mapr (\<lambda>cls. bindr (mapr (\<lambda>(pl, p). bindr (sub_or p ''rows'') (\<lambda>rows. Inr (pl, py_get rows cls))) ps) (\<lambda>vals.
        Inr (cls, PDict vals))) CLASS_ROWS) (\<lambda>rows.
    bindr (sub_or planes ''index'') (\<lambda>idx. bindr (sub_or planes ''muneral'') (\<lambda>mun.
    bindr (sub ev ''conflicts'') (\<lambda>c. bindr (mapr (\<lambda>pl. bindr (sub_or c pl) (\<lambda>p. Inr (pl, p))) PLANES) (\<lambda>cs.
      Inr [(''rows'', PDict (rows @
             [(''unindexed'', PDict [(''files'', py_get idx ''planned_files''), (''muneral'', py_get mun ''readback_identities''),
                 (''index'', py_get idx ''total''), (''index_not_indexed'', py_get idx ''not_indexed'')]),
              (''conflicts'', PDict (map (\<lambda>(pl, p). (pl, py_get p ''count'')) cs @
                 [(''denominators'', PDict (map (\<lambda>(pl, p). (pl, py_get p ''denominator'')) cs))]))])),
           (''planes'', PDict (map (\<lambda>(pl, p). (pl, PDict (plane_summary p))) ps))])))))))"

definition stamp_of :: "string \<Rightarrow> string" where
  "stamp_of ts = filter (\<lambda>c. c \<noteq> CHR ''-'' \<and> c \<noteq> CHR '':'') ts"

definition report_dict :: "report \<Rightarrow> pydict" where
  "report_dict rep = [(''verifier'', PStr (rp_verifier rep)), (''verdict'', PStr (verdict_str (rp_verdict rep))),
     (''checks'', PList (map (PDict \<circ> check_dict) (rp_checks rep))), (''checks_total'', PInt (int (rp_total rep))),
     (''checks_passed'', PInt (int (rp_passed rep))), (''checks_blocked'', PInt (int (rp_blocked rep))),
     (''checks_not_measured'', PInt (int (rp_not_measured_count rep))), (''reason_codes'', strs (rp_reason_codes rep)),
     (''not_measured'', strs (rp_not_measured rep)), (''mutants_active'', PList [])]"

definition evidence_inputs :: "pydict \<Rightarrow> pydict result" where
  "evidence_inputs ev =
    bindr (sub_or ev ''dossier'') (\<lambda>d. bindr (sub_or ev ''epoch'') (\<lambda>e. bindr (sub ev ''planes'') (\<lambda>planes. bindr (sub_or planes ''index'') (\<lambda>idx.
    bindr (sub_or ev ''byte_copy'') (\<lambda>bc. bindr (sub_or ev ''restore'') (\<lambda>r. bindr (sub_or ev ''clean_read_through'') (\<lambda>crt.
    bindr (mapr (\<lambda>(role, v). bindr (as_dict v) (\<lambda>h. Inr (role, py_get h ''source''))) crt) (\<lambda>clean.
    bindr (sub_or ev ''fence'') (\<lambda>f. bindr (sub_or ev ''authority'') (\<lambda>a. bindr (sub a ''state_machine'') (\<lambda>sm.
      Inr [(''dossier'', py_get d ''path''), (''import_verify'', py_get e ''source''), (''index'', py_get idx ''source''),
        (''byte_copy'', py_get bc ''source''), (''restore'', py_get r ''source''), (''clean_read_through'', PDict clean),
        (''fence_observation'', py_get f ''latest''), (''authority_decision'', py_get a ''path''), (''cutover_state'', py_get sm ''path'')])))))))))))"

record consumed =
  cs_written :: "(string \<times> pydict) list"
  cs_printed :: pydict
  cs_exit :: nat

definition cmd_consume :: "(string \<Rightarrow> string) \<Rightarrow> gate_env \<Rightarrow> string \<Rightarrow> string \<Rightarrow> string option \<Rightarrow> string option \<Rightarrow> string \<Rightarrow> consumed result" where
  "cmd_consume H E out_dir ts ws_head dossier model =
    bindr (collect_evidence E ws_head dossier (Some model)) (\<lambda>ev. bindr (run_gate {} ev ts) (\<lambda>res.
    let artifact = gr_artifact res; stamp = stamp_of ts in
    bindr (itemv artifact ''schema'') (\<lambda>schema.
    let kind = (if schema = PStr ''CutoverReadinessAttestation/v1'' then ''attestation'' else ''block'');
        art_path = out_dir @ ''/gate0-'' @ kind @ ''-'' @ stamp @ ''.json''; rpath = out_dir @ ''/gate0-'' @ stamp @ ''.json'';
        nm = strs (sort (remdups (rp_not_measured (gr_data res) @ rp_not_measured (gr_authority res)))) in
    bindr (sub_or ev ''program'') (\<lambda>program. bindr (sub_or ev ''epoch'') (\<lambda>e. bindr (plane_table ev) (\<lambda>table. bindr (evidence_inputs ev) (\<lambda>inputs.
    let receipt =
      [(''schema'', PStr ''ReadinessReceipt/v1''), (''portion_id'', PStr ''AUP-MIG-015:gate0''), (''tool'', PStr TOOL), (''tool_version'', PStr TOOL_VERSION),
       (''captured_at_utc'', PStr ts), (''host'', py_get ev ''host''), (''program_commit'', py_get program ''commit''), (''read_only'', PBool True),
       (''model'', PStr model), (''provisional_until_fable_review'', PBool True),
       (''decision_refs'', strs [''DEC-AUP-0012'', ''DEC-AUP-0014'', ''DEC-AUP-0010'', ''DEC-AUP-0008'', ''DEC-AUP-0015'']),
       (''verdict'', gr_outcome res),
       (''artifact'', PDict [(''schema'', schema), (''path'', PStr art_path), (''digest'', PStr (sha256_obj H (ge_py E) (PDict artifact)))]),
       (''source_set_epoch'', py_get e ''declared''), (''source_set_epoch_observed_head'', py_get e ''observed_main_head''), (''planes'', PDict table),
       (''data_verifier'', PDict (report_dict (gr_data res))), (''authority_verifier'', PDict (report_dict (gr_authority res))),
       (''blocked_by'', getd artifact ''blocked_by'' (PList [])), (''not_measured'', nm), (''evidence_inputs'', PDict inputs),
       (''writer_epoch'', PDict [(''changed'', PBool False)])]
    in Inr \<lparr>cs_written = [(art_path, artifact), (rpath, receipt)],
         cs_printed = [(''verdict'', gr_outcome res), (''artifact'', schema), (''blocked_by'', getd artifact ''blocked_by'' (PList [])),
           (''not_measured'', nm), (''receipt'', PStr rpath), (''artifact_path'', PStr art_path)],
         cs_exit = 0\<rparr>)))))))"

end
