(* ===== verification/Data_Mint_Props.thy ===== *)
theory Data_Mint_Props
  imports Data_Gate_Props Data_Consume
begin

section \<open>Artifacts, real evidence and status classes\<close>

text \<open>
  What the two artifacts carry; that the evidence the tool collects itself is never enough for an
  attestation (the index plane of the conflicts is constant); and what the status classes count.
\<close>

subsection \<open>The two artifacts\<close>

definition names_data :: "pydict \<Rightarrow> pydict \<Rightarrow> bool" where
  "names_data ev dref \<longleftrightarrow> py_get dref ''kind'' = PStr ''data'' \<and> py_get dref ''receipt'' = py_get (part ev ''dossier'') ''path'' \<and>
     py_get dref ''digest'' = py_get (part ev ''dossier'') ''digest'' \<and>
     py_get dref ''signer'' = py_get (part ev ''data_signer'') ''identity''"

definition names_authority :: "pydict \<Rightarrow> pydict \<Rightarrow> bool" where
  "names_authority ev aref \<longleftrightarrow> py_get aref ''kind'' = PStr ''authority'' \<and>
     py_get aref ''decision_id'' = py_get (part ev ''authority'') ''decision_id'' \<and>
     py_get aref ''decision_digest'' = py_get (part ev ''authority'') ''digest'' \<and>
     py_get aref ''issuer'' = py_get (part ev ''authority'') ''issuer_identity''"

definition attests :: "pydict \<Rightarrow> pydict \<Rightarrow> bool" where
  "attests ev art \<longleftrightarrow> py_get art ''schema'' = PStr ''CutoverReadinessAttestation/v1'' \<and>
     py_get (part art ''writer_epoch'') ''changed'' = PBool False \<and> py_get art ''negative_verdicts'' = PList [] \<and>
     (\<exists>dref aref. py_get art ''refs'' = PList [PDict dref, PDict aref] \<and> names_data ev dref \<and> names_authority ev aref)"

definition blocks_artifact :: "pydict \<Rightarrow> bool" where
  "blocks_artifact art \<longleftrightarrow> py_get art ''schema'' = PStr ''BlockReceipt/v1'' \<and> map_of art ''refs'' = None \<and>
     py_get (part art ''writer_epoch'') ''changed'' = PBool False \<and>
     (py_get art ''blocked_by'' \<noteq> PList [] \<or> py_get art ''not_measured'' \<noteq> PList [])"

text \<open>The section \<open>refs_withheld\<close> of a block receipt: a reference only for the half that is in order, the
  fixed text for the other; never both references.\<close>

definition withholds :: "pydict \<Rightarrow> pydict \<Rightarrow> bool" where
  "withholds ev art \<longleftrightarrow> (let held = part art ''refs_withheld'' in
     (if data_ok ev then \<exists>dref. py_get held ''data'' = PDict dref \<and> names_data ev dref
      else py_get held ''data'' = PStr ''withheld: data verifier did not PASS'') \<and>
     (if authority_ok ev then \<exists>aref. py_get held ''authority'' = PDict aref \<and> names_authority ev aref
      else py_get held ''authority'' = PStr ''withheld: authority verifier did not PASS'') \<and>
     \<not> (data_ok ev \<and> authority_ok ev))"

lemma data_ref_names: "names_data ev (data_ref (part ev ''dossier'') (part ev ''data_signer''))"
  by (simp add: names_data_def data_ref_def py_get_def)

lemma authority_ref_names: "authority_ref (part ev ''authority'') = Inr aref \<Longrightarrow> names_authority ev aref"
  by (auto simp: names_authority_def authority_ref_def bindr_Inr py_get_def)

lemma passing_negatives:
  assumes "rp_verdict (finish cs vf ms) = PASS"
  shows "filter (\<lambda>c. ck_verdict c \<noteq> PASS) cs = []"
  using assms by (auto simp: finish_pass all_pass_def filter_empty_conv)

lemma attestation_attests:
  assumes aref: "authority_ref (part ev ''authority'') = Inr aref" and n: "negatives dat aut = PList []"
  shows "attests ev (attestation {} (common_fields ev (part ev ''epoch'') ts) (data_ref (part ev ''dossier'') (part ev ''data_signer'')) aref dat aut)"
  using data_ref_names [of ev] authority_ref_names [OF aref]
  by (simp add: attests_def attestation_def common_fields_def n py_get_def part_def)

lemma block_blocks:
  assumes "rp_reason_codes dat @ rp_not_measured dat \<noteq> [] \<or> rp_reason_codes aut @ rp_not_measured aut \<noteq> []"
  shows "blocks_artifact (block_receipt (common_fields ev ep ts) dref aref dat aut)"
  using assms by (auto simp: blocks_artifact_def block_receipt_def common_fields_def py_get_def part_def sort_names_Nil)

lemma block_held:
  "part (block_receipt (common_fields ev ep ts) dref aref dat aut) ''refs_withheld'' =
    [(''data'', if rp_verdict dat = PASS then PDict dref else PStr ''withheld: data verifier did not PASS''),
     (''authority'', if rp_verdict aut = PASS then PDict aref else PStr ''withheld: authority verifier did not PASS'')]"
  by (simp add: block_receipt_def common_fields_def py_get_def part_def)

lemma pass_artifact:
  assumes "run_gate {} ev ts = Inr r" "both_pass {} (gr_data r) (gr_authority r)"
  shows "attests ev (gr_artifact r)"
  using assms(1)
proof (rule run_gateE)
  fix aref
  assume d: "verify_data {} ev = Inr (gr_data r)" and a: "verify_authority {} ev = Inr (gr_authority r)"
    and aref: "authority_ref (part ev ''authority'') = Inr aref"
    and art: "gr_artifact r = artifact_of {} ev ts aref (gr_data r) (gr_authority r)"
  have "rp_verdict (finish (rp_checks (gr_data r)) ''data'' {}) = PASS" "rp_verdict (finish (rp_checks (gr_authority r)) ''authority'' {}) = PASS"
    using data_checks [OF d] authority_checks [OF a] assms(2) by (simp_all add: both_pass_def)
  then have "negatives (gr_data r) (gr_authority r) = PList []"
    unfolding negatives_def filter_append by (simp only: passing_negatives append_Nil list.map)
  from attestation_attests [OF aref this] show ?thesis using assms(2) by (simp add: art artifact_of_def Let_def)
qed

lemma block_artifact:
  assumes "run_gate ms ev ts = Inr r" "\<not> both_pass ms (gr_data r) (gr_authority r)"
  shows "blocks_artifact (gr_artifact r)"
  using assms(1)
proof (rule run_gateE)
  fix aref
  assume d: "verify_data ms ev = Inr (gr_data r)" and a: "verify_authority ms ev = Inr (gr_authority r)"
    and art: "gr_artifact r = artifact_of ms ev ts aref (gr_data r) (gr_authority r)"
  note data = data_checks [OF d] and auth = authority_checks [OF a]
  have ne: "rp_checks (gr_data r) \<noteq> []" "rp_checks (gr_authority r) \<noteq> []" using data auth by auto
  have "rp_reason_codes (gr_data r) @ rp_not_measured (gr_data r) \<noteq> [] \<or> rp_reason_codes (gr_authority r) @ rp_not_measured (gr_authority r) \<noteq> []"
    using finish_named [OF conjunct1 [OF data] ne(1)] finish_named [OF conjunct1 [OF auth] ne(2)] data auth assms(2)
    by (simp add: both_pass_def split: if_splits)
  from block_blocks [OF this] show ?thesis using assms(2) by (simp add: art artifact_of_def Let_def)
qed

lemma block_withholds:
  assumes "run_gate {} ev ts = Inr r" "\<not> both_pass {} (gr_data r) (gr_authority r)"
  shows "withholds ev (gr_artifact r)"
  using assms(1)
proof (rule run_gateE)
  fix aref
  assume d: "verify_data {} ev = Inr (gr_data r)" and a: "verify_authority {} ev = Inr (gr_authority r)"
    and aref: "authority_ref (part ev ''authority'') = Inr aref"
    and art: "gr_artifact r = artifact_of {} ev ts aref (gr_data r) (gr_authority r)"
  note ok = verify_data_pass [OF d] verify_authority_pass [OF a]
  have held: "part (gr_artifact r) ''refs_withheld'' =
    [(''data'', if data_ok ev then PDict (data_ref (part ev ''dossier'') (part ev ''data_signer''))
        else PStr ''withheld: data verifier did not PASS''),
     (''authority'', if authority_ok ev then PDict aref else PStr ''withheld: authority verifier did not PASS'')]"
    using assms(2) by (simp add: art artifact_of_def block_held ok)
  have "\<not> (data_ok ev \<and> authority_ok ev)" using assms(2) by (simp add: both_pass_def ok)
  then show ?thesis using data_ref_names [of ev] authority_ref_names [OF aref]
    unfolding withholds_def held Let_def by (simp add: py_get_def)
qed

text \<open>C24. An attestation is minted only with both references, each naming what the evidence names (receipt and
  digest of the dossier with its signer; decision, its digest and its issuer), without a negative
  verdict and with the writer epoch unchanged. Everything else is a block receipt: it has no \<open>refs\<close>,
  leaves the writer epoch alone and names at least one reason; its \<open>refs_withheld\<close> carries the data
  reference exactly when the data are in order and the authority reference exactly when the authority is,
  the fixed refusal text otherwise, and never both references.\<close>

theorem minted_artifact:
  assumes "run_gate {} ev ts = Inr r"
  shows "if gr_outcome r = PStr ''PASS'' then attests ev (gr_artifact r)
    else gr_outcome r = PStr ''BLOCK'' \<and> blocks_artifact (gr_artifact r) \<and> withholds ev (gr_artifact r)"
  using pass_artifact [OF assms] block_artifact [OF assms] block_withholds [OF assms] by (simp add: outcome_cases [OF assms])

subsection \<open>The evidence the tool collects\<close>

lemma collected_conflicts:
  assumes "collect_evidence E ws_head dossier_path model = Inr ev"
  shows "py_get (part (part ev ''conflicts'') ''index'') ''count'' = PNone"
proof -
  obtain imp_path imp conflicts where c: "collect_conflicts E imp_path imp = Inr conflicts" and ev: "part ev ''conflicts'' = conflicts"
    using assms unfolding collect_evidence_def Let_def bindr_Inr by (auto simp: bindr_Inr part_def py_get_def)
  from c have "py_get (part conflicts ''index'') ''count'' = PNone"
    by (auto simp: collect_conflicts_def bindr_Inr Let_def part_def py_get_def)
  with ev show ?thesis by simp
qed

lemma conflicts_unmeasured:
  assumes "verify_data ms ev = Inr rep" and "py_get (part (part ev ''conflicts'') ''index'') ''count'' = PNone"
  shows "''CONFLICTS_PLANE_MISSING'' \<in> set (rp_not_measured rep)"
proof -
  obtain d e mp bc r c02 c06 c08 c09 c10 c15 where c: "D10 (part ev ''conflicts'') = Inr c10"
    and rep: "rep = finish ([D01 ms d] @ c02 @ [D03 e] @ D04 d e @ [D05 ms e] @ c06 @ [c08, c09, c10, D11 ms mp, D12 mp, D13 bc, D14 ms r] @ c15) ''data'' ms"
    using assms(1) unfolding verify_data_def bindr_Inr by (blast dest: sub_Inr)
  have "ck_verdict c10 = NOT_MEASURED \<and> ck_reason c10 = Some ''CONFLICTS_PLANE_MISSING''"
    using c assms(2) by (auto simp: D10_def bindr_Inr PLANES_def Check_def py_get_def dest!: sub_or_Inr)
  then show ?thesis by (simp add: rep finish_def unmeasured_names_def)
qed

text \<open>C34. Whatever the file tree and git hold, the consume command that ends writes a block receipt, reports BLOCK
  and lists the missing conflicts plane as unmeasured: the evidence it collects never carries a conflict
  count of the index plane, so it can never mint an attestation.\<close>

theorem consume_blocks:
  assumes "cmd_consume H E out_dir ts ws_head dossier model = Inr c"
  shows "blocks_artifact (snd (hd (cs_written c))) \<and> py_get (cs_printed c) ''verdict'' = PStr ''BLOCK'' \<and>
    (\<exists>names. py_get (cs_printed c) ''not_measured'' = strs names \<and> ''CONFLICTS_PLANE_MISSING'' \<in> set names)"
proof -
  obtain ev r where ev: "collect_evidence E ws_head dossier (Some model) = Inr ev" and r: "run_gate {} ev ts = Inr r"
    and c: "snd (hd (cs_written c)) = gr_artifact r" "py_get (cs_printed c) ''verdict'' = gr_outcome r"
      "py_get (cs_printed c) ''not_measured'' = strs (sort (remdups (rp_not_measured (gr_data r) @ rp_not_measured (gr_authority r))))"
    using assms unfolding cmd_consume_def Let_def bindr_Inr by (auto simp: py_get_def)
  have d: "verify_data {} ev = Inr (gr_data r)" using r by (auto elim: run_gateE)
  have "rp_verdict (gr_data r) \<noteq> PASS"
    unfolding verify_data_pass [OF d] data_ok_def Let_def by (simp only: collected_conflicts [OF ev] simp_thms)
  then have "\<not> both_pass {} (gr_data r) (gr_authority r)" by (simp add: both_pass_def)
  with block_artifact [OF r] conflicts_unmeasured [OF d collected_conflicts [OF ev]] show ?thesis
    unfolding c outcome_cases [OF r] by auto
qed

subsection \<open>Status classes\<close>

definition int_of :: "pyval \<Rightarrow> int" where
  "int_of v = (case as_int v of Inr i \<Rightarrow> i | Inl _ \<Rightarrow> 0)"

lemma as_int_Inr: "as_int v = Inr i \<Longrightarrow> int_of v = i"
  by (simp add: int_of_def)

definition class_sum :: "('a \<Rightarrow> string option) \<Rightarrow> string \<Rightarrow> ('a \<times> int) list \<Rightarrow> int" where
  "class_sum f c xs = sum_list (map (\<lambda>(k, n). if f k = Some c then n else 0) xs)"

lemma class_sum_simps [simp]:
  "class_sum f c [] = 0" "class_sum f c ((k, n) # xs) = (if f k = Some c then n else 0) + class_sum f c xs"
  by (simp_all add: class_sum_def)

lemma count_projected_rows:
  "count_projected xs rows u = Inr (rows', u') \<Longrightarrow>
    rows' = map (\<lambda>(c, m). (c, m + class_sum class_of c (map (map_prod id int_of) xs))) rows \<and> u' = u @ map fst (filter (\<lambda>x. class_of (fst x) = None) xs)"
proof (induction xs rows u rule: count_projected.induct)
  case (1 rows u)
  then show ?case by auto
next
  case (2 status n xs rows u)
  show ?case
  proof (cases "class_of status")
    case None
    then show ?thesis using 2 by simp
  next
    case (Some a)
    then obtain i where i: "as_int n = Inr i" "count_projected xs (map (\<lambda>(c', m). (c', if c' = a then m + i else m)) rows) u = Inr (rows', u')"
      using 2(3) by (auto simp: bindr_Inr)
    from 2(2) [OF Some i(2)] show ?thesis using Some as_int_Inr [OF i(1)] by (auto simp: comp_def split_beta)
  qed
qed

lemma py_eq_class: "py_eq k k' \<Longrightarrow> class_of k = class_of k'"
  by (cases k; cases k') (auto simp: py_eq_def split: prod.splits)

lemma add_projected_sum: "class_sum class_of c (add_projected k n xs) = class_sum class_of c xs + (if class_of k = Some c then n else 0)"
proof (induction xs)
  case (Cons x xs)
  obtain k' m where x: "x = (k', m)" by (cases x)
  show ?case using Cons py_eq_class [of k' k] by (cases "py_eq k' k") (simp_all add: x)
qed simp

lemma add_projected_nonempty [simp]: "add_projected k n xs \<noteq> []"
  by (cases xs) (auto split: if_splits)

text \<open>The class of a raw value under a status map: through the status it is mapped to.\<close>

definition mapped :: "pydict \<Rightarrow> string \<Rightarrow> bool" where
  "mapped m raw \<longleftrightarrow> py_true (py_get m raw)"

definition raw_class :: "pydict \<Rightarrow> string \<Rightarrow> string option" where
  "raw_class m raw = (if mapped m raw then class_of (py_get (part m raw) ''muneral'') else None)"

lemma projected_key_class:
  "projected_key (py_get m raw) = Inr k \<Longrightarrow> mapped m raw \<Longrightarrow> class_of k = raw_class m raw"
  by (cases "py_get m raw") (auto simp: projected_key_def raw_class_def part_def itemv_def py_get_def bindr_Inr split: option.splits if_splits)

lemma project_raw_sums:
  "project_raw (PDict m) d pr u = Inr (pr', u') \<Longrightarrow>
    (\<forall>c. class_sum class_of c pr' = class_sum class_of c pr + class_sum (raw_class m) c (map (map_prod id int_of) d)) \<and>
    u' = u @ map (PStr \<circ> fst) (filter (\<lambda>x. \<not> mapped m (fst x)) d) \<and> (pr' = [] \<longleftrightarrow> pr = [] \<and> list_all (\<lambda>x. \<not> mapped m (fst x)) d)"
proof (induction "PDict m" d pr u arbitrary: pr' u' rule: project_raw.induct)
  case (1 pr u)
  then show ?case by simp
next
  case (2 raw n xs pr u)
  show ?case
  proof (cases "mapped m raw")
    case True
    then obtain k i where k: "projected_key (py_get m raw) = Inr k" "as_int n = Inr i"
        "project_raw (PDict m) xs (add_projected k i pr) u = Inr (pr', u')"
      using 2(3) by (auto simp: mapped_def bindr_Inr)
    have "\<not> \<not> py_true (py_get m raw)" using True by (simp add: mapped_def)
    note IH = 2(2) [OF this k(3)]
    show ?thesis using IH True projected_key_class [OF k(1) True] by (simp add: add_projected_sum as_int_Inr [OF k(2)])
  next
    case False
    then have f: "\<not> py_true (py_get m raw)" "project_raw (PDict m) xs pr (u @ [PStr raw]) = Inr (pr', u')"
      using 2(3) by (auto simp: mapped_def)
    note IH = 2(1) [OF f]
    show ?thesis using IH False by (simp add: raw_class_def)
  qed
qed

lemma class_rows_get: "c \<in> set CLASS_ROWS \<Longrightarrow> py_get (map (\<lambda>c. (c, f c)) CLASS_ROWS) c = f c"
  by (auto simp: CLASS_ROWS_def STATUS_CLASSES_def py_get_def)

text \<open>Each status class counts exactly the occurrences whose raw value the versioned map sends to a status of
  that class; when no raw value is mapped every class is unknown, never zero. The reported unmapped
  values are those the map does not cover, then the statuses outside the class table.\<close>

theorem classify_raw_counts:
  assumes "classify_raw (PDict d) (PDict m) = Inr (rows, unmapped)" "m \<noteq> []" "c \<in> set CLASS_ROWS"
  shows "py_get rows c = (if list_all (\<lambda>x. \<not> mapped m (fst x)) d then PNone
      else PInt (class_sum (raw_class m) c (map (map_prod id int_of) d))) \<and>
    (\<exists>statuses. unmapped = map (PStr \<circ> fst) (filter (\<lambda>x. \<not> mapped m (fst x)) d) @ statuses \<and> list_all (\<lambda>s. class_of s = None) statuses)"
proof -
  have od: "as_dict (or_dict (PDict d)) = Inr d" by (cases d) (simp_all add: or_dict_def)
  obtain pr u rs us where p: "project_raw (PDict m) d [] [] = Inr (pr, u)" "count_projected (map (map_prod id PInt) pr) (map (\<lambda>c. (c, 0)) CLASS_ROWS) [] = Inr (rs, us)"
    and r: "rows = (if pr = [] then none_rows else map (map_prod id PInt) rs)" "unmapped = u @ us"
    using assms(1,2) unfolding classify_raw_def od by (auto simp: classify_projected_def bindr_Inr split: if_splits)
  note sums = project_raw_sums [OF p(1)] and rows = count_projected_rows [OF p(2)]
  have "map (map_prod id int_of) (map (map_prod id PInt) pr) = pr" by (induction pr) (auto simp: int_of_def)
  then have rs: "map (map_prod id PInt) rs = map (\<lambda>c. (c, PInt (class_sum class_of c pr))) CLASS_ROWS" using rows by (simp add: comp_def)
  have "py_get rows c = (if pr = [] then PNone else PInt (class_sum class_of c pr))"
    unfolding r(1) rs none_rows_def by (simp only: class_rows_get [OF assms(3)] split: if_split) simp
  moreover have "list_all (\<lambda>s. class_of s = None) us" using rows by (auto simp: list_all_iff)
  ultimately show ?thesis using sums r(2) by auto
qed

subsection \<open>Concrete evidence\<close>

lemma not_isl_Inr: "\<not> isl x \<Longrightarrow> x = Inr (projr x)"
  by (cases x) simp_all

definition green0 :: gate_result where
  "green0 = projr (run_gate {} baseline ''t'')"

lemma green0: "run_gate {} baseline ''t'' = Inr green0"
  unfolding green0_def by (rule not_isl_Inr) code_simp

lemma green0_outcome: "gr_outcome green0 = PStr ''PASS''"
  by code_simp


theorem minted_artifact_witness: "attests baseline (gr_artifact green0)"
  using minted_artifact [OF green0] green0_outcome by simp

theorem report_counts_witness: "counts_ok (gr_data green0) \<and> rp_total (gr_data green0) \<le> 20"
  using report_counts [OF green0] by simp

theorem checks_typed_witness:
  "list_all typed_check (rp_checks (gr_data green0) @ rp_checks (gr_authority green0)) \<and>
   (rp_verdict (gr_data green0) = PASS) = (rp_reason_codes (gr_data green0) @ rp_not_measured (gr_data green0) = [])"
  using checks_typed [OF green0] by simp

text \<open>An empty program root.\<close>

definition env0 :: gate_env where
  "env0 = \<lparr>ge_files = [], ge_git = (\<lambda>_. (1, [])), ge_now = ''t'', ge_host = ''h'',
     ge_py = \<lparr>py_fromiso = (\<lambda>_. None), py_float = (\<lambda>_. None), py_repr = (\<lambda>_. [])\<rparr>\<rparr>"

definition blocked0 :: consumed where
  "blocked0 = projr (cmd_consume (\<lambda>_. []) env0 ''out'' ''t'' None None ''m'')"

lemma blocked0: "cmd_consume (\<lambda>_. []) env0 ''out'' ''t'' None None ''m'' = Inr blocked0"
  unfolding blocked0_def by (rule not_isl_Inr) code_simp

theorem consume_blocks_witness:
  "blocks_artifact (snd (hd (cs_written blocked0))) \<and> py_get (cs_printed blocked0) ''verdict'' = PStr ''BLOCK''"
  using consume_blocks [OF blocked0] by simp

definition status_map0 :: pydict where
  "status_map0 = [(''archived'', PDict [(''muneral'', PStr ''archived'')]), (''done'', PDict [(''muneral'', PStr ''done'')])]"

lemma classify0: "classify_raw (PDict [(''archived'', PInt 1351), (''done'', PInt 497), (''weird'', PInt 1)]) (PDict status_map0) =
   Inr ([(''active'', PInt 0), (''planned'', PInt 0), (''completed'', PInt 497), (''cancelled'', PInt 0), (''archived'', PInt 1351)], [PStr ''weird''])"
  by code_simp

end
