(* ===== verification/Graph_Index.thy ===== *)
theory Graph_Index
  imports Pyval "HOL-Library.Product_Lexorder"
begin

section \<open>Graph admission: the relationship graph and its index\<close>

text \<open>
  The part of \<^verbatim>\<open>tools/graph/impact.py\<close> that comes before any traversal: the nodes and edges of a
  RelationshipGraph/v1, the index built over them, the classification of changed files and the path
  predicates. A node or an edge is the record of the fields the tools read; an optional field is an
  option, and a field that is only copied is a Python value. Texts are bytes (UTF-8); the classes
  \<^verbatim>\<open>\d\<close>, \<^verbatim>\<open>\w\<close> and \<^verbatim>\<open>lower()\<close> are Python's on ASCII.
\<close>

subsection \<open>Text\<close>

text \<open>\<open>s.split(c)\<close> for a one-character separator.\<close>

fun split_on :: "char \<Rightarrow> string \<Rightarrow> string list" where
  "split_on c [] = [[]]"
| "split_on c (x # xs) = (if x = c then [] # split_on c xs
     else (case split_on c xs of [] \<Rightarrow> [[x]] | p # ps \<Rightarrow> (x # p) # ps))"

definition starts :: "string \<Rightarrow> string \<Rightarrow> bool" where
  "starts p s \<longleftrightarrow> prefix p s"

definition ends_in :: "string \<Rightarrow> string \<Rightarrow> bool" where
  "ends_in p s \<longleftrightarrow> suffix p s"

text \<open>A \<^verbatim>\<open>$\<close> matches at the end and before a final newline.\<close>

definition chomp :: "string \<Rightarrow> string" where
  "chomp s = (if s \<noteq> [] \<and> last s = CHR 0x0A then butlast s else s)"

definition rstrip_slash :: "string \<Rightarrow> string" where
  "rstrip_slash s = rev (dropWhile (\<lambda>c. c = CHR ''/'') (rev s))"

definition basename :: "string \<Rightarrow> string" where
  "basename p = last (split_on CHR ''/'' p)"

text \<open>\<open>os.path.dirname\<close>: the head before the last slash, without its trailing slashes unless it has nothing else.\<close>

definition dirname :: "string \<Rightarrow> string" where
  "dirname p = (let h = take (length p - length (basename p)) p
     in if list_all (\<lambda>c. c = CHR ''/'') h then h else rstrip_slash h)"

text \<open>\<open>os.path.splitext(p)[1]\<close>: from the last dot of the base name, unless only dots come before it.\<close>

definition ext_of :: "string \<Rightarrow> string" where
  "ext_of p = (let b = rev (basename p); tl_part = takeWhile (\<lambda>c. c \<noteq> CHR ''.'') b; rest = dropWhile (\<lambda>c. c \<noteq> CHR ''.'') b
     in if rest \<noteq> [] \<and> list_ex (\<lambda>c. c \<noteq> CHR ''.'') (tl rest) then CHR ''.'' # rev tl_part else [])"

definition lext :: "string \<Rightarrow> string" where
  "lext p = lower (ext_of p)"

subsection \<open>Nodes, edges and the index\<close>

record gnode =
  n_id :: string
  n_type :: string
  n_path :: "string option"
  n_kind :: "string option"
  n_hash :: string

record gedge =
  e_from :: string
  e_to :: string
  e_type :: string
  e_prov :: string
  e_boundary :: "string option"
  e_extra :: "(string \<times> pyval) list"  \<comment> \<open>\<open>inferred_by\<close>, \<open>observed_at_utc\<close>, \<open>via\<close> where present\<close>

record graph_doc =
  gd_manifest :: "(string \<times> pyval) list"
  gd_nodes :: "gnode list"
  gd_edges :: "gedge list"

record graph_index =
  gi_manifest :: "(string \<times> pyval) list"
  gi_nodes :: "(string \<times> gnode) list"
  gi_rev :: "(string \<times> gedge list) list"
  gi_fwd :: "(string \<times> gedge list) list"
  gi_by_path :: "(string \<times> string list) list"
  gi_deployables :: "(string \<times> string) list"
  gi_deployable_ids :: "(string \<times> string list) list"
  gi_hints :: "(string \<times> string) list"

text \<open>\<open>d.setdefault(k, []).append(x)\<close> and \<open>d.get(k, [])\<close>.\<close>

definition bucket :: "('k \<times> 'v list) list \<Rightarrow> 'k \<Rightarrow> 'v list" where
  "bucket d k = (case map_of d k of None \<Rightarrow> [] | Some xs \<Rightarrow> xs)"

definition push :: "'k \<Rightarrow> 'v \<Rightarrow> ('k \<times> 'v list) list \<Rightarrow> ('k \<times> 'v list) list" where
  "push k x d = AList.update k (bucket d k @ [x]) d"

definition edge_key :: "gedge \<Rightarrow> string \<times> string \<times> string \<times> string" where
  "edge_key e = (e_type e, e_from e, e_to e, e_prov e)"

text \<open>\<open>n.get("path")\<close>, where the empty path counts as none.\<close>

definition path_of :: "gnode \<Rightarrow> string option" where
  "path_of n = (case n_path n of Some (c # cs) \<Rightarrow> Some (c # cs) | _ \<Rightarrow> None)"

definition index_node :: "gnode \<Rightarrow> graph_index \<Rightarrow> graph_index" where
  "index_node n i = (case path_of n of None \<Rightarrow> i
     | Some p \<Rightarrow>
        (let i = i\<lparr>gi_by_path := push p (n_id n) (gi_by_path i)\<rparr>
         in if n_type n = ''deployable_unit''
            then i\<lparr>gi_deployables := AList.update (rstrip_slash p) (n_id n) (gi_deployables i),
                   gi_deployable_ids := push p (n_id n) (gi_deployable_ids i)\<rparr>
            else i))"

definition GraphIndex :: "(string \<times> string) list \<Rightarrow> graph_doc \<Rightarrow> graph_index" where
  "GraphIndex hints doc =
    (let i = \<lparr>gi_manifest = gd_manifest doc,
              gi_nodes = fold (\<lambda>n. AList.update (n_id n) n) (gd_nodes doc) [],
              gi_rev = map (map_prod id (sort_key edge_key)) (fold (\<lambda>e. push (e_to e) e) (gd_edges doc) []),
              gi_fwd = map (map_prod id (sort_key edge_key)) (fold (\<lambda>e. push (e_from e) e) (gd_edges doc) []),
              gi_by_path = [], gi_deployables = [], gi_deployable_ids = [], gi_hints = hints\<rparr>;
         i = fold index_node (gd_nodes doc) i
     in i\<lparr>gi_by_path := map (map_prod id sort) (gi_by_path i),
          gi_deployable_ids := map (map_prod id sort) (gi_deployable_ids i)\<rparr>)"

definition RULES :: "string list" where
  "RULES = [''staleness'', ''dirty_graph'', ''hash_check'', ''unknown_node'', ''global_fallback'', ''scoped_fallback'',
     ''forward_declaration'', ''provenance_split'', ''empty_impact_event'', ''depth_limit'', ''edge_filter'',
     ''seed_declared_nodes'', ''reverse_traversal'']"

definition path_nodes :: "graph_index \<Rightarrow> string \<Rightarrow> string set \<Rightarrow> string list" where
  "path_nodes i p rules =
    (let ids = bucket (gi_by_path i) p
     in if ''seed_declared_nodes'' \<notin> rules
        then filter (\<lambda>x. \<not> (starts ''contract:'' x \<or> starts ''route:'' x \<or> starts ''data_model:'' x)) ids
        else ids)"

subsection \<open>Classification of changed files\<close>

definition LOCKFILES :: "string list" where
  "LOCKFILES = [''pnpm-lock.yaml'', ''package-lock.json'', ''yarn.lock'', ''npm-shrinkwrap.json'', ''Cargo.lock'',
     ''poetry.lock'', ''uv.lock'', ''bun.lockb'', ''bun.lock'']"

definition GLOBAL_ROOT_FILES :: "string list" where
  "GLOBAL_ROOT_FILES = [''package.json'', ''nx.json'', ''turbo.json'', ''pnpm-workspace.yaml'', ''lerna.json'', ''.npmrc'',
     ''.nvmrc'', ''.env.example'', ''.env.schema'', ''.env.template'', ''env.schema.json'']"

definition CODE_EXTS :: "string list" where
  "CODE_EXTS = [''.ts'', ''.tsx'', ''.js'', ''.jsx'', ''.mjs'', ''.cjs'', ''.mts'', ''.cts'']"

definition DOC_EXTS :: "string list" where
  "DOC_EXTS = [''.md'', ''.mdx'', ''.rst'', ''.txt'', ''.adoc'']"

definition CONFIG_EXTS :: "string list" where
  "CONFIG_EXTS = [''.json'', ''.yml'', ''.yaml'', ''.toml'', ''.ini'', ''.env'', ''.cfg'', ''.conf'', ''.properties'']"

definition FALLBACK_KINDS :: "string list" where
  "FALLBACK_KINDS = [''lockfile'', ''global_config'']"

definition DOC_KINDS :: "string list" where
  "DOC_KINDS = [''doc'', ''receipt'']"

text \<open>\<open>TEST_RE.search\<close>: a path component that names tests, or a test suffix.\<close>

definition TEST_DIRS :: "string list" where
  "TEST_DIRS = [''test'', ''tests'', ''__tests__'', ''e2e'', ''spec'']"

definition TEST_SUFFIXES :: "string list" where
  "TEST_SUFFIXES = [''.'' @ a @ ''.'' @ b @ c @ ''s'' @ d. a \<leftarrow> [''spec'', ''test''], b \<leftarrow> [[], ''c'', ''m''],
     c \<leftarrow> [''j'', ''t''], d \<leftarrow> [[], ''x'']]"

definition TEST_RE :: "string \<Rightarrow> bool" where
  "TEST_RE p \<longleftrightarrow> list_ex (\<lambda>x. x \<in> set TEST_DIRS) (split_on CHR ''/'' p) \<or> basename (chomp p) \<in> set TEST_DIRS
     \<or> list_ex (\<lambda>s. ends_in s p \<or> ends_in s (chomp p)) TEST_SUFFIXES"

text \<open>\<open>re.search(r"(^|/)prisma/migrations/.*\.sql$", path)\<close>; the dot matches no newline.\<close>

definition migration_here :: "string \<Rightarrow> bool" where
  "migration_here s \<longleftrightarrow> starts ''prisma/migrations/'' s \<and>
     (let r = chomp (drop 18 s) in CHR 0x0A \<notin> set r \<and> ends_in ''.sql'' r)"

fun migration_re :: "bool \<Rightarrow> string \<Rightarrow> bool" where
  "migration_re at_start [] = False"
| "migration_re at_start (c # cs) = (at_start \<and> migration_here (c # cs) \<or> migration_re (c = CHR ''/'') cs)"

definition has_docs_dir :: "string \<Rightarrow> bool" where
  "has_docs_dir p \<longleftrightarrow> sublist ''/docs/'' p"

definition types_at :: "graph_index \<Rightarrow> string \<Rightarrow> string list" where
  "types_at i p = List.map_filter (\<lambda>x. map_option n_type (map_of (gi_nodes i) x)) (bucket (gi_by_path i) p)"

definition bash_source_at :: "graph_index \<Rightarrow> string \<Rightarrow> bool" where
  "bash_source_at i p \<longleftrightarrow> list_ex (\<lambda>x. case map_of (gi_nodes i) x of None \<Rightarrow> False | Some n \<Rightarrow> n_kind n = Some ''bash_source'')
     (bucket (gi_by_path i) p)"

definition classify_file :: "string \<Rightarrow> graph_index option \<Rightarrow> string" where
  "classify_file p idx =
    (let base = basename p; ext = lower (ext_of base); is_root = (CHR ''/'' \<notin> set p);
         types = (case idx of None \<Rightarrow> [] | Some i \<Rightarrow> types_at i p)
     in if base \<in> set LOCKFILES then ''lockfile''
        else if is_root \<and> (base \<in> set GLOBAL_ROOT_FILES \<or> starts ''tsconfig'' base \<and> ext = ''.json'') then ''global_config''
        else if starts ''receipts/'' p \<and> ext = ''.json'' then ''receipt''
        else if ext = ''.prisma'' \<or> migration_re True p then ''data_model''
        else if ext = ''.bats'' \<or> TEST_RE p \<and> (ext \<in> set CODE_EXTS \<or> ext \<in> set [''.json'', ''.py'', ''.sh'', ''.bash'']) then ''test''
        else if ''systemd_unit'' \<in> set types then ''systemd_unit''
        else if ''source_file'' \<in> set types then ''source_file''
        else if ''contract'' \<in> set types then ''contract''
        else if ''route'' \<in> set types then ''route''
        else if ext \<in> set DOC_EXTS \<or> starts ''docs/'' p \<or> has_docs_dir p then ''doc''
        else if ext \<in> set CODE_EXTS \<or> ext \<in> set [''.sh'', ''.bash''] \<or> (case idx of None \<Rightarrow> False | Some i \<Rightarrow> bash_source_at i p) then ''code''
        else if ext \<in> set CONFIG_EXTS \<or> starts ''.env'' base \<or> base = ''Dockerfile'' \<or> starts ''.github/'' p then ''config''
        else ''other'')"

subsection \<open>Paths and deployable roots\<close>

definition control_char :: "char \<Rightarrow> bool" where
  "control_char c \<longleftrightarrow> of_char c < (32 :: nat) \<or> of_char c = (127 :: nat)"

definition safe_relative_path :: "string \<Rightarrow> bool \<Rightarrow> string option" where
  "safe_relative_path p root =
    (if p = [] \<or> CHR 0x5C \<in> set p \<or> CHR '':'' \<in> set p then None
     else if list_ex control_char p then None
     else if root \<and> p = ''.'' then Some ''.''
     else if starts ''/'' p then None
     else if list_ex (\<lambda>x. x \<in> set [[], ''.'', ''..'']) (split_on CHR ''/'' p) then None
     else Some (join ''/'' (split_on CHR ''/'' p)))"

definition root_match :: "string \<Rightarrow> string \<Rightarrow> (nat \<times> string) option" where
  "root_match rel raw = (case safe_relative_path raw True of None \<Rightarrow> None
     | Some root \<Rightarrow> if root = ''.'' \<or> starts (root @ ''/'') rel
         then Some (if root = ''.'' then 0 else length (split_on CHR ''/'' root), root) else None)"

definition deployable_root_for_uncovered :: "graph_index \<Rightarrow> string \<Rightarrow> string option" where
  "deployable_root_for_uncovered i p = (case safe_relative_path p False of None \<Rightarrow> None
     | Some rel \<Rightarrow>
        (let matches = List.map_filter (root_match rel) (map fst (gi_deployable_ids i))
         in if matches = [] then None
            else let deepest = Max (fst ` set matches);
                     roots = sort (remdups (map snd (filter (\<lambda>m. fst m = deepest) matches)))
                 in if length roots \<noteq> 1 \<or> length (bucket (gi_deployable_ids i) (hd roots)) \<noteq> 1 then None
                    else Some (hd roots)))"

definition is_deployable_asset_path :: "string \<Rightarrow> bool" where
  "is_deployable_asset_path p = (case safe_relative_path p False of None \<Rightarrow> False
     | Some rel \<Rightarrow> lext rel \<in> set [''.php'', ''.css''] \<or>
         lext rel = ''.json'' \<and> list_ex (\<lambda>x. x \<in> set [''locale'', ''locales'']) (butlast (split_on CHR ''/'' rel)))"

text \<open>\<open>re.fullmatch(r"tsconfig(?:\.[\w.-]+)?\.json", name)\<close>\<close>

definition tsconfig_name :: "string \<Rightarrow> bool" where
  "tsconfig_name b \<longleftrightarrow> 13 \<le> length b \<and> starts ''tsconfig'' b \<and> ends_in ''.json'' b \<and>
     (let mid = take (length b - 13) (drop 8 b)
      in mid = [] \<or> hd mid = CHR ''.'' \<and> tl mid \<noteq> [] \<and> list_all (\<lambda>c. isalnum c \<or> c \<in> set ''_.-'') (tl mid))"

end
