(* ===== verification/Graph_Search.thy ===== *)
theory Graph_Search
  imports Graph_Index "HOL-Library.Multiset"
begin

section \<open>Graph admission: the traversal\<close>

text \<open>
  \<open>neighbours\<close> and \<open>traverse\<close> of \<^verbatim>\<open>tools/graph/impact.py\<close>: a best-first search over reverse edges and
  forward declarations that keeps, per node, the path with the fewest inferred or observed hops and
  among these the shortest. The heap is the sorted list of its entries (\<open>heappush\<close> inserts, \<open>heappop\<close>
  takes the least). The loop of the source is a recursion; it ends because every push makes the label
  of some node smaller.
\<close>

subsection \<open>Hops\<close>

record hop =
  h_from :: string
  h_to :: string
  h_type :: string
  h_prov :: string
  h_boundary :: "string option"
  h_extra :: "(string \<times> pyval) list"

definition hop_of :: "gedge \<Rightarrow> hop" where
  "hop_of e = \<lparr>h_from = e_from e, h_to = e_to e, h_type = e_type e, h_prov = e_prov e,
     h_boundary = e_boundary e, h_extra = e_extra e\<rparr>"

definition BOUNDARY_RANK :: "string \<Rightarrow> nat" where
  "BOUNDARY_RANK b = (if b = ''service'' then 1 else if b = ''repo'' then 2 else 0)"

definition max_boundary :: "string \<Rightarrow> string option \<Rightarrow> string" where
  "max_boundary a b =
    (let b = (case b of Some (c # cs) \<Rightarrow> c # cs | _ \<Rightarrow> ''intra_unit'')
     in if BOUNDARY_RANK b \<le> BOUNDARY_RANK a then a else b)"

definition FORWARD_TYPES :: "string list" where
  "FORWARD_TYPES = [''provides_route'', ''implements_contract'', ''maps_model'', ''deploys_to'']"

text \<open>The arguments of a traversal that stay fixed while it runs.\<close>

record search =
  s_idx :: graph_index
  s_seeds :: "string set"
  s_max_depth :: "int option"
  s_edge_types :: "string set option"
  s_rules :: "string set"
  s_open :: "string set"

definition type_allowed :: "search \<Rightarrow> gedge \<Rightarrow> bool" where
  "type_allowed S e \<longleftrightarrow> (case s_edge_types S of None \<Rightarrow> True | Some ts \<Rightarrow> e_type e \<in> ts)"

definition reverse_hops :: "search \<Rightarrow> string \<Rightarrow> (gedge \<times> string) list" where
  "reverse_hops S node = map (\<lambda>e. (e, e_from e))
     (filter (\<lambda>e. type_allowed S e \<and> (e_type e = ''deploys_to'' \<longrightarrow> node \<in> s_open S)) (bucket (gi_rev (s_idx S)) node))"

definition declares :: "gnode \<Rightarrow> gedge \<Rightarrow> gnode \<Rightarrow> bool" where
  "declares src e tgt \<longleftrightarrow> e_type e \<in> set [''provides_route'', ''deploys_to''] \<or>
     n_type src = ''code_unit'' \<and>
       (n_path tgt = n_path src \<or>
        path_of tgt = None \<and> (e_type e = ''implements_contract'' \<or>
          ends_in ''.prisma'' (case n_path src of None \<Rightarrow> [] | Some p \<Rightarrow> p)))"

definition forward_hops :: "search \<Rightarrow> string \<Rightarrow> gnode \<Rightarrow> (gedge \<times> string) list" where
  "forward_hops S node src = map (\<lambda>e. (e, e_to e))
     (filter (\<lambda>e. e_type e \<in> set FORWARD_TYPES \<and> type_allowed S e \<and>
        (case map_of (gi_nodes (s_idx S)) (e_to e) of None \<Rightarrow> False | Some tgt \<Rightarrow> declares src e tgt))
       (bucket (gi_fwd (s_idx S)) node))"

definition neighbours :: "search \<Rightarrow> string \<Rightarrow> (gedge \<times> string) list result" where
  "neighbours S node =
    (let rv = (if ''reverse_traversal'' \<in> s_rules S then reverse_hops S node else [])
     in if ''forward_declaration'' \<in> s_rules S
        then (case map_of (gi_nodes (s_idx S)) node of None \<Rightarrow> Inl KeyError
              | Some src \<Rightarrow> Inr (rv @ forward_hops S node src))
        else Inr rv)"

subsection \<open>The search loop\<close>

type_synonym label = "nat \<times> nat \<times> hop list \<times> string"
type_synonym labels = "(string \<times> label) list"
type_synonym heap = "(nat \<times> nat \<times> string) list"

definition weight :: "search \<Rightarrow> gedge \<Rightarrow> nat" where
  "weight S e = (if e_prov e = ''deterministic'' \<or> ''provenance_split'' \<notin> s_rules S then 0 else 1)"

definition label_key :: "label \<Rightarrow> nat \<times> nat" where
  "label_key l = (fst l, fst (snd l))"

text \<open>The key that a hop \<open>e\<close> gives to its target, and whether it improves the label there.\<close>

definition hop_key :: "search \<Rightarrow> gedge \<Rightarrow> nat \<times> nat \<Rightarrow> nat \<times> nat" where
  "hop_key S e k = (fst k + weight S e, snd k + 1)"

definition improves :: "nat \<times> nat \<Rightarrow> label option \<Rightarrow> bool" where
  "improves k l = (case l of None \<Rightarrow> True | Some l \<Rightarrow> k < label_key l)"

definition relax :: "search \<Rightarrow> string \<Rightarrow> label \<Rightarrow> gedge \<times> string \<Rightarrow> labels \<times> heap \<Rightarrow> labels \<times> heap" where
  "relax S node l en bh = (case (l, en, bh) of ((nd, dep, path, bd), (e, nxt), (best, heap)) \<Rightarrow>
     if nxt \<in> s_seeds S \<or> nxt = node then (best, heap)
     else case hop_key S e (nd, dep) of (nd', dep') \<Rightarrow>
       if improves (nd', dep') (map_of best nxt)
       then (AList.update nxt (nd', dep', path @ [hop_of e], max_boundary bd (e_boundary e)) best,
             insort (nd', dep', nxt) heap)
       else (best, heap))"

definition depth_reached :: "int option \<Rightarrow> nat \<Rightarrow> bool" where
  "depth_reached md dep = (case md of None \<Rightarrow> False | Some m \<Rightarrow> m \<le> int dep)"

text \<open>The nodes an edge of the index can lead to, and the labels they carry; a node without a label counts
  more than any label.\<close>

definition all_edges :: "('k \<times> gedge list) list \<Rightarrow> gedge set" where
  "all_edges d = \<Union> (set ` snd ` set d)"

definition ends_of :: "graph_index \<Rightarrow> string set" where
  "ends_of i = e_from ` all_edges (gi_rev i) \<union> e_to ` all_edges (gi_fwd i)"

definition label_rank :: "label option \<Rightarrow> nat \<times> nat \<times> nat" where
  "label_rank l = (case l of None \<Rightarrow> (1, 0, 0) | Some l \<Rightarrow> (0, fst (label_key l), snd (label_key l)))"

definition ranks :: "graph_index \<Rightarrow> labels \<Rightarrow> (nat \<times> nat \<times> nat) multiset" where
  "ranks i best = image_mset (\<lambda>n. label_rank (map_of best n)) (mset_set (ends_of i))"

definition rank_rel :: "((nat \<times> nat \<times> nat) \<times> (nat \<times> nat \<times> nat)) set" where
  "rank_rel = less_than <*lex*> less_than <*lex*> less_than"

lemma wf_rank_rel: "wf rank_rel"
  by (auto simp: rank_rel_def)

lemma improves_rank:
  "improves k l \<Longrightarrow> (label_rank (Some (fst k, snd k, p, b)), label_rank l) \<in> rank_rel"
  by (cases l; cases k) (auto simp: improves_def label_rank_def label_key_def rank_rel_def less_prod_def)

lemma finite_ends: "finite (ends_of i)"
  by (auto simp: ends_of_def all_edges_def)

lemma bucket_in: "e \<in> set (bucket d k) \<Longrightarrow> e \<in> all_edges d"
  by (cases "map_of d k") (auto simp: bucket_def all_edges_def dest!: map_of_SomeD intro!: bexI [of _ "(k, _)"])

lemma neighbours_cases:
  assumes "neighbours S node = Inr es" "(e, nxt) \<in> set es"
  shows "e \<in> set (bucket (gi_rev (s_idx S)) node) \<and> nxt = e_from e \<or> e \<in> set (bucket (gi_fwd (s_idx S)) node) \<and> nxt = e_to e"
proof -
  have "(e, nxt) \<in> set (reverse_hops S node) \<or> (\<exists>src. (e, nxt) \<in> set (forward_hops S node src))"
    using assms unfolding neighbours_def Let_def by (auto split: if_splits option.splits)
  then show ?thesis unfolding reverse_hops_def forward_hops_def by auto
qed

lemma neighbours_ends:
  assumes "neighbours S node = Inr es" "(e, nxt) \<in> set es"
  shows "nxt \<in> ends_of (s_idx S)"
  using neighbours_cases [OF assms]
proof (elim disjE conjE)
  assume "e \<in> set (bucket (gi_rev (s_idx S)) node)" "nxt = e_from e"
  then show ?thesis by (auto simp: ends_of_def dest!: bucket_in)
next
  assume "e \<in> set (bucket (gi_fwd (s_idx S)) node)" "nxt = e_to e"
  then show ?thesis by (auto simp: ends_of_def dest!: bucket_in)
qed

lemma ranks_update:
  assumes "n \<in> ends_of i" "(label_rank (Some l), label_rank (map_of best n)) \<in> rank_rel"
  shows "(ranks i (AList.update n l best), ranks i best) \<in> mult rank_rel"
proof -
  let ?N = "mset_set (ends_of i - {n})"
  have m: "mset_set (ends_of i) = add_mset n ?N"
    using assms(1) by (simp add: finite_ends mset_set.remove)
  have "image_mset (\<lambda>x. label_rank (map_of (AList.update n l best) x)) ?N = image_mset (\<lambda>x. label_rank (map_of best x)) ?N"
    by (rule image_mset_cong) (auto simp: finite_ends map_of_update)
  then have *: "ranks i (AList.update n l best) = image_mset (\<lambda>x. label_rank (map_of best x)) ?N + {#label_rank (Some l)#}"
    "ranks i best = image_mset (\<lambda>x. label_rank (map_of best x)) ?N + {#label_rank (map_of best n)#}"
    by (simp_all add: ranks_def m)
  show ?thesis unfolding * by (rule one_step_implies_mult) (use assms(2) in auto)
qed

lemma relax_ranks:
  assumes "(snd en) \<in> ends_of (s_idx S)"
  shows "relax S node l en (best, heap) = (best, heap) \<or>
    (ranks (s_idx S) (fst (relax S node l en (best, heap))), ranks (s_idx S) best) \<in> mult rank_rel"
  using assms improves_rank
  by (cases l; cases en) (auto simp: relax_def hop_key_def intro!: ranks_update split: prod.split)

lemma relax_all_ranks:
  assumes "\<And>en. en \<in> set es \<Longrightarrow> snd en \<in> ends_of (s_idx S)"
  shows "fold (relax S node l) es bh = bh \<or>
    (ranks (s_idx S) (fst (fold (relax S node l) es bh)), ranks (s_idx S) (fst bh)) \<in> mult rank_rel"
  using assms
proof (induction es arbitrary: bh)
  case (Cons en es)
  obtain best heap where bh: "bh = (best, heap)" by fastforce
  let ?r = "relax S node l en bh"
  have "?r = bh \<or> (ranks (s_idx S) (fst ?r), ranks (s_idx S) (fst bh)) \<in> mult rank_rel"
    using relax_ranks [of en S node l best heap] Cons.prems by (simp add: bh)
  moreover have "fold (relax S node l) es ?r = ?r \<or>
      (ranks (s_idx S) (fst (fold (relax S node l) es ?r)), ranks (s_idx S) (fst ?r)) \<in> mult rank_rel"
    using Cons.IH Cons.prems by simp
  ultimately show ?case
  proof (elim disjE)
    assume "(ranks (s_idx S) (fst ?r), ranks (s_idx S) (fst bh)) \<in> mult rank_rel"
      "(ranks (s_idx S) (fst (fold (relax S node l) es ?r)), ranks (s_idx S) (fst ?r)) \<in> mult rank_rel"
    from trancl_trans [OF this(2) [unfolded mult_def] this(1) [unfolded mult_def]]
    show ?thesis by (simp add: mult_def)
  qed simp_all
qed simp

function traverse_loop :: "search \<Rightarrow> labels \<Rightarrow> heap \<Rightarrow> labels result" where
  "traverse_loop S best [] = Inr best"
| "traverse_loop S best ((nd, dep, node) # heap) =
     (case map_of best node of None \<Rightarrow> Inl KeyError
      | Some l \<Rightarrow>
          if label_key l \<noteq> (nd, dep) then traverse_loop S best heap
          else if depth_reached (s_max_depth S) dep then traverse_loop S best heap
          else (case neighbours S node of Inl e \<Rightarrow> Inl e
                | Inr es \<Rightarrow> traverse_loop S (fst (fold (relax S node l) es (best, heap)))
                    (snd (fold (relax S node l) es (best, heap)))))"
  by pat_completeness auto
termination
proof (relation "inv_image (mult rank_rel <*lex*> less_than) (\<lambda>(S, best, heap). (ranks (s_idx S) best, length heap))",
    goal_cases)
  case 1
  show ?case by (intro wf_inv_image wf_lex_prod wf_mult wf_rank_rel wf_less_than)
next
  case (4 S best nd dep node heap l es)
  have "snd en \<in> ends_of (s_idx S)" if "en \<in> set es" for en
    using neighbours_ends [OF 4(4), of "fst en" "snd en"] that by simp
  from relax_all_ranks [of es S node l "(best, heap)", OF this] show ?case
    by (cases "fold (relax S node l) es (best, heap)") (auto simp: in_lex_prod)
qed auto

definition init_labels :: "string list \<Rightarrow> labels" where
  "init_labels seeds = map (\<lambda>s. (s, (0, 0, [], ''intra_unit''))) seeds"

definition init_heap :: "string list \<Rightarrow> heap" where
  "init_heap seeds = foldr (\<lambda>s. insort (0, 0, s)) seeds []"

subsection \<open>The entries of a traversal\<close>

record entry =
  en_entity :: string
  en_node_type :: string
  en_depth :: nat
  en_boundary :: string
  en_path :: "hop list"
  en_hint :: string

definition entry_of :: "graph_index \<Rightarrow> string \<times> label \<Rightarrow> entry result" where
  "entry_of i nl = (case nl of (nid, nd, dep, path, bd) \<Rightarrow>
     (case map_of (gi_nodes i) nid of None \<Rightarrow> Inl KeyError
      | Some n \<Rightarrow> if path = [] then Inl IndexError
          else Inr \<lparr>en_entity = nid, en_node_type = n_type n, en_depth = dep, en_boundary = bd, en_path = path,
            en_hint = (case map_of (gi_hints i) (h_type (last path)) of None \<Rightarrow> [] | Some h \<Rightarrow> h)\<rparr>))"

definition entries_of :: "search \<Rightarrow> labels \<Rightarrow> entry list result" where
  "entries_of S best = mapr (entry_of (s_idx S)) (filter (\<lambda>nl. fst nl \<notin> s_seeds S) (sort_key fst best))"

definition search_of ::
  "graph_index \<Rightarrow> string list \<Rightarrow> int option \<Rightarrow> string set option \<Rightarrow> string set \<Rightarrow> string set \<Rightarrow> search" where
  "search_of i seeds max_depth edge_types rules open_containment =
    \<lparr>s_idx = i, s_seeds = set seeds, s_max_depth = (if ''depth_limit'' \<in> rules then max_depth else None),
     s_edge_types = edge_types, s_rules = rules, s_open = open_containment\<rparr>"

definition traverse ::
  "graph_index \<Rightarrow> string list \<Rightarrow> int option \<Rightarrow> string set option \<Rightarrow> string set \<Rightarrow> string set \<Rightarrow> entry list result" where
  "traverse i seeds max_depth edge_types rules open_containment =
    (let S = search_of i seeds max_depth edge_types rules open_containment; ss = sort (remdups seeds)
     in bindr (traverse_loop S (init_labels ss) (init_heap ss)) (entries_of S))"

end
