(* ===== verification/Graph_Search_Props.thy ===== *)
theory Graph_Search_Props
  imports Graph_Search
begin

section \<open>What the traversal finds\<close>

text \<open>
  A walk goes from a seed along hops of \<open>neighbours\<close>. The labels of the search are walks, the labels
  that are no longer on the heap have handed their key on (\<open>relaxed\<close>) or stand at the depth limit, and
  so every walk is matched by a label at most as heavy as long as the limit is not met on the way. The
  order of the heap plays no part in that. Where the limit is met, a node may be labelled by a long
  deterministic path, not be expanded, and hide what a short inferred path through it would reach.
\<close>

subsection \<open>Walks\<close>

inductive walk :: "search \<Rightarrow> string \<Rightarrow> gedge list \<Rightarrow> bool" for S where
  start: "n \<in> s_seeds S \<Longrightarrow> walk S n []"
| hop: "walk S n es \<Longrightarrow> neighbours S n = Inr xs \<Longrightarrow> (e, m) \<in> set xs \<Longrightarrow> walk S m (es @ [e])"

inductive_cases walk_NilE: "walk S n []"

definition walk_key :: "search \<Rightarrow> gedge list \<Rightarrow> nat \<times> nat" where
  "walk_key S es = (sum_list (map (weight S) es), length es)"

definition walk_boundary :: "gedge list \<Rightarrow> string" where
  "walk_boundary es = foldl max_boundary ''intra_unit'' (map e_boundary es)"

lemma walk_key_simps [simp]:
  "walk_key S [] = (0, 0)" "walk_key S (es @ [e]) = hop_key S e (walk_key S es)"
  by (simp_all add: walk_key_def hop_key_def)

lemma snd_walk_key [simp]: "snd (walk_key S es) = length es"
  by (simp add: walk_key_def)

lemma walk_boundary_simps [simp]:
  "walk_boundary [] = ''intra_unit''" "walk_boundary (es @ [e]) = max_boundary (walk_boundary es) (e_boundary e)"
  by (simp_all add: walk_boundary_def)

lemma hop_key_mono: "k \<le> k' \<Longrightarrow> hop_key S e k \<le> hop_key S e k'"
  by (auto simp: hop_key_def less_eq_prod_def)

lemma hop_key_less: "k < hop_key S e k"
  by (cases k) (simp add: hop_key_def less_prod_def)

subsection \<open>Well-formed searches\<close>

definition wf_index :: "graph_index \<Rightarrow> bool" where
  "wf_index i \<longleftrightarrow> ends_of i \<subseteq> dom (map_of (gi_nodes i))"

definition search_ok :: "search \<Rightarrow> bool" where
  "search_ok S \<longleftrightarrow> wf_index (s_idx S) \<and> s_seeds S \<subseteq> dom (map_of (gi_nodes (s_idx S)))"

lemma neighbours_total: "n \<in> dom (map_of (gi_nodes (s_idx S))) \<Longrightarrow> \<exists>es. neighbours S n = Inr es"
  by (auto simp: neighbours_def Let_def)

subsection \<open>The invariant of the search\<close>

definition label_ok :: "search \<Rightarrow> string \<Rightarrow> label \<Rightarrow> bool" where
  "label_ok S n l \<longleftrightarrow> (\<exists>es. walk S n es \<and> l = (fst (walk_key S es), length es, map hop_of es, walk_boundary es) \<and>
     (es = [] \<longleftrightarrow> n \<in> s_seeds S) \<and> (\<forall>D. s_max_depth S = Some D \<and> es \<noteq> [] \<longrightarrow> int (length es) \<le> D))"

definition reaches :: "labels \<Rightarrow> string \<Rightarrow> nat \<times> nat \<Rightarrow> bool" where
  "reaches best m k \<longleftrightarrow> (\<exists>l. map_of best m = Some l \<and> label_key l \<le> k)"

definition relaxed :: "search \<Rightarrow> labels \<Rightarrow> string \<Rightarrow> label \<Rightarrow> bool" where
  "relaxed S best n l \<longleftrightarrow>
     (\<forall>es e m. neighbours S n = Inr es \<and> (e, m) \<in> set es \<longrightarrow> reaches best m (hop_key S e (label_key l)))"

definition settled :: "search \<Rightarrow> labels \<Rightarrow> heap \<Rightarrow> string \<Rightarrow> label \<Rightarrow> bool" where
  "settled S best heap n l \<longleftrightarrow> (fst l, fst (snd l), n) \<in> set heap \<or> depth_reached (s_max_depth S) (fst (snd l)) \<or> relaxed S best n l"

text \<open>The invariant, with the nodes of \<open>X\<close> exempt from being settled.\<close>

definition sinv :: "search \<Rightarrow> string set \<Rightarrow> labels \<Rightarrow> heap \<Rightarrow> bool" where
  "sinv S X best heap \<longleftrightarrow> distinct (map fst best) \<and>
     (\<forall>s\<in>s_seeds S. map_of best s = Some (0, 0, [], ''intra_unit'')) \<and>
     (\<forall>n l. map_of best n = Some l \<longrightarrow> label_ok S n l \<and> n \<in> dom (map_of (gi_nodes (s_idx S))) \<and> (n \<notin> X \<longrightarrow> settled S best heap n l)) \<and>
     (\<forall>x\<in>set heap. snd (snd x) \<in> dom (map_of best))"

definition finer :: "labels \<Rightarrow> labels \<Rightarrow> bool" where
  "finer b a \<longleftrightarrow> (\<forall>n k. reaches a n k \<longrightarrow> reaches b n k)"

lemma finer_refl [simp]: "finer a a"
  by (simp add: finer_def)

lemma finerD: "finer b a \<Longrightarrow> reaches a n k \<Longrightarrow> reaches b n k"
  by (cases k) (simp add: finer_def)

lemma reaches_mono: "reaches b n k \<Longrightarrow> k \<le> k' \<Longrightarrow> reaches b n k'"
  unfolding reaches_def using order_trans by blast

lemma finer_trans: "finer c b \<Longrightarrow> finer b a \<Longrightarrow> finer c a"
  by (simp add: finer_def)

lemma finer_relaxed: "finer b a \<Longrightarrow> relaxed S a n l \<Longrightarrow> relaxed S b n l"
  unfolding finer_def relaxed_def by blast

lemma finer_update:
  assumes "improves (label_key l) (map_of a m)"
  shows "finer (AList.update m l a) a"
  unfolding finer_def
proof (intro allI impI)
  fix n k
  assume r: "reaches a n k"
  show "reaches (AList.update m l a) n k"
  proof (cases "n = m")
    case True
    with r obtain l' where "map_of a m = Some l'" "label_key l' \<le> k" by (auto simp: reaches_def)
    with assms have "label_key l \<le> k" by (simp add: improves_def)
    with True show ?thesis by (simp add: reaches_def)
  qed (use r in \<open>auto simp: reaches_def\<close>)
qed

subsection \<open>One hop\<close>

lemma label_ok_hop:
  assumes ok: "label_ok S node (nd, dep, path, bd)" and m: "m \<notin> s_seeds S" "neighbours S node = Inr xs" "(e, m) \<in> set xs"
    and nd: "\<not> depth_reached (s_max_depth S) dep"
  shows "label_ok S m (fst (hop_key S e (nd, dep)), snd (hop_key S e (nd, dep)), path @ [hop_of e], max_boundary bd (e_boundary e))"
proof -
  from ok obtain es where es: "walk S node es" "nd = fst (walk_key S es)" "dep = length es" "path = map hop_of es"
    "bd = walk_boundary es" by (auto simp: label_ok_def)
  have "walk S m (es @ [e])" using es(1) m(2,3) by (rule walk.hop)
  moreover have "int (length (es @ [e])) \<le> D" if "s_max_depth S = Some D" for D
    using nd that es(3) by (simp add: depth_reached_def)
  moreover have "walk_key S es = (nd, dep)" using es by (simp add: walk_key_def)
  ultimately show ?thesis
    unfolding label_ok_def using m(1) es by (intro exI [of _ "es @ [e]"]) (auto simp: hop_key_def)
qed

lemma settled_heap: "settled S best heap n l \<Longrightarrow> finer best' best \<Longrightarrow> set heap \<subseteq> set heap' \<Longrightarrow> settled S best' heap' n l"
  unfolding settled_def using finer_relaxed by blast

lemma sinvD:
  assumes "sinv S X best heap"
  shows "distinct (map fst best)" "s \<in> s_seeds S \<Longrightarrow> map_of best s = Some (0, 0, [], ''intra_unit'')"
    "map_of best n = Some l \<Longrightarrow> label_ok S n l" "map_of best n = Some l \<Longrightarrow> n \<in> dom (map_of (gi_nodes (s_idx S)))"
    "map_of best n = Some l \<Longrightarrow> n \<notin> X \<Longrightarrow> settled S best heap n l"
    "x \<in> set heap \<Longrightarrow> snd (snd x) \<in> dom (map_of best)"
  using assms unfolding sinv_def by blast+

lemma sinvI:
  assumes "distinct (map fst best)" "\<And>s. s \<in> s_seeds S \<Longrightarrow> map_of best s = Some (0, 0, [], ''intra_unit'')"
    and "\<And>n l. map_of best n = Some l \<Longrightarrow> label_ok S n l"
    and "\<And>n l. map_of best n = Some l \<Longrightarrow> n \<in> dom (map_of (gi_nodes (s_idx S)))"
    and "\<And>n l. map_of best n = Some l \<Longrightarrow> n \<notin> X \<Longrightarrow> settled S best heap n l"
    and "\<And>x. x \<in> set heap \<Longrightarrow> snd (snd x) \<in> dom (map_of best)"
  shows "sinv S X best heap"
  using assms unfolding sinv_def by blast

text \<open>Another heap or other exemptions: only what is settled has to be shown again.\<close>

lemma sinv_again:
  assumes "sinv S X best heap" "set heap' \<subseteq> set heap"
    and "\<And>n l. map_of best n = Some l \<Longrightarrow> n \<notin> X' \<Longrightarrow> settled S best heap' n l"
  shows "sinv S X' best heap'"
  by (rule sinvI) (use assms in \<open>auto dest: sinvD\<close>)

lemma relax_unfold:
  "relax S node (nd, dep, path, bd) (e, m) (best, heap) =
    (if m \<in> s_seeds S \<or> m = node \<or> \<not> improves (hop_key S e (nd, dep)) (map_of best m) then (best, heap)
     else (AList.update m (fst (hop_key S e (nd, dep)), snd (hop_key S e (nd, dep)), path @ [hop_of e], max_boundary bd (e_boundary e)) best,
           insort (fst (hop_key S e (nd, dep)), snd (hop_key S e (nd, dep)), m) heap))"
  by (simp add: relax_def split: prod.split)

lemma relax_sinv:
  assumes inv: "sinv S {node} best heap" and wf: "wf_index (s_idx S)" and l: "map_of best node = Some l"
    and nb: "neighbours S node = Inr xs" "(e, m) \<in> set xs" and nd: "\<not> depth_reached (s_max_depth S) (fst (snd l))"
    and r: "relax S node l (e, m) (best, heap) = (best', heap')"
  shows "sinv S {node} best' heap' \<and> map_of best' node = Some l \<and> finer best' best \<and> reaches best' m (hop_key S e (label_key l))"
proof -
  obtain nd dep path bd where lq: "l = (nd, dep, path, bd)" by (cases l)
  let ?k = "hop_key S e (nd, dep)"
  let ?l = "(fst ?k, snd ?k, path @ [hop_of e], max_boundary bd (e_boundary e))"
  have key: "label_key l = (nd, dep)" "label_key ?l = ?k" by (simp_all add: lq label_key_def)
  show ?thesis
  proof (cases "m \<in> s_seeds S \<or> m = node \<or> \<not> improves ?k (map_of best m)")
    case True
    then have same: "best' = best" "heap' = heap" using r by (simp_all add: lq relax_unfold)
    have "reaches best m ?k"
      using True
    proof (elim disjE)
      assume "m \<in> s_seeds S"
      then show ?thesis using sinvD(2) [OF inv] by (simp add: reaches_def label_key_def less_eq_prod_def hop_key_def)
    next
      assume "m = node"
      then show ?thesis using l key(1) hop_key_less [of "(nd, dep)" S e] by (simp add: reaches_def)
    next
      assume "\<not> improves ?k (map_of best m)"
      then show ?thesis by (auto simp: improves_def reaches_def not_less split: option.splits)
    qed
    with inv l show ?thesis by (simp add: same key)
  next
    case False
    then have new: "best' = AList.update m ?l best" "heap' = insort (fst ?k, snd ?k, m) heap"
      using r by (simp_all add: lq relax_unfold)
    have fin: "finer best' best" unfolding new by (rule finer_update) (use False in \<open>simp add: key\<close>)
    have mnode: "m \<in> dom (map_of (gi_nodes (s_idx S)))"
      using neighbours_ends [OF nb] wf by (auto simp: wf_index_def)
    have ok: "label_ok S m ?l"
      using label_ok_hop [OF sinvD(3) [OF inv l, unfolded lq] _ nb] False nd by (simp add: lq)
    have sub: "set heap \<subseteq> set heap'" and top: "(fst ?k, snd ?k, m) \<in> set heap'" by (auto simp: new set_insort_key)
    have old: "map_of best n = Some k" if "map_of best' n = Some k" "n \<noteq> m" for n k
      using that by (simp add: new)
    have lab: "k = ?l" if "map_of best' m = Some k" for k using that by (simp add: new)
    have "sinv S {node} best' heap'"
    proof (rule sinvI)
      show "distinct (map fst best')" unfolding new by (rule distinct_update) (rule sinvD(1) [OF inv])
    next
      fix s assume "s \<in> s_seeds S"
      then show "map_of best' s = Some (0, 0, [], ''intra_unit'')"
        using False sinvD(2) [OF inv] by (auto simp: new map_of_update)
    next
      fix n k assume n: "map_of best' n = Some k"
      show "label_ok S n k" by (cases "n = m") (use n old lab ok sinvD(3) [OF inv] in auto)
      show "n \<in> dom (map_of (gi_nodes (s_idx S)))"
        by (cases "n = m") (use mnode sinvD(4) [OF inv old [OF n]] in auto)
      assume x: "n \<notin> {node}"
      show "settled S best' heap' n k"
      proof (cases "n = m")
        case True
        with n lab top show ?thesis by (auto simp: settled_def)
      qed (rule settled_heap [OF sinvD(5) [OF inv old [OF n] x] fin sub])
    next
      fix x assume "x \<in> set heap'"
      then have "x \<in> set heap \<or> snd (snd x) = m" by (auto simp: new set_insort_key)
      then show "snd (snd x) \<in> dom (map_of best')"
        using sinvD(6) [OF inv, of x] by (auto simp: new map_of_update)
    qed
    moreover have "map_of best' node = Some l" using False l by (auto simp: new map_of_update)
    moreover have "reaches best' m (hop_key S e (label_key l))" by (simp add: new reaches_def map_of_update key)
    ultimately show ?thesis using fin by simp
  qed
qed

text \<open>All hops of a node.\<close>

lemma relax_all_sinv:
  assumes "sinv S {node} best heap" "wf_index (s_idx S)" "map_of best node = Some l"
    "neighbours S node = Inr xs" "set es \<subseteq> set xs" "\<not> depth_reached (s_max_depth S) (fst (snd l))"
    "fold (relax S node l) es (best, heap) = (best', heap')"
  shows "sinv S {node} best' heap' \<and> map_of best' node = Some l \<and> finer best' best \<and>
    (\<forall>(e, m)\<in>set es. reaches best' m (hop_key S e (label_key l)))"
  using assms
proof (induction es arbitrary: best heap)
  case (Cons en es)
  obtain e m where en: "en = (e, m)" by fastforce
  obtain b1 h1 where r: "relax S node l (e, m) (best, heap) = (b1, h1)" by fastforce
  have one: "sinv S {node} b1 h1 \<and> map_of b1 node = Some l \<and> finer b1 best \<and> reaches b1 m (hop_key S e (label_key l))"
    using Cons.prems by (intro relax_sinv [OF _ _ _ _ _ _ r]) (auto simp: en)
  have rest: "sinv S {node} best' heap' \<and> map_of best' node = Some l \<and> finer best' b1 \<and>
      (\<forall>(e, m)\<in>set es. reaches best' m (hop_key S e (label_key l)))"
    using Cons.prems one by (intro Cons.IH) (auto simp: en r)
  then have "reaches best' m (hop_key S e (label_key l))" using one finerD [of best' b1] by simp
  with one rest show ?case using finer_trans [of best' b1 best] by (simp add: en)
qed simp

subsection \<open>The loop\<close>

lemma sinv_pop:
  assumes inv: "sinv S {} best ((nd, dep, node) # heap)" and l: "map_of best node = Some l"
  shows "sinv S {node} best heap"
    and "label_key l \<noteq> (nd, dep) \<or> depth_reached (s_max_depth S) dep \<Longrightarrow> sinv S {} best heap"
proof -
  have s: "settled S best heap n k \<or> n = node \<and> label_key k = (nd, dep)" if "map_of best n = Some k" for n k
    using sinvD(5) [OF inv that] by (auto simp: settled_def label_key_def)
  show "sinv S {node} best heap"
  proof (rule sinv_again [OF inv])
    fix n k assume "map_of best n = Some k" "n \<notin> {node}"
    then show "settled S best heap n k" using s [of n k] by simp
  qed auto
  assume d: "label_key l \<noteq> (nd, dep) \<or> depth_reached (s_max_depth S) dep"
  have "settled S best heap n k" if k: "map_of best n = Some k" for n k
    using s [OF k] d k l by (auto simp: settled_def label_key_def)
  then show "sinv S {} best heap" by (intro sinv_again [OF inv]) auto
qed

lemma sinv_settle:
  assumes "sinv S {node} best heap" "map_of best node = Some l" "relaxed S best node l"
  shows "sinv S {} best heap"
proof (rule sinv_again [OF assms(1)])
  fix n k assume "map_of best n = Some k" "n \<notin> {}"
  then show "settled S best heap n k"
    using assms sinvD(5) [OF assms(1)] by (cases "n = node") (auto simp: settled_def)
qed simp

lemma traverse_loop_inv:
  assumes "sinv S {} best heap" "wf_index (s_idx S)"
  shows "\<exists>best'. traverse_loop S best heap = Inr best' \<and> sinv S {} best' []"
  using assms
proof (induction S best heap rule: traverse_loop.induct)
  case (2 S best nd dep node heap)
  note inv = "2.prems"(1) and wf = "2.prems"(2)
  from sinvD(6) [OF inv, of "(nd, dep, node)"] obtain l where l: "map_of best node = Some l" by auto
  show ?case
  proof (cases "label_key l \<noteq> (nd, dep) \<or> depth_reached (s_max_depth S) dep")
    case True
    then show ?thesis using "2.IH"(1,2) [OF l] sinv_pop(2) [OF inv l True] wf by (auto simp: l)
  next
    case False
    obtain xs where xs: "neighbours S node = Inr xs" using neighbours_total sinvD(4) [OF inv l] by blast
    obtain b h where f: "fold (relax S node l) xs (best, heap) = (b, h)" by fastforce
    have "fst (snd l) = dep" using False by (simp add: label_key_def)
    then have *: "sinv S {node} b h \<and> map_of b node = Some l \<and> finer b best \<and>
        (\<forall>(e, m)\<in>set xs. reaches b m (hop_key S e (label_key l)))"
      using relax_all_sinv [OF sinv_pop(1) [OF inv l] wf l xs subset_refl _ f] False by simp
    then have "relaxed S b node l" using xs by (auto simp: relaxed_def)
    with * have "sinv S {} b h" using sinv_settle by blast
    with "2.IH"(3) [OF l _ _ xs] False wf show ?thesis by (simp add: l xs f)
  qed
qed simp

lemma init_sinv:
  assumes "search_ok S" "s_seeds S = set seeds"
  shows "sinv S {} (init_labels (sort (remdups seeds))) (init_heap (sort (remdups seeds)))"
proof -
  let ?b = "init_labels (sort (remdups seeds))"
  have keys: "map fst (init_labels xs) = xs" for xs by (simp add: init_labels_def comp_def)
  have lab: "map_of (init_labels xs) n = (if n \<in> set xs then Some (0, 0, [], ''intra_unit'') else None)" for n xs
    by (induction xs) (auto simp: init_labels_def)
  have heap: "set (init_heap xs) = (\<lambda>s. (0, 0, s)) ` set xs" for xs
    by (induction xs) (simp_all add: init_heap_def set_insort_key)
  show ?thesis
  proof (rule sinvI)
    show "distinct (map fst ?b)" by (simp add: keys)
  next
    fix n l assume "map_of ?b n = Some l"
    then have n: "n \<in> s_seeds S" "l = (0, 0, [], ''intra_unit'')" by (simp_all add: lab assms(2) split: if_splits)
    show "label_ok S n l" unfolding label_ok_def by (rule exI [of _ "[]"]) (simp add: n walk.start)
    show "n \<in> dom (map_of (gi_nodes (s_idx S)))" using n assms(1) by (auto simp: search_ok_def)
    show "settled S ?b (init_heap (sort (remdups seeds))) n l" using n by (simp add: settled_def heap assms(2))
  qed (auto simp: lab heap assms(2))
qed

subsection \<open>Every walk is matched\<close>

lemma finished:
  assumes "sinv S {} best []" "map_of best n = Some l" "\<not> depth_reached (s_max_depth S) (fst (snd l))"
    "neighbours S n = Inr xs" "(e, m) \<in> set xs"
  shows "reaches best m (hop_key S e (label_key l))"
  using sinvD(5) [OF assms(1,2)] assms(3-5) by (auto simp: settled_def relaxed_def)

lemma seed_reached: "sinv S {} best [] \<Longrightarrow> n \<in> s_seeds S \<Longrightarrow> reaches best n k"
  by (cases k) (simp add: reaches_def sinvD(2) label_key_def less_eq_prod_def)

lemma unlimited_reaches:
  assumes inv: "sinv S {} best []" and none: "s_max_depth S = None" and "walk S n es"
  shows "reaches best n (walk_key S es)"
  using assms(3)
proof induction
  case (start n)
  then show ?case using seed_reached [OF inv] by simp
next
  case (hop n es xs e m)
  from hop.IH obtain l where l: "map_of best n = Some l" "label_key l \<le> walk_key S es" by (auto simp: reaches_def)
  have "reaches best m (hop_key S e (label_key l))"
    by (rule finished [OF inv l(1) _ hop.hyps(2,3)]) (simp add: none depth_reached_def)
  from reaches_mono [OF this hop_key_mono [OF l(2)]] show ?case by simp
qed

text \<open>Within the limit, for walks that cost nothing.\<close>

lemma free_reaches:
  assumes inv: "sinv S {} best []" and "walk S n es" "fst (walk_key S es) = 0"
    and lim: "\<And>D. s_max_depth S = Some D \<Longrightarrow> int (length es) \<le> D"
  shows "reaches best n (0, length es)"
  using assms(2-4)
proof induction
  case (start n)
  then show ?case using seed_reached [OF inv] by simp
next
  case (hop n es xs e m)
  have w: "fst (walk_key S es) = 0" "weight S e = 0" using hop.prems(1) by (simp_all add: hop_key_def)
  have "reaches best n (0, length es)" using hop.IH [OF w(1)] hop.prems(2) by force
  then obtain l where l: "map_of best n = Some l" "label_key l \<le> (0, length es)" by (auto simp: reaches_def)
  then have k: "label_key l = (0, fst (snd l))" "fst (snd l) \<le> length es" by (auto simp: label_key_def less_eq_prod_def)
  have "reaches best m (hop_key S e (label_key l))"
    by (rule finished [OF inv l(1) _ hop.hyps(2,3)]) (use hop.prems(2) k(2) in \<open>auto simp: depth_reached_def split: option.split\<close>)
  then show ?case using k w(2) by (auto simp: reaches_def hop_key_def less_eq_prod_def)
qed

subsection \<open>The entries\<close>

definition deterministic :: "hop list \<Rightarrow> bool" where
  "deterministic p = list_all (\<lambda>h. h_prov h = ''deterministic'') p"

definition entry_fits :: "search \<Rightarrow> entry \<Rightarrow> gedge list \<Rightarrow> bool" where
  "entry_fits S x es \<longleftrightarrow> walk S (en_entity x) es \<and> es \<noteq> [] \<and> en_path x = map hop_of es \<and> en_depth x = length es \<and>
     en_boundary x = walk_boundary es"

lemma mapr_total: "(\<And>x. x \<in> set xs \<Longrightarrow> f x = Inr (g x)) \<Longrightarrow> mapr f xs = Inr (map g xs)"
  by (induction xs) simp_all

lemma label_entry:
  assumes inv: "sinv S {} best []" and l: "map_of best n = Some l" "n \<notin> s_seeds S"
  shows "\<exists>x. entry_of (s_idx S) (n, l) = Inr x \<and> en_entity x = n \<and> label_key l = (fst (label_key l), en_depth x) \<and>
    (\<exists>es. entry_fits S x es \<and> label_key l = walk_key S es \<and> (\<forall>D. s_max_depth S = Some D \<longrightarrow> int (length es) \<le> D))"
proof -
  from sinvD(3) [OF inv l(1)] obtain es where es: "walk S n es" "l = (fst (walk_key S es), length es, map hop_of es, walk_boundary es)"
    "es \<noteq> []" "\<And>D. s_max_depth S = Some D \<Longrightarrow> int (length es) \<le> D"
    using l(2) by (auto simp: label_ok_def)
  from sinvD(4) [OF inv l(1)] obtain g where g: "map_of (gi_nodes (s_idx S)) n = Some g" by auto
  have "label_key l = walk_key S es" by (simp add: es(2) label_key_def walk_key_def)
  with es(1,3,4) g show ?thesis
    by (auto simp: entry_of_def es(2) entry_fits_def label_key_def intro!: exI [of _ es])
qed

lemma traverse_labels:
  assumes ok: "wf_index i" "set seeds \<subseteq> dom (map_of (gi_nodes i))" and S: "S = search_of i seeds md ets rules op"
  shows "\<exists>best ents. sinv S {} best [] \<and> traverse i seeds md ets rules op = Inr ents \<and>
    sorted (map en_entity ents) \<and> distinct (map en_entity ents) \<and>
    (\<forall>x. x \<in> set ents \<longleftrightarrow> (\<exists>n l. map_of best n = Some l \<and> n \<notin> set seeds \<and> entry_of i (n, l) = Inr x))"
proof -
  have sok: "search_ok S" "s_seeds S = set seeds" "s_idx S = i" using ok by (simp_all add: S search_of_def search_ok_def)
  from traverse_loop_inv [OF init_sinv [OF sok(1,2)]] ok sok(3) obtain best where
    b: "traverse_loop S (init_labels (sort (remdups seeds))) (init_heap (sort (remdups seeds))) = Inr best" and inv: "sinv S {} best []"
    by auto
  define xs where "xs = filter (\<lambda>nl. fst nl \<notin> s_seeds S) (sort_key fst best)"
  define g where "g nl = projr (entry_of (s_idx S) nl)" for nl
  have dis: "distinct (map fst (sort_key fst best))" and srt: "sorted (map fst (sort_key fst best))"
    using sinvD(1) [OF inv] by (simp_all add: distinct_map sorted_sort_key)
  have mem: "(n, l) \<in> set xs \<longleftrightarrow> map_of best n = Some l \<and> n \<notin> set seeds" for n l
    using sinvD(1) [OF inv] by (auto simp: xs_def sok(2))
  have ent: "entry_of (s_idx S) nl = Inr (g nl) \<and> en_entity (g nl) = fst nl" if "nl \<in> set xs" for nl
    using label_entry [OF inv, of "fst nl" "snd nl"] mem [of "fst nl" "snd nl"] that sok(2) by (auto simp: g_def)
  have ents: "entries_of S best = Inr (map g xs)"
    unfolding entries_of_def xs_def [symmetric] by (rule mapr_total) (simp add: ent)
  have names: "map en_entity (map g xs) = map fst xs" by (simp add: ent)
  have "sorted (map fst xs)" "distinct (map fst xs)"
    unfolding xs_def using srt dis by (simp_all add: sorted_filter distinct_map_filter)
  moreover have "traverse i seeds md ets rules op = Inr (map g xs)"
    by (simp add: traverse_def Let_def S [symmetric] b ents)
  moreover have "x \<in> set (map g xs) \<longleftrightarrow> (\<exists>n l. map_of best n = Some l \<and> n \<notin> set seeds \<and> entry_of i (n, l) = Inr x)" for x
  proof
    assume "x \<in> set (map g xs)"
    then obtain nl where nl: "nl \<in> set xs" "x = g nl" by auto
    with ent [OF nl(1)] mem [of "fst nl" "snd nl"] sok(3)
    show "\<exists>n l. map_of best n = Some l \<and> n \<notin> set seeds \<and> entry_of i (n, l) = Inr x"
      by (intro exI [of _ "fst nl"] exI [of _ "snd nl"]) simp
  next
    assume "\<exists>n l. map_of best n = Some l \<and> n \<notin> set seeds \<and> entry_of i (n, l) = Inr x"
    then obtain n l where nl: "(n, l) \<in> set xs" "entry_of i (n, l) = Inr x" using mem by blast
    with ent [OF nl(1)] sok(3) show "x \<in> set (map g xs)" by force
  qed
  ultimately show ?thesis
    using inv unfolding names [symmetric] by (intro exI [of _ best] exI [of _ "map g xs"]) simp
qed

text \<open>Entries and labels correspond.\<close>

definition fits :: "search \<Rightarrow> entry list \<Rightarrow> labels \<Rightarrow> bool" where
  "fits S ents best \<longleftrightarrow> sinv S {} best [] \<and>
    (\<forall>x\<in>set ents. en_entity x \<notin> s_seeds S \<and> (\<exists>l es. map_of best (en_entity x) = Some l \<and> entry_fits S x es \<and>
       label_key l = walk_key S es \<and> (\<forall>D. s_max_depth S = Some D \<longrightarrow> int (length es) \<le> D))) \<and>
    (\<forall>n l. map_of best n = Some l \<and> n \<notin> s_seeds S \<longrightarrow> n \<in> en_entity ` set ents)"

lemma fitsD:
  assumes "fits S ents best"
  shows "sinv S {} best []" "x \<in> set ents \<Longrightarrow> en_entity x \<notin> s_seeds S"
    "x \<in> set ents \<Longrightarrow> \<exists>l es. map_of best (en_entity x) = Some l \<and> entry_fits S x es \<and>
       label_key l = walk_key S es \<and> (\<forall>D. s_max_depth S = Some D \<longrightarrow> int (length es) \<le> D)"
    "reaches best n k \<Longrightarrow> n \<notin> s_seeds S \<Longrightarrow> n \<in> en_entity ` set ents"
  using assms unfolding fits_def reaches_def by blast+

lemma traverse_fits:
  assumes "wf_index i" "set seeds \<subseteq> dom (map_of (gi_nodes i))" and S: "S = search_of i seeds md ets rules op"
    and tr: "traverse i seeds md ets rules op = Inr ents"
  shows "\<exists>best. fits S ents best"
proof -
  from traverse_labels [OF assms(1-3)] tr obtain best where t: "sinv S {} best []"
    "\<And>x. x \<in> set ents \<longleftrightarrow> (\<exists>n l. map_of best n = Some l \<and> n \<notin> set seeds \<and> entry_of i (n, l) = Inr x)" by auto
  have S': "s_idx S = i" "s_seeds S = set seeds" by (simp_all add: S search_of_def)
  have "en_entity x \<notin> s_seeds S \<and> (\<exists>l es. map_of best (en_entity x) = Some l \<and> entry_fits S x es \<and>
      label_key l = walk_key S es \<and> (\<forall>D. s_max_depth S = Some D \<longrightarrow> int (length es) \<le> D))" if "x \<in> set ents" for x
  proof -
    from that t(2) obtain n l where nl: "map_of best n = Some l" "n \<notin> set seeds" "entry_of i (n, l) = Inr x" by blast
    have x: "en_entity x = n" "\<exists>es. entry_fits S x es \<and> label_key l = walk_key S es \<and> (\<forall>D. s_max_depth S = Some D \<longrightarrow> int (length es) \<le> D)"
      using label_entry [OF t(1) nl(1)] nl(2,3) S' by auto
    then show ?thesis using nl S' by (intro conjI exI [of _ l]) simp_all
  qed
  moreover have "n \<in> en_entity ` set ents" if l: "map_of best n = Some l" "n \<notin> s_seeds S" for n l
  proof -
    from label_entry [OF t(1) l(1)] l(2) S' obtain x where "entry_of i (n, l) = Inr x" "en_entity x = n" by auto
    with l t(2) S' show ?thesis by blast
  qed
  ultimately show ?thesis unfolding fits_def using t(1) by blast
qed

text \<open>Without a limit the entities are what a walk reaches.\<close>

lemma unlimited_entities:
  assumes fit: "fits S ents best" and none: "s_max_depth S = None"
  shows "en_entity ` set ents = {n. \<exists>es. walk S n es} - s_seeds S"
proof -
  note reach = unlimited_reaches [OF fitsD(1) [OF fit] none]
  have "\<exists>es. walk S (en_entity x) es" if "x \<in> set ents" for x
    using fitsD(3) [OF fit that] unfolding entry_fits_def by blast
  then have "en_entity ` set ents \<subseteq> {n. \<exists>es. walk S n es} - s_seeds S"
    using fitsD(2) [OF fit] by auto
  moreover have "n \<in> en_entity ` set ents" if n: "walk S n es" "n \<notin> s_seeds S" for n es
    using fitsD(4) [OF fit reach [OF n(1)] n(2)] .
  ultimately show ?thesis by blast
qed

definition inferred_hops :: "hop list \<Rightarrow> nat" where
  "inferred_hops p = length (filter (\<lambda>h. h_prov h \<noteq> ''deterministic'') p)"

lemma inferred_hops_weight:
  assumes "''provenance_split'' \<in> s_rules S"
  shows "inferred_hops (map hop_of es) = fst (walk_key S es)"
  using assms by (induction es) (simp_all add: inferred_hops_def walk_key_def weight_def hop_of_def)

lemma deterministic_iff: "deterministic p \<longleftrightarrow> inferred_hops p = 0"
  by (induction p) (auto simp: deterministic_def inferred_hops_def)

subsection \<open>Soundness and completeness\<close>

text \<open>C11. On a graph whose edges end in nodes and with seeds that are nodes, the traversal returns (it neither runs
  forever nor raises). Its entries are sorted, one per entity, none a seed, and each carries a real walk
  from a seed: the hops, the depth as their number, the widest boundary crossed; no walk is longer than
  the depth limit.\<close>

theorem traverse_sound:
  assumes "wf_index i" "set seeds \<subseteq> dom (map_of (gi_nodes i))"
  shows "\<exists>ents. traverse i seeds md ets rules op = Inr ents \<and> sorted (map en_entity ents) \<and> distinct (map en_entity ents) \<and>
    (\<forall>x\<in>set ents. en_entity x \<notin> set seeds \<and> (\<exists>es. entry_fits (search_of i seeds md ets rules op) x es \<and>
       (\<forall>D. ''depth_limit'' \<in> rules \<and> md = Some D \<longrightarrow> int (length es) \<le> D)))"
proof -
  define S where S: "S = search_of i seeds md ets rules op"
  from traverse_labels [OF assms S] obtain ents where t: "traverse i seeds md ets rules op = Inr ents"
    "sorted (map en_entity ents)" "distinct (map en_entity ents)" by blast
  from traverse_fits [OF assms S t(1)] obtain best where fit: "fits S ents best" ..
  have S': "''depth_limit'' \<in> rules \<Longrightarrow> s_max_depth S = md" "s_seeds S = set seeds" by (simp_all add: S search_of_def)
  have "en_entity x \<notin> set seeds \<and> (\<exists>es. entry_fits S x es \<and> (\<forall>D. ''depth_limit'' \<in> rules \<and> md = Some D \<longrightarrow> int (length es) \<le> D))"
    if x: "x \<in> set ents" for x
  proof -
    from fitsD(3) [OF fit x] obtain es where es: "entry_fits S x es" "\<And>D. s_max_depth S = Some D \<Longrightarrow> int (length es) \<le> D" by blast
    with fitsD(2) [OF fit x] S' show ?thesis by (intro conjI exI [of _ es]) auto
  qed
  then have "\<forall>x\<in>set ents. en_entity x \<notin> set seeds \<and> (\<exists>es. entry_fits S x es \<and> (\<forall>D. ''depth_limit'' \<in> rules \<and> md = Some D \<longrightarrow> int (length es) \<le> D))" ..
  with t show ?thesis unfolding S [symmetric] by (intro exI [of _ ents] conjI)
qed

text \<open>C12. Without a depth limit the traversal is complete and its paths are the best ones: the entities are exactly
  the nodes a walk reaches, less the seeds, and no walk to an entity has fewer inferred or observed hops
  than the path reported for it, nor as many of them and fewer hops in all.\<close>

theorem traverse_complete:
  assumes "wf_index i" "set seeds \<subseteq> dom (map_of (gi_nodes i))" "''provenance_split'' \<in> rules"
    and "''depth_limit'' \<notin> rules \<or> md = None" "traverse i seeds md ets rules op = Inr ents"
  shows "en_entity ` set ents = {n. \<exists>es. walk (search_of i seeds md ets rules op) n es} - set seeds \<and>
    (\<forall>x\<in>set ents. \<forall>es. walk (search_of i seeds md ets rules op) (en_entity x) es \<longrightarrow>
       (inferred_hops (en_path x), en_depth x) \<le> (inferred_hops (map hop_of es), length es))"
proof -
  define S where S: "S = search_of i seeds md ets rules op"
  from traverse_fits [OF assms(1,2) S assms(5)] obtain best where fit: "fits S ents best" ..
  have S': "s_max_depth S = None" "''provenance_split'' \<in> s_rules S" "s_seeds S = set seeds"
    using assms(3,4) by (auto simp: S search_of_def)
  note reach = unlimited_reaches [OF fitsD(1) [OF fit] S'(1)]
  have "en_entity ` set ents = {n. \<exists>es. walk S n es} - set seeds"
    using unlimited_entities [OF fit S'(1)] S'(3) by simp
  moreover have "(inferred_hops (en_path x), en_depth x) \<le> (inferred_hops (map hop_of es), length es)"
    if x: "x \<in> set ents" "walk S (en_entity x) es" for x es
  proof -
    from fitsD(3) [OF fit x(1)] obtain l fs where f: "map_of best (en_entity x) = Some l" "entry_fits S x fs" "label_key l = walk_key S fs" by blast
    from reach [OF x(2)] f(1,3) have "walk_key S fs \<le> walk_key S es" by (simp add: reaches_def)
    moreover have "walk_key S gs = (inferred_hops (map hop_of gs), length gs)" for gs
      by (simp add: inferred_hops_weight [OF S'(2)] walk_key_def)
    ultimately show ?thesis using f(2) by (simp add: entry_fits_def)
  qed
  ultimately show ?thesis unfolding S by blast
qed

text \<open>C13. The deterministic core is exact at every depth limit: an entity is reported with a path of deterministic
  hops of length \<open>d\<close> exactly when \<open>d\<close> is the length of a shortest deterministic walk to it and is
  within the limit. The limit never drops or lengthens anything in the core.\<close>

theorem deterministic_core_exact:
  assumes "wf_index i" "set seeds \<subseteq> dom (map_of (gi_nodes i))" "''provenance_split'' \<in> rules"
    and "traverse i seeds md ets rules op = Inr ents" "n \<notin> set seeds"
  shows "(\<exists>x\<in>set ents. en_entity x = n \<and> deterministic (en_path x) \<and> en_depth x = d) \<longleftrightarrow>
    (\<exists>es. walk (search_of i seeds md ets rules op) n es \<and> deterministic (map hop_of es) \<and> length es = d) \<and>
    (\<forall>es. walk (search_of i seeds md ets rules op) n es \<and> deterministic (map hop_of es) \<longrightarrow> d \<le> length es) \<and>
    (\<forall>D. s_max_depth (search_of i seeds md ets rules op) = Some D \<longrightarrow> int d \<le> D)" (is "?L \<longleftrightarrow> ?R")
proof -
  define S where S: "S = search_of i seeds md ets rules op"
  from traverse_fits [OF assms(1,2) S assms(4)] obtain best where fit: "fits S ents best" ..
  have S': "''provenance_split'' \<in> s_rules S" "s_seeds S = set seeds" using assms(3) by (simp_all add: S search_of_def)
  have det: "deterministic (map hop_of es) \<longleftrightarrow> fst (walk_key S es) = 0" for es
    by (simp add: deterministic_iff inferred_hops_weight [OF S'(1)])
  have free: "reaches best n (0, length es)" if "walk S n es" "deterministic (map hop_of es)"
      "\<And>D. s_max_depth S = Some D \<Longrightarrow> int (length es) \<le> D" for es
    using free_reaches [OF fitsD(1) [OF fit] that(1)] that(2,3) by (simp add: det)
  show ?thesis unfolding S [symmetric]
  proof
    assume "\<exists>x\<in>set ents. en_entity x = n \<and> deterministic (en_path x) \<and> en_depth x = d"
    then obtain x where x: "x \<in> set ents" "en_entity x = n" "deterministic (en_path x)" "en_depth x = d" by blast
    from fitsD(3) [OF fit x(1)] obtain l es where l: "map_of best n = Some l" "entry_fits S x es" "label_key l = walk_key S es"
      "\<And>D. s_max_depth S = Some D \<Longrightarrow> int (length es) \<le> D" unfolding x(2) by blast
    have es: "walk S n es" "deterministic (map hop_of es)" "length es = d" using l(2) x(2-4) by (simp_all add: entry_fits_def)
    have "d \<le> length fs" if fs: "walk S n fs" "deterministic (map hop_of fs)" for fs
    proof (cases "\<exists>D. s_max_depth S = Some D \<and> D < int (length fs)")
      case True
      then show ?thesis using l(4) es(3) by fastforce
    next
      case False
      then have "reaches best n (0, length fs)" using free [OF fs] by force
      then show ?thesis using l(1,3) es(2,3) by (auto simp: reaches_def det walk_key_def less_eq_prod_def)
    qed
    with es l(4) show "(\<exists>es. walk S n es \<and> deterministic (map hop_of es) \<and> length es = d) \<and>
        (\<forall>es. walk S n es \<and> deterministic (map hop_of es) \<longrightarrow> d \<le> length es) \<and> (\<forall>D. s_max_depth S = Some D \<longrightarrow> int d \<le> D)" by blast
  next
    assume r: "(\<exists>es. walk S n es \<and> deterministic (map hop_of es) \<and> length es = d) \<and>
        (\<forall>es. walk S n es \<and> deterministic (map hop_of es) \<longrightarrow> d \<le> length es) \<and> (\<forall>D. s_max_depth S = Some D \<longrightarrow> int d \<le> D)"
    then have reach: "reaches best n (0, d)" using free by blast
    from fitsD(4) [OF fit reach] assms(5) S'(2) obtain x where x: "x \<in> set ents" "en_entity x = n" by auto
    from fitsD(3) [OF fit x(1)] obtain l es where l: "map_of best n = Some l" "entry_fits S x es" "label_key l = walk_key S es"
      unfolding x(2) by blast
    have k: "fst (walk_key S es) = 0" "length es \<le> d"
      using reach l(1,3) by (auto simp: reaches_def walk_key_def less_eq_prod_def)
    moreover have "d \<le> length es" using r k l(2) x(2) by (auto simp: entry_fits_def det)
    ultimately show "\<exists>x\<in>set ents. en_entity x = n \<and> deterministic (en_path x) \<and> en_depth x = d"
      using x l(2) by (intro bexI [of _ x]) (auto simp: entry_fits_def det)
  qed
qed

end
