(* ===== verification/Graph_Depth.thy ===== *)
theory Graph_Depth
  imports Graph_Search_Props
begin

section \<open>The index of a graph, and the depth limit at work\<close>

text \<open>
  What the index of a document holds, and that a graph whose edges end in nodes has a well-formed one.
  Then two graphs of five units: the second has one edge more than the first, and a smaller impact.
\<close>

subsection \<open>Looking up the index\<close>

lemma bucket_push: "bucket (push k x d) k' = (if k' = k then bucket d k @ [x] else bucket d k')"
  by (simp add: push_def bucket_def map_of_update)

lemma bucket_fold: "bucket (fold (\<lambda>e. push (f e) e) es d) k = bucket d k @ filter (\<lambda>e. f e = k) es"
  by (induction es arbitrary: d) (auto simp: bucket_push)

lemma index_node_keeps [simp]:
  "gi_nodes (index_node n i) = gi_nodes i" "gi_rev (index_node n i) = gi_rev i" "gi_fwd (index_node n i) = gi_fwd i"
  "gi_manifest (index_node n i) = gi_manifest i" "gi_hints (index_node n i) = gi_hints i"
  by (simp_all add: index_node_def Let_def split: option.split)

lemma fold_index_node_keeps [simp]:
  "gi_nodes (fold index_node ns i) = gi_nodes i" "gi_rev (fold index_node ns i) = gi_rev i" "gi_fwd (fold index_node ns i) = gi_fwd i"
  "gi_manifest (fold index_node ns i) = gi_manifest i" "gi_hints (fold index_node ns i) = gi_hints i"
  by (induction ns arbitrary: i) simp_all

lemma bucket_map: "f [] = [] \<Longrightarrow> bucket (map (map_prod id f) d) k = f (bucket d k)"
  by (induction d) (auto simp: bucket_def)

lemma edges_at:
  "bucket (gi_rev (GraphIndex h doc)) k = sort_key edge_key (filter (\<lambda>e. e_to e = k) (gd_edges doc))"
  "bucket (gi_fwd (GraphIndex h doc)) k = sort_key edge_key (filter (\<lambda>e. e_from e = k) (gd_edges doc))"
proof -
  have nil: "bucket [] k = []" for k by (simp add: bucket_def)
  show "bucket (gi_rev (GraphIndex h doc)) k = sort_key edge_key (filter (\<lambda>e. e_to e = k) (gd_edges doc))"
    "bucket (gi_fwd (GraphIndex h doc)) k = sort_key edge_key (filter (\<lambda>e. e_from e = k) (gd_edges doc))"
    by (simp_all add: GraphIndex_def Let_def nil bucket_map bucket_fold)
qed

lemma dom_fold_update: "dom (map_of (fold (\<lambda>n. AList.update (f n) n) ns d)) = dom (map_of d) \<union> f ` set ns"
  by (induction ns arbitrary: d) (auto simp: map_of_update)

lemma index_dom: "dom (map_of (gi_nodes (GraphIndex h doc))) = n_id ` set (gd_nodes doc)"
  by (simp add: GraphIndex_def Let_def dom_fold_update)

lemma bucket_distinct: "distinct (map fst d) \<Longrightarrow> all_edges d = {e. \<exists>k. e \<in> set (bucket d k)}"
proof -
  assume d: "distinct (map fst d)"
  have "e \<in> set (bucket d k)" if "(k, es) \<in> set d" "e \<in> set es" for e k es
    using that d by (simp add: bucket_def)
  then have "\<exists>k. e \<in> set (bucket d k)" if "e \<in> all_edges d" for e
    using that unfolding all_edges_def by force
  then show ?thesis using bucket_in [of _ d] by blast
qed

lemma distinct_push_fold: "distinct (map fst d) \<Longrightarrow> distinct (map fst (fold (\<lambda>e. push (f e) e) es d))"
  by (induction es arbitrary: d) (simp_all add: push_def distinct_update)

lemma all_edges_index:
  "all_edges (gi_rev (GraphIndex h doc)) = set (gd_edges doc)" "all_edges (gi_fwd (GraphIndex h doc)) = set (gd_edges doc)"
proof -
  have d: "distinct (map fst (gi_rev (GraphIndex h doc)))" "distinct (map fst (gi_fwd (GraphIndex h doc)))"
    using distinct_push_fold [of "[]" e_to "gd_edges doc"] distinct_push_fold [of "[]" e_from "gd_edges doc"]
    by (simp_all add: GraphIndex_def Let_def comp_def)
  show "all_edges (gi_rev (GraphIndex h doc)) = set (gd_edges doc)" "all_edges (gi_fwd (GraphIndex h doc)) = set (gd_edges doc)"
    unfolding bucket_distinct [OF d(1)] bucket_distinct [OF d(2)] edges_at by auto
qed

definition graph_closed :: "graph_doc \<Rightarrow> bool" where
  "graph_closed doc = list_all (\<lambda>e. e_from e \<in> set (map n_id (gd_nodes doc)) \<and> e_to e \<in> set (map n_id (gd_nodes doc))) (gd_edges doc)"

lemma graph_closed_index: "graph_closed doc \<Longrightarrow> wf_index (GraphIndex h doc)"
  by (auto simp: wf_index_def ends_of_def all_edges_index index_dom graph_closed_def list_all_iff)

subsection \<open>Five units\<close>

definition unit_node :: "string \<Rightarrow> gnode" where
  "unit_node p = \<lparr>n_id = ''code_unit:'' @ p, n_type = ''code_unit'', n_path = Some p, n_kind = None, n_hash = ''h''\<rparr>"

definition calls :: "string \<Rightarrow> string \<Rightarrow> string \<Rightarrow> gedge" where
  "calls p q prov = \<lparr>e_from = ''code_unit:'' @ p, e_to = ''code_unit:'' @ q, e_type = ''calls'', e_prov = prov,
     e_boundary = None, e_extra = []\<rparr>"

text \<open>\<open>a\<close> calls the seed \<open>s\<close> and \<open>b\<close> calls \<open>a\<close>; \<open>x\<close> is inferred to call \<open>s\<close>, and \<open>y\<close> calls \<open>x\<close>. In the
  second graph \<open>x\<close> also calls \<open>b\<close>.\<close>

definition few_calls :: "gedge list" where
  "few_calls = [calls ''a'' ''s'' ''deterministic'', calls ''b'' ''a'' ''deterministic'', calls ''x'' ''s'' ''inferred'',
     calls ''y'' ''x'' ''deterministic'']"

definition graph_of :: "gedge list \<Rightarrow> graph_doc" where
  "graph_of es = \<lparr>gd_manifest = [], gd_nodes = map unit_node [''s'', ''a'', ''b'', ''x'', ''y''], gd_edges = es\<rparr>"

definition impact_of :: "gedge list \<Rightarrow> (string \<times> nat) list result" where
  "impact_of es = map_sum id (map (\<lambda>x. (en_entity x, en_depth x)))
     (traverse (GraphIndex [] (graph_of es)) [''code_unit:s''] (Some 3) None (set RULES) {})"

text \<open>At the default depth limit the impact can shrink when the graph grows: with one deterministic call added
  and nothing removed, the caller \<open>y\<close> at distance two drops out, although it is still there. The added
  call gives \<open>x\<close> a deterministic path of three hops, which replaces the inferred path of one; at the limit
  \<open>x\<close> is not expanded any more.\<close>

theorem added_call_hides_caller:
  "impact_of few_calls =
     Inr [(''code_unit:a'', 1), (''code_unit:b'', 2), (''code_unit:x'', 1), (''code_unit:y'', 2)] \<and>
   impact_of (calls ''x'' ''b'' ''deterministic'' # few_calls) =
     Inr [(''code_unit:a'', 1), (''code_unit:b'', 2), (''code_unit:x'', 3)]"
  by code_simp

definition few_index :: graph_index where
  "few_index = GraphIndex [] (graph_of few_calls)"

lemma few_index_ok: "wf_index few_index" "set [''code_unit:s''] \<subseteq> dom (map_of (gi_nodes few_index))"
proof -
  have "graph_closed (graph_of few_calls)" by code_simp
  then show "wf_index few_index" unfolding few_index_def by (rule graph_closed_index)
  show "set [''code_unit:s''] \<subseteq> dom (map_of (gi_nodes few_index))"
    by (simp add: few_index_def index_dom graph_of_def unit_node_def)
qed

lemma traverse_returns:
  "wf_index i \<Longrightarrow> set seeds \<subseteq> dom (map_of (gi_nodes i)) \<Longrightarrow>
   traverse i seeds md ets rules op = Inr (projr (traverse i seeds md ets rules op))"
  using traverse_labels [of i seeds _ md ets rules op] by fastforce

lemma split_rule: "''provenance_split'' \<in> set RULES"
  by (simp add: RULES_def)

theorem traverse_sound_witness:
  "\<exists>ents. traverse few_index [''code_unit:s''] (Some 3) None (set RULES) {} = Inr ents \<and>
    sorted (map en_entity ents) \<and> distinct (map en_entity ents) \<and>
    (\<forall>x\<in>set ents. en_entity x \<notin> set [''code_unit:s''] \<and>
      (\<exists>es. entry_fits (search_of few_index [''code_unit:s''] (Some 3) None (set RULES) {}) x es \<and>
       (\<forall>D. ''depth_limit'' \<in> set RULES \<and> Some 3 = Some D \<longrightarrow> int (length es) \<le> D)))"
  by (rule traverse_sound [OF few_index_ok])

theorem traverse_complete_witness:
  "{n. \<exists>es. walk (search_of few_index [''code_unit:s''] None None (set RULES) {}) n es} - set [''code_unit:s''] =
     set [''code_unit:a'', ''code_unit:b'', ''code_unit:x'', ''code_unit:y'']"
proof -
  have "map en_entity (projr (traverse few_index [''code_unit:s''] None None (set RULES) {})) =
      [''code_unit:a'', ''code_unit:b'', ''code_unit:x'', ''code_unit:y'']" by code_simp
  from arg_cong [OF this, of set]
    traverse_complete [OF few_index_ok split_rule disjI2 [OF refl] traverse_returns [OF few_index_ok], THEN conjunct1]
  show ?thesis unfolding set_map by (rule trans [OF sym, rotated])
qed

theorem deterministic_core_exact_witness:
  "(\<exists>x\<in>set (projr (traverse few_index [''code_unit:s''] (Some 3) None (set RULES) {})).
      en_entity x = ''code_unit:b'' \<and> deterministic (en_path x) \<and> en_depth x = 2) \<longleftrightarrow>
   (\<exists>es. walk (search_of few_index [''code_unit:s''] (Some 3) None (set RULES) {}) ''code_unit:b'' es \<and> deterministic (map hop_of es) \<and> length es = 2) \<and>
   (\<forall>es. walk (search_of few_index [''code_unit:s''] (Some 3) None (set RULES) {}) ''code_unit:b'' es \<and> deterministic (map hop_of es) \<longrightarrow> 2 \<le> length es) \<and>
   (\<forall>D. s_max_depth (search_of few_index [''code_unit:s''] (Some 3) None (set RULES) {}) = Some D \<longrightarrow> int 2 \<le> D)"
  by (rule deterministic_core_exact [OF few_index_ok split_rule traverse_returns [OF few_index_ok]]) simp

end
