(* ===== verification/Graph_Check.thy ===== *)
theory Graph_Check
  imports Graph_Depth Evidence Json
begin

section \<open>Graph admission: conformance of a graph document\<close>

text \<open>
  \<open>check_graph\<close> of \<^verbatim>\<open>tools/graph/schema_check.py\<close> on a document of unknown shape, and the contract
  \<^verbatim>\<open>relationship-graph.v1.json\<close> it is run with. A finding is its code; the details, which only word the
  code, are left out. Looking up an unhashable value in a dictionary or a set raises. \<open>decode_graph\<close> is the
  boundary between such documents and the records of \<open>Graph_Index\<close>: a document whose optional fields
  have other types than the builder writes has no decoding.
\<close>

type_synonym pydict = "(string \<times> pyval) list"

record graph_schema =
  sc_name :: string
  sc_required :: "string list"
  sc_node_types :: "string list"
  sc_edge_types :: "(string \<times> string list \<times> string list) list"
  sc_provenance :: "string list"

definition GRAPH_SCHEMA :: graph_schema where
  "GRAPH_SCHEMA = \<lparr>sc_name = ''RelationshipGraph/v1'',
    sc_required = [''schema'', ''builder'', ''builder_version'', ''source_repo'', ''source_commit'', ''built_at_utc'',
      ''extractors'', ''node_count'', ''edge_count'', ''graph_digest''],
    sc_node_types = [''code_unit'', ''contract'', ''route'', ''data_model'', ''config_key'', ''deployable_unit'', ''document'',
      ''work_item'', ''receipt'', ''systemd_unit'', ''source_file''],
    sc_edge_types = [
      (''imports'', [''code_unit''], [''code_unit'']),
      (''calls'', [''code_unit''], [''code_unit'']),
      (''implements_contract'', [''code_unit'', ''route''], [''contract'']),
      (''consumes_contract'', [''code_unit'', ''route'', ''deployable_unit''], [''contract'', ''route'']),
      (''provides_route'', [''code_unit''], [''route'']),
      (''reads_config'', [''code_unit'', ''deployable_unit''], [''config_key'']),
      (''maps_model'', [''code_unit'', ''data_model''], [''data_model'']),
      (''documents'', [''document'', ''work_item''], [''code_unit'', ''contract'', ''route'', ''data_model'', ''config_key'',
         ''deployable_unit'', ''document'', ''work_item'', ''receipt'']),
      (''declares_source_input'', [''code_unit''], [''code_unit'']),
      (''reads_source_input'', [''code_unit''], [''code_unit'']),
      (''names'', [''code_unit'', ''document''], [''work_item'']),
      (''verifies'', [''receipt'', ''code_unit''], [''code_unit'', ''contract'', ''route'', ''data_model'', ''config_key'',
         ''deployable_unit'', ''document'', ''work_item'']),
      (''deploys_to'', [''code_unit'', ''deployable_unit''], [''deployable_unit'']),
      (''activates'', [''systemd_unit''], [''systemd_unit'']),
      (''orders_after'', [''systemd_unit''], [''systemd_unit'']),
      (''references'', [''systemd_unit''], [''systemd_unit'', ''source_file'', ''code_unit'', ''document''])],
    sc_provenance = [''deterministic'', ''inferred'', ''observed'']\<rparr>"

subsection \<open>Forms\<close>

definition hex_text :: "nat \<Rightarrow> string \<Rightarrow> bool" where
  "hex_text n s \<longleftrightarrow> length s = n \<and> list_all (\<lambda>c. is_digit c \<or> c \<in> set ''abcdef'') s"

definition COMMIT_RE :: "string \<Rightarrow> bool" where
  "COMMIT_RE s \<longleftrightarrow> hex_text 40 (chomp s)"

definition SHA_RE :: "string \<Rightarrow> bool" where
  "SHA_RE s \<longleftrightarrow> starts ''sha256:'' s \<and> hex_text 64 (drop 7 (chomp s))"

text \<open>\<^verbatim>\<open>^\d{4}-\d{2}-\d{2}T\d{2}:\d{2}(:\d{2})?(\.\d+)?Z$\<close>\<close>

definition iso_tail :: "string \<Rightarrow> bool" where
  "iso_tail r \<longleftrightarrow> r = ''Z'' \<or>
     r \<noteq> [] \<and> hd r = CHR ''.'' \<and> 3 \<le> length r \<and> list_all is_digit (butlast (tl r)) \<and> last r = CHR ''Z''"

definition ISO_RE :: "string \<Rightarrow> bool" where
  "ISO_RE s \<longleftrightarrow> (let t = chomp s; r = drop 16 t in
     16 < length t \<and> list_all (\<lambda>i. is_digit (t ! i)) [0, 1, 2, 3, 5, 6, 8, 9, 11, 12, 14, 15] \<and>
     t ! 4 = CHR ''-'' \<and> t ! 7 = CHR ''-'' \<and> t ! 10 = CHR ''T'' \<and> t ! 13 = CHR '':'' \<and>
     (iso_tail r \<or> 3 < length r \<and> hd r = CHR '':'' \<and> is_digit (r ! 1) \<and> is_digit (r ! 2) \<and> iso_tail (drop 3 r)))"

text \<open>Whether \<open>parse_iso\<close> returns a time. Below nineteen characters the first format never fits.\<close>

definition parses_iso :: "pyval \<Rightarrow> bool" where
  "parses_iso v = (case v of PStr s \<Rightarrow> ISO_RE s \<and>
       (if 19 \<le> length s then strptime_z (take 19 s @ ''Z'') \<noteq> None
        else length s = 17 \<and> strptime_z (take 16 s @ '':00Z'') \<noteq> None)
     | _ \<Rightarrow> False)"

subsection \<open>The digest of a graph\<close>

fun canonical_text :: "pyenv \<Rightarrow> pyval \<Rightarrow> string" where
  "canonical_text P PNone = ''null''"
| "canonical_text P (PBool b) = (if b then ''true'' else ''false'')"
| "canonical_text P (PInt i) = show_int i"
| "canonical_text P (PFloat m e) = py_repr P (PFloat m e)"
| "canonical_text P (PStr s) = quote s"
| "canonical_text P (PList xs) = ''['' @ join '','' (map (canonical_text P) xs) @ '']''"
| "canonical_text P (PDict kvs) = ''{'' @ join '','' (map snd (sort_key fst
     (map (\<lambda>kv. (fst kv, quote (fst kv) @ '':'' @ canonical_text P (snd kv))) kvs))) @ ''}''"

definition dict_or_empty :: "pyval \<Rightarrow> pydict" where
  "dict_or_empty v = (case v of PDict d \<Rightarrow> d | _ \<Rightarrow> [])"

definition graph_digest :: "(string \<Rightarrow> string) \<Rightarrow> pyenv \<Rightarrow> pydict \<Rightarrow> string result" where
  "graph_digest H P doc =
    (let man = py_get doc ''manifest'' in
     if py_true man \<and> dict_or_empty man = [] then Inl AttributeError
     else Inr (''sha256:'' @ H (canonical_text P (PDict [(''nodes'', py_get doc ''nodes''), (''edges'', py_get doc ''edges''),
       (''manifest'', PDict (filter (\<lambda>kv. fst kv \<notin> set [''graph_digest'', ''built_at_utc'']) (dict_or_empty man)))]))))"

subsection \<open>The checks\<close>

fun hashable :: "pyval \<Rightarrow> bool" where
  "hashable (PList _) = False"
| "hashable (PDict _) = False"
| "hashable _ = True"

text \<open>\<open>v in d\<close> for a dictionary or set of texts.\<close>

definition in_texts :: "pyval \<Rightarrow> string list \<Rightarrow> bool result" where
  "in_texts v ks = (if hashable v then Inr (case v of PStr s \<Rightarrow> s \<in> set ks | _ \<Rightarrow> False) else Inl TypeError)"

definition finding :: "string \<Rightarrow> bool \<Rightarrow> string list" where
  "finding code bad = (if bad then [code] else [])"

definition check_manifest :: "graph_schema \<Rightarrow> pydict \<Rightarrow> string list" where
  "check_manifest sc doc =
    (let man = dict_or_empty (py_get doc ''manifest'') in
     finding ''GRAPH_SCHEMA_MISMATCH'' (\<not> py_eq (py_get doc ''schema'') (PStr (sc_name sc))) @
     finding ''MANIFEST_MISSING_FIELD'' (case py_get doc ''manifest'' of PDict _ \<Rightarrow> False | _ \<Rightarrow> True) @
     concat (map (\<lambda>f. finding ''MANIFEST_MISSING_FIELD'' (map_of man f = None)) (sc_required sc)) @
     finding ''SOURCE_COMMIT_INVALID''
       (case map_of man ''source_commit'' of None \<Rightarrow> False | Some (PStr s) \<Rightarrow> \<not> COMMIT_RE s | Some _ \<Rightarrow> True) @
     finding ''BUILT_AT_INVALID'' (case map_of man ''built_at_utc'' of None \<Rightarrow> False | Some v \<Rightarrow> \<not> parses_iso v) @
     finding ''GRAPH_DIRTY'' (map_of man ''dirty'' = Some (PBool True)))"

definition id_form :: "pyval \<Rightarrow> pyval \<Rightarrow> bool" where
  "id_form nid nt = (case (nid, nt) of (PStr i, PStr t) \<Rightarrow> starts (t @ '':'') i | _ \<Rightarrow> False)"

definition hash_form :: "pyval \<Rightarrow> bool" where
  "hash_form v = (case v of PStr s \<Rightarrow> SHA_RE s | _ \<Rightarrow> False)"

definition add_id :: "pyval \<Rightarrow> pyval \<Rightarrow> pydict \<Rightarrow> pydict \<times> string list" where
  "add_id nid nt ids = (case nid of
     PStr i \<Rightarrow> (AList.update i nt ids, finding ''DUPLICATE_NODE_ID'' (map_of ids i \<noteq> None))
   | _ \<Rightarrow> (ids, []))"

fun check_nodes :: "graph_schema \<Rightarrow> pyval list \<Rightarrow> pydict \<Rightarrow> (pydict \<times> string list) result" where
  "check_nodes sc [] ids = Inr (ids, [])"
| "check_nodes sc (PDict n # ns) ids =
     (let nid = py_get n ''id''; nt = py_get n ''type'' in
      bindr (in_texts nt (sc_node_types sc)) (\<lambda>known.
      case add_id nid nt ids of (ids', dup) \<Rightarrow>
      bindr (check_nodes sc ns ids') (\<lambda>(ids'', fs).
        Inr (ids'', finding ''NODE_TYPE_UNKNOWN'' (\<not> known) @ finding ''NODE_ID_FORM'' (\<not> id_form nid nt) @
          finding ''NODE_WITHOUT_HASH'' (\<not> hash_form (py_get n ''content_hash'')) @ dup @ fs))))"
| "check_nodes sc (_ # ns) ids = bindr (check_nodes sc ns ids) (\<lambda>(ids', fs). Inr (ids', ''NODE_TYPE_UNKNOWN'' # fs))"

definition check_provenance :: "graph_schema \<Rightarrow> pydict \<Rightarrow> string list result" where
  "check_provenance sc e = (case map_of e ''provenance'' of
     None \<Rightarrow> Inr [''EDGE_WITHOUT_PROVENANCE'']
   | Some p \<Rightarrow> bindr (in_texts p (sc_provenance sc)) (\<lambda>ok.
       if \<not> ok then Inr [''EDGE_PROVENANCE_INVALID'']
       else Inr (finding ''INFERRED_WITHOUT_METHOD'' (p = PStr ''inferred'' \<and> \<not> py_true (py_get e ''inferred_by'')) @
         finding ''OBSERVED_WITHOUT_TIME'' (p = PStr ''observed'' \<and> \<not> parses_iso (py_get e ''observed_at_utc'')) @
         finding ''LLM_EDGE_NOT_INFERRED'' (p \<noteq> PStr ''inferred'' \<and>
           (py_true (py_get e ''inferred_by'') \<or> py_eq (py_get e ''via'') (PStr ''llm''))))))"

definition mistyped :: "graph_schema \<Rightarrow> pydict \<Rightarrow> pyval \<Rightarrow> pyval \<Rightarrow> pyval \<Rightarrow> bool" where
  "mistyped sc ids et fr to = (case (et, fr, to) of
     (PStr t, PStr f, PStr g) \<Rightarrow>
       (case (map_of (sc_edge_types sc) t, map_of ids f, map_of ids g) of
          (Some (fs, gs), Some ft, Some gt) \<Rightarrow> ft \<notin> PStr ` set fs \<or> gt \<notin> PStr ` set gs
        | _ \<Rightarrow> False)
   | _ \<Rightarrow> False)"

definition check_edge :: "graph_schema \<Rightarrow> pydict \<Rightarrow> pyval \<Rightarrow> string list result" where
  "check_edge sc ids v = (case v of
     PDict e \<Rightarrow>
       (let et = py_get e ''type''; fr = py_get e ''from''; to = py_get e ''to'' in
        bindr (in_texts et (map fst (sc_edge_types sc))) (\<lambda>known.
        bindr (check_provenance sc e) (\<lambda>prov.
        bindr (in_texts fr (map fst ids)) (\<lambda>f_ok.
        bindr (in_texts to (map fst ids)) (\<lambda>t_ok.
          Inr (finding ''EDGE_TYPE_UNKNOWN'' (\<not> known) @ prov @ finding ''EDGE_ENDPOINT_UNKNOWN'' (\<not> f_ok) @
            finding ''EDGE_ENDPOINT_UNKNOWN'' (\<not> t_ok) @
            finding ''EDGE_ENDPOINT_TYPE_MISMATCH'' (mistyped sc ids et fr to)))))))
   | _ \<Rightarrow> Inr [''EDGE_TYPE_UNKNOWN''])"

definition list_or_empty :: "pyval \<Rightarrow> pyval list" where
  "list_or_empty v = (case v of PList xs \<Rightarrow> xs | _ \<Rightarrow> [])"

definition check_digest :: "(string \<Rightarrow> string) \<Rightarrow> pyenv \<Rightarrow> pydict \<Rightarrow> string list result" where
  "check_digest H P doc = (case map_of (dict_or_empty (py_get doc ''manifest'')) ''graph_digest'' of
     Some (PStr d) \<Rightarrow> bindr (graph_digest H P doc) (\<lambda>g. Inr (finding ''GRAPH_DIGEST_MISMATCH'' (d \<noteq> g)))
   | _ \<Rightarrow> Inr [])"

definition check_graph :: "(string \<Rightarrow> string) \<Rightarrow> pyenv \<Rightarrow> graph_schema \<Rightarrow> string set \<Rightarrow> pydict \<Rightarrow> string list result" where
  "check_graph H P sc disabled doc =
    bindr (check_nodes sc (list_or_empty (py_get doc ''nodes'')) []) (\<lambda>(ids, fs_nodes).
    bindr (mapr (check_edge sc ids) (list_or_empty (py_get doc ''edges''))) (\<lambda>fs_edges.
    bindr (check_digest H P doc) (\<lambda>fs_digest.
      Inr (filter (\<lambda>c. c \<notin> disabled) (check_manifest sc doc @ fs_nodes @ concat fs_edges @ fs_digest)))))"

subsection \<open>Decoding\<close>

definition opt_text :: "pydict \<Rightarrow> string \<Rightarrow> string option option" where
  "opt_text d k = (case map_of d k of None \<Rightarrow> Some None | Some (PStr s) \<Rightarrow> Some (Some s) | Some _ \<Rightarrow> None)"

definition text_of :: "pydict \<Rightarrow> string \<Rightarrow> string option" where
  "text_of d k = (case map_of d k of Some (PStr s) \<Rightarrow> Some s | _ \<Rightarrow> None)"

definition decode_node :: "pyval \<Rightarrow> gnode option" where
  "decode_node v = (case v of PDict n \<Rightarrow>
     (case (text_of n ''id'', text_of n ''type'', text_of n ''content_hash'', opt_text n ''path'', opt_text n ''kind'') of
        (Some i, Some t, Some h, Some p, Some k) \<Rightarrow> Some \<lparr>n_id = i, n_type = t, n_path = p, n_kind = k, n_hash = h\<rparr>
      | _ \<Rightarrow> None)
   | _ \<Rightarrow> None)"

definition decode_edge :: "pyval \<Rightarrow> gedge option" where
  "decode_edge v = (case v of PDict e \<Rightarrow>
     (case (text_of e ''from'', text_of e ''to'', text_of e ''type'', text_of e ''provenance'', opt_text e ''boundary'') of
        (Some f, Some t, Some ty, Some p, Some b) \<Rightarrow>
          Some \<lparr>e_from = f, e_to = t, e_type = ty, e_prov = p, e_boundary = b,
            e_extra = List.map_filter (\<lambda>k. map_option (Pair k) (map_of e k)) [''inferred_by'', ''observed_at_utc'', ''via'']\<rparr>
      | _ \<Rightarrow> None)
   | _ \<Rightarrow> None)"

fun decode_list :: "('a \<Rightarrow> 'b option) \<Rightarrow> 'a list \<Rightarrow> 'b list option" where
  "decode_list f [] = Some []"
| "decode_list f (x # xs) = (case (f x, decode_list f xs) of (Some y, Some ys) \<Rightarrow> Some (y # ys) | _ \<Rightarrow> None)"

definition decode_graph :: "pydict \<Rightarrow> graph_doc option" where
  "decode_graph doc = (case (map_of doc ''manifest'', map_of doc ''nodes'', map_of doc ''edges'') of
     (Some (PDict m), Some (PList ns), Some (PList es)) \<Rightarrow>
       (case (decode_list decode_node ns, decode_list decode_edge es) of
          (Some ns, Some es) \<Rightarrow> Some \<lparr>gd_manifest = m, gd_nodes = ns, gd_edges = es\<rparr>
        | _ \<Rightarrow> None)
   | _ \<Rightarrow> None)"

end
