(* ===== verification/Graph_Check_Props.thy ===== *)
theory Graph_Check_Props
  imports Graph_Check
begin

section \<open>What conformance buys\<close>

text \<open>
  A document without findings decodes to a graph with distinct nodes whose edges end in nodes, have known
  types and join nodes of the types the contract allows: the traversal cannot raise on it.
\<close>

lemma decode_list_all2: "decode_list f xs = Some ys \<Longrightarrow> list_all2 (\<lambda>x y. f x = Some y) xs ys"
  by (induction xs arbitrary: ys) (auto simp: list_all2_Cons1 split: option.splits)

lemma all2_right: "list_all2 Q xs ys \<Longrightarrow> y \<in> set ys \<Longrightarrow> \<exists>x\<in>set xs. Q x y"
  by (induction rule: list_all2_induct) auto

lemma all2_left: "list_all2 Q xs ys \<Longrightarrow> x \<in> set xs \<Longrightarrow> \<exists>y\<in>set ys. Q x y"
  by (induction rule: list_all2_induct) auto

lemma decode_node_dict:
  assumes "decode_node v = Some g"
  obtains n where "v = PDict n" "py_get n ''id'' = PStr (n_id g)" "py_get n ''type'' = PStr (n_type g)"
    "py_get n ''content_hash'' = PStr (n_hash g)"
  using assms
  by (auto simp: decode_node_def text_of_def py_get_def split: pyval.splits option.splits)

lemma decode_edge_dict:
  assumes "decode_edge v = Some g"
  obtains e where "v = PDict e" "py_get e ''type'' = PStr (e_type g)" "py_get e ''from'' = PStr (e_from g)"
    "py_get e ''to'' = PStr (e_to g)" "map_of e ''provenance'' = Some (PStr (e_prov g))"
  using assms
  by (auto simp: decode_edge_def text_of_def py_get_def split: pyval.splits option.splits)

lemma check_nodes_ids:
  assumes "check_nodes sc ns ids = Inr (ids', fs)" "list_all2 (\<lambda>v g. decode_node v = Some g) ns gs"
  shows "set (map fst ids') = set (map fst ids) \<union> n_id ` set gs \<and>
    (\<forall>x. x \<notin> n_id ` set gs \<longrightarrow> map_of ids' x = map_of ids x) \<and>
    (''DUPLICATE_NODE_ID'' \<notin> set fs \<longrightarrow> distinct (map n_id gs) \<and> n_id ` set gs \<inter> set (map fst ids) = {} \<and>
       (\<forall>g\<in>set gs. map_of ids' (n_id g) = Some (PStr (n_type g)))) \<and>
    (''NODE_TYPE_UNKNOWN'' \<notin> set fs \<longrightarrow> n_type ` set gs \<subseteq> set (sc_node_types sc))"
  using assms(2,1)
proof (induction arbitrary: ids fs rule: list_all2_induct)
  case (Cons v vs g gs)
  from Cons.hyps(1) obtain n where n: "v = PDict n" "py_get n ''id'' = PStr (n_id g)" "py_get n ''type'' = PStr (n_type g)"
    by (rule decode_node_dict)
  let ?ids = "AList.update (n_id g) (PStr (n_type g)) ids"
  from Cons.prems obtain fs' where c: "check_nodes sc vs ?ids = Inr (ids', fs')"
    and fs: "fs = finding ''NODE_TYPE_UNKNOWN'' (n_type g \<notin> set (sc_node_types sc)) @
       finding ''NODE_ID_FORM'' (\<not> id_form (PStr (n_id g)) (PStr (n_type g))) @
       finding ''NODE_WITHOUT_HASH'' (\<not> hash_form (py_get n ''content_hash'')) @
       finding ''DUPLICATE_NODE_ID'' (map_of ids (n_id g) \<noteq> None) @ fs'"
    by (auto simp: n in_texts_def add_id_def bindr_Inr Let_def)
  have dup: "''DUPLICATE_NODE_ID'' \<in> set fs \<longleftrightarrow> n_id g \<in> set (map fst ids) \<or> ''DUPLICATE_NODE_ID'' \<in> set fs'"
    and unk: "''NODE_TYPE_UNKNOWN'' \<in> set fs \<longleftrightarrow> n_type g \<notin> set (sc_node_types sc) \<or> ''NODE_TYPE_UNKNOWN'' \<in> set fs'"
    by (auto simp: fs finding_def map_of_eq_None_iff)
  note IH = Cons.IH [OF c]
  have "map_of ids' x = map_of ids x" if "x \<notin> n_id ` set (g # gs)" for x
    using IH that by (auto simp: map_of_update)
  moreover have "set (map fst ids') = set (map fst ids) \<union> n_id ` set (g # gs)" using IH by (simp add: dom_update)
  moreover have "distinct (map n_id (g # gs)) \<and> n_id ` set (g # gs) \<inter> set (map fst ids) = {} \<and>
      (\<forall>h\<in>set (g # gs). map_of ids' (n_id h) = Some (PStr (n_type h)))"
    if "''DUPLICATE_NODE_ID'' \<notin> set fs"
    using that IH dup by (auto simp: dom_update map_of_update)
  moreover have "n_type ` set (g # gs) \<subseteq> set (sc_node_types sc)" if "''NODE_TYPE_UNKNOWN'' \<notin> set fs"
    using that IH unk by auto
  ultimately show ?case by blast
qed simp

lemma check_edge_ok:
  assumes "check_edge sc ids v = Inr fs" "decode_edge v = Some g"
    and "''EDGE_ENDPOINT_UNKNOWN'' \<notin> set fs" "''EDGE_TYPE_UNKNOWN'' \<notin> set fs" "''EDGE_PROVENANCE_INVALID'' \<notin> set fs"
      "''EDGE_ENDPOINT_TYPE_MISMATCH'' \<notin> set fs"
  shows "e_from g \<in> set (map fst ids) \<and> e_to g \<in> set (map fst ids) \<and> e_prov g \<in> set (sc_provenance sc) \<and>
    (\<exists>a b ft gt. map_of (sc_edge_types sc) (e_type g) = Some (a, b) \<and> map_of ids (e_from g) = Some ft \<and> map_of ids (e_to g) = Some gt \<and>
       ft \<in> PStr ` set a \<and> gt \<in> PStr ` set b)"
proof -
  from assms(2) obtain e where e: "v = PDict e" "py_get e ''type'' = PStr (e_type g)" "py_get e ''from'' = PStr (e_from g)"
    "py_get e ''to'' = PStr (e_to g)" "map_of e ''provenance'' = Some (PStr (e_prov g))" by (rule decode_edge_dict)
  from assms(1) obtain prov where prov: "check_provenance sc e = Inr prov"
    and fs: "fs = finding ''EDGE_TYPE_UNKNOWN'' (e_type g \<notin> set (map fst (sc_edge_types sc))) @ prov @
      finding ''EDGE_ENDPOINT_UNKNOWN'' (e_from g \<notin> set (map fst ids)) @ finding ''EDGE_ENDPOINT_UNKNOWN'' (e_to g \<notin> set (map fst ids)) @
      finding ''EDGE_ENDPOINT_TYPE_MISMATCH'' (mistyped sc ids (PStr (e_type g)) (PStr (e_from g)) (PStr (e_to g)))"
    by (auto simp: check_edge_def e in_texts_def bindr_Inr)
  have ends: "e_from g \<in> set (map fst ids)" "e_to g \<in> set (map fst ids)" "e_type g \<in> set (map fst (sc_edge_types sc))"
    "\<not> mistyped sc ids (PStr (e_type g)) (PStr (e_from g)) (PStr (e_to g))"
    using assms(3,4,6) by (auto simp: fs finding_def split: if_splits)
  have "e_prov g \<in> set (sc_provenance sc)"
    using prov assms(5) fs by (auto simp: check_provenance_def e in_texts_def split: if_splits)
  moreover obtain a b ft gt where "map_of (sc_edge_types sc) (e_type g) = Some (a, b)" "map_of ids (e_from g) = Some ft" "map_of ids (e_to g) = Some gt"
    using ends(1-3) by (metis map_of_eq_None_iff not_Some_eq list.set_map prod.exhaust)
  ultimately show ?thesis using ends by (auto simp: mistyped_def)
qed

text \<open>A graph as the contract wants it.\<close>

definition conformant :: "graph_schema \<Rightarrow> graph_doc \<Rightarrow> bool" where
  "conformant sc g \<longleftrightarrow> distinct (map n_id (gd_nodes g)) \<and> (\<forall>n\<in>set (gd_nodes g). n_type n \<in> set (sc_node_types sc)) \<and>
    (\<forall>e\<in>set (gd_edges g). e_prov e \<in> set (sc_provenance sc) \<and>
      (\<exists>a b. map_of (sc_edge_types sc) (e_type e) = Some (a, b) \<and>
        (\<exists>m\<in>set (gd_nodes g). n_id m = e_from e \<and> n_type m \<in> set a) \<and> (\<exists>m\<in>set (gd_nodes g). n_id m = e_to e \<and> n_type m \<in> set b)))"

lemma check_graph_conformant:
  assumes chk: "check_graph H P sc {''GRAPH_DIRTY''} doc = Inr []" and dec: "decode_graph doc = Some g"
  shows "conformant sc g"
proof -
  from dec obtain ns es where d: "map_of doc ''nodes'' = Some (PList ns)" "map_of doc ''edges'' = Some (PList es)"
    "list_all2 (\<lambda>v n. decode_node v = Some n) ns (gd_nodes g)" "list_all2 (\<lambda>v e. decode_edge v = Some e) es (gd_edges g)"
    by (auto simp: decode_graph_def dest!: decode_list_all2 split: option.splits pyval.splits)
  from chk d(1,2) obtain ids fn fe where c: "check_nodes sc ns [] = Inr (ids, fn)" "mapr (check_edge sc ids) es = Inr fe"
    and none: "\<forall>x\<in>set fn. x = ''GRAPH_DIRTY''" "\<forall>fs\<in>set fe. \<forall>x\<in>set fs. x = ''GRAPH_DIRTY''"
    by (auto simp: check_graph_def bindr_Inr list_or_empty_def py_get_def filter_empty_conv)
  have nodes: "distinct (map n_id (gd_nodes g))" "n_type ` set (gd_nodes g) \<subseteq> set (sc_node_types sc)"
    "\<And>x. x \<in> set (gd_nodes g) \<Longrightarrow> map_of ids (n_id x) = Some (PStr (n_type x))" "set (map fst ids) = n_id ` set (gd_nodes g)"
    using check_nodes_ids [OF c(1) d(3)] none(1) by auto
  have node_at: "\<exists>m\<in>set (gd_nodes g). n_id m = x \<and> n_type m \<in> set a" if x: "map_of ids x = Some v" "v \<in> PStr ` set a" for x v a
  proof -
    have "x \<in> set (map fst ids)" using map_of_SomeD [OF x(1)] by force
    then obtain m where m: "m \<in> set (gd_nodes g)" "x = n_id m" unfolding nodes(4) by auto
    with nodes(3) x show ?thesis by auto
  qed
  have "e_prov e \<in> set (sc_provenance sc) \<and> (\<exists>a b. map_of (sc_edge_types sc) (e_type e) = Some (a, b) \<and>
      (\<exists>m\<in>set (gd_nodes g). n_id m = e_from e \<and> n_type m \<in> set a) \<and> (\<exists>m\<in>set (gd_nodes g). n_id m = e_to e \<and> n_type m \<in> set b))"
    if "e \<in> set (gd_edges g)" for e
  proof -
    from all2_right [OF d(4) that] obtain v where v: "v \<in> set es" "decode_edge v = Some e" by blast
    from all2_left [OF c(2) [unfolded mapr_Inr] v(1)] obtain fs where fs: "check_edge sc ids v = Inr fs" "fs \<in> set fe" by blast
    then have no: "c \<noteq> ''GRAPH_DIRTY'' \<Longrightarrow> c \<notin> set fs" for c using none(2) by blast
    from check_edge_ok [OF fs(1) v(2) no no no no] obtain a b ft gt where *:
      "e_prov e \<in> set (sc_provenance sc)" "map_of (sc_edge_types sc) (e_type e) = Some (a, b)" "map_of ids (e_from e) = Some ft"
      "map_of ids (e_to e) = Some gt" "ft \<in> PStr ` set a" "gt \<in> PStr ` set b" by auto
    show ?thesis using * node_at [OF *(3,5)] node_at [OF *(4,6)] by blast
  qed
  with nodes(1,2) show ?thesis unfolding conformant_def by blast
qed

lemma conformant_closed:
  assumes "conformant sc g"
  shows "graph_closed g"
proof -
  have "e_from e \<in> n_id ` set (gd_nodes g) \<and> e_to e \<in> n_id ` set (gd_nodes g)" if e: "e \<in> set (gd_edges g)" for e
  proof -
    from assms e obtain m m' where "m \<in> set (gd_nodes g)" "n_id m = e_from e" "m' \<in> set (gd_nodes g)" "n_id m' = e_to e"
      unfolding conformant_def by blast
    then show ?thesis by (metis imageI)
  qed
  then show ?thesis by (simp add: graph_closed_def list_all_iff)
qed

end
