(* ===== verification/Graph_Query.thy ===== *)
theory Graph_Query
  imports Graph_Check_Props
begin

section \<open>Graph admission: change sets, freshness and the impact query\<close>

text \<open>
  The rest of \<^verbatim>\<open>tools/graph/impact.py\<close>: reading change sets from git, the staleness check and \<open>query\<close>. Git, the
  working tree and \<open>json.loads\<close> are the record \<open>repo\<close>; SHA-256 is \<open>H\<close>. A refusal carries the details the
  source gives it; the sentences of refusals, methods and explanations are left out, and so are the
  wall-clock fields. The cache of full-suite declarations, which holds the value of a pure function, is not kept.
\<close>

subsection \<open>Refusals\<close>

datatype refusal =
    EMPTY_CHANGE_SET
  | STALE_ROLE                                          \<comment> \<open>an invalid graph revision role\<close>
  | STALE_COMMIT pyval "string option"                  \<comment> \<open>the commit of the graph, the one expected\<close>
  | STALE_TREE                                          \<comment> \<open>a dirty tree in diff mode\<close>
  | STALE_NODES "(string \<times> string \<times> string option) list" nat
  | STALE_DIRTY                                         \<comment> \<open>a graph built on a dirty tree\<close>
  | GRAPH_INVALID "string list" nat
  | UNKNOWN_ASSETS "string list" "string list"          \<comment> \<open>all files, the assets among them\<close>
  | UNKNOWN_CODE "string list"
  | SOURCE_PATH_INVALID
  | SELECTED_SOURCE_NOT_MEASURED "string list"
  | SELECTED_HEAD_NOT_MEASURED
  | EXPLANATION_INVALID
  | EXPLANATION_STALE
  | EXPLANATION_INAPPLICABLE

fun refusal_code :: "refusal \<Rightarrow> string" where
  "refusal_code EMPTY_CHANGE_SET = ''EMPTY_CHANGE_SET''"
| "refusal_code (GRAPH_INVALID _ _) = ''GRAPH_INVALID''"
| "refusal_code (UNKNOWN_ASSETS _ _) = ''UNKNOWN_NODE''"
| "refusal_code (UNKNOWN_CODE _) = ''UNKNOWN_NODE''"
| "refusal_code SOURCE_PATH_INVALID = ''SOURCE_PATH_INVALID''"
| "refusal_code (SELECTED_SOURCE_NOT_MEASURED _) = ''SELECTED_SOURCE_NOT_MEASURED''"
| "refusal_code SELECTED_HEAD_NOT_MEASURED = ''SELECTED_HEAD_NOT_MEASURED''"
| "refusal_code EXPLANATION_INVALID = ''EMPTY_IMPACT_EXPLANATION_INVALID''"
| "refusal_code EXPLANATION_STALE = ''EMPTY_IMPACT_EXPLANATION_STALE''"
| "refusal_code EXPLANATION_INAPPLICABLE = ''EMPTY_IMPACT_EXPLANATION_INAPPLICABLE''"
| "refusal_code _ = ''STALE_GRAPH''"

datatype gerror = Refused refusal | Raised exn

type_synonym 'a gres = "gerror + 'a"

definition bindg :: "'a gres \<Rightarrow> ('a \<Rightarrow> 'b gres) \<Rightarrow> 'b gres" where
  "bindg m k = (case m of Inl e \<Rightarrow> Inl e | Inr a \<Rightarrow> k a)"

lemma bindg_simps [simp]: "bindg (Inl e) k = Inl e" "bindg (Inr a) k = k a"
  by (simp_all add: bindg_def)

lemma bindg_Inr: "bindg m k = Inr b \<longleftrightarrow> (\<exists>a. m = Inr a \<and> k a = Inr b)"
  by (cases m) simp_all

definition raising :: "'a result \<Rightarrow> 'a gres" where
  "raising m = map_sum Raised id m"

lemma raising_Inr [simp]: "raising m = Inr a \<longleftrightarrow> m = Inr a"
  by (cases m) (simp_all add: raising_def)

fun mapg :: "('a \<Rightarrow> 'b gres) \<Rightarrow> 'a list \<Rightarrow> 'b list gres" where
  "mapg f [] = Inr []"
| "mapg f (x # xs) = bindg (f x) (\<lambda>y. bindg (mapg f xs) (\<lambda>ys. Inr (y # ys)))"

lemma mapg_Inr: "mapg f xs = Inr ys \<longleftrightarrow> list_all2 (\<lambda>x y. f x = Inr y) xs ys"
  by (induction xs arbitrary: ys) (auto simp: bindg_Inr list_all2_Cons1)

subsection \<open>The repository\<close>

record repo =
  r_prefix :: string
  r_blob :: "string \<Rightarrow> string option"          \<comment> \<open>\<open>git cat-file\<close> of \<open>rev:path\<close>\<close>
  r_worktree :: "string \<Rightarrow> string option"
  r_loads :: "string \<Rightarrow> pyval option"           \<comment> \<open>\<open>json.loads\<close>, \<open>None\<close> where it raises\<close>

record cfile =
  f_path :: string
  f_status :: string
  f_renamed_to :: "string option option"        \<comment> \<open>the outer option: the key is present\<close>
  f_renamed_from :: "string option option"
  f_keys :: "string list"                       \<comment> \<open>\<open>_config_schema_keys\<close>\<close>

definition plain_file :: "string \<Rightarrow> string \<Rightarrow> cfile" where
  "plain_file p st = \<lparr>f_path = p, f_status = st, f_renamed_to = None, f_renamed_from = None, f_keys = []\<rparr>"

definition rel_path :: "string \<Rightarrow> string \<Rightarrow> string option" where
  "rel_path pre p = (if pre \<noteq> [] \<and> \<not> starts pre p then None else Some (drop (length pre) p))"

definition opt_file :: "(string \<Rightarrow> cfile) \<Rightarrow> string option \<Rightarrow> cfile list" where
  "opt_file mk p = (case p of None \<Rightarrow> [] | Some q \<Rightarrow> [mk q])"

text \<open>A rename is the old path with its target and the new path with its source.\<close>

definition rename_files :: "string option \<Rightarrow> string option \<Rightarrow> cfile list" where
  "rename_files ro rn =
     opt_file (\<lambda>p. (plain_file p ''R'')\<lparr>f_renamed_to := Some rn\<rparr>) ro @
     opt_file (\<lambda>p. (plain_file p ''A'')\<lparr>f_renamed_from := Some ro\<rparr>) rn"

definition diff_status :: "char \<Rightarrow> string" where
  "diff_status c = (if c = CHR ''A'' then ''A'' else if c = CHR ''D'' then ''D'' else ''M'')"

function diff_loop :: "string \<Rightarrow> string list \<Rightarrow> cfile list result" where
  "diff_loop pre [] = Inr []"
| "diff_loop pre ([] # rest) = Inr []"
| "diff_loop pre ((c # cs) # rest) =
     (if c = CHR ''R'' \<or> c = CHR ''C''
      then (case rest of old # new # rest' \<Rightarrow>
              bindr (diff_loop pre rest') (\<lambda>fs.
                Inr ((if c = CHR ''R'' then rename_files (rel_path pre old) (rel_path pre new)
                      else opt_file (\<lambda>p. plain_file p ''A'') (rel_path pre new)) @ fs))
            | _ \<Rightarrow> Inl IndexError)
      else (case rest of p # rest' \<Rightarrow>
              bindr (diff_loop pre rest') (\<lambda>fs. Inr (opt_file (\<lambda>q. plain_file q (diff_status c)) (rel_path pre p) @ fs))
            | _ \<Rightarrow> Inl IndexError))"
  by pat_completeness auto
termination
  by (relation "measure (\<lambda>(pre, parts). length parts)") auto

definition diff_files :: "string \<Rightarrow> string \<Rightarrow> cfile list result" where
  "diff_files pre out = map_sum id (sort_key f_path) (diff_loop pre (split_on CHR 0x00 out))"

definition worktree_status :: "string \<Rightarrow> string" where
  "worktree_status code = (if CHR ''D'' \<in> set code then ''D''
     else if code = ''??'' \<or> CHR ''A'' \<in> set code then ''A'' else ''M'')"

function worktree_loop :: "string \<Rightarrow> string list \<Rightarrow> cfile list result" where
  "worktree_loop pre [] = Inr []"
| "worktree_loop pre (part # rest) =
     (if part = [] then Inr []
      else let code = take 2 part; p = drop 3 part
      in if hd code \<noteq> CHR ''R'' \<and> length code < 2 then Inl IndexError
         else if hd code = CHR ''R'' \<or> code ! 1 = CHR ''R''
         then (case rest of old # rest' \<Rightarrow>
                 bindr (worktree_loop pre rest') (\<lambda>fs. Inr (rename_files (rel_path pre old) (rel_path pre p) @ fs))
               | [] \<Rightarrow> Inl IndexError)
         else bindr (worktree_loop pre rest) (\<lambda>fs. Inr (opt_file (\<lambda>q. plain_file q (worktree_status code)) (rel_path pre p) @ fs)))"
  by pat_completeness auto
termination
  by (relation "measure (\<lambda>(pre, parts). length parts)") auto

definition worktree_files :: "string \<Rightarrow> string \<Rightarrow> cfile list result" where
  "worktree_files pre out = map_sum id (sort_key f_path) (worktree_loop pre (split_on CHR 0x00 out))"

definition parse_file_arg :: "string \<Rightarrow> cfile" where
  "parse_file_arg s = (let p = takeWhile (\<lambda>c. c \<noteq> CHR '':'') s; st = drop (length p + 1) s
     in plain_file p (if st = [] then ''M'' else upper st))"

definition parse_file_args :: "string list \<Rightarrow> cfile list" where
  "parse_file_args specs = sort_key f_path (map parse_file_arg specs)"

definition scope_path :: "string \<Rightarrow> string gres" where
  "scope_path rel =
    (if rel = [] \<or> starts ''/'' rel \<or> CHR 0x5C \<in> set rel \<or> CHR '':'' \<in> set rel \<or> list_ex control_char rel \<or>
        ''..'' \<in> set (split_on CHR ''/'' rel)
     then Inl (Refused SOURCE_PATH_INVALID)
     else let p = join ''/'' (filter (\<lambda>x. x \<notin> set [[], ''.'']) (split_on CHR ''/'' rel))
          in if p = [] then Inl (Refused SOURCE_PATH_INVALID) else Inr p)"

definition rev_text :: "string option \<Rightarrow> string" where
  "rev_text r = (case r of None \<Rightarrow> ''None'' | Some s \<Rightarrow> s)"

definition read_at :: "repo \<Rightarrow> string option \<Rightarrow> string list \<Rightarrow> (string \<times> string option) list gres" where
  "read_at R at rels = bindg (mapg scope_path rels) (\<lambda>ps.
     Inr (zip rels (map (\<lambda>p. r_blob R (rev_text at @ '':'' @ r_prefix R @ p)) ps)))"

subsection \<open>Freshness\<close>

record qenv =
  q_hash :: "string \<Rightarrow> string"
  q_repo :: "repo option"
  q_reader :: "(string \<Rightarrow> string option) option"
  q_diff :: bool                                \<comment> \<open>\<open>mode == "diff"\<close>\<close>
  q_base :: "string option"
  q_head :: "string option"
  q_tree_commit :: string
  q_tree_dirty :: bool
  q_role :: string
  q_max_depth :: "int option"
  q_edge_types :: "string set option"
  q_rules :: "string set"

definition FILE_HASH_TYPES :: "string list" where
  "FILE_HASH_TYPES = [''code_unit'', ''document'', ''receipt'', ''deployable_unit'', ''systemd_unit'', ''source_file'']"

definition DEPLOYABLE_MANIFEST_NAMES :: "string list" where
  "DEPLOYABLE_MANIFEST_NAMES = [''package.json'', ''Cargo.toml'', ''pyproject.toml'', ''setup.py'', ''setup.cfg'']"

definition graph_ref :: "qenv \<Rightarrow> string option" where
  "graph_ref Q = (if q_diff Q then (if q_role Q = ''head'' then q_head Q else q_base Q) else Some (q_tree_commit Q))"

text \<open>Reading several paths of the tree the graph stands for; \<open>None\<close> is an absent file.\<close>

definition read_tree :: "qenv \<Rightarrow> string list \<Rightarrow> (string \<times> string option) list gres" where
  "read_tree Q paths = (case (q_reader Q, q_repo Q) of
     (Some rd, _) \<Rightarrow> Inr (map (\<lambda>p. (p, rd p)) paths)
   | (None, Some R) \<Rightarrow> if q_diff Q then read_at R (graph_ref Q) paths else Inr (map (\<lambda>p. (p, r_worktree R p)) paths)
   | (None, None) \<Rightarrow> Inl (Raised AttributeError))"

definition read_one :: "qenv \<Rightarrow> string \<Rightarrow> string option gres" where
  "read_one Q p = bindg (read_tree Q [p]) (\<lambda>bs. Inr (case map_of bs p of None \<Rightarrow> None | Some b \<Rightarrow> b))"

fun first_present :: "qenv \<Rightarrow> string \<Rightarrow> string list \<Rightarrow> string gres" where
  "first_present Q d [] = Inr (d @ ''/'' @ hd DEPLOYABLE_MANIFEST_NAMES)"
| "first_present Q d (name # names) =
     bindg (read_one Q (d @ ''/'' @ name)) (\<lambda>b. if b \<noteq> None then Inr (d @ ''/'' @ name) else first_present Q d names)"

definition deployable_manifest :: "qenv \<Rightarrow> string \<Rightarrow> string gres" where
  "deployable_manifest Q p = first_present Q (rstrip_slash p) DEPLOYABLE_MANIFEST_NAMES"

text \<open>The file whose bytes a node stands for, where it stands for one.\<close>

definition hashed_path :: "qenv \<Rightarrow> string set \<Rightarrow> gnode \<Rightarrow> string option gres" where
  "hashed_path Q changed n = (case path_of n of None \<Rightarrow> Inr None
     | Some p \<Rightarrow>
        if n_type n \<notin> set FILE_HASH_TYPES then Inr None
        else bindg (if n_type n = ''deployable_unit'' then deployable_manifest Q p else Inr p) (\<lambda>p.
          Inr (if \<not> q_diff Q \<and> p \<in> changed then None else Some p)))"

fun wanted :: "qenv \<Rightarrow> string set \<Rightarrow> (string \<times> gnode) list \<Rightarrow> (string \<times> string list) list \<Rightarrow> (string \<times> string list) list gres" where
  "wanted Q changed [] w = Inr w"
| "wanted Q changed ((nid, n) # ns) w =
     bindg (hashed_path Q changed n) (\<lambda>p. wanted Q changed ns (case p of None \<Rightarrow> w | Some p \<Rightarrow> push p nid w))"

definition node_hash :: "graph_index \<Rightarrow> string \<Rightarrow> string" where
  "node_hash i nid = (case map_of (gi_nodes i) nid of None \<Rightarrow> [] | Some n \<Rightarrow> n_hash n)"

definition tree_hash :: "qenv \<Rightarrow> string option \<Rightarrow> string option" where
  "tree_hash Q b = map_option (\<lambda>t. ''sha256:'' @ q_hash Q t) b"

definition hash_check :: "qenv \<Rightarrow> graph_index \<Rightarrow> string set \<Rightarrow> nat gres" where
  "hash_check Q i changed =
    bindg (wanted Q changed (gi_nodes i) []) (\<lambda>w.
    bindg (read_tree Q (sort (map fst w))) (\<lambda>blobs.
      let rows = concat (map (\<lambda>pb. map (\<lambda>nid. (nid, node_hash i nid, tree_hash Q (snd pb))) (bucket w (fst pb))) blobs);
          bad = filter (\<lambda>(nid, g, t). Some g \<noteq> t) rows
      in if bad = [] then Inr (length rows) else Inl (Refused (STALE_NODES (take 50 bad) (length rows)))))"

text \<open>The message of a commit mismatch takes the first twelve characters of both commits, which raises where there is
  nothing to take them from.\<close>

definition sliceable :: "pydict \<Rightarrow> string \<Rightarrow> bool" where
  "sliceable m k = (case map_of m k of None \<Rightarrow> True | Some (PStr _) \<Rightarrow> True | Some (PList _) \<Rightarrow> True | Some _ \<Rightarrow> False)"

text \<open>The value is the number of nodes whose bytes were compared.\<close>

definition check_staleness :: "qenv \<Rightarrow> graph_index \<Rightarrow> string set \<Rightarrow> nat gres" where
  "check_staleness Q i changed =
    (let commit = py_get (gi_manifest i) ''source_commit''; ref = graph_ref Q in
     if q_role Q \<notin> {''base'', ''head''} \<or> q_role Q = ''head'' \<and> (\<not> q_diff Q \<or> q_head Q \<in> {None, Some []})
     then Inl (Refused STALE_ROLE)
     else if ''staleness'' \<in> q_rules Q \<and> commit \<noteq> (case ref of None \<Rightarrow> PNone | Some s \<Rightarrow> PStr s)
     then (if ref = None \<or> \<not> sliceable (gi_manifest i) ''source_commit'' then Inl (Raised TypeError) else Inl (Refused (STALE_COMMIT commit ref)))
     else if ''staleness'' \<in> q_rules Q \<and> q_diff Q \<and> q_tree_dirty Q then Inl (Refused STALE_TREE)
     else if ''hash_check'' \<in> q_rules Q \<and> (q_repo Q \<noteq> None \<or> q_reader Q \<noteq> None) then hash_check Q i changed
     else Inr 0)"

end
