(* ===== verification/Graph_Impact.thy ===== *)
theory Graph_Impact
  imports Graph_Query
begin

section \<open>Graph admission: the impact query\<close>

text \<open>
  \<open>query\<close>, \<open>receipt_skeleton\<close> and \<open>run_query\<close> of \<^verbatim>\<open>tools/graph/impact.py\<close>. The loop over the changed files fills
  the accumulator \<open>qacc\<close>; the document it ends in is the record \<open>impact_query\<close>.
\<close>

subsection \<open>The declaration of a full suite\<close>

definition is_space :: "char \<Rightarrow> bool" where
  "is_space c \<longleftrightarrow> c = CHR '' '' \<or> (9 :: nat) \<le> of_char c \<and> of_char c \<le> (13 :: nat) \<or>
     (28 :: nat) \<le> of_char c \<and> of_char c \<le> (31 :: nat)"

fun text_arg :: "pyval \<Rightarrow> bool" where
  "text_arg (PStr s) = (CHR 0x00 \<notin> set s)"
| "text_arg _ = False"

definition full_test_command :: "pyval \<Rightarrow> bool" where
  "full_test_command v = (case v of
     PList (PStr c # args) \<Rightarrow> \<not> list_all is_space c \<and> list_all text_arg (PStr c # args)
   | _ \<Rightarrow> False)"

definition timeout_ok :: "pydict \<Rightarrow> bool" where
  "timeout_ok d = (case map_of d ''full_test_timeout_seconds'' of
     None \<Rightarrow> True | Some (PInt n) \<Rightarrow> 1 \<le> n \<and> n \<le> 7200 | Some _ \<Rightarrow> False)"

definition full_test_declared :: "pyval \<Rightarrow> string \<Rightarrow> bool" where
  "full_test_declared profile root = (case profile of
     PDict p \<Rightarrow> py_eq (py_get p ''schema'') (PStr ''VerifyProfile/v1'') \<and>
       (case py_get p ''deployables'' of
          PDict ds \<Rightarrow> (case py_get ds root of
              PDict d \<Rightarrow> full_test_command (py_get d ''full_test'') \<and> timeout_ok d
            | _ \<Rightarrow> False)
        | _ \<Rightarrow> False)
   | _ \<Rightarrow> False)"

definition committed_full_test_is_supported :: "repo option \<Rightarrow> string option \<Rightarrow> string \<Rightarrow> bool" where
  "committed_full_test_is_supported R at root = (case (R, at) of
     (Some r, Some (c # cs)) \<Rightarrow>
       (case r_blob r ((c # cs) @ '':'' @ r_prefix r @ ''.arcana/verify.json'') of
          None \<Rightarrow> False
        | Some raw \<Rightarrow> (case r_loads r raw of None \<Rightarrow> False | Some p \<Rightarrow> full_test_declared p root))
   | _ \<Rightarrow> False)"

definition bound_asset_root :: "qenv \<Rightarrow> graph_index \<Rightarrow> string \<Rightarrow> string option" where
  "bound_asset_root Q i p =
    (if \<not> is_deployable_asset_path p then None
     else (case deployable_root_for_uncovered i p of None \<Rightarrow> None
           | Some root \<Rightarrow> if committed_full_test_is_supported (q_repo Q) (if q_diff Q then q_head Q else Some (q_tree_commit Q)) root
               then Some root else None))"

subsection \<open>The changed files\<close>

record centry =
  c_path :: string
  c_status :: string
  c_kind :: string
  c_renamed_to :: "string option option"
  c_renamed_from :: "string option option"
  c_scoped :: bool
  c_node_id :: "string option"
  c_node_ids :: "string list"
  c_new :: bool
  c_uncovered :: bool

record qacc =
  a_files :: "centry list"
  a_seeds :: "string list"
  a_open :: "string list"
  a_unknown :: "string list"
  a_uncovered :: "string list"
  a_assets :: "string list"
  a_new :: "string list"
  a_fallback :: "string list"

definition empty_acc :: qacc where
  "empty_acc = \<lparr>a_files = [], a_seeds = [], a_open = [], a_unknown = [], a_uncovered = [], a_assets = [], a_new = [], a_fallback = []\<rparr>"

definition file_kind :: "graph_index \<Rightarrow> cfile \<Rightarrow> string" where
  "file_kind i f = (if f_keys f \<noteq> [] \<and> f_path f = ''.env.example'' then ''config'' else classify_file (f_path f) (Some i))"

definition sorted_set :: "string list \<Rightarrow> string list" where
  "sorted_set xs = sort (remdups xs)"

definition has_node :: "graph_index \<Rightarrow> string \<Rightarrow> bool" where
  "has_node i x \<longleftrightarrow> map_of (gi_nodes i) x \<noteq> None"

definition own_ids :: "qenv \<Rightarrow> graph_index \<Rightarrow> cfile \<Rightarrow> string list" where
  "own_ids Q i f = sorted_set (path_nodes i (f_path f) (q_rules Q) @
     (if f_path f = ''.env.example'' then filter (has_node i) (map (\<lambda>k. ''config_key:'' @ k) (f_keys f)) else []))"

definition deployable_of :: "graph_index \<Rightarrow> string \<Rightarrow> string option" where
  "deployable_of i d = (case map_of (gi_deployables i) d of
     Some x \<Rightarrow> Some x
   | None \<Rightarrow> if has_node i (''deployable_unit:'' @ d) then Some (''deployable_unit:'' @ d) else None)"

definition compiler_units :: "graph_index \<Rightarrow> string \<Rightarrow> string list" where
  "compiler_units i d = map fst (filter (\<lambda>(nid, n). n_type n = ''code_unit'' \<and>
     (case n_path n of None \<Rightarrow> False | Some p \<Rightarrow> starts (d @ ''/'') p \<and> lext p \<in> set CODE_EXTS)) (gi_nodes i))"

text \<open>The nodes a file seeds, whether its containment is opened and for which deployable.\<close>

definition file_seeds :: "qenv \<Rightarrow> graph_index \<Rightarrow> cfile \<Rightarrow> string list \<times> string option \<times> bool" where
  "file_seeds Q i f =
    (let ids = own_ids Q i f; b = basename (f_path f); d = dirname (f_path f); dep = deployable_of i d;
         scoped = (''scoped_fallback'' \<in> q_rules Q \<and> d \<noteq> [])
     in case dep of
          Some x \<Rightarrow> if scoped \<and> (b = ''package.json'' \<or> starts ''tsconfig'' b) then (sorted_set (ids @ [x]), Some x, True)
                    else (ids, None, False)
        | None \<Rightarrow> if scoped \<and> (b = ''package.json'' \<or> tsconfig_name b)
                  then (sorted_set (ids @ compiler_units i d), None, compiler_units i d \<noteq> []) else (ids, None, False))"

definition node_id_of :: "string list \<Rightarrow> string option" where
  "node_id_of ids = (case find (starts ''code_unit:'') ids of Some x \<Rightarrow> Some x
     | None \<Rightarrow> (case ids of [] \<Rightarrow> None | x # _ \<Rightarrow> Some x))"

text \<open>The branches of the loop body after the seeds are known.\<close>

definition asset_case :: "qenv \<Rightarrow> graph_index \<Rightarrow> string \<Rightarrow> centry \<Rightarrow> qacc \<Rightarrow> qacc \<times> centry" where
  "asset_case Q i p e a =
    (if bound_asset_root Q i p \<noteq> None then (a\<lparr>a_fallback := a_fallback a @ [p]\<rparr>, e)
     else (a\<lparr>a_uncovered := a_uncovered a @ [p], a_assets := a_assets a @ [p]\<rparr>, e\<lparr>c_uncovered := True\<rparr>))"

definition unseeded_case :: "qenv \<Rightarrow> graph_index \<Rightarrow> cfile \<Rightarrow> centry \<Rightarrow> qacc \<Rightarrow> qacc \<times> centry" where
  "unseeded_case Q i f e a =
    (let p = f_path f in
     if f_status f = ''A''
     then (let a = a\<lparr>a_new := a_new a @ [p]\<rparr>; e = e\<lparr>c_new := True\<rparr>
           in if is_deployable_asset_path p then asset_case Q i p e a else (a, e))
     else if c_kind e \<in> set FALLBACK_KINDS then (a, e)
     else if is_deployable_asset_path p then asset_case Q i p e a
     else if lext p \<in> set (CODE_EXTS @ [''.prisma'']) then (a\<lparr>a_unknown := a_unknown a @ [p]\<rparr>, e)
     else (a\<lparr>a_uncovered := a_uncovered a @ [p]\<rparr>, e\<lparr>c_uncovered := True\<rparr>))"

definition add_file :: "qenv \<Rightarrow> graph_index \<Rightarrow> cfile \<Rightarrow> qacc \<Rightarrow> qacc" where
  "add_file Q i f a = (case file_seeds Q i f of (ids, opened, scoped) \<Rightarrow>
     let e = \<lparr>c_path = f_path f, c_status = f_status f, c_kind = file_kind i f, c_renamed_to = f_renamed_to f,
              c_renamed_from = f_renamed_from f, c_scoped = scoped, c_node_id = node_id_of ids, c_node_ids = ids,
              c_new = False, c_uncovered = False\<rparr>;
         a = (case opened of None \<Rightarrow> a | Some x \<Rightarrow> a\<lparr>a_open := a_open a @ [x]\<rparr>);
         a = (if c_kind e \<in> set FALLBACK_KINDS then a\<lparr>a_fallback := a_fallback a @ [f_path f]\<rparr> else a)
     in case (if ids \<noteq> [] then (a\<lparr>a_seeds := a_seeds a @ ids\<rparr>, e) else unseeded_case Q i f e a) of
          (a, e) \<Rightarrow> a\<lparr>a_files := a_files a @ [e]\<rparr>)"

definition change_set :: "qenv \<Rightarrow> graph_index \<Rightarrow> cfile list \<Rightarrow> qacc" where
  "change_set Q i files = fold (add_file Q i) files empty_acc"

definition unknown_refusal :: "qacc \<Rightarrow> refusal" where
  "unknown_refusal a =
    (let files = sorted_set (a_unknown a @ a_assets a)
     in if a_assets a \<noteq> [] then UNKNOWN_ASSETS files (sorted_set (a_assets a)) else UNKNOWN_CODE files)"

subsection \<open>The query\<close>

datatype why = New_file | Uncovered_kind | Leaf_unit | Filtered nat | No_node

record impact_query =
  iq_checked :: nat
  iq_files :: "centry list"
  iq_seeds :: "string list"
  iq_max_depth :: "int option"
  iq_edge_types :: "string list option"
  iq_fallback :: "string list option"           \<comment> \<open>the triggering files, where triggered\<close>
  iq_core :: "entry list"
  iq_tail :: "entry list"
  iq_total :: nat
  iq_by_depth :: "(string \<times> nat) list"
  iq_by_type :: "(string \<times> nat) list"
  iq_service :: nat
  iq_uncovered :: "string list"
  iq_new :: "string list"
  iq_nodes :: nat
  iq_explained :: "(string \<times> string \<times> why) list option"
  iq_events :: "string list"

definition count_texts :: "string list \<Rightarrow> (string \<times> nat) list" where
  "count_texts xs = map (\<lambda>x. (x, count_list xs x)) (sorted_set xs)"

definition fallback_entry :: "graph_index \<Rightarrow> string \<Rightarrow> string \<times> gnode \<Rightarrow> entry" where
  "fallback_entry i trig nn = \<lparr>en_entity = fst nn, en_node_type = n_type (snd nn), en_depth = 0, en_boundary = ''intra_unit'',
     en_path = [\<lparr>h_from = ''code_unit:'' @ trig, h_to = fst nn, h_type = ''deploys_to'', h_prov = ''deterministic'',
       h_boundary = None, h_extra = [(''via'', PStr ''global-fallback'')]\<rparr>],
     en_hint = (case map_of (gi_hints i) ''deploys_to'' of None \<Rightarrow> [] | Some h \<Rightarrow> h)\<rparr>"

definition fallback_entries :: "graph_index \<Rightarrow> string \<Rightarrow> string set \<Rightarrow> entry list" where
  "fallback_entries i trig known =
     map (fallback_entry i trig) (filter (\<lambda>nn. fst nn \<notin> known) (sort_key fst (gi_nodes i)))"

definition other_reverse :: "graph_index \<Rightarrow> string list \<Rightarrow> nat" where
  "other_reverse i ids = sum_list (map (\<lambda>x. length (filter (\<lambda>e. e_type e \<noteq> ''deploys_to'') (bucket (gi_rev i) x))) ids)"

definition why_empty :: "graph_index \<Rightarrow> centry \<Rightarrow> why" where
  "why_empty i e = (if c_new e then New_file else if c_uncovered e then Uncovered_kind
     else if c_node_ids e \<noteq> [] then (if other_reverse i (c_node_ids e) = 0 then Leaf_unit else Filtered (other_reverse i (c_node_ids e)))
     else No_node)"

definition build_query :: "qenv \<Rightarrow> graph_index \<Rightarrow> nat \<Rightarrow> qacc \<Rightarrow> entry list \<Rightarrow> impact_query" where
  "build_query Q i checked a reached =
    (let tail = filter (\<lambda>x. \<not> deterministic (en_path x)) reached;
         core = filter (\<lambda>x. deterministic (en_path x)) reached;
         trig = (a_fallback a \<noteq> [] \<and> ''global_fallback'' \<in> q_rules Q);
         core = core @ (if trig then fallback_entries i (hd (a_fallback a)) (set (a_seeds a) \<union> en_entity ` set reached) else []);
         non_doc = filter (\<lambda>e. c_kind e \<notin> set DOC_KINDS) (a_files a);
         empty = (core = [] \<and> tail = [] \<and> \<not> trig \<and> non_doc \<noteq> [] \<and> ''empty_impact_event'' \<in> q_rules Q)
     in \<lparr>iq_checked = checked, iq_files = a_files a, iq_seeds = sorted_set (a_seeds a), iq_max_depth = q_max_depth Q,
         iq_edge_types = (case (if ''edge_filter'' \<in> q_rules Q then q_edge_types Q else None) of
            None \<Rightarrow> None | Some ts \<Rightarrow> if ts = {} then None else Some (sorted_list_of_set ts)),
         iq_fallback = (if trig then Some (a_fallback a) else None), iq_core = core, iq_tail = tail,
         iq_total = length core + length tail,
         iq_by_depth = count_texts (map (\<lambda>x. show_nat (en_depth x)) (core @ tail)),
         iq_by_type = count_texts (map en_node_type (core @ tail)),
         iq_service = length (filter (\<lambda>x. en_boundary x \<in> {''service'', ''repo''}) tail),
         iq_uncovered = a_uncovered a, iq_new = a_new a, iq_nodes = length (gi_nodes i),
         iq_explained = (if empty then Some (map (\<lambda>e. (c_path e, c_kind e, why_empty i e)) non_doc) else None),
         iq_events = (if empty then [''EMPTY_IMPACT_REQUIRES_EXPLANATION''] else [])\<rparr>)"

definition query :: "qenv \<Rightarrow> graph_index \<Rightarrow> cfile list \<Rightarrow> impact_query gres" where
  "query Q i files =
    (if files = [] then Inl (Refused EMPTY_CHANGE_SET)
     else bindg (check_staleness Q i (f_path ` set files)) (\<lambda>checked.
       let a = change_set Q i files in
       if (a_unknown a \<noteq> [] \<or> a_assets a \<noteq> []) \<and> ''unknown_node'' \<in> q_rules Q then Inl (Refused (unknown_refusal a))
       else bindg (raising (traverse i (a_seeds a) (q_max_depth Q)
                (if ''edge_filter'' \<in> q_rules Q then q_edge_types Q else None) (q_rules Q) (set (a_open a))))
              (\<lambda>reached. Inr (build_query Q i checked a reached))))"

subsection \<open>Loading, receipts and exit codes\<close>

definition load_graph ::
  "(string \<Rightarrow> string) \<Rightarrow> pyenv \<Rightarrow> (string \<times> string) list \<Rightarrow> string set \<Rightarrow> pydict \<Rightarrow> graph_index gres" where
  "load_graph H P hints rules doc =
    bindg (raising (check_graph H P GRAPH_SCHEMA {''GRAPH_DIRTY''} doc)) (\<lambda>fs.
      if fs \<noteq> [] then Inl (Refused (GRAPH_INVALID (sorted_set fs) (length fs)))
      else if py_get (dict_or_empty (py_get doc ''manifest'')) ''dirty'' = PBool True \<and> ''dirty_graph'' \<in> rules
      then Inl (Refused STALE_DIRTY)
      else (case decode_graph doc of None \<Rightarrow> Inl (Raised TypeError) | Some g \<Rightarrow> Inr (GraphIndex hints g)))"

fun first_seen :: "string list \<Rightarrow> string list \<Rightarrow> string list" where
  "first_seen seen [] = []"
| "first_seen seen (x # xs) = (if x \<in> set seen then first_seen seen xs else x # first_seen (x # seen) xs)"

text \<open>The entities of a receipt skeleton, every one of them with the verdict \<open>not_measured\<close>; the admission is
  \<open>paused_safe\<close>.\<close>

definition receipt_skeleton :: "impact_query \<Rightarrow> (string \<times> string) list \<times> string" where
  "receipt_skeleton q = (map (\<lambda>x. (x, ''not_measured''))
     (first_seen [] (map en_entity (iq_core q @ iq_tail q) @ concat (map c_node_ids (iq_files q)))), ''paused_safe'')"

definition exit_code :: "impact_query gres \<Rightarrow> int result" where
  "exit_code r = (case r of Inl (Refused _) \<Rightarrow> Inr 2 | Inl (Raised e) \<Rightarrow> Inl e
     | Inr q \<Rightarrow> Inr (if iq_events q \<noteq> [] then 3 else 0))"

text \<open>\<open>run_query\<close> on a working tree: the files come from the command line or from git.\<close>

definition run_worktree ::
  "(string \<Rightarrow> string) \<Rightarrow> pyenv \<Rightarrow> (string \<times> string) list \<Rightarrow> qenv \<Rightarrow> pydict \<Rightarrow> string list \<Rightarrow> string \<Rightarrow> impact_query gres" where
  "run_worktree H P hints Q doc specs status =
    bindg (if specs \<noteq> [] then Inr (parse_file_args specs)
           else raising (worktree_files (case q_repo Q of None \<Rightarrow> [] | Some R \<Rightarrow> r_prefix R) status)) (\<lambda>files.
    bindg (load_graph H P hints (q_rules Q) doc) (\<lambda>i. query Q i files))"

end
