(* ===== verification/Graph_Impact_Props.thy ===== *)
theory Graph_Impact_Props
  imports Graph_Impact
begin

section \<open>What an impact query guarantees\<close>

text \<open>
  On the index of a loaded graph a query returns or refuses; it never raises for want of a node. What it
  returns accounts for every changed file, reports each affected entity once, covers the whole graph when a
  fallback is triggered, and raises the empty-impact event exactly on an empty prediction about more than
  documents.
\<close>

subsection \<open>The ids of an index are nodes\<close>

definition ids_in :: "string set \<Rightarrow> graph_index \<Rightarrow> bool" where
  "ids_in N i \<longleftrightarrow> (\<forall>k. set (bucket (gi_by_path i) k) \<subseteq> N) \<and> (\<forall>k x. map_of (gi_deployables i) k = Some x \<longrightarrow> x \<in> N)"

lemma ids_in_node: "ids_in N i \<Longrightarrow> n_id n \<in> N \<Longrightarrow> ids_in N (index_node n i)"
  by (auto simp: ids_in_def index_node_def Let_def bucket_push map_of_update split: option.splits if_splits)

lemma ids_in_fold: "ids_in N i \<Longrightarrow> n_id ` set ns \<subseteq> N \<Longrightarrow> ids_in N (fold index_node ns i)"
  by (induction ns arbitrary: i) (simp_all add: ids_in_node)

lemma ids_in_index: "ids_in (dom (map_of (gi_nodes (GraphIndex h g)))) (GraphIndex h g)"
proof -
  let ?N = "n_id ` set (gd_nodes g)"
  have "ids_in ?N i" if "gi_by_path i = []" "gi_deployables i = []" for i
    using that by (simp add: ids_in_def bucket_def)
  then have f: "ids_in ?N (fold index_node (gd_nodes g) i)" if "gi_by_path i = []" "gi_deployables i = []" for i
    using that ids_in_fold by blast
  have s: "ids_in N (i\<lparr>gi_by_path := map (map_prod id sort) (gi_by_path i), gi_deployable_ids := d\<rparr>)" if "ids_in N i" for N i d
    using that by (simp add: ids_in_def bucket_map)
  show ?thesis unfolding index_dom by (unfold GraphIndex_def Let_def, rule s, rule f) simp_all
qed

definition index_ok :: "graph_index \<Rightarrow> bool" where
  "index_ok i \<longleftrightarrow> wf_index i \<and> ids_in (dom (map_of (gi_nodes i))) i \<and> distinct (map fst (gi_nodes i))"

lemma distinct_fold_update: "distinct (map fst d) \<Longrightarrow> distinct (map fst (fold (\<lambda>n. AList.update (f n) n) ns d))"
  by (induction ns arbitrary: d) (simp_all add: distinct_update)

lemma index_ok_GraphIndex: "graph_closed g \<Longrightarrow> index_ok (GraphIndex h g)"
  using distinct_fold_update [of "[]" n_id "gd_nodes g"]
  by (simp add: index_ok_def graph_closed_index ids_in_index) (simp add: GraphIndex_def Let_def)

lemma load_graph_ok:
  assumes "load_graph H P hints rules doc = Inr i"
  shows "index_ok i"
  using assms check_graph_conformant [of H P GRAPH_SCHEMA doc]
  by (auto simp: load_graph_def bindg_Inr intro!: index_ok_GraphIndex conformant_closed split: if_splits option.splits)

subsection \<open>Seeds are nodes\<close>

lemma set_sorted_set [simp]: "set (sorted_set xs) = set xs"
  by (simp add: sorted_set_def)

lemma sorted_set_distinct [simp]: "distinct (sorted_set xs)" "sorted (sorted_set xs)"
  by (simp_all add: sorted_set_def)

lemma own_ids_nodes: "index_ok i \<Longrightarrow> set (own_ids Q i f) \<subseteq> dom (map_of (gi_nodes i))"
  by (auto simp: own_ids_def path_nodes_def index_ok_def ids_in_def has_node_def Let_def split: if_splits)

lemma deployable_of_node: "index_ok i \<Longrightarrow> deployable_of i d = Some x \<Longrightarrow> x \<in> dom (map_of (gi_nodes i))"
  by (auto simp: deployable_of_def index_ok_def ids_in_def has_node_def split: option.splits if_splits)

lemma compiler_units_nodes: "set (compiler_units i d) \<subseteq> dom (map_of (gi_nodes i))"
  unfolding compiler_units_def dom_map_of_conv_image_fst set_map set_filter by (intro image_mono) blast

lemma file_seeds_nodes:
  assumes "index_ok i" "file_seeds Q i f = (ids, opened, scoped)"
  shows "set ids \<subseteq> dom (map_of (gi_nodes i))"
proof -
  let ?d = "dirname (f_path f)"
  have "set ids \<subseteq> set (own_ids Q i f) \<union> set_option (deployable_of i ?d) \<union> set (compiler_units i ?d)"
    using assms(2) unfolding file_seeds_def Let_def by (cases "deployable_of i ?d") (auto split: if_splits)
  also have "\<dots> \<subseteq> dom (map_of (gi_nodes i))"
    using own_ids_nodes [OF assms(1), of Q f] deployable_of_node [OF assms(1), of ?d] compiler_units_nodes [of i ?d]
    by (cases "deployable_of i ?d") simp_all
  finally show ?thesis .
qed

subsection \<open>Every changed file is accounted for\<close>

definition source_ext :: "string \<Rightarrow> bool" where
  "source_ext p \<longleftrightarrow> lext p \<in> set (CODE_EXTS @ [''.prisma''])"

definition accounted :: "qacc \<Rightarrow> centry \<Rightarrow> bool" where
  "accounted a e \<longleftrightarrow> c_node_ids e \<noteq> [] \<and> set (c_node_ids e) \<subseteq> set (a_seeds a) \<or> c_new e \<and> c_status e = ''A'' \<or>
     c_path e \<in> set (a_fallback a) \<or> c_path e \<in> set (a_unknown a) \<or> c_path e \<in> set (a_assets a) \<or>
     c_uncovered e \<and> \<not> source_ext (c_path e)"

definition grows :: "qacc \<Rightarrow> qacc \<Rightarrow> bool" where
  "grows a b \<longleftrightarrow> set (a_seeds a) \<subseteq> set (a_seeds b) \<and> set (a_fallback a) \<subseteq> set (a_fallback b) \<and>
     set (a_unknown a) \<subseteq> set (a_unknown b) \<and> set (a_assets a) \<subseteq> set (a_assets b)"

lemma accounted_grows: "accounted a e \<Longrightarrow> grows a b \<Longrightarrow> accounted b e"
  unfolding accounted_def grows_def by blast

lemma grows_trans: "grows a b \<Longrightarrow> grows b c \<Longrightarrow> grows a c"
  unfolding grows_def by blast

lemma asset_case_spec:
  assumes "asset_case Q i p e a = (b, e')"
  shows "grows a b \<and> a_seeds b = a_seeds a \<and> a_files b = a_files a \<and> (p \<in> set (a_fallback b) \<or> p \<in> set (a_assets b)) \<and>
    c_path e' = c_path e \<and> c_status e' = c_status e \<and> c_kind e' = c_kind e \<and> c_node_ids e' = c_node_ids e \<and> c_new e' = c_new e"
  using assms by (auto simp: asset_case_def grows_def split: if_splits)

lemma unseeded_case_spec:
  assumes "unseeded_case Q i f e a = (b, e')" "c_path e = f_path f" "c_status e = f_status f"
    and fb: "c_kind e \<in> set FALLBACK_KINDS \<Longrightarrow> f_path f \<in> set (a_fallback a)"
  shows "grows a b \<and> a_seeds b = a_seeds a \<and> a_files b = a_files a \<and> accounted b e' \<and>
    c_path e' = f_path f \<and> c_status e' = f_status f \<and> c_kind e' = c_kind e \<and> c_node_ids e' = c_node_ids e"
proof (cases "f_status f = ''A'' \<or> is_deployable_asset_path (f_path f) \<and> c_kind e \<notin> set FALLBACK_KINDS")
  case True
  then consider (new) "f_status f = ''A''" "\<not> is_deployable_asset_path (f_path f)"
      "b = a\<lparr>a_new := a_new a @ [f_path f]\<rparr>" "e' = e\<lparr>c_new := True\<rparr>"
    | (asset) c k where "asset_case Q i (f_path f) c k = (b, e')" "c_path c = c_path e" "c_status c = c_status e" "c_kind c = c_kind e"
        "c_node_ids c = c_node_ids e" "grows a k" "a_seeds k = a_seeds a" "a_files k = a_files a"
  proof (cases "f_status f = ''A''")
    case True
    then show thesis
      using assms(1) asset [of "e\<lparr>c_new := True\<rparr>" "a\<lparr>a_new := a_new a @ [f_path f]\<rparr>"] new
      by (cases "is_deployable_asset_path (f_path f)") (simp_all add: unseeded_case_def Let_def grows_def)
  next
    case False
    with True show thesis
      using assms(1) asset [of e a] by (simp add: unseeded_case_def Let_def grows_def)
  qed
  then show ?thesis
  proof cases
    case new
    then show ?thesis using assms(2,3) by (simp add: grows_def accounted_def)
  next
    case asset
    from asset_case_spec [OF asset(1)] asset(2-8) assms(2,3) grows_trans [OF asset(6)] show ?thesis
      by (auto simp: accounted_def)
  qed
next
  case False
  then show ?thesis
    using assms by (auto simp: unseeded_case_def Let_def grows_def accounted_def source_ext_def split: if_splits)
qed

lemma add_file_spec:
  assumes ok: "index_ok i" and seeds: "set (a_seeds a) \<subseteq> dom (map_of (gi_nodes i))"
  shows "\<exists>e. a_files (add_file Q i f a) = a_files a @ [e] \<and> c_path e = f_path f \<and> c_status e = f_status f \<and> c_kind e = file_kind i f \<and>
    accounted (add_file Q i f a) e \<and> grows a (add_file Q i f a) \<and> set (a_seeds (add_file Q i f a)) \<subseteq> dom (map_of (gi_nodes i)) \<and>
    set (c_node_ids e) \<subseteq> set (a_seeds (add_file Q i f a))"
proof -
  obtain ids opened scoped where fs: "file_seeds Q i f = (ids, opened, scoped)" by (cases "file_seeds Q i f")
  define e where "e = \<lparr>c_path = f_path f, c_status = f_status f, c_kind = file_kind i f, c_renamed_to = f_renamed_to f,
    c_renamed_from = f_renamed_from f, c_scoped = scoped, c_node_id = node_id_of ids, c_node_ids = ids, c_new = False, c_uncovered = False\<rparr>"
  define b where "b = (case opened of None \<Rightarrow> a | Some x \<Rightarrow> a\<lparr>a_open := a_open a @ [x]\<rparr>)"
  define c where "c = (if c_kind e \<in> set FALLBACK_KINDS then b\<lparr>a_fallback := a_fallback b @ [f_path f]\<rparr> else b)"
  have ac: "grows a c" "a_seeds c = a_seeds a" "a_files c = a_files a" "c_kind e \<in> set FALLBACK_KINDS \<Longrightarrow> f_path f \<in> set (a_fallback c)"
    by (auto simp: c_def b_def grows_def split: option.split)
  have e: "c_path e = f_path f" "c_status e = f_status f" "c_kind e = file_kind i f" "c_node_ids e = ids" by (simp_all add: e_def)
  have add: "add_file Q i f a = (case (if ids \<noteq> [] then (c\<lparr>a_seeds := a_seeds c @ ids\<rparr>, e) else unseeded_case Q i f e c) of
      (a, e) \<Rightarrow> a\<lparr>a_files := a_files a @ [e]\<rparr>)"
    by (simp add: add_file_def fs Let_def e_def b_def c_def)
  show ?thesis
  proof (cases "ids = []")
    case False
    then have "add_file Q i f a = (c\<lparr>a_seeds := a_seeds c @ ids\<rparr>)\<lparr>a_files := a_files c @ [e]\<rparr>" by (simp add: add)
    with ac e False seeds file_seeds_nodes [OF ok fs] show ?thesis
      by (intro exI [of _ e]) (auto simp: grows_def accounted_def)
  next
    case True
    obtain d e' where u: "unseeded_case Q i f e c = (d, e')" by fastforce
    note sp = unseeded_case_spec [OF u e(1,2) ac(4)]
    have f: "add_file Q i f a = d\<lparr>a_files := a_files d @ [e']\<rparr>" using True by (simp add: add u)
    have up: "accounted (d\<lparr>a_files := fs\<rparr>) x = accounted d x" "grows a (d\<lparr>a_files := fs\<rparr>) = grows a d" for fs x
      by (simp_all add: accounted_def grows_def)
    show ?thesis using sp ac e seeds True grows_trans [OF ac(1)] by (intro exI [of _ e']) (simp add: f up)
  qed
qed

lemma change_set_spec:
  assumes ok: "index_ok i"
  shows "map (\<lambda>e. (c_path e, c_status e)) (a_files (change_set Q i files)) = map (\<lambda>f. (f_path f, f_status f)) files \<and>
    (\<forall>e\<in>set (a_files (change_set Q i files)). accounted (change_set Q i files) e \<and>
       set (c_node_ids e) \<subseteq> set (a_seeds (change_set Q i files))) \<and>
    set (a_seeds (change_set Q i files)) \<subseteq> dom (map_of (gi_nodes i))"
proof -
  define covers where "covers a fs \<longleftrightarrow> map (\<lambda>e. (c_path e, c_status e)) (a_files a) = map (\<lambda>f. (f_path f, f_status f)) fs \<and>
    (\<forall>e\<in>set (a_files a). accounted a e \<and> set (c_node_ids e) \<subseteq> set (a_seeds a)) \<and> set (a_seeds a) \<subseteq> dom (map_of (gi_nodes i))" for a :: qacc and fs :: "cfile list"
  have "covers (fold (add_file Q i) fs a) (gs @ fs)" if "covers a gs" for fs gs a
    using that
  proof (induction fs arbitrary: a gs)
    case (Cons f fs)
    from add_file_spec [OF ok, of a Q f] Cons.prems obtain e where e:
      "a_files (add_file Q i f a) = a_files a @ [e]" "c_path e = f_path f" "c_status e = f_status f"
      "accounted (add_file Q i f a) e" "grows a (add_file Q i f a)" "set (a_seeds (add_file Q i f a)) \<subseteq> dom (map_of (gi_nodes i))"
      "set (c_node_ids e) \<subseteq> set (a_seeds (add_file Q i f a))" by (auto simp: covers_def)
    have "accounted (add_file Q i f a) x \<and> set (c_node_ids x) \<subseteq> set (a_seeds (add_file Q i f a))" if "x \<in> set (a_files a)" for x
      using that Cons.prems e(5) accounted_grows [OF _ e(5)] by (auto simp: covers_def grows_def)
    with e Cons.prems have "covers (add_file Q i f a) (gs @ [f])" by (auto simp: covers_def)
    from Cons.IH [OF this] show ?case by simp
  qed simp
  from this [of empty_acc "[]" files] show ?thesis
    by (simp add: change_set_def covers_def empty_acc_def)
qed

subsection \<open>Answers\<close>

abbreviation traverse_query :: "qenv \<Rightarrow> graph_index \<Rightarrow> qacc \<Rightarrow> entry list result" where
  "traverse_query Q i a \<equiv> traverse i (a_seeds a) (q_max_depth Q) (if ''edge_filter'' \<in> q_rules Q then q_edge_types Q else None)
     (q_rules Q) (set (a_open a))"

lemma query_Inr:
  assumes "query Q i files = Inr q"
  obtains n rows where "check_staleness Q i (f_path ` set files) = Inr n" "traverse_query Q i (change_set Q i files) = Inr rows"
    "q = build_query Q i n (change_set Q i files) rows" "files \<noteq> []"
    "''unknown_node'' \<in> q_rules Q \<Longrightarrow> a_unknown (change_set Q i files) = [] \<and> a_assets (change_set Q i files) = []"
  using assms by (auto simp: query_def Let_def bindg_Inr split: if_splits)

lemma traverse_query_runs:
  assumes "index_ok i"
  shows "\<exists>rows. traverse_query Q i (change_set Q i files) = Inr rows \<and> distinct (map en_entity rows) \<and>
    (\<forall>x\<in>set rows. en_entity x \<notin> set (a_seeds (change_set Q i files)) \<and> en_entity x \<in> dom (map_of (gi_nodes i)))"
proof -
  let ?a = "change_set Q i files"
  have ok: "wf_index i" "set (a_seeds ?a) \<subseteq> dom (map_of (gi_nodes i))"
    using assms change_set_spec [OF assms, of Q files] by (simp_all add: index_ok_def)
  from traverse_labels [OF ok refl, of "q_max_depth Q" "if ''edge_filter'' \<in> q_rules Q then q_edge_types Q else None" "q_rules Q" "set (a_open ?a)"]
  obtain rows where r: "traverse_query Q i ?a = Inr rows" "distinct (map en_entity rows)" by blast
  from traverse_fits [OF ok refl r(1)] obtain best where fit: "fits (search_of i (a_seeds ?a) (q_max_depth Q)
      (if ''edge_filter'' \<in> q_rules Q then q_edge_types Q else None) (q_rules Q) (set (a_open ?a))) rows best" ..
  have "en_entity x \<notin> set (a_seeds ?a) \<and> en_entity x \<in> dom (map_of (gi_nodes i))" if x: "x \<in> set rows" for x
  proof -
    from fitsD(3) [OF fit x] obtain l where "map_of best (en_entity x) = Some l" by blast
    from sinvD(4) [OF fitsD(1) [OF fit] this] fitsD(2) [OF fit x] show ?thesis by (simp add: search_of_def)
  qed
  with r show ?thesis by blast
qed

text \<open>The two ways a changed file is not covered, stated of the file, the graph and the profile:
  a source file that was not added and seeds no node, and a deployable asset that seeds no node and
  has no root with a committed full-suite declaration. A file of a kind that triggers the global
  fallback is never refused, except an added asset.\<close>

definition uncovered_source :: "qenv \<Rightarrow> graph_index \<Rightarrow> cfile \<Rightarrow> bool" where
  "uncovered_source Q i f \<longleftrightarrow> fst (file_seeds Q i f) = [] \<and> f_status f \<noteq> ''A'' \<and> file_kind i f \<notin> set FALLBACK_KINDS \<and>
     \<not> is_deployable_asset_path (f_path f) \<and> source_ext (f_path f)"

definition unbound_asset :: "qenv \<Rightarrow> graph_index \<Rightarrow> cfile \<Rightarrow> bool" where
  "unbound_asset Q i f \<longleftrightarrow> fst (file_seeds Q i f) = [] \<and> (f_status f = ''A'' \<or> file_kind i f \<notin> set FALLBACK_KINDS) \<and>
     is_deployable_asset_path (f_path f) \<and> bound_asset_root Q i (f_path f) = None"

lemma add_file_refused:
  "a_unknown (add_file Q i f a) = a_unknown a @ (if uncovered_source Q i f then [f_path f] else [])"
  "a_assets (add_file Q i f a) = a_assets a @ (if unbound_asset Q i f then [f_path f] else [])"
  by (auto simp: add_file_def unseeded_case_def asset_case_def uncovered_source_def unbound_asset_def source_ext_def Let_def
      split: prod.split option.split)

lemma change_set_refused:
  "a_unknown (change_set Q i files) = map f_path (filter (uncovered_source Q i) files)"
  "a_assets (change_set Q i files) = map f_path (filter (unbound_asset Q i) files)"
proof -
  have "a_unknown (fold (add_file Q i) files a) = a_unknown a @ map f_path (filter (uncovered_source Q i) files) \<and>
    a_assets (fold (add_file Q i) files a) = a_assets a @ map f_path (filter (unbound_asset Q i) files)" for a
    by (induction files arbitrary: a) (simp_all add: add_file_refused)
  then show "a_unknown (change_set Q i files) = map f_path (filter (uncovered_source Q i) files)"
    "a_assets (change_set Q i files) = map f_path (filter (unbound_asset Q i) files)"
    by (simp_all add: change_set_def empty_acc_def)
qed

text \<open>C14. On a graph that loads and is fresh, a query without files refuses with EMPTY_CHANGE_SET;
  a query with a changed source file or deployable asset that is not covered refuses with UNKNOWN_NODE
  and names exactly the uncovered files, sorted and without repetition (and the assets among them); every
  other query gives an answer. It never raises for a missing node.\<close>

theorem loaded_query_answers:
  assumes "load_graph H P hints r doc = Inr i" "check_staleness Q i (f_path ` set files) = Inr n"
    and "''unknown_node'' \<in> q_rules Q"
  shows "let sources = {f\<in>set files. uncovered_source Q i f}; assets = {f\<in>set files. unbound_asset Q i f}
    in if files = [] then query Q i files = Inl (Refused EMPTY_CHANGE_SET)
       else if assets \<noteq> {} then query Q i files = Inl (Refused (UNKNOWN_ASSETS (sorted_list_of_set (f_path ` (sources \<union> assets)))
         (sorted_list_of_set (f_path ` assets))))
       else if sources \<noteq> {} then query Q i files = Inl (Refused (UNKNOWN_CODE (sorted_list_of_set (f_path ` sources))))
       else \<exists>q. query Q i files = Inr q"
proof -
  from traverse_query_runs [OF load_graph_ok [OF assms(1)], of Q files] obtain rows where
    run: "traverse_query Q i (change_set Q i files) = Inr rows" by blast
  have ss: "sorted_set xs = sorted_list_of_set (set xs)" for xs
    by (simp add: sorted_set_def sorted_list_of_set_sort_remdups)
  have img: "f_path ` {x \<in> set files. P x} \<union> f_path ` {x \<in> set files. R x} =
    f_path ` ({x \<in> set files. P x} \<union> {x \<in> set files. R x})" for P R by (rule image_Un [symmetric])
  have none: "{f\<in>set files. P f} \<noteq> {} \<longleftrightarrow> filter P files \<noteq> []" for P by (auto simp: filter_empty_conv)
  show ?thesis
    using assms(2,3) run unfolding Let_def none
    by (simp add: query_def Let_def raising_def unknown_refusal_def change_set_refused ss img)
qed

text \<open>C15. A query that answers has accounted for every changed file, in order: the file seeds nodes, or is new, or
  triggers the global fallback, or is of a kind the graph does not cover and not a source file.\<close>

theorem changed_files_accounted:
  assumes "load_graph H P hints r doc = Inr i" "query Q i files = Inr q" "{''unknown_node'', ''global_fallback''} \<subseteq> q_rules Q"
  shows "map (\<lambda>e. (c_path e, c_status e)) (iq_files q) = map (\<lambda>f. (f_path f, f_status f)) files \<and>
    (\<forall>e\<in>set (iq_files q).
      c_node_ids e \<noteq> [] \<and> set (c_node_ids e) \<subseteq> set (iq_seeds q) \<or> c_new e \<and> c_status e = ''A'' \<or>
      (\<exists>fs. iq_fallback q = Some fs \<and> c_path e \<in> set fs) \<or> c_uncovered e \<and> \<not> source_ext (c_path e))"
proof -
  obtain n rows where q: "q = build_query Q i n (change_set Q i files) rows"
    "a_unknown (change_set Q i files) = [] \<and> a_assets (change_set Q i files) = []"
    using assms(2,3) by (auto elim: query_Inr)
  have iq: "iq_files q = a_files (change_set Q i files)" "set (iq_seeds q) = set (a_seeds (change_set Q i files))"
    "a_fallback (change_set Q i files) \<noteq> [] \<Longrightarrow> iq_fallback q = Some (a_fallback (change_set Q i files))"
    using assms(3) by (simp_all add: q(1) build_query_def Let_def)
  note spec = change_set_spec [OF load_graph_ok [OF assms(1)], of Q files]
  have "c_node_ids e \<noteq> [] \<and> set (c_node_ids e) \<subseteq> set (iq_seeds q) \<or> c_new e \<and> c_status e = ''A'' \<or>
      (\<exists>fs. iq_fallback q = Some fs \<and> c_path e \<in> set fs) \<or> c_uncovered e \<and> \<not> source_ext (c_path e)"
    if "e \<in> set (iq_files q)" for e
  proof -
    from that spec have "accounted (change_set Q i files) e" by (simp add: iq(1))
    with q(2) iq(2,3) show ?thesis unfolding accounted_def by force
  qed
  with spec iq(1) show ?thesis by simp
qed

lemma fallback_entries_spec:
  assumes "distinct (map fst (gi_nodes i))"
  shows "en_entity ` set (fallback_entries i t known) = dom (map_of (gi_nodes i)) - known"
    "distinct (map en_entity (fallback_entries i t known))" "x \<in> set (fallback_entries i t known) \<Longrightarrow> deterministic (en_path x)"
proof -
  have m: "map en_entity (fallback_entries i t known) = map fst (filter (\<lambda>nn. fst nn \<notin> known) (sort_key fst (gi_nodes i)))"
    by (simp add: fallback_entries_def fallback_entry_def)
  have "distinct (map fst (sort_key fst (gi_nodes i)))" using assms by (simp add: distinct_map)
  then show "distinct (map en_entity (fallback_entries i t known))" unfolding m by (rule distinct_map_filter)
  show "en_entity ` set (fallback_entries i t known) = dom (map_of (gi_nodes i)) - known"
    using arg_cong [OF m, of set] by (auto simp: dom_map_of_conv_image_fst)
  show "x \<in> set (fallback_entries i t known) \<Longrightarrow> deterministic (en_path x)"
    by (auto simp: fallback_entries_def fallback_entry_def deterministic_def)
qed

text \<open>C16. The impact set of an answer: each affected entity is a node of the graph, is reported once and is not itself
  a seed; the core holds the entities with a fully deterministic path and the tail the others; and when the
  global fallback is triggered, seeds and entities together are the whole graph.\<close>

theorem impact_rows_partition:
  assumes "load_graph H P hints r doc = Inr i" "query Q i files = Inr q"
  shows "distinct (map en_entity (iq_core q @ iq_tail q)) \<and> en_entity ` set (iq_core q @ iq_tail q) \<subseteq> dom (map_of (gi_nodes i)) - set (iq_seeds q) \<and>
    iq_total q = card (en_entity ` set (iq_core q @ iq_tail q)) \<and>
    (\<forall>x\<in>set (iq_core q). deterministic (en_path x)) \<and> (\<forall>x\<in>set (iq_tail q). \<not> deterministic (en_path x)) \<and>
    (iq_fallback q \<noteq> None \<longrightarrow> set (iq_seeds q) \<union> en_entity ` set (iq_core q @ iq_tail q) = dom (map_of (gi_nodes i)))"
proof -
  define a where "a = change_set Q i files"
  note ok = load_graph_ok [OF assms(1)]
  obtain n rows where q: "traverse_query Q i a = Inr rows" "q = build_query Q i n a rows"
    using assms(2) unfolding a_def by (auto elim: query_Inr)
  have rows: "distinct (map en_entity rows)" "en_entity ` set rows \<subseteq> dom (map_of (gi_nodes i)) - set (a_seeds a)"
    using traverse_query_runs [OF ok, of Q files] q(1) unfolding a_def by auto
  have seeds: "set (a_seeds a) \<subseteq> dom (map_of (gi_nodes i))" using change_set_spec [OF ok, of Q files] unfolding a_def by blast
  define det where "det x \<longleftrightarrow> deterministic (en_path x)" for x :: entry
  define fb where "fb = (if a_fallback a \<noteq> [] \<and> ''global_fallback'' \<in> q_rules Q
    then fallback_entries i (hd (a_fallback a)) (set (a_seeds a) \<union> en_entity ` set rows) else [])"
  have iq: "iq_core q = filter det rows @ fb" "iq_tail q = filter (\<lambda>x. \<not> det x) rows" "set (iq_seeds q) = set (a_seeds a)"
    "iq_total q = length (iq_core q @ iq_tail q)" "iq_fallback q \<noteq> None \<Longrightarrow> a_fallback a \<noteq> [] \<and> ''global_fallback'' \<in> q_rules Q"
    by (auto simp: q(2) build_query_def Let_def fb_def det_def [abs_def] split: if_splits)
  have dn: "distinct (map fst (gi_nodes i))" using ok by (simp add: index_ok_def)
  note fe = fallback_entries_spec [OF dn]
  have fbs: "distinct (map en_entity fb) \<and> en_entity ` set fb \<subseteq> dom (map_of (gi_nodes i)) - (set (a_seeds a) \<union> en_entity ` set rows) \<and>
    (\<forall>x\<in>set fb. det x)"
  proof (cases "a_fallback a \<noteq> [] \<and> ''global_fallback'' \<in> q_rules Q")
    case True
    then have "fb = fallback_entries i (hd (a_fallback a)) (set (a_seeds a) \<union> en_entity ` set rows)" by (simp add: fb_def)
    with fe show ?thesis by (simp add: det_def)
  qed (auto simp: fb_def)
  have ents: "en_entity ` set (iq_core q @ iq_tail q) = en_entity ` set rows \<union> en_entity ` set fb" by (auto simp: iq)
  have dis: "distinct (map en_entity (iq_core q @ iq_tail q))"
  proof -
    have inj: "x = y" if "x \<in> set rows" "y \<in> set rows" "en_entity x = en_entity y" for x y
      using rows(1) that by (simp add: distinct_map inj_on_def)
    have "en_entity ` set (filter det rows) \<inter> en_entity ` set (filter (\<lambda>x. \<not> det x) rows) = {}"
      by (rule equals0I) (auto dest: inj)
    moreover have "en_entity ` set (filter p rows) \<inter> en_entity ` set fb = {}" for p using fbs by (simp, blast)
    ultimately show ?thesis
      using rows(1) fbs by (simp add: iq distinct_map_filter Int_commute Int_Un_distrib Int_Un_distrib2)
  qed
  have "iq_total q = card (en_entity ` set (iq_core q @ iq_tail q))"
    using distinct_card [OF dis] by (simp add: iq(4) image_Un)
  moreover have "set (iq_seeds q) \<union> en_entity ` set (iq_core q @ iq_tail q) = dom (map_of (gi_nodes i))" if "iq_fallback q \<noteq> None"
  proof -
    have "en_entity ` set fb = dom (map_of (gi_nodes i)) - (set (a_seeds a) \<union> en_entity ` set rows)"
      using iq(5) [OF that] fe(1) by (simp add: fb_def)
    with rows(2) seeds show ?thesis unfolding ents iq(3) by blast
  qed
  moreover have "en_entity ` set (iq_core q @ iq_tail q) \<subseteq> dom (map_of (gi_nodes i)) - set (iq_seeds q)"
    unfolding ents iq(3) using rows(2) fbs by blast
  moreover have "(\<forall>x\<in>set (iq_core q). det x) \<and> (\<forall>x\<in>set (iq_tail q). \<not> det x)" using fbs by (auto simp: iq)
  ultimately show ?thesis using dis unfolding det_def by blast
qed

text \<open>A query raises the event EMPTY_IMPACT_REQUIRES_EXPLANATION, and the command ends with 3 instead of 0, exactly when
  nothing is affected, no fallback is triggered and something other than documents and receipts changed; the
  draft explanation then names every such file.\<close>

theorem empty_impact_event_iff:
  assumes "query Q i files = Inr q" "''empty_impact_event'' \<in> q_rules Q"
  shows "exit_code (query Q i files) = Inr (if iq_total q = 0 \<and> iq_fallback q = None \<and> (\<exists>e\<in>set (iq_files q). c_kind e \<notin> set DOC_KINDS) then 3 else 0) \<and>
    (iq_events q \<noteq> [] \<longleftrightarrow> iq_total q = 0 \<and> iq_fallback q = None \<and> (\<exists>e\<in>set (iq_files q). c_kind e \<notin> set DOC_KINDS)) \<and>
    map_option (map fst) (iq_explained q) =
      (if iq_events q = [] then None else Some (map c_path (filter (\<lambda>e. c_kind e \<notin> set DOC_KINDS) (iq_files q))))"
proof -
  obtain n rows where q: "q = build_query Q i n (change_set Q i files) rows" using assms(1) by (auto elim: query_Inr)
  have ev: "iq_events q \<noteq> [] \<longleftrightarrow> iq_total q = 0 \<and> iq_fallback q = None \<and> (\<exists>e\<in>set (iq_files q). c_kind e \<notin> set DOC_KINDS)"
    using assms(2) by (auto simp: q build_query_def Let_def filter_empty_conv)
  moreover have "map_option (map fst) (iq_explained q) =
      (if iq_events q = [] then None else Some (map c_path (filter (\<lambda>e. c_kind e \<notin> set DOC_KINDS) (iq_files q))))"
    by (simp add: q build_query_def Let_def comp_def)
  ultimately show ?thesis by (simp add: assms(1) exit_code_def)
qed

lemma first_seen_spec: "set (first_seen seen xs) = set xs - set seen \<and> distinct (first_seen seen xs)"
  by (induction xs arbitrary: seen) auto

text \<open>A receipt skeleton gives each affected entity and each node of a changed file one verdict, not_measured, and
  pauses the admission.\<close>

theorem skeleton_measures_nothing:
  "set (map fst (fst (receipt_skeleton q))) = en_entity ` set (iq_core q @ iq_tail q) \<union> \<Union> (set ` c_node_ids ` set (iq_files q)) \<and>
   distinct (map fst (fst (receipt_skeleton q))) \<and> snd ` set (fst (receipt_skeleton q)) \<subseteq> {''not_measured''} \<and>
   snd (receipt_skeleton q) = ''paused_safe''"
  using first_seen_spec [of "[]" "map en_entity (iq_core q @ iq_tail q) @ concat (map c_node_ids (iq_files q))"]
  by (auto simp: receipt_skeleton_def comp_def)

end
