(* ===== verification/Graph_Fresh.thy ===== *)
theory Graph_Fresh
  imports Graph_Impact_Props
begin

section \<open>Freshness, and a graph that goes through the whole query\<close>

text \<open>
  What the staleness check establishes when it does not refuse, and a small conformant graph on which every
  hypothesis of the query's properties holds.
\<close>

lemma read_tree_one:
  assumes "read_tree Q ps = Inr bs" "p \<in> set ps"
  shows "\<exists>b. (p, b) \<in> set bs \<and> read_one Q p = Inr b"
proof (cases "q_reader Q")
  case (Some rd)
  with assms show ?thesis by (auto simp: read_tree_def read_one_def)
next
  case None
  then obtain R where R: "q_repo Q = Some R" using assms(1) by (auto simp: read_tree_def split: option.splits)
  show ?thesis
  proof (cases "q_diff Q")
    case True
    with None R assms(1) have "read_at R (graph_ref Q) ps = Inr bs" by (simp add: read_tree_def)
    then obtain qs where qs: "list_all2 (\<lambda>x y. scope_path x = Inr y) ps qs"
      and bs: "bs = zip ps (map (\<lambda>p. r_blob R (rev_text (graph_ref Q) @ '':'' @ r_prefix R @ p)) qs)"
      unfolding read_at_def bindg_Inr mapg_Inr by auto
    from assms(2) obtain k where k: "k < length ps" "ps ! k = p" by (auto simp: in_set_conv_nth)
    have l: "length qs = length ps" using list_all2_lengthD [OF qs] by simp
    have "scope_path p = Inr (qs ! k)" using list_all2_nthD [OF qs k(1)] k(2) by simp
    moreover have "(p, r_blob R (rev_text (graph_ref Q) @ '':'' @ r_prefix R @ qs ! k)) \<in> set bs"
      using k l by (auto simp: bs in_set_zip)
    ultimately show ?thesis using None R True by (auto simp: read_one_def read_tree_def read_at_def)
  next
    case False
    with None R assms show ?thesis by (auto simp: read_tree_def read_one_def)
  qed
qed

lemma wanted_spec:
  assumes "wanted Q changed ns w = Inr w'"
  shows "(\<forall>k. set (bucket w k) \<subseteq> set (bucket w' k)) \<and>
    (\<forall>nid n p. (nid, n) \<in> set ns \<and> hashed_path Q changed n = Inr (Some p) \<longrightarrow> nid \<in> set (bucket w' p))"
  using assms
proof (induction ns arbitrary: w)
  case (Cons x ns)
  obtain nid n where x: "x = (nid, n)" by fastforce
  from Cons.prems obtain po where po: "hashed_path Q changed n = Inr po"
    "wanted Q changed ns (case po of None \<Rightarrow> w | Some p \<Rightarrow> push p nid w) = Inr w'" by (auto simp: x bindg_Inr)
  note IH = Cons.IH [OF po(2)]
  show ?case
  proof (cases po)
    case None
    with IH po(1) show ?thesis by (auto simp: x)
  next
    case (Some p)
    have m: "set (bucket w k) \<subseteq> set (bucket (push p nid w) k)" for k by (auto simp: bucket_push)
    have "nid \<in> set (bucket (push p nid w) p)" by (simp add: bucket_push)
    with IH Some po(1) m show ?thesis by (fastforce simp: x)
  qed
qed simp

lemma bucket_key: "x \<in> set (bucket w k) \<Longrightarrow> k \<in> set (map fst w)"
  by (cases "map_of w k") (auto simp: bucket_def dest: map_of_SomeD intro: rev_image_eqI)

lemma hash_check_match:
  assumes "hash_check Q i changed = Inr n" "distinct (map fst (gi_nodes i))"
    and "map_of (gi_nodes i) nid = Some nd" "hashed_path Q changed nd = Inr (Some p)"
  shows "\<exists>bytes. read_one Q p = Inr (Some bytes) \<and> n_hash nd = ''sha256:'' @ q_hash Q bytes"
proof -
  from assms(1) obtain w bs where w: "wanted Q changed (gi_nodes i) [] = Inr w" "read_tree Q (sort (map fst w)) = Inr bs"
    and ok: "\<forall>pb\<in>set bs. \<forall>x\<in>set (bucket w (fst pb)). Some (node_hash i x) = tree_hash Q (snd pb)"
    by (auto simp: hash_check_def bindg_Inr Let_def filter_empty_conv split: if_splits)
  have nid: "nid \<in> set (bucket w p)"
    using wanted_spec [OF w(1)] assms(4) map_of_SomeD [OF assms(3)] by blast
  then have "p \<in> set (sort (map fst w))" using bucket_key by force
  from read_tree_one [OF w(2) this] obtain b where b: "(p, b) \<in> set bs" "read_one Q p = Inr b" by blast
  from ok b(1) nid have "Some (node_hash i nid) = tree_hash Q b" by fastforce
  with b(2) assms(3) show ?thesis by (cases b) (simp_all add: tree_hash_def node_hash_def)
qed

text \<open>The specification. The bytes of a file in the tree the graph stands for: the caller's reader where it
  gives one, else the git object at the commit of the query in diff mode, else the working tree.\<close>

definition tree_bytes :: "qenv \<Rightarrow> string \<Rightarrow> string option" where
  "tree_bytes Q p = (case (q_reader Q, q_repo Q) of
     (Some rd, _) \<Rightarrow> rd p
   | (None, None) \<Rightarrow> None
   | (None, Some R) \<Rightarrow> if \<not> q_diff Q then r_worktree R p
       else (case scope_path p of Inl _ \<Rightarrow> None | Inr q \<Rightarrow> r_blob R (rev_text (graph_ref Q) @ '':'' @ r_prefix R @ q)))"

text \<open>The file a node stands for as a whole: its own path, or for a deployable unit the first of the
  manifests present in its directory.\<close>

definition stands_for :: "qenv \<Rightarrow> gnode \<Rightarrow> string \<Rightarrow> bool" where
  "stands_for Q n f \<longleftrightarrow> (\<exists>p. n_path n = Some p \<and> p \<noteq> [] \<and>
     (n_type n \<in> {''code_unit'', ''document'', ''receipt'', ''systemd_unit'', ''source_file''} \<and> f = p \<or>
      n_type n = ''deployable_unit'' \<and>
      f = rstrip_slash p @ ''/'' @ (case find (\<lambda>name. tree_bytes Q (rstrip_slash p @ ''/'' @ name) \<noteq> None)
            [''package.json'', ''Cargo.toml'', ''pyproject.toml'', ''setup.py'', ''setup.cfg''] of
          Some name \<Rightarrow> name | None \<Rightarrow> ''package.json'')))"

lemma read_one_bytes: "read_one Q p = Inr b \<Longrightarrow> b = tree_bytes Q p"
  by (auto simp: read_one_def read_tree_def read_at_def tree_bytes_def bindg_Inr split: option.splits if_splits)

lemma first_present_find:
  "first_present Q d names = Inr f \<Longrightarrow>
    f = d @ ''/'' @ (case find (\<lambda>name. tree_bytes Q (d @ ''/'' @ name) \<noteq> None) names of Some name \<Rightarrow> name | None \<Rightarrow> ''package.json'')"
  by (induction names) (auto simp: DEPLOYABLE_MANIFEST_NAMES_def bindg_Inr dest!: read_one_bytes split: if_splits)

lemma stands_for_hashed:
  assumes "hashed_path Q changed n = Inr po" "stands_for Q n f" "q_diff Q \<or> f \<notin> changed"
  shows "po = Some f"
proof -
  from assms(2) obtain p where p: "n_path n = Some p" "p \<noteq> []" and ty: "n_type n \<in> set FILE_HASH_TYPES"
    by (auto simp: stands_for_def FILE_HASH_TYPES_def)
  have po: "path_of n = Some p" using p by (cases p) (simp_all add: path_of_def)
  obtain g where g: "(if n_type n = ''deployable_unit'' then deployable_manifest Q p else Inr p) = Inr g"
    "po = (if \<not> q_diff Q \<and> g \<in> changed then None else Some g)"
    using assms(1) po ty by (auto simp: hashed_path_def bindg_Inr)
  have "g = f"
  proof (cases "n_type n = ''deployable_unit''")
    case True
    then have "first_present Q (rstrip_slash p) DEPLOYABLE_MANIFEST_NAMES = Inr g"
      using g(1) by (simp add: deployable_manifest_def)
    from first_present_find [OF this] True p assms(2) show ?thesis
      by (simp add: stands_for_def DEPLOYABLE_MANIFEST_NAMES_def)
  next
    case False
    with g(1) p assms(2) show ?thesis by (simp add: stands_for_def)
  qed
  with g(2) assms(3) show ?thesis by auto
qed

lemma wanted_hashed: "wanted Q changed ns w = Inr w' \<Longrightarrow> (nid, n) \<in> set ns \<Longrightarrow> \<exists>po. hashed_path Q changed n = Inr po"
  by (induction ns arbitrary: w) (auto simp: bindg_Inr)

text \<open>C17. A graph that passes the staleness check was built at the commit the query stands for and, in diff
  mode, the tree is clean. Every node that stands for a whole file (a code unit, document, receipt, systemd unit
  or source file with a path, or a deployable unit by the first manifest present) carries the digest of the
  bytes of that file: in diff mode the bytes at that commit, otherwise the bytes in the working tree, and
  there only for the files that are not themselves part of the change. Such a file exists: an absent one is never
  fresh.\<close>

theorem fresh_graph_matches:
  assumes "check_staleness Q i changed = Inr n" "{''staleness'', ''hash_check''} \<subseteq> q_rules Q" "q_repo Q \<noteq> None \<or> q_reader Q \<noteq> None"
    and "load_graph H P hints r doc = Inr i"
  shows "py_get (gi_manifest i) ''source_commit'' = (case graph_ref Q of None \<Rightarrow> PNone | Some s \<Rightarrow> PStr s) \<and> (q_diff Q \<longrightarrow> \<not> q_tree_dirty Q) \<and>
    (\<forall>nid nd f. map_of (gi_nodes i) nid = Some nd \<and> stands_for Q nd f \<and> (q_diff Q \<or> f \<notin> changed) \<longrightarrow>
      (\<exists>bytes. tree_bytes Q f = Some bytes \<and> n_hash nd = ''sha256:'' @ q_hash Q bytes))"
proof -
  have h: "hash_check Q i changed = Inr n"
    "py_get (gi_manifest i) ''source_commit'' = (case graph_ref Q of None \<Rightarrow> PNone | Some s \<Rightarrow> PStr s)" "q_diff Q \<longrightarrow> \<not> q_tree_dirty Q"
    using assms(1-3) by (auto simp: check_staleness_def Let_def split: if_splits)
  have d: "distinct (map fst (gi_nodes i))" using load_graph_ok [OF assms(4)] by (simp add: index_ok_def)
  from h(1) obtain w where w: "wanted Q changed (gi_nodes i) [] = Inr w" by (auto simp: hash_check_def bindg_Inr)
  have "\<exists>bytes. tree_bytes Q f = Some bytes \<and> n_hash nd = ''sha256:'' @ q_hash Q bytes"
    if n: "map_of (gi_nodes i) nid = Some nd" "stands_for Q nd f" "q_diff Q \<or> f \<notin> changed" for nid nd f
  proof -
    from wanted_hashed [OF w map_of_SomeD [OF n(1)]] obtain po where po: "hashed_path Q changed nd = Inr po" ..
    with stands_for_hashed [OF po n(2,3)] have "hashed_path Q changed nd = Inr (Some f)" by simp
    from hash_check_match [OF h(1) d n(1) this] obtain bytes where
      b: "read_one Q f = Inr (Some bytes)" "n_hash nd = ''sha256:'' @ q_hash Q bytes" by blast
    show ?thesis by (intro exI [of _ bytes] conjI read_one_bytes [OF b(1), symmetric] b(2))
  qed
  with h(2,3) show ?thesis by blast
qed

subsection \<open>Two units\<close>

definition hash0 :: "string \<Rightarrow> string" where
  "hash0 t = replicate 64 (CHR ''a'')"

definition pyenv0 :: pyenv where
  "pyenv0 = \<lparr>py_fromiso = (\<lambda>_. None), py_float = (\<lambda>_. None), py_repr = (\<lambda>_. [])\<rparr>"

definition commit0 :: string where
  "commit0 = replicate 40 (CHR ''c'')"

definition unit0 :: "string \<Rightarrow> pyval" where
  "unit0 p = PDict [(''id'', PStr (''code_unit:'' @ p)), (''type'', PStr ''code_unit''), (''path'', PStr p),
     (''content_hash'', PStr (''sha256:'' @ hash0 []))]"

definition doc0 :: pydict where
  "doc0 = [(''schema'', PStr ''RelationshipGraph/v1''),
    (''manifest'', PDict [(''schema'', PStr ''m''), (''builder'', PStr ''b''), (''builder_version'', PStr ''1''), (''source_repo'', PStr ''r''),
       (''source_commit'', PStr commit0), (''built_at_utc'', PStr ''0001-01-01T00:00:00Z''), (''extractors'', PList []),
       (''node_count'', PInt 2), (''edge_count'', PInt 1), (''graph_digest'', PStr (''sha256:'' @ hash0 []))]),
    (''nodes'', PList [unit0 ''src/a.ts'', unit0 ''src/b.ts'']),
    (''edges'', PList [PDict [(''from'', PStr ''code_unit:src/b.ts''), (''to'', PStr ''code_unit:src/a.ts''), (''type'', PStr ''imports''),
       (''provenance'', PStr ''deterministic'')]])]"

definition qenv0 :: qenv where
  "qenv0 = \<lparr>q_hash = hash0, q_repo = None, q_reader = Some (\<lambda>_. Some ''x''), q_diff = False, q_base = None, q_head = None,
     q_tree_commit = commit0, q_tree_dirty = True, q_role = ''base'', q_max_depth = Some 3, q_edge_types = None, q_rules = set RULES\<rparr>"

definition files0 :: "cfile list" where
  "files0 = [plain_file ''src/a.ts'' ''M'']"

definition index0 :: graph_index where
  "index0 = projr (load_graph hash0 pyenv0 [] (set RULES) doc0)"

definition query0 :: impact_query where
  "query0 = projr (query qenv0 index0 files0)"

lemma load0: "load_graph hash0 pyenv0 [] (set RULES) doc0 = Inr index0"
proof -
  have "\<not> isl (load_graph hash0 pyenv0 [] (set RULES) doc0)" by code_simp
  then show ?thesis by (cases "load_graph hash0 pyenv0 [] (set RULES) doc0") (simp_all add: index0_def)
qed

lemma fresh0: "check_staleness qenv0 index0 (f_path ` set files0) = Inr 1"
  by code_simp

lemma answered0: "query qenv0 index0 files0 = Inr query0"
proof -
  have "\<not> isl (query qenv0 index0 files0)" by code_simp
  then show ?thesis by (cases "query qenv0 index0 files0") (simp_all add: query0_def)
qed

lemma rules0: "''unknown_node'' \<in> q_rules qenv0" "{''unknown_node'', ''global_fallback''} \<subseteq> q_rules qenv0"
  "''empty_impact_event'' \<in> q_rules qenv0" "{''staleness'', ''hash_check''} \<subseteq> q_rules qenv0" "q_repo qenv0 \<noteq> None \<or> q_reader qenv0 \<noteq> None"
  by (simp_all add: qenv0_def RULES_def)

theorem loaded_query_answers_witness:
  "let sources = {f\<in>set files0. uncovered_source qenv0 index0 f}; assets = {f\<in>set files0. unbound_asset qenv0 index0 f}
   in if files0 = [] then query qenv0 index0 files0 = Inl (Refused EMPTY_CHANGE_SET)
      else if assets \<noteq> {} then query qenv0 index0 files0 = Inl (Refused (UNKNOWN_ASSETS (sorted_list_of_set (f_path ` (sources \<union> assets)))
         (sorted_list_of_set (f_path ` assets))))
      else if sources \<noteq> {} then query qenv0 index0 files0 = Inl (Refused (UNKNOWN_CODE (sorted_list_of_set (f_path ` sources))))
      else \<exists>q. query qenv0 index0 files0 = Inr q"
  by (rule loaded_query_answers [OF load0 fresh0 rules0(1)])

theorem changed_files_accounted_witness:
  "map (\<lambda>e. (c_path e, c_status e)) (iq_files query0) = map (\<lambda>f. (f_path f, f_status f)) files0 \<and>
   list_all (\<lambda>e.
      c_node_ids e \<noteq> [] \<and> set (c_node_ids e) \<subseteq> set (iq_seeds query0) \<or> c_new e \<and> c_status e = ''A'' \<or>
      (\<exists>fs. iq_fallback query0 = Some fs \<and> c_path e \<in> set fs) \<or> c_uncovered e \<and> \<not> source_ext (c_path e)) (iq_files query0)"
  unfolding list_all_iff by (rule changed_files_accounted [OF load0 answered0 rules0(2)])

theorem impact_rows_partition_witness:
  "distinct (map en_entity (iq_core query0 @ iq_tail query0)) \<and>
   en_entity ` set (iq_core query0 @ iq_tail query0) \<subseteq> dom (map_of (gi_nodes index0)) - set (iq_seeds query0) \<and>
   iq_total query0 = card (en_entity ` set (iq_core query0 @ iq_tail query0)) \<and>
   list_all (\<lambda>x. deterministic (en_path x)) (iq_core query0) \<and> list_all (\<lambda>x. \<not> deterministic (en_path x)) (iq_tail query0)"
  using impact_rows_partition [OF load0 answered0] unfolding list_all_iff by (elim conjE) (intro conjI)

lemma some_node0: "map_of (gi_nodes index0) ''code_unit:src/b.ts'' \<noteq> None"
  by code_simp

lemma stands0: "stands_for qenv0 (the (map_of (gi_nodes index0) ''code_unit:src/b.ts'')) ''src/b.ts''"
proof -
  have "n_path (the (map_of (gi_nodes index0) ''code_unit:src/b.ts'')) = Some ''src/b.ts''"
    "n_type (the (map_of (gi_nodes index0) ''code_unit:src/b.ts'')) = ''code_unit''" by code_simp+
  then show ?thesis by (simp add: stands_for_def)
qed

lemma unchanged0: "q_diff qenv0 \<or> ''src/b.ts'' \<notin> f_path ` set files0"
  by code_simp

theorem fresh_graph_matches_witness:
  "py_get (gi_manifest index0) ''source_commit'' = PStr commit0 \<and>
   (\<exists>bytes. tree_bytes qenv0 ''src/b.ts'' = Some bytes \<and>
     n_hash (the (map_of (gi_nodes index0) ''code_unit:src/b.ts'')) = ''sha256:'' @ q_hash qenv0 bytes)"
proof -
  have n: "map_of (gi_nodes index0) ''code_unit:src/b.ts'' = Some (the (map_of (gi_nodes index0) ''code_unit:src/b.ts''))"
    using some_node0 by (cases "map_of (gi_nodes index0) ''code_unit:src/b.ts''") simp_all
  have r: "graph_ref qenv0 = Some commit0" by (simp add: graph_ref_def qenv0_def)
  note w = fresh_graph_matches [OF fresh0 rules0(4,5) load0, unfolded r option.case]
  show ?thesis
    by (rule conjI [OF w [THEN conjunct1]
        w [THEN conjunct2, THEN conjunct2, rule_format, OF conjI [OF n conjI [OF stands0 unchanged0]]]])
qed

end
