(* ===== verification/Graph_Pair.thy ===== *)
theory Graph_Pair
  imports Graph_Fresh
begin

section \<open>Graph admission: both sides of a committed change\<close>

text \<open>
  \<^verbatim>\<open>tools/graph/impact_pair.py\<close>: a query on the graph of the base and one on the graph of the head, and their
  union; the selection of what must be verified (\<^verbatim>\<open>schema_check.fallback_units\<close>, \<open>traversal_entities\<close>); the binding of
  an author's explanation of an empty impact; and \<^verbatim>\<open>ci_selection.py\<close>, which decides whether a build may run for
  the affected entities only. What \<open>env_example_key_delta\<close>, \<open>selected_dependency.paired_obligations\<close> and \<open>index_at\<close>
  return are arguments (\<open>keys\<close>, \<open>obls\<close>, \<open>idx\<close>); \<open>obls\<close> is \<open>None\<close> for graphs without selected dependencies.
\<close>

subsection \<open>Selection under a global fallback\<close>

text \<open>\<open>x.split(":", 1)[1]\<close>; every id has its type and a colon in front.\<close>

definition after_colon :: "string \<Rightarrow> string" where
  "after_colon x = drop 1 (dropWhile (\<lambda>c. c \<noteq> CHR '':'') x)"

definition strip_slash :: "string \<Rightarrow> string" where
  "strip_slash s = rstrip_slash (dropWhile (\<lambda>c. c = CHR ''/'') s)"

definition deployable_dir :: "string \<Rightarrow> string" where
  "deployable_dir x = (let d = strip_slash (after_colon x) in if d \<in> {[], ''.''} then [] else d @ ''/'')"

definition row_type :: "entry \<Rightarrow> string" where
  "row_type e = (if en_node_type e = [] then takeWhile (\<lambda>c. c \<noteq> CHR '':'') (en_entity e) else en_node_type e)"

definition rows_of_type :: "string \<Rightarrow> entry list \<Rightarrow> string list" where
  "rows_of_type t rows = map en_entity (filter (\<lambda>e. row_type e = t) rows)"

definition fallback_units :: "entry list \<Rightarrow> string list" where
  "fallback_units rows =
    (let units = rows_of_type ''deployable_unit'' rows; dirs = map deployable_dir units
     in units @ filter (\<lambda>c. \<not> list_ex (\<lambda>d. starts d (after_colon c)) dirs) (rows_of_type ''code_unit'' rows))"

definition synthetic :: "hop \<Rightarrow> bool" where
  "synthetic h \<longleftrightarrow> map_of (h_extra h) ''via'' = Some (PStr ''global-fallback'')"

definition traversal_entities :: "entry list \<Rightarrow> string list" where
  "traversal_entities rows = map en_entity (filter (\<lambda>e. en_path e \<noteq> [] \<and> \<not> list_all synthetic (en_path e)) rows)"

definition query_rows :: "impact_query \<Rightarrow> entry list" where
  "query_rows q = iq_core q @ iq_tail q"

definition selected :: "impact_query \<Rightarrow> string list" where
  "selected q = sorted_set (iq_seeds q @
     (if iq_fallback q \<noteq> None then fallback_units (query_rows q) @ traversal_entities (query_rows q)
      else map en_entity (query_rows q)))"

subsection \<open>The union of two revisions\<close>

text \<open>A path to an entity: the revision, whether it is in the inferred tail, and its row.\<close>

type_synonym rpath = "string \<times> bool \<times> entry"

datatype provenance_record = Same_in "string list" | Differ "rpath list"

record mrow =
  mr_entry :: entry
  mr_record :: provenance_record

definition tagged_rows :: "string \<times> impact_query \<Rightarrow> rpath list" where
  "tagged_rows rq = map (\<lambda>e. (fst rq, False, e)) (iq_core (snd rq)) @ map (\<lambda>e. (fst rq, True, e)) (iq_tail (snd rq))"

definition entity_paths :: "(string \<times> impact_query) list \<Rightarrow> (string \<times> rpath list) list" where
  "entity_paths versions = fold (\<lambda>p. push (en_entity (snd (snd p))) p) (concat (map tagged_rows versions)) []"

definition path_rank :: "rpath \<Rightarrow> nat" where
  "path_rank p = (if fst (snd p) then 2 else 0) + (if en_boundary (snd (snd p)) \<in> {''repo'', ''service''} then 1 else 0)"

text \<open>\<open>max\<close> with a key: the first of the greatest.\<close>

fun pick_path :: "rpath \<Rightarrow> rpath list \<Rightarrow> rpath" where
  "pick_path p [] = p"
| "pick_path p (q # qs) = pick_path (if path_rank p < path_rank q then q else p) qs"

definition merge_entity :: "rpath list \<Rightarrow> bool \<times> mrow" where
  "merge_entity ps = (case pick_path (hd ps) (tl ps) of (role, tail, chosen) \<Rightarrow>
     (tail, \<lparr>mr_entry = chosen,
       mr_record = (if list_all (\<lambda>p. snd p = (tail, chosen)) ps then Same_in (map fst ps) else Differ ps)\<rparr>))"

definition merge_revisions :: "(string \<times> impact_query) list \<Rightarrow> mrow list \<times> mrow list" where
  "merge_revisions versions =
    (let ms = map (merge_entity \<circ> snd) (sort_key fst (entity_paths versions))
     in (map snd (filter (\<lambda>m. \<not> fst m) ms), map snd (filter fst ms)))"

subsection \<open>Selected dependencies\<close>

definition seed_row :: "graph_index \<Rightarrow> string \<Rightarrow> entry" where
  "seed_row i s = \<lparr>en_entity = s, en_node_type = (case map_of (gi_nodes i) s of None \<Rightarrow> [] | Some n \<Rightarrow> n_type n), en_depth = 0,
     en_boundary = ''intra_unit'', en_path = [], en_hint = ''native-selected-dependency''\<rparr>"

definition keep_row :: "entry \<Rightarrow> (string \<times> bool \<times> entry) list \<Rightarrow> (string \<times> bool \<times> entry) list" where
  "keep_row x es =
    (let tail = (\<not> deterministic (en_path x)) in
     case map_of es (en_entity x) of
       None \<Rightarrow> AList.update (en_entity x) (tail, x) es
     | Some (t, _) \<Rightarrow> if tail \<and> \<not> t then AList.update (en_entity x) (tail, x) es else es)"

definition keep_seed :: "graph_index \<Rightarrow> string \<Rightarrow> (string \<times> bool \<times> entry) list \<Rightarrow> (string \<times> bool \<times> entry) list" where
  "keep_seed i s es = (if map_of es s = None then AList.update s (False, seed_row i s) es else es)"

definition selected_dependency_impact :: "qenv \<Rightarrow> graph_index \<Rightarrow> string list \<Rightarrow> impact_query \<Rightarrow> impact_query gres" where
  "selected_dependency_impact Q i seeds q =
    (if seeds = [] then Inr q
     else if filter (\<lambda>s. \<not> has_node i s) seeds \<noteq> []
     then Inl (Refused (SELECTED_SOURCE_NOT_MEASURED (sorted_set (filter (\<lambda>s. \<not> has_node i s) seeds))))
     else bindg (mapg (\<lambda>s. raising (traverse i [s] (q_max_depth Q) (q_edge_types Q) (set RULES) {})) (sorted_set seeds)) (\<lambda>rss.
       let es = fold (\<lambda>x. AList.update (en_entity x) (False, x)) (iq_core q) [];
           es = fold (\<lambda>x. AList.update (en_entity x) (True, x)) (iq_tail q) es;
           es = fold keep_row (concat rss) es;
           es = sort_key fst (fold (keep_seed i) (sorted_set seeds) es)
       in Inr (q\<lparr>iq_core := map (snd \<circ> snd) (filter (\<lambda>x. \<not> fst (snd x)) es), iq_tail := map (snd \<circ> snd) (filter (\<lambda>x. fst (snd x)) es),
              iq_total := length es, iq_seeds := sorted_set (iq_seeds q @ seeds)\<rparr>)))"

definition with_obligations ::
  "qenv \<Rightarrow> graph_index \<Rightarrow> graph_index \<Rightarrow> (string list \<times> string list) option \<Rightarrow> impact_query \<Rightarrow> impact_query option \<Rightarrow>
   (impact_query \<times> impact_query option) gres" where
  "with_obligations Q bi hi obls before after = (case obls of None \<Rightarrow> Inr (before, after)
     | Some (ob, oh) \<Rightarrow> bindg (selected_dependency_impact Q bi ob before) (\<lambda>b.
         case after of
           None \<Rightarrow> if oh \<noteq> [] then Inl (Refused SELECTED_HEAD_NOT_MEASURED) else Inr (b, None)
         | Some a \<Rightarrow> bindg (selected_dependency_impact Q hi oh a) (\<lambda>a. Inr (b, Some a))))"

subsection \<open>The paired query\<close>

record pair_query =
  pq_core :: "mrow list"
  pq_tail :: "mrow list"
  pq_total :: nat
  pq_files :: "centry list"
  pq_seeds :: "string list"
  pq_fallback :: "string list option"
  pq_events :: "(string \<times> string option) list"      \<comment> \<open>code and revision\<close>
  pq_missing :: "string list"                        \<comment> \<open>head source files without a node\<close>
  pq_base_selection :: "string list"
  pq_head_selection :: "string list"
  pq_external :: "(string \<times> nat) list option"       \<comment> \<open>per revision, where an explanation is drafted\<close>
  pq_revs :: "string option \<times> string option"
  pq_digests :: "pyval \<times> pyval"

definition SOURCE_EXTS :: "string list" where
  "SOURCE_EXTS = CODE_EXTS @ [''.prisma'', ''.py'', ''.rs'', ''.go'', ''.java'', ''.kt'', ''.cs'', ''.c'', ''.cpp'', ''.h'']"

text \<open>\<open>Path(p).suffix\<close>: from the last dot of the name on, unless the name begins or ends with it.\<close>

definition path_suffix :: "string \<Rightarrow> string" where
  "path_suffix p =
    (let b = basename p; e = takeWhile (\<lambda>c. c \<noteq> CHR ''.'') (rev b)
     in if e = [] \<or> length b \<le> length e + 1 then [] else CHR ''.'' # rev e)"

definition merge_file :: "centry \<Rightarrow> centry \<Rightarrow> centry" where
  "merge_file f dest = (let ids = sorted_set (c_node_ids dest @ c_node_ids f) in
     if ids = [] then dest else dest\<lparr>c_node_ids := ids, c_node_id := node_id_of ids, c_new := False, c_uncovered := False\<rparr>)"

text \<open>The dictionary of the base files by path holds the last file of a path.\<close>

fun merge_first :: "centry \<Rightarrow> centry list \<Rightarrow> centry list" where
  "merge_first f [] = []"
| "merge_first f (e # es) = (if c_path e = c_path f then merge_file f e # es else e # merge_first f es)"

definition merge_files :: "centry list \<Rightarrow> centry list \<Rightarrow> centry list" where
  "merge_files after before = rev (fold merge_first after (rev before))"

definition external_edges :: "graph_index \<Rightarrow> impact_query \<Rightarrow> nat" where
  "external_edges i q = length (filter (\<lambda>e. e_type e \<noteq> ''deploys_to'' \<and> e_from e \<notin> set (iq_seeds q))
     (concat (map (bucket (gi_rev i)) (iq_seeds q))))"

definition EMPTY_EVENT :: string where
  "EMPTY_EVENT = ''EMPTY_IMPACT_REQUIRES_EXPLANATION''"

definition with_keys :: "string list option \<Rightarrow> graph_index \<Rightarrow> graph_index \<Rightarrow> cfile list \<Rightarrow> cfile list" where
  "with_keys keys bi hi files = (case keys of None \<Rightarrow> files
     | Some ks \<Rightarrow> if list_all (\<lambda>k. has_node bi (''config_key:'' @ k) \<or> has_node hi (''config_key:'' @ k)) ks
         then map (\<lambda>f. if f_path f = ''.env.example'' then f\<lparr>f_keys := sorted_set ks\<rparr> else f) files else files)"

definition is_events :: "string \<Rightarrow> bool \<Rightarrow> string list \<Rightarrow> (string \<times> string option) list" where
  \<comment> \<open>the events of a revision, less the empty-impact event where the union is not empty\<close>
  "is_events role drop_empty evs = map (\<lambda>c. (c, Some role)) (filter (\<lambda>c. \<not> (drop_empty \<and> c = EMPTY_EVENT)) evs)"

definition build_pair ::
  "qenv \<Rightarrow> graph_index \<Rightarrow> graph_index \<Rightarrow> cfile list \<Rightarrow> impact_query \<Rightarrow> impact_query option \<Rightarrow> pair_query" where
  "build_pair Q bi hi head_files before after =
    (let versions = (''base'', before) # (case after of None \<Rightarrow> [] | Some a \<Rightarrow> [(''head'', a)]);
         merged = merge_revisions versions;
         fb = (case after of Some a \<Rightarrow> if iq_fallback a \<noteq> None then iq_fallback a else iq_fallback before | None \<Rightarrow> iq_fallback before);
         nonempty = (entity_paths versions \<noteq> [] \<or> fb \<noteq> None);
         missing = sort (map f_path (filter (\<lambda>f. lower (path_suffix (f_path f)) \<in> set SOURCE_EXTS \<and> path_nodes hi (f_path f) (set RULES) = []) head_files))
     in \<lparr>pq_core = fst merged, pq_tail = snd merged, pq_total = length (entity_paths versions),
         pq_files = merge_files (case after of None \<Rightarrow> [] | Some a \<Rightarrow> iq_files a) (iq_files before),
         pq_seeds = sorted_set (iq_seeds before @ (case after of None \<Rightarrow> [] | Some a \<Rightarrow> iq_seeds a)),
         pq_fallback = fb,
         pq_events = is_events ''base'' nonempty (iq_events before) @
           (case after of None \<Rightarrow> [] | Some a \<Rightarrow> is_events ''head'' nonempty (iq_events a)) @
           (if missing = [] then [] else [(''HEAD_CODE_NOT_MEASURED'', None)]),
         pq_missing = missing,
         pq_base_selection = selected before, pq_head_selection = (case after of None \<Rightarrow> [] | Some a \<Rightarrow> selected a),
         pq_external = (if iq_explained before = None \<or> nonempty then None
           else Some ((''base'', external_edges bi before) # (case after of None \<Rightarrow> [] | Some a \<Rightarrow> [(''head'', external_edges hi a)]))),
         pq_revs = (q_base Q, q_head Q),
         pq_digests = (py_get (gi_manifest bi) ''graph_digest'', py_get (gi_manifest hi) ''graph_digest'')\<rparr>)"

text \<open>The two queries, before anything is merged.\<close>

definition head_files :: "cfile list \<Rightarrow> cfile list" where
  "head_files fs = filter (\<lambda>f. f_status f \<notin> {''D'', ''R''}) fs"

definition pair_env :: "qenv \<Rightarrow> string \<Rightarrow> qenv" where
  "pair_env Q role = Q\<lparr>q_diff := True, q_reader := None, q_rules := set RULES, q_role := role\<rparr>"

definition pair_query ::
  "qenv \<Rightarrow> graph_index \<Rightarrow> graph_index \<Rightarrow> string list option \<Rightarrow> (string list \<times> string list) option \<Rightarrow> cfile list \<Rightarrow> pair_query gres" where
  "pair_query Q bi hi keys obls files =
    (let fs = with_keys keys bi hi files; hfs = head_files fs
     in bindg (query (pair_env Q ''base'') bi fs) (\<lambda>before.
        bindg (check_staleness (pair_env Q ''head'') hi {}) (\<lambda>_.
        bindg (if hfs = [] then Inr None else map_sum id Some (query (pair_env Q ''head'') hi hfs)) (\<lambda>after.
        bindg (with_obligations Q bi hi obls before after) (\<lambda>ba.
          Inr (build_pair Q bi hi hfs (fst ba) (snd ba)))))))"

subsection \<open>The author's explanation of an empty impact\<close>

definition strip_space :: "string \<Rightarrow> string" where
  "strip_space s = rev (dropWhile is_space (rev (dropWhile is_space s)))"

text \<open>\<open>len\<close> counts code points: the bytes that do not continue one.\<close>

definition code_points :: "string \<Rightarrow> nat" where
  "code_points s = length (filter (\<lambda>c. \<not> ((128 :: nat) \<le> of_char c \<and> of_char c < (192 :: nat))) s)"

definition substantive :: "string \<Rightarrow> bool" where
  "substantive r \<longleftrightarrow> 40 \<le> code_points (strip_space r) \<and>
     \<not> list_ex (\<lambda>p. starts p (lower (strip_space r))) [''generated'', ''todo'', ''placeholder'', ''not_measured'']"

definition EXPLANATION_FIELDS :: "string list" where
  "EXPLANATION_FIELDS = [''schema'', ''base'', ''head'', ''base_graph_digest'', ''head_graph_digest'', ''scope'', ''reason'']"

definition ref_value :: "string option \<Rightarrow> pyval" where
  "ref_value r = (case r of None \<Rightarrow> PNone | Some s \<Rightarrow> PStr s)"

definition explains :: "pair_query \<Rightarrow> pydict \<Rightarrow> bool" where
  "explains q d \<longleftrightarrow> py_get d ''scope'' = PStr ''graph_non_seed_dependents'' \<and> py_get d ''base'' = ref_value (fst (pq_revs q)) \<and>
     py_get d ''head'' = ref_value (snd (pq_revs q)) \<and> py_get d ''base_graph_digest'' = fst (pq_digests q) \<and>
     py_get d ''head_graph_digest'' = snd (pq_digests q)"

definition explainable :: "pair_query \<Rightarrow> bool" where
  "explainable q \<longleftrightarrow> pq_total q = 0 \<and> pq_fallback q = None \<and> pq_missing q = [] \<and>
     (let revisions = (case pq_external q of None \<Rightarrow> [] | Some r \<Rightarrow> r)
      in fst ` set revisions = {''base'', ''head''} \<and> list_all (\<lambda>r. snd r = 0) revisions) \<and>
     list_ex (\<lambda>e. fst e = EMPTY_EVENT) (pq_events q)"

text \<open>The bound reason; the binding repeats the claim and its digest.\<close>

definition bind_empty_explanation :: "pair_query \<Rightarrow> pyval \<Rightarrow> string gres" where
  "bind_empty_explanation q claim = (case claim of
     PDict d \<Rightarrow>
       if fst ` set d \<noteq> set EXPLANATION_FIELDS \<or> py_get d ''schema'' \<noteq> PStr ''EmptyImpactExplanation/v1'' then Inl (Refused EXPLANATION_INVALID)
       else (case py_get d ''reason'' of
          PStr r \<Rightarrow> if \<not> substantive r then Inl (Refused EXPLANATION_INVALID)
            else if \<not> explains q d then Inl (Refused EXPLANATION_STALE)
            else if \<not> explainable q then Inl (Refused EXPLANATION_INAPPLICABLE)
            else Inr (strip_space r)
        | _ \<Rightarrow> Inl (Refused EXPLANATION_INVALID))
   | _ \<Rightarrow> Inl (Refused EXPLANATION_INVALID))"

definition blocking_query_events :: "bool \<Rightarrow> pair_query \<Rightarrow> (string \<times> string option) list" where
  "blocking_query_events bound q = filter (\<lambda>e. \<not> (bound \<and> fst e = EMPTY_EVENT)) (pq_events q)"

subsection \<open>The selection for continuous integration\<close>

datatype ci_reason = Not_derived | Diagnostics | Irregular | Fallback_triggered

datatype ci_mode = Full ci_reason | Affected bool      \<comment> \<open>whether only records changed\<close>

record ci_entity =
  ci_id :: string
  ci_type :: string
  ci_revisions :: "string list"

definition ci_node :: "graph_index \<Rightarrow> graph_index \<Rightarrow> pair_query \<Rightarrow> string \<Rightarrow> ci_entity result" where
  "ci_node bi hi q x = (case (map_of (gi_nodes hi) x, map_of (gi_nodes bi) x) of
     (None, None) \<Rightarrow> Inl KeyError
   | (None, Some n) \<Rightarrow> Inr \<lparr>ci_id = x, ci_type = n_type n,
       ci_revisions = filter (\<lambda>r. x \<in> set (if r = ''base'' then pq_base_selection q else pq_head_selection q)) [''base'', ''head'']\<rparr>
   | (Some n, _) \<Rightarrow> Inr \<lparr>ci_id = x, ci_type = n_type n,
       ci_revisions = filter (\<lambda>r. x \<in> set (if r = ''base'' then pq_base_selection q else pq_head_selection q)) [''base'', ''head'']\<rparr>)"

definition ci_entities :: "graph_index \<Rightarrow> graph_index \<Rightarrow> pair_query \<Rightarrow> ci_entity list result" where
  "ci_entities bi hi q = mapr (ci_node bi hi q) (sorted_set (pq_base_selection q @ pq_head_selection q))"

text \<open>What \<open>git ls-tree\<close> says of a changed file; \<open>None\<close> where the command fails.\<close>

definition regular_files :: "(string \<Rightarrow> string \<Rightarrow> string option) \<Rightarrow> string list \<Rightarrow> string list \<Rightarrow> bool option" where
  "regular_files ls revs paths =
    (let trees = concat (map (\<lambda>p. map (\<lambda>r. ls r p) revs) paths)
     in if None \<in> set trees then None
        else Some (list_all (\<lambda>t. case t of None \<Rightarrow> True | Some s \<Rightarrow> s = [] \<or> starts ''100644 blob '' s) trees))"

definition ci_decide :: "bool \<Rightarrow> pair_query \<Rightarrow> ci_entity list \<Rightarrow> ci_mode" where
  "ci_decide regular q es =
    (if pq_events q \<noteq> [] \<or> pq_missing q \<noteq> [] then Full Diagnostics
     else if \<not> regular then Full Irregular
     else if pq_fallback q \<noteq> None then Full Fallback_triggered
     else Affected (list_all (\<lambda>f. c_kind f \<in> set DOC_KINDS) (pq_files q) \<and>
       list_all (\<lambda>e. ci_type e \<in> {''document'', ''receipt'', ''work_item''}) es))"

definition ci_commit :: "string \<Rightarrow> bool" where
  "ci_commit v \<longleftrightarrow> length v = 40 \<and> list_all (\<lambda>c. c \<in> set ''0123456789abcdef'') v \<and> v \<noteq> replicate 40 (CHR ''0'')"

definition caught :: "gerror \<Rightarrow> bool" where
  "caught e = (case e of Refused _ \<Rightarrow> True | Raised x \<Rightarrow> x \<in> {ValueError, KeyError, TypeError, CalledProcessError})"

definition ci_env :: "qenv \<Rightarrow> string \<Rightarrow> string \<Rightarrow> qenv" where
  "ci_env Q base head = Q\<lparr>q_base := Some base, q_head := Some head, q_tree_commit := head, q_tree_dirty := False,
     q_max_depth := None, q_edge_types := None\<rparr>"

definition ci_selection ::
  "(string \<Rightarrow> string \<Rightarrow> string option) \<Rightarrow> string \<Rightarrow> bool \<Rightarrow> qenv \<Rightarrow> string \<Rightarrow> string \<Rightarrow> graph_index \<times> graph_index \<Rightarrow>
   string list option \<Rightarrow> (string list \<times> string list) option \<Rightarrow> cfile list \<Rightarrow> (ci_mode \<times> ci_entity list) gres" where
  "ci_selection ls tip dirty Q base head idx keys obls files =
    (if \<not> (ci_commit base \<and> ci_commit head) \<or> tip \<noteq> head \<or> dirty then Inr (Full Not_derived, [])
     else (case bindg (pair_query (ci_env Q base head) (fst idx) (snd idx) keys obls files) (\<lambda>q.
              bindg (raising (ci_entities (fst idx) (snd idx) q)) (\<lambda>es. Inr (q, es))) of
         Inl e \<Rightarrow> if caught e then Inr (Full Not_derived, []) else Inl e
       | Inr (q, es) \<Rightarrow> (case regular_files ls [base, head] (map c_path (pq_files q)) of
             None \<Rightarrow> Inr (Full Not_derived, es)
           | Some regular \<Rightarrow> Inr (ci_decide regular q es, es))))"

end
