(* ===== verification/Graph_Pair_Props.thy ===== *)
theory Graph_Pair_Props
  imports Graph_Pair
begin

section \<open>What the union of two revisions keeps\<close>

text \<open>
  The merged rows lose no path of either revision, the tail keeps everything that either revision had
  inferred, and a build restricted to the affected entities runs for everything that depends on the change in
  the graph of the base or in the graph of the head.
\<close>

subsection \<open>The paths by entity\<close>

definition row_paths :: "bool \<Rightarrow> mrow \<Rightarrow> rpath list" where
  \<comment> \<open>what a reader of a merged row takes for the paths of its entity\<close>
  "row_paths t m = (case mr_record m of Same_in rs \<Rightarrow> map (\<lambda>r. (r, t, mr_entry m)) rs | Differ ps \<Rightarrow> ps)"

abbreviation path_entity :: "rpath \<Rightarrow> string" where
  "path_entity p \<equiv> en_entity (snd (snd p))"

abbreviation all_rows :: "(string \<times> impact_query) list \<Rightarrow> rpath list" where
  "all_rows versions \<equiv> concat (map tagged_rows versions)"

lemma dom_push_fold: "dom (map_of (fold (\<lambda>e. push (f e) e) es d)) = dom (map_of d) \<union> f ` set es"
  by (induction es arbitrary: d) (auto simp: push_def map_of_update)

lemma entity_paths_mem:
  "(k, ps) \<in> set (entity_paths vs) \<longleftrightarrow> k \<in> path_entity ` set (all_rows vs) \<and> ps = filter (\<lambda>p. path_entity p = k) (all_rows vs)"
proof -
  let ?d = "entity_paths vs"
  have dis: "distinct (map fst ?d)" unfolding entity_paths_def by (rule distinct_push_fold) simp
  have b: "bucket ?d k = filter (\<lambda>p. path_entity p = k) (all_rows vs)"
    unfolding entity_paths_def bucket_fold by (simp add: bucket_def)
  have d: "k \<in> dom (map_of ?d) \<longleftrightarrow> k \<in> path_entity ` set (all_rows vs)"
    unfolding entity_paths_def dom_push_fold by simp
  have "(k, ps) \<in> set ?d \<longleftrightarrow> map_of ?d k = Some ps" using dis by simp
  also have "\<dots> \<longleftrightarrow> k \<in> dom (map_of ?d) \<and> ps = bucket ?d k" by (auto simp: bucket_def)
  finally show ?thesis by (simp only: d b)
qed

lemma entity_paths_keys: "distinct (map fst (entity_paths vs))" "fst ` set (entity_paths vs) = path_entity ` set (all_rows vs)"
proof -
  show "distinct (map fst (entity_paths vs))" unfolding entity_paths_def by (rule distinct_push_fold) simp
  show "fst ` set (entity_paths vs) = path_entity ` set (all_rows vs)"
    unfolding entity_paths_def dom_map_of_conv_image_fst [symmetric] dom_push_fold by simp
qed

subsection \<open>One entity\<close>

lemma pick_path_max: "pick_path p qs \<in> set (p # qs) \<and> (\<forall>q\<in>set (p # qs). path_rank q \<le> path_rank (pick_path p qs))"
proof (induction qs arbitrary: p)
  case (Cons q qs)
  from Cons.IH [of "if path_rank p < path_rank q then q else p"] show ?case by (auto split: if_splits)
qed simp

lemma rank_tail: "fst (snd p) \<longleftrightarrow> 2 \<le> path_rank p"
  by (simp add: path_rank_def)

lemma merge_entity_spec:
  assumes "ps \<noteq> []" "merge_entity ps = (t, m)"
  shows "(t \<longleftrightarrow> (\<exists>p\<in>set ps. fst (snd p))) \<and> mr_entry m \<in> (\<lambda>p. snd (snd p)) ` set ps \<and> row_paths t m = ps"
proof -
  obtain c where c: "c = pick_path (hd ps) (tl ps)" by simp
  from pick_path_max [of "hd ps" "tl ps"] assms(1) have mx: "c \<in> set ps" "\<And>p. p \<in> set ps \<Longrightarrow> path_rank p \<le> path_rank c"
    by (simp_all add: c)
  have m: "t = fst (snd c)" "mr_entry m = snd (snd c)"
    "mr_record m = (if list_all (\<lambda>p. snd p = snd c) ps then Same_in (map fst ps) else Differ ps)"
    using assms(2) by (auto simp: merge_entity_def c split: prod.splits)
  have "t \<longleftrightarrow> (\<exists>p\<in>set ps. fst (snd p))" unfolding m(1) rank_tail using mx le_trans by blast
  moreover have "row_paths t m = ps"
  proof (cases "list_all (\<lambda>p. snd p = snd c) ps")
    case True
    then have "row_paths t m = map (\<lambda>r. (r, snd c)) (map fst ps)" using m by (simp add: row_paths_def)
    also have "\<dots> = ps" using True by (induction ps) auto
    finally show ?thesis .
  qed (use m in \<open>simp add: row_paths_def\<close>)
  ultimately show ?thesis using mx(1) m(2) by blast
qed

subsection \<open>The union\<close>

lemma some_image: "(\<exists>p\<in>{p \<in> R. f p = k}. g p) \<longleftrightarrow> k \<in> f ` {p \<in> R. g p}"
  by blast

lemma merged_entity:
  assumes "(k, ps) \<in> set (entity_paths vs)" "merge_entity ps = (t, m)"
  shows "en_entity (mr_entry m) = k" "t \<longleftrightarrow> k \<in> path_entity ` {p \<in> set (all_rows vs). fst (snd p)}"
    "set (row_paths t m) = {p \<in> set (all_rows vs). path_entity p = k}"
proof -
  have ps: "ps = filter (\<lambda>p. path_entity p = k) (all_rows vs)" "ps \<noteq> []"
    using assms(1) unfolding entity_paths_mem by (auto simp: filter_empty_conv)
  have rows: "set ps = {p \<in> set (all_rows vs). path_entity p = k}" unfolding ps(1) by (rule set_filter)
  note sp = merge_entity_spec [OF ps(2) assms(2)]
  from sp have "mr_entry m \<in> (\<lambda>p. snd (snd p)) ` set ps" by simp
  then show "en_entity (mr_entry m) = k" unfolding ps(1) by auto
  show "t \<longleftrightarrow> k \<in> path_entity ` {p \<in> set (all_rows vs). fst (snd p)}"
    unfolding some_image [symmetric] rows [symmetric] using sp by (rule conjunct1)
  show "set (row_paths t m) = {p \<in> set (all_rows vs). path_entity p = k}"
    unfolding rows [symmetric] by (rule arg_cong [where f = set]) (use sp in \<open>elim conjE\<close>)
qed

definition side :: "(string \<times> impact_query) list \<Rightarrow> bool \<Rightarrow> mrow list" where
  "side vs t = (if t then snd (merge_revisions vs) else fst (merge_revisions vs))"

lemma side_rows:
  "side vs t = map (\<lambda>e. snd (merge_entity (snd e))) (filter (\<lambda>e. fst (merge_entity (snd e)) = t) (sort_key fst (entity_paths vs)))"
  by (simp add: side_def merge_revisions_def Let_def filter_map comp_def)

lemma side_mem:
  "m \<in> set (side vs t) \<longleftrightarrow> (\<exists>k ps. (k, ps) \<in> set (entity_paths vs) \<and> merge_entity ps = (t, m))"
  by (auto simp: side_rows prod_eq_iff image_iff Bex_def)

lemma side_sorted: "sorted_wrt (<) (map (\<lambda>m. en_entity (mr_entry m)) (side vs t))"
proof -
  let ?xs = "filter (\<lambda>e. fst (merge_entity (snd e)) = t) (sort_key fst (entity_paths vs))"
  have "en_entity (mr_entry (snd (merge_entity (snd e)))) = fst e" if "e \<in> set ?xs" for e
    using merged_entity(1) [of "fst e" "snd e" vs t "snd (merge_entity (snd e))"] that by (simp add: prod_eq_iff)
  then have "map (\<lambda>m. en_entity (mr_entry m)) (side vs t) = map fst ?xs" by (simp add: side_rows)
  moreover have "distinct (map fst ?xs)"
    by (rule distinct_map_filter) (use entity_paths_keys(1) [of vs] in \<open>simp add: distinct_map\<close>)
  moreover have "sorted (map fst ?xs)" by (rule sorted_filter) simp
  ultimately show ?thesis by (simp only: strict_sorted_iff)
qed

lemma side_entities:
  "(\<lambda>m. en_entity (mr_entry m)) ` set (side vs t) =
     {k \<in> path_entity ` set (all_rows vs). (k \<in> path_entity ` {p \<in> set (all_rows vs). fst (snd p)}) = t}"
proof (intro set_eqI iffI)
  fix k assume "k \<in> (\<lambda>m. en_entity (mr_entry m)) ` set (side vs t)"
  then obtain m j ps where m: "k = en_entity (mr_entry m)" "(j, ps) \<in> set (entity_paths vs)" "merge_entity ps = (t, m)"
    by (auto simp: side_mem)
  with merged_entity(1,2) [OF m(2,3)] show "k \<in> {k \<in> path_entity ` set (all_rows vs). (k \<in> path_entity ` {p \<in> set (all_rows vs). fst (snd p)}) = t}"
    using entity_paths_mem [of j ps vs] by simp
next
  fix k assume k: "k \<in> {k \<in> path_entity ` set (all_rows vs). (k \<in> path_entity ` {p \<in> set (all_rows vs). fst (snd p)}) = t}"
  define ps where "ps = filter (\<lambda>p. path_entity p = k) (all_rows vs)"
  obtain t' m where m: "merge_entity ps = (t', m)" by fastforce
  have e: "(k, ps) \<in> set (entity_paths vs)" using k by (simp add: entity_paths_mem ps_def)
  from merged_entity(1,2) [OF e m] k have t: "t' = t" and km: "k = en_entity (mr_entry m)" by simp_all
  have "m \<in> set (side vs t)" using e m t unfolding side_mem by blast
  with km show "k \<in> (\<lambda>m. en_entity (mr_entry m)) ` set (side vs t)" by (rule image_eqI)
qed

lemma side_paths: "(\<Union>m\<in>set (side vs t). set (row_paths t m)) =
   {p \<in> set (all_rows vs). (path_entity p \<in> path_entity ` {p \<in> set (all_rows vs). fst (snd p)}) = t}"
proof (intro set_eqI iffI)
  fix p assume "p \<in> (\<Union>m\<in>set (side vs t). set (row_paths t m))"
  then obtain m k ps where m: "p \<in> set (row_paths t m)" "(k, ps) \<in> set (entity_paths vs)" "merge_entity ps = (t, m)"
    by (auto simp: side_mem)
  with merged_entity(2,3) [OF m(2,3)] show "p \<in> {p \<in> set (all_rows vs). (path_entity p \<in> path_entity ` {p \<in> set (all_rows vs). fst (snd p)}) = t}"
    by simp
next
  fix p assume p: "p \<in> {p \<in> set (all_rows vs). (path_entity p \<in> path_entity ` {p \<in> set (all_rows vs). fst (snd p)}) = t}"
  define ps where "ps = filter (\<lambda>q. path_entity q = path_entity p) (all_rows vs)"
  obtain t' m where m: "merge_entity ps = (t', m)" by fastforce
  have e: "(path_entity p, ps) \<in> set (entity_paths vs)" using p by (simp add: entity_paths_mem ps_def)
  from merged_entity(2,3) [OF e m] p have t: "t' = t" and pm: "p \<in> set (row_paths t' m)" by simp_all
  have "m \<in> set (side vs t)" using e m t unfolding side_mem by blast
  with pm t show "p \<in> (\<Union>m\<in>set (side vs t). set (row_paths t m))" by blast
qed

text \<open>C18. The union of the impact rows of any revisions loses nothing: each entity has one row, in the order of the
  entities; it is in the inferred tail exactly when some revision has it there; and the paths a reader
  takes from the rows, the short form that only lists the revisions included, are the paths of the revisions.\<close>

theorem merge_lossless:
  "sorted_wrt (<) (map (\<lambda>m. en_entity (mr_entry m)) (fst (merge_revisions vs))) \<and>
   sorted_wrt (<) (map (\<lambda>m. en_entity (mr_entry m)) (snd (merge_revisions vs))) \<and>
   (\<lambda>m. en_entity (mr_entry m)) ` set (snd (merge_revisions vs)) = (\<lambda>p. en_entity (snd (snd p))) ` {p \<in> set (concat (map tagged_rows vs)). fst (snd p)} \<and>
   (\<lambda>m. en_entity (mr_entry m)) ` set (fst (merge_revisions vs)) =
     (\<lambda>p. en_entity (snd (snd p))) ` set (concat (map tagged_rows vs)) - (\<lambda>m. en_entity (mr_entry m)) ` set (snd (merge_revisions vs)) \<and>
   set (concat (map (row_paths False) (fst (merge_revisions vs)))) \<union> set (concat (map (row_paths True) (snd (merge_revisions vs)))) =
     set (concat (map tagged_rows vs))"
proof -
  have s: "fst (merge_revisions vs) = side vs False" "snd (merge_revisions vs) = side vs True" by (simp_all add: side_def)
  have "(\<Union>m\<in>set (side vs False). set (row_paths False m)) \<union> (\<Union>m\<in>set (side vs True). set (row_paths True m)) = set (all_rows vs)"
    unfolding side_paths by blast
  then show ?thesis
    unfolding s side_entities set_concat set_map image_image by (intro conjI side_sorted) (auto simp: side_sorted)
qed

subsection \<open>Builds for the affected entities\<close>

text \<open>What a changed file touches in one graph: everything a walk reaches from the nodes the change seeds.\<close>

definition affected_in :: "qenv \<Rightarrow> graph_index \<Rightarrow> cfile list \<Rightarrow> string set" where
  "affected_in Q i files = {n. \<exists>es. walk (search_of i (a_seeds (change_set Q i files)) (q_max_depth Q)
     (if ''edge_filter'' \<in> q_rules Q then q_edge_types Q else None) (q_rules Q) (set (a_open (change_set Q i files)))) n es}"

lemma query_selects:
  assumes ok: "index_ok i" and md: "q_max_depth Q = None" and q: "query Q i files = Inr q" and fb: "iq_fallback q = None"
  shows "set (selected q) = affected_in Q i files"
proof -
  let ?a = "change_set Q i files"
  obtain n rows where r: "traverse_query Q i ?a = Inr rows" "q = build_query Q i n ?a rows" using q by (auto elim: query_Inr)
  define S where S: "S = search_of i (a_seeds ?a) (q_max_depth Q) (if ''edge_filter'' \<in> q_rules Q then q_edge_types Q else None)
    (q_rules Q) (set (a_open ?a))"
  have seeds: "set (a_seeds ?a) \<subseteq> dom (map_of (gi_nodes i))" using change_set_spec [OF ok, of Q files] by blast
  have "wf_index i" using ok by (simp add: index_ok_def)
  from traverse_fits [OF this seeds S r(1)] obtain best where fit: "fits S rows best" ..
  have S': "s_max_depth S = None" "s_seeds S = set (a_seeds ?a)" by (simp_all add: S search_of_def md)
  have ents: "en_entity ` set (query_rows q) = en_entity ` set rows" "set (iq_seeds q) = set (a_seeds ?a)"
    using fb by (auto simp: r(2) query_rows_def build_query_def Let_def split: if_splits)
  have "set (selected q) = set (a_seeds ?a) \<union> en_entity ` set rows" by (simp add: selected_def fb ents)
  also have "\<dots> = {n. \<exists>es. walk S n es}"
    unfolding unlimited_entities [OF fit S'(1)] S'(2) using walk.start [of _ S] S'(2) by blast
  finally show ?thesis by (simp only: affected_in_def S)
qed

lemma no_files_affected: "affected_in Q i [] = {}"
proof -
  have "\<not> walk S n es" if "s_seeds S = {}" for S n es
  proof
    assume "walk S n es"
    then show False using that by induction simp_all
  qed
  then show ?thesis by (simp add: affected_in_def change_set_def empty_acc_def search_of_def)
qed

lemma ci_entities_ids: "ci_entities bi hi q = Inr es \<Longrightarrow> set (map ci_id es) = set (pq_base_selection q) \<union> set (pq_head_selection q)"
proof -
  have id: "ci_node bi hi q x = Inr e \<Longrightarrow> ci_id e = x" for x e by (auto simp: ci_node_def split: option.splits)
  have "mapr (ci_node bi hi q) xs = Inr es \<Longrightarrow> map ci_id es = xs" for xs es
    by (induction xs arbitrary: es) (auto simp: bindr_Inr dest: id)
  then show "ci_entities bi hi q = Inr es \<Longrightarrow> set (map ci_id es) = set (pq_base_selection q) \<union> set (pq_head_selection q)"
    by (simp add: ci_entities_def)
qed

lemma ci_affected:
  assumes "ci_selection ls tip dirty Q base head idx keys obls files = Inr (Affected ro, es)"
  shows "\<exists>q. pair_query (ci_env Q base head) (fst idx) (snd idx) keys obls files = Inr q \<and> ci_entities (fst idx) (snd idx) q = Inr es \<and>
    pq_events q = [] \<and> pq_missing q = [] \<and> pq_fallback q = None"
  using assms unfolding ci_selection_def
  by (auto simp: bindg_Inr ci_decide_def split: if_splits sum.splits option.splits)

lemma pair_query_parts:
  assumes "pair_query Q bi hi keys None files = Inr q"
  shows "\<exists>before after. query (pair_env Q ''base'') bi (with_keys keys bi hi files) = Inr before \<and>
    (if head_files (with_keys keys bi hi files) = [] then after = None
     else \<exists>a. query (pair_env Q ''head'') hi (head_files (with_keys keys bi hi files)) = Inr a \<and> after = Some a) \<and>
    q = build_pair Q bi hi (head_files (with_keys keys bi hi files)) before after"
proof -
  have m: "map_sum id Some x = Inr y \<longleftrightarrow> (\<exists>a. x = Inr a \<and> y = Some a)" for x :: "impact_query gres" and y by (cases x) auto
  show ?thesis
    using assms unfolding pair_query_def Let_def with_obligations_def by (auto simp: bindg_Inr m split: if_splits)
qed

text \<open>C10. When continuous integration builds for the affected entities only, these are exactly the nodes that depend
  on the change in the graph of the base or in the graph of the head (any number of hops), and every changed
  source file that the head still has is measured by the head graph.\<close>

theorem ci_selects_affected:
  assumes "load_graph H P hints r bdoc = Inr bi" "load_graph H P hints r hdoc = Inr hi"
    and "ci_selection ls tip dirty Q base head (bi, hi) keys None files = Inr (Affected ro, es)"
  shows "set (map ci_id es) =
      affected_in (pair_env (ci_env Q base head) ''base'') bi (with_keys keys bi hi files) \<union>
      affected_in (pair_env (ci_env Q base head) ''head'') hi (head_files (with_keys keys bi hi files)) \<and>
    (\<forall>f\<in>set (head_files (with_keys keys bi hi files)). lower (path_suffix (f_path f)) \<in> set SOURCE_EXTS \<longrightarrow> path_nodes hi (f_path f) (set RULES) \<noteq> [])"
proof -
  let ?Q = "ci_env Q base head" and ?fs = "with_keys keys bi hi files"
  obtain q where q: "pair_query ?Q bi hi keys None files = Inr q" "ci_entities bi hi q = Inr es"
    "pq_missing q = []" "pq_fallback q = None" using ci_affected [OF assms(3)] by auto
  from pair_query_parts [OF q(1)] obtain before after where
    b: "query (pair_env ?Q ''base'') bi ?fs = Inr before" and q': "q = build_pair ?Q bi hi (head_files ?fs) before after" and
    a: "if head_files ?fs = [] then after = None else \<exists>a. query (pair_env ?Q ''head'') hi (head_files ?fs) = Inr a \<and> after = Some a" by blast
  have md: "q_max_depth (pair_env ?Q role) = None" for role by (simp add: pair_env_def ci_env_def)
  have fb: "iq_fallback before = None" "after = Some x \<Longrightarrow> iq_fallback x = None" for x
    using q(4) by (auto simp: q' build_pair_def Let_def split: option.splits if_splits)
  have "set (pq_base_selection q) = affected_in (pair_env ?Q ''base'') bi ?fs"
    using query_selects [OF load_graph_ok [OF assms(1)] md b fb(1)] by (simp add: q' build_pair_def Let_def)
  moreover have "set (pq_head_selection q) = affected_in (pair_env ?Q ''head'') hi (head_files ?fs)"
  proof (cases "head_files ?fs = []")
    case True
    with a show ?thesis by (simp add: q' build_pair_def Let_def no_files_affected)
  next
    case False
    with a obtain x where x: "query (pair_env ?Q ''head'') hi (head_files ?fs) = Inr x" "after = Some x" by auto
    from query_selects [OF load_graph_ok [OF assms(2)] md x(1) fb(2) [OF x(2)]] x(2) show ?thesis
      by (simp add: q' build_pair_def Let_def)
  qed
  moreover have "lower (path_suffix (f_path f)) \<in> set SOURCE_EXTS \<longrightarrow> path_nodes hi (f_path f) (set RULES) \<noteq> []" if "f \<in> set (head_files ?fs)" for f
  proof -
    have "sort (map f_path (filter (\<lambda>f. lower (path_suffix (f_path f)) \<in> set SOURCE_EXTS \<and> path_nodes hi (f_path f) (set RULES) = []) (head_files ?fs))) = []"
      using q(3) by (simp add: q' build_pair_def Let_def)
    from arg_cong [OF this, of set] that show ?thesis by auto
  qed
  ultimately show ?thesis using ci_entities_ids [OF q(2)] by blast
qed

text \<open>A change that leaves no changed file in the head (only deletions and the old names of renames) can never have an
  empty impact explained: every explanation is refused, so the event keeps blocking.\<close>

theorem deletions_unexplained:
  assumes "pair_query Q bi hi keys obls files = Inr q" "head_files files = []"
  shows "\<exists>x. bind_empty_explanation q claim = Inl (Refused x)"
proof -
  have hf: "head_files (with_keys keys bi hi files) = []"
    using assms(2) by (auto simp: head_files_def with_keys_def filter_empty_conv split: option.splits if_splits)
  from assms(1) obtain before where "q = build_pair Q bi hi [] before None"
    unfolding pair_query_def Let_def hf with_obligations_def by (auto simp: bindg_Inr split: option.splits if_splits prod.splits)
  then have "fst ` set (case pq_external q of None \<Rightarrow> [] | Some r \<Rightarrow> r) \<subseteq> {''base''}"
    by (simp add: build_pair_def Let_def)
  then have "\<not> explainable q" by (auto simp: explainable_def Let_def)
  then show ?thesis
    by (auto simp: bind_empty_explanation_def split: pyval.splits)
qed

subsection \<open>Two revisions of one graph\<close>

text \<open>The index of the small graph, evaluated once.\<close>

definition node0 :: "string \<Rightarrow> gnode" where
  "node0 p = \<lparr>n_id = ''code_unit:'' @ p, n_type = ''code_unit'', n_path = Some p, n_kind = None, n_hash = ''sha256:'' @ hash0 []\<rparr>"

definition edge0 :: gedge where
  "edge0 = \<lparr>e_from = ''code_unit:src/b.ts'', e_to = ''code_unit:src/a.ts'', e_type = ''imports'', e_prov = ''deterministic'',
     e_boundary = None, e_extra = []\<rparr>"

lemma index0_value [code]:
  "index0 = \<lparr>gi_manifest = dict_or_empty (py_get doc0 ''manifest''),
     gi_nodes = [(''code_unit:src/a.ts'', node0 ''src/a.ts''), (''code_unit:src/b.ts'', node0 ''src/b.ts'')],
     gi_rev = [(''code_unit:src/a.ts'', [edge0])], gi_fwd = [(''code_unit:src/b.ts'', [edge0])],
     gi_by_path = [(''src/a.ts'', [''code_unit:src/a.ts'']), (''src/b.ts'', [''code_unit:src/b.ts''])],
     gi_deployables = [], gi_deployable_ids = [], gi_hints = []\<rparr>"
  by code_simp

definition qenv1 :: qenv where
  "qenv1 = qenv0\<lparr>q_repo := Some \<lparr>r_prefix = [], r_blob = \<lambda>_. Some ''x'', r_worktree = \<lambda>_. None, r_loads = \<lambda>_. None\<rparr>, q_reader := None\<rparr>"

definition ls0 :: "string \<Rightarrow> string \<Rightarrow> string option" where
  "ls0 r p = Some ''100644 blob ''"

definition ci0 :: "(ci_mode \<times> ci_entity list) gres" where
  "ci0 = ci_selection ls0 commit0 False qenv1 commit0 commit0 (index0, index0) None None files0"

definition entities0 :: "ci_entity list" where
  "entities0 = snd (projr ci0)"

lemma ci0_affected: "ci0 = Inr (Affected False, entities0)"
proof -
  have c: "\<not> isl ci0 \<and> fst (projr ci0) = Affected False" by code_simp
  have r: "x = Inr (m, snd (projr x))" if "\<not> isl x \<and> fst (projr x) = m" for x :: "(ci_mode \<times> ci_entity list) gres" and m
    using that by (cases x) auto
  show ?thesis unfolding entities0_def by (rule r [OF c])
qed

theorem ci_selects_affected_witness:
  "set (map ci_id entities0) =
      affected_in (pair_env (ci_env qenv1 commit0 commit0) ''base'') index0 (with_keys None index0 index0 files0) \<union>
      affected_in (pair_env (ci_env qenv1 commit0 commit0) ''head'') index0 (head_files (with_keys None index0 index0 files0)) \<and>
    list_all (\<lambda>f. lower (path_suffix (f_path f)) \<in> set SOURCE_EXTS \<longrightarrow> path_nodes index0 (f_path f) (set RULES) \<noteq> [])
      (head_files (with_keys None index0 index0 files0))"
  unfolding list_all_iff by (rule ci_selects_affected [OF load0 load0 ci0_affected [unfolded ci0_def]])

definition deleted0 :: "cfile list" where
  "deleted0 = [plain_file ''src/b.ts'' ''D'']"

definition pair0 :: pair_query where
  "pair0 = projr (pair_query (ci_env qenv1 commit0 commit0) index0 index0 None None deleted0)"

lemma pair0_answered: "pair_query (ci_env qenv1 commit0 commit0) index0 index0 None None deleted0 = Inr pair0"
proof -
  have "\<not> isl (pair_query (ci_env qenv1 commit0 commit0) index0 index0 None None deleted0)" by code_simp
  then show ?thesis
    by (cases "pair_query (ci_env qenv1 commit0 commit0) index0 index0 None None deleted0") (simp_all add: pair0_def)
qed

lemma deleted0_head: "head_files deleted0 = []"
  by (simp add: head_files_def deleted0_def plain_file_def)

text \<open>The deletion of a unit nothing depends on asks for an explanation and refuses each one.\<close>

theorem deleted_leaf_blocked:
  "EMPTY_EVENT \<in> set (map fst (pq_events pair0)) \<and> (\<forall>claim. \<exists>x. bind_empty_explanation pair0 claim = Inl (Refused x))"
proof -
  have "EMPTY_EVENT \<in> set (map fst (pq_events pair0))" by code_simp
  then show ?thesis using deletions_unexplained [OF pair0_answered deleted0_head] by (intro conjI allI)
qed

end
