(* ===== verification/Spec2Isabelle.thy ===== *)
theory Spec2Isabelle
  imports Drill_Props Drill_Findings Drill_Audit Ladder_Rehearsal Gates_Evidence Window_Findings Run_Ends Handoff_Props Data_Mint_Props
  Graph_Pair_Props
begin

text \<open>
  Verification of the AUP transition tooling (\<^verbatim>\<open>src/dev-tools/aup-transition\<close>), the Python programs that
  rehearse and gate the move of the work-item authority from files to Muneral, and of the impact query of the
  graph admission (\<^verbatim>\<open>src/.github/graph-admission/tools/graph\<close>), which decides what a change has to be verified against.

  \<^bold>\<open>The program\<close>. Four tools share conventions (JSON receipts identified by the SHA-256 of their canonical
  text, journals that are replayed after a crash, an oracle that shares no code with what it judges, a
  battery of switchable mutations) and meet in one directory of receipts:

  \<^item> \<^verbatim>\<open>fault_drill\<close> rehearses the cutover in a simulated world: a coordinator walks a migration through its
    phases, fences the old writer, moves the writer epoch by compare-and-swap, activates the hosts, and
    survives faults, aborts and process deaths through its journal; an oracle audits the trace.
  \<^item> \<^verbatim>\<open>cutover\<close> is the gate layer around the real cutover: a ladder of nine readiness states on disk, a table of
    evidence requirements per transition, and the cutover window, a coordinator that moves only as far as
    the ladder authorises and mints the production barrier; a second oracle audits ladder and window.
  \<^item> \<^verbatim>\<open>rebuild\<close> packs the inputs of a job, hands the package off to a git target with one effect per key and
    verifies the handoff on the other side.
  \<^item> \<^verbatim>\<open>data_gate\<close> collects the evidence about the data and about the authority of the decision, runs one
    verifier on each and mints an attestation when both pass, a block receipt otherwise. It reads the state
    file the ladder writes (\<open>readiness_follows_ladder\<close> below).

  \<^bold>\<open>Shared theories\<close>. \<open>Prelude\<close>: exceptions, the state-passing sequence \<open>bindx\<close>, association lists, decimal
  text. \<open>Json\<close>: documents, their canonical text and digest, and that the text determines the document.
  \<open>Ascii_Json\<close>: the ASCII renderings of the rebuild tools. \<open>Pyval\<close>: values read from receipts of unknown
  shape, with Python's equality, truth and conversions, and the sequence \<open>bindr\<close> of computations that may raise.

  \<^bold>\<open>Fault drill\<close>. \<open>World\<close> is \<^verbatim>\<open>world.py\<close> (clock, services, hosts, lanes, effect ledger, writer authority),
  \<open>Drill_Coordinator\<close> is \<^verbatim>\<open>coordinator.py\<close> (observer, journal, guards, effects, step, run, resume, abort,
  rollback, recovery), \<open>Drill_Oracle\<close> is \<^verbatim>\<open>oracle.py\<close>, \<open>Drill_Scenarios\<close> is \<^verbatim>\<open>scenarios.py\<close>. \<open>Drill_Frame\<close>,
  \<open>Drill_View\<close> and \<open>Drill_Effects\<close> say what every operation leaves alone and does to the view of a coordinator;
  the locale \<open>coord_invariant\<close> (\<open>Drill_Invariant\<close>) lifts an invariant of the view through all operations and
  is interpreted four times (\<open>Drill_Recovery\<close>, \<open>Drill_Safety\<close>, \<open>Drill_Static\<close>, \<open>Drill_Audit\<close>). \<open>Drill_Props\<close>
  and \<open>Drill_Audit\<close> hold the results: recovery restores the state of the process that died, the epoch moves
  once, fence and effects are in order, completion means done, a healthy run completes (\<open>Drill_Live\<close>), the
  oracle accepts the journal. They hold for every history of operations, faults, crashes and restarts in which no
  rollback is refused after the migration has ended (\<open>reach_unreopened\<close>): the code reopens the migration then, and
  \<open>Drill_Findings\<close> shows what that breaks, with the other behaviours the documentation excludes.

  \<^bold>\<open>Cutover\<close>. \<open>Ladder\<close> and \<open>Window\<close> are \<^verbatim>\<open>coordinator.py\<close>, \<open>Backends\<close> is \<^verbatim>\<open>backends.py\<close> (the four interfaces as
  locales, interpreted on the simulated world), \<open>Evidence\<close> and \<open>Gates\<close> are \<^verbatim>\<open>gates.py\<close>, \<open>Gate_Oracle\<close> is
  \<^verbatim>\<open>gate_oracle.py\<close>. \<open>Ladder_Props\<close> and \<open>Ladder_Rehearsal\<close>: history and receipts of every reachable ladder,
  admission with the exact reason of a refusal, a crash whose repetition ends as the undisturbed run does,
  rollback. \<open>Gates_Props\<close> and \<open>Gates_Evidence\<close>: a gate passes only on evidence.
  \<open>Window_Audit\<close>, \<open>Window_Safety\<close>, \<open>Window_Props\<close>: the oracle accepts every reachable window, a restarted
  process takes over, the ladder blocks; \<open>Window_Findings\<close>: an unreachable host that counts as activated.

  \<^bold>\<open>Rebuild\<close>. \<open>Package\<close> is \<^verbatim>\<open>package.py\<close> with the regular expressions of the portability scan written out,
  \<open>Rehearsal\<close> is \<^verbatim>\<open>backend.py\<close>, \<open>Handoff\<close> is \<^verbatim>\<open>core.py\<close>, \<^verbatim>\<open>oracle.py\<close> and the commands of \<^verbatim>\<open>rebuild.py\<close>.
  \<open>Rehearsal_Props\<close>: under the contract of git the target is a map written once per key, for keys that are plain
  file names (\<open>plain_key\<close>; the code puts the key into paths and pathspecs unchecked). \<open>Handoff_Props\<close>: what
  a passing handoff means, that the oracle judges exactly that, and that the envelope pins the inputs.

  \<^bold>\<open>Data gate\<close> (\<^verbatim>\<open>consume_data_gate.py\<close>). \<open>Data_Gate\<close>: verifiers and minting rule. \<open>Data_Files\<close>,
  \<open>Data_Collect\<close>, \<open>Data_Consume\<close>: globbing, evidence collection with its probes, the consume command.
  \<open>Data_Fixtures\<close>: the fixtures and the oracle of the self-test. \<open>Data_Gate_Props\<close> and \<open>Data_Mint_Props\<close>: the gate
  passes exactly on clean data (planes whose rows do not differ) with an authority in force, what the artifacts carry, what the status classes
  count, and that the evidence the command collects can never be enough.

  \<^bold>\<open>Graph admission\<close>. A change is admitted against a relationship graph: its files seed nodes, a best-first search
  collects what depends on them, and the answer is given for the base and for the head of a change.
  \<open>Graph_Index\<close>, \<open>Graph_Search\<close>, \<open>Graph_Query\<close> and \<open>Graph_Impact\<close> are \<^verbatim>\<open>impact.py\<close> (index and classification of
  files; traversal; change sets from git and staleness; the query, the receipt skeleton and the command in a
  working tree), \<open>Graph_Check\<close> is \<open>check_graph\<close> of \<^verbatim>\<open>schema_check.py\<close> with the contract it reads, \<open>Graph_Pair\<close> is the
  paired query of \<^verbatim>\<open>impact_pair.py\<close>, the selection rule of \<^verbatim>\<open>schema_check.py\<close> and \<^verbatim>\<open>ci_selection.py\<close>.
  \<open>Graph_Search_Props\<close> compares the search with walks (it ends, is sound, complete without a depth limit, exact on
  the deterministic core at any limit); \<open>Graph_Depth\<close> shows the limit at work on the tail. \<open>Graph_Check_Props\<close>: a
  conformant graph is closed under its edges. \<open>Graph_Impact_Props\<close> and \<open>Graph_Fresh\<close>: a query on a loaded graph
  answers or refuses for a stated reason, accounts for every changed file and reports each entity once, and a
  fresh graph matches the bytes of the tree (at the commit, or in the working tree outside the change). \<open>Graph_Pair_Props\<close>: the union of two revisions loses nothing, and
  a restricted build covers exactly what depends on the change. A graph document is decoded into records
  (\<open>decode_graph\<close>) after the conformance check, which leaves out attributes the modelled code does not read;
  the heap is a sorted list.

  \<^bold>\<open>Parameters\<close>. SHA-256 is a function \<open>H\<close>; where a statement needs it, that two given texts do not collide is a
  hypothesis. Clock readings, random values and host names are functions or constants of an environment
  record. Fault hooks are arbitrary functions with a state of their own. Git, the file system and the JSON
  reader of the rebuild target are the record \<open>git_ops\<close> with the hypothesis \<open>git_contract\<close> (directories have to be
  made before a file is written, a commit needs an identity and something to commit, and only the paths of
  plain keys are spoken of), which \<open>git0_contract\<close> shows to be satisfiable. The file tree of the data gate is a list of files, its git a
  function. \<open>pyenv\<close> holds the conversions of the standard library on texts the model does not parse. Git, the
  working tree and \<open>json.loads\<close> of the impact query are the record \<open>repo\<close>; the results of \<open>env_example_key_delta\<close>,
  \<open>paired_obligations\<close> and \<open>index_at\<close> are arguments of the paired query, arbitrary in every statement but the one on
  restricted builds, which is about graphs without selected dependencies.

  \<^bold>\<open>Bounds\<close>. The loops of the source are bounded in the source: an effect is attempted three times
  (\<open>MAX_ATTEMPTS\<close>), \<open>run\<close> takes twenty steps; the model takes the same bounds and no fuel is added. \<open>Run_Ends\<close>
  shows for both coordinators that eight steps are always enough (the locale \<open>bounded_run\<close>, interpreted on each),
  so the twenty never cut a run short, and a healthy migration completes (\<open>run_completes\<close>). All other recursion is structural or has a
  termination proof.

  \<^bold>\<open>Not modelled\<close>. Command-line parsing and printing of all tools, the report assembly of \<^verbatim>\<open>fault_drill.py\<close>, the
  test batteries of \<^verbatim>\<open>cutover/drill.py\<close> and \<^verbatim>\<open>rebuild/fixtures.py\<close>, the constant prose of receipts and check
  details. Of the graph admission, a bundle vendored from another repository and pinned by digest: the conformance
  and re-derivation of admission receipts, the mandatory verifier matrix, and \<^verbatim>\<open>admit_change.py\<close>, \<^verbatim>\<open>verify.py\<close>,
  \<^verbatim>\<open>ci_gate.py\<close>, \<^verbatim>\<open>contract_diff.py\<close>, \<^verbatim>\<open>build_graph.py\<close> and \<^verbatim>\<open>full_suite_ci.py\<close>: git, subprocess and signature orchestration,
  extractors that parse other languages, and self-tests. Elsewhere: the Rust crates and small developer utilities.
\<close>

section \<open>Properties that span components\<close>

lemma profile_states_ladder: "PROFILE_STATES = LADDER"
  by (simp add: PROFILE_STATES_def LADDER_def)

lemma list_index_strs: "s \<in> set xs \<Longrightarrow> list_index (PStr s) (map PStr xs) = Some (index_of s xs)"
  by (induction xs) (auto simp: py_eq_def)

lemma authority_state:
  assumes "collect_authority E = Inr a" "exists_file E (decision_path ''DEC-AUP-0012'')"
    and "map_of (ge_files E) ''receipts/cutover/state.json'' = Some f" "ff_doc f = Inr (PDict d)"
  shows "py_get a ''states'' = strs PROFILE_STATES \<and> py_get a ''readiness_state_min'' = PStr ''ROLLBACK_DRILLED'' \<and>
    py_get (part a ''state_machine'') ''present'' = PBool True \<and> py_get (part a ''state_machine'') ''state'' = py_get d ''state''"
proof -
  have sm: "collect_state_machine E = Inr [(''present'', PBool True), (''path'', PStr ''receipts/cutover/state.json''), (''state'', py_get d ''state''),
      (''digest'', PStr (sha256_file E ''receipts/cutover/state.json'')), (''updated_at_utc'', py_get d ''captured_at_utc'')]"
    using assms(3,4) by (simp add: collect_state_machine_def exists_file_def read_json_def Let_def)
  show ?thesis
    using assms(1,2) unfolding collect_authority_def Let_def sm bindr_simps
    by (auto simp: bindr_Inr py_get_def Data_Gate_Props.part_def)
qed

text \<open>C35. The authority check of the data gate reads the state file of the cutover ladder the way the ladder orders
  its states: once the decision is there and the file names a state of the ladder, the check passes
  exactly from ROLLBACK_DRILLED on.\<close>

theorem readiness_follows_ladder:
  assumes "collect_authority E = Inr a" "exists_file E (decision_path ''DEC-AUP-0012'')"
    and "map_of (ge_files E) ''receipts/cutover/state.json'' = Some f" "ff_doc f = Inr (PDict d)"
    and s: "py_get d ''state'' = PStr s" "s \<in> set LADDER" and c: "A07 a = Inr c"
  shows "ck_verdict c = PASS \<longleftrightarrow> index_of ''ROLLBACK_DRILLED'' LADDER \<le> index_of s LADDER"
proof -
  note a = authority_state [OF assms(1-4)]
  have r: "''ROLLBACK_DRILLED'' \<in> set LADDER" and ne: "s \<noteq> []" using s(2) by (auto simp: LADDER_def)
  have "or_empty (py_get a ''states'') = PList (map PStr LADDER)"
    using a by (simp add: or_empty_def profile_states_ladder LADDER_def)
  then show ?thesis
    unfolding A07_pass [OF c] state_sufficient_def Let_def using a s(1) ne
    by (simp add: list_index_strs [OF s(2)] list_index_strs [OF r])
qed

definition ladder_env0 :: gate_env where
  "ladder_env0 = env0\<lparr>ge_files :=
     [(''governance/decisions/DEC-AUP-0012.json'', \<lparr>ff_doc = Inr (PDict []), ff_hex = []\<rparr>),
      (''receipts/cutover/state.json'', \<lparr>ff_doc = Inr (PDict [(''state'', PStr ''SWITCHING'')]), ff_hex = []\<rparr>)]\<rparr>"

lemma authority0: "collect_authority ladder_env0 = Inr (projr (collect_authority ladder_env0))"
  by (rule not_isl_Inr) code_simp

lemma switching0: "A07 (projr (collect_authority ladder_env0)) = Inr (projr (A07 (projr (collect_authority ladder_env0))))"
  by (rule not_isl_Inr) code_simp

theorem readiness_follows_ladder_witness: "ck_verdict (projr (A07 (projr (collect_authority ladder_env0)))) = PASS"
proof -
  have "exists_file ladder_env0 (decision_path ''DEC-AUP-0012'')" by (simp add: ladder_env0_def exists_file_def decision_path_def)
  moreover have "map_of (ge_files ladder_env0) ''receipts/cutover/state.json'' = Some \<lparr>ff_doc = Inr (PDict [(''state'', PStr ''SWITCHING'')]), ff_hex = []\<rparr>"
    by (simp add: ladder_env0_def)
  ultimately show ?thesis
    using readiness_follows_ladder [OF authority0 _ _ _ _ _ switching0, of "\<lparr>ff_doc = Inr (PDict [(''state'', PStr ''SWITCHING'')]), ff_hex = []\<rparr>"
        "[(''state'', PStr ''SWITCHING'')]" "''SWITCHING''"]
    by (simp add: py_get_def LADDER_def)
qed

end
